(* ===== verification/Go_Sort.thy ===== *)
theory Go_Sort
  imports Go_Prelude
begin

text \<open>
  The insertion sort the packages use: written out in \<^verbatim>\<open>statusx.sortObjects\<close> and
  \<^verbatim>\<open>parse.sortStrings\<close>, and the algorithm of \<^verbatim>\<open>sort.Slice\<close> and
  \<^verbatim>\<open>sort.SliceStable\<close> (short slices; on longer ones \<^verbatim>\<open>SliceStable\<close> merges such
  runs, which gives the same list whenever \<open>lt\<close> is a strict weak order).

  \<open>go_isort_key_sorted\<close> needs no order law: it holds for any \<open>lt\<close> that follows a key.
  The locale \<open>weak_order\<close> is the contract of a comparison function; its clients get a sorted,
  stable and unique result.
\<close>

text \<open>
  One round of the inner loop.  The sorted part of the slice is held in reverse, so the loop's walk
  from its end downwards is a walk from the head.
\<close>

fun sift :: "('a \<Rightarrow> 'a \<Rightarrow> bool) \<Rightarrow> 'a \<Rightarrow> 'a list \<Rightarrow> 'a list" where
  "sift lt x [] = [x]"
| "sift lt x (y # ys) = (if lt x y then y # sift lt x ys else x # y # ys)"

definition go_isort :: "('a \<Rightarrow> 'a \<Rightarrow> bool) \<Rightarrow> 'a list \<Rightarrow> 'a list" where
  "go_isort lt xs = rev (fold (sift lt) xs [])"

section \<open>Facts that need no law\<close>

lemma mset_sift [simp]: "mset (sift lt x ys) = add_mset x (mset ys)"
  by (induction ys) auto

lemma set_sift [simp]: "set (sift lt x ys) = insert x (set ys)"
  by (induction ys) auto

lemma mset_fold_sift: "mset (fold (sift lt) xs ys) = mset xs + mset ys"
  by (induction xs arbitrary: ys) auto

lemma mset_go_isort [simp]: "mset (go_isort lt xs) = mset xs"
  by (simp add: go_isort_def mset_fold_sift)

lemma set_go_isort [simp]: "set (go_isort lt xs) = set xs"
  by (metis mset_go_isort set_mset_mset)

lemma length_go_isort [simp]: "length (go_isort lt xs) = length xs"
  by (metis mset_go_isort size_mset)

lemma go_isort_Nil [simp]: "go_isort lt [] = []"
  by (simp add: go_isort_def)

lemma sift_key_sorted:
  assumes "\<And>a b. lt a b \<Longrightarrow> key a \<le> (key b :: 'k::linorder)"
    and "\<And>a b. key a < key b \<Longrightarrow> lt a b"
    and "sorted_wrt (\<lambda>a b. key b \<le> key a) ys"
  shows "sorted_wrt (\<lambda>a b. key b \<le> key a) (sift lt x ys)"
  using assms(3)
proof (induction ys)
  case (Cons y ys)
  show ?case
  proof (cases "lt x y")
    case True
    with Cons show ?thesis by (auto dest: assms(1))
  next
    case False
    then have "key y \<le> key x" using assms(2) not_le by blast
    with Cons False show ?thesis by auto
  qed
qed simp

text \<open>A comparison that follows a key sorts by that key, however it decides between equal keys.\<close>

lemma go_isort_key_sorted:
  assumes "\<And>a b. lt a b \<Longrightarrow> key a \<le> (key b :: 'k::linorder)"
    and "\<And>a b. key a < key b \<Longrightarrow> lt a b"
  shows "sorted (map key (go_isort lt xs))"
proof -
  have "sorted_wrt (\<lambda>a b. key b \<le> key a) (fold (sift lt) xs ys)"
    if "sorted_wrt (\<lambda>a b. key b \<le> key a) ys" for ys
    using that
  proof (induction xs arbitrary: ys)
    case (Cons x xs)
    then show ?case using sift_key_sorted [of lt key] assms by simp
  qed simp
  then have "sorted_wrt (\<lambda>a b. key b \<le> key a) (fold (sift lt) xs [])" by simp
  then show ?thesis
    by (simp add: go_isort_def sorted_map sorted_wrt_rev)
qed

section \<open>The contract of a comparison function\<close>

locale weak_order =
  fixes lt :: "'a \<Rightarrow> 'a \<Rightarrow> bool"
  assumes asym: "lt a b \<Longrightarrow> \<not> lt b a"
    and negtrans: "\<not> lt a b \<Longrightarrow> \<not> lt b c \<Longrightarrow> \<not> lt a c"
begin

lemma irrefl: "\<not> lt a a"
  using asym by blast

lemma less_trans: "lt a b \<Longrightarrow> lt b c \<Longrightarrow> lt a c"
  using asym negtrans by metis

lemma sift_sorted:
  "sorted_wrt (\<lambda>a b. \<not> lt a b) ys \<Longrightarrow> sorted_wrt (\<lambda>a b. \<not> lt a b) (sift lt x ys)"
proof (induction ys)
  case (Cons y ys)
  show ?case
  proof (cases "lt x y")
    case True
    with Cons asym show ?thesis by auto
  next
    case False
    with Cons.prems negtrans show ?thesis by (auto intro: negtrans)
  qed
qed simp

lemma fold_sift_sorted:
  "sorted_wrt (\<lambda>a b. \<not> lt a b) ys \<Longrightarrow> sorted_wrt (\<lambda>a b. \<not> lt a b) (fold (sift lt) xs ys)"
  by (induction xs arbitrary: ys) (auto intro: sift_sorted)

lemma isort_sorted: "sorted_wrt (\<lambda>a b. \<not> lt b a) (go_isort lt xs)"
  by (simp add: go_isort_def sorted_wrt_rev fold_sift_sorted)

text \<open>Elements the comparison does not separate keep their order.\<close>

lemma sift_stable:
  "filter (\<lambda>y. \<not> lt y z \<and> \<not> lt z y) (sift lt x ys) =
   filter (\<lambda>y. \<not> lt y z \<and> \<not> lt z y) (x # ys)"
proof (induction ys)
  case (Cons y ys)
  show ?case
  proof (cases "lt x y")
    case True
    then have "\<not> ((\<not> lt x z \<and> \<not> lt z x) \<and> (\<not> lt y z \<and> \<not> lt z y))"
      using negtrans by blast
    with True Cons show ?thesis by auto
  qed simp
qed simp

lemma fold_sift_stable:
  "filter (\<lambda>y. \<not> lt y z \<and> \<not> lt z y) (fold (sift lt) xs ys) =
   rev (filter (\<lambda>y. \<not> lt y z \<and> \<not> lt z y) xs) @ filter (\<lambda>y. \<not> lt y z \<and> \<not> lt z y) ys"
  by (induction xs arbitrary: ys) (auto simp: sift_stable)

lemma isort_stable:
  "filter (\<lambda>y. \<not> lt y z \<and> \<not> lt z y) (go_isort lt xs) =
   filter (\<lambda>y. \<not> lt y z \<and> \<not> lt z y) xs"
  by (simp add: go_isort_def fold_sift_stable flip: rev_filter)

text \<open>A sorted list is left alone.\<close>

lemma sift_max: "\<forall>y\<in>set ys. \<not> lt x y \<Longrightarrow> sift lt x ys = x # ys"
  by (cases ys) auto

lemma fold_sift_id:
  "sorted_wrt (\<lambda>a b. \<not> lt b a) xs \<Longrightarrow> \<forall>x\<in>set xs. \<forall>y\<in>set ys. \<not> lt x y \<Longrightarrow>
   fold (sift lt) xs ys = rev xs @ ys"
  by (induction xs arbitrary: ys) (auto simp: sift_max)

lemma isort_id: "sorted_wrt (\<lambda>a b. \<not> lt b a) xs \<Longrightarrow> go_isort lt xs = xs"
  by (simp add: go_isort_def fold_sift_id)

lemma isort_idem: "go_isort lt (go_isort lt xs) = go_isort lt xs"
  by (rule isort_id) (rule isort_sorted)

end

text \<open>
  A comparison that separates different elements: then the sorted list is the only one, and the
  result does not depend on the order of the input (Go's map iteration order, for instance).
\<close>

locale total_weak_order = weak_order +
  assumes total: "\<not> lt a b \<Longrightarrow> \<not> lt b a \<Longrightarrow> a = b"
begin

lemma sorted_unique:
  "sorted_wrt (\<lambda>a b. \<not> lt b a) xs \<Longrightarrow> sorted_wrt (\<lambda>a b. \<not> lt b a) ys \<Longrightarrow>
   mset xs = mset ys \<Longrightarrow> xs = ys"
proof (induction xs arbitrary: ys)
  case (Cons x xs)
  then obtain y ys' where ys: "ys = y # ys'" by (cases ys) auto
  have "y \<in> set (x # xs)" using Cons.prems(3) ys by (metis list.set_intros(1) set_mset_mset)
  moreover have "x \<in> set (y # ys')" using Cons.prems(3) ys by (metis list.set_intros(1) set_mset_mset)
  ultimately have "\<not> lt y x \<or> x = y" "\<not> lt x y \<or> x = y"
    using Cons.prems(1,2) ys by auto
  then have "x = y" using total by blast
  with Cons ys show ?case by auto
qed simp

lemma isort_perm: "mset xs = mset ys \<Longrightarrow> go_isort lt xs = go_isort lt ys"
  by (rule sorted_unique) (simp_all add: isort_sorted)

end

section \<open>Orders given by a key\<close>

text \<open>Every comparison of the form \<open>key a < key b\<close> meets the contract.\<close>

lemma weak_order_key: "weak_order (\<lambda>a b. key a < (key b :: 'k::linorder))"
  by unfold_locales auto

interpretation str_sort: total_weak_order "(<) :: string \<Rightarrow> string \<Rightarrow> bool"
  by unfold_locales auto

definition sort_strings :: "string list \<Rightarrow> string list" where
  "sort_strings xs = go_isort (<) xs"

lemma sort_strings_sorted: "sorted (sort_strings xs)"
  using str_sort.isort_sorted [of xs] by (simp add: sort_strings_def sorted_wrt_iff_nth_less sorted_iff_nth_mono_less not_less)

lemma sort_strings_eq_sort: "sort_strings xs = sort xs"
  by (rule properties_for_sort [symmetric]) (simp_all add: sort_strings_sorted, simp add: sort_strings_def)

end
