(* ===== verification/Schema_Core.thy ===== *)
theory Schema_Core
  imports Go_Sort Complex_Main
begin

text \<open>
  \<^verbatim>\<open>internal/schema\<close>: kinds, references, metadata, the small validators of
  \<^verbatim>\<open>types.go\<close>, \<^verbatim>\<open>state.go\<close>, \<^verbatim>\<open>artifact_ext.go\<close> and \<^verbatim>\<open>nameserver.go\<close>,
  and the values PVE configurations are made of (Go's \<^verbatim>\<open>map[string]any\<close>).

  A function that returns \<^verbatim>\<open>(T, error)\<close> returns \<open>string + T\<close> here, the error as its text.
\<close>

section \<open>Configuration values\<close>

text \<open>
  The dynamic types a \<^verbatim>\<open>map[string]any\<close> holds after JSON decoding, plus the Go
  integers the schema layer itself stores.  A JSON number is a finite \<^verbatim>\<open>float64\<close>, so a
  rational.  A Go map may be \<^verbatim>\<open>nil\<close>: reading it is legal and finds nothing, and several
  functions test for it, so a configuration is an optional map.
\<close>

datatype pval =
    PNil
  | PStr string
  | PInt int
  | PInt64 int
  | PFloat rat
  | PBool bool
  | PArr "pval list"
  | PObj "(string \<times> pval) list"

type_synonym params = "(string \<times> pval) list"
type_synonym config = "params option"

definition cfg_get :: "config \<Rightarrow> string \<Rightarrow> pval option" where
  "cfg_get cfg k = (case cfg of None \<Rightarrow> None | Some m \<Rightarrow> map_of m k)"

text \<open>The type assertion \<^verbatim>\<open>cfg[k].(string)\<close> with its result dropped to \<^verbatim>\<open>""\<close> on failure.\<close>

definition cfg_str :: "config \<Rightarrow> string \<Rightarrow> string" where
  "cfg_str cfg k = (case cfg_get cfg k of Some (PStr s) \<Rightarrow> s | _ \<Rightarrow> [])"

lemma cfg_get_None [simp]: "cfg_get None k = None"
  by (simp add: cfg_get_def)

lemma cfg_get_Some [simp]: "cfg_get (Some m) k = map_of m k"
  by (simp add: cfg_get_def)

section \<open>Kinds and references\<close>

text \<open>
  \<^verbatim>\<open>Kind\<close> is a string type: the planner builds kinds the schema does not know
  (\<^verbatim>\<open>schema.Kind(strings.ToUpper(t))\<close>) and compares them with the constants.
\<close>

type_synonym kind = string

definition KindVM :: kind where "KindVM = ''VM''"
definition KindLXC :: kind where "KindLXC = ''LXC''"
definition KindCTTemplate :: kind where "KindCTTemplate = ''CTTemplate''"
definition KindISO :: kind where "KindISO = ''ISO''"
definition KindDiskImage :: kind where "KindDiskImage = ''DiskImage''"
definition KindTemplateVM :: kind where "KindTemplateVM = ''TemplateVM''"
definition KindTemplateCT :: kind where "KindTemplateCT = ''TemplateCT''"

lemmas kind_defs = KindVM_def KindLXC_def KindCTTemplate_def KindISO_def KindDiskImage_def
  KindTemplateVM_def KindTemplateCT_def

definition all_kinds :: "kind list" where
  "all_kinds = [KindVM, KindLXC, KindCTTemplate, KindISO, KindTemplateVM, KindDiskImage, KindTemplateCT]"

record ref =
  ref_kind :: kind
  ref_name :: string

definition mk_ref :: "kind \<Rightarrow> string \<Rightarrow> ref" where
  "mk_ref k n = \<lparr>ref_kind = k, ref_name = n\<rparr>"

definition ref_str :: "ref \<Rightarrow> string" where
  "ref_str r = ref_kind r @ ''/'' @ ref_name r"

definition artifact_kind :: "kind \<Rightarrow> bool" where
  "artifact_kind k \<longleftrightarrow> k = KindISO \<or> k = KindCTTemplate \<or> k = KindDiskImage"

definition api_version :: string where
  "api_version = ''proxops/v1alpha1''"

definition parse_kind :: "string \<Rightarrow> string + kind" where
  "parse_kind s =
     (let u = to_upper (trim_space s)
      in if u = ''VM'' then Inr KindVM
         else if u = ''LXC'' then Inr KindLXC
         else if u \<in> {''CTTEMPLATE'', ''CTT''} then Inr KindCTTemplate
         else if u = ''ISO'' then Inr KindISO
         else if u \<in> {''DISKIMAGE'', ''DISK''} then Inr KindDiskImage
         else if u \<in> {''TEMPLATEVM'', ''TVM'', ''TEMPLATE''} then Inr KindTemplateVM
         else if u \<in> {''TEMPLATECT'', ''TCT''} then Inr KindTemplateCT
         else Inl (''unknown kind '' @ go_quote s @
                   '' (valid: VM, LXC, CTTemplate, ISO, TemplateVM, DiskImage, TemplateCT)''))"

definition parse_state :: "string \<Rightarrow> string + string" where
  "parse_state s =
     (if s \<in> {''started'', ''stopped''} then Inr s
      else if s = [] then Inr ''started''
      else Inl (''invalid state '' @ go_quote s @ '' (want started|stopped)''))"

section \<open>Names\<close>

definition valid_node_name :: "string \<Rightarrow> bool" where
  "valid_node_name n \<longleftrightarrow> length n > 0 \<and> length n \<le> 64 \<and> CHR ''/'' \<notin> set n \<and> CHR '' '' \<notin> set n"

definition valid_tag :: "string \<Rightarrow> bool" where
  "valid_tag t \<longleftrightarrow> t \<noteq> [] \<and> \<not> (CHR '' '' \<in> set t \<or> CHR 9 \<in> set t) \<and> length t \<le> 256"

text \<open>\<^verbatim>\<open>storageIDRe\<close>: one or more of \<^verbatim>\<open>A-Za-z0-9_.-\<close>.\<close>

definition storage_char :: "char \<Rightarrow> bool" where
  "storage_char c \<longleftrightarrow> is_alnum c \<or> c = CHR ''_'' \<or> c = CHR ''.'' \<or> c = CHR ''-''"

definition storage_id_ok :: "string \<Rightarrow> bool" where
  "storage_id_ok s \<longleftrightarrow> s \<noteq> [] \<and> list_all storage_char s"

text \<open>\<^verbatim>\<open>artifactNameRe\<close> and \<^verbatim>\<open>cttNameRe\<close>: an alphanumeric byte, then bytes of the same set.\<close>

definition artifact_name_ok :: "string \<Rightarrow> bool" where
  "artifact_name_ok s \<longleftrightarrow> (case s of [] \<Rightarrow> False | c # cs \<Rightarrow> is_alnum c \<and> list_all storage_char cs)"

section \<open>Metadata and dependency annotations\<close>

record metadata =
  md_name :: string
  md_namespace :: string
  md_labels :: "(string \<times> string) list"
  md_annotations :: "(string \<times> string) list"

record dep =
  dep_kind :: string
  dep_name :: string

definition depends_on_key :: string where
  "depends_on_key = ''proxops/depends-on''"

text \<open>
  \<^verbatim>\<open>dependsRe\<close>, \<^verbatim>\<open>^([A-Za-z]+):([A-Za-z0-9.\-_]+)$\<close>: letters cannot contain the colon,
  so the first colon is the one that splits.
\<close>

definition depends_match :: "string \<Rightarrow> (string \<times> string) option" where
  "depends_match part =
     (case index_byte part (CHR '':'') of
        None \<Rightarrow> None
      | Some i \<Rightarrow>
          (let k = take i part; n = drop (Suc i) part
           in if k \<noteq> [] \<and> list_all (\<lambda>c. is_upper c \<or> is_lower c) k \<and> storage_id_ok n
              then Some (k, n) else None))"

definition depends_raw :: "metadata \<Rightarrow> string option" where
  "depends_raw m = (case map_of (md_annotations m) depends_on_key of
      None \<Rightarrow> None
    | Some raw \<Rightarrow> (if trim_space raw = [] then None else Some raw))"

definition depends_bad :: "string \<Rightarrow> string" where
  "depends_bad part = ''bad depends-on '' @ go_quote part @ '': expected KindName''"

fun depends_error_loop :: "string list \<Rightarrow> string option" where
  "depends_error_loop [] = None"
| "depends_error_loop (p # ps) =
     (let part = trim_space p
      in if part = [] then depends_error_loop ps
         else (case depends_match part of
                 None \<Rightarrow> Some (depends_bad part)
               | Some _ \<Rightarrow> depends_error_loop ps))"

definition depends_on_error :: "metadata \<Rightarrow> string option" where
  "depends_on_error m = (case depends_raw m of
      None \<Rightarrow> None
    | Some raw \<Rightarrow> depends_error_loop (split_on (CHR '','') raw))"

fun depends_on_loop :: "string list \<Rightarrow> string + dep list" where
  "depends_on_loop [] = Inr []"
| "depends_on_loop (p # ps) =
     (let part = trim_space p
      in if part = [] then depends_on_loop ps
         else (case depends_match part of
                 None \<Rightarrow> Inl (depends_bad part)
               | Some (k, n) \<Rightarrow>
                   (case depends_on_loop ps of
                      Inl e \<Rightarrow> Inl e
                    | Inr ds \<Rightarrow> Inr (\<lparr>dep_kind = k, dep_name = n\<rparr> # ds))))"

definition depends_on :: "metadata \<Rightarrow> string + dep list" where
  "depends_on m = (case depends_raw m of
      None \<Rightarrow> Inr []
    | Some raw \<Rightarrow> depends_on_loop (split_on (CHR '','') raw))"

definition dep_ref :: "dep \<Rightarrow> ref" where
  "dep_ref d = (case parse_kind (dep_kind d) of
      Inl _ \<Rightarrow> mk_ref (dep_kind d) (dep_name d)
    | Inr k \<Rightarrow> mk_ref k (dep_name d))"

section \<open>Artifact file names\<close>

definition last_ext_suffix :: "string \<Rightarrow> string" where
  "last_ext_suffix s = (case last_index_byte s (CHR ''.'') of
      Some i \<Rightarrow> drop i s
    | None \<Rightarrow> ''(none)'')"

fun first_suffix :: "string \<Rightarrow> string list \<Rightarrow> string option" where
  "first_suffix s [] = None"
| "first_suffix s (e # es) = (if has_suffix s e then Some e else first_suffix s es)"

definition accepted_exts :: "string \<Rightarrow> string list" where
  "accepted_exts content =
     (if content = ''vztmpl'' then [''.tar'', ''.tar.zst'', ''.tar.xz'', ''.tar.gz'']
      else if content = ''iso'' then [''.iso'', ''.img'']
      else if content = ''import'' then [''.qcow2'', ''.vmdk'', ''.raw'']
      else [])"

definition artifact_ext_accept :: "string \<Rightarrow> string \<Rightarrow> bool \<times> string" where
  "artifact_ext_accept fn content =
     (if content = [] then (False, ''empty content'')
      else (case first_suffix (to_lower fn) (accepted_exts content) of
              Some e \<Rightarrow> (True, e)
            | None \<Rightarrow> (False, ''extension '' @ last_ext_suffix (to_lower fn) @
                              '' not accepted by PVE 9.2 for content '' @ content)))"

section \<open>Name servers\<close>

definition split_nameserver :: "string \<Rightarrow> string list" where
  "split_nameserver s = str_fields (replace_byte (CHR '','') (CHR '' '') s)"

definition nameserver_equals :: "string \<Rightarrow> string \<Rightarrow> bool" where
  "nameserver_equals current want =
     (if current = [] \<and> want = [] then True
      else if current = [] \<or> want = [] then False
      else split_nameserver current = split_nameserver want)"

section \<open>Facts\<close>

text \<open>The two readers of the annotation agree: one fails exactly when the other does.\<close>

lemma depends_loops_agree:
  "(case depends_on_loop ps of Inl e \<Rightarrow> Some e | Inr _ \<Rightarrow> None) = depends_error_loop ps"
  by (induction ps) (auto simp: Let_def split: option.splits sum.splits)

lemma parse_kind_range: "parse_kind s = Inr k \<Longrightarrow> k \<in> set all_kinds"
  by (auto simp: parse_kind_def all_kinds_def Let_def split: if_splits)

lemma parse_state_range: "parse_state s = Inr v \<Longrightarrow> v \<in> {''started'', ''stopped''}"
  by (auto simp: parse_state_def split: if_splits)

lemma ref_str_inj:
  assumes "CHR ''/'' \<notin> set (ref_kind a)" "CHR ''/'' \<notin> set (ref_kind b)" "ref_str a = ref_str b"
  shows "a = (b::ref)"
proof -
  have "split_on (CHR ''/'') (ref_str a) = split_on (CHR ''/'') (ref_str b)" using assms(3) by simp
  then have "ref_kind a = ref_kind b" using assms(1,2) by (simp add: ref_str_def split_on_append_sep)
  moreover from this assms(3) have "ref_name a = ref_name b" by (simp add: ref_str_def)
  ultimately show ?thesis by simp
qed

end
