(* ===== verification/Composition.thy ===== *)
theory Composition
  imports Schema_Core
begin

text \<open>
  \<^verbatim>\<open>internal/composition/composition.go\<close>: which resource files a cluster consumes.

  The file system and the YAML decoder are not part of the program; they are the argument \<open>fs\<close>:
  \<open>fs_list\<close> is \<^verbatim>\<open>os.ReadDir\<close>, \<open>fs_stat\<close> is \<^verbatim>\<open>os.Stat\<close> (whether the path is
  a directory), \<open>fs_comp\<close> is a \<^verbatim>\<open>resources.yaml\<close> with what it decodes to as the
  structure and as a bare list, and \<open>fs_docs\<close> is \<^verbatim>\<open>readDocs\<close>: the documents of a manifest.  The functions of \<^verbatim>\<open>path/filepath\<close> are those of Unix.
  The errors of \<^verbatim>\<open>AllCompositions\<close> come in the order of the lists given; Go walks its maps in
  any order.
\<close>

section \<open>Paths\<close>

text \<open>
  \<^verbatim>\<open>filepath.Clean\<close> on the elements of a path: \<open>out\<close> holds, innermost first, the elements kept
  so far.
\<close>

fun clean_elems :: "bool \<Rightarrow> string list \<Rightarrow> string list \<Rightarrow> string list" where
  "clean_elems rooted out [] = rev out"
| "clean_elems rooted out (e # es) =
     (if e = [] \<or> e = ''.'' then clean_elems rooted out es
      else if e = ''..'' then
        (case out of
           [] \<Rightarrow> clean_elems rooted (if rooted then [] else [''..'']) es
         | x # xs \<Rightarrow> clean_elems rooted (if x = ''..'' then ''..'' # out else xs) es)
      else clean_elems rooted (e # out) es)"

definition is_rooted :: "string \<Rightarrow> bool" where
  "is_rooted p \<longleftrightarrow> has_prefix p ''/''"

definition path_elems :: "string \<Rightarrow> string list" where
  "path_elems p = clean_elems (is_rooted p) [] (split_on (CHR ''/'') p)"

definition clean_path :: "string \<Rightarrow> string" where
  "clean_path p =
     (if is_rooted p then CHR ''/'' # join_with ''/'' (path_elems p)
      else if path_elems p = [] then ''.'' else join_with ''/'' (path_elems p))"

text \<open>\<^verbatim>\<open>filepath.Join\<close> of two elements.\<close>

definition join_path :: "string \<Rightarrow> string \<Rightarrow> string" where
  "join_path a b =
     (if a = [] \<and> b = [] then [] else clean_path (join_with ''/'' (filter (\<lambda>x. x \<noteq> []) [a, b])))"

text \<open>The elements \<^verbatim>\<open>filepath.Rel\<close> compares, and what is left after the common ones.\<close>

definition rel_elems :: "string \<Rightarrow> string list" where
  "rel_elems p = (let c = clean_path p
     in if c = ''.'' then [] else filter (\<lambda>x. x \<noteq> []) (split_on (CHR ''/'') c))"

fun strip_common :: "string list \<Rightarrow> string list \<Rightarrow> string list \<times> string list" where
  "strip_common (a # as) (b # bs) = (if a = b then strip_common as bs else (a # as, b # bs))"
| "strip_common as bs = (as, bs)"

definition rel_path :: "string \<Rightarrow> string \<Rightarrow> string option" where
  "rel_path base targ =
     (if clean_path base = clean_path targ then Some ''.''
      else if is_rooted (clean_path base) \<noteq> is_rooted (clean_path targ) then None
      else (let r = strip_common (rel_elems base) (if clean_path targ = ''.'' then [''.''] else rel_elems targ)
            in if take 1 (fst r) = [''..''] then None
               else Some (join_with ''/'' (map (\<lambda>_. ''..'') (fst r) @ snd r))))"

definition rel_slash :: "string \<Rightarrow> string \<Rightarrow> string" where
  "rel_slash rdir p = (case rel_path rdir p of None \<Rightarrow> p | Some r \<Rightarrow> r)"

fun trim_right_slash :: "string \<Rightarrow> string" where
  "trim_right_slash s = rev (dropWhile (\<lambda>c. c = CHR ''/'') (rev s))"

definition resolve_within_root :: "string \<Rightarrow> string \<Rightarrow> string \<Rightarrow> string \<times> bool" where
  "resolve_within_root rdir0 base rel =
     (let rdir = trim_right_slash (clean_path rdir0);
          clean = clean_path (join_path base rel)
      in (clean, clean = rdir \<or> has_prefix clean (rdir @ ''/'')))"

text \<open>\<^verbatim>\<open>filepath.Ext\<close>: from the last dot of the last element.\<close>

definition path_ext :: "string \<Rightarrow> string" where
  "path_ext p =
     (let b = (case last_index_byte p (CHR ''/'') of None \<Rightarrow> p | Some i \<Rightarrow> drop (Suc i) p)
      in case last_index_byte b (CHR ''.'') of None \<Rightarrow> [] | Some i \<Rightarrow> drop i b)"

section \<open>Cluster names and kind roots\<close>

definition cluster_char :: "char \<Rightarrow> bool" where
  "cluster_char c \<longleftrightarrow> is_lower c \<or> is_digit c"

definition valid_cluster_name :: "string \<Rightarrow> bool" where
  "valid_cluster_name s \<longleftrightarrow>
     1 \<le> length s \<and> length s \<le> 64 \<and> cluster_char (hd s) \<and> cluster_char (List.last s) \<and>
     list_all (\<lambda>c. cluster_char c \<or> c = CHR ''-'') s"

definition root_dirs :: "string list" where
  "root_dirs = [''vm'', ''lxc'', ''iso'', ''ctt'', ''templatevm'', ''diskimage'', ''templatect'']"

definition kind_for_path :: "string \<Rightarrow> string" where
  "kind_for_path rel =
     (case split_on (CHR ''/'') rel of
        p # q # ps \<Rightarrow> (if p \<in> set root_dirs then p else [])
      | _ \<Rightarrow> [])"

section \<open>The file system\<close>

datatype dir_listing = NoDir | DirError string | Entries "(string \<times> bool) list"

datatype comp_file = NoFile | FileError string | CompFile "string + string list" "string list option"

record fs =
  fs_list :: "string \<Rightarrow> dir_listing"
  fs_stat :: "string \<Rightarrow> string + bool"
  fs_comp :: "string \<Rightarrow> comp_file"
  fs_docs :: "string \<Rightarrow> string + params list"

record composition =
  cp_cluster :: string
  cp_files :: "string list"

definition sorted_files :: "composition \<Rightarrow> string list" where
  "sorted_files c = sort_strings (cp_files c)"

section \<open>One composition\<close>

definition is_manifest_ext :: "string \<Rightarrow> bool" where
  "is_manifest_ext e \<longleftrightarrow> to_lower e = ''.yaml'' \<or> to_lower e = ''.yml''"

text \<open>One entry of the list: the path to add, or the error.\<close>

definition load_entry :: "fs \<Rightarrow> string \<Rightarrow> string \<Rightarrow> string \<Rightarrow> string list \<Rightarrow> string \<Rightarrow> string + string" where
  "load_entry fs rdir comp_dir rel_res seen p =
     (let r = resolve_within_root rdir comp_dir p; rel = rel_slash rdir (fst r)
      in if \<not> snd r
         then Inl (rel_res @ '': resource path '' @ go_quote p @ '' escapes the repository root or is malformed'')
         else (case fs_stat fs (fst r) of
             Inl e \<Rightarrow> Inl (rel_res @ '': references missing resource '' @ rel)
           | Inr d \<Rightarrow>
               (if d then Inl (rel_res @ '': references a directory '' @ rel @
                               '' (resource paths must be .yaml files)'')
                else if \<not> is_manifest_ext (path_ext rel)
                then Inl (rel_res @ '': references non-manifest path '' @ rel @ '' (want .yaml)'')
                else if rel \<in> set seen
                then Inl (rel_res @ '': references the same resource '' @ rel @ '' more than once'')
                else Inr rel)))"

text \<open>The loop: \<open>files\<close> are the paths added so far, which are also the ones seen.\<close>

fun load_entries :: "fs \<Rightarrow> string \<Rightarrow> string \<Rightarrow> string \<Rightarrow> string list \<Rightarrow> string list \<Rightarrow> string + string list" where
  "load_entries fs rdir comp_dir rel_res files [] = Inr files"
| "load_entries fs rdir comp_dir rel_res files (p0 # ps) =
     (let p = trim_space p0
      in if p = [] then load_entries fs rdir comp_dir rel_res files ps
         else (case load_entry fs rdir comp_dir rel_res files p of
                 Inl e \<Rightarrow> Inl e
               | Inr rel \<Rightarrow> load_entries fs rdir comp_dir rel_res (files @ [rel]) ps))"

definition load_composition :: "fs \<Rightarrow> string \<Rightarrow> string \<Rightarrow> string \<Rightarrow> string + composition" where
  "load_composition fs rdir clusters_dir name =
     (let comp_dir = join_path clusters_dir name;
          res_path = join_path comp_dir ''resources.yaml'';
          rel_res = rel_slash rdir res_path;
          load = (\<lambda>ps. case load_entries fs rdir comp_dir rel_res [] ps of
                    Inl e \<Rightarrow> Inl e | Inr files \<Rightarrow> Inr \<lparr>cp_cluster = name, cp_files = files\<rparr>)
      in if \<not> valid_cluster_name name
         then Inl (''clusters/'' @ name @ '' is not a valid cluster-name directory (lowercase alnum + '' @
                   [char_of (39::nat)] @ ''-'' @ [char_of (39::nat)] @ '', no leading '' @ [char_of (39::nat)] @ ''-'' @ [char_of (39::nat)] @ '')'')
         else (case fs_comp fs res_path of
             NoFile \<Rightarrow> Inl (''clusters/'' @ name @ ''/ exists but has no resources.yaml (a cluster directory must contain resources.yaml)'')
           | FileError e \<Rightarrow> Inl (''read '' @ rel_res @ '': '' @ e)
           | CompFile (Inr ps) bare \<Rightarrow> load ps
           | CompFile (Inl e) (Some ps) \<Rightarrow> load ps
           | CompFile (Inl e) None \<Rightarrow> Inl (''parse '' @ rel_res @ '': '' @ e)))"

section \<open>The repository\<close>

definition legacy_text :: "string \<Rightarrow> string \<Rightarrow> string" where
  "legacy_text rel k =
     ''legacy layout: '' @ rel @ '' sits directly under the '' @ k @
     ''/ kind root, which M8 no longer auto-discovers; move it to '' @ k @ ''/base/ or '' @ k @
     ''/<cluster>/ and list it in the consuming cluster'' @ [char_of (39::nat)] @ ''s clusters/<cluster>/resources.yaml''"

definition legacy_entry :: "string \<times> bool \<Rightarrow> bool" where
  "legacy_entry e \<longleftrightarrow> \<not> snd e \<and> (has_suffix (to_lower (fst e)) ''.yaml'' \<or> has_suffix (to_lower (fst e)) ''.yml'')"

fun repo_shape_loop :: "fs \<Rightarrow> string \<Rightarrow> string list \<Rightarrow> string option" where
  "repo_shape_loop fs rdir [] = None"
| "repo_shape_loop fs rdir (k # ks) =
     (case fs_list fs (join_path rdir k) of
        NoDir \<Rightarrow> repo_shape_loop fs rdir ks
      | DirError e \<Rightarrow> Some (''read '' @ k @ ''/: '' @ e)
      | Entries es \<Rightarrow>
          (case find legacy_entry es of
             Some e \<Rightarrow> Some (legacy_text (rel_slash rdir (join_path (join_path rdir k) (fst e))) k)
           | None \<Rightarrow> repo_shape_loop fs rdir ks))"

definition check_repo_shape :: "fs \<Rightarrow> string \<Rightarrow> string option" where
  "check_repo_shape fs rdir = repo_shape_loop fs rdir root_dirs"

definition load_clusters :: "fs \<Rightarrow> string \<Rightarrow> (string \<times> (string + composition)) list" where
  "load_clusters fs rdir =
     (case fs_list fs (join_path rdir ''clusters'') of
        Entries es \<Rightarrow> map (\<lambda>e. (fst e, load_composition fs rdir (join_path rdir ''clusters'') (fst e))) (filter snd es)
      | _ \<Rightarrow> [])"

definition compositions_of :: "(string \<times> (string + composition)) list \<Rightarrow> (string \<times> composition) list" where
  "compositions_of ls = fold (\<lambda>(n, r) m. case r of Inl e \<Rightarrow> m | Inr c \<Rightarrow> put n c m) ls []"

definition unconfigured_text :: "string \<Rightarrow> string" where
  "unconfigured_text n =
     ''composition clusters/'' @ n @ '' declares resources but pve.clusters has no entry for '' @ go_quote n @
     ''; add the cluster to the proxops config (unknown cluster names fail closed)''"

definition uncomposed_text :: "string \<Rightarrow> string" where
  "uncomposed_text n =
     ''pve.clusters.'' @ n @ '' is configured but has no composition at clusters/'' @ n @
     ''/resources.yaml; every configured cluster needs an explicit resource list (or an empty resources: list)''"

definition composition_errors :: "fs \<Rightarrow> string \<Rightarrow> string list \<Rightarrow> string list" where
  "composition_errors fs rdir configured =
     (let ls = load_clusters fs rdir; comps = compositions_of ls
      in concat (map (\<lambda>(n, r). case r of Inl e \<Rightarrow> [e] | Inr c \<Rightarrow> []) ls) @
         (case fs_list fs (join_path rdir ''clusters'') of DirError e \<Rightarrow> [''read clusters/: '' @ e] | _ \<Rightarrow> []) @
         (case check_repo_shape fs rdir of Some e \<Rightarrow> [e] | None \<Rightarrow> []) @
         map unconfigured_text (filter (\<lambda>n. n \<notin> set configured) (map fst comps)) @
         map uncomposed_text (filter (\<lambda>n. n \<notin> fst ` set comps) (remdups configured)))"

definition all_compositions :: "fs \<Rightarrow> string \<Rightarrow> string list \<Rightarrow> string + (string \<times> composition) list" where
  "all_compositions fs rdir configured =
     (case composition_errors fs rdir configured of
        [] \<Rightarrow> Inr (compositions_of (load_clusters fs rdir))
      | es \<Rightarrow> Inl (''composition: '' @ join_with ''; '' es))"

end
