(* ===== verification/Pve_Errors.thy ===== *)
theory Pve_Errors
  imports Schema_Core
begin

text \<open>
  \<^verbatim>\<open>internal/pveclient/errors.go\<close>, the other error types of the package, and
  \<^verbatim>\<open>upid.go\<close>.  A Go \<^verbatim>\<open>error\<close> is a value of \<open>go_err\<close>; \<open>EWrap pre e post\<close>
  is \<^verbatim>\<open>fmt.Errorf\<close> with one \<^verbatim>\<open>%w\<close> between the texts \<open>pre\<close> and \<open>post\<close>, which
  \<^verbatim>\<open>errors.As\<close> and \<^verbatim>\<open>errors.Is\<close> look through.  Times and durations are nanoseconds.
\<close>

record api_error =
  ae_status :: int
  ae_pve_code :: int
  ae_message :: string
  ae_target :: string

record task_id =
  tid_node :: string
  tid_upid :: string

datatype go_err =
    EText string
  | EWrap string go_err string
  | EReadOnly
  | ENoBaseURL
  | ECtx string
  | EApi api_error
  | ETaskFailed string string
  | ETaskTimeout string int string
  | ETaskNotFound task_id

section \<open>Texts\<close>

definition api_error_text :: "api_error \<Rightarrow> string" where
  "api_error_text e =
     (if ae_pve_code e \<noteq> 0
      then ''pve api error (http '' @ itoa (ae_status e) @ '', pve code '' @ itoa (ae_pve_code e) @
           '') on '' @ ae_target e @ '': '' @ ae_message e
      else ''pve api error (http '' @ itoa (ae_status e) @ '') on '' @ ae_target e @ '': '' @ ae_message e)"

definition sec_ns :: int where "sec_ns = 1000000000"

text \<open>\<^verbatim>\<open>d.Round(time.Second).String()\<close> of a duration that is not negative.\<close>

definition duration_text :: "int \<Rightarrow> string" where
  "duration_text d =
     (let s = (d + sec_ns div 2) div sec_ns; h = s div 3600; m = s div 60 mod 60; x = s mod 60
      in if 0 < h then itoa h @ ''h'' @ itoa m @ ''m'' @ itoa x @ ''s''
         else if 0 < m then itoa m @ ''m'' @ itoa x @ ''s''
         else itoa x @ ''s'')"

definition task_failed_text :: "string \<Rightarrow> string \<Rightarrow> string" where
  "task_failed_text upid msg =
     (if msg = [] then ''task '' @ upid @ '' failed'' else ''task '' @ upid @ '' failed: '' @ msg)"

definition task_timeout_text :: "string \<Rightarrow> int \<Rightarrow> string \<Rightarrow> string" where
  "task_timeout_text upid elapsed lst =
     ''task '' @ upid @ '' did not complete in '' @ duration_text elapsed @ '' (last status: '' @ lst @ '')''"

definition task_not_found_text :: "task_id \<Rightarrow> string" where
  "task_not_found_text t = ''pve task '' @ tid_upid t @ '' on node '' @ tid_node t @ '' not found''"

fun err_text :: "go_err \<Rightarrow> string" where
  "err_text (EText s) = s"
| "err_text (EWrap pre e post) = pre @ err_text e @ post"
| "err_text EReadOnly = ''pve write circuit breaker open: running read-only''"
| "err_text ENoBaseURL = ''pveclient: no base-url configured''"
| "err_text (ECtx s) = s"
| "err_text (EApi a) = api_error_text a"
| "err_text (ETaskFailed u m) = task_failed_text u m"
| "err_text (ETaskTimeout u d l) = task_timeout_text u d l"
| "err_text (ETaskNotFound t) = task_not_found_text t"

section \<open>Classification\<close>

text \<open>\<^verbatim>\<open>errors.As(err, &api)\<close>: the first \<^verbatim>\<open>*APIError\<close> down the chain.\<close>

fun as_api :: "go_err \<Rightarrow> api_error option" where
  "as_api (EApi a) = Some a"
| "as_api (EWrap pre e post) = as_api e"
| "as_api e = None"

definition is_not_found :: "go_err \<Rightarrow> bool" where
  "is_not_found e = (case as_api e of
      None \<Rightarrow> False
    | Some a \<Rightarrow> ae_status a = 404 \<or> contains_sub (to_lower (ae_message a)) ''no such'')"

definition is_in_progress :: "go_err \<Rightarrow> bool" where
  "is_in_progress e = (case as_api e of
      None \<Rightarrow> False
    | Some a \<Rightarrow> contains_sub (to_lower (ae_message a)) ''operation already in progress'')"

fun is_timeout :: "go_err \<Rightarrow> bool" where
  "is_timeout (ETaskTimeout u d l) = True"
| "is_timeout (EWrap pre e post) = is_timeout e"
| "is_timeout e = False"

text \<open>\<^verbatim>\<open>errors.Is(err, ErrReadOnly)\<close>.\<close>

fun is_read_only :: "go_err \<Rightarrow> bool" where
  "is_read_only EReadOnly = True"
| "is_read_only (EWrap pre e post) = is_read_only e"
| "is_read_only e = False"

section \<open>UPIDs\<close>

record upid =
  up_raw :: string
  up_node :: string
  up_pid :: int
  up_after :: string

definition parse_upid :: "string \<Rightarrow> upid" where
  "parse_upid s =
     (let (node, rest) = (case index_byte s (CHR ''@'') of
            Some i \<Rightarrow> (if 0 < i then (take i s, drop (Suc i) s) else ([], s))
          | None \<Rightarrow> ([], s))
      in case index_byte rest (CHR ''!'') of
           Some j \<Rightarrow> \<lparr>up_raw = s, up_node = node,
                      up_pid = (case parse_int64 (take j rest) of Some v \<Rightarrow> v | None \<Rightarrow> 0),
                      up_after = drop (Suc j) rest\<rparr>
         | None \<Rightarrow> \<lparr>up_raw = s, up_node = node, up_pid = 0, up_after = rest\<rparr>)"

definition upid_string :: "upid \<Rightarrow> string" where
  "upid_string u = up_raw u"

lemma upid_round_trip: "upid_string (parse_upid s) = s"
  by (simp add: parse_upid_def upid_string_def Let_def split: option.splits prod.splits)

end
