(* ===== verification/Pve_Breaker.thy ===== *)
theory Pve_Breaker
  imports Schema_Core
begin

text \<open>
  \<^verbatim>\<open>internal/pveclient/breaker.go\<close>: the write circuit breaker.  Each method locks the
  mutex for its whole body, so it is one step on the breaker's state.  \<open>now\<close> is the value
  \<^verbatim>\<open>time.Now()\<close> returns inside the call, in nanoseconds.
\<close>

record breaker =
  b_threshold :: int
  b_duration :: int
  b_consec :: int
  b_open :: bool
  b_until :: int

definition new_breaker :: "int \<Rightarrow> int \<Rightarrow> breaker" where
  "new_breaker threshold duration =
     \<lparr>b_threshold = (if threshold \<le> 0 then 20 else threshold),
      b_duration = (if duration \<le> 0 then 600 * 1000000000 else duration),
      b_consec = 0, b_open = False, b_until = 0\<rparr>"

definition breaker_allows :: "int \<Rightarrow> breaker \<Rightarrow> bool \<times> breaker" where
  "breaker_allows now b =
     (if \<not> b_open b then (True, b)
      else if b_until b < now then (True, b\<lparr>b_open := False, b_consec := 0\<rparr>)
      else (False, b))"

definition record_ok :: "breaker \<Rightarrow> breaker" where
  "record_ok b = b\<lparr>b_consec := 0, b_open := False\<rparr>"

definition record_fail :: "int \<Rightarrow> breaker \<Rightarrow> breaker" where
  "record_fail now b =
     (if b_threshold b \<le> b_consec b + 1 \<and> \<not> b_open b
      then b\<lparr>b_consec := b_consec b + 1, b_open := True, b_until := now + b_duration b\<rparr>
      else b\<lparr>b_consec := b_consec b + 1\<rparr>)"

definition breaker_is_open :: "breaker \<Rightarrow> bool" where
  "breaker_is_open b = b_open b"

section \<open>The breaker as a state machine\<close>

text \<open>
  Its events: a write asks to proceed, a success is recorded, a failure is recorded; time passes
  between them and never goes back.
\<close>

inductive breaker_step :: "int \<times> breaker \<Rightarrow> int \<times> breaker \<Rightarrow> bool" where
  wait: "t \<le> now \<Longrightarrow> breaker_step (t, b) (now, b)"
| ask: "t \<le> now \<Longrightarrow> breaker_step (t, b) (now, snd (breaker_allows now b))"
| ok: "t \<le> now \<Longrightarrow> breaker_step (t, b) (now, record_ok b)"
| fail: "t \<le> now \<Longrightarrow> breaker_step (t, b) (now, record_fail now b)"

inductive_cases breaker_step_E: "breaker_step (t, b) s'"

inductive breaker_reach :: "int \<times> breaker \<Rightarrow> int \<times> breaker \<Rightarrow> bool" for s where
  start: "breaker_reach s s"
| step: "breaker_reach s s' \<Longrightarrow> breaker_step s' s'' \<Longrightarrow> breaker_reach s s''"

lemma breaker_reach_trans: "breaker_reach s s' \<Longrightarrow> breaker_reach s' s'' \<Longrightarrow> breaker_reach s s''"
  by (rotate_tac 1, induction rule: breaker_reach.induct) (auto intro: breaker_reach.intros)

lemma breaker_reach_step: "breaker_step s s' \<Longrightarrow> breaker_reach s s'"
  by (auto intro: breaker_reach.intros)

text \<open>
  The invariant: fewer than \<open>threshold\<close> failures are on the count while the breaker is closed,
  the count never goes negative, and an open breaker closes by itself within \<open>b_duration\<close>.
\<close>

definition breaker_inv :: "int \<times> breaker \<Rightarrow> bool" where
  "breaker_inv s \<longleftrightarrow> (case s of (t, b) \<Rightarrow>
     0 < b_threshold b \<and> 0 < b_duration b \<and> 0 \<le> b_consec b \<and>
     (\<not> b_open b \<longrightarrow> b_consec b < b_threshold b) \<and>
     (b_open b \<longrightarrow> b_threshold b \<le> b_consec b \<and> b_until b \<le> t + b_duration b))"

lemmas breaker_ops = breaker_allows_def record_ok_def record_fail_def Let_def

lemma breaker_inv_new: "breaker_inv (t, new_breaker n d)"
  by (simp add: breaker_inv_def new_breaker_def)

lemma breaker_inv_step: "breaker_step s s' \<Longrightarrow> breaker_inv s \<Longrightarrow> breaker_inv s'"
  by (induction rule: breaker_step.induct) (auto simp: breaker_inv_def breaker_ops)

lemma breaker_inv_reach: "breaker_reach s s' \<Longrightarrow> breaker_inv s \<Longrightarrow> breaker_inv s'"
  by (induction rule: breaker_reach.induct) (auto intro: breaker_inv_step)

lemma breaker_config_reach:
  "breaker_reach (t, b) (t', b') \<Longrightarrow> b_threshold b' = b_threshold b \<and> b_duration b' = b_duration b \<and> t \<le> t'"
proof (induction "(t', b')" arbitrary: t' b' rule: breaker_reach.induct)
  case (step s')
  then show ?case by (cases s') (auto elim!: breaker_step_E simp: breaker_ops)
qed simp

text \<open>\<open>n\<close> failures in a row, with nothing recorded in between.\<close>

lemma record_fail_count:
  "\<not> b_open b \<Longrightarrow> b_consec b + 1 < b_threshold b \<Longrightarrow>
   record_fail now b = b\<lparr>b_consec := b_consec b + 1\<rparr>"
  by (simp add: breaker_ops)

end
