(* ===== verification/Pve_Client.thy ===== *)
theory Pve_Client
  imports Pve_Errors Pve_Breaker
begin

text \<open>
  \<^verbatim>\<open>internal/pveclient/client.go\<close>, \<^verbatim>\<open>auth.go\<close> and \<^verbatim>\<open>jitter.go\<close>: the PVE API
  client, from the request loop down to the ticket exchange.

  The PVE server, the network and the wall clock are not part of the program: they are the
  argument \<open>env\<close> of every operation.  \<open>e_reply\<close> answers a request given everything
  sent so far, \<open>e_elapse\<close> is the time the exchange took, \<open>e_draw\<close> the random draws,
  \<open>e_url_err\<close> what \<^verbatim>\<open>url.Parse\<close> objects to in a URL.  An operation takes the client's state
  and returns its result with the new state; \<open>c_sent\<close> records every request put on the wire and
  \<open>c_now\<close> the clock.

  A response body comes with the value \<^verbatim>\<open>encoding/json\<close> parses it to (\<open>None\<close> when it is not
  JSON).  Decoding into a Go struct is modelled field by field; the texts of decoding errors are
  not.
\<close>

section \<open>JSON and the wire\<close>

datatype json =
    JNull
  | JBool bool
  | JInt int
  | JDec rat
  | JStr string
  | JArr "json list"
  | JObj "(string \<times> json) list"

record http_request =
  rq_method :: string
  rq_url :: string
  rq_headers :: "(string \<times> string) list"
  rq_form :: "(string \<times> string) list"

record response =
  rs_status :: int
  rs_body :: string
  rs_json :: "json option"
  rs_userid :: string

datatype http_result = TransportErr string | ReadErr string | Response response

record env =
  e_reply :: "http_request list \<Rightarrow> http_result"
  e_elapse :: "http_request list \<Rightarrow> nat"
  e_draw :: "nat \<Rightarrow> rat"
  e_url_err :: "string \<Rightarrow> string option"

text \<open>
  A field of a struct: the key matches without regard to case and the last occurrence wins.
\<close>

fun json_field :: "string \<Rightarrow> (string \<times> json) list \<Rightarrow> json option" where
  "json_field n [] = None"
| "json_field n ((k, v) # kvs) =
     (case json_field n kvs of Some w \<Rightarrow> Some w | None \<Rightarrow> (if equal_fold k n then Some v else None))"

definition json_err :: string where
  "json_err = ''json: cannot unmarshal value into Go value''"

section \<open>URL encoding\<close>

definition hex_digit :: "nat \<Rightarrow> char" where
  "hex_digit d = (if d < 10 then char_of (48 + d) else char_of (55 + d))"

definition percent :: "char \<Rightarrow> string" where
  "percent c = (let n = of_char c :: nat in [CHR ''%'', hex_digit (n div 16), hex_digit (n mod 16)])"

definition unreserved :: "char \<Rightarrow> bool" where
  "unreserved c \<longleftrightarrow> is_alnum c \<or> c \<in> set ''-_.~''"

definition query_escape :: "string \<Rightarrow> string" where
  "query_escape s =
     concat (map (\<lambda>c. if unreserved c then [c] else if c = CHR '' '' then ''+'' else percent c) s)"

definition path_escape :: "string \<Rightarrow> string" where
  "path_escape s = concat (map (\<lambda>c. if unreserved c \<or> c \<in> set ''$&+=:@'' then [c] else percent c) s)"

text \<open>\<^verbatim>\<open>url.Values.Encode\<close>: sorted by key.\<close>

definition values_encode :: "(string \<times> string) list \<Rightarrow> string" where
  "values_encode f =
     join_with ''&'' (map (\<lambda>(k, v). query_escape k @ ''='' @ query_escape v) (sort_key fst f))"

section \<open>Contexts\<close>

text \<open>
  A context is the moment it is done, if ever, and the text of its error.  Where a
  \<^verbatim>\<open>select\<close> could take either branch (the context is done at the very moment a timer fires) the
  model takes the context.
\<close>

record ctx =
  cx_done :: "int option"
  cx_text :: string

definition ctx_done :: "ctx \<Rightarrow> int \<Rightarrow> bool" where
  "ctx_done cx now = (case cx_done cx of None \<Rightarrow> False | Some d \<Rightarrow> d \<le> now)"

definition ctx_err :: "ctx \<Rightarrow> go_err" where
  "ctx_err cx = ECtx (cx_text cx)"

definition background :: ctx where
  "background = \<lparr>cx_done = None, cx_text = ''context canceled''\<rparr>"

text \<open>
  The deadline \<^verbatim>\<open>context.WithTimeout\<close> gives, and the text of the error it ends with: the
  parent's when the parent is done first.
\<close>

definition timeout_at :: "ctx \<Rightarrow> int \<Rightarrow> int \<Rightarrow> int" where
  "timeout_at cx now d = (case cx_done cx of Some x \<Rightarrow> min x (now + d) | None \<Rightarrow> now + d)"

definition timeout_text :: "ctx \<Rightarrow> int \<Rightarrow> int \<Rightarrow> string" where
  "timeout_text cx now d =
     (if (case cx_done cx of Some x \<Rightarrow> x \<le> now + d | None \<Rightarrow> False) then cx_text cx
      else ''context deadline exceeded'')"

definition with_timeout :: "ctx \<Rightarrow> int \<Rightarrow> int \<Rightarrow> ctx" where
  "with_timeout cx now d = \<lparr>cx_done = Some (timeout_at cx now d), cx_text = timeout_text cx now d\<rparr>"

section \<open>State\<close>

record auth =
  au_method :: string
  au_user :: string
  au_token_id :: string
  au_token_value :: string
  au_token :: string
  au_password :: string
  au_base :: string
  au_refresh :: int
  au_ticket :: string
  au_csrf :: string
  au_userid :: string
  au_fetched :: int

record client =
  c_auth :: auth
  c_base :: string
  c_breaker :: breaker
  c_last_read :: "int option"
  c_last_write :: "int option"
  c_writes :: nat
  c_now :: int
  c_sent :: "http_request list"
  c_draws :: nat

record pve_params =
  pp_user :: string
  pp_auth :: string
  pp_token_id :: string
  pp_token_value :: string
  pp_token :: string
  pp_password :: string
  pp_base_url :: string
  pp_nodes :: "string list"
  pp_ca_file :: string

record options =
  op_pve :: pve_params
  op_http_timeout :: int
  op_breaker_threshold :: int
  op_breaker_duration :: int
  op_base_url :: string

definition new_auth :: "pve_params \<Rightarrow> string \<Rightarrow> auth" where
  "new_auth p base =
     \<lparr>au_method = (if pp_auth p = [] then ''token'' else pp_auth p), au_user = pp_user p,
      au_token_id = pp_token_id p, au_token_value = pp_token_value p, au_token = pp_token p,
      au_password = pp_password p, au_base = base, au_refresh = 300 * sec_ns,
      au_ticket = [], au_csrf = [], au_userid = [], au_fetched = 0\<rparr>"

text \<open>
  \<^verbatim>\<open>New\<close>.  \<open>ca_err\<close> stands for reading and parsing the CA file; \<open>now\<close> starts the clock.
\<close>

definition new_client :: "(string \<Rightarrow> go_err option) \<Rightarrow> int \<Rightarrow> options \<Rightarrow> go_err + client" where
  "new_client ca_err now opt =
     (let ca = pp_ca_file (op_pve opt);
          base = (if op_base_url opt = [] then pp_base_url (op_pve opt) else op_base_url opt)
      in case (if ca = [] then None else ca_err ca) of
           Some e \<Rightarrow> Inl e
         | None \<Rightarrow>
            (if base = [] then Inl ENoBaseURL
             else Inr \<lparr>c_auth = new_auth (op_pve opt) base, c_base = base,
                       c_breaker = new_breaker (op_breaker_threshold opt) (op_breaker_duration opt),
                       c_last_read = None, c_last_write = None, c_writes = 0, c_now = now,
                       c_sent = [], c_draws = 0\<rparr>))"

definition credential :: "pve_params \<Rightarrow> string" where
  "credential p =
     (if pp_token_value p \<noteq> [] then pp_token_value p
      else if pp_user p = [] \<or> pp_token_id p = [] \<or> pp_token p = [] then []
      else pp_user p @ ''!'' @ pp_token_id p @ ''='' @ pp_token p)"

section \<open>The exchange\<close>

definition url_op :: "string \<Rightarrow> string" where
  "url_op m = take 1 m @ to_lower (drop 1 m)"

text \<open>
  \<^verbatim>\<open>http.Client.Do\<close>: nothing is sent when the context is already done.
\<close>

definition http_send :: "env \<Rightarrow> ctx \<Rightarrow> http_request \<Rightarrow> client \<Rightarrow> (go_err + http_result) \<times> client" where
  "http_send env cx rq cl =
     (if ctx_done cx (c_now cl)
      then (Inl (EWrap (url_op (rq_method rq) @ '' '' @ go_quote (rq_url rq) @ '': '') (ctx_err cx) []), cl)
      else (let sent = c_sent cl @ [rq]
            in (Inr (e_reply env sent),
                cl\<lparr>c_sent := sent, c_now := c_now cl + int (e_elapse env sent)\<rparr>)))"

section \<open>Authentication\<close>

definition ticket_endpoint :: "auth \<Rightarrow> string" where
  "ticket_endpoint a = au_base a @ ''/api2/json/access/ticket''"

definition token_auth_value :: "auth \<Rightarrow> string" where
  "token_auth_value a =
     (if au_token_value a \<noteq> [] then au_token_value a
      else if au_user a = [] \<or> au_token_id a = [] \<or> au_token a = [] then []
      else au_user a @ ''!'' @ au_token_id a @ ''='' @ au_token a)"

definition invalidate :: "auth \<Rightarrow> auth" where
  "invalidate a = a\<lparr>au_ticket := [], au_csrf := [], au_userid := [], au_fetched := 0\<rparr>"

definition json_str_field :: "string \<Rightarrow> (string \<times> json) list \<Rightarrow> string + string" where
  "json_str_field n kvs = (case json_field n kvs of
      None \<Rightarrow> Inr [] | Some JNull \<Rightarrow> Inr [] | Some (JStr s) \<Rightarrow> Inr s | Some _ \<Rightarrow> Inl json_err)"

text \<open>The body of \<^verbatim>\<open>/access/ticket\<close>: the ticket and the CSRF token.\<close>

definition decode_ticket :: "json option \<Rightarrow> string + string \<times> string" where
  "decode_ticket j = (case j of
      Some (JObj kvs) \<Rightarrow>
        (case json_field ''data'' kvs of
           None \<Rightarrow> Inr ([], []) | Some JNull \<Rightarrow> Inr ([], [])
         | Some (JObj d) \<Rightarrow>
             (case (json_str_field ''ticket'' d, json_str_field ''CSRFToken'' d) of
                (Inr t, Inr c) \<Rightarrow> Inr (t, c) | _ \<Rightarrow> Inl json_err)
         | Some _ \<Rightarrow> Inl json_err)
    | Some JNull \<Rightarrow> Inr ([], [])
    | _ \<Rightarrow> Inl json_err)"

definition ticket_request :: "auth \<Rightarrow> http_request" where
  "ticket_request a =
     \<lparr>rq_method = ''POST'', rq_url = ticket_endpoint a,
      rq_headers = [(''Content-Type'', ''application/x-www-form-urlencoded'')],
      rq_form = [(''user'', au_user a), (''password'', au_password a)]\<rparr>"

definition ticket_reply :: "response \<Rightarrow> int \<Rightarrow> auth \<Rightarrow> go_err + auth" where
  "ticket_reply r now a =
     (if rs_status r \<noteq> 200
      then Inl (EApi \<lparr>ae_status = rs_status r, ae_pve_code = 0,
                      ae_message = ''ticket exchange failed: '' @ take 200 (trim_space (rs_body r)),
                      ae_target = ''access/ticket''\<rparr>)
      else (case decode_ticket (rs_json r) of
              Inl e \<Rightarrow> Inl (EWrap ''ticket exchange: decode response: '' (EText e) [])
            | Inr (t, csrf) \<Rightarrow>
                (if t = [] then Inl (EText ''ticket exchange: pve returned an empty ticket'')
                 else Inr (a\<lparr>au_ticket := t, au_csrf := csrf,
                             au_userid := query_escape (if rs_userid r = [] then au_user a else rs_userid r),
                             au_fetched := now\<rparr>))))"

definition fetch_ticket :: "env \<Rightarrow> ctx \<Rightarrow> client \<Rightarrow> go_err option \<times> client" where
  "fetch_ticket env cx cl =
     (case e_url_err env (ticket_endpoint (c_auth cl)) of
        Some e \<Rightarrow> (Some (EText e), cl)
      | None \<Rightarrow>
         (case http_send env cx (ticket_request (c_auth cl)) cl of
            (Inl e, cl1) \<Rightarrow> (Some (EWrap ''ticket exchange: '' e []), cl1)
          | (Inr (TransportErr s), cl1) \<Rightarrow> (Some (EWrap ''ticket exchange: '' (EText s) []), cl1)
          | (Inr (ReadErr s), cl1) \<Rightarrow> (Some (EWrap ''ticket exchange: read response: '' (EText s) []), cl1)
          | (Inr (Response r), cl1) \<Rightarrow>
              (case ticket_reply r (c_now cl1) (c_auth cl1) of
                 Inl e \<Rightarrow> (Some e, cl1)
               | Inr a \<Rightarrow> (None, cl1\<lparr>c_auth := a\<rparr>))))"

text \<open>The headers \<^verbatim>\<open>applyAuth\<close> sets.\<close>

definition ticket_headers :: "auth \<Rightarrow> (string \<times> string) list" where
  "ticket_headers a =
     (''Cookie'', ''PVEAuthCookie='' @ au_ticket a @ ''; X-Userid='' @ au_userid a)
     # (if au_csrf a \<noteq> [] then [(''X-CSRF-Token'', au_csrf a)] else [])"

definition apply_auth :: "env \<Rightarrow> ctx \<Rightarrow> client \<Rightarrow> (go_err + (string \<times> string) list) \<times> client" where
  "apply_auth env cx cl =
     (let a = c_auth cl
      in if au_method a = ''token''
         then (let cred = token_auth_value a
               in if cred = []
                  then (Inl (EText ''pve token auth is not configured (need pve.user + pve.token-id + pve.token or a composed pve.token-value)''), cl)
                  else (Inr [(''Authorization'', ''PVEAPIToken='' @ cred)], cl))
         else if au_ticket a = [] \<or> au_refresh a < c_now cl - au_fetched a
         then (case fetch_ticket env cx cl of
                 (Some e, cl1) \<Rightarrow> (Inl e, cl1)
               | (None, cl1) \<Rightarrow> (Inr (ticket_headers (c_auth cl1)), cl1))
         else (Inr (ticket_headers a), cl))"

end
