(* ===== verification/Quantity.thy ===== *)
theory Quantity
  imports Schema_Core
begin

text \<open>
  \<^verbatim>\<open>internal/schema/quantity.go\<close> and \<^verbatim>\<open>pvefmt.go\<close>: sizes in manifests and on the PVE
  wire.  Go's \<^verbatim>\<open>int64\<close> is an \<open>int\<close> with the wrap-around of every multiplication written
  out (\<open>wrap64\<close>).  A positive \<^verbatim>\<open>float64\<close> is its binary64 pair \<open>(m, e)\<close> for
  \<open>m * 2^e\<close> with \<open>2^52 \<le> m < 2^53\<close>; \<open>float_of n d\<close> rounds the fraction \<open>n / d\<close> to the nearest such
  pair, ties to even.  Hexadecimal floats, infinities and NaN are not read by \<open>parse_float\<close>.
\<close>

section \<open>int64\<close>

definition wrap64 :: "int \<Rightarrow> int" where
  "wrap64 x = (x + 2 ^ 63) mod 2 ^ 64 - 2 ^ 63"

lemma wrap64_id: "- (2 ^ 63) \<le> x \<Longrightarrow> x < 2 ^ 63 \<Longrightarrow> wrap64 x = x"
  by (simp add: wrap64_def mod_pos_pos_trivial)

lemma wrap64_range: "- (2 ^ 63) \<le> wrap64 x \<and> wrap64 x < 2 ^ 63"
proof -
  have "0 \<le> (x + 2 ^ 63) mod (2 ^ 64 :: int)" "(x + 2 ^ 63) mod 2 ^ 64 < (2 ^ 64 :: int)"
    by (simp_all only: pos_mod_sign pos_mod_bound zero_less_power zero_less_numeral)
  then show ?thesis by (simp add: wrap64_def)
qed

text \<open>Go's remainder and quotient truncate towards zero.\<close>

definition go_div :: "int \<Rightarrow> int \<Rightarrow> int" where
  "go_div a b = sgn a * sgn b * (\<bar>a\<bar> div \<bar>b\<bar>)"

definition go_mod :: "int \<Rightarrow> int \<Rightarrow> int" where
  "go_mod a b = a - b * go_div a b"

lemma go_div_nonneg: "0 \<le> a \<Longrightarrow> 0 < b \<Longrightarrow> go_div a b = a div b"
  by (cases "a = 0") (simp_all add: go_div_def)

lemma go_mod_nonneg: "0 \<le> a \<Longrightarrow> 0 < b \<Longrightarrow> go_mod a b = a mod b"
  by (simp add: go_mod_def go_div_nonneg minus_mult_div_eq_mod)

section \<open>ParseBytes\<close>

text \<open>The unit table, as \<open>1000\<close> and \<open>1024\<close> powers.\<close>

definition unit_mult :: "string \<Rightarrow> int option" where
  "unit_mult u =
     (if u \<in> {''B'', ''''} then Some 1
      else if u \<in> {''K'', ''KB''} then Some 1000
      else if u \<in> {''KI'', ''KIB''} then Some 1024
      else if u \<in> {''M'', ''MB''} then Some (1000 ^ 2)
      else if u \<in> {''MI'', ''MIB''} then Some (1024 ^ 2)
      else if u \<in> {''G'', ''GB''} then Some (1000 ^ 3)
      else if u \<in> {''GI'', ''GIB''} then Some (1024 ^ 3)
      else if u \<in> {''T'', ''TB''} then Some (1000 ^ 4)
      else if u \<in> {''TI'', ''TIB''} then Some (1024 ^ 4)
      else if u \<in> {''P'', ''PB''} then Some (1000 ^ 5)
      else if u \<in> {''PI'', ''PIB''} then Some (1024 ^ 5)
      else None)"

definition parse_bytes :: "string \<Rightarrow> string + int" where
  "parse_bytes q =
     (let trimmed = trim_space q
      in if trimmed = [] then Inl ''empty quantity''
         else (case parse_int64 trimmed of
           Some v \<Rightarrow> Inr v
         | None \<Rightarrow>
            (let ds = takeWhile is_digit trimmed; rest = dropWhile is_digit trimmed
             in if ds = [] then Inl (''quantity '' @ go_quote q @ '' must start with a digit'')
                else (case parse_int64 ds of
                  None \<Rightarrow> Inl (''bad quantity number in '' @ go_quote q @
                               '': strconv.ParseInt: parsing '' @ go_quote ds @ '': value out of range'')
                | Some num \<Rightarrow>
                    (let u = to_upper rest
                     in case unit_mult u of
                          Some k \<Rightarrow> Inr (wrap64 (num * k))
                        | None \<Rightarrow> Inl (''unknown quantity unit '' @ go_quote u @
                            '' (use K/M/G/T/P or KiB/MiB/GiB/TiB/PiB)''))))))"

definition disk_bytes :: "string \<Rightarrow> string + int" where
  "disk_bytes q = parse_bytes q"

definition memory_mib :: "string \<Rightarrow> string + int" where
  "memory_mib q = (case parse_bytes q of
      Inl e \<Rightarrow> Inl e
    | Inr b \<Rightarrow> (if go_mod b (2 ^ 20) \<noteq> 0
               then Inl (''memory '' @ go_quote q @ '' is not a whole number of MiB'')
               else Inr (go_div b (2 ^ 20))))"

fun format_disk_loop :: "int \<Rightarrow> (int \<times> string) list \<Rightarrow> string" where
  "format_disk_loop b [] = itoa b"
| "format_disk_loop b ((m, suf) # ms) =
     (if m \<le> b \<and> go_mod b m = 0 then itoa (go_div b m) @ suf else format_disk_loop b ms)"

definition format_disk_bytes :: "int \<Rightarrow> string" where
  "format_disk_bytes b = format_disk_loop b [(2 ^ 30, ''G''), (2 ^ 20, ''M''), (2 ^ 10, ''K'')]"

section \<open>float64\<close>

fun nlog2 :: "nat \<Rightarrow> nat" where
  "nlog2 n = (if n < 2 then 0 else Suc (nlog2 (n div 2)))"

declare nlog2.simps [simp del]

type_synonym float64 = "nat \<times> int"

definition float_of :: "nat \<Rightarrow> nat \<Rightarrow> float64" where
  "float_of n d =
     (let e0 = int (nlog2 n) - int (nlog2 d) - 52;
          b = d * 2 ^ nat e0;
          a0 = n * 2 ^ nat (- e0);
          (a, e) = (if a0 < 2 ^ 52 * b then (2 * a0, e0 - 1) else (a0, e0));
          q = a div b; r = a mod b;
          q' = (if b < 2 * r \<or> (2 * r = b \<and> odd q) then q + 1 else q)
      in if q' = 2 ^ 53 then (2 ^ 52, e + 1) else (q', e))"

text \<open>\<^verbatim>\<open>int64(f * 2^k)\<close>: scaling by a power of two is exact, the conversion truncates.\<close>

definition float_scale_trunc :: "float64 \<Rightarrow> nat \<Rightarrow> nat" where
  "float_scale_trunc f k = (case f of (m, e) \<Rightarrow>
     (if 0 \<le> e + int k then m * 2 ^ nat (e + int k) else m div 2 ^ nat (- (e + int k))))"

text \<open>
  \<^verbatim>\<open>strconv.FormatFloat(x, 'f', -1, 64)\<close> of \<open>x = n / d\<close>: the least number of decimals whose
  nearest decimal reads back as the same float64.  For a multiple of \<open>2^-30\<close> thirty decimals are
  exact, so the search stops there.
\<close>

definition round_half_even :: "nat \<Rightarrow> nat \<Rightarrow> nat" where
  "round_half_even n d =
     (let q = n div d; r = n mod d in if d < 2 * r \<or> (2 * r = d \<and> odd q) then q + 1 else q)"

fun decimals_loop :: "nat \<Rightarrow> nat \<Rightarrow> nat \<Rightarrow> nat \<Rightarrow> nat \<times> nat" where
  "decimals_loop 0 k n d = (round_half_even (n * 10 ^ k) d, k)"
| "decimals_loop (Suc fuel) k n d =
     (let t = round_half_even (n * 10 ^ k) d
      in if 0 < t \<and> float_of t (10 ^ k) = float_of n d then (t, k) else decimals_loop fuel (Suc k) n d)"

definition pad_left :: "nat \<Rightarrow> string \<Rightarrow> string" where
  "pad_left k s = replicate (k - length s) (CHR ''0'') @ s"

definition decimal_str :: "nat \<Rightarrow> nat \<Rightarrow> string" where
  "decimal_str t k =
     (if k = 0 then nat_str t
      else nat_str (t div 10 ^ k) @ CHR ''.'' # pad_left k (nat_str (t mod 10 ^ k)))"

definition gib_string :: "int \<Rightarrow> string" where
  "gib_string b0 =
     (let b = (if b0 < 0 then 0 else b0); whole = go_div b (2 ^ 30)
      in if go_mod b (2 ^ 30) = 0 then itoa whole
         else (case decimals_loop 30 0 (nat b) (2 ^ 30) of (t, k) \<Rightarrow> decimal_str t k))"

text \<open>
  \<^verbatim>\<open>strconv.ParseFloat(s, 64)\<close> on decimal literals: sign, digits with an optional point, optional
  exponent.  The result is the sign and the exact fraction; \<open>float_of\<close> rounds it.
\<close>

definition split_sign :: "string \<Rightarrow> bool \<times> string" where
  "split_sign s = (case s of
      [] \<Rightarrow> (False, [])
    | c # cs \<Rightarrow> (if c = CHR ''-'' then (True, cs) else if c = CHR ''+'' then (False, cs) else (False, s)))"

definition parse_exponent :: "string \<Rightarrow> int option" where
  "parse_exponent s =
     (if s = [] then Some 0
      else if to_lower (take 1 s) \<noteq> ''e'' then None
      else (case split_sign (drop 1 s) of (neg, ds) \<Rightarrow>
             if ds = [] \<or> \<not> list_all is_digit ds then None
             else Some (if neg then - int (digits_val ds) else int (digits_val ds))))"

definition parse_decimal :: "string \<Rightarrow> (bool \<times> nat \<times> nat) option" where
  "parse_decimal s0 =
     (case split_sign s0 of (neg, s) \<Rightarrow>
       (let ip = takeWhile is_digit s; r1 = dropWhile is_digit s;
            (fp, r2) = (case r1 of
               c # cs \<Rightarrow> (if c = CHR ''.'' then (takeWhile is_digit cs, dropWhile is_digit cs) else ([], r1))
             | [] \<Rightarrow> ([], r1))
        in if ip = [] \<and> fp = [] then None
           else (case parse_exponent r2 of
             None \<Rightarrow> None
           | Some ex \<Rightarrow>
               (let m = digits_val (ip @ fp); p = ex - int (length fp)
                in Some (neg, m * 10 ^ nat p, 10 ^ nat (- p))))))"

text \<open>The size token of a PVE drive string.\<close>

definition size_suffix :: "string \<Rightarrow> (nat \<times> string) option" where
  "size_suffix s =
     (if has_suffix s ''T'' then Some (40, butlast s)
      else if has_suffix s ''G'' then Some (30, butlast s)
      else if has_suffix s ''M'' then Some (20, butlast s)
      else if has_suffix s ''K'' then Some (10, butlast s)
      else None)"

definition pve_disk_size_bytes :: "string \<Rightarrow> int option" where
  "pve_disk_size_bytes s0 =
     (let s = trim_space (to_upper s0)
      in if s = [] then None
         else (case parse_int64 s of
           Some v \<Rightarrow> Some v
         | None \<Rightarrow>
             (case size_suffix s of
                None \<Rightarrow> None
              | Some (k, mant) \<Rightarrow>
                  (case parse_decimal (trim_space mant) of
                     None \<Rightarrow> None
                   | Some (neg, n, d) \<Rightarrow>
                       (if n = 0 then Some 0
                        else (let v = int (float_scale_trunc (float_of n d) k)
                              in Some (if neg then - v else v)))))))"

section \<open>Facts\<close>

text \<open>
  A memory quantity is accepted only when it is a whole number of MiB, and the accepted value is exactly
  that number: scaling it back gives the parsed byte count.
\<close>

theorem memory_mib_exact:
  "memory_mib q = Inr n \<Longrightarrow> parse_bytes q = Inr (n * 2 ^ 20)"
  by (auto simp: memory_mib_def go_mod_def split: sum.splits if_splits)

theorem memory_mib_exact_witness: "parse_bytes ''8GiB'' = Inr (8192 * 2 ^ 20)"
  by (rule memory_mib_exact) code_simp

end
