(* ===== verification/Secrets.thy ===== *)
theory Secrets
  imports Pve_Client Quantity
begin

text \<open>
  \<^verbatim>\<open>internal/secrets/secrets.go\<close>: the SOPS file of a cluster, read and written back.

  The \<^verbatim>\<open>sops\<close> program and the file system are arguments.  \<open>sops_run\<close> is how one run of the
  program ended: not found on the path, failed (after the deadline or not, with its exit code and what it
  wrote to stderr), or with the JSON it printed (\<open>None\<close> when that is not JSON).  \<open>fv r\<close> is the text
  \<^verbatim>\<open>fmt\<close> gives under \<^verbatim>\<open>%v\<close> for the \<^verbatim>\<open>float64\<close> nearest to \<open>r\<close>.  The hooks for
  tests and the mutexes are left out.
\<close>

section \<open>The document\<close>

record secrets_file =
  sf_values :: "(string \<times> string) list"
  sf_ssh_keys :: "(string \<times> string) list"
  sf_passwords :: "(string \<times> string) list"
  sf_source :: string
  sf_loaded :: bool

text \<open>A value that is there and not blank, trimmed.\<close>

definition sf_get :: "secrets_file \<Rightarrow> string \<Rightarrow> string option" where
  "sf_get s name =
     (case map_of (sf_values s) name of
        None \<Rightarrow> None
      | Some v \<Rightarrow> (let v = trim_space v in if v = [] then None else Some v))"

definition sf_len :: "secrets_file \<Rightarrow> nat" where
  "sf_len s = length (sf_values s)"

definition has_cloud_init_secrets :: "secrets_file \<Rightarrow> bool" where
  "has_cloud_init_secrets s \<longleftrightarrow> 0 < length (sf_ssh_keys s) \<or> 0 < length (sf_passwords s)"

definition cloud_init_material :: "secrets_file \<Rightarrow> (string \<times> string) list \<times> (string \<times> string) list" where
  "cloud_init_material s = (sf_ssh_keys s, sf_passwords s)"

section \<open>Errors\<close>

datatype sops_kind = BinaryMissing | Unencrypted | NoIdentity | IdentityMismatch | Malformed | OtherFailure

type_synonym sops_error = "sops_kind \<times> string"

text \<open>The UTF-8 bytes of the dash and of the ellipsis in the messages.\<close>

definition long_dash :: string where
  "long_dash = map char_of [226 :: nat, 128, 148]"

definition ellipsis :: string where
  "ellipsis = map char_of [226 :: nat, 128, 166]"

definition section_sign :: string where
  "section_sign = map char_of [194 :: nat, 167]"

definition sentinel :: "sops_kind \<Rightarrow> string" where
  "sentinel k = (case k of
      BinaryMissing \<Rightarrow> ''sops binary not found on PATH; install Mozilla SOPS + age, or run proxops without a configured secrets-file''
    | Unencrypted \<Rightarrow> ''configured secrets file is not SOPS-encrypted (no sops metadata); a cluster secrets file must be encrypted with sops '' @ long_dash @ '' proxops refuses plaintext credential files''
    | NoIdentity \<Rightarrow> ''SOPS decryption failed: no usable age identity in the environment; set SOPS_AGE_KEY_FILE to a private age key that can decrypt this cluster'' @ [CHR 39] @ ''s secrets file''
    | IdentityMismatch \<Rightarrow> ''SOPS decryption failed: the provided age identity cannot decrypt this file; verify SOPS_AGE_KEY_FILE belongs to a key named in the file'' @ [CHR 39] @ ''s sops age recipients''
    | Malformed \<Rightarrow> ''decrypted secrets document is malformed: expected a top-level `secrets:` mapping of `name: value` scalar entries''
    | OtherFailure \<Rightarrow> [])"

text \<open>\<^verbatim>\<open>fmt.Errorf("%w" + rest, sentinel)\<close>.\<close>

definition wrapped :: "sops_kind \<Rightarrow> string \<Rightarrow> sops_error" where
  "wrapped k rest = (k, sentinel k @ rest)"

definition other_error :: "string \<Rightarrow> sops_error" where
  "other_error s = (OtherFailure, s)"


definition shorten :: "string \<Rightarrow> string" where
  "shorten s = (if 80 < length s then take 79 s @ ellipsis else s)"

definition single_line :: "string \<Rightarrow> string" where
  "single_line s =
     (let s = trim_space s;
          s = (case index_byte s (CHR 10) of Some i \<Rightarrow> take i s | None \<Rightarrow> s)
      in join_with '' '' (str_fields s))"

text \<open>\<^verbatim>\<open>longTokenRe\<close>, \<^verbatim>\<open>[A-Za-z0-9+/=_-]{24,}\<close>: a maximal run of 24 token characters or more.\<close>

definition token_char :: "char \<Rightarrow> bool" where
  "token_char c \<longleftrightarrow> is_alnum c \<or> c \<in> {CHR ''+'', CHR ''/'', CHR ''='', CHR ''_'', CHR ''-''}"

definition redacted :: string where
  "redacted = ''[redacted]''"

definition redact_run :: "string \<Rightarrow> string" where
  "redact_run r = (if 24 \<le> length r then redacted else r)"

fun redact_tokens :: "string \<Rightarrow> string \<Rightarrow> string" where
  "redact_tokens r [] = redact_run r"
| "redact_tokens r (c # cs) =
     (if token_char c then redact_tokens (r @ [c]) cs else redact_run r @ c # redact_tokens [] cs)"

definition redact_line :: "string \<Rightarrow> string" where
  "redact_line stderr =
     (let s = redact_tokens [] (single_line stderr);
          s = (if 160 < length s then take 159 s @ ellipsis else s)
      in if s = [] then ''run `sops --decrypt <file>` manually for details'' else s)"

section \<open>How a failed run is reported\<close>

definition contains_any :: "string \<Rightarrow> string list \<Rightarrow> bool" where
  "contains_any s ps \<longleftrightarrow> list_ex (contains_sub s) ps"

definition unencrypted_marks :: "string list" where
  "unencrypted_marks = [''sops metadata not found'', ''no sops metadata'', ''not encrypted'']"

definition no_identity_marks :: "string list" where
  "no_identity_marks = [''failed to load age identities'', ''no age identity'']"

definition mismatch_marks :: "string list" where
  "mismatch_marks = [''identity did not match'', ''incorrect identity'', ''failed to create reader'',
     ''did not find keys in locations'', ''failed to get the data key'', ''decryption failed'', ''unable to decrypt'']"

text \<open>\<open>late\<close>: the deadline of the run has passed; \<open>code\<close> is its exit code, or -1.\<close>

definition classify_sops_error :: "bool \<Rightarrow> int \<Rightarrow> string \<Rightarrow> sops_error" where
  "classify_sops_error late code stderr =
     (if late then wrapped NoIdentity '': decryption exceeded the 30s budget''
      else (let s = to_lower stderr
            in if contains_any s unencrypted_marks then wrapped Unencrypted []
               else if contains_any s no_identity_marks then wrapped NoIdentity []
               else if contains_any s mismatch_marks then wrapped IdentityMismatch []
               else other_error (''sops decrypt failed (exit '' @ itoa code @ ''): '' @ redact_line stderr)))"

definition sops_encrypt_error :: "bool \<Rightarrow> int \<Rightarrow> string \<Rightarrow> sops_error" where
  "sops_encrypt_error late code stderr =
     (if late then wrapped NoIdentity '': encryption exceeded the 30s budget''
      else (let s = to_lower stderr
            in if contains_any s unencrypted_marks then wrapped Unencrypted []
               else if contains_any s no_identity_marks then wrapped NoIdentity []
               else if contains_any s (mismatch_marks @ [''encryption failed'', ''unknown age recipient''])
                    then wrapped IdentityMismatch []
               else other_error (''sops encrypt failed (exit '' @ itoa code @ ''): '' @ redact_line stderr)))"

section \<open>Decrypting\<close>

datatype 'a sops_run = NotOnPath | LookupFailed string | RunFailed bool int string | Printed 'a

text \<open>
  The whole part of a \<^verbatim>\<open>float64\<close> as \<^verbatim>\<open>formatFloat\<close> tests it: the value is an integer
  that fits \<^verbatim>\<open>int64\<close>.  A number too large for \<^verbatim>\<open>float64\<close> does not decode.
\<close>

definition float_value :: "rat \<Rightarrow> rat" where
  "float_value r =
     (let (n, d) = quotient_of \<bar>r\<bar>; (q, e) = float_of (nat n) (nat d)
      in if \<bar>r\<bar> \<le> 1 / 2 ^ 1075 then 0
         else (if 0 \<le> e then of_nat q * 2 ^ nat e else of_nat q / 2 ^ nat (- e)) * (if r < 0 then - 1 else 1))"

definition float_overflows :: "rat \<Rightarrow> bool" where
  "float_overflows r \<longleftrightarrow> 2 ^ 1024 - 2 ^ 970 \<le> \<bar>r\<bar>"

definition format_float :: "(rat \<Rightarrow> string) \<Rightarrow> rat \<Rightarrow> string" where
  "format_float fv r =
     (let v = float_value r
      in if v = of_int \<lfloor>v\<rfloor> \<and> - (2 ^ 63) \<le> \<lfloor>v\<rfloor> \<and> \<lfloor>v\<rfloor> < 2 ^ 63 then itoa \<lfloor>v\<rfloor> else fv r)"

text \<open>One entry of \<^verbatim>\<open>flatFromJSON\<close>: a string, a number as text, \<^verbatim>\<open>null\<close> as the empty string.\<close>

fun scalar_text :: "(rat \<Rightarrow> string) \<Rightarrow> json \<Rightarrow> string option" where
  "scalar_text fv JNull = Some []"
| "scalar_text fv (JStr s) = Some s"
| "scalar_text fv (JInt i) = (if float_overflows (of_int i) then None else Some (format_float fv (of_int i)))"
| "scalar_text fv (JDec r) = (if float_overflows r then None else Some (format_float fv r))"
| "scalar_text fv _ = None"

fun flat_from_json :: "(rat \<Rightarrow> string) \<Rightarrow> (string \<times> json) list \<Rightarrow> sops_error + (string \<times> string) list" where
  "flat_from_json fv [] = Inr []"
| "flat_from_json fv ((name, raw) # src) =
     (case scalar_text fv raw of
        None \<Rightarrow> Inl (wrapped Malformed ('': secret '' @ go_quote name @ '' is not a scalar string or number''))
      | Some v \<Rightarrow> (case flat_from_json fv src of Inl e \<Rightarrow> Inl e | Inr m \<Rightarrow> Inr ((name, v) # m)))"

text \<open>
  \<^verbatim>\<open>docJSON\<close>.  A map field takes the entries of every key that names it; \<^verbatim>\<open>null\<close> makes it nil.
\<close>

definition map_field :: "string \<Rightarrow> (string \<times> json) list \<Rightarrow> (string \<times> json) list option \<Rightarrow> (string \<times> json) list option option" where
  "map_field n kvs m0 = fold (\<lambda>(k, v) acc.
      case acc of None \<Rightarrow> None
      | Some m \<Rightarrow> (if \<not> equal_fold k n then Some m
                   else (case v of
                           JNull \<Rightarrow> Some None
                         | JObj d \<Rightarrow> Some (Some (fold (\<lambda>(a, b). put a b) d (case m of None \<Rightarrow> [] | Some x \<Rightarrow> x)))
                         | _ \<Rightarrow> None))) kvs (Some m0)"

record doc_json =
  dj_secrets :: "(string \<times> json) list option"
  dj_ssh_keys :: "(string \<times> json) list option"
  dj_passwords :: "(string \<times> json) list option"

definition cloud_init_fields :: "(string \<times> json) list \<Rightarrow> doc_json \<Rightarrow> doc_json option" where
  "cloud_init_fields kvs doc = fold (\<lambda>(k, v) acc.
      case acc of None \<Rightarrow> None
      | Some doc \<Rightarrow> (if \<not> equal_fold k ''cloud-init'' then Some doc
                     else (case v of
                             JNull \<Rightarrow> Some doc
                           | JObj d \<Rightarrow>
                               (case (map_field ''ssh-keys'' d (dj_ssh_keys doc), map_field ''passwords'' d (dj_passwords doc)) of
                                  (Some s, Some p) \<Rightarrow> Some (doc\<lparr>dj_ssh_keys := s, dj_passwords := p\<rparr>)
                                | _ \<Rightarrow> None)
                           | _ \<Rightarrow> None))) kvs (Some doc)"

definition empty_doc :: doc_json where
  "empty_doc = \<lparr>dj_secrets = None, dj_ssh_keys = None, dj_passwords = None\<rparr>"

definition decode_doc :: "json option \<Rightarrow> doc_json option" where
  "decode_doc j =
     (case j of
        Some JNull \<Rightarrow> Some empty_doc
      | Some (JObj kvs) \<Rightarrow>
          (case map_field ''secrets'' kvs None of
             None \<Rightarrow> None
           | Some m \<Rightarrow> cloud_init_fields kvs (empty_doc\<lparr>dj_secrets := m\<rparr>))
      | _ \<Rightarrow> None)"

definition entries :: "'a list option \<Rightarrow> 'a list" where
  "entries m = (case m of None \<Rightarrow> [] | Some x \<Rightarrow> x)"

text \<open>What an error of \<^verbatim>\<open>flatFromJSON\<close> becomes under \<^verbatim>\<open>%w: where: %v\<close>.\<close>

definition in_block :: "string \<Rightarrow> sops_error + 'a \<Rightarrow> sops_error + 'a" where
  "in_block blk r = (case r of Inl (k, t) \<Rightarrow> Inl (wrapped Malformed ('': '' @ blk @ '': '' @ t)) | Inr x \<Rightarrow> Inr x)"

definition read_doc :: "(rat \<Rightarrow> string) \<Rightarrow> string \<Rightarrow> doc_json \<Rightarrow> sops_error + secrets_file" where
  "read_doc fv path doc =
     (if dj_secrets doc = None \<and> entries (dj_ssh_keys doc) = [] \<and> entries (dj_passwords doc) = []
      then Inl (wrapped Malformed ('': '' @ shorten path @
        '' did not contain a SOPS `secrets:` or `cloud-init:` mapping (point secrets-file at the SOPS file, not the proxops config)''))
      else (case flat_from_json fv (entries (dj_secrets doc)) of
              Inl e \<Rightarrow> Inl e
            | Inr vals \<Rightarrow>
                (case in_block ''cloud-init.ssh-keys'' (flat_from_json fv (entries (dj_ssh_keys doc))) of
                   Inl e \<Rightarrow> Inl e
                 | Inr ssh \<Rightarrow>
                     (case in_block ''cloud-init.passwords'' (flat_from_json fv (entries (dj_passwords doc))) of
                        Inl e \<Rightarrow> Inl e
                      | Inr pwd \<Rightarrow> Inr \<lparr>sf_values = vals, sf_ssh_keys = ssh, sf_passwords = pwd,
                                         sf_source = path, sf_loaded = False\<rparr>))))"

definition decrypt_with_sops :: "(rat \<Rightarrow> string) \<Rightarrow> string \<Rightarrow> json option sops_run \<Rightarrow> sops_error + secrets_file" where
  "decrypt_with_sops fv path run =
     (case run of
        NotOnPath \<Rightarrow> Inl (wrapped BinaryMissing [])
      | LookupFailed e \<Rightarrow> Inl (other_error (''locate sops: '' @ e))
      | RunFailed late code stderr \<Rightarrow> Inl (classify_sops_error late code stderr)
      | Printed j \<Rightarrow>
          (case decode_doc j of
             None \<Rightarrow> Inl (wrapped Malformed ('': '' @ json_err))
           | Some doc \<Rightarrow> read_doc fv path doc))"

definition mark_loaded :: "sops_error + secrets_file \<Rightarrow> sops_error + secrets_file" where
  "mark_loaded r = (case r of Inl e \<Rightarrow> Inl e | Inr s \<Rightarrow> Inr (s\<lparr>sf_loaded := True\<rparr>))"

definition validate_path :: "string \<Rightarrow> sops_error option" where
  "validate_path path = (if trim_space path = [] then Some (other_error ''secrets: empty file path'') else None)"

definition decrypt_file :: "(rat \<Rightarrow> string) \<Rightarrow> (string \<Rightarrow> json option sops_run) \<Rightarrow> string \<Rightarrow> sops_error + secrets_file" where
  "decrypt_file fv sops path =
     (case validate_path path of
        Some e \<Rightarrow> Inl e
      | None \<Rightarrow> mark_loaded (decrypt_with_sops fv path (sops path)))"

section \<open>Rendering\<close>

definition replace_all :: "char \<Rightarrow> string \<Rightarrow> string \<Rightarrow> string" where
  "replace_all c t s = concat (map (\<lambda>x. if x = c then t else [x]) s)"

definition sorted_keys :: "(string \<times> string) list \<Rightarrow> string list" where
  "sorted_keys m = sort_strings (map fst m)"

definition yaml_scalar_safe :: "string \<Rightarrow> string" where
  "yaml_scalar_safe k =
     (if k = [] \<or> hd k = CHR ''-'' \<or> CHR '':'' \<in> set k
      then [CHR 34] @ replace_all (CHR 34) [CHR 92, CHR 34] k @ [CHR 34] else k)"

definition yaml_scalar_quoted :: "string \<Rightarrow> string" where
  "yaml_scalar_quoted v =
     (let v = replace_all (CHR 92) [CHR 92, CHR 92] v;
          v = replace_all (CHR 34) [CHR 92, CHR 34] v;
          v = replace_all (CHR 10) [CHR 92, CHR ''n''] v
      in [CHR 34] @ v @ [CHR 34])"

definition yaml_line :: "string \<Rightarrow> string \<Rightarrow> string \<Rightarrow> string" where
  "yaml_line indent k v = indent @ yaml_scalar_safe k @ '': '' @ yaml_scalar_quoted v @ [CHR 10]"

definition yaml_block :: "string \<Rightarrow> (string \<times> string) list \<Rightarrow> string" where
  "yaml_block indent m =
     concat (map (\<lambda>k. yaml_line indent k (case map_of m k of Some v \<Rightarrow> v | None \<Rightarrow> [])) (sorted_keys m))"

definition titled :: "string \<Rightarrow> string \<Rightarrow> (string \<times> string) list \<Rightarrow> string" where
  "titled title indent m = (if m = [] then [] else title @ [CHR 10] @ yaml_block indent m)"

definition encode_sops_yaml :: "secrets_file \<Rightarrow> string" where
  "encode_sops_yaml doc =
     titled ''secrets:'' ''  '' (sf_values doc) @
     (if sf_ssh_keys doc = [] \<and> sf_passwords doc = [] then []
      else ''cloud-init:'' @ [CHR 10] @
           titled ''  ssh-keys:'' ''    '' (sf_ssh_keys doc) @ titled ''  passwords:'' ''    '' (sf_passwords doc))"

section \<open>Encrypting\<close>

text \<open>
  The file system as it matters here: the content of each path.  \<open>write_end\<close> is how writing the new
  file ended; a write that failed midway leaves what it had written.
\<close>

type_synonym files = "string \<Rightarrow> string option"

datatype write_end = OpenFailed string | WriteFailed string string | SyncFailed string | CloseFailed string | Written

definition atomic_write :: "write_end \<Rightarrow> string \<Rightarrow> string \<Rightarrow> files \<Rightarrow> string option \<times> files" where
  "atomic_write ev path data fs =
     (case ev of
        OpenFailed e \<Rightarrow> (Some e, fs)
      | WriteFailed part e \<Rightarrow> (Some e, fs(path \<mapsto> part))
      | SyncFailed e \<Rightarrow> (Some e, fs(path \<mapsto> data))
      | CloseFailed e \<Rightarrow> (Some e, fs(path \<mapsto> data))
      | Written \<Rightarrow> (None, fs(path \<mapsto> data)))"

record encrypt_env =
  ev_sops :: "string \<Rightarrow> string \<Rightarrow> string sops_run"
  ev_write :: write_end
  ev_rename :: "string option"

text \<open>\<open>ev_sops plaintext ages\<close> is the run of \<^verbatim>\<open>sops encrypt\<close> with the plaintext on its input.\<close>

definition encrypt_sops :: "encrypt_env \<Rightarrow> string \<Rightarrow> string list \<Rightarrow> sops_error + string" where
  "encrypt_sops ev plaintext recipients =
     (case ev_sops ev plaintext (join_with '','' recipients) of
        NotOnPath \<Rightarrow> Inl (wrapped BinaryMissing [])
      | LookupFailed e \<Rightarrow> Inl (wrapped BinaryMissing [])
      | RunFailed late code stderr \<Rightarrow> Inl (sops_encrypt_error late code stderr)
      | Printed b \<Rightarrow> Inr b)"

definition tmp_path :: "string \<Rightarrow> string" where
  "tmp_path dest = dest @ ''.proxops-tmp''"

definition encrypt_to_file :: "encrypt_env \<Rightarrow> secrets_file \<Rightarrow> string list \<Rightarrow> string \<Rightarrow> files \<Rightarrow> sops_error option \<times> files" where
  "encrypt_to_file ev doc recipients dest fs =
     (if recipients = []
      then (Some (other_error (''secrets: no age recipients supplied; ProxOps never re-encrypts without the original recipient(s) (task '' @ section_sign @ ''12)'')), fs)
      else (case encrypt_sops ev (encode_sops_yaml doc) recipients of
              Inl e \<Rightarrow> (Some e, fs)
            | Inr b \<Rightarrow>
                (case atomic_write (ev_write ev) (tmp_path dest) b fs of
                   (Some e, fs) \<Rightarrow> (Some (other_error e), fs)
                 | (None, fs) \<Rightarrow>
                     (case ev_rename ev of
                        Some e \<Rightarrow> (Some (other_error (''rename encrypted file into place: '' @ e)), fs(tmp_path dest := None))
                      | None \<Rightarrow> (None, fs(dest := fs (tmp_path dest), tmp_path dest := None))))))"

text \<open>\<open>meta\<close> is what reading the file and decoding its \<^verbatim>\<open>sops.age\<close> list gives.\<close>

definition read_age_recipients :: "(string \<Rightarrow> string + string list) \<Rightarrow> string \<Rightarrow> sops_error + string list" where
  "read_age_recipients meta path =
     (case validate_path path of
        Some e \<Rightarrow> Inl e
      | None \<Rightarrow>
          (case meta path of
             Inl e \<Rightarrow> Inl (other_error e)
           | Inr rs \<Rightarrow>
               (let out = filter (\<lambda>r. r \<noteq> []) rs
                in if out = []
                   then Inl (other_error (''secrets: '' @ shorten path @
                          '' has no age recipients in its sops metadata; cannot re-encrypt (task '' @ section_sign @ ''12)''))
                   else Inr out)))"

end
