(* ===== verification/Config.thy ===== *)
theory Config
  imports Composition Pve_Errors Secrets
begin

text \<open>
  \<^verbatim>\<open>internal/config/config.go\<close>: the configuration of a process, how it is found, read,
  completed with secrets and checked.

  The host is the argument \<open>host\<close>: the working directory, the home directory, the files and their
  listing, the environment, the sops program.  \<open>h_yaml\<close> is \<^verbatim>\<open>yaml.Unmarshal\<close> of a
  text over a configuration, \<open>h_url\<close> the scheme and the host \<^verbatim>\<open>url.Parse\<close> finds
  (\<open>None\<close> when it objects).  A Go map is an association list with distinct keys; \<open>pc_clusters\<close> is
  \<open>None\<close> when the map is nil, since assigning to a nil map panics.
\<close>

section \<open>Data\<close>

record pve_secret_refs =
  sr_user :: string
  sr_token_id :: string
  sr_token :: string
  sr_password :: string

record pve_cred_refs =
  cd_pve :: pve_secret_refs
  cd_git_token :: string

record pve_cluster =
  cl_base_url :: string
  cl_nodes :: "string list"
  cl_secrets_file :: string
  cl_secrets :: pve_cred_refs

record pve_config =
  pc_auth :: string
  pc_user :: string
  pc_token_id :: string
  pc_token :: string
  pc_token_value :: string
  pc_password :: string
  pc_ca_file :: string
  pc_clusters :: "(string \<times> pve_cluster) list option"

record git_config =
  gc_url :: string
  gc_token :: string
  gc_branch :: string
  gc_path :: string

record reconcile_config =
  rf_poll_interval :: int
  rf_task_timeout :: int
  rf_prune_budget :: int

record sops_cluster =
  sx_user :: string
  sx_token_id :: string
  sx_token :: string
  sx_password :: string
  sx_git_token :: string
  sx_ssh_keys :: "(string \<times> string) list"
  sx_passwords :: "(string \<times> string) list"
  sx_source :: string

record process_config =
  cf_log_level :: string
  cf_pve :: pve_config
  cf_git :: git_config
  cf_rec :: reconcile_config
  cf_listen :: string
  cf_data_dir :: string
  cf_sops :: "(string \<times> sops_cluster) list"

record host =
  h_cwd :: "string + string"
  h_home :: "string option"
  h_read :: "string \<Rightarrow> string + string"
  h_exists :: "string \<Rightarrow> bool"
  h_list :: "string \<Rightarrow> dir_listing"
  h_yaml :: "string \<Rightarrow> process_config \<Rightarrow> string + process_config"
  h_url :: "string \<Rightarrow> (string \<times> string) option"
  h_env :: "string \<Rightarrow> string"
  h_sops :: "string \<Rightarrow> json option sops_run"
  h_float :: "rat \<Rightarrow> string"

definition auth_token :: string where "auth_token = ''token''"

definition auth_ticket :: string where "auth_ticket = ''ticket''"

definition cluster_map :: "process_config \<Rightarrow> (string \<times> pve_cluster) list" where
  "cluster_map c = (case pc_clusters (cf_pve c) of None \<Rightarrow> [] | Some m \<Rightarrow> m)"

definition cluster_names :: "process_config \<Rightarrow> string list" where
  "cluster_names c = sort_strings (map fst (cluster_map c))"

definition cluster_of :: "process_config \<Rightarrow> string \<Rightarrow> pve_cluster option" where
  "cluster_of c name = map_of (cluster_map c) name"

text \<open>The zero value an absent key of a Go map gives.\<close>

definition no_sops :: sops_cluster where
  "no_sops = \<lparr>sx_user = [], sx_token_id = [], sx_token = [], sx_password = [], sx_git_token = [],
              sx_ssh_keys = [], sx_passwords = [], sx_source = []\<rparr>"

definition sops_of :: "process_config \<Rightarrow> string \<Rightarrow> sops_cluster" where
  "sops_of c name = (case map_of (cf_sops c) name of None \<Rightarrow> no_sops | Some s \<Rightarrow> s)"

section \<open>Paths\<close>

text \<open>\<^verbatim>\<open>filepath.Dir\<close>.\<close>

definition dir_path :: "string \<Rightarrow> string" where
  "dir_path p = clean_path (case last_index_byte p (CHR ''/'') of None \<Rightarrow> [] | Some i \<Rightarrow> take (Suc i) p)"

definition expand_tilde :: "host \<Rightarrow> string \<Rightarrow> string" where
  "expand_tilde h p =
     (if p = [] then p
      else if p = ''~'' then (case h_home h of Some home \<Rightarrow> home | None \<Rightarrow> p)
      else if has_prefix p ''~/'' then (case h_home h of Some home \<Rightarrow> join_path home (drop 2 p) | None \<Rightarrow> p)
      else p)"

definition abs_dir :: "host \<Rightarrow> string \<Rightarrow> string" where
  "abs_dir h dir =
     (if dir = [] then ''.''
      else if is_rooted dir then dir
      else (case h_cwd h of Inl e \<Rightarrow> dir | Inr wd \<Rightarrow> join_path wd dir))"

text \<open>Cleaning a path never makes it longer, and makes it shorter when it ends with a slash.\<close>

definition weight :: "string list \<Rightarrow> nat" where
  "weight es = sum_list (map (\<lambda>e. Suc (length e)) es)"

lemma weight_simps [simp]: "weight [] = 0" "weight (e # es) = Suc (length e) + weight es" "weight (xs @ ys) = weight xs + weight ys"
  by (simp_all add: weight_def)

lemma weight_rev [simp]: "weight (rev xs) = weight xs"
  by (simp add: weight_def rev_map [symmetric])

lemma weight_split: "weight (split_on d s) = Suc (length s)"
  by (induction s) (auto split: list.splits)

lemma length_join: "xs \<noteq> [] \<Longrightarrow> Suc (length (join_with [d] xs)) = weight xs"
  by (induction "[d]" xs rule: join_with.induct) auto

lemma clean_elems_weight:
  "weight (clean_elems rooted out es) + length (filter (\<lambda>e. e = []) es) \<le> weight out + weight es"
proof (induction rooted out es rule: clean_elems.induct)
  case (2 rooted out e es)
  then show ?case by (cases out) (auto split: if_splits)
qed simp

lemma path_elems_weight:
  "weight (path_elems p) + length (filter (\<lambda>e. e = []) (split_on (CHR ''/'') p)) \<le> Suc (length p)"
  using clean_elems_weight [of "is_rooted p" "[]" "split_on (CHR ''/'') p"]
  by (simp add: path_elems_def weight_split)

lemma split_on_ends: "s \<noteq> [] \<Longrightarrow> List.last s = d \<Longrightarrow> \<exists>xs. xs \<noteq> [] \<and> split_on d s = xs @ [[]]"
proof (induction s)
  case (Cons c cs)
  show ?case
  proof (cases "cs = []")
    case False
    with Cons obtain xs where "xs \<noteq> []" "split_on d cs = xs @ [[]]" by auto
    then show ?thesis by (cases xs) auto
  qed (use Cons in auto)
qed simp

lemma clean_path_shorter:
  assumes "List.last p = CHR ''/''" "2 \<le> length p"
  shows "length (clean_path p) < length p"
proof -
  from assms have "p \<noteq> []" by auto
  obtain xs where xs: "xs \<noteq> []" "split_on (CHR ''/'') p = xs @ [[]]" using split_on_ends [OF \<open>p \<noteq> []\<close> assms(1)] by blast
  have w: "weight (path_elems p) + Suc (length (filter (\<lambda>e. e = []) xs)) \<le> Suc (length p)"
    using path_elems_weight [of p] by (simp add: xs(2))
  have j: "path_elems p \<noteq> [] \<Longrightarrow> Suc (length (join_with ''/'' (path_elems p))) = weight (path_elems p)"
    by (rule length_join)
  show ?thesis
  proof (cases "is_rooted p")
    case True
    then obtain r where "p = CHR ''/'' # r" by (auto simp: is_rooted_def has_prefix_iff)
    with xs have "hd xs = []" by (cases xs) auto
    with xs(1) have "1 \<le> length (filter (\<lambda>e. e = []) xs)" by (cases xs) auto
    with w j assms(2) True show ?thesis
      by (cases "path_elems p = []") (auto simp: clean_path_def)
  next
    case False
    with w j assms(2) show ?thesis by (cases "path_elems p = []") (auto simp: clean_path_def)
  qed
qed

section \<open>The repository\<close>

text \<open>The length of a path, with the empty path and the dot where the walk may pass last.\<close>

definition walk_measure :: "string \<Rightarrow> nat" where
  "walk_measure p = (if p = [] then 2 else if p = ''.'' then 1 else Suc (length p))"

lemma walk_measure_le: "walk_measure p \<le> max 2 (Suc (length p))"
  by (simp add: walk_measure_def)

lemma last_index_byte_Some:
  "last_index_byte p d = Some i \<Longrightarrow> i < length p \<and> p ! i = d"
  by (auto simp: last_index_byte_def rev_nth index_byte_Some split: option.splits)

lemma dir_path_decreases: "dir_path p \<noteq> p \<Longrightarrow> walk_measure (dir_path p) < walk_measure p"
proof (cases "last_index_byte p (CHR ''/'')")
  case None
  assume "dir_path p \<noteq> p"
  moreover have "clean_path [] = ''.''" by code_simp
  ultimately show ?thesis using None by (auto simp: dir_path_def walk_measure_def)
next
  case (Some i)
  assume ne: "dir_path p \<noteq> p"
  from Some have i: "i < length p" "p ! i = CHR ''/''" by (auto dest: last_index_byte_Some)
  define q where "q = take (Suc i) p"
  have q: "dir_path p = clean_path q" "length q = Suc i" "List.last q = CHR ''/''"
    using Some i by (simp_all add: q_def dir_path_def take_Suc_conv_app_nth)
  show ?thesis
  proof (cases "i = 0")
    case True
    with i have "q = ''/''" by (cases p) (auto simp: q_def)
    moreover have "clean_path ''/'' = ''/''" by code_simp
    ultimately have d: "dir_path p = ''/''" using q by simp
    with ne i True have "1 < length p" by (cases p) (auto simp: Suc_lessI)
    with d show ?thesis by (auto simp: walk_measure_def)
  next
    case False
    with q have "length (dir_path p) < Suc i" using clean_path_shorter [of q] by simp
    with i False show ?thesis
      using walk_measure_le [of "dir_path p"] by (auto simp: walk_measure_def)
  qed
qed

text \<open>The loop of \<^verbatim>\<open>walkUpForGitRoot\<close>: up to the first directory that has a \<^verbatim>\<open>.git\<close> entry.\<close>

function walk_loop :: "host \<Rightarrow> string \<Rightarrow> string" where
  "walk_loop h cur =
     (if h_exists h (join_path cur ''.git'') then cur
      else (let parent = dir_path cur in if parent = cur then [] else walk_loop h parent))"
  by auto
termination
  by (relation "measure (\<lambda>(h, cur). walk_measure cur)") (simp_all add: dir_path_decreases)

declare walk_loop.simps [simp del]

definition walk_up :: "host \<Rightarrow> string \<Rightarrow> string" where
  "walk_up h dir = (if dir = [] \<or> dir = ''.'' then [] else walk_loop h dir)"

definition discover_git_root :: "host \<Rightarrow> string \<Rightarrow> string" where
  "discover_git_root h dir = walk_up h (abs_dir h dir)"

section \<open>Defaults and loading\<close>

definition default_data_dir :: "host \<Rightarrow> string" where
  "default_data_dir h = (case h_home h of Some home \<Rightarrow> join_path home ''.local/share/proxops'' | None \<Rightarrow> ''/tmp/proxops-data'')"

definition no_pve :: pve_config where
  "no_pve = \<lparr>pc_auth = auth_token, pc_user = [], pc_token_id = [], pc_token = [], pc_token_value = [],
             pc_password = [], pc_ca_file = [], pc_clusters = Some []\<rparr>"

definition defaults :: "host \<Rightarrow> process_config" where
  "defaults h =
     \<lparr>cf_log_level = ''info'', cf_pve = no_pve,
      cf_git = \<lparr>gc_url = [], gc_token = [], gc_branch = ''main'', gc_path = []\<rparr>,
      cf_rec = \<lparr>rf_poll_interval = 30 * sec_ns, rf_task_timeout = 30 * 60 * sec_ns, rf_prune_budget = 3\<rparr>,
      cf_listen = ''127.0.0.1:9494'', cf_data_dir = default_data_dir h, cf_sops = []\<rparr>"

definition set_git_path :: "string \<Rightarrow> process_config \<Rightarrow> process_config" where
  "set_git_path p c = c\<lparr>cf_git := (cf_git c)\<lparr>gc_path := p\<rparr>\<rparr>"

definition set_clusters :: "(string \<times> pve_cluster) list option \<Rightarrow> process_config \<Rightarrow> process_config" where
  "set_clusters m c = c\<lparr>cf_pve := (cf_pve c)\<lparr>pc_clusters := m\<rparr>\<rparr>"

definition expand_paths :: "host \<Rightarrow> process_config \<Rightarrow> process_config" where
  "expand_paths h c =
     c\<lparr>cf_data_dir := expand_tilde h (cf_data_dir c),
       cf_pve := (cf_pve c)\<lparr>pc_ca_file := expand_tilde h (pc_ca_file (cf_pve c))\<rparr>\<rparr>"

text \<open>A relative secrets file is taken from the directory of the configuration file.\<close>

definition resolve_secrets_file :: "string \<Rightarrow> pve_cluster \<Rightarrow> pve_cluster" where
  "resolve_secrets_file base cl =
     (if cl_secrets_file cl = [] then cl
      else if is_rooted (cl_secrets_file cl) then cl
      else cl\<lparr>cl_secrets_file := join_path base (clean_path (''./'' @ cl_secrets_file cl))\<rparr>)"

definition resolve_secrets_files :: "string \<Rightarrow> process_config \<Rightarrow> process_config" where
  "resolve_secrets_files base c =
     (if base \<noteq> [] \<and> base \<noteq> ''.''
      then set_clusters (map_option (map (\<lambda>(n, cl). (n, resolve_secrets_file base cl))) (pc_clusters (cf_pve c))) c
      else c)"

definition no_tree_text :: "string \<Rightarrow> string" where
  "no_tree_text path =
     ''git.path: '' @ go_quote ''.'' @ '' was set in '' @ path @
     '' but no .git worktree was found in any ancestor directory; proxops will not guess the git tree '' @ long_dash @
     '' keep this config inside its ProxOps GitOps repository and run proxops there, or set an explicit git.path''"

definition anchor_git_path :: "host \<Rightarrow> string \<Rightarrow> process_config \<Rightarrow> string + process_config" where
  "anchor_git_path h path c =
     (if gc_path (cf_git c) = ''.'' then
        (let r = walk_up h (dir_path path) in if r = [] then Inl (no_tree_text path) else Inr (set_git_path r c))
      else Inr c)"

definition load_config :: "host \<Rightarrow> string \<Rightarrow> string + process_config" where
  "load_config h path0 =
     (if path0 = [] then Inr (defaults h)
      else (case (if is_rooted path0 then Inr path0 else map_sum id (\<lambda>wd. join_path wd path0) (h_cwd h)) of
              Inl e \<Rightarrow> Inl (''resolve config path '' @ path0 @ '': '' @ e)
            | Inr path \<Rightarrow>
                (case h_read h path of
                   Inl e \<Rightarrow> Inl (''read config: '' @ e)
                 | Inr b \<Rightarrow>
                     (case h_yaml h b (defaults h) of
                        Inl e \<Rightarrow> Inl (''parse config '' @ path @ '': '' @ e)
                      | Inr c \<Rightarrow> anchor_git_path h path (resolve_secrets_files (dir_path path) (expand_paths h c))))))"

section \<open>Secrets of the clusters\<close>

definition shorten_path :: "string \<Rightarrow> string" where
  "shorten_path p = (if 80 < length p then take 79 p @ ellipsis else p)"

definition sops_key_missing :: "string \<Rightarrow> string \<Rightarrow> string \<Rightarrow> string \<Rightarrow> string" where
  "sops_key_missing cluster file_name key field =
     ''cluster '' @ cluster @ '': SOPS file '' @ shorten_path file_name @ '' declares key '' @ go_quote key @ '' for '' @ field @
     '', but that key is missing or empty in the decrypted SOPS document; proxops fails closed rather than falling back to a bootstrap credential for that field '' @
     long_dash @ '' add the key to the encrypted file or drop the reference from config.yaml''"

text \<open>One reference: no reference leaves the field empty.\<close>

definition sops_field :: "string \<Rightarrow> string \<Rightarrow> secrets_file \<Rightarrow> string \<Rightarrow> string \<Rightarrow> string + string" where
  "sops_field name file_name doc key field =
     (if key = [] then Inr []
      else (case sf_get doc key of None \<Rightarrow> Inl (sops_key_missing name file_name key field) | Some v \<Rightarrow> Inr v))"

definition sops_cluster_secrets :: "string \<Rightarrow> pve_cluster \<Rightarrow> secrets_file \<Rightarrow> string + sops_cluster" where
  "sops_cluster_secrets name cl doc =
     (let f = sops_field name (cl_secrets_file cl) doc; refs = cd_pve (cl_secrets cl)
      in case f (sr_user refs) ''pve.user'' of Inl e \<Rightarrow> Inl e | Inr user \<Rightarrow>
         (case f (sr_token_id refs) ''pve.token-id'' of Inl e \<Rightarrow> Inl e | Inr token_id \<Rightarrow>
         (case f (sr_token refs) ''pve.token'' of Inl e \<Rightarrow> Inl e | Inr token \<Rightarrow>
         (case f (sr_password refs) ''pve.password'' of Inl e \<Rightarrow> Inl e | Inr password \<Rightarrow>
         (case f (cd_git_token (cl_secrets cl)) ''git token'' of Inl e \<Rightarrow> Inl e | Inr git_token \<Rightarrow>
           Inr \<lparr>sx_user = user, sx_token_id = token_id, sx_token = token, sx_password = password,
                sx_git_token = git_token, sx_ssh_keys = sf_ssh_keys doc, sx_passwords = sf_passwords doc,
                sx_source = cl_secrets_file cl\<rparr>)))))"

definition no_cluster :: pve_cluster where
  "no_cluster = \<lparr>cl_base_url = [], cl_nodes = [], cl_secrets_file = [],
     cl_secrets = \<lparr>cd_pve = \<lparr>sr_user = [], sr_token_id = [], sr_token = [], sr_password = []\<rparr>, cd_git_token = []\<rparr>\<rparr>"

definition cluster_get :: "process_config \<Rightarrow> string \<Rightarrow> pve_cluster" where
  "cluster_get c name = (case cluster_of c name of None \<Rightarrow> no_cluster | Some cl \<Rightarrow> cl)"

fun resolve_sops_loop :: "host \<Rightarrow> process_config \<Rightarrow> string list \<Rightarrow> (string \<times> sops_cluster) list \<Rightarrow> string + (string \<times> sops_cluster) list" where
  "resolve_sops_loop h c [] acc = Inr acc"
| "resolve_sops_loop h c (name # names) acc =
     (let cl = cluster_get c name
      in if cl_secrets_file cl = [] then resolve_sops_loop h c names acc
         else (case decrypt_file (h_float h) (h_sops h) (cl_secrets_file cl) of
                 Inl (k, e) \<Rightarrow> Inl (''cluster '' @ name @ '': SOPS decrypt '' @ cl_secrets_file cl @ '': '' @ e)
               | Inr doc \<Rightarrow>
                   (case sops_cluster_secrets name cl doc of
                      Inl e \<Rightarrow> Inl e
                    | Inr sx \<Rightarrow> resolve_sops_loop h c names (put name sx acc))))"

definition resolve_sops :: "host \<Rightarrow> process_config \<Rightarrow> string + process_config" where
  "resolve_sops h c =
     (case resolve_sops_loop h c (cluster_names c) [] of
        Inl e \<Rightarrow> Inl e | Inr m \<Rightarrow> Inr (c\<lparr>cf_sops := m\<rparr>))"

section \<open>The environment\<close>

definition overlay :: "string \<Rightarrow> (process_config \<Rightarrow> process_config) \<Rightarrow> process_config \<Rightarrow> process_config" where
  "overlay v f c = (if v = [] then c else f c)"

definition on_pve :: "(pve_config \<Rightarrow> pve_config) \<Rightarrow> process_config \<Rightarrow> process_config" where
  "on_pve f c = c\<lparr>cf_pve := f (cf_pve c)\<rparr>"

definition overlay_from_env :: "host \<Rightarrow> process_config \<Rightarrow> process_config" where
  "overlay_from_env h c =
     (let e = h_env h;
          c = overlay (e ''PROXOPS_PVE_TOKEN_VALUE'') (on_pve (\<lambda>p. p\<lparr>pc_token_value := e ''PROXOPS_PVE_TOKEN_VALUE''\<rparr>)) c;
          c = overlay (e ''PROXOPS_PVE_TOKEN'') (on_pve (\<lambda>p. p\<lparr>pc_token := e ''PROXOPS_PVE_TOKEN''\<rparr>)) c;
          c = overlay (e ''PROXOPS_PVE_PASSWORD'') (on_pve (\<lambda>p. p\<lparr>pc_password := e ''PROXOPS_PVE_PASSWORD''\<rparr>)) c;
          c = overlay (e ''PROXOPS_PVE_USER'') (on_pve (\<lambda>p. p\<lparr>pc_user := e ''PROXOPS_PVE_USER''\<rparr>)) c
      in overlay (e ''PROXOPS_GIT_TOKEN'') (\<lambda>c. c\<lparr>cf_git := (cf_git c)\<lparr>gc_token := e ''PROXOPS_GIT_TOKEN''\<rparr>\<rparr>) c)"

end
