(* ===== verification/Gitx.thy ===== *)
theory Gitx
  imports Config
begin

text \<open>
  \<^verbatim>\<open>internal/gitx/gitx.go\<close>: the git source, over the library \<^verbatim>\<open>go-git\<close>.

  What the library answers in one operation is the argument \<open>git_call\<close>: the error of each call, and
  the commits that \<^verbatim>\<open>HEAD\<close> and the tracked branch of the remote resolve to.
  \<open>gs_resets\<close> records the commits the work tree was told to be reset to, last first.
\<close>

record git_options =
  go_url :: string
  go_token :: string
  go_user :: string
  go_branch :: string
  go_cache_dir :: string
  go_local :: string

definition home_share_dir :: "host \<Rightarrow> string" where
  "home_share_dir h = (case h_home h of Some home \<Rightarrow> join_path home ''.local/share/proxops'' | None \<Rightarrow> ''/tmp/proxops'')"

definition normalize_options :: "host \<Rightarrow> git_options \<Rightarrow> string + git_options" where
  "normalize_options h o1 =
     (if go_url o1 \<noteq> [] \<and> go_local o1 \<noteq> [] then Inl ''git: URL and Local are mutually exclusive''
      else if go_url o1 = [] \<and> go_local o1 = [] then Inl ''git: set either URL or Local''
      else Inr (o1\<lparr>go_user := (if go_user o1 = [] then ''git'' else go_user o1),
                   go_branch := (if go_branch o1 = [] then ''main'' else go_branch o1),
                   go_cache_dir := (if go_cache_dir o1 = [] then join_path (home_share_dir h) ''git-cache'' else go_cache_dir o1)\<rparr>))"

datatype fetch_error = Vanished string | FetchFailed string

record git_call =
  gl_open :: "string option"
  gl_mkdir :: "string option"
  gl_clone :: "string option"
  gl_remote :: "string option"
  gl_fetch :: "fetch_error option"
  gl_ref :: "string + string"
  gl_head :: "string + string"
  gl_reset :: "string option"

record git_source =
  gs_opts :: git_options
  gs_rev :: string
  gs_last_ok :: int
  gs_resets :: "string list"

text \<open>
  \<^verbatim>\<open>isRepoDir\<close>: the marks of a repository below \<^verbatim>\<open>.git\<close>; a path with them is a
  directory.
\<close>

definition is_repo_dir :: "host \<Rightarrow> string \<Rightarrow> bool" where
  "is_repo_dir h p \<longleftrightarrow> h_exists h p \<and>
     list_all (\<lambda>m. h_exists h (join_path (join_path p ''.git'') m)) [''HEAD'', ''objects'', ''refs'']"

definition open_or_clone :: "host \<Rightarrow> git_call \<Rightarrow> git_options \<Rightarrow> string option" where
  "open_or_clone h g o1 =
     (if is_repo_dir h (go_cache_dir o1)
      then map_option (\<lambda>e. ''git: reopen cache '' @ go_cache_dir o1 @ '': '' @ e) (gl_open g)
      else (case gl_mkdir g of
              Some e \<Rightarrow> Some e
            | None \<Rightarrow> map_option (\<lambda>e. ''git: clone '' @ go_url o1 @ '': '' @ e) (gl_clone g)))"

definition remote_ref :: "git_options \<Rightarrow> string" where
  "remote_ref o1 = ''refs/remotes/origin/'' @ go_branch o1"

definition fetch_text :: "fetch_error \<Rightarrow> string" where
  "fetch_text e = (case e of Vanished t \<Rightarrow> t | FetchFailed t \<Rightarrow> t)"

definition git_new :: "host \<Rightarrow> git_call \<Rightarrow> int \<Rightarrow> git_options \<Rightarrow> string + git_source" where
  "git_new h g now o0 =
     (case normalize_options h o0 of
        Inl e \<Rightarrow> Inl e
      | Inr o1 \<Rightarrow>
          (if go_local o1 \<noteq> [] then
             (case gl_open g of
                Some e \<Rightarrow> Inl (''git: open local tree '' @ go_local o1 @ '': '' @ e)
              | None \<Rightarrow> map_sum id (\<lambda>commit. \<lparr>gs_opts = o1, gs_rev = commit, gs_last_ok = now, gs_resets = []\<rparr>) (gl_head g))
           else (case open_or_clone h g o1 of
              Some e \<Rightarrow> Inl e
            | None \<Rightarrow>
                (case gl_remote g of
                   Some e \<Rightarrow> Inl (''git: remote: '' @ e)
                 | None \<Rightarrow>
                     (case gl_fetch g of
                        Some e \<Rightarrow> Inl (''git: initial fetch: '' @ fetch_text e)
                      | None \<Rightarrow>
                          (case gl_ref g of
                             Inl e \<Rightarrow> Inl (''git: resolve '' @ remote_ref o1 @ '': '' @ e)
                           | Inr commit \<Rightarrow>
                               (case gl_reset g of
                                  Some e \<Rightarrow> Inl e
                                | None \<Rightarrow> Inr \<lparr>gs_opts = o1, gs_rev = commit, gs_last_ok = now, gs_resets = [commit]\<rparr>)))))))"

text \<open>The tail of \<^verbatim>\<open>Fetch\<close>: move to the commit when it is another one.\<close>

definition move_to :: "git_call \<Rightarrow> int \<Rightarrow> string \<Rightarrow> git_source \<Rightarrow> (bool \<times> string option) \<times> git_source" where
  "move_to g now commit s =
     (if commit = gs_rev s then ((False, None), s)
      else (let s1 = s\<lparr>gs_resets := commit # gs_resets s\<rparr>
            in case gl_reset g of
                 Some e \<Rightarrow> ((False, Some e), s1)
               | None \<Rightarrow> ((True, None), s1\<lparr>gs_rev := commit, gs_last_ok := now\<rparr>)))"

definition fetch_error_text :: "fetch_error \<Rightarrow> string" where
  "fetch_error_text e =
     (case e of Vanished t \<Rightarrow> ''git: repository vanished ('' @ t @ '')'' | FetchFailed t \<Rightarrow> ''git: fetch: '' @ t)"

definition git_fetch :: "git_call \<Rightarrow> int \<Rightarrow> git_source \<Rightarrow> (bool \<times> string option) \<times> git_source" where
  "git_fetch g now s =
     (if go_local (gs_opts s) \<noteq> [] then
        (case gl_head g of Inl e \<Rightarrow> ((False, Some e), s) | Inr commit \<Rightarrow> move_to g now commit s)
      else (case gl_remote g of
              Some e \<Rightarrow> ((False, Some (''git: remote: '' @ e)), s)
            | None \<Rightarrow>
                (case gl_fetch g of
                   Some e \<Rightarrow> ((False, Some (fetch_error_text e)), s)
                 | None \<Rightarrow>
                     (case gl_ref g of
                        Inl e \<Rightarrow> ((False, Some (''git: resolve '' @ remote_ref (gs_opts s) @ '': '' @ e)), s)
                      | Inr commit \<Rightarrow> move_to g now commit s))))"

definition work_dir :: "git_source \<Rightarrow> string" where
  "work_dir s = (if go_local (gs_opts s) \<noteq> [] then go_local (gs_opts s) else go_cache_dir (gs_opts s))"

definition is_local :: "git_source \<Rightarrow> bool" where
  "is_local s \<longleftrightarrow> go_local (gs_opts s) \<noteq> []"

definition last_success :: "git_source \<Rightarrow> int" where
  "last_success s = gs_last_ok s"

definition age_since_success :: "int \<Rightarrow> git_source \<Rightarrow> int" where
  "age_since_success now s = now - gs_last_ok s"

section \<open>Facts\<close>

lemma git_fetch_cases:
  assumes "git_fetch g now s = ((changed, e), s')"
  shows "s' = s \<and> \<not> changed \<or>
    (\<exists>commit. commit \<noteq> gs_rev s \<and> gs_resets s' = commit # gs_resets s \<and> gs_opts s' = gs_opts s \<and>
      (if e = None then changed \<and> gs_rev s' = commit \<and> gs_last_ok s' = now
       else \<not> changed \<and> gs_rev s' = gs_rev s \<and> gs_last_ok s' = gs_last_ok s))"
  using assms
  by (auto simp: git_fetch_def move_to_def Let_def split: if_splits option.splits sum.splits) metis+

text \<open>
  A failed fetch leaves the revision that was served and the time of the last success as they were; one
  that succeeds reports a change exactly when the revision moved, and then the last reset of the work tree
  was to the revision now served.
\<close>

theorem fetch_advisory:
  assumes "git_fetch g now s = ((changed, e), s')"
  shows "gs_opts s' = gs_opts s \<and>
    (if e = None then changed = (gs_rev s' \<noteq> gs_rev s) \<and> (changed \<longrightarrow> gs_resets s' = gs_rev s' # gs_resets s \<and> last_success s' = now)
     else \<not> changed \<and> gs_rev s' = gs_rev s \<and> last_success s' = last_success s)"
  using git_fetch_cases [OF assms] by (auto simp: last_success_def)

definition ex_git :: "string \<Rightarrow> string option \<Rightarrow> git_call" where
  "ex_git commit err =
     \<lparr>gl_open = None, gl_mkdir = None, gl_clone = None, gl_remote = None, gl_fetch = map_option FetchFailed err,
      gl_ref = Inr commit, gl_head = Inr commit, gl_reset = None\<rparr>"

definition ex_source :: "string \<Rightarrow> git_source" where
  "ex_source local_tree =
     \<lparr>gs_opts = \<lparr>go_url = (if local_tree = [] then ''https://git/r'' else []), go_token = [], go_user = ''git'',
        go_branch = ''main'', go_cache_dir = ''/c'', go_local = local_tree\<rparr>,
      gs_rev = ''a1'', gs_last_ok = 5, gs_resets = []\<rparr>"

lemma ex_fetch: "git_fetch (ex_git ''b2'' None) 9 (ex_source []) = ((True, None), (ex_source [])\<lparr>gs_rev := ''b2'', gs_last_ok := 9, gs_resets := [''b2'']\<rparr>)"
  by code_simp

lemma fetch_advisory_witness:
  "gs_resets ((ex_source [])\<lparr>gs_rev := ''b2'', gs_last_ok := 9, gs_resets := [''b2'']\<rparr>) = [''b2''] \<and>
   last_success ((ex_source [])\<lparr>gs_rev := ''b2'', gs_last_ok := 9, gs_resets := [''b2'']\<rparr>) = 9"
  using fetch_advisory [OF ex_fetch] by (auto simp: ex_source_def)

text \<open>
  In local mode too a moved \<^verbatim>\<open>HEAD\<close> resets the operator's own work tree, with what was not
  committed there; and a fetch that finds nothing new is no success for \<^verbatim>\<open>LastSuccess\<close>.
\<close>

lemma local_tree_reset: "gs_resets (snd (git_fetch (ex_git ''b2'' None) 9 (ex_source ''/home/op/repo''))) = [''b2'']"
  by code_simp

lemma quiet_fetch_not_counted: "git_fetch (ex_git ''a1'' None) 9 (ex_source []) = ((False, None), ex_source [])"
  by code_simp

end
