(* ===== verification/Config_Validate.thy ===== *)
theory Config_Validate
  imports Config
begin

text \<open>
  \<^verbatim>\<open>internal/config/config.go\<close>: \<^verbatim>\<open>Validate\<close>, and the loaders of the command line,
  \<^verbatim>\<open>LoadLocal\<close> and \<^verbatim>\<open>LoadCluster\<close>.
\<close>

section \<open>Credentials\<close>

definition has_pve_secret :: "sops_cluster \<Rightarrow> bool" where
  "has_pve_secret sc \<longleftrightarrow> sx_user sc \<noteq> [] \<or> sx_token_id sc \<noteq> [] \<or> sx_token sc \<noteq> [] \<or> sx_password sc \<noteq> []"

definition sops_covers_creds :: "process_config \<Rightarrow> bool" where
  "sops_covers_creds c \<longleftrightarrow> list_ex (\<lambda>(n, sc). has_pve_secret sc) (cf_sops c)"

definition drop_sentinel :: "process_config \<Rightarrow> process_config" where
  "drop_sentinel c = (if gc_url (cf_git c) \<noteq> [] \<and> gc_path (cf_git c) = ''.'' then set_git_path [] c else c)"

text \<open>\<^verbatim>\<open>if guard { errs = append(errs, e) }\<close>.\<close>

definition err_if :: "bool \<Rightarrow> string \<Rightarrow> string list" where
  "err_if b e = (if b then [e] else [])"

text \<open>The switch over \<^verbatim>\<open>pve.auth\<close>: its errors, and the configuration without the unused password.\<close>

definition auth_errors :: "process_config \<Rightarrow> string list \<times> process_config" where
  "auth_errors c =
     (let p = cf_pve c
      in if pc_auth p = auth_token then
           ((if sops_covers_creds c then []
             else err_if (pc_user p = []) ''pve.user is required for token auth'' @
                  (if pc_token_value p = [] then
                     err_if (pc_token_id p = []) ''pve.token-id missing'' @
                     err_if (pc_token p = []) ''pve.token missing (set PROXOPS_PVE_TOKEN)''
                   else [])) @
            err_if (pc_password p \<noteq> []) ''pve.password must be empty when pve.auth=token'',
            on_pve (\<lambda>p. p\<lparr>pc_password := []\<rparr>) c)
         else if pc_auth p = auth_ticket then
           ((if sops_covers_creds c then []
             else err_if (pc_user p = []) ''pve.user is required for ticket auth'' @
                  err_if (pc_password p = []) ''pve.password missing (set PROXOPS_PVE_PASSWORD)''), c)
         else ([''pve.auth must be '' @ go_quote auth_token @ '' or '' @ go_quote auth_ticket @ '', got '' @ go_quote (pc_auth p)], c))"

text \<open>A secret of the cluster stands before the shared credential.\<close>

definition pick :: "string \<Rightarrow> string \<Rightarrow> string" where
  "pick s shared = (if s \<noteq> [] then s else shared)"

definition cluster_cred_errors :: "process_config \<Rightarrow> string \<Rightarrow> string list" where
  "cluster_cred_errors c name =
     (let p = cf_pve c; sc = sops_of c name;
          user = pick (sx_user sc) (pc_user p);
          token_id = pick (sx_token_id sc) (pc_token_id p);
          token = pick (sx_token sc) (pc_token p);
          password = pick (sx_password sc) (pc_password p);
          token_value = (if has_pve_secret sc then [] else pc_token_value p)
      in if pc_auth p = auth_token then
           err_if (user = []) (''pve.clusters.'' @ name @ '': no effective PVE user after credential resolution (SOPS user reference + pve.user + PROXOPS_PVE_USER all empty); proxops fails closed'') @
           err_if (token_value = [] \<and> (token_id = [] \<or> token = [])) (''pve.clusters.'' @ name @ '': no effective PVE token after credential resolution (need a SOPS pve token reference, or pve.token-id+pve.token, or PROXOPS_PVE_TOKEN_VALUE); proxops fails closed'')
         else if pc_auth p = auth_ticket then
           err_if (user = []) (''pve.clusters.'' @ name @ '': no effective PVE user for ticket auth; proxops fails closed'') @
           err_if (password = []) (''pve.clusters.'' @ name @ '': no effective PVE password for ticket auth (SOPS pve.password reference or PROXOPS_PVE_PASSWORD required); proxops fails closed'')
         else [])"

section \<open>Clusters\<close>

text \<open>\<open>seen\<close>: the endpoints met so far, each with the first cluster that has it.\<close>

fun endpoint_errors :: "process_config \<Rightarrow> string list \<Rightarrow> (string \<times> string) list \<Rightarrow> string list" where
  "endpoint_errors c [] seen = []"
| "endpoint_errors c (name # names) seen =
     (let base = cl_base_url (cluster_get c name)
      in if base = [] then endpoint_errors c names seen
         else (case map_of seen base of
                 Some other \<Rightarrow>
                   (''pve.clusters.'' @ other @ '' and pve.clusters.'' @ name @ '' share base-url '' @ go_quote base @
                    ''; each cluster must have its own PVE endpoint'') # endpoint_errors c names seen
               | None \<Rightarrow> endpoint_errors c names (put base name seen)))"

definition bad_node_name :: "string \<Rightarrow> bool" where
  "bad_node_name n \<longleftrightarrow> trim_space n = [] \<or> list_ex (\<lambda>x. x = CHR '' '' \<or> x = CHR ''/'') n"

fun node_errors :: "string \<Rightarrow> nat \<Rightarrow> string list \<Rightarrow> string list \<Rightarrow> string list" where
  "node_errors name i seen [] = []"
| "node_errors name i seen (n # ns) =
     (if bad_node_name n
      then (''pve.clusters.'' @ name @ ''.nodes['' @ nat_str i @ '']: '' @ go_quote n @ '' is not a valid PVE node name'') #
           node_errors name (Suc i) seen ns
      else err_if (n \<in> set seen) (''pve.clusters.'' @ name @ ''.nodes: duplicate entry '' @ go_quote n) @
           node_errors name (Suc i) (n # seen) ns)"

text \<open>\<^verbatim>\<open>url.Parse\<close> found a host and one of the two schemes.\<close>

definition base_url_ok :: "host \<Rightarrow> string \<Rightarrow> bool" where
  "base_url_ok h u =
     (case h_url h u of None \<Rightarrow> False | Some (scheme, hostname) \<Rightarrow> hostname \<noteq> [] \<and> (scheme = ''http'' \<or> scheme = ''https''))"

definition cluster_errors :: "host \<Rightarrow> process_config \<Rightarrow> string \<Rightarrow> string list" where
  "cluster_errors h c name =
     (let cl = cluster_get c name
      in if \<not> valid_cluster_name name
         then [''pve.clusters: '' @ go_quote name @ '' is not a valid cluster name (lowercase alnum + '' @ [CHR 39] @ ''-'' @ [CHR 39] @ '', no leading '' @ [CHR 39] @ ''-'' @ [CHR 39] @ '')'']
         else if cl_base_url cl = [] then [''pve.clusters.'' @ name @ ''.base-url is required (e.g. https://<host>[:port])'']
         else err_if (\<not> base_url_ok h (cl_base_url cl)) (''pve.clusters.'' @ name @ ''.base-url must be a parseable http(s)://host[:port] URL with a host component'') @
              node_errors name 0 [] (cl_nodes cl))"

definition source_errors :: "process_config \<Rightarrow> string list" where
  "source_errors c =
     (let g = cf_git c; r = cf_rec c
      in err_if (gc_url g \<noteq> [] \<and> gc_path g \<noteq> []) ''git.url and git.path are mutually exclusive; pick one'' @
         err_if (gc_url g = [] \<and> gc_path g = []) ''a git source is required: set git.url or git.path (repository-first invocations anchor this to the work tree you are inside)'' @
         err_if (gc_branch g = []) ''git.branch must not be empty'' @
         err_if (rf_poll_interval r \<le> 0) ''reconcile.poll-interval must be > 0'' @
         err_if (rf_task_timeout r \<le> 0) ''reconcile.task-timeout must be > 0'' @
         err_if (rf_prune_budget r < 0) ''reconcile.prune-budget must be >= 0'' @
         err_if (cf_log_level c = []) ''log.level must not be empty'')"

definition all_errors :: "host \<Rightarrow> process_config \<Rightarrow> string list \<times> process_config" where
  "all_errors h c0 =
     (let (errs, c) = auth_errors (drop_sentinel c0);
          names = cluster_names c;
          c' = drop_sentinel c
      in (errs @ concat (map (cluster_cred_errors c) names) @
          err_if (cluster_map c = []) ''pve.clusters: at least one named PVE cluster is required (each with its own base-url)'' @
          endpoint_errors c names [] @ concat (map (cluster_errors h c) names) @ source_errors c', c'))"

text \<open>\<^verbatim>\<open>Validate\<close>: all the problems in one error, and the configuration it leaves.\<close>

definition validate_config :: "host \<Rightarrow> process_config \<Rightarrow> string option \<times> process_config" where
  "validate_config h c =
     (let (errs, c') = all_errors h c
      in (if errs \<noteq> [] then Some (''invalid configuration: '' @ join_with ''; '' errs) else None, c'))"

section \<open>The loaders\<close>

text \<open>An error, or the panic of an assignment to a nil map.\<close>

datatype load_failure = LoadError string | NilMapPanic

fun take_entries :: "string \<Rightarrow> process_config \<Rightarrow> string list \<Rightarrow> process_config \<Rightarrow> load_failure + process_config" where
  "take_entries dir cl [] c = Inr c"
| "take_entries dir cl (name # names) c =
     (if name \<noteq> dir
      then Inl (LoadError (''cluster '' @ dir @ '': clusters/'' @ dir @ ''/config.yaml declares pve.clusters.'' @ go_quote name @
             '', which does not match its directory name; a cluster-local config declares exactly one entry named after its directory''))
      else (case pc_clusters (cf_pve c) of
              None \<Rightarrow> Inl NilMapPanic
            | Some m \<Rightarrow> take_entries dir cl names (set_clusters (Some (put name (cluster_get cl name) m)) c)))"

definition load_cluster_dir :: "host \<Rightarrow> string \<Rightarrow> string \<Rightarrow> process_config \<Rightarrow> load_failure + process_config" where
  "load_cluster_dir h cluster_dir dir c =
     (let p = join_path (join_path cluster_dir dir) ''config.yaml''
      in if \<not> h_exists h p then Inr c
         else (case load_config h p of
                 Inl e \<Rightarrow> Inl (LoadError (''cluster '' @ dir @ '': '' @ e))
               | Inr cl \<Rightarrow>
                   (if cluster_names cl = []
                    then Inl (LoadError (''cluster '' @ dir @ '': clusters/'' @ dir @ ''/config.yaml declares no pve.clusters entry; it must name exactly one cluster ('' @ dir @ '')''))
                    else take_entries dir cl (cluster_names cl) c)))"

fun load_cluster_dirs :: "host \<Rightarrow> string \<Rightarrow> (string \<times> bool) list \<Rightarrow> process_config \<Rightarrow> load_failure + process_config" where
  "load_cluster_dirs h cluster_dir [] c = Inr c"
| "load_cluster_dirs h cluster_dir ((dir, is_dir) # es) c =
     (if \<not> is_dir then load_cluster_dirs h cluster_dir es c
      else (case load_cluster_dir h cluster_dir dir c of
              Inl e \<Rightarrow> Inl e | Inr c \<Rightarrow> load_cluster_dirs h cluster_dir es c))"

text \<open>\<^verbatim>\<open><root>/proxops.yaml\<close>; one that does not load is passed over.\<close>

definition local_process_config :: "host \<Rightarrow> string \<Rightarrow> process_config" where
  "local_process_config h r =
     (let p = join_path r ''proxops.yaml''
      in if h_exists h p then (case load_config h p of Inl e \<Rightarrow> defaults h | Inr c \<Rightarrow> c) else defaults h)"

definition pin_tree :: "string \<Rightarrow> process_config \<Rightarrow> process_config" where
  "pin_tree r c = (if gc_url (cf_git c) = [] \<and> gc_path (cf_git c) = [] then set_git_path r c else c)"

definition load_local :: "host \<Rightarrow> string \<Rightarrow> load_failure + process_config \<times> string" where
  "load_local h dir =
     (let r = discover_git_root h dir
      in if r = []
         then Inl (LoadError (''no ProxOps GitOps repository found in '' @ go_quote dir @ '' or any parent: proxops was not invoked from inside a git work tree '' @
                long_dash @ '' cd into the repository and retry, or point proxops at one with --config (URL mode) / PROXOPS_CONFIG''))
         else (let cluster_dir = join_path r ''clusters''; c = local_process_config h r
               in case (case h_list h cluster_dir of
                          NoDir \<Rightarrow> Inr c
                        | DirError e \<Rightarrow> Inl (LoadError (''read clusters/: '' @ e))
                        | Entries es \<Rightarrow> load_cluster_dirs h cluster_dir es c) of
                    Inl e \<Rightarrow> Inl e
                  | Inr c \<Rightarrow> Inr (pin_tree r c, r)))"

definition load_cluster :: "host \<Rightarrow> string \<Rightarrow> string + process_config" where
  "load_cluster h path =
     (case load_config h path of
        Inl e \<Rightarrow> Inl e
      | Inr c \<Rightarrow>
          (if gc_path (cf_git c) = [] \<and> gc_url (cf_git c) = [] then
             (let r = discover_git_root h (dir_path path)
              in if r \<noteq> [] then Inr (set_git_path r c)
                 else Inl (path @ '' declares no git source (git.url or git.path) and no .git worktree was found in any ancestor of it; set git.url / git.path in the config, or point --config at a file inside its ProxOps GitOps repository''))
           else Inr c))"

definition git_cache_dir :: "process_config \<Rightarrow> string" where
  "git_cache_dir c = join_path (cf_data_dir c) ''git-cache''"

end
