(* ===== verification/Wiring.thy ===== *)
theory Wiring
  imports Config_Validate Pve_Client Quantity
begin

text \<open>
  \<^verbatim>\<open>internal/app/app.go\<close>, what a cluster's client is built from, and
  \<^verbatim>\<open>cmd/proxops/main.go\<close>, how the command line makes a configuration.
\<close>

section \<open>Parameters of a client\<close>

definition no_params :: pve_params where
  "no_params = \<lparr>pp_user = [], pp_auth = [], pp_token_id = [], pp_token_value = [], pp_token = [],
                pp_password = [], pp_base_url = [], pp_nodes = [], pp_ca_file = []\<rparr>"

definition pve_params_from :: "process_config \<Rightarrow> string \<Rightarrow> pve_params" where
  "pve_params_from c name =
     (case cluster_of c name of
        None \<Rightarrow> no_params
      | Some cl \<Rightarrow>
          (let sops = sops_of c name; p = cf_pve c;
               has_sops = (sx_user sops \<noteq> [] \<or> sx_token_id sops \<noteq> [] \<or> sx_token sops \<noteq> [] \<or> sx_password sops \<noteq> []);
               user = (if sx_user sops \<noteq> [] then sx_user sops else pc_user p);
               token_id = (if sx_token_id sops \<noteq> [] then sx_token_id sops else pc_token_id p);
               token = (if sx_token sops \<noteq> [] then sx_token sops else pc_token p);
               psw = (if sx_password sops \<noteq> [] then sx_password sops else pc_password p);
               token_value = (if has_sops then [] else pc_token_value p)
           in \<lparr>pp_user = user, pp_auth = pc_auth p, pp_token_id = token_id, pp_token_value = token_value,
               pp_token = token, pp_password = psw, pp_base_url = cl_base_url cl, pp_nodes = cl_nodes cl,
               pp_ca_file = pc_ca_file p\<rparr>))"

text \<open>\<^verbatim>\<open>pveclient.Options{PVE: cParams}\<close>: everything else is the default.\<close>

definition client_options :: "process_config \<Rightarrow> string \<Rightarrow> options" where
  "client_options c name =
     \<lparr>op_pve = pve_params_from c name, op_http_timeout = 0, op_breaker_threshold = 0,
      op_breaker_duration = 0, op_base_url = []\<rparr>"

text \<open>\<^verbatim>\<open>EffectiveGitToken\<close>: the loop holds the first token found and its cluster.\<close>

fun git_token_loop :: "process_config \<Rightarrow> string list \<Rightarrow> string \<Rightarrow> string \<Rightarrow> string + string" where
  "git_token_loop c [] first cluster = Inr first"
| "git_token_loop c (name # names) first cluster =
     (let sc = sops_of c name
      in if sx_git_token sc = [] then git_token_loop c names first cluster
         else if first = [] then git_token_loop c names (sx_git_token sc) name
         else if first \<noteq> sx_git_token sc
         then Inl (''git token conflict: clusters '' @ go_quote cluster @ '' and '' @ go_quote name @
                '' resolve DIFFERENT SOPS git tokens; proxops has a single shared git source, so all SOPS-resolved git tokens must be equal (edit the SOPS files or the key references in config.yaml)'')
         else git_token_loop c names first cluster)"

definition effective_git_token :: "process_config \<Rightarrow> string + string" where
  "effective_git_token c =
     (case git_token_loop c (cluster_names c) [] [] of
        Inl e \<Rightarrow> Inl e
      | Inr t \<Rightarrow> Inr (if t \<noteq> [] then t else gc_token (cf_git c)))"

section \<open>The command line\<close>

text \<open>
  The flags of \<^verbatim>\<open>globalFlags\<close>.  \<open>gf_changed\<close> tells which flags the user set
  (\<^verbatim>\<open>pflag.Changed\<close>).
\<close>

record global_flags =
  gf_config :: string
  gf_log_level :: string
  gf_listen :: string
  gf_git_url :: string
  gf_git_branch :: string
  gf_poll_sec :: int
  gf_prune_budget :: int
  gf_pve_user :: string
  gf_pve_auth :: string
  gf_ca_file :: string
  gf_git_path :: string
  gf_changed :: "string \<Rightarrow> bool"

text \<open>A field that still has its default takes the value of the repository's configuration.\<close>

definition fill :: "'a \<Rightarrow> 'a \<Rightarrow> 'a \<Rightarrow> 'a" where
  "fill dflt proc v = (if v = dflt then proc else v)"

definition fill_fields :: "process_config \<Rightarrow> process_config \<Rightarrow> process_config \<Rightarrow> process_config" where
  "fill_fields d proc t =
     t\<lparr>cf_log_level := fill (cf_log_level d) (cf_log_level proc) (cf_log_level t),
       cf_listen := fill (cf_listen d) (cf_listen proc) (cf_listen t),
       cf_data_dir := fill (cf_data_dir d) (cf_data_dir proc) (cf_data_dir t),
       cf_rec := (cf_rec t)\<lparr>
         rf_poll_interval := fill (rf_poll_interval (cf_rec d)) (rf_poll_interval (cf_rec proc)) (rf_poll_interval (cf_rec t)),
         rf_task_timeout := fill (rf_task_timeout (cf_rec d)) (rf_task_timeout (cf_rec proc)) (rf_task_timeout (cf_rec t)),
         rf_prune_budget := fill (rf_prune_budget (cf_rec d)) (rf_prune_budget (cf_rec proc)) (rf_prune_budget (cf_rec t))\<rparr>,
       cf_pve := (cf_pve t)\<lparr>
         pc_auth := fill (pc_auth (cf_pve d)) (pc_auth (cf_pve proc)) (pc_auth (cf_pve t)),
         pc_ca_file := fill [] (pc_ca_file (cf_pve proc)) (pc_ca_file (cf_pve t)),
         pc_user := fill [] (pc_user (cf_pve proc)) (pc_user (cf_pve t)),
         pc_token_id := fill [] (pc_token_id (cf_pve proc)) (pc_token_id (cf_pve t)),
         pc_token := fill [] (pc_token (cf_pve proc)) (pc_token (cf_pve t)),
         pc_password := fill [] (pc_password (cf_pve proc)) (pc_password (cf_pve t)),
         pc_token_value := fill [] (pc_token_value (cf_pve proc)) (pc_token_value (cf_pve t))\<rparr>\<rparr>"

text \<open>The clusters only the repository's configuration declares; a nil map is made first.\<close>

definition add_cluster :: "process_config \<Rightarrow> string \<Rightarrow> process_config \<Rightarrow> process_config" where
  "add_cluster proc name t =
     (if cluster_of t name \<noteq> None then t
      else set_clusters (Some (put name (cluster_get proc name) (cluster_map t))) t)"

definition add_clusters :: "process_config \<Rightarrow> process_config \<Rightarrow> process_config" where
  "add_clusters proc t = fold (add_cluster proc) (cluster_names proc) t"

definition merge_process_config :: "host \<Rightarrow> string \<Rightarrow> process_config \<Rightarrow> string + process_config" where
  "merge_process_config h anchor t =
     (let r = discover_git_root h (dir_path anchor); p = join_path r ''proxops.yaml''
      in if r = [] \<or> \<not> h_exists h p then Inr t
         else (case load_config h p of
                 Inl e \<Rightarrow> Inl (''repository process config '' @ p @ '': '' @ e)
               | Inr proc \<Rightarrow> Inr (add_clusters proc (fill_fields (defaults h) proc t))))"

definition set_git_url :: "string \<Rightarrow> process_config \<Rightarrow> process_config" where
  "set_git_url u c = c\<lparr>cf_git := (cf_git c)\<lparr>gc_url := u\<rparr>\<rparr>"

definition apply_flag :: "global_flags \<Rightarrow> string \<Rightarrow> (process_config \<Rightarrow> process_config) \<Rightarrow> process_config \<Rightarrow> process_config" where
  "apply_flag gf name f c = (if gf_changed gf name then f c else c)"

definition apply_flags :: "global_flags \<Rightarrow> string \<Rightarrow> process_config \<Rightarrow> process_config" where
  "apply_flags gf explicit c =
     (let c = apply_flag gf ''log-level'' (\<lambda>c. c\<lparr>cf_log_level := gf_log_level gf\<rparr>) c;
          c = apply_flag gf ''listen'' (\<lambda>c. c\<lparr>cf_listen := gf_listen gf\<rparr>) c;
          c = apply_flag gf ''git-url'' (\<lambda>c. set_git_path [] (set_git_url (gf_git_url gf) c)) c;
          c = apply_flag gf ''git-branch'' (\<lambda>c. c\<lparr>cf_git := (cf_git c)\<lparr>gc_branch := gf_git_branch gf\<rparr>\<rparr>) c;
          c = apply_flag gf ''git-poll-sec'' (\<lambda>c. if 0 < gf_poll_sec gf
                then c\<lparr>cf_rec := (cf_rec c)\<lparr>rf_poll_interval := wrap64 (gf_poll_sec gf * sec_ns)\<rparr>\<rparr> else c) c;
          c = apply_flag gf ''prune-budget'' (\<lambda>c. c\<lparr>cf_rec := (cf_rec c)\<lparr>rf_prune_budget := gf_prune_budget gf\<rparr>\<rparr>) c;
          c = apply_flag gf ''pve-user'' (on_pve (\<lambda>p. p\<lparr>pc_user := gf_pve_user gf\<rparr>)) c;
          c = apply_flag gf ''pve-auth'' (on_pve (\<lambda>p. p\<lparr>pc_auth := gf_pve_auth gf\<rparr>)) c;
          c = apply_flag gf ''git-path'' (\<lambda>c. set_git_url [] (set_git_path explicit c)) c
      in apply_flag gf ''ca-file'' (on_pve (\<lambda>p. p\<lparr>pc_ca_file := gf_ca_file gf\<rparr>)) c)"

definition explicit_path :: "host \<Rightarrow> global_flags \<Rightarrow> string" where
  "explicit_path h gf = (if gf_git_path gf = [] then h_env h ''PROXOPS_GIT_PATH'' else gf_git_path gf)"

text \<open>\<^verbatim>\<open>buildAgent\<close> up to the configuration it gives \<^verbatim>\<open>app.New\<close>.\<close>

definition base_config :: "host \<Rightarrow> global_flags \<Rightarrow> load_failure + process_config" where
  "base_config h gf =
     (let explicit = explicit_path h gf
      in if gf_config gf \<noteq> [] then
           (case load_cluster h (gf_config gf) of
              Inl e \<Rightarrow> Inl (LoadError e)
            | Inr c \<Rightarrow>
                (let c = (if explicit \<noteq> [] then set_git_url [] (set_git_path explicit c) else c)
                 in if gc_url (cf_git c) = [] \<and> gc_path (cf_git c) \<noteq> []
                    then map_sum LoadError id (merge_process_config h (gf_config gf) c) else Inr c))
         else (case (if explicit = [] then h_cwd h else Inr explicit) of
                 Inl e \<Rightarrow> Inl (LoadError (''resolve current directory: '' @ e))
               | Inr dir \<Rightarrow> map_sum id fst (load_local h dir)))"

definition build_config :: "host \<Rightarrow> global_flags \<Rightarrow> load_failure + process_config" where
  "build_config h gf =
     map_sum id (\<lambda>c. overlay_from_env h (apply_flags gf (explicit_path h gf) c)) (base_config h gf)"

text \<open>\<^verbatim>\<open>levelFor\<close>; \<open>None\<close> is the panic.\<close>

definition level_or_info :: "process_config \<Rightarrow> string" where
  "level_or_info c = (if cf_log_level c \<noteq> [] then cf_log_level c else ''info'')"

definition level_for :: "host \<Rightarrow> global_flags \<Rightarrow> string option" where
  "level_for h gf =
     (if gf_log_level gf \<noteq> [] then Some (gf_log_level gf)
      else if gf_config gf \<noteq> [] then
        Some (case load_config h (gf_config gf) of Inr c \<Rightarrow> level_or_info c | Inl e \<Rightarrow> ''info'')
      else (case h_cwd h of
              Inl e \<Rightarrow> Some ''info''
            | Inr wd \<Rightarrow>
                (case load_local h (if gf_git_path gf \<noteq> [] then gf_git_path gf else wd) of
                   Inl NilMapPanic \<Rightarrow> None
                 | Inl (LoadError e) \<Rightarrow> Some ''info''
                 | Inr (c, r) \<Rightarrow> Some (level_or_info c))))"

text \<open>The steps of \<^verbatim>\<open>app.New\<close> on the configuration: decrypt, validate, pick the git token.\<close>

definition checked_config :: "host \<Rightarrow> process_config \<Rightarrow> string + process_config \<times> string" where
  "checked_config h c =
     (case resolve_sops h c of
        Inl e \<Rightarrow> Inl e
      | Inr c \<Rightarrow>
          (case validate_config h c of
             (Some e, c) \<Rightarrow> Inl e
           | (None, c) \<Rightarrow> map_sum id (\<lambda>t. (c, t)) (effective_git_token c)))"

end
