(* ===== verification/Pve_Request.thy ===== *)
theory Pve_Request
  imports Pve_Client
begin

text \<open>
  \<^verbatim>\<open>Client.Do\<close> (\<^verbatim>\<open>internal/pveclient/client.go\<close>): one API call with authentication,
  retries, error mapping and the write circuit breaker.  The Go parameter \<^verbatim>\<open>out any\<close> is a decoder
  with the value \<open>out\<close> points to before the call; no decoder is \<^verbatim>\<open>nil\<close>.
\<close>

section \<open>The response\<close>

definition truncate_text :: "string \<Rightarrow> nat \<Rightarrow> string" where
  "truncate_text s n = (if length s \<le> n then s else take n s @ map char_of [226 :: nat, 128, 166])"

text \<open>The \<^verbatim>\<open>data\<close> of the envelope, when the body is one.\<close>

definition envelope_data :: "json option \<Rightarrow> string + json option" where
  "envelope_data j = (case j of
      Some (JObj kvs) \<Rightarrow>
        (case json_field ''code'' kvs of
           None \<Rightarrow> Inr (json_field ''data'' kvs)
         | Some JNull \<Rightarrow> Inr (json_field ''data'' kvs)
         | Some (JInt _) \<Rightarrow> Inr (json_field ''data'' kvs)
         | Some _ \<Rightarrow> Inl json_err)
    | Some JNull \<Rightarrow> Inr None
    | _ \<Rightarrow> Inl json_err)"

type_synonym 'a decoder = "(json \<Rightarrow> string + 'a) option"

definition parse_envelope :: "'a decoder \<Rightarrow> 'a \<Rightarrow> response \<Rightarrow> go_err + string \<times> 'a" where
  "parse_envelope dec out r =
     (case envelope_data (rs_json r) of
        Inl e \<Rightarrow> Inl (EWrap ''decode pve response: '' (EText e)
                       ('' (body '' @ truncate_text (rs_body r) 120 @ '')''))
      | Inr (Some (JStr s)) \<Rightarrow> Inr (s, out)
      | Inr (Some JNull) \<Rightarrow> Inr ([], out)
      | Inr data \<Rightarrow>
          (case dec of
             None \<Rightarrow> Inr ([], out)
           | Some d \<Rightarrow>
               (case data of
                  None \<Rightarrow> Inl (EWrap ''decode pve data: '' (EText ''unexpected end of JSON input'') [])
                | Some v \<Rightarrow>
                    (case d v of
                       Inl e \<Rightarrow> Inl (EWrap ''decode pve data: '' (EText e) [])
                     | Inr a \<Rightarrow> Inr ([], a)))))"

definition err_string_from_envelope :: "response \<Rightarrow> string" where
  "err_string_from_envelope r = (case rs_json r of
      Some (JObj kvs) \<Rightarrow>
        (case json_field ''errors'' kvs of
           Some (JStr m) \<Rightarrow> m
         | Some JNull \<Rightarrow> []
         | _ \<Rightarrow> trim_space (rs_body r))
    | _ \<Rightarrow> trim_space (rs_body r))"

section \<open>Bookkeeping\<close>

definition is_write :: "string \<Rightarrow> bool" where
  "is_write m \<longleftrightarrow> m \<in> {''POST'', ''PUT'', ''DELETE''}"

definition register_success :: "bool \<Rightarrow> client \<Rightarrow> client" where
  "register_success w cl =
     (let cl = cl\<lparr>c_breaker := record_ok (c_breaker cl), c_last_read := Some (c_now cl)\<rparr>
      in if w then cl\<lparr>c_last_write := Some (c_now cl)\<rparr> else cl)"

definition register_failure :: "bool \<Rightarrow> client \<Rightarrow> client" where
  "register_failure w cl =
     (if w then cl\<lparr>c_breaker := record_fail (c_now cl) (c_breaker cl)\<rparr> else cl)"

definition jitter_factor :: "rat \<Rightarrow> rat" where
  "jitter_factor r = 4 / 5 + 2 / 5 * r"

definition backoff_delay :: "nat \<Rightarrow> rat \<Rightarrow> int" where
  "backoff_delay attempt r =
     (let d = 2 ^ (attempt - 1) * sec_ns; d = (if 30 * sec_ns < d then 30 * sec_ns else d)
      in \<lfloor>rat_of_int d * jitter_factor r\<rfloor>)"

text \<open>
  \<^verbatim>\<open>select\<close> between the context and a timer: \<open>True\<close> when the context won.  A timer takes at least a
  nanosecond to fire.
\<close>

definition sleep_or_done :: "ctx \<Rightarrow> int \<Rightarrow> client \<Rightarrow> bool \<times> client" where
  "sleep_or_done cx d cl =
     (let wake = c_now cl + max 1 d
      in case cx_done cx of
           None \<Rightarrow> (False, cl\<lparr>c_now := wake\<rparr>)
         | Some x \<Rightarrow> (if x \<le> wake then (True, cl\<lparr>c_now := max (c_now cl) x\<rparr>)
                     else (False, cl\<lparr>c_now := wake\<rparr>)))"

definition backoff_wait :: "env \<Rightarrow> ctx \<Rightarrow> nat \<Rightarrow> client \<Rightarrow> bool \<times> client" where
  "backoff_wait env cx attempt cl =
     sleep_or_done cx (backoff_delay attempt (e_draw env (c_draws cl))) (cl\<lparr>c_draws := c_draws cl + 1\<rparr>)"

section \<open>One attempt\<close>

record 'a call =
  ca_method :: string
  ca_node :: string
  ca_path :: string
  ca_form :: "(string \<times> string) list"
  ca_dec :: "'a decoder"
  ca_out :: 'a

datatype 'a attempt = Done "go_err + string \<times> 'a" | Retry go_err

definition client_url :: "client \<Rightarrow> string \<Rightarrow> string" where
  "client_url cl path = c_base cl @ ''/api2/json/'' @ dropWhile (\<lambda>c. c = CHR ''/'') path"

definition call_url :: "client \<Rightarrow> 'a call \<Rightarrow> string" where
  "call_url cl ca =
     client_url cl (ca_path ca) @
     (if ca_method ca = ''GET'' then ''?'' @ values_encode (ca_form ca) else [])"

definition call_request :: "client \<Rightarrow> 'a call \<Rightarrow> (string \<times> string) list \<Rightarrow> http_request" where
  "call_request cl ca auth_headers =
     (let form = (if ca_method ca = ''GET'' then [] else ca_form ca)
      in \<lparr>rq_method = ca_method ca, rq_url = call_url cl ca,
          rq_headers = (if form \<noteq> [] then [(''Content-Type'', ''application/x-www-form-urlencoded'')] else [])
                       @ (''Accept'', ''application/json'') # auth_headers,
          rq_form = form\<rparr>)"

text \<open>The \<^verbatim>\<open>switch\<close> on the status code.\<close>

definition do_response :: "'a call \<Rightarrow> response \<Rightarrow> client \<Rightarrow> 'a attempt \<times> client" where
  "do_response ca r cl =
     (let w = is_write (ca_method ca); st = rs_status r;
          ae = \<lparr>ae_status = st, ae_pve_code = 0, ae_message = err_string_from_envelope r,
                ae_target = ca_path ca\<rparr>
      in if 200 \<le> st \<and> st < 300
         then (Done (parse_envelope (ca_dec ca) (ca_out ca) r), register_success w cl)
         else if st = 401 \<and> au_method (c_auth cl) = ''ticket''
         then (Retry (EApi (ae\<lparr>ae_message := ''unauthorized''\<rparr>)),
               register_failure w (cl\<lparr>c_auth := invalidate (c_auth cl)\<rparr>))
         else if st = 429 \<or> 500 \<le> st
         then (if is_not_found (EApi ae) then (Done (Inl (EApi ae)), register_failure w cl)
               else (Retry (EApi ae), register_failure w cl))
         else (Done (Inl (EApi (if ae_message ae = [] then ae\<lparr>ae_message := trim_space (rs_body r)\<rparr> else ae))),
               register_failure w cl))"

definition do_exchange :: "env \<Rightarrow> ctx \<Rightarrow> 'a call \<Rightarrow> (string \<times> string) list \<Rightarrow> client \<Rightarrow> 'a attempt \<times> client" where
  "do_exchange env cx ca headers cl =
     (case http_send env cx (call_request cl ca headers) cl of
        (Inl e, cl1) \<Rightarrow> (Retry e, register_failure (is_write (ca_method ca)) cl1)
      | (Inr (TransportErr s), cl1) \<Rightarrow> (Retry (EText s), register_failure (is_write (ca_method ca)) cl1)
      | (Inr (ReadErr s), cl1) \<Rightarrow>
          (Retry (EWrap (''pve '' @ ca_method ca @ '' '' @ ca_path ca @ '': read response: '') (EText s) []),
           register_failure (is_write (ca_method ca)) cl1)
      | (Inr (Response r), cl1) \<Rightarrow> do_response ca r cl1)"

text \<open>The body of the loop; \<open>attempt\<close> counts from 0.\<close>

definition count_write :: "'a call \<Rightarrow> nat \<Rightarrow> client \<Rightarrow> client" where
  "count_write ca attempt cl =
     (if attempt = 0 \<and> is_write (ca_method ca) then cl\<lparr>c_writes := (c_writes cl + 1) mod 2 ^ 64\<rparr> else cl)"

definition attempt_wait :: "env \<Rightarrow> ctx \<Rightarrow> nat \<Rightarrow> client \<Rightarrow> bool \<times> client" where
  "attempt_wait env cx attempt cl = (if 0 < attempt then backoff_wait env cx attempt cl else (False, cl))"

definition do_attempt :: "env \<Rightarrow> ctx \<Rightarrow> 'a call \<Rightarrow> nat \<Rightarrow> client \<Rightarrow> 'a attempt \<times> client" where
  "do_attempt env cx ca attempt cl =
     (case attempt_wait env cx attempt (count_write ca attempt cl) of
        (stop, cl) \<Rightarrow>
          if stop then (Done (Inl (ctx_err cx)), cl)
          else
            (case e_url_err env (call_url cl ca) of
               Some e \<Rightarrow> (Done (Inl (EWrap (''bad url for '' @ ca_method ca @ '' '' @ ca_path ca @ '': '') (EText e) [])), cl)
             | None \<Rightarrow>
                (case apply_auth env cx cl of
                   (Inl e, cl) \<Rightarrow> (Done (Inl e), cl)
                 | (Inr headers, cl) \<Rightarrow> do_exchange env cx ca headers cl)))"

definition max_retries :: nat where "max_retries = 3"

fun do_loop :: "env \<Rightarrow> ctx \<Rightarrow> 'a call \<Rightarrow> nat \<Rightarrow> go_err option \<Rightarrow> client \<Rightarrow> (go_err + string \<times> 'a) \<times> client" where
  "do_loop env cx ca 0 prev cl =
     (Inl (case prev of
             Some e \<Rightarrow> e
           | None \<Rightarrow> EText (''pve '' @ ca_method ca @ '' '' @ ca_path ca @ '': unknown failure after retries'')), cl)"
| "do_loop env cx ca (Suc n) prev cl =
     (case do_attempt env cx ca (max_retries - n) cl of
        (Done r, cl) \<Rightarrow> (r, cl)
      | (Retry e, cl) \<Rightarrow> do_loop env cx ca n (Some e) cl)"

section \<open>Do\<close>

text \<open>What \<^verbatim>\<open>breaker.allows()\<close> answers for the call, and the client after asking.\<close>

definition write_allowed :: "'a call \<Rightarrow> client \<Rightarrow> bool" where
  "write_allowed ca cl \<longleftrightarrow> \<not> is_write (ca_method ca) \<or> fst (breaker_allows (c_now cl) (c_breaker cl))"

definition ask_breaker :: "'a call \<Rightarrow> client \<Rightarrow> client" where
  "ask_breaker ca cl =
     (if is_write (ca_method ca) then cl\<lparr>c_breaker := snd (breaker_allows (c_now cl) (c_breaker cl))\<rparr> else cl)"

definition client_do :: "env \<Rightarrow> ctx \<Rightarrow> 'a call \<Rightarrow> client \<Rightarrow> (go_err + string \<times> 'a) \<times> client" where
  "client_do env cx ca cl =
     (if \<not> write_allowed ca cl
      then (Inl (EWrap [] EReadOnly ('': '' @ ca_method ca @ '' '' @ ca_path ca @ '' on '' @ ca_node ca)),
            ask_breaker ca cl)
      else do_loop env cx ca (max_retries + 1) None (ask_breaker ca cl))"

section \<open>What an operation may do to the client\<close>

text \<open>
  \<open>extends P cl cl'\<close>: from \<open>cl\<close> to \<open>cl'\<close> the clock did not go back, the breaker took its own steps,
  the configuration stayed, and every request sent on the way satisfies \<open>P\<close>.
\<close>

definition extends :: "(http_request \<Rightarrow> bool) \<Rightarrow> client \<Rightarrow> client \<Rightarrow> bool" where
  "extends P cl cl' \<longleftrightarrow>
     c_now cl \<le> c_now cl' \<and>
     breaker_reach (c_now cl, c_breaker cl) (c_now cl', c_breaker cl') \<and>
     invalidate (c_auth cl') = invalidate (c_auth cl) \<and> c_base cl' = c_base cl \<and>
     (\<exists>new. c_sent cl' = c_sent cl @ new \<and> (\<forall>rq\<in>set new. P rq))"

lemma extends_refl [simp]: "extends P cl cl"
  by (auto simp: extends_def intro: breaker_reach.intros)

lemma extends_trans [trans]: "extends P a b \<Longrightarrow> extends P b c \<Longrightarrow> extends P a c"
  unfolding extends_def by (auto intro: breaker_reach_trans)

lemma extends_mono: "extends P a b \<Longrightarrow> (\<And>rq. P rq \<Longrightarrow> Q rq) \<Longrightarrow> extends Q a b"
  unfolding extends_def by fastforce

lemma extends_now: "extends P a b \<Longrightarrow> c_now a \<le> c_now b"
  by (simp add: extends_def)

lemma extends_base: "extends P a b \<Longrightarrow> c_base b = c_base a"
  by (simp add: extends_def)

lemma extends_sent: "extends P a b \<Longrightarrow> \<exists>new. c_sent b = c_sent a @ new \<and> (\<forall>rq\<in>set new. P rq)"
  by (simp add: extends_def)

lemma invalidate_same:
  "invalidate a = invalidate b \<Longrightarrow> au_method a = au_method b \<and> au_user a = au_user b \<and>
   au_password a = au_password b \<and> au_base a = au_base b"
  by (cases a; cases b) (simp add: invalidate_def)

lemma invalidate_idem [simp]: "invalidate (invalidate a) = invalidate a"
  by (simp add: invalidate_def)

lemma extends_auth:
  "extends P a b \<Longrightarrow> au_method (c_auth b) = au_method (c_auth a) \<and>
   ticket_request (c_auth b) = ticket_request (c_auth a)"
  using invalidate_same [of "c_auth b" "c_auth a"]
  by (auto simp: extends_def ticket_request_def ticket_endpoint_def)

lemma extends_call:
  "extends P a b \<Longrightarrow> call_url b ca = call_url a ca \<and> call_request b ca hs = call_request a ca hs"
  by (simp add: extends_def call_request_def call_url_def client_url_def)

text \<open>What a call may send: its own request, and with ticket authentication the ticket exchange.\<close>

definition sends_of :: "client \<Rightarrow> 'a call \<Rightarrow> http_request \<Rightarrow> bool" where
  "sends_of cl ca rq \<longleftrightarrow>
     au_method (c_auth cl) \<noteq> ''token'' \<and> rq = ticket_request (c_auth cl) \<or>
     (\<exists>hs. rq = call_request cl ca hs)"

lemma sends_of_extends: "extends P a b \<Longrightarrow> sends_of b ca = sends_of a ca"
  using extends_auth [of P a b] extends_call [of P a b ca] by (auto simp: sends_of_def fun_eq_iff)

lemmas breaker_wait = breaker_reach_step [OF breaker_step.wait]

lemma http_send_extends:
  "http_send env cx rq cl = (res, cl') \<Longrightarrow> P rq \<Longrightarrow> extends P cl cl'"
  by (auto simp: http_send_def extends_def Let_def breaker_wait split: if_splits)

lemma ticket_reply_auth: "ticket_reply r now a = Inr a' \<Longrightarrow> invalidate a' = invalidate a"
  by (auto simp: ticket_reply_def invalidate_def split: if_splits sum.splits prod.splits)

lemma set_auth_extends:
  "invalidate a = invalidate (c_auth cl) \<Longrightarrow> extends P cl (cl\<lparr>c_auth := a\<rparr>)"
  by (simp add: extends_def breaker_wait)

lemma fetch_ticket_extends:
  assumes "fetch_ticket env cx cl = (res, cl')" and "P (ticket_request (c_auth cl))"
  shows "extends P cl cl'"
proof (cases "http_send env cx (ticket_request (c_auth cl)) cl")
  case (Pair r cl1)
  then have "extends P cl cl1" using assms(2) by (rule http_send_extends)
  with assms(1) Pair show ?thesis
    by (auto simp: fetch_ticket_def split: option.splits sum.splits http_result.splits
        intro: extends_trans set_auth_extends ticket_reply_auth)
qed

lemma apply_auth_extends:
  "apply_auth env cx cl = (res, cl') \<Longrightarrow>
   (au_method (c_auth cl) \<noteq> ''token'' \<Longrightarrow> P (ticket_request (c_auth cl))) \<Longrightarrow> extends P cl cl'"
  by (auto simp: apply_auth_def Let_def split: if_splits prod.splits option.splits
      dest: fetch_ticket_extends)

lemma register_success_extends: "extends P cl (register_success w cl)"
  by (auto simp: register_success_def extends_def Let_def intro: breaker_reach_step breaker_step.ok)

lemma register_failure_extends: "extends P cl (register_failure w cl)"
  by (auto simp: register_failure_def extends_def intro: breaker_reach_step breaker_step.fail breaker_wait)

lemma sleep_or_done_extends: "sleep_or_done cx d cl = (r, cl') \<Longrightarrow> extends P cl cl'"
  by (auto simp: sleep_or_done_def extends_def Let_def breaker_wait split: option.splits if_splits)

lemma backoff_wait_extends: "backoff_wait env cx k cl = (r, cl') \<Longrightarrow> extends P cl cl'"
  unfolding backoff_wait_def
  by (rule extends_trans [of _ _ "cl\<lparr>c_draws := c_draws cl + 1\<rparr>"])
    (simp add: extends_def breaker_wait, rule sleep_or_done_extends)

lemma reauth_extends: "extends P cl (register_failure w (cl\<lparr>c_auth := invalidate (c_auth cl)\<rparr>))"
  by (rule extends_trans [OF set_auth_extends register_failure_extends]) simp

lemma do_response_extends: "do_response ca r cl = (res, cl') \<Longrightarrow> extends P cl cl'"
  by (auto simp: do_response_def Let_def split: if_splits
      intro: register_success_extends register_failure_extends reauth_extends)

lemma do_exchange_extends:
  assumes "do_exchange env cx ca hs cl = (res, cl')"
  shows "extends (sends_of cl ca) cl cl'"
proof (cases "http_send env cx (call_request cl ca hs) cl")
  case (Pair r cl1)
  then have "extends (sends_of cl ca) cl cl1"
    by (rule http_send_extends) (auto simp: sends_of_def)
  with assms Pair show ?thesis
    by (auto simp: do_exchange_def split: sum.splits http_result.splits
        intro: extends_trans register_failure_extends do_response_extends)
qed

lemma count_write_extends: "extends P cl (count_write ca k cl)"
  by (simp add: count_write_def extends_def breaker_wait)

lemma attempt_wait_extends: "attempt_wait env cx k cl = (stop, cl') \<Longrightarrow> extends P cl cl'"
  by (auto simp: attempt_wait_def split: if_splits intro: backoff_wait_extends)

text \<open>How an attempt ends: before anything is sent, in the authentication, or in the exchange.\<close>

lemma do_attempt_cases:
  assumes "do_attempt env cx ca k cl = (res, cl')"
  obtains (unsent) stop e where "attempt_wait env cx k (count_write ca k cl) = (stop, cl')" "res = Done (Inl e)"
    | (unauth) c1 e where "attempt_wait env cx k (count_write ca k cl) = (False, c1)"
        "apply_auth env cx c1 = (Inl e, cl')" "res = Done (Inl e)"
    | (exch) c1 hs c2 where "attempt_wait env cx k (count_write ca k cl) = (False, c1)"
        "apply_auth env cx c1 = (Inr hs, c2)" "do_exchange env cx ca hs c2 = (res, cl')"
  using assms by (auto simp: do_attempt_def split: prod.splits if_splits option.splits sum.splits)

lemma do_attempt_extends:
  assumes "do_attempt env cx ca k cl = (res, cl')"
  shows "extends (sends_of cl ca) cl cl'"
proof -
  have wait: "extends (sends_of cl ca) cl c1"
    if "attempt_wait env cx k (count_write ca k cl) = (stop, c1)" for stop c1
    by (rule extends_trans [OF count_write_extends attempt_wait_extends [OF that]])
  have auth: "extends (sends_of cl ca) cl c2"
    if "attempt_wait env cx k (count_write ca k cl) = (stop, c1)" "apply_auth env cx c1 = (r, c2)" for stop c1 r c2
  proof -
    have "extends (sends_of cl ca) c1 c2"
      by (rule apply_auth_extends [OF that(2)])
        (use extends_auth [OF wait [OF that(1)]] in \<open>auto simp: sends_of_def\<close>)
    with wait [OF that(1)] show ?thesis by (rule extends_trans)
  qed
  from assms show ?thesis
  proof (cases rule: do_attempt_cases)
    case (exch c1 hs c2)
    note e = auth [OF exch(1,2)]
    from do_exchange_extends [OF exch(3)] have "extends (sends_of cl ca) c2 cl'"
      using sends_of_extends [OF e] by metis
    with e show ?thesis by (rule extends_trans)
  qed (use wait auth in blast)+
qed

lemma do_loop_extends:
  "do_loop env cx ca n prev cl = (res, cl') \<Longrightarrow> extends (sends_of cl ca) cl cl'"
proof (induction n arbitrary: prev cl)
  case (Suc n)
  obtain r c1 where a: "do_attempt env cx ca (max_retries - n) cl = (r, c1)" by fastforce
  have e: "extends (sends_of cl ca) cl c1" by (rule do_attempt_extends [OF a])
  show ?case
  proof (cases r)
    case (Done x)
    with Suc.prems a e show ?thesis by simp
  next
    case (Retry x)
    with Suc.prems a have "extends (sends_of c1 ca) c1 cl'" by (auto intro: Suc.IH)
    with e show ?thesis using sends_of_extends [OF e] by (metis extends_trans)
  qed
qed simp

lemma ask_breaker_extends: "extends P cl (ask_breaker ca cl)"
  using breaker_step.ask [of "c_now cl" "c_now cl" "c_breaker cl"]
  by (auto simp: extends_def ask_breaker_def intro: breaker_reach_step breaker_reach.intros)

theorem client_do_extends:
  assumes "client_do env cx ca cl = (res, cl')"
  shows "extends (sends_of cl ca) cl cl'"
proof -
  note e = ask_breaker_extends [of "sends_of cl ca" cl ca]
  show ?thesis
  proof (cases "write_allowed ca cl")
    case True
    with assms have "do_loop env cx ca (max_retries + 1) None (ask_breaker ca cl) = (res, cl')"
      by (simp add: client_do_def del: do_loop.simps)
    then have "extends (sends_of (ask_breaker ca cl) ca) (ask_breaker ca cl) cl'" by (rule do_loop_extends)
    with e show ?thesis using sends_of_extends [OF e] by (metis extends_trans)
  next
    case False
    with assms e show ?thesis by (simp add: client_do_def del: do_loop.simps)
  qed
qed

section \<open>How many requests, and which answers\<close>

text \<open>The requests one attempt may cost: with ticket authentication one more, for the exchange.\<close>

definition attempt_cost :: "client \<Rightarrow> nat" where
  "attempt_cost cl = (if au_method (c_auth cl) = ''token'' then 1 else 2)"

lemma attempt_cost_extends: "extends P a b \<Longrightarrow> attempt_cost b = attempt_cost a"
  using extends_auth [of P a b] by (simp add: attempt_cost_def)

lemma http_send_len: "http_send env cx rq cl = (res, cl') \<Longrightarrow> length (c_sent cl') \<le> length (c_sent cl) + 1"
  by (auto simp: http_send_def Let_def split: if_splits)

lemma sent_register [simp]:
  "c_sent (register_success w cl) = c_sent cl" "c_sent (register_failure w cl) = c_sent cl"
  "c_writes (register_success w cl) = c_writes cl" "c_writes (register_failure w cl) = c_writes cl"
  "c_now (register_success w cl) = c_now cl" "c_now (register_failure w cl) = c_now cl"
  by (simp_all add: register_success_def register_failure_def Let_def)

lemma do_response_sent: "do_response ca r cl = (res, cl') \<Longrightarrow> c_sent cl' = c_sent cl \<and> c_writes cl' = c_writes cl"
  by (auto simp: do_response_def Let_def split: if_splits)

lemma backoff_wait_sent: "backoff_wait env cx k cl = (r, cl') \<Longrightarrow> c_sent cl' = c_sent cl \<and> c_writes cl' = c_writes cl"
  by (auto simp: backoff_wait_def sleep_or_done_def Let_def split: option.splits if_splits)

lemma http_send_writes: "http_send env cx rq cl = (res, cl') \<Longrightarrow> c_writes cl' = c_writes cl"
  by (auto simp: http_send_def Let_def split: if_splits)

lemma fetch_ticket_cost:
  "fetch_ticket env cx cl = (res, cl') \<Longrightarrow>
   length (c_sent cl') \<le> length (c_sent cl) + 1 \<and> c_writes cl' = c_writes cl"
  by (cases "http_send env cx (ticket_request (c_auth cl)) cl")
    (auto simp: fetch_ticket_def split: option.splits sum.splits http_result.splits
      dest: http_send_len http_send_writes)

lemma apply_auth_cost:
  "apply_auth env cx cl = (res, cl') \<Longrightarrow>
   length (c_sent cl') + 1 \<le> length (c_sent cl) + attempt_cost cl \<and> c_writes cl' = c_writes cl"
  by (auto simp: apply_auth_def attempt_cost_def Let_def split: if_splits prod.splits option.splits
      dest: fetch_ticket_cost)

lemma do_exchange_cost:
  "do_exchange env cx ca hs cl = (res, cl') \<Longrightarrow>
   length (c_sent cl') \<le> length (c_sent cl) + 1 \<and> c_writes cl' = c_writes cl"
proof (cases "http_send env cx (call_request cl ca hs) cl")
  case (Pair r cl1)
  note http_send_len [OF Pair] http_send_writes [OF Pair]
  moreover assume "do_exchange env cx ca hs cl = (res, cl')"
  ultimately show ?thesis
    using Pair do_response_sent [of ca _ cl1 res cl']
    by (auto simp: do_exchange_def split: sum.splits http_result.splits)
qed

lemma attempt_start:
  assumes "attempt_wait env cx k (count_write ca k cl) = (stop, c1)"
  shows "c_sent c1 = c_sent cl" "attempt_cost c1 = attempt_cost cl"
    "c_writes c1 = (if k = 0 \<and> is_write (ca_method ca) then (c_writes cl + 1) mod 2 ^ 64 else c_writes cl)"
proof -
  have "attempt_cost c1 = attempt_cost (count_write ca k cl)"
    by (rule attempt_cost_extends [OF attempt_wait_extends [OF assms]])
  then show "attempt_cost c1 = attempt_cost cl" by (simp add: count_write_def attempt_cost_def)
qed (use assms in \<open>auto simp: attempt_wait_def count_write_def dest: backoff_wait_sent split: if_splits\<close>)

lemma do_attempt_cost:
  assumes "do_attempt env cx ca k cl = (res, cl')"
  shows "length (c_sent cl') \<le> length (c_sent cl) + attempt_cost cl \<and>
         c_writes cl' = (if k = 0 \<and> is_write (ca_method ca) then (c_writes cl + 1) mod 2 ^ 64 else c_writes cl)"
  using assms
proof (cases rule: do_attempt_cases)
  case (unsent stop e)
  then show ?thesis using attempt_start [OF unsent(1)] by simp
next
  case (unauth c1 e)
  then show ?thesis using attempt_start [OF unauth(1)] apply_auth_cost [OF unauth(2)] by simp
next
  case (exch c1 hs c2)
  then show ?thesis
    using attempt_start [OF exch(1)] apply_auth_cost [OF exch(2)] do_exchange_cost [OF exch(3)] by simp
qed

lemma do_loop_cost:
  "do_loop env cx ca n prev cl = (res, cl') \<Longrightarrow>
   length (c_sent cl') \<le> length (c_sent cl) + n * attempt_cost cl"
proof (induction n arbitrary: prev cl)
  case (Suc n)
  obtain r c1 where a: "do_attempt env cx ca (max_retries - n) cl = (r, c1)" by fastforce
  note cost = do_attempt_cost [OF a] attempt_cost_extends [OF do_attempt_extends [OF a]]
  show ?case
  proof (cases r)
    case (Done x)
    with Suc.prems a cost show ?thesis by simp
  next
    case (Retry x)
    with Suc.prems a have "length (c_sent cl') \<le> length (c_sent c1) + n * attempt_cost c1"
      by (auto intro: Suc.IH)
    with cost show ?thesis by (simp add: algebra_simps)
  qed
qed simp

lemma do_loop_writes:
  "do_loop env cx ca n prev cl = (res, cl') \<Longrightarrow> n \<le> max_retries \<Longrightarrow> c_writes cl' = c_writes cl"
proof (induction n arbitrary: prev cl)
  case (Suc n)
  obtain r c1 where a: "do_attempt env cx ca (max_retries - n) cl = (r, c1)" by fastforce
  have "max_retries - n \<noteq> 0" using Suc.prems(2) by simp
  with do_attempt_cost [OF a] have "c_writes c1 = c_writes cl" by simp
  with Suc.prems a Suc.IH show ?case by (auto split: attempt.splits)
qed simp

text \<open>
  The shape of every call: the gate, then the loop.
\<close>

lemma ask_breaker_sel [simp]:
  "c_sent (ask_breaker ca cl) = c_sent cl" "c_writes (ask_breaker ca cl) = c_writes cl"
  "c_auth (ask_breaker ca cl) = c_auth cl" "c_now (ask_breaker ca cl) = c_now cl"
  by (simp_all add: ask_breaker_def)

lemma write_allowed_iff:
  "write_allowed ca cl \<longleftrightarrow>
   \<not> (is_write (ca_method ca) \<and> b_open (c_breaker cl) \<and> c_now cl \<le> b_until (c_breaker cl))"
  by (auto simp: write_allowed_def breaker_allows_def)

lemma client_do_cases:
  assumes "client_do env cx ca cl = (res, cl')"
  obtains (gate) "is_write (ca_method ca)" "b_open (c_breaker cl)" "c_now cl \<le> b_until (c_breaker cl)" "cl' = cl"
      "res = Inl (EWrap [] EReadOnly ('': '' @ ca_method ca @ '' '' @ ca_path ca @ '' on '' @ ca_node ca))"
    | (loop) "do_loop env cx ca (max_retries + 1) None (ask_breaker ca cl) = (res, cl')" "write_allowed ca cl"
  using assms
  by (cases "write_allowed ca cl")
    (auto simp: client_do_def write_allowed_iff ask_breaker_def breaker_allows_def simp del: do_loop.simps)

lemma client_do_cost:
  assumes "client_do env cx ca cl = (res, cl')"
  shows "length (c_sent cl') \<le> length (c_sent cl) + (max_retries + 1) * attempt_cost cl"
  using assms
proof (cases rule: client_do_cases)
  case gate
  then show ?thesis by simp
next
  case loop
  from do_loop_cost [OF loop(1)] show ?thesis by (simp add: attempt_cost_def)
qed

lemma client_do_writes:
  assumes "client_do env cx ca cl = (res, cl')" "\<not> is_write (ca_method ca)"
  shows "c_writes cl' = c_writes cl"
  using assms(1)
proof (cases rule: client_do_cases)
  case loop
  obtain r c1 where a: "do_attempt env cx ca 0 (ask_breaker ca cl) = (r, c1)" by fastforce
  from do_attempt_cost [OF a] assms(2) have "c_writes c1 = c_writes cl" by simp
  with loop(1) a show ?thesis by (auto split: attempt.splits dest: do_loop_writes)
qed simp

section \<open>What success means\<close>

lemma do_exchange_ok:
  assumes "do_exchange env cx ca hs cl = (Done (Inr x), cl')"
  shows "\<exists>r. e_reply env (c_sent cl') = Response r \<and> 200 \<le> rs_status r \<and> rs_status r < 300 \<and>
             parse_envelope (ca_dec ca) (ca_out ca) r = Inr x \<and>
             \<not> b_open (c_breaker cl') \<and> b_consec (c_breaker cl') = 0 \<and> c_last_read cl' = Some (c_now cl')"
  using assms
  by (auto simp: do_exchange_def http_send_def do_response_def register_success_def record_ok_def Let_def
      split: if_splits http_result.splits)

lemma do_attempt_ok:
  assumes "do_attempt env cx ca k cl = (Done (Inr x), cl')"
  shows "\<exists>hs c2. do_exchange env cx ca hs c2 = (Done (Inr x), cl')"
  using assms by (cases rule: do_attempt_cases) auto

lemma do_loop_ok:
  "do_loop env cx ca n prev cl = (Inr x, cl') \<Longrightarrow> \<exists>hs c2. do_exchange env cx ca hs c2 = (Done (Inr x), cl')"
proof (induction n arbitrary: prev cl)
  case (Suc n)
  obtain r c1 where a: "do_attempt env cx ca (max_retries - n) cl = (r, c1)" by fastforce
  with Suc show ?case by (cases r) (auto dest: do_attempt_ok)
qed simp

lemma client_do_ok:
  assumes "client_do env cx ca cl = (Inr x, cl')"
  shows "\<exists>r. e_reply env (c_sent cl') = Response r \<and> 200 \<le> rs_status r \<and> rs_status r < 300 \<and>
             parse_envelope (ca_dec ca) (ca_out ca) r = Inr x \<and>
             \<not> b_open (c_breaker cl') \<and> b_consec (c_breaker cl') = 0 \<and> c_last_read cl' = Some (c_now cl')"
  using assms
proof (cases rule: client_do_cases)
  case loop
  from do_loop_ok [OF loop(1)] show ?thesis by (auto dest: do_exchange_ok)
qed simp

end
