(* ===== verification/Pve_Endpoints.thy ===== *)
theory Pve_Endpoints
  imports Pve_Request
begin

text \<open>
  The PVE endpoints: \<^verbatim>\<open>internal/pveclient/vm.go\<close>, \<^verbatim>\<open>lxc.go\<close>, \<^verbatim>\<open>storage.go\<close>,
  \<^verbatim>\<open>nodes.go\<close> and the cluster listing of \<^verbatim>\<open>client.go\<close>.  Each is one or two calls of
  \<open>client_do\<close>; the structs they decode into are records.
\<close>

section \<open>Decoding\<close>

definition int_range :: "int \<Rightarrow> bool" where
  "int_range i \<longleftrightarrow> - (2 ^ 63) \<le> i \<and> i < 2 ^ 63"

definition json_int_field :: "string \<Rightarrow> (string \<times> json) list \<Rightarrow> string + int" where
  "json_int_field n kvs = (case json_field n kvs of
      None \<Rightarrow> Inr 0 | Some JNull \<Rightarrow> Inr 0
    | Some (JInt i) \<Rightarrow> (if int_range i then Inr i else Inl json_err)
    | Some _ \<Rightarrow> Inl json_err)"

text \<open>A \<^verbatim>\<open>*float64\<close> field.\<close>

definition json_float_field :: "string \<Rightarrow> (string \<times> json) list \<Rightarrow> string + rat option" where
  "json_float_field n kvs = (case json_field n kvs of
      None \<Rightarrow> Inr None | Some JNull \<Rightarrow> Inr None
    | Some (JInt i) \<Rightarrow> Inr (Some (of_int i))
    | Some (JDec q) \<Rightarrow> Inr (Some q)
    | Some _ \<Rightarrow> Inl json_err)"

text \<open>A struct from an object; \<open>null\<close> leaves it at its zero value.\<close>

definition decode_struct :: "((string \<times> json) list \<Rightarrow> string + 'a) \<Rightarrow> json \<Rightarrow> string + 'a" where
  "decode_struct f j = (case j of JObj kvs \<Rightarrow> f kvs | JNull \<Rightarrow> f [] | _ \<Rightarrow> Inl json_err)"

fun decode_all :: "(json \<Rightarrow> string + 'a) \<Rightarrow> json list \<Rightarrow> string + 'a list" where
  "decode_all f [] = Inr []"
| "decode_all f (j # js) =
     (case (f j, decode_all f js) of (Inr a, Inr as) \<Rightarrow> Inr (a # as) | _ \<Rightarrow> Inl json_err)"

definition decode_list :: "(json \<Rightarrow> string + 'a) \<Rightarrow> json \<Rightarrow> string + 'a list" where
  "decode_list f j = (case j of JArr js \<Rightarrow> decode_all f js | JNull \<Rightarrow> Inr [] | _ \<Rightarrow> Inl json_err)"

text \<open>Decoding into \<^verbatim>\<open>map[string]any\<close>: every number becomes a \<^verbatim>\<open>float64\<close>.\<close>

fun json_any :: "json \<Rightarrow> pval" where
  "json_any JNull = PNil"
| "json_any (JBool b) = PBool b"
| "json_any (JInt i) = PFloat (of_int i)"
| "json_any (JDec q) = PFloat q"
| "json_any (JStr s) = PStr s"
| "json_any (JArr js) = PArr (map json_any js)"
| "json_any (JObj kvs) = PObj (map (\<lambda>kv. (fst kv, json_any (snd kv))) kvs)"

text \<open>A later occurrence of a key overwrites an earlier one.\<close>

definition decode_config :: "json \<Rightarrow> string + params" where
  "decode_config j = (case j of
      JObj kvs \<Rightarrow> Inr (fold (\<lambda>(k, v). put k (json_any v)) kvs [])
    | _ \<Rightarrow> Inl json_err)"

section \<open>Calls\<close>

type_synonym 'a io = "client \<Rightarrow> (go_err + 'a) \<times> client"

definition io_return :: "'a \<Rightarrow> 'a io" where
  "io_return a = (\<lambda>cl. (Inr a, cl))"

definition io_fail :: "go_err \<Rightarrow> 'a io" where
  "io_fail e = (\<lambda>cl. (Inl e, cl))"

definition io_bind :: "'a io \<Rightarrow> ('a \<Rightarrow> 'b io) \<Rightarrow> 'b io" where
  "io_bind m f = (\<lambda>cl. case m cl of (Inl e, cl1) \<Rightarrow> (Inl e, cl1) | (Inr a, cl1) \<Rightarrow> f a cl1)"

text \<open>\<^verbatim>\<open>m\<close> with its error wrapped by a function of it.\<close>

definition io_wrap :: "(go_err \<Rightarrow> go_err) \<Rightarrow> 'a io \<Rightarrow> 'a io" where
  "io_wrap w m = (\<lambda>cl. case m cl of (Inl e, cl1) \<Rightarrow> (Inl (w e), cl1) | (Inr a, cl1) \<Rightarrow> (Inr a, cl1))"

text \<open>A read into a struct, and a request whose result is only its UPID.\<close>

definition api_get :: "env \<Rightarrow> ctx \<Rightarrow> string \<Rightarrow> string \<Rightarrow> (json \<Rightarrow> string + 'a) \<Rightarrow> 'a \<Rightarrow> 'a io" where
  "api_get env cx node path dec zero =
     io_bind (client_do env cx \<lparr>ca_method = ''GET'', ca_node = node, ca_path = path, ca_form = [],
                                ca_dec = Some dec, ca_out = zero\<rparr>)
             (\<lambda>(upid, a). io_return a)"

definition api_send :: "env \<Rightarrow> ctx \<Rightarrow> string \<Rightarrow> string \<Rightarrow> string \<Rightarrow> (string \<times> string) list \<Rightarrow> string io" where
  "api_send env cx meth node path form =
     io_bind (client_do env cx \<lparr>ca_method = meth, ca_node = node, ca_path = path, ca_form = form,
                                ca_dec = None, ca_out = ()\<rparr>)
             (\<lambda>(upid, u). io_return upid)"

definition gateway_label :: string where "gateway_label = ''gateway''"

section \<open>Cluster and nodes\<close>

record cluster_resource =
  cr_node :: string
  cr_vmid :: int
  cr_type :: string
  cr_kind :: string
  cr_status :: string
  cr_name :: string
  cr_tags :: string
  cr_pool :: string

definition decode_cluster_resource :: "(string \<times> json) list \<Rightarrow> string + cluster_resource" where
  "decode_cluster_resource kvs =
     (case (json_str_field ''node'' kvs, json_int_field ''vmid'' kvs, json_str_field ''type'' kvs,
            json_str_field ''kind'' kvs, json_str_field ''status'' kvs, json_str_field ''name'' kvs,
            json_str_field ''tags'' kvs, json_str_field ''pool'' kvs) of
        (Inr nd, Inr i, Inr t, Inr k, Inr st, Inr nm, Inr tg, Inr pl) \<Rightarrow>
          Inr \<lparr>cr_node = nd, cr_vmid = i, cr_type = t, cr_kind = k, cr_status = st, cr_name = nm,
               cr_tags = tg, cr_pool = pl\<rparr>
      | _ \<Rightarrow> Inl json_err)"

definition cluster_resources :: "env \<Rightarrow> ctx \<Rightarrow> cluster_resource list io" where
  "cluster_resources env cx =
     api_get env cx gateway_label ''/cluster/resources'' (decode_list (decode_struct decode_cluster_resource)) []"

definition pve_version :: "env \<Rightarrow> ctx \<Rightarrow> int io" where
  "pve_version env cx =
     api_get env cx gateway_label ''/version''
       (\<lambda>j. case j of JInt i \<Rightarrow> (if int_range i then Inr i else Inl json_err) | JNull \<Rightarrow> Inr 0 | _ \<Rightarrow> Inl json_err) 0"

definition pve_nodes :: "env \<Rightarrow> ctx \<Rightarrow> string list io" where
  "pve_nodes env cx =
     api_get env cx gateway_label ''cluster/nodes'' (decode_list (decode_struct (json_str_field ''node''))) []"

record list_entry =
  le_id :: int
  le_name :: string
  le_status :: string
  le_tags :: string

definition decode_list_entry :: "(string \<times> json) list \<Rightarrow> string + list_entry" where
  "decode_list_entry kvs =
     (case (json_int_field ''vmid'' kvs, json_str_field ''name'' kvs, json_str_field ''status'' kvs,
            json_str_field ''tags'' kvs) of
        (Inr i, Inr n, Inr s, Inr t) \<Rightarrow> Inr \<lparr>le_id = i, le_name = n, le_status = s, le_tags = t\<rparr>
      | _ \<Rightarrow> Inl json_err)"

definition vm_list :: "env \<Rightarrow> ctx \<Rightarrow> string \<Rightarrow> list_entry list io" where
  "vm_list env cx node =
     api_get env cx node (''nodes/'' @ node @ ''/qemu'') (decode_list (decode_struct decode_list_entry)) []"

definition lxc_list :: "env \<Rightarrow> ctx \<Rightarrow> string \<Rightarrow> list_entry list io" where
  "lxc_list env cx node =
     api_get env cx node (''nodes/'' @ node @ ''/lxc'') (decode_list (decode_struct decode_list_entry)) []"

fun storage_ids :: "string list \<Rightarrow> (string \<times> string) list \<Rightarrow> string list" where
  "storage_ids seen [] = []"
| "storage_ids seen ((st, i) # rest) =
     (let x = (if st = [] then i else st)
      in if x = [] \<or> x \<in> set seen then storage_ids seen rest else x # storage_ids (x # seen) rest)"

definition decode_storage :: "(string \<times> json) list \<Rightarrow> string + string \<times> string" where
  "decode_storage kvs = (case (json_str_field ''storage'' kvs, json_str_field ''id'' kvs) of
      (Inr s, Inr i) \<Rightarrow> Inr (s, i) | _ \<Rightarrow> Inl json_err)"

definition storage_list :: "env \<Rightarrow> ctx \<Rightarrow> string \<Rightarrow> string list io" where
  "storage_list env cx node =
     io_bind (api_get env cx node (''nodes/'' @ node @ ''/storage'')
                (decode_list (decode_struct decode_storage)) [])
             (\<lambda>out. io_return (storage_ids [] out))"

section \<open>VMs\<close>

record vm_status =
  vs_vmid :: int
  vs_status :: string
  vs_maxmem :: int
  vs_cpus :: int
  vs_cpu :: "rat option"
  vs_mem :: "rat option"
  vs_disk :: "rat option"
  vs_netin :: "rat option"
  vs_netout :: "rat option"
  vs_uptime :: "rat option"

definition zero_vm_status :: vm_status where
  "zero_vm_status =
     \<lparr>vs_vmid = 0, vs_status = [], vs_maxmem = 0, vs_cpus = 0, vs_cpu = None, vs_mem = None,
      vs_disk = None, vs_netin = None, vs_netout = None, vs_uptime = None\<rparr>"

definition decode_vm_status :: "(string \<times> json) list \<Rightarrow> string + vm_status" where
  "decode_vm_status kvs =
     (case (json_int_field ''vmid'' kvs, json_str_field ''status'' kvs, json_int_field ''maxmem'' kvs,
            json_int_field ''cpus'' kvs) of
        (Inr i, Inr s, Inr mm, Inr cs) \<Rightarrow>
          (case (json_float_field ''cpu'' kvs, json_float_field ''mem'' kvs, json_float_field ''disk'' kvs,
                 json_float_field ''netin'' kvs, json_float_field ''netout'' kvs, json_float_field ''uptime'' kvs) of
             (Inr a, Inr b, Inr c, Inr d, Inr e, Inr f) \<Rightarrow>
               Inr \<lparr>vs_vmid = i, vs_status = s, vs_maxmem = mm, vs_cpus = cs, vs_cpu = a, vs_mem = b,
                    vs_disk = c, vs_netin = d, vs_netout = e, vs_uptime = f\<rparr>
           | _ \<Rightarrow> Inl json_err)
      | _ \<Rightarrow> Inl json_err)"

definition vm_is_stopped :: "vm_status \<Rightarrow> bool" where
  "vm_is_stopped s \<longleftrightarrow> vs_status s = ''stopped''"

definition vm_base :: "string \<Rightarrow> int \<Rightarrow> string" where
  "vm_base node vmid = ''nodes/'' @ node @ ''/qemu/'' @ itoa vmid"

definition vm_create :: "env \<Rightarrow> ctx \<Rightarrow> string \<Rightarrow> (string \<times> string) list \<Rightarrow> bool \<Rightarrow> string io" where
  "vm_create env cx node form start =
     api_send env cx ''POST'' node (''nodes/'' @ node @ ''/qemu'') (if start then put ''start'' ''1'' form else form)"

definition vm_get :: "env \<Rightarrow> ctx \<Rightarrow> string \<Rightarrow> int \<Rightarrow> params io" where
  "vm_get env cx node vmid = api_get env cx node (vm_base node vmid @ ''/config'') decode_config []"

definition vm_update :: "env \<Rightarrow> ctx \<Rightarrow> string \<Rightarrow> int \<Rightarrow> (string \<times> string) list \<Rightarrow> string io" where
  "vm_update env cx node vmid form = api_send env cx ''POST'' node (vm_base node vmid @ ''/config'') form"

definition vm_start :: "env \<Rightarrow> ctx \<Rightarrow> string \<Rightarrow> int \<Rightarrow> string io" where
  "vm_start env cx node vmid = api_send env cx ''POST'' node (vm_base node vmid @ ''/status/start'') []"

definition vm_stop :: "env \<Rightarrow> ctx \<Rightarrow> string \<Rightarrow> int \<Rightarrow> string io" where
  "vm_stop env cx node vmid = api_send env cx ''POST'' node (vm_base node vmid @ ''/status/stop'') []"

definition vm_shutdown :: "env \<Rightarrow> ctx \<Rightarrow> string \<Rightarrow> int \<Rightarrow> string io" where
  "vm_shutdown env cx node vmid = api_send env cx ''POST'' node (vm_base node vmid @ ''/status/shutdown'') []"

definition vm_reboot :: "env \<Rightarrow> ctx \<Rightarrow> string \<Rightarrow> int \<Rightarrow> string io" where
  "vm_reboot env cx node vmid = api_send env cx ''POST'' node (vm_base node vmid @ ''/status/reboot'') []"

definition vm_get_status :: "env \<Rightarrow> ctx \<Rightarrow> string \<Rightarrow> int \<Rightarrow> vm_status io" where
  "vm_get_status env cx node vmid =
     api_get env cx node (vm_base node vmid @ ''/status/current'') (decode_struct decode_vm_status) zero_vm_status"

definition vm_delete :: "env \<Rightarrow> ctx \<Rightarrow> string \<Rightarrow> int \<Rightarrow> string io" where
  "vm_delete env cx node vmid = api_send env cx ''DELETE'' node (vm_base node vmid) []"

definition vm_resize :: "env \<Rightarrow> ctx \<Rightarrow> string \<Rightarrow> int \<Rightarrow> int \<Rightarrow> string io" where
  "vm_resize env cx node vmid mib =
     api_send env cx ''POST'' node (vm_base node vmid @ ''/resize'') [(''memory'', itoa mib)]"

definition vm_mark_template :: "env \<Rightarrow> ctx \<Rightarrow> string \<Rightarrow> int \<Rightarrow> string io" where
  "vm_mark_template env cx node vmid = api_send env cx ''POST'' node (vm_base node vmid @ ''/template'') []"

definition vm_clone :: "env \<Rightarrow> ctx \<Rightarrow> string \<Rightarrow> int \<Rightarrow> int \<Rightarrow> bool \<Rightarrow> string \<Rightarrow> string io" where
  "vm_clone env cx node src newid full name =
     (let p = [(''newid'', itoa newid), (''full'', ''0'')];
          p = (if full then put ''full'' ''1'' p else p);
          p = (if name \<noteq> [] then put ''name'' name p else p)
      in api_send env cx ''POST'' node (vm_base node src @ ''/clone'') p)"

text \<open>The type switch of \<^verbatim>\<open>IsTemplate\<close>: strings and Go ints only.\<close>

definition template_flag :: "params \<Rightarrow> bool" where
  "template_flag cfg = (case map_of cfg ''template'' of
      Some (PStr s) \<Rightarrow> s = ''1'' | Some (PInt i) \<Rightarrow> i = 1 | _ \<Rightarrow> False)"

definition vm_is_template :: "env \<Rightarrow> ctx \<Rightarrow> string \<Rightarrow> int \<Rightarrow> bool io" where
  "vm_is_template env cx node vmid = io_bind (vm_get env cx node vmid) (\<lambda>cfg. io_return (template_flag cfg))"

section \<open>Containers\<close>

record lxc_status =
  ls_cid :: int
  ls_status :: string
  ls_maxmem :: int
  ls_mem :: "rat option"
  ls_disk :: "rat option"
  ls_uptime :: "rat option"

definition zero_lxc_status :: lxc_status where
  "zero_lxc_status =
     \<lparr>ls_cid = 0, ls_status = [], ls_maxmem = 0, ls_mem = None, ls_disk = None, ls_uptime = None\<rparr>"

definition decode_lxc_status :: "(string \<times> json) list \<Rightarrow> string + lxc_status" where
  "decode_lxc_status kvs =
     (case (json_int_field ''cid'' kvs, json_str_field ''status'' kvs, json_int_field ''maxmem'' kvs,
            json_float_field ''mem'' kvs, json_float_field ''disk'' kvs, json_float_field ''uptime'' kvs) of
        (Inr i, Inr s, Inr mm, Inr a, Inr b, Inr c) \<Rightarrow>
          Inr \<lparr>ls_cid = i, ls_status = s, ls_maxmem = mm, ls_mem = a, ls_disk = b, ls_uptime = c\<rparr>
      | _ \<Rightarrow> Inl json_err)"

definition lxc_is_stopped :: "lxc_status \<Rightarrow> bool" where
  "lxc_is_stopped s \<longleftrightarrow> ls_status s = ''stopped''"

definition lxc_base :: "string \<Rightarrow> int \<Rightarrow> string" where
  "lxc_base node cid = ''nodes/'' @ node @ ''/lxc/'' @ itoa cid"

definition lxc_create :: "env \<Rightarrow> ctx \<Rightarrow> string \<Rightarrow> (string \<times> string) list \<Rightarrow> bool \<Rightarrow> string io" where
  "lxc_create env cx node form start =
     api_send env cx ''POST'' node (''nodes/'' @ node @ ''/lxc'') (if start then put ''start'' ''1'' form else form)"

definition lxc_get :: "env \<Rightarrow> ctx \<Rightarrow> string \<Rightarrow> int \<Rightarrow> params io" where
  "lxc_get env cx node cid = api_get env cx node (lxc_base node cid @ ''/config'') decode_config []"

definition lxc_update :: "env \<Rightarrow> ctx \<Rightarrow> string \<Rightarrow> int \<Rightarrow> (string \<times> string) list \<Rightarrow> string io" where
  "lxc_update env cx node cid form = api_send env cx ''PUT'' node (lxc_base node cid @ ''/config'') form"

definition lxc_start :: "env \<Rightarrow> ctx \<Rightarrow> string \<Rightarrow> int \<Rightarrow> string io" where
  "lxc_start env cx node cid = api_send env cx ''POST'' node (lxc_base node cid @ ''/status/start'') []"

definition lxc_stop :: "env \<Rightarrow> ctx \<Rightarrow> string \<Rightarrow> int \<Rightarrow> string io" where
  "lxc_stop env cx node cid = api_send env cx ''POST'' node (lxc_base node cid @ ''/status/stop'') []"

definition lxc_get_status :: "env \<Rightarrow> ctx \<Rightarrow> string \<Rightarrow> int \<Rightarrow> lxc_status io" where
  "lxc_get_status env cx node cid =
     api_get env cx node (lxc_base node cid @ ''/status/current'') (decode_struct decode_lxc_status) zero_lxc_status"

text \<open>A status that cannot be read counts as nothing to stop; the stop task is not awaited.\<close>

definition lxc_delete :: "env \<Rightarrow> ctx \<Rightarrow> string \<Rightarrow> int \<Rightarrow> string io" where
  "lxc_delete env cx node cid = (\<lambda>cl.
     case lxc_get_status env cx node cid cl of
       (st, cl1) \<Rightarrow>
         if (case st of Inr s \<Rightarrow> \<not> lxc_is_stopped s | Inl _ \<Rightarrow> False)
         then io_bind (lxc_stop env cx node cid)
                (\<lambda>_. api_send env cx ''DELETE'' node (lxc_base node cid) []) cl1
         else api_send env cx ''DELETE'' node (lxc_base node cid) [] cl1)"

definition lxc_is_template :: "env \<Rightarrow> ctx \<Rightarrow> string \<Rightarrow> int \<Rightarrow> bool io" where
  "lxc_is_template env cx node cid = io_bind (lxc_get env cx node cid) (\<lambda>cfg. io_return (template_flag cfg))"

definition lxc_mark_template :: "env \<Rightarrow> ctx \<Rightarrow> string \<Rightarrow> int \<Rightarrow> string io" where
  "lxc_mark_template env cx node cid = api_send env cx ''POST'' node (lxc_base node cid @ ''/template'') []"

definition lxc_unmark_template :: "env \<Rightarrow> ctx \<Rightarrow> string \<Rightarrow> int \<Rightarrow> string io" where
  "lxc_unmark_template env cx node cid = api_send env cx ''POST'' node (lxc_base node cid @ ''/untemplate'') []"

definition lxc_clone :: "env \<Rightarrow> ctx \<Rightarrow> string \<Rightarrow> int \<Rightarrow> int \<Rightarrow> (string \<times> string) list \<Rightarrow> string io" where
  "lxc_clone env cx node src dst form =
     api_send env cx ''POST'' node (''nodes/'' @ node @ ''/lxc/'' @ itoa src @ ''/clone'')
       (put ''newid'' (itoa dst) form)"

definition lxc_ct_template :: "env \<Rightarrow> ctx \<Rightarrow> string \<Rightarrow> int \<Rightarrow> string io" where
  "lxc_ct_template env cx node cid =
     io_bind (lxc_is_template env cx node cid)
       (\<lambda>ok. if ok then io_return [] else lxc_mark_template env cx node cid)"

definition lxc_clone_template :: "env \<Rightarrow> ctx \<Rightarrow> string \<Rightarrow> int \<Rightarrow> int \<Rightarrow> (string \<times> string) list \<Rightarrow> string io" where
  "lxc_clone_template env cx node src dst form =
     io_bind (lxc_clone env cx node src dst form) (\<lambda>_. lxc_mark_template env cx node dst)"

section \<open>Storage\<close>

record content_entry =
  ce_volid :: string
  ce_content :: string
  ce_format :: string
  ce_size :: int

definition decode_content_entry :: "(string \<times> json) list \<Rightarrow> string + content_entry" where
  "decode_content_entry kvs =
     (case (json_str_field ''volid'' kvs, json_str_field ''content'' kvs, json_str_field ''format'' kvs,
            json_int_field ''size'' kvs) of
        (Inr v, Inr c, Inr f, Inr s) \<Rightarrow> Inr \<lparr>ce_volid = v, ce_content = c, ce_format = f, ce_size = s\<rparr>
      | _ \<Rightarrow> Inl json_err)"

definition volid_last :: "string \<Rightarrow> string" where
  "volid_last volid = (case last_index_byte volid (CHR ''/'') of
      Some j \<Rightarrow> (if j < length volid - 1 then drop (j + 1) volid else volid)
    | None \<Rightarrow> volid)"

definition volid_filename :: "string \<Rightarrow> string \<Rightarrow> string" where
  "volid_filename volid content =
     (if content = [] then volid_last volid
      else (let probe = '':'' @ content @ ''/''
            in case index_sub volid probe of
                 Some i \<Rightarrow> drop (i + length probe) volid
               | None \<Rightarrow> volid_last volid))"

definition storage_content :: "env \<Rightarrow> ctx \<Rightarrow> string \<Rightarrow> string \<Rightarrow> content_entry list io" where
  "storage_content env cx node storage =
     api_get env cx node (''nodes/'' @ node @ ''/storage/'' @ storage @ ''/content'')
       (decode_list (decode_struct decode_content_entry)) []"

definition has_content :: "env \<Rightarrow> ctx \<Rightarrow> string \<Rightarrow> string \<Rightarrow> string \<Rightarrow> string \<Rightarrow> bool io" where
  "has_content env cx node storage content filename =
     io_bind (storage_content env cx node storage)
       (\<lambda>entries. io_return (\<exists>e\<in>set entries. ce_content e = content \<and>
                                volid_filename (ce_volid e) content = filename))"

definition has_iso :: "env \<Rightarrow> ctx \<Rightarrow> string \<Rightarrow> string \<Rightarrow> string \<Rightarrow> bool io" where
  "has_iso env cx node storage filename = has_content env cx node storage ''iso'' filename"

definition storage_download :: "env \<Rightarrow> ctx \<Rightarrow> string \<Rightarrow> string \<Rightarrow> string \<Rightarrow> string \<Rightarrow> string \<Rightarrow> string io" where
  "storage_download env cx node storage url filename content =
     (let p = [(''url'', url), (''filename'', filename)];
          p = (if content \<noteq> [] then put ''content'' content p else p)
      in api_send env cx ''POST'' node (''nodes/'' @ node @ ''/storage/'' @ storage @ ''/download-url'') p)"

section \<open>What the endpoints send\<close>

text \<open>
  \<open>sends P m\<close>: running \<open>m\<close> from any state extends the client by requests that satisfy \<open>P\<close>, apart
  from ticket exchanges.  \<open>P\<close> sees the API path, that is the URL after the base.
\<close>

definition is_api_request :: "client \<Rightarrow> (string \<Rightarrow> string \<Rightarrow> (string \<times> string) list \<Rightarrow> bool) \<Rightarrow> http_request \<Rightarrow> bool" where
  "is_api_request cl P rq \<longleftrightarrow>
     au_method (c_auth cl) \<noteq> ''token'' \<and> rq = ticket_request (c_auth cl) \<or>
     (\<exists>path. rq_url rq = client_url cl path \<and> P (rq_method rq) path (rq_form rq))"

definition sends :: "(string \<Rightarrow> string \<Rightarrow> (string \<times> string) list \<Rightarrow> bool) \<Rightarrow> 'a io \<Rightarrow> bool" where
  "sends P m \<longleftrightarrow> (\<forall>cl. extends (is_api_request cl P) cl (snd (m cl)))"

lemma is_api_request_extends: "extends Q a b \<Longrightarrow> is_api_request b P = is_api_request a P"
  using extends_auth [of Q a b] extends_base [of Q a b]
  by (auto simp: is_api_request_def client_url_def fun_eq_iff)

lemma sends_return: "sends P (io_return a)"
  by (simp add: sends_def io_return_def)

lemma sends_fail: "sends P (io_fail e)"
  by (simp add: sends_def io_fail_def)

lemma sends_seq:
  assumes "extends (is_api_request cl P) cl cl1" "sends P m"
  shows "extends (is_api_request cl P) cl (snd (m cl1))"
  using assms is_api_request_extends [OF assms(1)] by (metis extends_trans sends_def)

lemma sends_bind:
  assumes "sends P m" "\<And>a. sends P (f a)"
  shows "sends P (io_bind m f)"
  unfolding sends_def
proof
  fix cl
  obtain r cl1 where m: "m cl = (r, cl1)" by fastforce
  with assms(1) have e: "extends (is_api_request cl P) cl cl1" by (metis sends_def snd_conv)
  show "extends (is_api_request cl P) cl (snd (io_bind m f cl))"
    using sends_seq [OF e assms(2)] e m by (cases r) (auto simp: io_bind_def)
qed

lemma sends_wrap: "sends P m \<Longrightarrow> sends P (io_wrap w m)"
  by (auto simp: sends_def io_wrap_def split: prod.splits sum.splits) (metis snd_conv)+

lemma sends_mono: "sends P m \<Longrightarrow> (\<And>x y z. P x y z \<Longrightarrow> Q x y z) \<Longrightarrow> sends Q m"
  unfolding sends_def is_api_request_def by (blast intro: extends_mono)

lemma sends_do:
  "sends (\<lambda>m p f. m = ca_method ca \<and> p = ca_path ca @ (if m = ''GET'' then ''?'' @ values_encode (ca_form ca) else [])
                 \<and> f = (if m = ''GET'' then [] else ca_form ca)) (client_do env cx ca)"
  (is "sends ?P _")
  unfolding sends_def
proof
  fix cl
  have "extends (sends_of cl ca) cl (snd (client_do env cx ca cl))"
    by (metis client_do_extends prod.collapse)
  then show "extends (is_api_request cl ?P) cl (snd (client_do env cx ca cl))"
    by (rule extends_mono)
      (auto simp: sends_of_def is_api_request_def call_request_def call_url_def client_url_def Let_def
        dropWhile_append3)
qed

lemma sends_get: "sends (\<lambda>m p f. m = ''GET'' \<and> p = path @ ''?'' \<and> f = []) (api_get env cx node path dec zero)"
  unfolding api_get_def
  by (rule sends_bind)
    (rule sends_mono [OF sends_do], auto simp: values_encode_def split: prod.splits intro: sends_return)

lemma sends_send:
  "meth \<noteq> ''GET'' \<Longrightarrow> sends (\<lambda>m p f. m = meth \<and> p = path \<and> f = form) (api_send env cx meth node path form)"
  unfolding api_send_def
  by (rule sends_bind)
    (rule sends_mono [OF sends_do], auto split: prod.splits intro: sends_return)

definition get_only :: "string \<Rightarrow> string \<Rightarrow> (string \<times> string) list \<Rightarrow> bool" where
  "get_only m p f \<longleftrightarrow> m = ''GET''"

lemma get_only_get: "sends get_only (api_get env cx node path dec zero)"
  by (rule sends_mono [OF sends_get]) (simp add: get_only_def)

lemmas read_defs = cluster_resources_def vm_get_def vm_get_status_def lxc_get_def lxc_get_status_def
  storage_content_def pve_nodes_def vm_list_def lxc_list_def pve_version_def

text \<open>Every read endpoint sends GET requests only.\<close>

lemma get_only_reads:
  "sends get_only (cluster_resources env cx)" "sends get_only (vm_get env cx node i)"
  "sends get_only (vm_get_status env cx node i)" "sends get_only (lxc_get env cx node i)"
  "sends get_only (lxc_get_status env cx node i)" "sends get_only (storage_content env cx node st)"
  "sends get_only (pve_nodes env cx)" "sends get_only (vm_list env cx node)"
  "sends get_only (lxc_list env cx node)" "sends get_only (pve_version env cx)"
  by (simp_all add: read_defs get_only_get)

lemma get_only_has_content: "sends get_only (has_content env cx node st content fn)"
  unfolding has_content_def by (intro sends_bind sends_return get_only_reads)

end
