(* ===== verification/Pve_Task.thy ===== *)
theory Pve_Task
  imports Pve_Endpoints
begin

text \<open>
  \<^verbatim>\<open>internal/pveclient/task.go\<close>: polling a PVE task until it settles.

  \<^verbatim>\<open>TaskWaiter.Wait\<close> gets its deadline from the context; the one caller,
  \<^verbatim>\<open>exec.waitTask\<close>, always makes it with \<^verbatim>\<open>context.WithTimeout\<close>.  So the loop takes the
  deadline \<open>dl\<close> itself, and its termination is proved from it: every round that does not return
  passes a timer that fires before \<open>dl\<close>.
\<close>

section \<open>Task status\<close>

record task_status =
  ts_status :: string
  ts_progress :: "rat option"
  ts_exit :: string

definition zero_task_status :: task_status where
  "zero_task_status = \<lparr>ts_status = [], ts_progress = None, ts_exit = []\<rparr>"

definition decode_task_status :: "(string \<times> json) list \<Rightarrow> string + task_status" where
  "decode_task_status kvs =
     (case (json_str_field ''status'' kvs, json_float_field ''progress'' kvs, json_str_field ''exitstatus'' kvs) of
        (Inr s, Inr p, Inr x) \<Rightarrow> Inr \<lparr>ts_status = s, ts_progress = p, ts_exit = x\<rparr>
      | _ \<Rightarrow> Inl json_err)"

definition task_stopped :: "task_status \<Rightarrow> bool" where
  "task_stopped s \<longleftrightarrow> ts_status s = ''stopped''"

definition task_ok :: "task_status \<Rightarrow> bool" where
  "task_ok s =
     (if ts_status s \<noteq> ''stopped'' then False
      else equal_fold (ts_exit s) ''OK'' \<or> has_prefix (to_upper (ts_exit s)) ''WARNINGS:'')"

section \<open>The waiter\<close>

definition task_poll_interval :: int where "task_poll_interval = 5 * sec_ns"

text \<open>\<^verbatim>\<open>SetInterval\<close> on a waiter whose interval is \<open>iv\<close>.\<close>

definition set_interval :: "int \<Rightarrow> int \<Rightarrow> int" where
  "set_interval d iv = (if 0 < d then d else iv)"

definition status_path :: "string \<Rightarrow> string \<Rightarrow> string" where
  "status_path node upid = ''/nodes/'' @ node @ ''/tasks/'' @ path_escape upid @ ''/status''"

definition task_status_now :: "env \<Rightarrow> ctx \<Rightarrow> task_id \<Rightarrow> task_status io" where
  "task_status_now env cx tid =
     io_wrap (\<lambda>e. case e of ETaskNotFound t \<Rightarrow> e
                 | _ \<Rightarrow> (if is_not_found e then ETaskNotFound tid else e))
       (api_get env cx (tid_node tid) (status_path (tid_node tid) (tid_upid tid))
          (decode_struct decode_task_status) zero_task_status)"

text \<open>What one poll's outcome makes of the last status seen: \<open>Inl\<close> when the task is gone.\<close>

definition task_seen :: "go_err + task_status \<Rightarrow> task_status \<Rightarrow> go_err + task_status" where
  "task_seen res seen = (case res of
      Inr s \<Rightarrow> Inr s
    | Inl (ETaskNotFound t) \<Rightarrow> Inl (ETaskNotFound t)
    | Inl _ \<Rightarrow> Inr seen)"

text \<open>The outcome of a settled task: \<open>Some None\<close> is success.\<close>

definition task_verdict :: "string \<Rightarrow> task_status \<Rightarrow> go_err option option" where
  "task_verdict upid s =
     (if \<not> task_stopped s then None
      else if task_ok s then Some None
      else (let msg = trim_space (ts_exit s)
            in Some (Some (ETaskFailed upid
                 (if msg = [] \<or> msg = ''OK'' then ''task stopped with a non-OK exit status'' else msg)))))"

definition deadline_ctx :: "int \<Rightarrow> string \<Rightarrow> ctx" where
  "deadline_ctx dl tx = \<lparr>cx_done = Some dl, cx_text = tx\<rparr>"

lemma sends_status_now: "sends get_only (task_status_now env cx tid)"
  unfolding task_status_now_def by (rule sends_wrap) (rule get_only_get)

lemma status_now_now: "c_now cl \<le> c_now (snd (task_status_now env cx tid cl))"
  using sends_status_now [of env cx tid] by (auto simp: sends_def intro: extends_now)

lemma sleep_advances:
  "sleep_or_done (deadline_ctx dl tx) d cl = (False, cl') \<Longrightarrow> c_now cl < c_now cl' \<and> c_now cl' < dl"
  by (auto simp: sleep_or_done_def deadline_ctx_def Let_def split: if_splits)

lemma round_advances:
  "(res, cl1) = task_status_now env cx tid cl \<Longrightarrow>
   (False, cl2) = sleep_or_done (deadline_ctx dl tx) iv cl1 \<Longrightarrow> c_now cl < dl \<and> c_now cl < c_now cl2"
  using status_now_now [of cl env cx tid] sleep_advances [of dl tx iv cl1 cl2] by (metis order.strict_trans1 order.strict_trans snd_conv)

function task_wait_loop ::
    "env \<Rightarrow> int \<Rightarrow> string \<Rightarrow> int \<Rightarrow> task_id \<Rightarrow> int \<Rightarrow> task_status \<Rightarrow> client \<Rightarrow>
     (task_status \<times> go_err option) \<times> client" where
  "task_wait_loop env dl tx iv tid start seen cl =
     (case task_status_now env (deadline_ctx dl tx) tid cl of
        (res, cl1) \<Rightarrow>
          (case task_seen res seen of
             Inl e \<Rightarrow> ((seen, Some e), cl1)
           | Inr s \<Rightarrow>
               (case task_verdict (tid_upid tid) s of
                  Some v \<Rightarrow> ((s, v), cl1)
                | None \<Rightarrow>
                    (case sleep_or_done (deadline_ctx dl tx) iv cl1 of
                       (True, cl2) \<Rightarrow>
                         ((s, Some (ETaskTimeout (tid_upid tid) (c_now cl2 - start) (ts_status s))), cl2)
                     | (False, cl2) \<Rightarrow> task_wait_loop env dl tx iv tid start s cl2))))"
  by pat_completeness auto

termination
  by (relation "measure (\<lambda>(env, dl, tx, iv, tid, start, seen, cl). nat (dl - c_now cl))")
    (auto dest: round_advances)

declare task_wait_loop.simps [simp del]

text \<open>\<^verbatim>\<open>Wait\<close>: the last status seen, and the error.\<close>

definition task_wait :: "env \<Rightarrow> int \<Rightarrow> string \<Rightarrow> int \<Rightarrow> task_id \<Rightarrow> client \<Rightarrow> (task_status \<times> go_err option) \<times> client" where
  "task_wait env dl tx iv tid cl = task_wait_loop env dl tx iv tid (c_now cl) zero_task_status cl"

section \<open>What Wait guarantees\<close>

text \<open>
  The outcomes: success only for a task seen stopped with a good exit status, a failure only for one
  seen stopped with a bad one, and a timeout only once the deadline has passed.
\<close>

definition wait_outcome_ok :: "int \<Rightarrow> task_id \<Rightarrow> task_status \<Rightarrow> go_err option \<Rightarrow> client \<Rightarrow> bool" where
  "wait_outcome_ok dl tid s e cl' \<longleftrightarrow>
     (case e of
        None \<Rightarrow> task_ok s
      | Some (ETaskFailed u msg) \<Rightarrow> u = tid_upid tid \<and> msg \<noteq> [] \<and> task_stopped s \<and> \<not> task_ok s
      | Some (ETaskTimeout u d l) \<Rightarrow> u = tid_upid tid \<and> l = ts_status s \<and> \<not> task_stopped s \<and> dl \<le> c_now cl'
      | Some (ETaskNotFound t) \<Rightarrow> t = tid
      | Some _ \<Rightarrow> False)"

definition client_err :: "go_err \<Rightarrow> bool" where
  "client_err e \<longleftrightarrow> (case e of ETaskNotFound t \<Rightarrow> False | ETaskFailed u m \<Rightarrow> False | ETaskTimeout u d l \<Rightarrow> False | _ \<Rightarrow> True)"

lemma client_err_simps [simp]:
  "client_err (EText s)" "client_err (EWrap p x q)" "client_err EReadOnly" "client_err (ECtx s)" "client_err (EApi a)"
  "\<not> client_err (ETaskNotFound t)" "\<not> client_err (ETaskFailed u m)" "\<not> client_err (ETaskTimeout u d l)"
  by (simp_all add: client_err_def)

lemma ticket_reply_err: "ticket_reply r now a = Inl e \<Longrightarrow> client_err e"
  by (auto simp: ticket_reply_def split: if_splits sum.splits prod.splits)

lemma apply_auth_err: "apply_auth env cx cl = (Inl e, cl') \<Longrightarrow> client_err e"
  by (auto simp: apply_auth_def fetch_ticket_def Let_def ticket_reply_err
      split: if_splits prod.splits option.splits sum.splits http_result.splits)

lemma parse_envelope_err: "parse_envelope dec out r = Inl e \<Longrightarrow> client_err e"
  by (auto simp: parse_envelope_def split: sum.splits option.splits json.splits)

lemma do_exchange_err:
  "do_exchange env cx ca hs cl = (r, cl') \<Longrightarrow> r = Done (Inl e) \<or> r = Retry e \<Longrightarrow> client_err e"
  by (auto simp: do_exchange_def http_send_def do_response_def Let_def parse_envelope_err
      split: prod.splits sum.splits http_result.splits if_splits)

lemma do_attempt_err:
  assumes "do_attempt env cx ca k cl = (r, cl')" "r = Done (Inl e) \<or> r = Retry e"
  shows "client_err e"
  using assms
  by (auto simp: do_attempt_def ctx_err_def apply_auth_err do_exchange_err
      split: prod.splits if_splits option.splits sum.splits)

lemma do_loop_err:
  "do_loop env cx ca n prev cl = (Inl e, cl') \<Longrightarrow> (\<And>x. prev = Some x \<Longrightarrow> client_err x) \<Longrightarrow> client_err e"
proof (induction n arbitrary: prev cl)
  case 0
  then show ?case by (auto split: option.splits)
next
  case (Suc n)
  obtain r c1 where a: "do_attempt env cx ca (max_retries - n) cl = (r, c1)" by fastforce
  show ?case
  proof (cases r)
    case (Done x)
    with Suc.prems a show ?thesis using do_attempt_err [OF a, of e] by simp
  next
    case (Retry x)
    moreover from this a have "client_err x" by (simp add: do_attempt_err)
    ultimately show ?thesis using Suc.IH [of "Some x" c1] Suc.prems(1) a by simp
  qed
qed

lemma client_do_err: "client_do env cx ca cl = (Inl e, cl') \<Longrightarrow> client_err e"
  by (erule client_do_cases) (auto dest: do_loop_err simp del: do_loop.simps)

lemma api_get_err: "api_get env cx node path dec zero cl = (Inl e, cl') \<Longrightarrow> client_err e"
  by (auto simp: api_get_def io_bind_def io_return_def split: prod.splits sum.splits dest: client_do_err)

lemma api_send_err: "api_send env cx meth node path form cl = (Inl e, cl') \<Longrightarrow> client_err e"
  by (auto simp: api_send_def io_bind_def io_return_def split: prod.splits sum.splits dest: client_do_err)

lemma status_now_not_found:
  "task_status_now env cx tid cl = (Inl (ETaskNotFound t), cl1) \<Longrightarrow> t = tid"
  by (auto simp: task_status_now_def io_wrap_def split: prod.splits sum.splits if_splits go_err.splits
      dest: api_get_err)

lemma task_verdict_ok:
  "task_verdict (tid_upid tid) s = Some v \<Longrightarrow> wait_outcome_ok dl tid s v cl'"
  by (auto simp: task_verdict_def wait_outcome_ok_def Let_def split: if_splits)

lemma sleep_timeout: "sleep_or_done (deadline_ctx dl tx) d cl = (True, cl') \<Longrightarrow> dl \<le> c_now cl'"
  by (auto simp: sleep_or_done_def deadline_ctx_def Let_def split: if_splits)

lemma task_wait_loop_outcome:
  "task_wait_loop env dl tx iv tid start seen cl = ((s, e), cl') \<Longrightarrow> wait_outcome_ok dl tid s e cl'"
proof (induction env dl tx iv tid start seen cl rule: task_wait_loop.induct)
  case (1 env dl tx iv tid start seen cl)
  obtain res cl1 where r: "task_status_now env (deadline_ctx dl tx) tid cl = (res, cl1)" by fastforce
  show ?case
  proof (cases "task_seen res seen")
    case (Inl x)
    then have "res = Inl x \<and> (\<exists>t. x = ETaskNotFound t)"
      by (auto simp: task_seen_def split: sum.splits go_err.splits)
    with 1(2) r Inl show ?thesis
      by (subst (asm) task_wait_loop.simps) (auto simp: wait_outcome_ok_def dest: status_now_not_found)
  next
    case (Inr x)
    obtain stop cl2 where sl: "sleep_or_done (deadline_ctx dl tx) iv cl1 = (stop, cl2)" by fastforce
    show ?thesis
    proof (cases "task_verdict (tid_upid tid) x")
      case (Some v)
      with 1(2) r Inr show ?thesis
        by (subst (asm) task_wait_loop.simps) (auto intro: task_verdict_ok)
    next
      case None
      then have ns: "\<not> task_stopped x" by (auto simp: task_verdict_def Let_def split: if_splits)
      show ?thesis
      proof (cases stop)
        case True
        with 1(2) r Inr None sl ns show ?thesis
          by (subst (asm) task_wait_loop.simps) (auto simp: wait_outcome_ok_def dest: sleep_timeout)
      next
        case False
        with 1(2) r Inr None sl have "task_wait_loop env dl tx iv tid start x cl2 = ((s, e), cl')"
          by (subst (asm) task_wait_loop.simps) auto
        with 1(1) [OF r [symmetric] Inr None sl [symmetric]] False show ?thesis by auto
      qed
    qed
  qed
qed


lemma task_wait_outcome: "task_wait env dl tx iv tid cl = ((s, e), cl') \<Longrightarrow> wait_outcome_ok dl tid s e cl'"
  by (auto simp: task_wait_def dest: task_wait_loop_outcome)

text \<open>Waiting only reads.\<close>

lemma task_wait_loop_extends:
  "extends (is_api_request cl get_only) cl (snd (task_wait_loop env dl tx iv tid start seen cl))"
proof (induction env dl tx iv tid start seen cl rule: task_wait_loop.induct)
  case (1 env dl tx iv tid start seen cl)
  obtain res cl1 where r: "task_status_now env (deadline_ctx dl tx) tid cl = (res, cl1)" by fastforce
  have e1: "extends (is_api_request cl get_only) cl cl1"
    using sends_status_now [of env "deadline_ctx dl tx" tid] r by (auto simp: sends_def dest!: spec [of _ cl])
  obtain stop cl2 where sl: "sleep_or_done (deadline_ctx dl tx) iv cl1 = (stop, cl2)" by fastforce
  have e2: "extends (is_api_request cl get_only) cl cl2"
    using e1 sleep_or_done_extends [OF sl] by (rule extends_trans)
  show ?case
  proof (cases "\<exists>x. task_seen res seen = Inr x \<and> task_verdict (tid_upid tid) x = None \<and> \<not> stop")
    case True
    then obtain x where x: "task_seen res seen = Inr x" "task_verdict (tid_upid tid) x = None" "\<not> stop" by blast
    have "extends (is_api_request cl2 get_only) cl2 (snd (task_wait_loop env dl tx iv tid start x cl2))"
      using 1(1) [OF r [symmetric] x(1,2) sl [symmetric]] x(3) by simp
    with e2 have "extends (is_api_request cl get_only) cl (snd (task_wait_loop env dl tx iv tid start x cl2))"
      using is_api_request_extends [OF e2] by (metis extends_trans)
    with r x sl show ?thesis by (subst task_wait_loop.simps) simp
  next
    case False
    with r sl e1 e2 show ?thesis
      by (subst task_wait_loop.simps) (auto split: sum.splits option.splits bool.splits)
  qed
qed

lemma task_wait_extends: "extends (is_api_request cl get_only) cl (snd (task_wait env dl tx iv tid cl))"
  by (simp add: task_wait_def task_wait_loop_extends)

end
