(* ===== verification/Artifacts.thy ===== *)
theory Artifacts
  imports Schema_Core
begin

text \<open>
  \<^verbatim>\<open>internal/schema/iso.go\<close>, \<^verbatim>\<open>ctt.go\<close> and \<^verbatim>\<open>diskimage.go\<close>: the three
  storage artifacts.  Their Go structs have the same fields, so they share the records below; each
  kind has its own operations.  \<^verbatim>\<open>Validate\<close> returns \<open>None\<close> for a nil error.  The locale
  \<open>artifact_contract\<close> is what the planner relies on and is interpreted for each kind.
\<close>

section \<open>Structs\<close>

record checksum =
  ck_algorithm :: string
  ck_value :: string

definition checksum_valid :: "checksum \<Rightarrow> bool" where
  "checksum_valid c =
     (if ck_algorithm c = [] \<or> ck_value c = [] then False
      else to_lower (ck_algorithm c) \<in> {''sha256'', ''sha1'', ''sha512'', ''md5''})"

record artifact_spec =
  as_node :: string
  as_nodes :: "string list"
  as_storage :: string
  as_filename :: string
  as_url :: string
  as_checksum :: checksum

record artifact =
  ar_api_version :: string
  ar_kind :: kind
  ar_metadata :: metadata
  ar_spec :: artifact_spec

type_synonym iso = artifact
type_synonym ct_template = artifact
type_synonym disk_image = artifact

definition empty_artifact :: "kind \<Rightarrow> artifact" where
  "empty_artifact k =
     \<lparr>ar_api_version = api_version, ar_kind = k,
      ar_metadata = \<lparr>md_name = [], md_namespace = [], md_labels = [], md_annotations = []\<rparr>,
      ar_spec = \<lparr>as_node = [], as_nodes = [], as_storage = [], as_filename = [], as_url = [],
                 as_checksum = \<lparr>ck_algorithm = [], ck_value = []\<rparr>\<rparr>\<rparr>"

definition new_iso :: iso where "new_iso = empty_artifact KindISO"
definition new_ctt :: ct_template where "new_ctt = empty_artifact KindCTTemplate"
definition new_disk_image :: disk_image where "new_disk_image = empty_artifact KindDiskImage"

section \<open>Nodes\<close>

fun dedup_nodes :: "string list \<Rightarrow> string list \<Rightarrow> string list" where
  "dedup_nodes seen [] = []"
| "dedup_nodes seen (x # xs) =
     (if x = [] \<or> x \<in> set seen then dedup_nodes seen xs else x # dedup_nodes (x # seen) xs)"

definition artifact_nodes :: "string \<Rightarrow> string list \<Rightarrow> string list" where
  "artifact_nodes legacy declared =
     dedup_nodes [] (if declared = [] \<and> legacy \<noteq> [] then [legacy] else declared)"

definition artifact_ref :: "artifact \<Rightarrow> ref" where
  "artifact_ref a = mk_ref (ar_kind a) (md_name (ar_metadata a))"

definition artifact_all_nodes :: "artifact \<Rightarrow> string list" where
  "artifact_all_nodes a = artifact_nodes (as_node (ar_spec a)) (as_nodes (ar_spec a))"

definition artifact_node :: "artifact \<Rightarrow> string" where
  "artifact_node a = (case artifact_all_nodes a of [] \<Rightarrow> [] | n # _ \<Rightarrow> n)"

section \<open>Validation\<close>

text \<open>
  The checks the three kinds share, with what differs between them as arguments: the hint of the
  storage message, the content pool, the closing hint of the extension message, and the checksum
  message.
\<close>

definition artifact_validate ::
    "string \<Rightarrow> string \<Rightarrow> string \<Rightarrow> string \<Rightarrow> artifact \<Rightarrow> string option" where
  "artifact_validate storage_hint content ext_hint sum_msg a =
     (let r = ref_str (artifact_ref a); s = ar_spec a; nodes = artifact_all_nodes a;
          ext = artifact_ext_accept (as_filename s) content
      in first_err (
         [(nodes = [], r @ '': spec.node or spec.nodes must be set'')]
         @ map (\<lambda>n. (\<not> valid_node_name n, r @ '': spec.node '' @ go_quote n @ '' invalid'')) nodes
         @ [(as_storage s = [], r @ '': spec.storage must be set '' @ storage_hint),
            (\<not> storage_id_ok (as_storage s), r @ '': spec.storage '' @ go_quote (as_storage s) @ '' invalid''),
            (as_filename s = [], r @ '': spec.filename must be set''),
            (\<not> artifact_name_ok (as_filename s),
             r @ '': spec.filename '' @ go_quote (as_filename s) @ '' invalid (no path separators)''),
            (\<not> fst ext,
             r @ '': spec.filename '' @ go_quote (as_filename s) @ '': '' @ snd ext @ '' '' @ ext_hint),
            (as_url s = [], r @ '': spec.url must be set''),
            (\<not> has_prefix (as_url s) ''http://'' \<and> \<not> has_prefix (as_url s) ''https://'',
             r @ '': spec.url must be http(s)''),
            ((ck_algorithm (as_checksum s) \<noteq> [] \<or> ck_value (as_checksum s) \<noteq> [])
               \<and> \<not> checksum_valid (as_checksum s), r @ '': spec.checksum must specify '' @ sum_msg)]))"

definition iso_validate :: "iso \<Rightarrow> string option" where
  "iso_validate = artifact_validate ''(e.g. local, isos)'' ''iso''
     ''(PVE 9.2 iso dir-storage accepts .iso | .img)''
     ''both algorithm (sha256|sha1|sha512|md5) and value''"

definition ctt_validate :: "ct_template \<Rightarrow> string option" where
  "ctt_validate = artifact_validate
     ''(the PVE storage id that carries `vztmpl` content, e.g. local)'' ''vztmpl''
     ''(PVE 9.2 vztmpl dir-storage accepts .tar | .tar.zst | .tar.xz | .tar.gz)''
     ''both algorithm (sha256|sha1|sha512|md5) and value''"

definition disk_image_validate :: "disk_image \<Rightarrow> string option" where
  "disk_image_validate = artifact_validate
     ''(the PVE storage id that carries `import` content, e.g. local)'' ''import''
     ''(PVE 9.2 import dir-storage accepts .qcow2 | .vmdk | .raw)''
     ''both an algorithm (sha256|sha1|sha512|md5) and value''"

section \<open>Create parameters and drift\<close>

definition artifact_params :: "string \<Rightarrow> artifact_spec \<Rightarrow> params" where
  "artifact_params content s =
     (let p = [(''url'', PStr (as_url s)), (''filename'', PStr (as_filename s)),
               (''storage'', PStr (as_storage s)), (''content'', PStr content)]
      in if checksum_valid (as_checksum s)
         then put ''checksum_algorithm'' (PStr (to_lower (ck_algorithm (as_checksum s))))
                (put ''checksum'' (PStr (ck_value (as_checksum s))) p)
         else p)"

definition iso_to_create_params :: "iso \<Rightarrow> string + params" where
  "iso_to_create_params i =
     (case iso_validate i of Some e \<Rightarrow> Inl e | None \<Rightarrow> Inr (artifact_params ''iso'' (ar_spec i)))"

definition ctt_to_create_params :: "ct_template \<Rightarrow> string + params" where
  "ctt_to_create_params c =
     (case ctt_validate c of Some e \<Rightarrow> Inl e | None \<Rightarrow> Inr (artifact_params ''vztmpl'' (ar_spec c)))"

definition disk_image_to_create_params :: "disk_image \<Rightarrow> string + params" where
  "disk_image_to_create_params d =
     (case disk_image_validate d of Some e \<Rightarrow> Inl e | None \<Rightarrow> Inr (artifact_params ''import'' (ar_spec d)))"

text \<open>The type assertion \<^verbatim>\<open>current["present"].(bool)\<close>, false when it fails.\<close>

definition cfg_present :: "config \<Rightarrow> bool" where
  "cfg_present cfg = (case cfg_get cfg ''present'' of Some (PBool b) \<Rightarrow> b | _ \<Rightarrow> False)"

type_synonym drift_result = "config \<times> bool \<times> bool"

definition artifact_drift :: "(artifact \<Rightarrow> string + params) \<Rightarrow> artifact \<Rightarrow> config \<Rightarrow> drift_result" where
  "artifact_drift to_params a current =
     (if current = None then (None, False, False)
      else if cfg_present current then (None, False, False)
      else (case to_params a of
              Inl _ \<Rightarrow> (None, False, False)
            | Inr p \<Rightarrow> (Some p, False, True)))"

definition iso_drift :: "iso \<Rightarrow> config \<Rightarrow> drift_result" where
  "iso_drift = artifact_drift iso_to_create_params"

definition ctt_drift :: "ct_template \<Rightarrow> config \<Rightarrow> drift_result" where
  "ctt_drift = artifact_drift ctt_to_create_params"

definition disk_image_drift :: "disk_image \<Rightarrow> config \<Rightarrow> drift_result" where
  "disk_image_drift = artifact_drift disk_image_to_create_params"

definition disk_image_volid :: "disk_image \<Rightarrow> string" where
  "disk_image_volid d = as_storage (ar_spec d) @ '':import/'' @ as_filename (ar_spec d)"

section \<open>Node lists\<close>

lemma dedup_nodes_set: "set (dedup_nodes seen xs) = set xs - insert [] (set seen)"
  by (induction seen xs rule: dedup_nodes.induct) auto

lemma dedup_nodes_distinct: "distinct (dedup_nodes seen xs)"
  by (induction seen xs rule: dedup_nodes.induct) (auto simp: dedup_nodes_set)

lemma dedup_nodes_id: "distinct xs \<Longrightarrow> [] \<notin> set xs \<Longrightarrow> set xs \<inter> set seen = {} \<Longrightarrow> dedup_nodes seen xs = xs"
  by (induction seen xs rule: dedup_nodes.induct) auto

lemma artifact_nodes_distinct: "distinct (artifact_nodes l ns)"
  by (simp add: artifact_nodes_def dedup_nodes_distinct)

lemma artifact_nodes_nonempty: "n \<in> set (artifact_nodes l ns) \<Longrightarrow> n \<noteq> []"
  by (auto simp: artifact_nodes_def dedup_nodes_set)

lemma artifact_nodes_declared: "ns \<noteq> [] \<Longrightarrow> set (artifact_nodes l ns) = set ns - {[]}"
  by (simp add: artifact_nodes_def dedup_nodes_set)

lemma artifact_nodes_legacy: "l \<noteq> [] \<Longrightarrow> artifact_nodes l [] = [l]"
  by (simp add: artifact_nodes_def)

section \<open>What a valid artifact satisfies\<close>

text \<open>Everything a passed \<^verbatim>\<open>Validate\<close> guarantees to the code behind it.\<close>

definition artifact_wf :: "string \<Rightarrow> artifact \<Rightarrow> bool" where
  "artifact_wf content a \<longleftrightarrow>
     (let s = ar_spec a; ns = artifact_all_nodes a in
      ns \<noteq> [] \<and> list_all valid_node_name ns \<and> storage_id_ok (as_storage s) \<and>
      artifact_name_ok (as_filename s) \<and> fst (artifact_ext_accept (as_filename s) content) \<and>
      (has_prefix (as_url s) ''http://'' \<or> has_prefix (as_url s) ''https://'') \<and>
      (checksum_valid (as_checksum s) \<or> as_checksum s = \<lparr>ck_algorithm = [], ck_value = []\<rparr>))"

lemma artifact_validate_wf: "artifact_validate h content e m a = None \<longleftrightarrow> artifact_wf content a"
  by (auto simp: artifact_validate_def artifact_wf_def Let_def first_err_None list_all_iff
      checksum_valid_def artifact_name_ok_def storage_id_ok_def split: list.splits)

lemmas artifact_validates = iso_validate_def ctt_validate_def disk_image_validate_def
lemmas artifact_create_params =
  iso_to_create_params_def ctt_to_create_params_def disk_image_to_create_params_def
lemmas artifact_drifts = iso_drift_def ctt_drift_def disk_image_drift_def artifact_drift_def

text \<open>A valid file name stays inside its pool directory.\<close>

lemma artifact_name_no_slash: "artifact_name_ok s \<Longrightarrow> CHR ''/'' \<notin> set s"
proof -
  have "\<not> storage_char (CHR ''/'')" by code_simp
  moreover have "\<not> is_alnum (CHR ''/'')" by code_simp
  ultimately show "artifact_name_ok s \<Longrightarrow> CHR ''/'' \<notin> set s"
    by (auto simp: artifact_name_ok_def list_all_iff split: list.splits)
qed

section \<open>The contract of an artifact kind\<close>

locale artifact_contract =
  fixes validate :: "artifact \<Rightarrow> string option"
    and to_params :: "artifact \<Rightarrow> string + params"
    and drift :: "artifact \<Rightarrow> config \<Rightarrow> drift_result"
    and content :: string
  assumes validate_wf: "validate a = None \<longleftrightarrow> artifact_wf content a"
    and params_ok: "validate a = None \<Longrightarrow> to_params a = Inr (artifact_params content (ar_spec a))"
    and params_err: "validate a = Some e \<Longrightarrow> to_params a = Inl e"
    and drift_unread: "drift a None = (None, False, False)"
    and drift_present: "cfg_present cur \<Longrightarrow> drift a cur = (None, False, False)"
    and drift_absent: "cur \<noteq> None \<Longrightarrow> \<not> cfg_present cur \<Longrightarrow> to_params a = Inr p \<Longrightarrow>
          drift a cur = (Some p, False, True)"
    and drift_invalid: "to_params a = Inl e \<Longrightarrow> drift a cur = (None, False, False)"
begin

lemma drift_result:
  "drift a cur = (if cur \<noteq> None \<and> \<not> cfg_present cur \<and> validate a = None
                  then (Some (artifact_params content (ar_spec a)), False, True)
                  else (None, False, False))"
proof (cases "validate a")
  case None
  then show ?thesis
    using params_ok drift_unread drift_present drift_absent by (cases cur) auto
next
  case (Some e)
  then show ?thesis using params_err drift_invalid by simp
qed

lemma drift_changed: "snd (snd (drift a cur)) \<longleftrightarrow> cur \<noteq> None \<and> \<not> cfg_present cur \<and> artifact_wf content a"
  using validate_wf by (auto simp: drift_result)

lemma drift_no_stop: "\<not> fst (snd (drift a cur))"
  by (simp add: drift_result)

lemma drift_pool: "fst (drift a cur) = Some p \<Longrightarrow>
  map_of p ''content'' = Some (PStr content) \<and> map_of p ''storage'' = Some (PStr (as_storage (ar_spec a))) \<and>
  map_of p ''filename'' = Some (PStr (as_filename (ar_spec a))) \<and> map_of p ''url'' = Some (PStr (as_url (ar_spec a)))"
  by (auto simp: drift_result artifact_params_def Let_def split: if_splits)

end

interpretation iso_art: artifact_contract iso_validate iso_to_create_params iso_drift "''iso''"
  by unfold_locales
    (auto simp: artifact_validates artifact_validate_wf artifact_create_params artifact_drifts split: option.splits)

interpretation ctt_art: artifact_contract ctt_validate ctt_to_create_params ctt_drift "''vztmpl''"
  by unfold_locales
    (auto simp: artifact_validates artifact_validate_wf artifact_create_params artifact_drifts split: option.splits)

interpretation disk_art: artifact_contract disk_image_validate disk_image_to_create_params disk_image_drift "''import''"
  by unfold_locales
    (auto simp: artifact_validates artifact_validate_wf artifact_create_params artifact_drifts split: option.splits)

end
