(* ===== verification/Resource.thy ===== *)
theory Resource
  imports Artifacts
begin

text \<open>
  \<^verbatim>\<open>internal/schema/resource.go\<close>: the interface every parsed manifest satisfies.  A Go interface
  value carries its method table; here the table is the record \<open>'r methods\<close>, an argument of every
  function that takes a \<^verbatim>\<open>schema.Resource\<close>.  The table also holds what the callers find out with
  a type switch: the storage fields of an artifact (\<^verbatim>\<open>plan.artifactStorageFields\<close>), the metadata
  (\<^verbatim>\<open>parse.metadataOf\<close>), and the clone view of a \<^verbatim>\<open>*schema.VM\<close>.

  In Go \<^verbatim>\<open>Validate\<close> also fills defaults into its receiver; here \<open>m_validate\<close> is its error
  and \<open>m_filled\<close> the resource it leaves behind when it returns none.

  \<open>art_methods\<close> is the table of the three artifact kinds.  The locale \<open>resource_contract\<close> is what
  the planner relies on.
\<close>

section \<open>The method table\<close>

text \<open>A clone-backed \<^verbatim>\<open>*schema.VM\<close> as the planner sees it.\<close>

record clone_view =
  cv_source :: int
  cv_vmid :: int
  cv_clone :: string
  cv_delete_keys :: "params \<Rightarrow> string list"

record 'r methods =
  m_validate :: "'r \<Rightarrow> string option"
  m_filled :: "'r \<Rightarrow> 'r"
  m_ref :: "'r \<Rightarrow> ref"
  m_node :: "'r \<Rightarrow> string"
  m_nodes :: "'r \<Rightarrow> string list"
  m_id :: "'r \<Rightarrow> int"
  m_state :: "'r \<Rightarrow> string"
  m_params :: "'r \<Rightarrow> string + params"
  m_drift :: "'r \<Rightarrow> config \<Rightarrow> drift_result"
  m_anomalies :: "'r \<Rightarrow> config \<Rightarrow> string list"
  m_deps :: "'r \<Rightarrow> ref list"
  m_metadata :: "'r \<Rightarrow> metadata"
  m_clone :: "'r \<Rightarrow> clone_view option"
  m_storage :: "'r \<Rightarrow> string \<times> string \<times> string"

section \<open>The artifact kinds\<close>

datatype art = AISO iso | ACTT ct_template | ADisk disk_image

fun art_body :: "art \<Rightarrow> artifact" where
  "art_body (AISO a) = a"
| "art_body (ACTT a) = a"
| "art_body (ADisk a) = a"

fun art_validate :: "art \<Rightarrow> string option" where
  "art_validate (AISO a) = iso_validate a"
| "art_validate (ACTT a) = ctt_validate a"
| "art_validate (ADisk a) = disk_image_validate a"

fun art_params :: "art \<Rightarrow> string + params" where
  "art_params (AISO a) = iso_to_create_params a"
| "art_params (ACTT a) = ctt_to_create_params a"
| "art_params (ADisk a) = disk_image_to_create_params a"

fun art_drift :: "art \<Rightarrow> config \<Rightarrow> drift_result" where
  "art_drift (AISO a) = iso_drift a"
| "art_drift (ACTT a) = ctt_drift a"
| "art_drift (ADisk a) = disk_image_drift a"

text \<open>\<^verbatim>\<open>plan.artifactStorageFields\<close> on the artifact kinds: content, storage, file name.\<close>

fun art_storage :: "art \<Rightarrow> string \<times> string \<times> string" where
  "art_storage (AISO a) = (''iso'', as_storage (ar_spec a), as_filename (ar_spec a))"
| "art_storage (ACTT a) = (''vztmpl'', as_storage (ar_spec a), as_filename (ar_spec a))"
| "art_storage (ADisk a) = (''import'', as_storage (ar_spec a), as_filename (ar_spec a))"

definition empty_metadata :: metadata where
  "empty_metadata = \<lparr>md_name = [], md_namespace = [], md_labels = [], md_annotations = []\<rparr>"

text \<open>
  \<^verbatim>\<open>parse.metadataOf\<close> on the artifact kinds: its switch has no case for
  \<^verbatim>\<open>*schema.DiskImage\<close>, which falls through to the empty metadata.
\<close>

fun art_metadata :: "art \<Rightarrow> metadata" where
  "art_metadata (AISO a) = ar_metadata a"
| "art_metadata (ACTT a) = ar_metadata a"
| "art_metadata (ADisk a) = empty_metadata"

definition art_methods :: "art methods" where
  "art_methods =
     \<lparr>m_validate = art_validate, m_filled = (\<lambda>r. r), m_ref = (\<lambda>r. artifact_ref (art_body r)),
      m_node = (\<lambda>r. artifact_node (art_body r)), m_nodes = (\<lambda>r. artifact_all_nodes (art_body r)),
      m_id = (\<lambda>r. 0), m_state = (\<lambda>r. []), m_params = art_params, m_drift = art_drift,
      m_anomalies = (\<lambda>r c. []), m_deps = (\<lambda>r. []), m_metadata = art_metadata,
      m_clone = (\<lambda>r. None), m_storage = art_storage\<rparr>"

text \<open>The kinds the constructors stand for, as the parser builds them.\<close>

fun art_kind_ok :: "art \<Rightarrow> bool" where
  "art_kind_ok (AISO a) \<longleftrightarrow> ar_kind a = KindISO"
| "art_kind_ok (ACTT a) \<longleftrightarrow> ar_kind a = KindCTTemplate"
| "art_kind_ok (ADisk a) \<longleftrightarrow> ar_kind a = KindDiskImage"

section \<open>The contract\<close>

text \<open>
  What the planner and the executor rely on, for the resources in \<open>ok\<close> (those the parser builds):
  the primary node is the first node, an artifact is judged by its presence alone, create parameters
  exist once validation passes, a clone's target is the resource's own id.
\<close>

locale resource_contract =
  fixes mt :: "'r methods" and ok :: "'r \<Rightarrow> bool"
  assumes node_first: "ok r \<Longrightarrow> m_nodes mt r \<noteq> [] \<Longrightarrow> m_node mt r = hd (m_nodes mt r)"
    and nodes_distinct: "ok r \<Longrightarrow> distinct (m_nodes mt r)"
    and params_ok: "ok r \<Longrightarrow> m_validate mt r = None \<Longrightarrow> \<exists>p. m_params mt r = Inr p"
    and clone_target: "ok r \<Longrightarrow> m_clone mt r = Some v \<Longrightarrow> cv_vmid v = m_id mt r"
    and art_present: "ok r \<Longrightarrow> artifact_kind (ref_kind (m_ref mt r)) \<Longrightarrow> cfg_present cur \<Longrightarrow>
          \<not> snd (snd (m_drift mt r cur))"
    and art_absent: "ok r \<Longrightarrow> artifact_kind (ref_kind (m_ref mt r)) \<Longrightarrow> \<not> cfg_present (Some c) \<Longrightarrow>
          m_params mt r = Inr p \<Longrightarrow> snd (snd (m_drift mt r (Some c)))"
begin

lemma art_changed:
  assumes "ok r" "artifact_kind (ref_kind (m_ref mt r))" "m_params mt r = Inr p"
  shows "snd (snd (m_drift mt r (Some c))) \<longleftrightarrow> \<not> cfg_present (Some c)"
  using assms art_present art_absent by blast

end

lemma artifact_validated:
  "art_validate r = None \<Longrightarrow> \<exists>p. art_params r = Inr p"
  by (cases r) (auto simp: iso_art.params_ok ctt_art.params_ok disk_art.params_ok)

interpretation art: resource_contract art_methods art_kind_ok
proof
  fix r :: art and cur :: config and c p v
  show "m_nodes art_methods r \<noteq> [] \<Longrightarrow> m_node art_methods r = hd (m_nodes art_methods r)"
    by (simp add: art_methods_def artifact_node_def split: list.splits)
  show "distinct (m_nodes art_methods r)"
    by (simp add: art_methods_def artifact_all_nodes_def artifact_nodes_distinct)
  show "m_validate art_methods r = None \<Longrightarrow> \<exists>p. m_params art_methods r = Inr p"
    by (simp add: art_methods_def artifact_validated)
  show "m_clone art_methods r = Some v \<Longrightarrow> cv_vmid v = m_id art_methods r"
    by (simp add: art_methods_def)
  show "cfg_present cur \<Longrightarrow> \<not> snd (snd (m_drift art_methods r cur))"
    by (cases r) (simp_all add: art_methods_def iso_art.drift_present ctt_art.drift_present disk_art.drift_present)
  show "\<not> cfg_present (Some c) \<Longrightarrow> m_params art_methods r = Inr p \<Longrightarrow>
      snd (snd (m_drift art_methods r (Some c)))"
    by (cases r) (simp_all add: art_methods_def iso_art.drift_absent ctt_art.drift_absent disk_art.drift_absent)
qed

end
