(* ===== verification/Plan.thy ===== *)
theory Plan
  imports Pve_Task Go_Sort Resource
begin

text \<open>
  \<^verbatim>\<open>internal/plan/plan.go\<close>: the planner.  \<open>plan_actions\<close> is \<^verbatim>\<open>PlanActions\<close>, split where
  its source has a comment: pass A over the desired resources, the prune pass over the live listing,
  the empty-desired guard, the budget, and the final sort.  The resources come with their method
  table \<open>mt\<close>.  The function values \<^verbatim>\<open>Levels\<close> and \<^verbatim>\<open>Edges\<close> may be nil (\<open>None\<close>).
\<close>

section \<open>Data\<close>

datatype action_kind = Create | Update | Start | Stop | Delete | StatusOnly | Anomaly | MarkTemplate

definition action_text :: "action_kind \<Rightarrow> string" where
  "action_text k = (case k of
      Create \<Rightarrow> ''create'' | Update \<Rightarrow> ''update'' | Start \<Rightarrow> ''start'' | Stop \<Rightarrow> ''stop''
    | Delete \<Rightarrow> ''delete'' | StatusOnly \<Rightarrow> ''verify'' | Anomaly \<Rightarrow> ''anomaly''
    | MarkTemplate \<Rightarrow> ''mark-template'')"

record action =
  ac_tier :: int
  ac_kind :: kind
  ac_name :: string
  ac_node :: string
  ac_id :: int
  ac_what :: action_kind
  ac_params :: config
  ac_stop_first :: bool
  ac_prune :: bool
  ac_reason :: string
  ac_live_power :: string
  ac_desired_power :: string
  ac_level :: int
  ac_deps :: "ref list"
  ac_ref :: ref
  ac_anomaly :: bool
  ac_clone_source :: int
  ac_delete_keys :: "string list"

text \<open>The fields a composite literal does not name; the kind of action is always named.\<close>

definition zero_action :: "action_kind \<Rightarrow> action" where
  "zero_action what =
     \<lparr>ac_tier = 0, ac_kind = [], ac_name = [], ac_node = [], ac_id = 0, ac_what = what,
      ac_params = None, ac_stop_first = False, ac_prune = False, ac_reason = [], ac_live_power = [],
      ac_desired_power = [], ac_level = 0, ac_deps = [], ac_ref = mk_ref [] [], ac_anomaly = False,
      ac_clone_source = 0, ac_delete_keys = []\<rparr>"

record plan =
  pl_actions :: "action list"
  pl_skipped :: "action list"
  pl_deferred :: "action list"
  pl_anomaly :: string
  pl_anomalies :: "action list"

definition empty_plan :: plan where
  "empty_plan = \<lparr>pl_actions = [], pl_skipped = [], pl_deferred = [], pl_anomaly = [], pl_anomalies = []\<rparr>"

record live_inventory =
  lv_configs :: "(string \<times> config) list"
  lv_power :: "(string \<times> string) list"
  lv_listing :: "cluster_resource list"
  lv_template_keys :: "(string \<times> string) list"

definition empty_inventory :: live_inventory where
  "empty_inventory = \<lparr>lv_configs = [], lv_power = [], lv_listing = [], lv_template_keys = []\<rparr>"

record plan_options =
  po_budget :: int
  po_levels :: "(ref \<Rightarrow> int) option"
  po_edges :: "(ref \<Rightarrow> ref list) option"
  po_allow :: "string list"

definition default_budget :: int where "default_budget = 3"

definition opt_level :: "plan_options \<Rightarrow> ref \<Rightarrow> int" where
  "opt_level opts r = (case po_levels opts of None \<Rightarrow> 0 | Some f \<Rightarrow> f r)"

definition opt_deps :: "plan_options \<Rightarrow> ref \<Rightarrow> ref list" where
  "opt_deps opts r = (case po_edges opts of None \<Rightarrow> [] | Some f \<Rightarrow> f r)"

text \<open>\<^verbatim>\<open>live.Configs[key]\<close> and \<^verbatim>\<open>live.Power[key]\<close> with Go's zero value for a missing key.\<close>

definition live_config :: "live_inventory \<Rightarrow> string \<Rightarrow> config" where
  "live_config live k = (case map_of (lv_configs live) k of None \<Rightarrow> None | Some c \<Rightarrow> c)"

definition live_present :: "live_inventory \<Rightarrow> string \<Rightarrow> bool" where
  "live_present live k \<longleftrightarrow> map_of (lv_configs live) k \<noteq> None"

definition live_power :: "live_inventory \<Rightarrow> string \<Rightarrow> string" where
  "live_power live k = (case map_of (lv_power live) k of None \<Rightarrow> [] | Some s \<Rightarrow> s)"

section \<open>Helpers\<close>

definition key_for :: "string \<Rightarrow> kind \<Rightarrow> int \<Rightarrow> string" where
  "key_for node k i = node @ ''|'' @ k @ ''|'' @ itoa i"

definition artifact_key :: "string \<Rightarrow> string \<Rightarrow> string \<Rightarrow> kind \<Rightarrow> string" where
  "artifact_key node storage filename k = node @ ''|'' @ k @ ''|'' @ storage @ '':'' @ filename"

definition create_verb :: "kind \<Rightarrow> string" where
  "create_verb k =
     (if k = KindCTTemplate then ''download ct-template (vztmpl)''
      else if k = KindISO then ''download''
      else if k = KindDiskImage then ''download disk image (import)''
      else if k = KindTemplateVM then ''create + mark as PVE template''
      else ''create'')"

definition node_allowed :: "string list \<Rightarrow> string \<Rightarrow> bool" where
  "node_allowed allow node \<longleftrightarrow> allow = [] \<or> node \<in> set allow"

definition normalize_kind :: "string \<Rightarrow> kind" where
  "normalize_kind t =
     (let l = to_lower t
      in if l \<in> {''vm'', ''qemu'', ''qm''} then KindVM
         else if l \<in> {''ct'', ''lxc'', ''container''} then KindLXC
         else to_upper t)"

definition kind_ref :: "kind \<Rightarrow> config \<Rightarrow> string" where
  "kind_ref k cfg = k @ ''/'' @ cfg_str cfg ''name''"

text \<open>\<open>None\<close> is the empty verb.\<close>

definition power_desired_to_live :: "string \<Rightarrow> string \<Rightarrow> action_kind option" where
  "power_desired_to_live desired live =
     (if live = [] then None
      else if desired = ''started'' then (if live \<noteq> ''running'' then Some Start else None)
      else if desired = ''stopped'' then (if live = ''running'' then Some Stop else None)
      else None)"

definition has_tag :: "config \<Rightarrow> string \<Rightarrow> bool" where
  "has_tag cfg t = (case cfg_get cfg ''tags'' of
      Some (PArr es) \<Rightarrow> PStr t \<in> set es
    | Some (PStr v) \<Rightarrow> t \<in> set (map trim_space (split_on (CHR '','') v))
    | _ \<Rightarrow> False)"

definition normalize_power :: "string \<Rightarrow> string" where
  "normalize_power s =
     (let l = to_lower s
      in if l \<in> {''running'', ''started''} then ''running''
         else if l \<in> {''stopped'', ''paused'', ''''} then ''stopped''
         else l)"

definition is_pve_template :: "config \<Rightarrow> bool" where
  "is_pve_template cfg = (case cfg_get cfg ''template'' of
      Some (PStr s) \<Rightarrow> s = ''1'' \<or> s = ''true''
    | Some (PInt i) \<Rightarrow> i = 1
    | Some (PInt64 i) \<Rightarrow> i = 1
    | Some (PFloat q) \<Rightarrow> q = 1
    | _ \<Rightarrow> False)"

definition desired_template_vm :: "'r methods \<Rightarrow> 'r list \<Rightarrow> string \<Rightarrow> int \<Rightarrow> bool" where
  "desired_template_vm mt desired node i \<longleftrightarrow>
     (\<exists>r\<in>set desired. ref_kind (m_ref mt r) = KindTemplateVM \<and> m_node mt r = node \<and> m_id mt r = i)"

definition desired_template_ct :: "'r methods \<Rightarrow> 'r list \<Rightarrow> string \<Rightarrow> int \<Rightarrow> bool" where
  "desired_template_ct mt desired node i \<longleftrightarrow>
     (\<exists>r\<in>set desired. ref_kind (m_ref mt r) = KindTemplateCT \<and> m_node mt r = node \<and> m_id mt r = i)"

text \<open>\<^verbatim>\<open>schema.PveOwnershipTag\<close>.\<close>

definition ownership_tag :: string where "ownership_tag = ''proxops''"

section \<open>Artifacts\<close>

definition add_action :: "action \<Rightarrow> plan \<Rightarrow> plan" where
  "add_action a p = p\<lparr>pl_actions := pl_actions p @ [a]\<rparr>"

definition add_skipped :: "action \<Rightarrow> plan \<Rightarrow> plan" where
  "add_skipped a p = p\<lparr>pl_skipped := pl_skipped p @ [a]\<rparr>"

definition add_anomaly :: "action \<Rightarrow> plan \<Rightarrow> plan" where
  "add_anomaly a p = p\<lparr>pl_anomalies := pl_anomalies p @ [a]\<rparr>"

text \<open>One node of the loop in \<^verbatim>\<open>planArtifact\<close>.\<close>

definition plan_artifact_node ::
    "'r methods \<Rightarrow> 'r \<Rightarrow> live_inventory \<Rightarrow> int \<Rightarrow> params \<Rightarrow> string \<Rightarrow> plan \<Rightarrow> plan" where
  "plan_artifact_node mt r live lvl params node p =
     (let ref = m_ref mt r; k = ref_kind ref; (content, storage, filename) = m_storage mt r;
          cur = live_config live (artifact_key node storage filename k)
      in if cur = None
         then add_skipped ((zero_action StatusOnly)\<lparr>ac_kind := k, ac_name := ref_name ref, ac_node := node,
                ac_level := lvl, ac_reason := k @ '' live inventory unreadable this cycle; skipping download of '' @
                  storage @ ''/'' @ filename\<rparr>) p
         else if \<not> snd (snd (m_drift mt r cur)) then p
         else add_action ((zero_action Create)\<lparr>ac_tier := 0, ac_kind := k, ac_name := ref_name ref,
                ac_node := node, ac_id := 0, ac_level := lvl, ac_ref := ref, ac_params := Some params,
                ac_reason := k @ '' '' @ filename @ '' not present on storage '' @ storage @ '' on '' @ node @
                  ''; will download''\<rparr>) p)"

definition plan_artifact :: "'r methods \<Rightarrow> 'r \<Rightarrow> live_inventory \<Rightarrow> plan_options \<Rightarrow> plan \<Rightarrow> plan" where
  "plan_artifact mt r live opts p =
     (let ref = m_ref mt r; lvl = opt_level opts ref
      in case m_params mt r of
           Inl e \<Rightarrow> add_skipped ((zero_action StatusOnly)\<lparr>ac_kind := ref_kind ref, ac_name := ref_name ref,
                      ac_node := m_node mt r, ac_level := lvl,
                      ac_reason := ref_str ref @ '': create params: '' @ e\<rparr>) p
         | Inr params \<Rightarrow> fold (plan_artifact_node mt r live lvl params) (m_nodes mt r) p)"

section \<open>Pass A: desired guests\<close>

definition untemplate_hint :: "kind \<Rightarrow> string" where
  "untemplate_hint k =
     (if k = KindVM
      then '': live PVE object is a template (template=1); a proxops VM manifest cannot be applied to a PVE template and PVE 9.2 has no /qemu/{id}/untemplate - change the manifest to kind: TemplateVM (or demote the PVE object by hand)''
      else '': live PVE object is a template (template=1); a proxops LXC manifest cannot be applied to a PVE template and PVE 9.2 has no /lxc/{id}/untemplate - change the manifest to kind: TemplateCT (or demote the PVE object by hand)'')"

text \<open>The fields every action on a desired resource shares.\<close>

definition res_action :: "'r methods \<Rightarrow> plan_options \<Rightarrow> 'r \<Rightarrow> action_kind \<Rightarrow> action" where
  "res_action mt opts r what =
     (let ref = m_ref mt r
      in (zero_action what)\<lparr>ac_tier := 0, ac_kind := ref_kind ref, ac_name := ref_name ref,
           ac_node := m_node mt r, ac_id := m_id mt r, ac_level := opt_level opts ref, ac_ref := ref\<rparr>)"

text \<open>A desired template over a live object that is not a template: the key under which it is live.\<close>

definition mark_key :: "'r methods \<Rightarrow> live_inventory \<Rightarrow> 'r \<Rightarrow> string option" where
  "mark_key mt live r =
     (let kt = ref_kind (m_ref mt r); vm_key = key_for (m_node mt r) KindVM (m_id mt r);
          ct_key = key_for (m_node mt r) KindLXC (m_id mt r)
      in if kt = KindTemplateVM \<and> live_config live vm_key \<noteq> None then Some vm_key
         else if kt = KindTemplateCT \<and> live_config live ct_key \<noteq> None then Some ct_key
         else None)"

text \<open>The clone part of a create: source vmid, delete keys and the verb of the reason.\<close>

definition clone_part :: "'r methods \<Rightarrow> 'r \<Rightarrow> params \<Rightarrow> string + int \<times> string list \<times> string" where
  "clone_part mt r params =
     (let ref = m_ref mt r
      in case m_clone mt r of
           None \<Rightarrow> Inr (0, [], create_verb (ref_kind ref))
         | Some v \<Rightarrow>
             (if cv_source v = 0
              then Inl (ref_str ref @ '': spec.clone references '' @ go_quote (cv_clone v) @
                        '' but no clone source vmid resolved (resolver did not run?)'')
              else if cv_source v = cv_vmid v
              then Inl (ref_str ref @ '': clone source vmid '' @ itoa (cv_source v) @
                        '' equals the target vmid (would clone onto itself)'')
              else Inr (cv_source v, cv_delete_keys v params,
                        ''full-clone from TemplateVM '' @ trim_space (cv_clone v) @ '' (vmid '' @
                        itoa (cv_source v) @ '')'')))"

definition plan_create :: "'r methods \<Rightarrow> plan_options \<Rightarrow> 'r \<Rightarrow> plan \<Rightarrow> string + plan" where
  "plan_create mt opts r p =
     (let ref = m_ref mt r
      in case m_params mt r of
           Inl e \<Rightarrow> Inl (ref_str ref @ '': create params: '' @ e)
         | Inr params \<Rightarrow>
            (case clone_part mt r params of
               Inl e \<Rightarrow> Inl e
             | Inr (src, dels, verb) \<Rightarrow>
                 Inr (add_action ((res_action mt opts r Create)\<lparr>ac_params := Some params,
                        ac_deps := opt_deps opts ref, ac_reason := ref_str ref @ '': not on PVE; will '' @ verb,
                        ac_live_power := [], ac_desired_power := m_state mt r, ac_clone_source := src,
                        ac_delete_keys := dels\<rparr>) p)))"

definition power_reason :: "ref \<Rightarrow> string \<Rightarrow> string \<Rightarrow> string" where
  "power_reason ref live desired =
     ref_str ref @ '': power '' @ go_quote live @ '' '' @ map char_of [226 :: nat, 134, 146] @ '' '' @ go_quote desired"

text \<open>A guest that is on PVE: anomalies, config drift, power.\<close>

definition plan_existing :: "'r methods \<Rightarrow> plan_options \<Rightarrow> live_inventory \<Rightarrow> 'r \<Rightarrow> plan \<Rightarrow> plan" where
  "plan_existing mt opts live r p =
     (let ref = m_ref mt r; key = key_for (m_node mt r) (ref_kind ref) (m_id mt r);
          cfg = live_config live key; pw = live_power live key;
          (upd, stop_first, changed) = m_drift mt r cfg;
          p = fold (\<lambda>msg. add_anomaly ((res_action mt opts r Anomaly)\<lparr>ac_reason := ref_str ref @ '': '' @ msg,
                             ac_anomaly := True\<rparr>)) (m_anomalies mt r cfg) p;
          p = (if changed
               then add_action ((res_action mt opts r Update)\<lparr>ac_params := upd, ac_stop_first := stop_first,
                      ac_reason := ref_str ref @ '': config drift'' @ (if stop_first then '' (stop-required)'' else []),
                      ac_live_power := pw, ac_desired_power := m_state mt r\<rparr>) p
               else p)
      in case power_desired_to_live (m_state mt r) pw of
           None \<Rightarrow> p
         | Some what \<Rightarrow>
             add_action ((res_action mt opts r what)\<lparr>ac_reason := power_reason ref pw (m_state mt r),
               ac_live_power := pw, ac_desired_power := m_state mt r\<rparr>) p)"

text \<open>The body of the loop of pass A.\<close>

definition plan_resource :: "'r methods \<Rightarrow> plan_options \<Rightarrow> live_inventory \<Rightarrow> 'r \<Rightarrow> plan \<Rightarrow> string + plan" where
  "plan_resource mt opts live r p =
     (let ref = m_ref mt r; kt = ref_kind ref; key = key_for (m_node mt r) kt (m_id mt r)
      in if artifact_kind kt then Inr (plan_artifact mt r live opts p)
         else if \<not> live_present live key
         then (case mark_key mt live r of
                 Some mk \<Rightarrow>
                   Inr (add_action ((res_action mt opts r MarkTemplate)\<lparr>
                     ac_reason := ref_str ref @ '': PVE object present but not a template; will mark as template'',
                     ac_deps := opt_deps opts ref, ac_live_power := live_power live mk,
                     ac_desired_power := m_state mt r\<rparr>) p)
               | None \<Rightarrow> plan_create mt opts r p)
         else if (kt = KindVM \<or> kt = KindLXC) \<and> is_pve_template (live_config live key)
         then Inr (add_anomaly ((res_action mt opts r Anomaly)\<lparr>ac_anomaly := True,
                     ac_reason := ref_str ref @ untemplate_hint kt\<rparr>) p)
         else Inr (plan_existing mt opts live r p))"

fun plan_desired :: "'r methods \<Rightarrow> plan_options \<Rightarrow> live_inventory \<Rightarrow> 'r list \<Rightarrow> plan \<Rightarrow> string + plan" where
  "plan_desired mt opts live [] p = Inr p"
| "plan_desired mt opts live (r # rs) p =
     (case plan_resource mt opts live r p of Inl e \<Rightarrow> Inl e | Inr p \<Rightarrow> plan_desired mt opts live rs p)"

section \<open>Pass B: prunes\<close>

definition desired_by_kind :: "'r methods \<Rightarrow> 'r list \<Rightarrow> kind \<Rightarrow> nat" where
  "desired_by_kind mt desired k = length (filter (\<lambda>r. ref_kind (m_ref mt r) = k) desired)"

text \<open>The identities one desired resource registers.\<close>

definition desired_keys_of :: "'r methods \<Rightarrow> 'r \<Rightarrow> string list" where
  "desired_keys_of mt r =
     (let ref = m_ref mt r; k = ref_kind ref
      in if artifact_kind k then []
         else [key_for (m_node mt r) k (m_id mt r), ref_str ref]
              @ (if k = KindTemplateVM then [key_for (m_node mt r) KindVM (m_id mt r)] else [])
              @ (if k = KindTemplateCT then [key_for (m_node mt r) KindLXC (m_id mt r)] else []))"

definition desired_set :: "'r methods \<Rightarrow> 'r list \<Rightarrow> string list" where
  "desired_set mt desired = concat (map (desired_keys_of mt) desired)"

datatype prune_verdict = Ignore | Untagged action | Candidate action

text \<open>The body of the loop over the listing.\<close>

definition prune_verdict :: "'r methods \<Rightarrow> plan_options \<Rightarrow> live_inventory \<Rightarrow> 'r list \<Rightarrow> cluster_resource \<Rightarrow> prune_verdict" where
  "prune_verdict mt opts live desired res =
     (let node = cr_node res; i = cr_vmid res; k = normalize_kind (cr_type res); key = key_for node k i;
          cfg = live_config live key
      in if node = [] \<or> i \<le> 0 \<or> cr_type res = [] then Ignore
         else if \<not> node_allowed (po_allow opts) node then Ignore
         else if k \<noteq> KindVM \<and> k \<noteq> KindLXC then Ignore
         else if cfg = None then Ignore
         else if key \<in> set (desired_set mt desired) \<or> kind_ref k cfg \<in> set (desired_set mt desired) then Ignore
         else if \<not> has_tag cfg ownership_tag
         then Untagged ((zero_action StatusOnly)\<lparr>ac_kind := k, ac_name := cfg_str cfg ''name'', ac_node := node,
                ac_id := i, ac_reason := ''live object without proxops tag; never touched''\<rparr>)
         else if is_pve_template cfg \<and> desired_template_vm mt desired node i then Ignore
         else if is_pve_template cfg \<and> desired_template_ct mt desired node i then Ignore
         else Candidate ((zero_action Delete)\<lparr>ac_tier := 9, ac_kind := k, ac_name := cfg_str cfg ''name'',
                ac_node := node, ac_id := i, ac_prune := True, ac_level := 0,
                ac_reason := ''present on PVE (proxops-tagged) but absent in git'',
                ac_live_power := live_power live key\<rparr>))"

definition prune_skips :: "prune_verdict list \<Rightarrow> action list" where
  "prune_skips vs = concat (map (\<lambda>v. case v of Untagged a \<Rightarrow> [a] | _ \<Rightarrow> []) vs)"

definition prune_candidates :: "prune_verdict list \<Rightarrow> action list" where
  "prune_candidates vs = concat (map (\<lambda>v. case v of Candidate a \<Rightarrow> [a] | _ \<Rightarrow> []) vs)"

section \<open>The empty-desired guard\<close>

definition kind_candidates :: "action list \<Rightarrow> kind \<Rightarrow> nat" where
  "kind_candidates cands k = length (filter (\<lambda>a. ac_kind a = k) cands)"

definition suppressed :: "'r methods \<Rightarrow> plan_options \<Rightarrow> 'r list \<Rightarrow> action list \<Rightarrow> kind \<Rightarrow> bool" where
  "suppressed mt opts desired cands k \<longleftrightarrow>
     k \<in> {KindVM, KindLXC} \<and> \<not> 0 < desired_by_kind mt desired k \<and>
     po_budget opts < int (kind_candidates cands k)"

definition anomaly_part :: "plan_options \<Rightarrow> action list \<Rightarrow> kind \<Rightarrow> string" where
  "anomaly_part opts cands k =
     ''0 desired '' @ k @ '' but '' @ itoa (int (kind_candidates cands k)) @
     '' proxops-tagged live objects (more than the per-cycle prune budget of '' @ itoa (po_budget opts) @
     ''): probable bad push; suppresses prunes for '' @ k @ '' this cycle''"

text \<open>The anomaly text, the deferred prunes and the remaining ones.\<close>

definition prune_guard :: "'r methods \<Rightarrow> plan_options \<Rightarrow> 'r list \<Rightarrow> action list \<Rightarrow> string \<times> action list \<times> action list" where
  "prune_guard mt opts desired cands =
     (let ks = filter (suppressed mt opts desired cands) [KindVM, KindLXC]
      in (join_with ''; '' (map (anomaly_part opts cands) ks),
          filter (\<lambda>a. ac_kind a \<in> set ks) cands,
          filter (\<lambda>a. ac_kind a \<notin> set ks) cands))"

section \<open>The budget and the order\<close>

definition prune_less :: "action \<Rightarrow> action \<Rightarrow> bool" where
  "prune_less a b = (if ac_node a \<noteq> ac_node b then ac_node a < ac_node b else ac_id a < ac_id b)"

text \<open>The prunes kept, and those deferred.\<close>

definition apply_budget :: "int \<Rightarrow> action list \<Rightarrow> action list \<times> action list" where
  "apply_budget budget cands =
     (if 0 < budget \<and> budget < int (length cands)
      then (let s = go_isort prune_less cands in (take (nat budget) s, drop (nat budget) s))
      else (cands, []))"

text \<open>\<^verbatim>\<open>whatRank\<close>: a key the map does not have, \<^verbatim>\<open>MarkTemplate\<close>, reads as 0.\<close>

definition what_rank :: "action_kind \<Rightarrow> int" where
  "what_rank k = (case k of
      Create \<Rightarrow> 0 | Update \<Rightarrow> 1 | StatusOnly \<Rightarrow> 2 | Start \<Rightarrow> 3 | Stop \<Rightarrow> 4 | Delete \<Rightarrow> 9 | Anomaly \<Rightarrow> 10
    | MarkTemplate \<Rightarrow> 0)"

definition action_less :: "action \<Rightarrow> action \<Rightarrow> bool" where
  "action_less a b =
     (if ac_tier a \<noteq> ac_tier b then ac_tier a < ac_tier b
      else if ac_tier a = 0 \<and> ac_level a \<noteq> ac_level b then ac_level a < ac_level b
      else if ac_what a \<noteq> ac_what b then what_rank (ac_what a) < what_rank (ac_what b)
      else if ac_node a \<noteq> ac_node b then ac_node a < ac_node b
      else if ac_id a \<noteq> ac_id b then ac_id a < ac_id b
      else ac_name a < ac_name b)"

section \<open>PlanActions\<close>

text \<open>What follows pass A.\<close>

definition plan_prunes :: "'r methods \<Rightarrow> plan_options \<Rightarrow> live_inventory \<Rightarrow> 'r list \<Rightarrow> plan \<Rightarrow> plan" where
  "plan_prunes mt opts live desired p =
     (let vs = map (prune_verdict mt opts live desired) (lv_listing live);
          cands = map (\<lambda>a. a\<lparr>ac_level := 0\<rparr>) (prune_candidates vs);
          (anomaly, held, cands) = prune_guard mt opts desired cands;
          (kept, over) = apply_budget (po_budget opts) cands
      in p\<lparr>pl_actions := pl_actions p @ kept,
           pl_skipped := pl_skipped p @ prune_skips vs,
           pl_deferred := pl_deferred p @ held @ over,
           pl_anomaly := anomaly\<rparr>)"

definition plan_actions ::
    "'r methods \<Rightarrow> 'r list \<Rightarrow> live_inventory option \<Rightarrow> plan_options \<Rightarrow> string + plan" where
  "plan_actions mt desired live opts =
     (let live = (case live of None \<Rightarrow> empty_inventory | Some l \<Rightarrow> l)
      in case plan_desired mt opts live desired empty_plan of
           Inl e \<Rightarrow> Inl e
         | Inr p \<Rightarrow>
             (let p = plan_prunes mt opts live desired p
              in Inr (p\<lparr>pl_actions := go_isort action_less (pl_actions p)\<rparr>)))"

end
