(* ===== verification/Wire.thy ===== *)
theory Wire
  imports Quantity
begin

text \<open>
  Values on the PVE wire: \<^verbatim>\<open>fmt.Sprint\<close> of a configuration value, the form
  \<^verbatim>\<open>exec.toValues\<close> makes of a parameter map, and the readers and slot tests of
  \<^verbatim>\<open>internal/schema/vm.go\<close> that the planner, the executor and the drift engine share:
  \<^verbatim>\<open>pveStr\<close>, \<^verbatim>\<open>pveInt\<close>, \<^verbatim>\<open>tagsEqual\<close>, \<^verbatim>\<open>isDiskSlot\<close> and the post-clone
  parameter set \<^verbatim>\<open>CloneConfigSet\<close> / \<^verbatim>\<open>CloneConfigWrite\<close>.
\<close>

section \<open>fmt.Sprint\<close>

text \<open>
  The decimal exponent of \<open>n / d\<close>: \<open>10^x <= n / d < 10^(x + 1)\<close>.  \<open>fuel\<close> bounds the leading zeros of
  a small fraction; a \<^verbatim>\<open>float64\<close> has at most 324.
\<close>

fun neg_exponent :: "nat \<Rightarrow> nat \<Rightarrow> nat \<Rightarrow> nat" where
  "neg_exponent 0 n d = 0"
| "neg_exponent (Suc fuel) n d = (if d \<le> n then 0 else Suc (neg_exponent fuel (10 * n) d))"

definition dec_exponent :: "nat \<Rightarrow> nat \<Rightarrow> int" where
  "dec_exponent n d =
     (if d \<le> n then int (length (nat_str (n div d))) - 1 else - int (neg_exponent 400 n d))"

text \<open>The \<open>k\<close>-digit decimal nearest to \<open>n / d\<close>, as \<open>t * 10^(x - k + 1)\<close>.\<close>

definition digits_at :: "nat \<Rightarrow> int \<Rightarrow> nat \<Rightarrow> nat \<Rightarrow> nat" where
  "digits_at k x n d =
     (let s = int k - 1 - x
      in round_half_even (n * 10 ^ nat s) (d * 10 ^ nat (- s)))"

definition digits_float :: "nat \<Rightarrow> int \<Rightarrow> nat \<Rightarrow> float64" where
  "digits_float k x t = (let s = int k - 1 - x in float_of (t * 10 ^ nat (- s)) (10 ^ nat s))"

text \<open>The shortest digit string that reads back as the same \<^verbatim>\<open>float64\<close>; 17 digits always do.\<close>

fun shortest_digits :: "nat \<Rightarrow> nat \<Rightarrow> int \<Rightarrow> nat \<Rightarrow> nat \<Rightarrow> nat \<times> nat" where
  "shortest_digits 0 k x n d = (digits_at k x n d, k)"
| "shortest_digits (Suc fuel) k x n d =
     (if digits_float k x (digits_at k x n d) = float_of n d then (digits_at k x n d, k)
      else shortest_digits fuel (Suc k) x n d)"

definition exp_text :: "int \<Rightarrow> string" where
  "exp_text x = (if x < 0 then ''e-'' else ''e+'') @ pad_left 2 (nat_str (nat \<bar>x\<bar>))"

text \<open>\<^verbatim>\<open>%v\<close> of a positive \<^verbatim>\<open>float64\<close>: \<open>s\<close> are its digits, \<open>x\<close> its exponent.\<close>

definition place_digits :: "string \<Rightarrow> int \<Rightarrow> string" where
  "place_digits s x =
     (if x < -4 \<or> 21 \<le> x
      then take 1 s @ (if 1 < length s then ''.'' @ drop 1 s else []) @ exp_text x
      else if x < 0 then ''0.'' @ replicate (nat (- x) - 1) (CHR ''0'') @ s
      else if length s \<le> nat x + 1 then s @ replicate (nat x + 1 - length s) (CHR ''0'')
      else take (nat x + 1) s @ ''.'' @ drop (nat x + 1) s)"

definition pos_float_str :: "nat \<Rightarrow> nat \<Rightarrow> string" where
  "pos_float_str n d =
     (let x = dec_exponent n d; r = shortest_digits 16 1 x n d; s = nat_str (fst r)
      in if snd r < length s then place_digits (take (snd r) s) (x + 1) else place_digits s x)"

definition float_str :: "rat \<Rightarrow> string" where
  "float_str q =
     (let r = quotient_of q
      in if q = 0 then ''0''
         else (if q < 0 then ''-'' else []) @ pos_float_str (nat \<bar>fst r\<bar>) (nat (snd r)))"

definition join_space :: "string list \<Rightarrow> string" where
  "join_space = join_with '' ''"

fun go_sprint :: "pval \<Rightarrow> string" where
  "go_sprint PNil = ''<nil>''"
| "go_sprint (PStr s) = s"
| "go_sprint (PInt i) = itoa i"
| "go_sprint (PInt64 i) = itoa i"
| "go_sprint (PFloat q) = float_str q"
| "go_sprint (PBool b) = (if b then ''true'' else ''false'')"
| "go_sprint (PArr vs) = ''['' @ join_space (map go_sprint vs) @ '']''"
| "go_sprint (PObj kvs) =
     ''map['' @ join_space (map (\<lambda>kv. fst kv @ '':'' @ snd kv)
                  (sort_key fst (map (\<lambda>kv. (fst kv, go_sprint (snd kv))) kvs))) @ '']''"

text \<open>\<^verbatim>\<open>exec.toValues\<close>.  \<^verbatim>\<open>url.Values\<close> is a map; only \<open>values_encode\<close> orders it.\<close>

definition to_values :: "config \<Rightarrow> (string \<times> string) list" where
  "to_values cfg = (case cfg of None \<Rightarrow> [] | Some m \<Rightarrow> map (\<lambda>kv. (fst kv, go_sprint (snd kv))) m)"

section \<open>Readers\<close>

fun pve_str :: "pval \<Rightarrow> string" where
  "pve_str PNil = []"
| "pve_str (PStr s) = s"
| "pve_str (PArr vs) = join_with '','' (map pve_str vs)"
| "pve_str v = go_sprint v"

text \<open>
  \<^verbatim>\<open>pveStr(cfg[k])\<close>: a missing key reads as \<^verbatim>\<open>nil\<close>.
\<close>

definition pve_str_at :: "config \<Rightarrow> string \<Rightarrow> string" where
  "pve_str_at cfg k = (case cfg_get cfg k of None \<Rightarrow> [] | Some v \<Rightarrow> pve_str v)"

text \<open>\<^verbatim>\<open>int(x)\<close> of a \<^verbatim>\<open>float64\<close> in range truncates; \<^verbatim>\<open>Atoi\<close> clamps when out of range.\<close>

definition atoi_clamp :: "string \<Rightarrow> int" where
  "atoi_clamp s = (case parse_int64 s of
      Some i \<Rightarrow> i
    | None \<Rightarrow>
        (let neg = has_prefix s ''-''; ds = (if neg \<or> has_prefix s ''+'' then drop 1 s else s)
         in if ds \<noteq> [] \<and> list_all is_digit ds then (if neg then - (2 ^ 63) else 2 ^ 63 - 1) else 0))"

definition pve_int :: "pval \<Rightarrow> int" where
  "pve_int v = (case v of
      PInt i \<Rightarrow> i | PInt64 i \<Rightarrow> i
    | PFloat q \<Rightarrow> (if q < 0 then - \<lfloor>- q\<rfloor> else \<lfloor>q\<rfloor>)
    | PStr s \<Rightarrow> atoi_clamp (trim_space s)
    | _ \<Rightarrow> 0)"

definition live_tags :: "pval option \<Rightarrow> string list" where
  "live_tags cur = filter (\<lambda>t. t \<noteq> []) (case cur of
      Some (PArr es) \<Rightarrow> concat (map (\<lambda>e. case e of PStr s \<Rightarrow> [s] | _ \<Rightarrow> []) es)
    | Some (PStr c) \<Rightarrow> map trim_space (split_on (CHR '','') c)
    | _ \<Rightarrow> [])"

definition tags_equal :: "pval option \<Rightarrow> string list \<Rightarrow> bool" where
  "tags_equal cur desired =
     (let got = remdups (live_tags cur); des = remdups (filter (\<lambda>t. t \<noteq> []) desired)
      in length got = length des \<and> list_all (\<lambda>t. t \<in> set got) des)"

text \<open>Comparing sizes and one inclusion is comparing the sets.\<close>

lemma tags_equal_iff: "tags_equal cur desired \<longleftrightarrow> set (live_tags cur) = set desired - {[]}"
proof
  assume t: "tags_equal cur desired"
  let ?g = "remdups (live_tags cur)" and ?d = "remdups (filter (\<lambda>t. t \<noteq> []) desired)"
  have "set ?d \<subseteq> set ?g" "card (set ?g) = card (set ?d)"
    using t by (simp_all add: tags_equal_def list_all_iff subset_iff length_remdups_card_conv)
  then have "set ?d = set ?g" by (intro card_subset_eq) simp_all
  then show "set (live_tags cur) = set desired - {[]}" by auto
next
  assume s: "set (live_tags cur) = set desired - {[]}"
  then show "tags_equal cur desired"
    by (auto simp: tags_equal_def list_all_iff length_remdups_card_conv set_diff_eq Collect_conv_if)
qed

section \<open>Slots\<close>

definition numbered_slot :: "string \<Rightarrow> string \<Rightarrow> bool" where
  "numbered_slot prefix k \<longleftrightarrow>
     has_prefix k prefix \<and> drop (length prefix) k \<noteq> [] \<and> list_all is_digit (drop (length prefix) k)"

definition is_disk_slot :: "string \<Rightarrow> bool" where
  "is_disk_slot k \<longleftrightarrow>
     (if has_prefix k ''scsi'' then numbered_slot ''scsi'' k
      else if has_prefix k ''virtio'' then numbered_slot ''virtio'' k
      else numbered_slot ''sata'' k)"

definition is_nic_slot :: "string \<Rightarrow> bool" where
  "is_nic_slot k \<longleftrightarrow> numbered_slot ''net'' k"

definition is_none_slot :: "string \<Rightarrow> bool" where
  "is_none_slot s =
     (let t = trim_space s in t = ''none'' \<or> has_prefix t ''none,'' \<or> has_prefix t ''none;'')"

definition is_new_storage_slot :: "string \<Rightarrow> bool" where
  "is_new_storage_slot raw = (let t = trim_space raw in t = [] \<or> is_none_slot t)"

section \<open>The post-clone configuration\<close>

definition cloud_init_slot :: string where "cloud_init_slot = ''ide2''"

definition clone_config_set :: "params \<Rightarrow> params" where
  "clone_config_set ps =
     filter (\<lambda>(k, v). \<not> (k = ''vmid'' \<or> k = ''start'' \<or> is_disk_slot k)) ps"

definition clone_config_write :: "params \<Rightarrow> params \<Rightarrow> params" where
  "clone_config_write ps live =
     (let out = clone_config_set ps
      in if map_of out cloud_init_slot \<noteq> None \<and>
            \<not> is_new_storage_slot (cfg_str (Some live) cloud_init_slot)
         then filter (\<lambda>(k, v). k \<noteq> cloud_init_slot) out
         else out)"

lemma clone_config_set_keys:
  "k \<in> fst ` set (clone_config_set ps) \<longleftrightarrow>
   k \<in> fst ` set ps \<and> k \<noteq> ''vmid'' \<and> k \<noteq> ''start'' \<and> \<not> is_disk_slot k"
  by (force simp: clone_config_set_def)

lemma clone_config_write_subset: "set (clone_config_write ps live) \<subseteq> set (clone_config_set ps)"
  by (auto simp: clone_config_write_def Let_def)

text \<open>The write never names a data disk, and never the cloud-init drive over a live volume.\<close>

lemma clone_config_write_drive:
  assumes "k \<in> fst ` set (clone_config_write ps live)" "k = cloud_init_slot"
  shows "is_new_storage_slot (cfg_str (Some live) cloud_init_slot)"
proof (rule ccontr)
  assume n: "\<not> ?thesis"
  have "k \<in> fst ` set (clone_config_set ps)"
    using assms(1) clone_config_write_subset [of ps live] by blast
  then have "map_of (clone_config_set ps) cloud_init_slot \<noteq> None"
    using assms(2) by (simp only: map_of_eq_None_iff) simp
  with n assms show False by (auto simp: clone_config_write_def Let_def)
qed

lemma clone_config_write_keys:
  "k \<in> fst ` set (clone_config_write ps live) \<Longrightarrow>
   k \<in> fst ` set ps \<and> \<not> is_disk_slot k \<and> k \<noteq> ''vmid'' \<and> k \<noteq> ''start''"
  using clone_config_write_subset [of ps live] clone_config_set_keys [of k ps] by blast

lemma to_values_keys: "map fst (to_values (Some m)) = map fst m"
  by (simp add: to_values_def)

end
