(* ===== verification/Statusx.thy ===== *)
theory Statusx
  imports Go_Sort Schema_Core "HOL-Library.Product_Lexorder"
begin

text \<open>
  \<^verbatim>\<open>internal/statusx/statusx.go\<close>: the in-memory status store.  Every method holds the lock
  for its whole body, so it is one function on the store; \<open>now\<close> is what \<^verbatim>\<open>time.Now()\<close>
  returns inside it.  A zero \<^verbatim>\<open>time.Time\<close> is \<open>None\<close>.
\<close>

section \<open>Data\<close>

datatype state = Desired | Drifting | Converged | Orphan | Pruned | Skipped | Anomalous | InProgress | Failed

definition state_text :: "state \<Rightarrow> string" where
  "state_text s = (case s of
      Desired \<Rightarrow> ''desired'' | Drifting \<Rightarrow> ''drift'' | Converged \<Rightarrow> ''converged'' | Orphan \<Rightarrow> ''orphan''
    | Pruned \<Rightarrow> ''pruned'' | Skipped \<Rightarrow> ''skipped'' | Anomalous \<Rightarrow> ''anomalous''
    | InProgress \<Rightarrow> ''in_progress'' | Failed \<Rightarrow> ''failed'')"

record object =
  ob_kind :: kind
  ob_name :: string
  ob_cluster :: string
  ob_node :: string
  ob_id :: int
  ob_state :: state
  ob_last_action :: string
  ob_last_error :: string
  ob_converged_at :: "int option"
  ob_prune_reason :: string
  ob_updated_at :: "int option"

text \<open>The key of the map: cluster, kind, name.\<close>

type_synonym obj_ref = "string \<times> kind \<times> string"

definition obj_key :: "object \<Rightarrow> obj_ref" where
  "obj_key o1 = (ob_cluster o1, ob_kind o1, ob_name o1)"

record cycle =
  cy_commit :: string
  cy_started :: int
  cy_finished :: "int option"
  cy_objects :: nat
  cy_actions_ok :: nat
  cy_actions_error :: nat
  cy_pruned :: nat
  cy_prune_deferred :: nat
  cy_skipped :: nat
  cy_anomalies :: nat
  cy_desired_stale :: bool
  cy_read_only :: bool
  cy_aborted :: bool
  cy_abort_reason :: string

record store =
  st_objects :: "(obj_ref \<times> object) list"
  st_last :: "cycle option"

definition new_store :: store where
  "new_store = \<lparr>st_objects = [], st_last = None\<rparr>"

section \<open>Operations\<close>

definition begin_cycle :: "int \<Rightarrow> string \<Rightarrow> bool \<Rightarrow> bool \<Rightarrow> store \<Rightarrow> store" where
  "begin_cycle now commit stale read_only s = s\<lparr>st_last := Some
     \<lparr>cy_commit = commit, cy_started = now, cy_finished = None, cy_objects = 0, cy_actions_ok = 0,
      cy_actions_error = 0, cy_pruned = 0, cy_prune_deferred = 0, cy_skipped = 0, cy_anomalies = 0,
      cy_desired_stale = stale, cy_read_only = read_only, cy_aborted = False, cy_abort_reason = []\<rparr>\<rparr>"

definition set_object :: "int \<Rightarrow> object \<Rightarrow> store \<Rightarrow> store" where
  "set_object now ob s =
     (let cp = ob\<lparr>ob_updated_at := Some now\<rparr>
      in s\<lparr>st_objects := put (obj_key cp) cp (st_objects s)\<rparr>)"

definition bump :: "(cycle \<Rightarrow> cycle) \<Rightarrow> store \<Rightarrow> store" where
  "bump f s = s\<lparr>st_last := map_option f (st_last s)\<rparr>"

definition bump_actions_ok :: "store \<Rightarrow> store" where
  "bump_actions_ok = bump (\<lambda>c. c\<lparr>cy_actions_ok := cy_actions_ok c + 1\<rparr>)"

definition bump_actions_error :: "store \<Rightarrow> store" where
  "bump_actions_error = bump (\<lambda>c. c\<lparr>cy_actions_error := cy_actions_error c + 1\<rparr>)"

definition bump_pruned :: "store \<Rightarrow> store" where
  "bump_pruned = bump (\<lambda>c. c\<lparr>cy_pruned := cy_pruned c + 1\<rparr>)"

definition bump_prune_deferred :: "store \<Rightarrow> store" where
  "bump_prune_deferred = bump (\<lambda>c. c\<lparr>cy_prune_deferred := cy_prune_deferred c + 1\<rparr>)"

definition bump_anomaly :: "store \<Rightarrow> store" where
  "bump_anomaly = bump (\<lambda>c. c\<lparr>cy_anomalies := cy_anomalies c + 1\<rparr>)"

definition bump_skipped :: "store \<Rightarrow> store" where
  "bump_skipped = bump (\<lambda>c. c\<lparr>cy_skipped := cy_skipped c + 1\<rparr>)"

definition finish_cycle :: "int \<Rightarrow> bool \<Rightarrow> string \<Rightarrow> store \<Rightarrow> store" where
  "finish_cycle now aborted reason s =
     bump (\<lambda>c. c\<lparr>cy_finished := Some now, cy_aborted := aborted, cy_abort_reason := reason,
                 cy_objects := length (st_objects s)\<rparr>) s"

definition less_object :: "object \<Rightarrow> object \<Rightarrow> bool" where
  "less_object a b =
     (if ob_cluster a \<noteq> ob_cluster b then ob_cluster a < ob_cluster b
      else if ob_kind a \<noteq> ob_kind b then ob_kind a < ob_kind b
      else ob_name a < ob_name b)"

definition sort_objects :: "object list \<Rightarrow> object list" where
  "sort_objects = go_isort less_object"

text \<open>\<^verbatim>\<open>Objects\<close>: the values of the map in some order, sorted.\<close>

definition store_objects :: "store \<Rightarrow> object list" where
  "store_objects s = sort_objects (map snd (st_objects s))"

definition object_count :: "store \<Rightarrow> nat" where
  "object_count s = length (st_objects s)"

definition store_last :: "store \<Rightarrow> cycle option" where
  "store_last s = st_last s"

section \<open>The invariant\<close>

text \<open>The map has one entry per key, and every record sits under its own key.\<close>

definition store_wf :: "store \<Rightarrow> bool" where
  "store_wf s \<longleftrightarrow> distinct (map fst (st_objects s)) \<and> (\<forall>(k, ob)\<in>set (st_objects s). obj_key ob = k)"

lemma obj_key_updated [simp]: "obj_key (ob\<lparr>ob_updated_at := t\<rparr>) = obj_key ob"
  by (simp add: obj_key_def)

lemma store_wf_new: "store_wf new_store"
  by (simp add: store_wf_def new_store_def)

lemma store_wf_set: "store_wf s \<Longrightarrow> store_wf (set_object now ob s)"
  by (fastforce simp: store_wf_def set_object_def Let_def dest: in_put)

lemma st_objects_bump [simp]:
  "st_objects (bump f s) = st_objects s" "st_objects (begin_cycle now c d r s) = st_objects s"
  "st_objects (finish_cycle now a rs s) = st_objects s"
  by (simp_all add: bump_def begin_cycle_def finish_cycle_def)

lemmas bump_defs = bump_actions_ok_def bump_actions_error_def bump_pruned_def bump_prune_deferred_def
  bump_anomaly_def bump_skipped_def

lemma store_wf_bump [simp]:
  "store_wf (bump f s) = store_wf s" "store_wf (begin_cycle now c d r s) = store_wf s"
  "store_wf (finish_cycle now a rs s) = store_wf s"
  by (simp_all add: store_wf_def)

lemma st_last_set [simp]: "st_last (set_object now ob s) = st_last s"
  by (simp add: set_object_def Let_def)

section \<open>The store as a map of records\<close>

definition store_lookup :: "store \<Rightarrow> obj_ref \<Rightarrow> object option" where
  "store_lookup s k = map_of (st_objects s) k"

text \<open>What the writers rely on: a record is found under its key until it is overwritten.\<close>

locale status_store =
  fixes wf :: "'s \<Rightarrow> bool"
    and lookup :: "'s \<Rightarrow> 'k \<Rightarrow> 'o option"
    and set_rec :: "'o \<Rightarrow> 's \<Rightarrow> 's"
    and key :: "'o \<Rightarrow> 'k"
    and stamp :: "'o \<Rightarrow> 'o"
  assumes wf_set: "wf s \<Longrightarrow> wf (set_rec ob s)"
    and lookup_set: "lookup (set_rec ob s) k = (if k = key ob then Some (stamp ob) else lookup s k)"
begin

lemma wf_fold: "wf s \<Longrightarrow> wf (fold set_rec obs s)"
  by (induction obs arbitrary: s) (auto intro: wf_set)

text \<open>After a batch of writes the last record written under a key is the one found.\<close>

lemma lookup_fold:
  "lookup (fold set_rec obs s) k =
   (case map_of (rev (map (\<lambda>ob. (key ob, stamp ob)) obs)) k of Some ob \<Rightarrow> Some ob | None \<Rightarrow> lookup s k)"
proof (induction obs arbitrary: s)
  case (Cons ob obs)
  then show ?case
    by (auto simp: lookup_set map_add_def split: option.splits)
qed simp

end

interpretation status: status_store store_wf store_lookup "set_object now" obj_key "\<lambda>ob. ob\<lparr>ob_updated_at := Some now\<rparr>"
  for now
  by unfold_locales (simp_all add: store_wf_set, simp add: store_lookup_def set_object_def Let_def)

section \<open>Objects\<close>

lemma less_object_key: "less_object a b \<longleftrightarrow> obj_key a < obj_key b"
  by (auto simp: less_object_def obj_key_def)

interpretation obj_order: weak_order less_object
  unfolding less_object_key by (rule weak_order_key)

lemma sort_objects_sorted: "sorted (map obj_key (sort_objects obs))"
  unfolding sort_objects_def by (rule go_isort_key_sorted) (auto simp: less_object_key)

lemma set_sort_objects [simp]: "set (sort_objects obs) = set obs"
  by (simp add: sort_objects_def)

lemma length_sort_objects [simp]: "length (sort_objects obs) = length obs"
  by (simp add: sort_objects_def)

lemma mset_map_sort_objects: "mset (map obj_key (sort_objects obs)) = mset (map obj_key obs)"
  by (simp add: sort_objects_def)

lemma store_keys: "store_wf s \<Longrightarrow> map obj_key (map snd (st_objects s)) = map fst (st_objects s)"
  by (auto simp: store_wf_def)

text \<open>The listing does not depend on the order the map is walked in.\<close>

lemma sort_objects_unique:
  assumes "mset xs = mset ys" "distinct (map obj_key xs)"
  shows "sort_objects xs = sort_objects ys"
proof (rule map_sorted_distinct_set_unique [of obj_key])
  have "mset (map obj_key xs) = mset (map obj_key ys)" using assms(1) by (simp add: mset_map)
  then have dy: "distinct (map obj_key ys)" using assms(2) mset_eq_imp_distinct_iff by blast
  have "set xs = set ys" using assms(1) by (rule mset_eq_setD)
  then show "set (sort_objects xs) = set (sort_objects ys)" by simp
  show "inj_on obj_key (set (sort_objects xs) \<union> set (sort_objects ys))"
    using assms(2) \<open>set xs = set ys\<close> by (simp add: distinct_map)
  show "distinct (map obj_key (sort_objects xs))"
    using assms(2) mset_map_sort_objects mset_eq_imp_distinct_iff by blast
  show "distinct (map obj_key (sort_objects ys))"
    using dy mset_map_sort_objects mset_eq_imp_distinct_iff by blast
qed (rule sort_objects_sorted)+

lemma store_objects_lookup:
  assumes "store_wf s"
  shows "ob \<in> set (store_objects s) \<longleftrightarrow> store_lookup s (obj_key ob) = Some ob"
  using assms by (force simp: store_objects_def store_lookup_def store_wf_def)

end
