(* ===== verification/Exec.thy ===== *)
theory Exec
  imports Plan Wire Statusx
begin

text \<open>
  \<^verbatim>\<open>internal/exec/exec.go\<close>: the executor.  Its state is the API client and the status store
  (\<open>None\<close> when the executor has none); \<open>executor\<close> is its configuration.  \<^verbatim>\<open>Run\<close> is \<open>exec_run\<close>, one
  action is \<open>exec_execute\<close>, and the PVE calls of one action are \<open>exec_apply\<close>, which returns
  whether the guest was stopped and the error, if any.  Logs and Prometheus counters are not
  modelled.
\<close>

section \<open>State\<close>

record executor =
  xc_task_timeout :: int
  xc_task_interval :: int
  xc_cluster :: string

definition new_executor :: "int \<Rightarrow> int \<Rightarrow> executor" where
  "new_executor timeout interval =
     \<lparr>xc_task_timeout = (if timeout \<le> 0 then 1800 * sec_ns else timeout),
      xc_task_interval = (if interval \<le> 0 then 2 * sec_ns else interval),
      xc_cluster = []\<rparr>"

definition set_cluster :: "string \<Rightarrow> executor \<Rightarrow> executor" where
  "set_cluster c xc = xc\<lparr>xc_cluster := c\<rparr>"

record xstate =
  xs_client :: client
  xs_store :: "store option"

record exec_result =
  xr_action :: action
  xr_ok :: bool
  xr_err :: "go_err option"
  xr_did_stop :: bool
  xr_duration :: int

text \<open>What \<^verbatim>\<open>apply\<close> returns.\<close>

type_synonym outcome = "bool \<times> go_err option"

section \<open>PVE operations\<close>

definition wait_task :: "env \<Rightarrow> ctx \<Rightarrow> executor \<Rightarrow> string \<Rightarrow> string \<Rightarrow> unit io" where
  "wait_task env cx xc node upid =
     (if upid = [] then io_return ()
      else (\<lambda>cl.
        let w = task_wait env (timeout_at cx (c_now cl) (xc_task_timeout xc))
                  (timeout_text cx (c_now cl) (xc_task_timeout xc))
                  (set_interval (xc_task_interval xc) task_poll_interval)
                  \<lparr>tid_node = node, tid_upid = upid\<rparr> cl
        in (case snd (fst w) of Some e \<Rightarrow> Inl e | None \<Rightarrow> Inr (), snd w)))"

text \<open>\<^verbatim>\<open>m\<close>, then the wait for the task whose UPID it returned.\<close>

definition then_wait :: "env \<Rightarrow> ctx \<Rightarrow> executor \<Rightarrow> string \<Rightarrow> string io \<Rightarrow> unit io" where
  "then_wait env cx xc node m = io_bind m (wait_task env cx xc node)"

definition qemu_kind :: "kind \<Rightarrow> bool" where
  "qemu_kind k \<longleftrightarrow> k = KindVM \<or> k = KindTemplateVM"

definition exec_start :: "env \<Rightarrow> ctx \<Rightarrow> action \<Rightarrow> string io" where
  "exec_start env cx a =
     (if qemu_kind (ac_kind a) then vm_start env cx (ac_node a) (ac_id a)
      else lxc_start env cx (ac_node a) (ac_id a))"

definition exec_delete :: "env \<Rightarrow> ctx \<Rightarrow> action \<Rightarrow> string io" where
  "exec_delete env cx a =
     (if qemu_kind (ac_kind a) then vm_delete env cx (ac_node a) (ac_id a)
      else lxc_delete env cx (ac_node a) (ac_id a))"

definition stop_and_wait :: "env \<Rightarrow> ctx \<Rightarrow> executor \<Rightarrow> action \<Rightarrow> bool io" where
  "stop_and_wait env cx xc a =
     io_bind (then_wait env cx xc (ac_node a)
                (if qemu_kind (ac_kind a) then vm_stop env cx (ac_node a) (ac_id a)
                 else lxc_stop env cx (ac_node a) (ac_id a)))
             (\<lambda>_. io_return True)"

definition update_config :: "env \<Rightarrow> ctx \<Rightarrow> action \<Rightarrow> string io" where
  "update_config env cx a =
     (if artifact_kind (ac_kind a)
      then io_fail (EText (ac_kind a @ '': PVE storage artifacts do not take config updates''))
      else if qemu_kind (ac_kind a)
      then vm_update env cx (ac_node a) (ac_id a) (to_values (ac_params a))
      else lxc_update env cx (ac_node a) (ac_id a) (to_values (ac_params a)))"

definition mark_template :: "env \<Rightarrow> ctx \<Rightarrow> action \<Rightarrow> string io" where
  "mark_template env cx a =
     io_wrap (\<lambda>e. EWrap (ref_str (ac_ref a) @ '': mark-template: '') e [])
       (if ac_kind a = KindTemplateCT \<or> ac_kind a = KindLXC
        then lxc_mark_template env cx (ac_node a) (ac_id a)
        else vm_mark_template env cx (ac_node a) (ac_id a))"

section \<open>Create\<close>

definition default_content :: "kind \<Rightarrow> string" where
  "default_content k =
     (if k = KindCTTemplate then ''vztmpl'' else if k = KindDiskImage then ''import'' else ''iso'')"

definition create_artifact :: "env \<Rightarrow> ctx \<Rightarrow> action \<Rightarrow> string io" where
  "create_artifact env cx a =
     (let p = cfg_str (ac_params a) ''storage'';
          u = cfg_str (ac_params a) ''url'';
          f = cfg_str (ac_params a) ''filename'';
          ct = cfg_str (ac_params a) ''content''
      in if p = [] \<or> u = [] \<or> f = []
         then io_fail (EText (ac_kind a @ '': storage/url/filename missing from params''))
         else storage_download env cx (ac_node a) p u f (if ct = [] then default_content (ac_kind a) else ct))"

definition create_template_vm :: "env \<Rightarrow> ctx \<Rightarrow> executor \<Rightarrow> action \<Rightarrow> string io" where
  "create_template_vm env cx xc a =
     io_bind (then_wait env cx xc (ac_node a) (vm_create env cx (ac_node a) (to_values (ac_params a)) False))
       (\<lambda>_. io_wrap (\<lambda>e. EWrap ''create template-mark: '' e '' (created VM left un-marked)'')
              (vm_mark_template env cx (ac_node a) (ac_id a)))"

definition create_template_ct :: "env \<Rightarrow> ctx \<Rightarrow> executor \<Rightarrow> action \<Rightarrow> string io" where
  "create_template_ct env cx xc a =
     io_bind (then_wait env cx xc (ac_node a) (lxc_create env cx (ac_node a) (to_values (ac_params a)) False))
       (\<lambda>_. io_wrap (\<lambda>e. EWrap ''create template-mark: '' e '' (created CT left un-marked)'')
              (lxc_mark_template env cx (ac_node a) (ac_id a)))"

text \<open>The body of the write that follows a clone: \<^verbatim>\<open>url.Values.Set("delete", ...)\<close> overwrites.\<close>

definition clone_form :: "action \<Rightarrow> params \<Rightarrow> (string \<times> string) list" where
  "clone_form a live =
     (let v = to_values (Some (clone_config_write (case ac_params a of None \<Rightarrow> [] | Some m \<Rightarrow> m) live))
      in if ac_delete_keys a = [] then v else put ''delete'' (join_with '','' (ac_delete_keys a)) v)"

definition clone_create :: "env \<Rightarrow> ctx \<Rightarrow> executor \<Rightarrow> action \<Rightarrow> string io" where
  "clone_create env cx xc a =
     (let who = ref_str (ac_ref a);
          src = itoa (ac_clone_source a); dst = itoa (ac_id a);
          nd = ac_node a
      in if ac_clone_source a = ac_id a
         then io_fail (EText (who @ '': clone source vmid equals target vmid ('' @ dst @ ''); refusing''))
         else io_bind (io_wrap (\<lambda>e. EWrap (who @ '': clone from vmid '' @ src @ '': '') e [])
                         (vm_clone env cx nd (ac_clone_source a) (ac_id a) True (ac_name a)))
          (\<lambda>upid. io_bind (io_wrap (\<lambda>e. EWrap (who @ '': clone task from vmid '' @ src @ '': '') e [])
                         (wait_task env cx xc nd upid))
          (\<lambda>_. io_bind (io_wrap (\<lambda>e. EWrap (who @ '': clone created (vmid '' @ dst @
                                          '') but reading its config failed: '') e [])
                         (vm_get env cx nd (ac_id a)))
          (\<lambda>live. io_wrap (\<lambda>e. EWrap (who @ '': clone created (vmid '' @ dst @
                                          '') but post-clone config failed: '') e [])
                         (vm_update env cx nd (ac_id a) (clone_form a live))))))"

definition exec_create :: "env \<Rightarrow> ctx \<Rightarrow> executor \<Rightarrow> action \<Rightarrow> string io" where
  "exec_create env cx xc a =
     (if artifact_kind (ac_kind a) then create_artifact env cx a
      else if ac_kind a = KindTemplateVM then create_template_vm env cx xc a
      else if ac_kind a = KindTemplateCT then create_template_ct env cx xc a
      else if ac_kind a = KindVM \<and> ac_clone_source a \<noteq> 0 then clone_create env cx xc a
      else (let v = to_values (ac_params a); start = (ac_desired_power a = ''started'')
            in if ac_kind a = KindVM then vm_create env cx (ac_node a) v start
               else lxc_create env cx (ac_node a) v start))"

section \<open>One action\<close>

text \<open>The result of running \<open>m\<close> when the guest has (\<open>st\<close>) or has not been stopped before.\<close>

definition outcome_of :: "bool \<Rightarrow> unit io \<Rightarrow> client \<Rightarrow> outcome \<times> client" where
  "outcome_of st m cl = (case m cl of (Inl e, c) \<Rightarrow> ((st, Some e), c) | (Inr u, c) \<Rightarrow> ((st, None), c))"

text \<open>A stop that is needed only when \<open>need\<close>, then the rest; a failed stop ends the action.\<close>

definition stop_then ::
    "bool \<Rightarrow> string \<Rightarrow> env \<Rightarrow> ctx \<Rightarrow> executor \<Rightarrow> action \<Rightarrow> (bool \<Rightarrow> unit io) \<Rightarrow> client \<Rightarrow> outcome \<times> client" where
  "stop_then need what env cx xc a rest cl =
     (if need
      then (case io_wrap (\<lambda>e. EWrap what e []) (stop_and_wait env cx xc a) cl of
              (Inl e, c) \<Rightarrow> ((False, Some e), c)
            | (Inr st, c) \<Rightarrow> outcome_of st (rest st) c)
      else outcome_of False (rest False) cl)"

text \<open>The update itself, and the start that follows when the guest was stopped for it.\<close>

definition update_steps :: "env \<Rightarrow> ctx \<Rightarrow> executor \<Rightarrow> action \<Rightarrow> bool \<Rightarrow> unit io" where
  "update_steps env cx xc a st =
     io_bind (then_wait env cx xc (ac_node a) (update_config env cx a))
       (\<lambda>_. if st \<and> ac_desired_power a = ''started''
            then io_bind (io_wrap (\<lambda>e. EWrap ''restart after stop-required update: '' e
                                      '' (object left stopped; next cycle re-diffs power)'')
                            (exec_start env cx a))
                   (\<lambda>supid. io_wrap (\<lambda>e. EWrap ''restart wait: '' e []) (wait_task env cx xc (ac_node a) supid))
            else io_return ())"

definition exec_update :: "env \<Rightarrow> ctx \<Rightarrow> executor \<Rightarrow> action \<Rightarrow> client \<Rightarrow> outcome \<times> client" where
  "exec_update env cx xc a =
     stop_then (ac_stop_first a \<and> ac_live_power a = ''running'') ''stop-first: '' env cx xc a
       (update_steps env cx xc a)"

definition delete_steps :: "env \<Rightarrow> ctx \<Rightarrow> executor \<Rightarrow> action \<Rightarrow> bool \<Rightarrow> unit io" where
  "delete_steps env cx xc a st = then_wait env cx xc (ac_node a) (exec_delete env cx a)"

definition exec_apply :: "env \<Rightarrow> ctx \<Rightarrow> executor \<Rightarrow> action \<Rightarrow> client \<Rightarrow> outcome \<times> client" where
  "exec_apply env cx xc a cl = (case ac_what a of
      Delete \<Rightarrow> stop_then (ac_live_power a = ''running'') ''pre-delete stop: '' env cx xc a
                  (delete_steps env cx xc a) cl
    | Update \<Rightarrow> exec_update env cx xc a cl
    | Create \<Rightarrow> outcome_of False (then_wait env cx xc (ac_node a) (exec_create env cx xc a)) cl
    | MarkTemplate \<Rightarrow> outcome_of False (then_wait env cx xc (ac_node a) (mark_template env cx a)) cl
    | Start \<Rightarrow> outcome_of False (then_wait env cx xc (ac_node a) (exec_start env cx a)) cl
    | Stop \<Rightarrow> (case stop_and_wait env cx xc a cl of
                 (Inl e, c) \<Rightarrow> ((False, Some e), c)
               | (Inr st, c) \<Rightarrow> ((True, None), c))
    | StatusOnly \<Rightarrow> ((False, None), cl)
    | Anomaly \<Rightarrow> ((False, Some (EText (''unknown action kind '' @ go_quote (action_text Anomaly)))), cl))"

section \<open>Status records\<close>

definition state_for :: "action \<Rightarrow> bool \<Rightarrow> state" where
  "state_for a ok = (if \<not> ok then Failed else if ac_what a = Delete then Pruned else Converged)"

definition last_converged :: "int \<Rightarrow> bool \<Rightarrow> state \<Rightarrow> int option" where
  "last_converged now ok st = (if ok \<and> st = Converged then Some now else None)"

text \<open>The fields every record of an action has; the composite literals add the others.\<close>

definition action_object :: "action \<Rightarrow> state \<Rightarrow> object" where
  "action_object a st =
     \<lparr>ob_kind = ac_kind a, ob_name = ac_name a, ob_cluster = [], ob_node = ac_node a, ob_id = ac_id a,
      ob_state = st, ob_last_action = action_text (ac_what a), ob_last_error = [],
      ob_converged_at = None, ob_prune_reason = ac_reason a, ob_updated_at = None\<rparr>"

definition final_object :: "executor \<Rightarrow> int \<Rightarrow> action \<Rightarrow> go_err option \<Rightarrow> object" where
  "final_object xc now a err =
     (let ok = (err = None); st = state_for a ok
      in (action_object a st)\<lparr>ob_cluster := xc_cluster xc,
            ob_last_error := (case err of None \<Rightarrow> [] | Some e \<Rightarrow> err_text e),
            ob_converged_at := last_converged now ok st\<rparr>)"

definition count_action :: "action \<Rightarrow> bool \<Rightarrow> store \<Rightarrow> store" where
  "count_action a ok s =
     (if ok then bump_actions_ok (if ac_prune a then bump_pruned s else s) else bump_actions_error s)"

definition exec_execute :: "env \<Rightarrow> ctx \<Rightarrow> executor \<Rightarrow> action \<Rightarrow> xstate \<Rightarrow> exec_result \<times> xstate" where
  "exec_execute env cx xc a x =
     (let now = c_now (xs_client x);
          s1 = map_option (set_object now (action_object a InProgress)) (xs_store x);
          r = exec_apply env cx xc a (xs_client x);
          err = snd (fst r); now2 = c_now (snd r);
          s2 = map_option (\<lambda>s. count_action a (err = None) (set_object now2 (final_object xc now2 a err) s)) s1
      in (\<lparr>xr_action = a, xr_ok = (err = None), xr_err = err, xr_did_stop = fst (fst r),
           xr_duration = now2 - now\<rparr>,
          \<lparr>xs_client = snd r, xs_store = s2\<rparr>))"

section \<open>Run\<close>

type_synonym fail_key = "kind \<times> string \<times> string"

definition blocking_dep :: "action \<Rightarrow> fail_key list \<Rightarrow> ref option" where
  "blocking_dep a failed =
     find (\<lambda>d. ref_kind d \<noteq> [] \<and> ref_name d \<noteq> [] \<and> (ref_kind d, ref_name d, ac_node a) \<in> set failed)
       (ac_deps a)"

definition dep_text :: "action \<Rightarrow> ref \<Rightarrow> string" where
  "dep_text a d = ref_str d @ '' on node '' @ ac_node a"

definition deferred_object :: "executor \<Rightarrow> action \<Rightarrow> ref \<Rightarrow> object" where
  "deferred_object xc a d =
     (action_object a Skipped)\<lparr>ob_cluster := xc_cluster xc,
        ob_last_error := ''deferred: prerequisite '' @ dep_text a d @ '' failed this cycle''\<rparr>"

definition defer_action :: "executor \<Rightarrow> action \<Rightarrow> ref \<Rightarrow> xstate \<Rightarrow> exec_result \<times> xstate" where
  "defer_action xc a d x =
     (\<lparr>xr_action = a, xr_ok = False,
       xr_err = Some (EText (''deferred: prerequisite '' @ dep_text a d @ '' failed earlier this cycle'')),
       xr_did_stop = False, xr_duration = 0\<rparr>,
      x\<lparr>xs_store := map_option (set_object (c_now (xs_client x)) (deferred_object xc a d)) (xs_store x)\<rparr>)"

definition add_failed :: "action \<Rightarrow> exec_result \<Rightarrow> fail_key list \<Rightarrow> fail_key list" where
  "add_failed a r failed =
     (if \<not> xr_ok r \<and> ref_kind (ac_ref a) \<noteq> [] \<and> ref_name (ac_ref a) \<noteq> []
      then (ref_kind (ac_ref a), ref_name (ac_ref a), ac_node a) # failed else failed)"

text \<open>One turn of the loop: the result, the new state, the new failed set.\<close>

definition run_one ::
    "env \<Rightarrow> ctx \<Rightarrow> executor \<Rightarrow> action \<Rightarrow> fail_key list \<Rightarrow> xstate \<Rightarrow> exec_result \<times> xstate \<times> fail_key list" where
  "run_one env cx xc a failed x = (case blocking_dep a failed of
      Some d \<Rightarrow> (let r = defer_action xc a d x in (fst r, snd r, failed))
    | None \<Rightarrow> (let r = exec_execute env cx xc a x in (fst r, snd r, add_failed a (fst r) failed)))"

fun run_loop ::
    "env \<Rightarrow> ctx \<Rightarrow> executor \<Rightarrow> action list \<Rightarrow> fail_key list \<Rightarrow> xstate \<Rightarrow> exec_result list \<times> xstate" where
  "run_loop env cx xc [] failed x = ([], x)"
| "run_loop env cx xc (a # as) failed x =
     (let r = run_one env cx xc a failed x;
          rest = run_loop env cx xc as (snd (snd r)) (fst (snd r))
      in (fst r # fst rest, snd rest))"

definition deferred_prune_object :: "action \<Rightarrow> object" where
  "deferred_prune_object a =
     (action_object a Skipped)\<lparr>ob_last_action := action_text Delete,
        ob_prune_reason := ''prune deferred (budget or empty-desired anomaly): '' @ ac_reason a\<rparr>"

definition record_deferred :: "int \<Rightarrow> action list \<Rightarrow> store \<Rightarrow> store" where
  "record_deferred now as s =
     fold (\<lambda>a s. bump_prune_deferred (set_object now (deferred_prune_object a) s)) as s"

definition exec_run :: "env \<Rightarrow> ctx \<Rightarrow> executor \<Rightarrow> plan \<Rightarrow> xstate \<Rightarrow> exec_result list \<times> xstate" where
  "exec_run env cx xc p x =
     (let r = run_loop env cx xc (pl_actions p) [] x; x1 = snd r
      in (fst r, x1\<lparr>xs_store := map_option (record_deferred (c_now (xs_client x1)) (pl_deferred p)) (xs_store x1)\<rparr>))"

end
