(* ===== verification/Exec_Facts.thy ===== *)
theory Exec_Facts
  imports Exec
begin

text \<open>
  Facts about the executor: what an action may put on the wire (\<open>writes_of\<close>), what the status store
  records, and how a run defers.
\<close>

section \<open>What an action writes\<close>

definition guest_path :: "action \<Rightarrow> string" where
  "guest_path a = (if qemu_kind (ac_kind a) then vm_base (ac_node a) (ac_id a) else lxc_base (ac_node a) (ac_id a))"

definition stop_writes :: "action \<Rightarrow> (string \<times> string) list" where
  "stop_writes a = [(''POST'', guest_path a @ ''/status/stop'')]"

definition start_writes :: "action \<Rightarrow> (string \<times> string) list" where
  "start_writes a = [(''POST'', guest_path a @ ''/status/start'')]"

definition config_writes :: "action \<Rightarrow> (string \<times> string) list" where
  "config_writes a = [(if qemu_kind (ac_kind a) then ''POST'' else ''PUT'', guest_path a @ ''/config'')]"

definition create_writes :: "action \<Rightarrow> (string \<times> string) list" where
  "create_writes a =
     (let nd = ''nodes/'' @ ac_node a
      in if artifact_kind (ac_kind a)
         then [(''POST'', nd @ ''/storage/'' @ cfg_str (ac_params a) ''storage'' @ ''/download-url'')]
         else if ac_kind a = KindTemplateVM
         then [(''POST'', nd @ ''/qemu''), (''POST'', vm_base (ac_node a) (ac_id a) @ ''/template'')]
         else if ac_kind a = KindTemplateCT
         then [(''POST'', nd @ ''/lxc''), (''POST'', lxc_base (ac_node a) (ac_id a) @ ''/template'')]
         else if ac_kind a = KindVM \<and> ac_clone_source a \<noteq> 0
         then [(''POST'', vm_base (ac_node a) (ac_clone_source a) @ ''/clone''),
               (''POST'', vm_base (ac_node a) (ac_id a) @ ''/config'')]
         else if ac_kind a = KindVM then [(''POST'', nd @ ''/qemu'')]
         else [(''POST'', nd @ ''/lxc'')])"

definition mark_writes :: "action \<Rightarrow> (string \<times> string) list" where
  "mark_writes a =
     [(''POST'', (if ac_kind a = KindTemplateCT \<or> ac_kind a = KindLXC then lxc_base (ac_node a) (ac_id a)
                else vm_base (ac_node a) (ac_id a)) @ ''/template'')]"

text \<open>Every write (method and API path) an action of each sort may cause.\<close>

definition writes_of :: "action \<Rightarrow> (string \<times> string) list" where
  "writes_of a = (case ac_what a of
      Create \<Rightarrow> create_writes a
    | Update \<Rightarrow> stop_writes a @ config_writes a @ start_writes a
    | Start \<Rightarrow> start_writes a
    | Stop \<Rightarrow> stop_writes a
    | Delete \<Rightarrow> stop_writes a @ [(''DELETE'', guest_path a)]
    | MarkTemplate \<Rightarrow> mark_writes a
    | StatusOnly \<Rightarrow> []
    | Anomaly \<Rightarrow> [])"

text \<open>A read, or one of the listed writes.\<close>

definition reads_or :: "(string \<times> string) list \<Rightarrow> string \<Rightarrow> string \<Rightarrow> (string \<times> string) list \<Rightarrow> bool" where
  "reads_or ws m p f \<longleftrightarrow> m = ''GET'' \<or> (m, p) \<in> set ws"

lemma within_mono: "sends (reads_or ws) m \<Longrightarrow> set ws \<subseteq> set vs \<Longrightarrow> sends (reads_or vs) m"
  by (erule sends_mono) (auto simp: reads_or_def)

lemma within_get: "sends get_only m \<Longrightarrow> sends (reads_or ws) m"
  by (erule sends_mono) (simp add: reads_or_def get_only_def)

lemma within_send: "meth \<noteq> ''GET'' \<Longrightarrow> (meth, path) \<in> set ws \<Longrightarrow> sends (reads_or ws) (api_send env cx meth node path form)"
  by (rule sends_mono [OF sends_send]) (auto simp: reads_or_def)

lemma sends_wait: "sends get_only (wait_task env cx xc node upid)"
  using task_wait_extends by (auto simp: sends_def wait_task_def io_return_def Let_def)

lemmas within_wait = within_get [OF sends_wait]

lemma within_then_wait: "sends (reads_or ws) m \<Longrightarrow> sends (reads_or ws) (then_wait env cx xc node m)"
  unfolding then_wait_def by (intro sends_bind within_wait)

lemma within_lxc_delete:
  assumes "(''POST'', lxc_base node i @ ''/status/stop'') \<in> set ws" "(''DELETE'', lxc_base node i) \<in> set ws"
  shows "sends (reads_or ws) (lxc_delete env cx node i)"
  unfolding sends_def
proof
  fix cl
  let ?P = "is_api_request cl (reads_or ws)"
  let ?del = "api_send env cx ''DELETE'' node (lxc_base node i) []"
  obtain st cl1 where st: "lxc_get_status env cx node i cl = (st, cl1)" by fastforce
  have e1: "extends ?P cl cl1"
    using within_get [OF get_only_reads(5)] st by (metis sends_def snd_conv)
  have d: "sends (reads_or ws) ?del" by (rule within_send) (simp_all add: assms)
  have "sends (reads_or ws) (lxc_stop env cx node i)"
    unfolding lxc_stop_def by (rule within_send) (simp_all add: assms)
  then have "sends (reads_or ws) (io_bind (lxc_stop env cx node i) (\<lambda>_. ?del))" by (intro sends_bind d)
  then show "extends ?P cl (snd (lxc_delete env cx node i cl))"
    using sends_seq [OF e1] d st by (auto simp: lxc_delete_def)
qed

lemmas send_defs = vm_start_def lxc_start_def vm_stop_def lxc_stop_def vm_delete_def vm_update_def lxc_update_def
  vm_mark_template_def lxc_mark_template_def vm_create_def lxc_create_def vm_clone_def storage_download_def

lemma within_start: "sends (reads_or (start_writes a)) (exec_start env cx a)"
  by (auto simp: exec_start_def send_defs start_writes_def guest_path_def intro!: within_send)

lemma within_stop: "sends (reads_or (stop_writes a)) (stop_and_wait env cx xc a)"
  by (auto simp: stop_and_wait_def send_defs stop_writes_def guest_path_def
      intro!: within_send sends_bind within_then_wait sends_return)

lemma within_delete: "sends (reads_or (stop_writes a @ [(''DELETE'', guest_path a)])) (exec_delete env cx a)"
  by (auto simp: exec_delete_def send_defs stop_writes_def guest_path_def intro!: within_send within_lxc_delete)

lemma within_config: "sends (reads_or (config_writes a)) (update_config env cx a)"
  by (auto simp: update_config_def send_defs config_writes_def guest_path_def intro!: within_send sends_fail)

lemma within_mark: "sends (reads_or (mark_writes a)) (mark_template env cx a)"
  by (auto simp: mark_template_def send_defs mark_writes_def intro!: sends_wrap within_send)

lemma within_clone:
  "set [(''POST'', vm_base (ac_node a) (ac_clone_source a) @ ''/clone''),
        (''POST'', vm_base (ac_node a) (ac_id a) @ ''/config'')] \<subseteq> set ws \<Longrightarrow>
   sends (reads_or ws) (clone_create env cx xc a)"
  unfolding clone_create_def Let_def
  by (auto simp: send_defs Let_def
      intro!: sends_fail sends_bind sends_wrap within_send within_wait within_get [OF get_only_reads(2)])

lemma within_artifact:
  "(''POST'', ''nodes/'' @ ac_node a @ ''/storage/'' @ cfg_str (ac_params a) ''storage'' @ ''/download-url'') \<in> set ws \<Longrightarrow>
   sends (reads_or ws) (create_artifact env cx a)"
  by (auto simp: create_artifact_def storage_download_def Let_def intro: sends_fail within_send)

lemma within_template_vm:
  "set [(''POST'', ''nodes/'' @ ac_node a @ ''/qemu''), (''POST'', vm_base (ac_node a) (ac_id a) @ ''/template'')]
     \<subseteq> set ws \<Longrightarrow> sends (reads_or ws) (create_template_vm env cx xc a)"
  unfolding create_template_vm_def vm_create_def vm_mark_template_def
  by (intro sends_bind sends_wrap within_then_wait within_send) auto

lemma within_template_ct:
  "set [(''POST'', ''nodes/'' @ ac_node a @ ''/lxc''), (''POST'', lxc_base (ac_node a) (ac_id a) @ ''/template'')]
     \<subseteq> set ws \<Longrightarrow> sends (reads_or ws) (create_template_ct env cx xc a)"
  unfolding create_template_ct_def lxc_create_def lxc_mark_template_def
  by (intro sends_bind sends_wrap within_then_wait within_send) auto

lemma within_guest:
  "(''POST'', ''nodes/'' @ node @ ''/qemu'') \<in> set ws \<Longrightarrow> sends (reads_or ws) (vm_create env cx node v st)"
  "(''POST'', ''nodes/'' @ node @ ''/lxc'') \<in> set ws \<Longrightarrow> sends (reads_or ws) (lxc_create env cx node v st)"
  by (simp_all add: vm_create_def lxc_create_def within_send)

lemma within_create: "sends (reads_or (create_writes a)) (exec_create env cx xc a)"
  by (simp add: exec_create_def create_writes_def Let_def within_artifact within_template_vm
      within_template_ct within_clone within_guest)

lemma within_update: "sends (reads_or (config_writes a @ start_writes a)) (update_steps env cx xc a st)"
  unfolding update_steps_def
  by (auto intro!: sends_bind sends_wrap sends_return within_then_wait within_wait
      within_mono [OF within_config] within_mono [OF within_start])

lemma outcome_of_extends:
  "sends P m \<Longrightarrow> extends (is_api_request cl P) cl (snd (outcome_of st m cl))"
  by (auto simp: outcome_of_def sends_def split: prod.splits sum.splits) (metis snd_conv)+

lemma stop_then_extends:
  assumes "set (stop_writes a) \<subseteq> set ws" "\<And>st. sends (reads_or ws) (rest st)"
  shows "extends (is_api_request cl (reads_or ws)) cl (snd (stop_then need what env cx xc a rest cl))"
proof (cases need)
  case True
  let ?m = "io_wrap (\<lambda>e. EWrap what e []) (stop_and_wait env cx xc a)"
  obtain r c where r: "?m cl = (r, c)" by fastforce
  have "sends (reads_or ws) ?m" by (intro sends_wrap within_mono [OF within_stop] assms(1))
  then have e: "extends (is_api_request cl (reads_or ws)) cl c" using r by (metis sends_def snd_conv)
  show ?thesis
  proof (cases r)
    case (Inr st)
    have "extends (is_api_request c (reads_or ws)) c (snd (outcome_of st (rest st) c))"
      by (intro outcome_of_extends assms(2))
    with e have "extends (is_api_request cl (reads_or ws)) cl (snd (outcome_of st (rest st) c))"
      using is_api_request_extends [OF e] by (metis extends_trans)
    with True r Inr show ?thesis by (simp add: stop_then_def)
  qed (use True r e in \<open>simp add: stop_then_def\<close>)
qed (simp add: stop_then_def outcome_of_extends assms(2))

lemma exec_apply_extends:
  "extends (is_api_request cl (reads_or (writes_of a))) cl (snd (exec_apply env cx xc a cl))"
proof (cases "ac_what a")
  case Create
  then show ?thesis
    by (simp add: exec_apply_def writes_of_def outcome_of_extends within_then_wait within_create)
next
  case Update
  then show ?thesis
    by (auto simp: exec_apply_def writes_of_def exec_update_def intro!: stop_then_extends within_mono [OF within_update])
next
  case Start
  then show ?thesis
    by (simp add: exec_apply_def writes_of_def outcome_of_extends within_then_wait within_start)
next
  case Stop
  then show ?thesis
    using within_stop [of a env cx xc]
    by (auto simp: exec_apply_def writes_of_def sends_def split: prod.splits sum.splits) (metis snd_conv)+
next
  case Delete
  then show ?thesis
    by (auto simp: exec_apply_def writes_of_def delete_steps_def
        intro!: stop_then_extends within_then_wait within_delete)
next
  case MarkTemplate
  then show ?thesis
    by (simp add: exec_apply_def writes_of_def outcome_of_extends within_then_wait within_mark)
qed (simp_all add: exec_apply_def)

end
