(* ===== verification/Plan_Facts.thy ===== *)
theory Plan_Facts
  imports Plan "HOL-Library.Product_Lexorder"
begin

text \<open>
  Facts about the planner: what pass A may plan and why, which live objects are prune candidates,
  how guard and budget divide them, and how the result is ordered.
\<close>


section \<open>What pass A adds\<close>

text \<open>
  \<open>grows P Q S p p'\<close>: the plan gained only actions in \<open>P\<close>, anomalies in \<open>Q\<close> and skips in \<open>S\<close>.
\<close>

definition grows :: "(action \<Rightarrow> bool) \<Rightarrow> (action \<Rightarrow> bool) \<Rightarrow> (action \<Rightarrow> bool) \<Rightarrow> plan \<Rightarrow> plan \<Rightarrow> bool" where
  "grows P Q S p p' \<longleftrightarrow>
     (\<exists>as. pl_actions p' = pl_actions p @ as \<and> list_all P as) \<and>
     (\<exists>as. pl_anomalies p' = pl_anomalies p @ as \<and> list_all Q as) \<and>
     (\<exists>as. pl_skipped p' = pl_skipped p @ as \<and> list_all S as) \<and>
     pl_deferred p' = pl_deferred p \<and> pl_anomaly p' = pl_anomaly p"

lemma grows_refl [simp]: "grows P Q S p p"
  by (simp add: grows_def)

lemma grows_trans [trans]: "grows P Q S a b \<Longrightarrow> grows P Q S b c \<Longrightarrow> grows P Q S a c"
  unfolding grows_def by fastforce

lemma grows_mono:
  "grows P Q S a b \<Longrightarrow> (\<And>x. P x \<Longrightarrow> P' x) \<Longrightarrow> (\<And>x. Q x \<Longrightarrow> Q' x) \<Longrightarrow> (\<And>x. S x \<Longrightarrow> S' x) \<Longrightarrow>
   grows P' Q' S' a b"
  unfolding grows_def by (meson list.pred_mono_strong)

lemma grows_add [simp]:
  "grows P Q S p (add_action a p) \<longleftrightarrow> P a" "grows P Q S p (add_anomaly a p) \<longleftrightarrow> Q a"
  "grows P Q S p (add_skipped a p) \<longleftrightarrow> S a"
  by (auto simp: grows_def add_action_def add_anomaly_def add_skipped_def)

lemma grows_fold:
  "(\<And>x p. x \<in> set xs \<Longrightarrow> grows P Q S p (f x p)) \<Longrightarrow> grows P Q S p (fold f xs p)"
  by (induction xs arbitrary: p) (auto intro: grows_trans)

text \<open>
  The actions pass A may plan for the resource \<open>r\<close>; \<open>live\<close> justifies each of them.
\<close>

definition action_for :: "'r methods \<Rightarrow> plan_options \<Rightarrow> live_inventory \<Rightarrow> 'r \<Rightarrow> action \<Rightarrow> bool" where
  "action_for mt opts live r a \<longleftrightarrow>
     (let ref = m_ref mt r; kt = ref_kind ref; key = key_for (m_node mt r) kt (m_id mt r) in
      ac_tier a = 0 \<and> ac_kind a = kt \<and> ac_name a = ref_name ref \<and> ac_level a = opt_level opts ref \<and>
      ac_ref a = ref \<and> \<not> ac_prune a \<and> \<not> ac_anomaly a \<and>
      (if artifact_kind kt
       then ac_what a = Create \<and> ac_id a = 0 \<and> ac_node a \<in> set (m_nodes mt r) \<and> ac_clone_source a = 0 \<and>
            (case m_storage mt r of (content, storage, filename) \<Rightarrow>
               let cur = live_config live (artifact_key (ac_node a) storage filename kt)
               in cur \<noteq> None \<and> snd (snd (m_drift mt r cur))) \<and>
            m_params mt r = Inr (the (ac_params a))
       else ac_node a = m_node mt r \<and> ac_id a = m_id mt r \<and>
         (case ac_what a of
            Create \<Rightarrow> \<not> live_present live key \<and> mark_key mt live r = None \<and> m_params mt r = Inr (the (ac_params a)) \<and>
              (case m_clone mt r of
                 None \<Rightarrow> ac_clone_source a = 0 \<and> ac_delete_keys a = []
               | Some v \<Rightarrow> ac_clone_source a = cv_source v \<and> cv_source v \<noteq> 0 \<and> cv_source v \<noteq> cv_vmid v \<and>
                   ac_delete_keys a = cv_delete_keys v (the (ac_params a)))
          | MarkTemplate \<Rightarrow> \<not> live_present live key \<and> mark_key mt live r \<noteq> None
          | Update \<Rightarrow> live_present live key \<and>
              \<not> ((kt = KindVM \<or> kt = KindLXC) \<and> is_pve_template (live_config live key)) \<and>
              m_drift mt r (live_config live key) = (ac_params a, ac_stop_first a, True)
          | Start \<Rightarrow> live_present live key \<and>
              \<not> ((kt = KindVM \<or> kt = KindLXC) \<and> is_pve_template (live_config live key)) \<and>
              m_state mt r = ''started'' \<and> live_power live key \<noteq> ''running'' \<and> live_power live key \<noteq> []
          | Stop \<Rightarrow> live_present live key \<and>
              \<not> ((kt = KindVM \<or> kt = KindLXC) \<and> is_pve_template (live_config live key)) \<and>
              m_state mt r = ''stopped'' \<and> live_power live key = ''running''
          | _ \<Rightarrow> False)))"

definition anomaly_for :: "'r methods \<Rightarrow> 'r \<Rightarrow> action \<Rightarrow> bool" where
  "anomaly_for mt r a \<longleftrightarrow> ac_what a = Anomaly \<and> ac_anomaly a \<and> ac_ref a = m_ref mt r \<and> ac_id a = m_id mt r"

definition skip_for :: "'r methods \<Rightarrow> 'r \<Rightarrow> action \<Rightarrow> bool" where
  "skip_for mt r a \<longleftrightarrow> ac_what a = StatusOnly \<and> artifact_kind (ref_kind (m_ref mt r)) \<and> ac_name a = ref_name (m_ref mt r)"

lemma zero_action_sel [simp]:
  "ac_prune (zero_action w) = False" "ac_anomaly (zero_action w) = False" "ac_what (zero_action w) = w"
  "ac_clone_source (zero_action w) = 0" "ac_delete_keys (zero_action w) = []" "ac_tier (zero_action w) = 0"
  "ac_stop_first (zero_action w) = False" "ac_id (zero_action w) = 0" "ac_deps (zero_action w) = []"
  by (simp_all add: zero_action_def)

lemma plan_artifact_grows:
  assumes "artifact_kind (ref_kind (m_ref mt r))"
  shows "grows (action_for mt opts live r) (anomaly_for mt r) (skip_for mt r) p (plan_artifact mt r live opts p)"
proof (cases "m_params mt r")
  case (Inl e)
  with assms show ?thesis by (simp add: plan_artifact_def Let_def skip_for_def)
next
  case (Inr params)
  have "grows (action_for mt opts live r) (anomaly_for mt r) (skip_for mt r) p
          (fold (plan_artifact_node mt r live (opt_level opts (m_ref mt r)) params) (m_nodes mt r) p)"
  proof (rule grows_fold)
    fix node q
    assume n: "node \<in> set (m_nodes mt r)"
    show "grows (action_for mt opts live r) (anomaly_for mt r) (skip_for mt r) q
            (plan_artifact_node mt r live (opt_level opts (m_ref mt r)) params node q)"
      using assms n Inr
      by (cases "m_storage mt r") (simp add: plan_artifact_node_def Let_def skip_for_def action_for_def)
  qed
  with Inr show ?thesis by (simp add: plan_artifact_def Let_def)
qed

lemma res_action_sel [simp]:
  "ac_what (res_action mt opts r w) = w" "ac_ref (res_action mt opts r w) = m_ref mt r"
  "ac_tier (res_action mt opts r w) = 0" "ac_id (res_action mt opts r w) = m_id mt r"
  "ac_kind (res_action mt opts r w) = ref_kind (m_ref mt r)" "ac_name (res_action mt opts r w) = ref_name (m_ref mt r)"
  "ac_level (res_action mt opts r w) = opt_level opts (m_ref mt r)" "ac_node (res_action mt opts r w) = m_node mt r"
  "ac_prune (res_action mt opts r w) = False" "ac_anomaly (res_action mt opts r w) = False"
  by (simp_all add: res_action_def Let_def)

lemma plan_existing_grows:
  assumes "\<not> artifact_kind (ref_kind (m_ref mt r))"
    and "live_present live (key_for (m_node mt r) (ref_kind (m_ref mt r)) (m_id mt r))"
    and "\<not> ((ref_kind (m_ref mt r) = KindVM \<or> ref_kind (m_ref mt r) = KindLXC) \<and>
        is_pve_template (live_config live (key_for (m_node mt r) (ref_kind (m_ref mt r)) (m_id mt r))))"
  shows "grows (action_for mt opts live r) (anomaly_for mt r) (skip_for mt r) p (plan_existing mt opts live r p)"
proof -
  let ?g = "grows (action_for mt opts live r) (anomaly_for mt r) (skip_for mt r)"
  let ?key = "key_for (m_node mt r) (ref_kind (m_ref mt r)) (m_id mt r)"
  obtain upd sf ch where d: "m_drift mt r (live_config live ?key) = (upd, sf, ch)" by (metis prod_cases3)
  define p1 where "p1 = fold (\<lambda>msg. add_anomaly ((res_action mt opts r Anomaly)\<lparr>ac_reason := ref_str (m_ref mt r) @ '': '' @ msg,
       ac_anomaly := True\<rparr>)) (m_anomalies mt r (live_config live ?key)) p"
  define p2 where "p2 = (if ch then add_action ((res_action mt opts r Update)\<lparr>ac_params := upd, ac_stop_first := sf,
       ac_reason := ref_str (m_ref mt r) @ '': config drift'' @ (if sf then '' (stop-required)'' else []),
       ac_live_power := live_power live ?key, ac_desired_power := m_state mt r\<rparr>) p1 else p1)"
  have 1: "?g p p1" unfolding p1_def by (rule grows_fold) (simp add: anomaly_for_def)
  have 2: "?g p1 p2" using assms d by (simp add: p2_def action_for_def Let_def)
  have eq: "plan_existing mt opts live r p = (case power_desired_to_live (m_state mt r) (live_power live ?key) of
       None \<Rightarrow> p2 | Some what \<Rightarrow> add_action ((res_action mt opts r what)\<lparr>ac_reason :=
           power_reason (m_ref mt r) (live_power live ?key) (m_state mt r),
           ac_live_power := live_power live ?key, ac_desired_power := m_state mt r\<rparr>) p2)"
    unfolding plan_existing_def Let_def d prod.case p2_def p1_def by (rule refl)
  have 3: "?g p2 (plan_existing mt opts live r p)"
    using assms unfolding eq
    by (auto simp: power_desired_to_live_def action_for_def Let_def split: option.split if_splits)
  from 1 2 3 show ?thesis by (blast intro: grows_trans)
qed

lemma plan_resource_grows:
  assumes "plan_resource mt opts live r p = Inr p'"
  shows "grows (action_for mt opts live r) (anomaly_for mt r) (skip_for mt r) p p'"
proof (cases "artifact_kind (ref_kind (m_ref mt r))")
  case True
  with assms show ?thesis by (auto simp: plan_resource_def Let_def plan_artifact_grows)
next
  case False
  with assms show ?thesis
    by (auto simp: plan_resource_def plan_create_def clone_part_def anomaly_for_def action_for_def Let_def
        split: if_splits option.splits sum.splits intro: plan_existing_grows)
qed

lemma plan_desired_grows:
  "plan_desired mt opts live rs p = Inr p' \<Longrightarrow>
   grows (\<lambda>a. \<exists>r\<in>set rs. action_for mt opts live r a) (\<lambda>a. \<exists>r\<in>set rs. anomaly_for mt r a)
     (\<lambda>a. \<exists>r\<in>set rs. skip_for mt r a) p p'"
proof (induction rs arbitrary: p)
  case (Cons r rs)
  then obtain p1 where p1: "plan_resource mt opts live r p = Inr p1" "plan_desired mt opts live rs p1 = Inr p'"
    by (auto split: sum.splits)
  from plan_resource_grows [OF p1(1)] Cons.IH [OF p1(2)] show ?case
    by (auto intro: grows_trans grows_mono)
qed simp

section \<open>Prune candidates\<close>

text \<open>What has to hold of a live object before its deletion is planned.\<close>

definition prunable :: "'r methods \<Rightarrow> plan_options \<Rightarrow> live_inventory \<Rightarrow> 'r list \<Rightarrow> cluster_resource \<Rightarrow> bool" where
  "prunable mt opts live desired res \<longleftrightarrow>
     (let k = normalize_kind (cr_type res); key = key_for (cr_node res) k (cr_vmid res); cfg = live_config live key in
      cr_node res \<noteq> [] \<and> 0 < cr_vmid res \<and> cr_type res \<noteq> [] \<and> k \<in> {KindVM, KindLXC} \<and>
      node_allowed (po_allow opts) (cr_node res) \<and>
      cfg \<noteq> None \<and> has_tag cfg ownership_tag \<and>
      key \<notin> set (desired_set mt desired) \<and> kind_ref k cfg \<notin> set (desired_set mt desired) \<and>
      \<not> (is_pve_template cfg \<and>
         (desired_template_vm mt desired (cr_node res) (cr_vmid res) \<or>
          desired_template_ct mt desired (cr_node res) (cr_vmid res))))"

definition prune_action :: "live_inventory \<Rightarrow> cluster_resource \<Rightarrow> action" where
  "prune_action live res =
     (let k = normalize_kind (cr_type res); key = key_for (cr_node res) k (cr_vmid res)
      in (zero_action Delete)\<lparr>ac_tier := 9, ac_kind := k, ac_name := cfg_str (live_config live key) ''name'',
           ac_node := cr_node res, ac_id := cr_vmid res, ac_prune := True, ac_level := 0,
           ac_reason := ''present on PVE (proxops-tagged) but absent in git'',
           ac_live_power := live_power live key\<rparr>)"

lemma verdict_if:
  "(if c then Ignore else x) = Candidate a \<longleftrightarrow> \<not> c \<and> x = Candidate a"
  "(if c then Untagged b else x) = Candidate a \<longleftrightarrow> \<not> c \<and> x = Candidate a"
  by simp_all

lemma prune_verdict_candidate:
  "prune_verdict mt opts live desired res = Candidate a \<longleftrightarrow>
   prunable mt opts live desired res \<and> a = prune_action live res"
  unfolding prune_verdict_def prunable_def prune_action_def Let_def verdict_if prune_verdict.inject
  by (simp only: insert_iff empty_iff not_le de_Morgan_disj de_Morgan_conj not_not) blast

definition all_candidates :: "'r methods \<Rightarrow> plan_options \<Rightarrow> live_inventory \<Rightarrow> 'r list \<Rightarrow> action list" where
  "all_candidates mt opts live desired =
     map (prune_action live) (filter (prunable mt opts live desired) (lv_listing live))"

lemma prune_verdict_cases:
  "(case prune_verdict mt opts live desired res of Candidate a \<Rightarrow> [a] | _ \<Rightarrow> []) =
   (if prunable mt opts live desired res then [prune_action live res] else [])"
proof (cases "prunable mt opts live desired res")
  case True
  then have "prune_verdict mt opts live desired res = Candidate (prune_action live res)"
    by (simp only: prune_verdict_candidate simp_thms)
  with True show ?thesis by simp
next
  case False
  then have "prune_verdict mt opts live desired res \<noteq> Candidate a" for a
    by (simp only: prune_verdict_candidate simp_thms)
  with False show ?thesis by (simp split: prune_verdict.split)
qed

lemma prune_action_level [simp]: "(prune_action live res)\<lparr>ac_level := 0\<rparr> = prune_action live res"
  by (simp add: prune_action_def Let_def)

lemma prune_candidates_eq:
  "map (\<lambda>a. a\<lparr>ac_level := 0\<rparr>) (prune_candidates (map (prune_verdict mt opts live desired) ls)) =
   map (prune_action live) (filter (prunable mt opts live desired) ls)"
  by (induction ls) (simp_all add: prune_candidates_def prune_verdict_cases)

lemma all_candidates_facts:
  assumes "a \<in> set (all_candidates mt opts live desired)"
  shows "ac_tier a = 9" "ac_what a = Delete" "ac_prune a" "ac_kind a \<in> {KindVM, KindLXC}"
  using assms by (auto simp: all_candidates_def prune_action_def prunable_def Let_def)

section \<open>Guard and budget\<close>

lemma guard_split:
  "prune_guard mt opts desired cands = (txt1, held, rest) \<Longrightarrow> mset held + mset rest = mset cands"
  by (auto simp: prune_guard_def Let_def multiset_partition [of "mset cands"] mset_filter intro: multiset_partition [symmetric])

lemma guard_rest:
  assumes "prune_guard mt opts desired cands = (txt1, held, rest)" "k \<in> {KindVM, KindLXC}"
    "desired_by_kind mt desired k = 0"
  shows "int (kind_candidates rest k) \<le> max 0 (po_budget opts)"
proof -
  define ks where "ks = filter (suppressed mt opts desired cands) [KindVM, KindLXC]"
  have rest: "rest = filter (\<lambda>a. ac_kind a \<notin> set ks) cands"
    using assms(1) by (simp add: prune_guard_def ks_def Let_def del: filter.simps)
  show ?thesis
  proof (cases "k \<in> set ks")
    case True
    then have "kind_candidates rest k = 0" by (auto simp: rest kind_candidates_def filter_empty_conv)
    then show ?thesis by simp
  next
    case False
    have "k \<in> set ks \<longleftrightarrow> suppressed mt opts desired cands k"
      using assms(2) unfolding ks_def set_filter list.set by blast
    with False assms(2,3) have "int (kind_candidates cands k) \<le> po_budget opts"
      unfolding suppressed_def by (metis not_gr_zero not_less)
    moreover have "kind_candidates rest k \<le> kind_candidates cands k"
    proof -
      have "filter (\<lambda>a. ac_kind a = k) rest = filter (\<lambda>a. ac_kind a \<notin> set ks) (filter (\<lambda>a. ac_kind a = k) cands)"
        by (simp add: rest conj_commute)
      then show ?thesis by (simp add: kind_candidates_def del: filter_filter)
    qed
    ultimately show ?thesis by simp
  qed
qed

lemma budget_split: "apply_budget b cands = (kept, over) \<Longrightarrow> mset kept + mset over = mset cands"
  by (auto simp: apply_budget_def Let_def simp flip: mset_append split: if_splits)

lemma budget_length:
  "apply_budget b cands = (kept, over) \<Longrightarrow> 0 < b \<Longrightarrow> int (length kept) \<le> b"
  by (auto simp: apply_budget_def Let_def split: if_splits)

section \<open>The whole plan\<close>

definition the_live :: "live_inventory option \<Rightarrow> live_inventory" where
  "the_live live = (case live of None \<Rightarrow> empty_inventory | Some l \<Rightarrow> l)"

lemma mset_split_sets: "mset xs + mset ys = mset zs \<Longrightarrow> set xs \<union> set ys = set zs"
  by (metis set_mset_mset set_mset_union)

lemma action_for_not_prune: "action_for mt opts live r a \<Longrightarrow> \<not> ac_prune a \<and> ac_tier a = 0 \<and> ac_what a \<noteq> Delete"
  by (auto simp: action_for_def Let_def split: if_splits)

text \<open>
  The parts a plan is made of: the justified actions of pass A, and the prunable objects divided
  into prunes kept, held back by the guard, and over the budget.
\<close>

lemma plan_actions_parts:
  assumes "plan_actions mt desired live opts = Inr p"
  obtains as kept rest where
    "pl_actions p = go_isort action_less (as @ kept)"
    "\<And>a. a \<in> set as \<Longrightarrow> \<exists>r\<in>set desired. action_for mt opts (the_live live) r a"
    "\<And>a. a \<in> set (pl_anomalies p) \<Longrightarrow> \<exists>r\<in>set desired. anomaly_for mt r a"
    "mset kept + mset (pl_deferred p) = mset (all_candidates mt opts (the_live live) desired)"
    "\<And>k. k \<in> {KindVM, KindLXC} \<Longrightarrow> desired_by_kind mt desired k = 0 \<Longrightarrow>
       int (kind_candidates rest k) \<le> max 0 (po_budget opts)"
    "mset kept \<subseteq># mset rest" "0 < po_budget opts \<Longrightarrow> int (length kept) \<le> po_budget opts"
proof -
  let ?live = "the_live live"
  from assms obtain p0 where p0: "plan_desired mt opts ?live desired empty_plan = Inr p0"
    and p: "p = (plan_prunes mt opts ?live desired p0)
                  \<lparr>pl_actions := go_isort action_less (pl_actions (plan_prunes mt opts ?live desired p0))\<rparr>"
    by (auto simp: plan_actions_def the_live_def Let_def split: sum.splits)
  note g = plan_desired_grows [OF p0]
  obtain an held rest where gd:
    "prune_guard mt opts desired (all_candidates mt opts ?live desired) = (an, held, rest)" by (metis prod_cases3)
  obtain kept over where b: "apply_budget (po_budget opts) rest = (kept, over)" by fastforce
  have pp: "plan_prunes mt opts ?live desired p0 =
      p0\<lparr>pl_actions := pl_actions p0 @ kept,
         pl_skipped := pl_skipped p0 @ prune_skips (map (prune_verdict mt opts ?live desired) (lv_listing ?live)),
         pl_deferred := pl_deferred p0 @ held @ over, pl_anomaly := an\<rparr>"
    using gd b by (simp add: plan_prunes_def Let_def prune_candidates_eq all_candidates_def)
  show thesis
  proof (rule that)
    show "pl_actions p = go_isort action_less (pl_actions p0 @ kept)" by (simp add: p pp)
    show "\<exists>r\<in>set desired. action_for mt opts ?live r a" if "a \<in> set (pl_actions p0)" for a
      using g that by (auto simp: grows_def empty_plan_def list_all_iff)
    show "\<exists>r\<in>set desired. anomaly_for mt r a" if "a \<in> set (pl_anomalies p)" for a
      using g that by (auto simp: grows_def empty_plan_def list_all_iff p pp)
    have "pl_deferred p0 = []" using g by (simp add: grows_def empty_plan_def)
    then show "mset kept + mset (pl_deferred p) = mset (all_candidates mt opts ?live desired)"
      using guard_split [OF gd, folded budget_split [OF b]] by (simp add: p pp ac_simps)
    show "int (kind_candidates rest k) \<le> max 0 (po_budget opts)"
      if "k \<in> {KindVM, KindLXC}" "desired_by_kind mt desired k = 0" for k
      using guard_rest [OF gd that] .
    show "mset kept \<subseteq># mset rest" using budget_split [OF b] by (metis mset_subset_eq_add_left)
    show "0 < po_budget opts \<Longrightarrow> int (length kept) \<le> po_budget opts" by (rule budget_length [OF b])
  qed
qed

lemma plan_action_cases:
  assumes "plan_actions mt desired live opts = Inr p" "a \<in> set (pl_actions p)"
  obtains (desired) r where "r \<in> set desired" "action_for mt opts (the_live live) r a" "\<not> ac_prune a" "ac_tier a = 0"
    | (prune) res where "res \<in> set (lv_listing (the_live live))" "prunable mt opts (the_live live) desired res"
        "a = prune_action (the_live live) res"
proof -
  from plan_actions_parts [OF assms(1)] obtain as kept rest where
    "pl_actions p = go_isort action_less (as @ kept)"
    "\<And>a. a \<in> set as \<Longrightarrow> \<exists>r\<in>set desired. action_for mt opts (the_live live) r a"
    "mset kept + mset (pl_deferred p) = mset (all_candidates mt opts (the_live live) desired)" by metis
  with assms(2) mset_split_sets [of kept] have
    "(\<exists>r\<in>set desired. action_for mt opts (the_live live) r a) \<or>
     a \<in> set (all_candidates mt opts (the_live live) desired)" by auto
  with that show thesis by (auto simp: all_candidates_def dest: action_for_not_prune)
qed

text \<open>The prunes of a plan, kept and deferred, are exactly the prunable objects of the listing.\<close>

lemma plan_prune_parts:
  assumes "plan_actions mt desired live opts = Inr p"
  obtains rest where
    "mset (filter ac_prune (pl_actions p)) + mset (pl_deferred p) = mset (all_candidates mt opts (the_live live) desired)"
    "mset (filter ac_prune (pl_actions p)) \<subseteq># mset rest"
    "\<And>k. k \<in> {KindVM, KindLXC} \<Longrightarrow> desired_by_kind mt desired k = 0 \<Longrightarrow>
       int (kind_candidates rest k) \<le> max 0 (po_budget opts)"
    "0 < po_budget opts \<Longrightarrow> int (length (filter ac_prune (pl_actions p))) \<le> po_budget opts"
proof -
  obtain as kept rest where parts:
    "pl_actions p = go_isort action_less (as @ kept)"
    "\<And>a. a \<in> set as \<Longrightarrow> \<exists>r\<in>set desired. action_for mt opts (the_live live) r a"
    "mset kept + mset (pl_deferred p) = mset (all_candidates mt opts (the_live live) desired)"
    "\<And>k. k \<in> {KindVM, KindLXC} \<Longrightarrow> desired_by_kind mt desired k = 0 \<Longrightarrow>
       int (kind_candidates rest k) \<le> max 0 (po_budget opts)"
    "mset kept \<subseteq># mset rest" "0 < po_budget opts \<Longrightarrow> int (length kept) \<le> po_budget opts"
    using plan_actions_parts [OF assms] by metis
  have "filter ac_prune as = []"
    using parts(2) action_for_not_prune by (fastforce simp: filter_empty_conv)
  moreover have "filter ac_prune kept = kept"
    using mset_split_sets [OF parts(3)] all_candidates_facts(3) by (fastforce simp: filter_id_conv)
  ultimately have "filter_mset ac_prune (mset (as @ kept)) = mset kept"
    by (simp only: mset_filter [symmetric] filter_append append_Nil)
  then have eq: "mset (filter ac_prune (pl_actions p)) = mset kept"
    by (simp add: parts(1))
  then have "length (filter ac_prune (pl_actions p)) = length kept" by (metis size_mset)
  with eq parts(3-6) that show thesis by simp
qed

section \<open>Order\<close>

text \<open>The coarse key: tier, then for tier 0 the dependency level.\<close>

definition plan_key :: "action \<Rightarrow> int \<times> int" where
  "plan_key a = (ac_tier a, if ac_tier a = 0 then ac_level a else 0)"

lemma plan_sorted_key:
  assumes "plan_actions mt desired live opts = Inr p"
  shows "sorted (map plan_key (pl_actions p))"
proof -
  obtain as where "pl_actions p = go_isort action_less as" using plan_actions_parts [OF assms] by metis
  moreover have "sorted (map plan_key (go_isort action_less as))"
    by (rule go_isort_key_sorted) (auto simp: action_less_def plan_key_def split: if_splits)
  ultimately show ?thesis by simp
qed

end
