(* ===== verification/Live.thy ===== *)
theory Live
  imports Plan_Facts
begin

text \<open>
  \<^verbatim>\<open>plan.LoadLive\<close>: the planner's view of PVE, read object by object.  The loops thread the
  inventory and the client; a failed read of one object never fails the whole.
\<close>

section \<open>One guest\<close>

definition set_config :: "string \<Rightarrow> config \<Rightarrow> live_inventory \<Rightarrow> live_inventory" where
  "set_config k c lv = lv\<lparr>lv_configs := put k c (lv_configs lv)\<rparr>"

definition set_power :: "string \<Rightarrow> string \<Rightarrow> live_inventory \<Rightarrow> live_inventory" where
  "set_power k s lv = lv\<lparr>lv_power := put k s (lv_power lv)\<rparr>"

definition read_error :: "go_err \<Rightarrow> string" where
  "read_error e = ''read-error: '' @ err_text e"

text \<open>\<^verbatim>\<open>case schema.KindVM\<close>.\<close>

definition load_vm :: "env \<Rightarrow> ctx \<Rightarrow> string \<Rightarrow> int \<Rightarrow> live_inventory \<times> client \<Rightarrow> live_inventory \<times> client" where
  "load_vm env cx node i s =
     (let (lv, cl) = s; key = key_for node KindVM i
      in case vm_get env cx node i cl of
           (Inl e, cl) \<Rightarrow> ((if is_not_found e then lv else set_power key (read_error e) lv), cl)
         | (Inr cfg, cl) \<Rightarrow>
             (let lv = set_config key (Some cfg) lv;
                  (st, cl) = vm_get_status env cx node i cl;
                  lv = (case st of Inr v \<Rightarrow> set_power key (normalize_power (vs_status v)) lv | Inl _ \<Rightarrow> lv);
                  lv = (if is_pve_template (Some cfg)
                         then (set_config (key_for node KindTemplateVM i) (Some cfg) lv)
                                \<lparr>lv_template_keys := put (node @ ''|q'' @ itoa i) (cfg_str (Some cfg) ''name'')
                                   (lv_template_keys lv)\<rparr>
                         else lv)
              in (lv, cl)))"

text \<open>\<^verbatim>\<open>case schema.KindLXC\<close>.\<close>

definition load_lxc :: "env \<Rightarrow> ctx \<Rightarrow> string \<Rightarrow> int \<Rightarrow> live_inventory \<times> client \<Rightarrow> live_inventory \<times> client" where
  "load_lxc env cx node i s =
     (let (lv, cl) = s; key = key_for node KindLXC i
      in case lxc_get env cx node i cl of
           (Inl e, cl) \<Rightarrow> ((if is_not_found e then lv else set_power key (read_error e) lv), cl)
         | (Inr cfg, cl) \<Rightarrow>
             (let lv = set_config key (Some cfg) lv;
                  (st, cl) = lxc_get_status env cx node i cl;
                  lv = (case st of Inr v \<Rightarrow> set_power key (normalize_power (ls_status v)) lv | Inl _ \<Rightarrow> lv);
                  lv = (if is_pve_template (Some cfg)
                         then set_config (key_for node KindTemplateCT i) (Some cfg) lv else lv)
              in (lv, cl)))"

definition load_object ::
    "env \<Rightarrow> ctx \<Rightarrow> string list \<Rightarrow> cluster_resource \<Rightarrow> live_inventory \<times> client \<Rightarrow> live_inventory \<times> client" where
  "load_object env cx allow res s =
     (let node = cr_node res; i = cr_vmid res; k = normalize_kind (cr_type res)
      in if node = [] \<or> i \<le> 0 \<or> cr_type res = [] then s
         else if \<not> node_allowed allow node then s
         else if k = KindVM then load_vm env cx node i s
         else if k = KindLXC then load_lxc env cx node i s
         else s)"

section \<open>One artifact\<close>

definition load_artifact_node ::
    "env \<Rightarrow> ctx \<Rightarrow> kind \<Rightarrow> string \<times> string \<times> string \<Rightarrow> string \<Rightarrow> live_inventory \<times> client \<Rightarrow> live_inventory \<times> client" where
  "load_artifact_node env cx k st node s =
     (let (lv, cl) = s; (content, storage, filename) = st; key = artifact_key node storage filename k
      in if live_present lv key then s
         else (case has_content env cx node storage content filename cl of
                 (Inl e, cl) \<Rightarrow> (set_power key (read_error e) lv, cl)
               | (Inr has, cl) \<Rightarrow> (set_config key (Some [(''present'', PBool has)]) lv, cl)))"

definition load_artifact ::
    "env \<Rightarrow> ctx \<Rightarrow> 'r methods \<Rightarrow> 'r \<Rightarrow> live_inventory \<times> client \<Rightarrow> live_inventory \<times> client" where
  "load_artifact env cx mt r s =
     (let k = ref_kind (m_ref mt r); st = m_storage mt r
      in if \<not> artifact_kind k \<or> fst st = [] then s
         else fold (load_artifact_node env cx k st) (m_nodes mt r) s)"

section \<open>LoadLive\<close>

definition load_live :: "env \<Rightarrow> ctx \<Rightarrow> 'r methods \<Rightarrow> 'r list \<Rightarrow> string list \<Rightarrow> live_inventory io" where
  "load_live env cx mt desired allow =
     io_bind (io_wrap (\<lambda>e. EWrap ''cluster resources: '' e []) (cluster_resources env cx))
       (\<lambda>listing cl.
          case fold (load_object env cx allow) listing (empty_inventory\<lparr>lv_listing := listing\<rparr>, cl) of
            (lv, cl) \<Rightarrow> (case fold (load_artifact env cx mt) desired (lv, cl) of
                            (lv, cl) \<Rightarrow> (Inr lv, cl)))"

section \<open>What loading sends\<close>

text \<open>The requests of a load: the cluster listing, allowed nodes, and the nodes the artifacts declare.\<close>

definition live_request :: "string list \<Rightarrow> string list \<Rightarrow> string \<Rightarrow> string \<Rightarrow> (string \<times> string) list \<Rightarrow> bool" where
  "live_request allow art_nodes m p f \<longleftrightarrow> m = ''GET'' \<and> f = [] \<and>
     (p = ''/cluster/resources?'' \<or>
      (\<exists>n q. p = ''nodes/'' @ n @ ''/'' @ q \<and> (node_allowed allow n \<or> n \<in> set art_nodes)))"

definition artifact_node_list :: "'r methods \<Rightarrow> 'r list \<Rightarrow> string list" where
  "artifact_node_list mt desired =
     concat (map (m_nodes mt) (filter (\<lambda>r. artifact_kind (ref_kind (m_ref mt r))) desired))"

text \<open>A step on inventory and client whose requests satisfy \<open>P\<close>.\<close>

definition step_sends :: "(string \<Rightarrow> string \<Rightarrow> (string \<times> string) list \<Rightarrow> bool) \<Rightarrow> ('i \<times> client \<Rightarrow> 'i \<times> client) \<Rightarrow> bool" where
  "step_sends P f \<longleftrightarrow> (\<forall>lv cl. extends (is_api_request cl P) cl (snd (f (lv, cl))))"

lemma step_sends_after:
  assumes "extends (is_api_request cl P) cl cl1" "step_sends P f"
  shows "extends (is_api_request cl P) cl (snd (f (lv, cl1)))"
  using assms is_api_request_extends [OF assms(1)] by (metis extends_trans step_sends_def)

lemma step_sends_fold: "(\<And>x. x \<in> set xs \<Longrightarrow> step_sends P (f x)) \<Longrightarrow> step_sends P (fold f xs)"
proof (induction xs)
  case (Cons x xs)
  show ?case unfolding step_sends_def
  proof (intro allI)
    fix lv cl
    obtain lv1 cl1 where s: "f x (lv, cl) = (lv1, cl1)" by fastforce
    have "extends (is_api_request cl P) cl cl1"
      using Cons.prems [of x] s by (auto simp: step_sends_def dest!: spec [of _ lv] spec [of _ cl])
    then show "extends (is_api_request cl P) cl (snd (fold f (x # xs) (lv, cl)))"
      using Cons by (simp add: s step_sends_after)
  qed
qed (simp add: step_sends_def)

lemma sends_pair: "sends P m \<Longrightarrow> m cl = (r, cl1) \<Longrightarrow> extends (is_api_request cl P) cl cl1"
  by (metis sends_def snd_conv)

lemma live_request_get:
  assumes "path = ''nodes/'' @ node @ ''/'' @ q" "node_allowed allow node \<or> node \<in> set ns"
  shows "sends (live_request allow ns) (api_get env cx nd path dec zero)"
  by (rule sends_mono [OF sends_get]) (use assms in \<open>auto simp: live_request_def\<close>)

lemma guest_reads:
  assumes "node_allowed allow node"
  shows "sends (live_request allow ns) (vm_get env cx node i)" "sends (live_request allow ns) (vm_get_status env cx node i)"
    "sends (live_request allow ns) (lxc_get env cx node i)" "sends (live_request allow ns) (lxc_get_status env cx node i)"
  using assms
  by (auto simp: vm_get_def vm_get_status_def lxc_get_def lxc_get_status_def vm_base_def lxc_base_def
      intro!: live_request_get)

lemma load_vm_sends:
  assumes "node_allowed allow node"
  shows "step_sends (live_request allow ns) (load_vm env cx node i)"
  unfolding step_sends_def
proof (intro allI)
  fix lv :: live_inventory and cl
  obtain r cl1 where g: "vm_get env cx node i cl = (r, cl1)" by fastforce
  note e1 = sends_pair [OF guest_reads(1) [OF assms] g, of ns]
  obtain st cl2 where s: "vm_get_status env cx node i cl1 = (st, cl2)" by fastforce
  have e2: "extends (is_api_request cl (live_request allow ns)) cl cl2"
    using sends_seq [OF e1 guest_reads(2) [OF assms]] s by (metis snd_conv)
  from g s e1 e2 show "extends (is_api_request cl (live_request allow ns)) cl (snd (load_vm env cx node i (lv, cl)))"
    by (cases r) (simp_all add: load_vm_def Let_def)
qed

lemma load_lxc_sends:
  assumes "node_allowed allow node"
  shows "step_sends (live_request allow ns) (load_lxc env cx node i)"
  unfolding step_sends_def
proof (intro allI)
  fix lv :: live_inventory and cl
  obtain r cl1 where g: "lxc_get env cx node i cl = (r, cl1)" by fastforce
  note e1 = sends_pair [OF guest_reads(3) [OF assms] g, of ns]
  obtain st cl2 where s: "lxc_get_status env cx node i cl1 = (st, cl2)" by fastforce
  have e2: "extends (is_api_request cl (live_request allow ns)) cl cl2"
    using sends_seq [OF e1 guest_reads(4) [OF assms]] s by (metis snd_conv)
  from g s e1 e2 show "extends (is_api_request cl (live_request allow ns)) cl (snd (load_lxc env cx node i (lv, cl)))"
    by (cases r) (simp_all add: load_lxc_def Let_def)
qed

lemma load_object_sends: "step_sends (live_request allow ns) (load_object env cx allow res)"
  using load_vm_sends [of allow "cr_node res" ns env cx] load_lxc_sends [of allow "cr_node res" ns env cx]
  by (simp add: load_object_def step_sends_def Let_def)

lemma has_content_sends:
  "node \<in> set ns \<Longrightarrow> sends (live_request allow ns) (has_content env cx node storage content fn)"
  unfolding has_content_def storage_content_def
  by (intro sends_bind sends_return live_request_get [where node = node]) auto

lemma load_artifact_node_sends:
  assumes "node \<in> set ns"
  shows "step_sends (live_request allow ns) (load_artifact_node env cx k st node)"
  unfolding step_sends_def
proof (intro allI)
  fix lv :: live_inventory and cl
  obtain content storage filename where st: "st = (content, storage, filename)" by (metis prod_cases3)
  obtain r cl1 where h: "has_content env cx node storage content filename cl = (r, cl1)" by fastforce
  from st h sends_pair [OF has_content_sends [OF assms] h, of allow]
  show "extends (is_api_request cl (live_request allow ns)) cl (snd (load_artifact_node env cx k st node (lv, cl)))"
    by (cases r) (simp_all add: load_artifact_node_def Let_def)
qed

lemma load_artifact_sends:
  assumes "r \<in> set desired"
  shows "step_sends (live_request allow (artifact_node_list mt desired)) (load_artifact env cx mt r)"
proof (cases "artifact_kind (ref_kind (m_ref mt r))")
  case True
  have "step_sends (live_request allow (artifact_node_list mt desired))
          (fold (load_artifact_node env cx (ref_kind (m_ref mt r)) (m_storage mt r)) (m_nodes mt r))"
    by (rule step_sends_fold, rule load_artifact_node_sends) (use assms True in \<open>auto simp: artifact_node_list_def\<close>)
  then show ?thesis by (simp add: load_artifact_def step_sends_def Let_def)
next
  case False
  then show ?thesis by (simp add: load_artifact_def step_sends_def Let_def)
qed

lemma load_live_sends:
  "sends (live_request allow (artifact_node_list mt desired)) (load_live env cx mt desired allow)"
  unfolding load_live_def
proof (rule sends_bind)
  let ?P = "live_request allow (artifact_node_list mt desired)"
  have "sends ?P (cluster_resources env cx)"
    unfolding cluster_resources_def by (rule sends_mono [OF sends_get]) (auto simp: live_request_def)
  then show "sends ?P (io_wrap (\<lambda>e. EWrap ''cluster resources: '' e []) (cluster_resources env cx))"
    by (rule sends_wrap)
  fix listing
  have 1: "step_sends ?P (fold (load_object env cx allow) listing)"
    by (rule step_sends_fold) (rule load_object_sends)
  have 2: "step_sends ?P (fold (load_artifact env cx mt) desired)"
    by (rule step_sends_fold) (rule load_artifact_sends)
  show "sends ?P (\<lambda>cl. case fold (load_object env cx allow) listing (empty_inventory\<lparr>lv_listing := listing\<rparr>, cl) of
            (lv, cl) \<Rightarrow> (case fold (load_artifact env cx mt) desired (lv, cl) of
                            (lv, cl) \<Rightarrow> (Inr lv, cl)))"
    unfolding sends_def
  proof
    fix cl
    obtain lv1 cl1 where s1: "fold (load_object env cx allow) listing (empty_inventory\<lparr>lv_listing := listing\<rparr>, cl) = (lv1, cl1)"
      by fastforce
    obtain lv2 cl2 where s2: "fold (load_artifact env cx mt) desired (lv1, cl1) = (lv2, cl2)" by fastforce
    have e1: "extends (is_api_request cl ?P) cl cl1"
      using 1 s1 unfolding step_sends_def by (metis snd_conv)
    have "extends (is_api_request cl ?P) cl cl2"
      using step_sends_after [OF e1 2, of lv1] s2 by simp
    then show "extends (is_api_request cl ?P) cl (snd (case fold (load_object env cx allow) listing
         (empty_inventory\<lparr>lv_listing := listing\<rparr>, cl) of (lv, cl) \<Rightarrow>
           (case fold (load_artifact env cx mt) desired (lv, cl) of (lv, cl) \<Rightarrow> (Inr lv, cl))))"
      by (simp add: s1 s2)
  qed
qed

text \<open>A guest whose configuration cannot be read is not in the inventory.\<close>

lemma load_vm_unread:
  "vm_get env cx node i cl = (Inl e, cl1) \<Longrightarrow> lv_configs (fst (load_vm env cx node i (lv, cl))) = lv_configs lv"
  by (simp add: load_vm_def set_power_def)

end
