(* ===== verification/Plan_Props.thy ===== *)
theory Plan_Props
  imports Plan_Facts
begin

text \<open>
  The planner's properties, each with a concrete plan on which it says something.
\<close>

section \<open>Example\<close>

text \<open>A cluster for the examples: two tagged VMs and an untagged one that git does not mention.\<close>

definition ex_resource :: "int \<Rightarrow> cluster_resource" where
  "ex_resource i = \<lparr>cr_node = ''n1'', cr_vmid = i, cr_type = ''qemu'', cr_kind = [], cr_status = [],
                    cr_name = [], cr_tags = [], cr_pool = []\<rparr>"

definition ex_config :: "string \<Rightarrow> config" where
  "ex_config tags = Some [(''name'', PStr ''old''), (''tags'', PStr tags)]"

definition ex_live :: live_inventory where
  "ex_live = \<lparr>lv_configs = [(''n1|VM|100'', ex_config ''proxops''), (''n1|VM|101'', ex_config ''web,proxops''),
                             (''n1|VM|102'', ex_config ''web'')],
              lv_power = [(''n1|VM|100'', ''running'')],
              lv_listing = [ex_resource 100, ex_resource 101, ex_resource 102], lv_template_keys = []\<rparr>"

definition ex_opts :: "int \<Rightarrow> plan_options" where
  "ex_opts b = \<lparr>po_budget = b, po_levels = None, po_edges = None, po_allow = [''n1'']\<rparr>"

definition ex_iso :: art where
  "ex_iso = AISO (new_iso\<lparr>ar_metadata := \<lparr>md_name = ''deb'', md_namespace = [], md_labels = [], md_annotations = []\<rparr>,
      ar_spec := \<lparr>as_node = ''n1'', as_nodes = [], as_storage = ''local'', as_filename = ''deb.iso'',
                 as_url = ''https://x/deb.iso'', as_checksum = \<lparr>ck_algorithm = [], ck_value = []\<rparr>\<rparr>\<rparr>)"

definition ex_plan :: "string + plan" where
  "ex_plan = plan_actions art_methods [ex_iso] (Some (ex_live\<lparr>lv_configs := (''n1|ISO|local:deb.iso'',
       Some [(''present'', PBool False)]) # lv_configs ex_live\<rparr>)) (ex_opts 3)"

lemma ex_plan_ok:
  "plan_actions art_methods [ex_iso] (Some (ex_live\<lparr>lv_configs := (''n1|ISO|local:deb.iso'',
       Some [(''present'', PBool False)]) # lv_configs ex_live\<rparr>)) (ex_opts 3) = Inr (projr ex_plan)"
proof -
  have "\<not> isl ex_plan" by code_simp
  then show ?thesis unfolding ex_plan_def by (cases "plan_actions art_methods [ex_iso] (Some (ex_live\<lparr>lv_configs := (''n1|ISO|local:deb.iso'',
       Some [(''present'', PBool False)]) # lv_configs ex_live\<rparr>)) (ex_opts 3)") auto
qed

text \<open>The same cluster with nothing desired and a budget of one.\<close>

definition ex_mass :: "string + plan" where
  "ex_mass = plan_actions art_methods [] (Some ex_live) (ex_opts 1)"

lemma ex_mass_ok: "plan_actions art_methods [] (Some ex_live) (ex_opts 1) = Inr (projr ex_mass)"
proof -
  have "\<not> isl ex_mass" by code_simp
  then show ?thesis unfolding ex_mass_def by (cases "plan_actions art_methods [] (Some ex_live) (ex_opts 1)") auto
qed

text \<open>One desired VM, id 100, as an example of a guest; \<open>c\<close> is what its drift says.\<close>

definition ex_guest :: "bool \<Rightarrow> unit methods" where
  "ex_guest c =
     \<lparr>m_validate = (\<lambda>_. None), m_filled = (\<lambda>r. r), m_ref = (\<lambda>_. mk_ref KindVM ''web''), m_node = (\<lambda>_. ''n1''), m_nodes = (\<lambda>_. [''n1'']),
      m_id = (\<lambda>_. 100), m_state = (\<lambda>_. ''started''), m_params = (\<lambda>_. Inr [(''name'', PStr ''web'')]),
      m_drift = (\<lambda>_ cfg. if c then (Some [(''memory'', PStr ''2048'')], True, True) else (None, False, False)),
      m_anomalies = (\<lambda>_ _. []), m_deps = (\<lambda>_. []), m_metadata = (\<lambda>_. empty_metadata),
      m_clone = (\<lambda>_. None), m_storage = (\<lambda>_. ([], [], []))\<rparr>"

definition ex_vm :: "bool \<Rightarrow> string + plan" where
  "ex_vm c = plan_actions (ex_guest c) [()] (Some ex_live) (ex_opts 1)"

lemma ex_vm_ok: "plan_actions (ex_guest True) [()] (Some ex_live) (ex_opts 1) = Inr (projr (ex_vm True))"
proof -
  have "\<not> isl (ex_vm True)" by code_simp
  then show ?thesis
    unfolding ex_vm_def by (cases "plan_actions (ex_guest True) [()] (Some ex_live) (ex_opts 1)") auto
qed

section \<open>Order\<close>

text \<open>
  A plan is ordered by tier, and creates, updates and power changes by dependency level within
  it, so no action precedes one of a lower level.
\<close>

theorem plan_order:
  "plan_actions mt desired live opts = Inr p \<Longrightarrow> sorted (map plan_key (pl_actions p))"
  by (rule plan_sorted_key)

theorem plan_order_witness:
  "map plan_key (pl_actions (projr ex_plan)) = [(0, 0), (9, 0), (9, 0)] \<and>
   sorted (map plan_key (pl_actions (projr ex_plan)))"
  using plan_order [OF ex_plan_ok] by (intro conjI) (code_simp, assumption)

text \<open>
  Deletes come last: behind a prune there are only prunes.
\<close>

theorem plan_prunes_last:
  assumes "plan_actions mt desired live opts = Inr p" "i < j" "j < length (pl_actions p)"
    and "ac_prune (pl_actions p ! i)"
  shows "ac_prune (pl_actions p ! j)"
proof (rule ccontr)
  assume no: "\<not> ac_prune (pl_actions p ! j)"
  have "pl_actions p ! j \<in> set (pl_actions p)" "pl_actions p ! i \<in> set (pl_actions p)" using assms by auto
  note c = plan_action_cases [OF assms(1) this(1)] plan_action_cases [OF assms(1) this(2)]
  have "ac_tier (pl_actions p ! j) = 0" by (rule c(1)) (use no in \<open>auto simp: prune_action_def Let_def\<close>)
  moreover have "ac_tier (pl_actions p ! i) = 9" by (rule c(2)) (use assms(4) in \<open>auto simp: prune_action_def Let_def\<close>)
  moreover have "plan_key (pl_actions p ! i) \<le> plan_key (pl_actions p ! j)"
    using plan_sorted_key [OF assms(1)] assms(2,3) by (simp add: sorted_iff_nth_mono)
  ultimately show False by (simp add: plan_key_def)
qed

theorem plan_prunes_last_witness: "ac_prune (pl_actions (projr ex_plan) ! 2)"
proof (rule plan_prunes_last [OF ex_plan_ok, of 1 2])
  show "2 < length (pl_actions (projr ex_plan))" by code_simp
  show "ac_prune (pl_actions (projr ex_plan) ! 1)" by code_simp
qed simp

section \<open>Safety of prunes\<close>

text \<open>
  C1: a delete is planned only for a listed guest on an allowed node whose configuration was read
  and carries the ownership tag, and which no desired resource claims by id or by name.
\<close>

theorem plan_prune_safe:
  assumes "plan_actions mt desired (Some live) opts = Inr p" "a \<in> set (pl_actions p)" "ac_what a = Delete"
  shows "\<exists>res\<in>set (lv_listing live). ac_node a = cr_node res \<and> ac_id a = cr_vmid res \<and>
     ac_kind a = normalize_kind (cr_type res) \<and> ac_kind a \<in> {KindVM, KindLXC} \<and>
     node_allowed (po_allow opts) (ac_node a) \<and>
     (\<exists>cfg. live_config live (key_for (ac_node a) (ac_kind a) (ac_id a)) = Some cfg \<and>
            has_tag (Some cfg) ownership_tag \<and>
            kind_ref (ac_kind a) (Some cfg) \<notin> set (desired_set mt desired)) \<and>
     key_for (ac_node a) (ac_kind a) (ac_id a) \<notin> set (desired_set mt desired)"
  using assms(1,2)
proof (cases rule: plan_action_cases)
  case (desired r)
  then show ?thesis using action_for_not_prune [OF desired(2)] assms(3) by simp
next
  case (prune res)
  then show ?thesis
    by (intro bexI [of _ res]) (auto simp: prune_action_def prunable_def the_live_def Let_def)
qed

theorem plan_prune_safe_witness:
  "\<exists>a\<in>set (pl_actions (projr ex_plan)). ac_what a = Delete \<and> node_allowed [''n1''] (ac_node a)"
proof -
  have "pl_actions (projr ex_plan) ! 1 \<in> set (pl_actions (projr ex_plan))"
    by (rule nth_mem) code_simp
  moreover have "ac_what (pl_actions (projr ex_plan) ! 1) = Delete" by code_simp
  ultimately show ?thesis
    using plan_prune_safe [OF ex_plan_ok] by (auto simp: ex_opts_def)
qed

definition listed_kind :: "kind \<Rightarrow> kind" where
  "listed_kind k = (if k = KindTemplateVM then KindVM else if k = KindTemplateCT then KindLXC else k)"

text \<open>
  C7: a desired guest is never deleted, whatever PVE reports: no delete has its node and id under
  the kind PVE lists it as, and none has its kind and, as the name in the live configuration, its name.
\<close>

theorem plan_spares_desired:
  assumes "plan_actions mt desired live opts = Inr p" "r \<in> set desired"
    and "\<not> artifact_kind (ref_kind (m_ref mt r))" "a \<in> set (pl_actions p)" "ac_what a = Delete"
  shows "\<not> (ac_node a = m_node mt r \<and> ac_id a = m_id mt r \<and> ac_kind a = listed_kind (ref_kind (m_ref mt r))) \<and>
    \<not> (ac_kind a = ref_kind (m_ref mt r) \<and> ac_name a = ref_name (m_ref mt r)) \<and>
    ac_name a = cfg_str (live_config (the_live live) (key_for (ac_node a) (ac_kind a) (ac_id a))) ''name''"
  using assms(1,4)
proof (cases rule: plan_action_cases)
  case (desired r)
  then show ?thesis using action_for_not_prune [OF desired(2)] assms(5) by simp
next
  case (prune res)
  have "set (desired_keys_of mt r) \<subseteq> set (desired_set mt desired)"
    using assms(2) by (auto simp: desired_set_def)
  moreover have "key_for (m_node mt r) (listed_kind (ref_kind (m_ref mt r))) (m_id mt r) \<in> set (desired_keys_of mt r)"
    "ref_str (m_ref mt r) \<in> set (desired_keys_of mt r)"
    using assms(3) by (simp_all add: desired_keys_of_def listed_kind_def Let_def)
  ultimately show ?thesis
    using prune by (auto simp: prune_action_def prunable_def kind_ref_def ref_str_def Let_def)
qed

theorem plan_spares_desired_witness:
  "\<exists>a\<in>set (pl_actions (projr (ex_vm True))). ac_what a = Delete \<and> ac_name a = ''old'' \<and> 
     \<not> (ac_node a = ''n1'' \<and> ac_id a = 100 \<and> ac_kind a = KindVM) \<and> \<not> (ac_kind a = KindVM \<and> ac_name a = ''web'')"
proof -
  let ?a = "pl_actions (projr (ex_vm True)) ! 1"
  have a: "?a \<in> set (pl_actions (projr (ex_vm True)))" by (rule nth_mem) code_simp
  have d: "ac_what ?a = Delete" by code_simp
  have n: "ac_name ?a = ''old''" by code_simp
  have k: "\<not> artifact_kind (ref_kind (m_ref (ex_guest True) ()))" by code_simp
  have l: "listed_kind (ref_kind (m_ref (ex_guest True) ())) = KindVM" by code_simp
  from plan_spares_desired [OF ex_vm_ok _ k a d] a d n show ?thesis
    by (intro bexI [of _ ?a]) (simp_all add: l, simp add: ex_guest_def mk_ref_def)
qed

text \<open>
  PVE shows the name of a container as \<^verbatim>\<open>hostname\<close>: the protection by name does not reach it.
\<close>

lemma container_name_unprotected:
  "kind_ref KindLXC (Some [(''hostname'', PStr ''web''), (''tags'', PStr ''proxops'')]) = ''LXC/''"
  by code_simp

section \<open>How many prunes\<close>

text \<open>
  A positive prune budget is respected, and the prunes over it or held back by the guard are
  not lost: kept and deferred prunes together are exactly the prunable objects of the listing.
\<close>

theorem plan_budget:
  assumes "plan_actions mt desired (Some live) opts = Inr p"
  shows "(0 < po_budget opts \<longrightarrow> int (length (filter ac_prune (pl_actions p))) \<le> po_budget opts) \<and>
         mset (filter ac_prune (pl_actions p)) + mset (pl_deferred p) =
         mset (map (prune_action live) (filter (prunable mt opts live desired) (lv_listing live)))"
  using plan_prune_parts [OF assms] by (metis all_candidates_def the_live_def option.case(2))

theorem plan_budget_witness:
  "int (length (filter ac_prune (pl_actions (projr (ex_vm True))))) \<le> 1 \<and>
   mset (filter ac_prune (pl_actions (projr (ex_vm True)))) + mset (pl_deferred (projr (ex_vm True))) =
   mset (map (prune_action ex_live) (filter (prunable (ex_guest True) (ex_opts 1) ex_live [()]) (lv_listing ex_live)))"
  using plan_budget [OF ex_vm_ok] by (simp add: ex_opts_def)

text \<open>The guard's part in a plan.\<close>

lemma plan_guard_parts:
  assumes "plan_actions mt desired live opts = Inr p"
  obtains an held rest where
    "prune_guard mt opts desired (all_candidates mt opts (the_live live) desired) = (an, held, rest)"
    "pl_anomaly p = an" "set (filter ac_prune (pl_actions p)) \<subseteq> set rest"
    "mset held \<subseteq># mset (pl_deferred p)"
proof -
  let ?live = "the_live live"
  from assms obtain p0 where p0: "plan_desired mt opts ?live desired empty_plan = Inr p0"
    and p: "p = (plan_prunes mt opts ?live desired p0)
                  \<lparr>pl_actions := go_isort action_less (pl_actions (plan_prunes mt opts ?live desired p0))\<rparr>"
    by (auto simp: plan_actions_def the_live_def Let_def split: sum.splits)
  note g = plan_desired_grows [OF p0]
  obtain an held rest where gd:
    "prune_guard mt opts desired (all_candidates mt opts ?live desired) = (an, held, rest)" by (metis prod_cases3)
  obtain kept over where b: "apply_budget (po_budget opts) rest = (kept, over)" by fastforce
  have pp: "plan_prunes mt opts ?live desired p0 =
      p0\<lparr>pl_actions := pl_actions p0 @ kept,
         pl_skipped := pl_skipped p0 @ prune_skips (map (prune_verdict mt opts ?live desired) (lv_listing ?live)),
         pl_deferred := pl_deferred p0 @ held @ over, pl_anomaly := an\<rparr>"
    using gd b by (simp add: plan_prunes_def Let_def prune_candidates_eq all_candidates_def)
  have "\<not> ac_prune a" if "a \<in> set (pl_actions p0)" for a
    using g that action_for_not_prune by (fastforce simp: grows_def empty_plan_def list_all_iff)
  then have "set (filter ac_prune (pl_actions p)) \<subseteq> set kept" by (auto simp: p pp)
  moreover have "set kept \<subseteq> set rest" using mset_split_sets [OF budget_split [OF b]] by blast
  ultimately have "set (filter ac_prune (pl_actions p)) \<subseteq> set rest" by blast
  moreover have "mset held \<subseteq># mset (pl_deferred p)" by (simp add: p pp ac_simps)
  moreover have "pl_anomaly p = an" by (simp add: p pp)
  ultimately show thesis using gd that by blast
qed

lemma join_with_member: "x \<in> set xs \<Longrightarrow> \<exists>pre post. join_with sep xs = pre @ x @ post"
proof (induction sep xs rule: join_with.induct)
  case (2 sep y)
  then have "join_with sep [y] = [] @ x @ []" by simp
  then show ?case by blast
next
  case (3 sep y z ys)
  show ?case
  proof (cases "x = y")
    case True
    then have "join_with sep (y # z # ys) = [] @ x @ sep @ join_with sep (z # ys)" by simp
    then show ?thesis by blast
  next
    case False
    with 3 obtain pre post where "join_with sep (z # ys) = pre @ x @ post" by auto
    then have "join_with sep (y # z # ys) = (y @ sep @ pre) @ x @ post" by simp
    then show ?thesis by blast
  qed
qed simp

lemma guard_suppresses:
  assumes "prune_guard mt opts desired cands = (an, held, rest)" "k \<in> {KindVM, KindLXC}"
    "desired_by_kind mt desired k = 0" "po_budget opts < int (kind_candidates cands k)"
  shows "filter (\<lambda>a. ac_kind a = k) held = filter (\<lambda>a. ac_kind a = k) cands"
    "\<forall>a\<in>set rest. ac_kind a \<noteq> k" "\<exists>pre post. an = pre @ anomaly_part opts cands k @ post"
proof -
  define ks where "ks = filter (suppressed mt opts desired cands) [KindVM, KindLXC]"
  have k: "k \<in> set ks" using assms(2-4) unfolding ks_def set_filter list.set suppressed_def by blast
  have eqs: "an = join_with ''; '' (map (anomaly_part opts cands) ks)"
    "held = filter (\<lambda>a. ac_kind a \<in> set ks) cands" "rest = filter (\<lambda>a. ac_kind a \<notin> set ks) cands"
    using assms(1) by (simp_all add: prune_guard_def ks_def Let_def del: filter.simps)
  show "filter (\<lambda>a. ac_kind a = k) held = filter (\<lambda>a. ac_kind a = k) cands"
    using k unfolding eqs(2) filter_filter by (intro filter_cong) auto
  show "\<forall>a\<in>set rest. ac_kind a \<noteq> k" using k by (auto simp: eqs(3))
  from k show "\<exists>pre post. an = pre @ anomaly_part opts cands k @ post"
    unfolding eqs(1) by (intro join_with_member) simp
qed

text \<open>
  C9: when nothing of a guest kind is desired but more tagged live guests of that kind than the
  budget would be pruned, none of them is deleted: all of them are among the deferred prunes, and
  the plan's anomaly says how many there are and that the prunes of this kind are suppressed.
\<close>

theorem plan_empty_desired_guard:
  assumes "plan_actions mt desired (Some live) opts = Inr p" "k \<in> {KindVM, KindLXC}"
    and "\<And>r. r \<in> set desired \<Longrightarrow> ref_kind (m_ref mt r) \<noteq> k"
    and "cands = map (prune_action live) (filter (prunable mt opts live desired) (lv_listing live))"
    and "po_budget opts < int (kind_candidates cands k)"
  shows "(\<forall>a\<in>set (pl_actions p). ac_what a = Delete \<longrightarrow> ac_kind a \<noteq> k) \<and>
    (\<exists>pre post. pl_anomaly p = pre @ anomaly_part opts cands k @ post) \<and>
    filter_mset (\<lambda>a. ac_kind a = k) (mset (pl_deferred p)) = filter_mset (\<lambda>a. ac_kind a = k) (mset cands)"
proof -
  have cands: "all_candidates mt opts (the_live (Some live)) desired = cands"
    by (simp add: assms(4) all_candidates_def the_live_def)
  have none: "desired_by_kind mt desired k = 0" using assms(3) by (auto simp: desired_by_kind_def filter_empty_conv)
  from plan_guard_parts [OF assms(1)] obtain an held rest where
    g: "prune_guard mt opts desired cands = (an, held, rest)" "pl_anomaly p = an"
      "set (filter ac_prune (pl_actions p)) \<subseteq> set rest" "mset held \<subseteq># mset (pl_deferred p)"
    unfolding cands by metis
  note s = guard_suppresses [OF g(1) assms(2) none assms(5)]
  have no: "ac_kind a \<noteq> k" if a: "a \<in> set (pl_actions p)" "ac_prune a" for a
    using g(3) s(2) a by auto
  have del: "ac_prune a" if "a \<in> set (pl_actions p)" "ac_what a = Delete" for a
    using assms(1) that(1)
  proof (cases rule: plan_action_cases)
    case (desired r)
    then show ?thesis using action_for_not_prune [OF desired(2)] that(2) by simp
  qed (simp add: prune_action_def Let_def)
  have eq: "mset (filter ac_prune (pl_actions p)) + mset (pl_deferred p) = mset cands"
    using plan_prune_parts [OF assms(1)] unfolding cands by metis
  have "filter_mset (\<lambda>a. ac_kind a = k) (mset (filter ac_prune (pl_actions p))) = {#}"
    using no by (auto simp: filter_mset_eq_conv filter_empty_conv simp flip: mset_filter)
  then have "filter_mset (\<lambda>a. ac_kind a = k) (mset (pl_deferred p)) = filter_mset (\<lambda>a. ac_kind a = k) (mset cands)"
    using eq by (metis add_0 filter_union_mset)
  with no del s(3) g(2) show ?thesis by blast
qed

theorem plan_empty_desired_guard_witness:
  "pl_actions (projr ex_mass) = [] \<and> pl_deferred (projr ex_mass) \<noteq> [] \<and>
   (\<exists>pre post. pl_anomaly (projr ex_mass) = pre @ ''0 desired VM but 2 proxops-tagged live objects'' @ post)"
proof -
  let ?c = "map (prune_action ex_live) (filter (prunable art_methods (ex_opts 1) ex_live []) (lv_listing ex_live))"
  have n: "po_budget (ex_opts 1) < int (kind_candidates ?c KindVM)" by code_simp
  from plan_empty_desired_guard [OF ex_mass_ok _ _ refl n]
  obtain pre post where "pl_anomaly (projr ex_mass) = pre @ anomaly_part (ex_opts 1) ?c KindVM @ post" by auto
  moreover have "\<exists>q. anomaly_part (ex_opts 1) ?c KindVM = ''0 desired VM but 2 proxops-tagged live objects'' @ q"
  proof
    show "anomaly_part (ex_opts 1) ?c KindVM = ''0 desired VM but 2 proxops-tagged live objects'' @
      '' (more than the per-cycle prune budget of 1): probable bad push; suppresses prunes for VM this cycle''" by code_simp
  qed
  ultimately have "\<exists>pre post. pl_anomaly (projr ex_mass) = pre @ ''0 desired VM but 2 proxops-tagged live objects'' @ post"
    by (metis append.assoc)
  moreover have "pl_actions (projr ex_mass) = []" "pl_deferred (projr ex_mass) \<noteq> []" by code_simp+
  ultimately show ?thesis by blast
qed

section \<open>Every difference is planned\<close>

text \<open>Pass A works through all desired resources and only adds to the plan.\<close>

lemma pl_actions_add [simp]:
  "pl_actions (add_action a p) = pl_actions p @ [a]" "pl_actions (add_anomaly a p) = pl_actions p"
  "pl_actions (add_skipped a p) = pl_actions p"
  by (simp_all add: add_action_def add_anomaly_def add_skipped_def)

lemma pl_actions_anomalies [simp]: "pl_actions (fold (\<lambda>m. add_anomaly (f m)) ms p) = pl_actions p"
  by (induction ms arbitrary: p) auto

lemma plan_existing_actions:
  assumes "m_drift mt r (live_config live (key_for (m_node mt r) (ref_kind (m_ref mt r)) (m_id mt r))) = (u, sf, ch)"
  shows "\<exists>us ps. pl_actions (plan_existing mt opts live r q) = pl_actions q @ us @ ps \<and>
     map ac_what us = (if ch then [Update] else []) \<and> (\<forall>a\<in>set us. ac_params a = u \<and> ac_stop_first a = sf) \<and>
     map ac_what ps = (case power_desired_to_live (m_state mt r)
        (live_power live (key_for (m_node mt r) (ref_kind (m_ref mt r)) (m_id mt r))) of None \<Rightarrow> [] | Some w \<Rightarrow> [w]) \<and>
     (\<forall>a\<in>set (us @ ps). ac_ref a = m_ref mt r)"
proof -
  let ?up = "(res_action mt opts r Update)\<lparr>ac_params := u, ac_stop_first := sf,
       ac_reason := ref_str (m_ref mt r) @ '': config drift'' @ (if sf then '' (stop-required)'' else []),
       ac_live_power := live_power live (key_for (m_node mt r) (ref_kind (m_ref mt r)) (m_id mt r)),
       ac_desired_power := m_state mt r\<rparr>"
  let ?pw = "\<lambda>w. (res_action mt opts r w)\<lparr>ac_reason := power_reason (m_ref mt r)
         (live_power live (key_for (m_node mt r) (ref_kind (m_ref mt r)) (m_id mt r))) (m_state mt r),
       ac_live_power := live_power live (key_for (m_node mt r) (ref_kind (m_ref mt r)) (m_id mt r)),
       ac_desired_power := m_state mt r\<rparr>"
  show ?thesis
    by (rule exI [of _ "if ch then [?up] else []"],
        rule exI [of _ "case power_desired_to_live (m_state mt r)
          (live_power live (key_for (m_node mt r) (ref_kind (m_ref mt r)) (m_id mt r))) of None \<Rightarrow> [] | Some w \<Rightarrow> [?pw w]"])
      (simp add: plan_existing_def Let_def assms split: option.split)
qed

text \<open>Everything \<open>q\<close> plans, reports or skips is in \<open>p\<close>.\<close>

definition within_plan :: "plan \<Rightarrow> plan \<Rightarrow> bool" where
  "within_plan q p \<longleftrightarrow> set (pl_actions q) \<subseteq> set (pl_actions p) \<and> set (pl_anomalies q) \<subseteq> set (pl_anomalies p) \<and>
     set (pl_skipped q) \<subseteq> set (pl_skipped p)"

lemma within_plan_refl [simp]: "within_plan p p"
  by (simp add: within_plan_def)

lemma within_plan_trans [trans]: "within_plan a b \<Longrightarrow> within_plan b c \<Longrightarrow> within_plan a c"
  by (auto simp: within_plan_def)

lemma grows_within: "grows P Q S p p' \<Longrightarrow> within_plan p p'"
  by (auto simp: grows_def within_plan_def)

lemma plan_desired_within:
  "r \<in> set rs \<Longrightarrow> plan_desired mt opts live rs p = Inr p' \<Longrightarrow>
   \<exists>q q'. plan_resource mt opts live r q = Inr q' \<and> within_plan q' p'"
proof (induction rs arbitrary: p)
  case (Cons x rs)
  then obtain p1 where p1: "plan_resource mt opts live x p = Inr p1" "plan_desired mt opts live rs p1 = Inr p'"
    by (auto split: sum.splits)
  show ?case
  proof (cases "r = x")
    case True
    with p1 grows_within [OF plan_desired_grows [OF p1(2)]] show ?thesis by blast
  next
    case False
    with Cons p1(2) show ?thesis by auto
  qed
qed simp

lemma plan_actions_within:
  assumes "plan_actions mt desired (Some live) opts = Inr p" "r \<in> set desired"
  obtains q q' where "plan_resource mt opts live r q = Inr q'" "within_plan q' p"
proof -
  from assms(1) obtain p0 where p0: "plan_desired mt opts live desired empty_plan = Inr p0"
    and p: "p = (plan_prunes mt opts live desired p0)
                  \<lparr>pl_actions := go_isort action_less (pl_actions (plan_prunes mt opts live desired p0))\<rparr>"
    by (auto simp: plan_actions_def Let_def split: sum.splits)
  have "within_plan p0 p"
    by (auto simp: p plan_prunes_def within_plan_def Let_def split: prod.splits)
  with plan_desired_within [OF assms(2) p0] that show thesis by (blast intro: within_plan_trans)
qed

text \<open>An anomaly, or an action of the given sort, on exactly this guest.\<close>

definition anomaly_reported :: "'r methods \<Rightarrow> 'r \<Rightarrow> string \<Rightarrow> plan \<Rightarrow> bool" where
  "anomaly_reported mt r text p \<longleftrightarrow>
     (\<exists>a\<in>set (pl_anomalies p). ac_ref a = m_ref mt r \<and> ac_node a = m_node mt r \<and> ac_id a = m_id mt r \<and>
        ac_anomaly a \<and> ac_reason a = ref_str (m_ref mt r) @ text)"

definition acted :: "'r methods \<Rightarrow> 'r \<Rightarrow> action_kind \<Rightarrow> plan \<Rightarrow> (action \<Rightarrow> bool) \<Rightarrow> bool" where
  "acted mt r what p P \<longleftrightarrow>
     (\<exists>a\<in>set (pl_actions p). ac_ref a = m_ref mt r \<and> ac_node a = m_node mt r \<and> ac_id a = m_id mt r \<and>
        ac_what a = what \<and> P a)"

text \<open>
  The plan's answer to a desired guest.  One that is not live under its kind is created with its
  parameters, or marked as a template when its id is live as an ordinary guest; a live template in
  the place of an ordinary guest is reported; on any other live guest a drift is updated, each
  anomaly reported, and a power difference switched.
\<close>

definition guest_answered :: "'r methods \<Rightarrow> live_inventory \<Rightarrow> plan \<Rightarrow> 'r \<Rightarrow> bool" where
  "guest_answered mt live p r \<longleftrightarrow>
     (let kt = ref_kind (m_ref mt r); key = key_for (m_node mt r) kt (m_id mt r); cfg = live_config live key;
          (upd, stop_first, changed) = m_drift mt r cfg
      in if \<not> live_present live key
         then if mark_key mt live r = None
              then acted mt r Create p (\<lambda>a. m_params mt r = Inr (the (ac_params a)) \<and> ac_params a \<noteq> None)
              else acted mt r MarkTemplate p (\<lambda>a. True)
         else if (kt = KindVM \<or> kt = KindLXC) \<and> is_pve_template cfg then anomaly_reported mt r (untemplate_hint kt) p
         else (changed \<longrightarrow> acted mt r Update p (\<lambda>a. ac_params a = upd \<and> ac_stop_first a = stop_first)) \<and>
              (\<forall>msg\<in>set (m_anomalies mt r cfg). anomaly_reported mt r ('': '' @ msg) p) \<and>
              (\<forall>w. power_desired_to_live (m_state mt r) (live_power live key) = Some w \<longrightarrow> acted mt r w p (\<lambda>a. True)))"

text \<open>
  The plan's answer to a desired artifact.  Without parameters it is skipped with the error; on each
  of its nodes it is skipped with a reason when the node's inventory was not read, and downloaded when
  its drift says so.
\<close>

definition unreadable_text :: "kind \<Rightarrow> string \<Rightarrow> string \<Rightarrow> string" where
  "unreadable_text k storage filename =
     k @ '' live inventory unreadable this cycle; skipping download of '' @ storage @ ''/'' @ filename"

definition skipped_with :: "'r methods \<Rightarrow> 'r \<Rightarrow> string \<Rightarrow> string \<Rightarrow> plan \<Rightarrow> bool" where
  "skipped_with mt r node why p \<longleftrightarrow>
     (\<exists>a\<in>set (pl_skipped p). ac_kind a = ref_kind (m_ref mt r) \<and> ac_name a = ref_name (m_ref mt r) \<and>
        ac_node a = node \<and> ac_what a = StatusOnly \<and> ac_reason a = why)"

definition artifact_answered :: "'r methods \<Rightarrow> live_inventory \<Rightarrow> plan \<Rightarrow> 'r \<Rightarrow> bool" where
  "artifact_answered mt live p r \<longleftrightarrow>
     (case m_params mt r of
        Inl e \<Rightarrow> skipped_with mt r (m_node mt r) (ref_str (m_ref mt r) @ '': create params: '' @ e) p
      | Inr params \<Rightarrow>
          (case m_storage mt r of (content, storage, filename) \<Rightarrow>
            \<forall>node\<in>set (m_nodes mt r).
              (let cur = live_config live (artifact_key node storage filename (ref_kind (m_ref mt r)))
               in if cur = None then skipped_with mt r node (unreadable_text (ref_kind (m_ref mt r)) storage filename) p
                  else snd (snd (m_drift mt r cur)) \<longrightarrow>
                    (\<exists>a\<in>set (pl_actions p). ac_ref a = m_ref mt r \<and> ac_node a = node \<and> ac_what a = Create \<and>
                       ac_params a = Some params))))"

lemma answered_within:
  assumes "within_plan q p"
  shows "guest_answered mt live q r \<Longrightarrow> guest_answered mt live p r"
    "artifact_answered mt live q r \<Longrightarrow> artifact_answered mt live p r"
proof -
  have 1: "anomaly_reported mt r t q \<Longrightarrow> anomaly_reported mt r t p" for t using assms by (auto simp: anomaly_reported_def within_plan_def)
  have 2: "acted mt r w q P \<Longrightarrow> acted mt r w p P" for w P using assms by (auto simp: acted_def within_plan_def)
  have 3: "skipped_with mt r n w q \<Longrightarrow> skipped_with mt r n w p" for n w
    using assms by (auto simp: skipped_with_def within_plan_def)
  show "guest_answered mt live q r \<Longrightarrow> guest_answered mt live p r"
    using 1 2 unfolding guest_answered_def Let_def
    by (auto split: prod.splits)
  show "artifact_answered mt live q r \<Longrightarrow> artifact_answered mt live p r"
    using 3 assms unfolding artifact_answered_def within_plan_def
    by (cases "m_params mt r"; cases "m_storage mt r") (fastforce simp: Let_def split: if_splits)+
qed

lemma fold_anomalies:
  "pl_anomalies (fold (\<lambda>m. add_anomaly (f m)) ms p) = pl_anomalies p @ map f ms"
  by (induction ms arbitrary: p) (auto simp: add_anomaly_def)

lemma pl_anomalies_add [simp]:
  "pl_anomalies (add_action a p) = pl_anomalies p" "pl_anomalies (add_anomaly a p) = pl_anomalies p @ [a]"
  by (simp_all add: add_action_def add_anomaly_def)

lemma res_action_fields [simp]:
  "ac_ref (res_action mt opts r w) = m_ref mt r" "ac_node (res_action mt opts r w) = m_node mt r"
  "ac_id (res_action mt opts r w) = m_id mt r" "ac_what (res_action mt opts r w) = w"
  by (simp_all add: res_action_def Let_def zero_action_def)

lemma plan_existing_answered:
  assumes "live_present live (key_for (m_node mt r) (ref_kind (m_ref mt r)) (m_id mt r))"
    "\<not> ((ref_kind (m_ref mt r) = KindVM \<or> ref_kind (m_ref mt r) = KindLXC) \<and>
        is_pve_template (live_config live (key_for (m_node mt r) (ref_kind (m_ref mt r)) (m_id mt r))))"
  shows "guest_answered mt live (plan_existing mt opts live r q) r"
proof -
  obtain u sf ch where d: "m_drift mt r (live_config live (key_for (m_node mt r) (ref_kind (m_ref mt r)) (m_id mt r))) = (u, sf, ch)"
    by (metis prod_cases3)
  have "(ch \<longrightarrow> acted mt r Update (plan_existing mt opts live r q) (\<lambda>a. ac_params a = u \<and> ac_stop_first a = sf))"
    by (auto simp: plan_existing_def Let_def d acted_def split: option.split)
  moreover have "anomaly_reported mt r ('': '' @ msg) (plan_existing mt opts live r q)"
    if "msg \<in> set (m_anomalies mt r (live_config live (key_for (m_node mt r) (ref_kind (m_ref mt r)) (m_id mt r))))" for msg
  proof -
    let ?a = "(res_action mt opts r Anomaly)\<lparr>ac_reason := ref_str (m_ref mt r) @ '': '' @ msg, ac_anomaly := True\<rparr>"
    have "?a \<in> set (pl_anomalies (plan_existing mt opts live r q))"
      using that by (simp add: plan_existing_def Let_def d fold_anomalies split: option.split)
    then show ?thesis unfolding anomaly_reported_def by (rule bexI [rotated]) simp
  qed
  moreover have "acted mt r w (plan_existing mt opts live r q) (\<lambda>a. True)"
    if "power_desired_to_live (m_state mt r) (live_power live (key_for (m_node mt r) (ref_kind (m_ref mt r)) (m_id mt r))) = Some w" for w
    using that by (auto simp: plan_existing_def Let_def d acted_def)
  ultimately show ?thesis
    using assms by (auto simp: guest_answered_def Let_def d)
qed

lemma plan_create_answered:
  assumes "plan_create mt opts r q = Inr q'"
  shows "acted mt r Create q' (\<lambda>a. m_params mt r = Inr (the (ac_params a)) \<and> ac_params a \<noteq> None)"
  using assms by (auto simp: plan_create_def acted_def Let_def split: sum.splits)

lemma plan_guest_answered:
  assumes "plan_resource mt opts live r q = Inr q'" "\<not> artifact_kind (ref_kind (m_ref mt r))"
  shows "guest_answered mt live q' r"
proof -
  let ?k = "ref_kind (m_ref mt r)"
  let ?key = "key_for (m_node mt r) ?k (m_id mt r)"
  show ?thesis
  proof (cases "live_present live ?key")
    case False
    show ?thesis
    proof (cases "mark_key mt live r")
      case None
      with False assms have "plan_create mt opts r q = Inr q'" by (simp add: plan_resource_def Let_def)
      from plan_create_answered [OF this] False None show ?thesis
        by (simp add: guest_answered_def Let_def split: prod.split)
    next
      case (Some mk)
      with False assms show ?thesis
        by (auto simp: plan_resource_def guest_answered_def acted_def Let_def split: prod.split)
    qed
  next
    case True
    show ?thesis
    proof (cases "(?k = KindVM \<or> ?k = KindLXC) \<and> is_pve_template (live_config live ?key)")
      case t: True
      with True assms have "anomaly_reported mt r (untemplate_hint ?k) q'"
        by (auto simp: plan_resource_def anomaly_reported_def Let_def)
      with t True show ?thesis by (auto simp: guest_answered_def Let_def split: prod.split)
    next
      case t: False
      with True assms have "q' = plan_existing mt opts live r q"
        by (auto simp: plan_resource_def Let_def split: if_splits)
      with plan_existing_answered [OF True t] show ?thesis by simp
    qed
  qed
qed

lemma plan_node_within: "within_plan p (plan_artifact_node mt r live lvl params node p)"
  by (auto simp: plan_artifact_node_def within_plan_def add_skipped_def add_action_def Let_def split: prod.split)

lemma fold_within: "(\<And>x p. within_plan p (f x p)) \<Longrightarrow> within_plan p (fold f xs p)"
  by (induction xs arbitrary: p) (auto intro: within_plan_trans)

lemma fold_reaches: "(\<And>x p. within_plan p (f x p)) \<Longrightarrow> x \<in> set xs \<Longrightarrow> \<exists>q. within_plan (f x q) (fold f xs p)"
proof (induction xs arbitrary: p)
  case (Cons y xs)
  show ?case
  proof (cases "x = y")
    case True
    with fold_within [of f, OF Cons.prems(1)] show ?thesis by auto
  qed (use Cons in auto)
qed simp

lemma plan_node_answered:
  assumes "m_storage mt r = (content, storage, filename)"
    "cur = live_config live (artifact_key node storage filename (ref_kind (m_ref mt r)))"
    "within_plan (plan_artifact_node mt r live lvl params node q) p"
  shows "if cur = None then skipped_with mt r node (unreadable_text (ref_kind (m_ref mt r)) storage filename) p
     else snd (snd (m_drift mt r cur)) \<longrightarrow>
       (\<exists>a\<in>set (pl_actions p). ac_ref a = m_ref mt r \<and> ac_node a = node \<and> ac_what a = Create \<and> ac_params a = Some params)"
proof (cases "cur = None")
  case True
  let ?a = "(zero_action StatusOnly)\<lparr>ac_kind := ref_kind (m_ref mt r), ac_name := ref_name (m_ref mt r),
     ac_node := node, ac_level := lvl, ac_reason := unreadable_text (ref_kind (m_ref mt r)) storage filename\<rparr>"
  have "plan_artifact_node mt r live lvl params node q = add_skipped ?a q"
    using True assms(1,2) by (simp add: plan_artifact_node_def unreadable_text_def Let_def)
  with assms(3) have "?a \<in> set (pl_skipped p)" by (auto simp: within_plan_def add_skipped_def)
  then have "skipped_with mt r node (unreadable_text (ref_kind (m_ref mt r)) storage filename) p"
    unfolding skipped_with_def by (rule bexI [rotated]) (simp add: zero_action_def)
  with True show ?thesis by simp
next
  case False
  let ?k = "ref_kind (m_ref mt r)"
  let ?a = "(zero_action Create)\<lparr>ac_tier := 0, ac_kind := ?k, ac_name := ref_name (m_ref mt r),
                ac_node := node, ac_id := 0, ac_level := lvl, ac_ref := m_ref mt r, ac_params := Some params,
                ac_reason := ?k @ '' '' @ filename @ '' not present on storage '' @ storage @ '' on '' @ node @
                  ''; will download''\<rparr>"
  have "?a \<in> set (pl_actions p)" if "snd (snd (m_drift mt r cur))"
  proof -
    have "plan_artifact_node mt r live lvl params node q = add_action ?a q"
      using False that unfolding plan_artifact_node_def Let_def assms(1,2) prod.case by (simp del: not_None_eq)
    with assms(3) show ?thesis by (auto simp: within_plan_def)
  qed
  moreover have "ac_ref ?a = m_ref mt r \<and> ac_node ?a = node \<and> ac_what ?a = Create \<and> ac_params ?a = Some params"
    by (simp add: zero_action_def)
  ultimately show ?thesis using False by meson
qed

lemma plan_artifact_answered: "artifact_answered mt live (plan_artifact mt r live opts q) r"
proof (cases "m_params mt r")
  case (Inl e)
  then show ?thesis
    by (auto simp: artifact_answered_def plan_artifact_def skipped_with_def add_skipped_def zero_action_def Let_def)
next
  case (Inr params)
  obtain content storage filename where st: "m_storage mt r = (content, storage, filename)" by (metis prod_cases3)
  let ?lvl = "opt_level opts (m_ref mt r)"
  have eq: "plan_artifact mt r live opts q = fold (plan_artifact_node mt r live ?lvl params) (m_nodes mt r) q"
    using Inr by (simp add: plan_artifact_def Let_def)
  have "let cur = live_config live (artifact_key node storage filename (ref_kind (m_ref mt r)))
     in if cur = None then skipped_with mt r node (unreadable_text (ref_kind (m_ref mt r)) storage filename) (plan_artifact mt r live opts q)
        else snd (snd (m_drift mt r cur)) \<longrightarrow>
         (\<exists>a\<in>set (pl_actions (plan_artifact mt r live opts q)). ac_ref a = m_ref mt r \<and> ac_node a = node \<and>
            ac_what a = Create \<and> ac_params a = Some params)"
    if n: "node \<in> set (m_nodes mt r)" for node
  proof -
    obtain q0 where "within_plan (plan_artifact_node mt r live ?lvl params node q0) (plan_artifact mt r live opts q)"
      using fold_reaches [of "plan_artifact_node mt r live ?lvl params", OF plan_node_within n] unfolding eq by blast
    from plan_node_answered [OF st refl this] show ?thesis by (simp only: Let_def)
  qed
  with Inr st show ?thesis by (simp add: artifact_answered_def)
qed

text \<open>
  C14: every resource git asks for is answered by a plan: a guest that is missing by a create or a
  template mark, a live one by an update with exactly the drift's parameters, an anomaly for each
  message and a start or stop for a power difference, an artifact on each of its nodes by a download
  or a skip that names the reason.
\<close>

theorem plan_covers:
  assumes "plan_actions mt desired (Some live) opts = Inr p" "r \<in> set desired"
  shows "if artifact_kind (ref_kind (m_ref mt r)) then artifact_answered mt live p r
         else guest_answered mt live p r"
proof (rule plan_actions_within [OF assms])
  fix q q'
  assume q: "plan_resource mt opts live r q = Inr q'" "within_plan q' p"
  show ?thesis
  proof (cases "artifact_kind (ref_kind (m_ref mt r))")
    case True
    with q(1) have "q' = plan_artifact mt r live opts q" by (simp add: plan_resource_def Let_def)
    with plan_artifact_answered [of mt live r opts q] answered_within(2) [OF q(2)] True show ?thesis by simp
  next
    case False
    with plan_guest_answered [OF q(1)] answered_within(1) [OF q(2)] show ?thesis by simp
  qed
qed

theorem plan_covers_witness:
  "guest_answered (ex_guest True) ex_live (projr (ex_vm True)) () \<and>
   (\<exists>a\<in>set (pl_actions (projr (ex_vm True))). ac_what a = Update \<and> ac_params a = Some [(''memory'', PStr ''2048'')])"
proof -
  have k: "\<not> artifact_kind (ref_kind (m_ref (ex_guest True) ()))" by code_simp
  have l: "live_present ex_live (key_for ''n1'' KindVM 100)" by code_simp
  have t: "\<not> is_pve_template (live_config ex_live (key_for ''n1'' KindVM 100))" by code_simp
  from plan_covers [OF ex_vm_ok, of "()"] k have g: "guest_answered (ex_guest True) ex_live (projr (ex_vm True)) ()" by simp
  moreover from g l t have "acted (ex_guest True) () Update (projr (ex_vm True))
      (\<lambda>a. ac_params a = Some [(''memory'', PStr ''2048'')] \<and> ac_stop_first a = True)"
    by (simp add: guest_answered_def ex_guest_def mk_ref_def Let_def)
  ultimately show ?thesis by (auto simp: acted_def)
qed

section \<open>A settled cluster\<close>

text \<open>A desired resource with nothing left to do.\<close>

definition settled :: "'r methods \<Rightarrow> live_inventory \<Rightarrow> 'r \<Rightarrow> bool" where
  "settled mt live r \<longleftrightarrow>
     (let kt = ref_kind (m_ref mt r); key = key_for (m_node mt r) kt (m_id mt r) in
      if artifact_kind kt
      then (case m_storage mt r of (content, storage, filename) \<Rightarrow>
              \<forall>node\<in>set (m_nodes mt r). cfg_present (live_config live (artifact_key node storage filename kt)))
      else live_present live key \<and> \<not> snd (snd (m_drift mt r (live_config live key))) \<and>
           power_desired_to_live (m_state mt r) (live_power live key) = None)"

lemma artifact_nodes_quiet:
  "(\<And>node q. node \<in> set ns \<Longrightarrow> pl_actions (f node q) = pl_actions q) \<Longrightarrow> pl_actions (fold f ns p) = pl_actions p"
  by (induction ns arbitrary: p) auto

context resource_contract
begin

lemma settled_resource:
  assumes "ok r" "settled mt live r"
  shows "\<exists>p'. plan_resource mt opts live r p = Inr p' \<and> pl_actions p' = pl_actions p"
proof (cases "artifact_kind (ref_kind (m_ref mt r))")
  case True
  obtain content storage filename where st: "m_storage mt r = (content, storage, filename)" by (metis prod_cases3)
  have "pl_actions (plan_artifact_node mt r live lvl q node p) = pl_actions p"
    if "node \<in> set (m_nodes mt r)" for lvl q node p
  proof -
    have "cfg_present (live_config live (artifact_key node storage filename (ref_kind (m_ref mt r))))"
      using assms(2) that True st by (simp add: settled_def Let_def)
    then show ?thesis
      using art_present [OF assms(1) True] st by (simp add: plan_artifact_node_def Let_def)
  qed
  with True show ?thesis
    by (auto simp: plan_resource_def plan_artifact_def Let_def artifact_nodes_quiet split: sum.split)
next
  case False
  let ?key = "key_for (m_node mt r) (ref_kind (m_ref mt r)) (m_id mt r)"
  obtain u sf ch where d: "m_drift mt r (live_config live ?key) = (u, sf, ch)" by (metis prod_cases3)
  with False assms(2) have s: "live_present live ?key" "\<not> ch"
    "power_desired_to_live (m_state mt r) (live_power live ?key) = None"
    by (simp_all add: settled_def Let_def)
  from plan_existing_actions [OF d, of opts p] s have "pl_actions (plan_existing mt opts live r p) = pl_actions p"
    by auto
  with False s(1) show ?thesis by (auto simp: plan_resource_def Let_def)
qed

lemma settled_desired:
  "\<forall>r\<in>set rs. ok r \<and> settled mt live r \<Longrightarrow>
   \<exists>p'. plan_desired mt opts live rs p = Inr p' \<and> pl_actions p' = pl_actions p"
proof (induction rs arbitrary: p)
  case (Cons r rs)
  then obtain p1 where "plan_resource mt opts live r p = Inr p1" "pl_actions p1 = pl_actions p"
    using settled_resource [of r live opts p] by auto
  moreover obtain p' where "plan_desired mt opts live rs p1 = Inr p'" "pl_actions p' = pl_actions p1"
    using Cons by fastforce
  ultimately show ?case by auto
qed simp

lemma settled_plan:
  assumes "\<forall>r\<in>set desired. ok r \<and> settled mt live r"
    and "\<forall>res\<in>set (lv_listing live). \<not> prunable mt opts live desired res"
  shows "\<exists>p. plan_actions mt desired (Some live) opts = Inr p \<and> pl_actions p = [] \<and> pl_deferred p = []"
proof -
  obtain p0 where p0: "plan_desired mt opts live desired empty_plan = Inr p0" "pl_actions p0 = []"
    using settled_desired [OF assms(1), of opts empty_plan] by (auto simp: empty_plan_def)
  obtain p where p: "plan_actions mt desired (Some live) opts = Inr p"
    "pl_actions p = go_isort action_less (pl_actions (plan_prunes mt opts live desired p0))"
    using p0(1) by (simp add: plan_actions_def Let_def)
  have cands: "all_candidates mt opts live desired = []"
    using assms(2) by (auto simp: all_candidates_def filter_empty_conv)
  obtain rest where "mset (filter ac_prune (pl_actions p)) + mset (pl_deferred p) = mset (all_candidates mt opts live desired)"
    using plan_prune_parts [OF p(1)] by (metis the_live_def option.case(2))
  then have "pl_deferred p = []" "filter ac_prune (pl_actions p) = []" by (simp_all add: cands)
  moreover have "pl_actions (plan_prunes mt opts live desired p0) = []"
    using p0(2) cands
    by (simp add: plan_prunes_def prune_candidates_eq all_candidates_def prune_guard_def apply_budget_def Let_def)
  ultimately show ?thesis using p by auto
qed

end

text \<open>
  A settled cluster stays untouched.  When the desired artifacts are present on all their nodes and no
  tagged object is left over, the plan for them has no actions and defers nothing.
\<close>

theorem plan_artifacts_settled:
  assumes "\<forall>r\<in>set desired. art_kind_ok r \<and> settled art_methods live r"
    and "\<forall>res\<in>set (lv_listing live). \<not> prunable art_methods opts live desired res"
  shows "\<exists>p. plan_actions art_methods desired (Some live) opts = Inr p \<and> pl_actions p = [] \<and> pl_deferred p = []"
  using assms by (rule art.settled_plan)

definition ex_settled :: live_inventory where
  "ex_settled = \<lparr>lv_configs = [(''n1|ISO|local:deb.iso'', Some [(''present'', PBool True)]), (''n1|VM|102'', ex_config ''web'')],
                 lv_power = [], lv_listing = [ex_resource 102], lv_template_keys = []\<rparr>"

theorem plan_artifacts_settled_witness:
  "\<exists>p. plan_actions art_methods [ex_iso] (Some ex_settled) (ex_opts 3) = Inr p \<and> pl_actions p = [] \<and> pl_deferred p = []"
proof (rule plan_artifacts_settled)
  have "art_kind_ok ex_iso \<and> settled art_methods ex_settled ex_iso" by code_simp
  then show "\<forall>r\<in>set [ex_iso]. art_kind_ok r \<and> settled art_methods ex_settled r" by simp
  have "\<not> prunable art_methods (ex_opts 3) ex_settled [ex_iso] (ex_resource 102)" by code_simp
  then show "\<forall>res\<in>set (lv_listing ex_settled). \<not> prunable art_methods (ex_opts 3) ex_settled [ex_iso] res"
    by (simp add: ex_settled_def)
qed

section \<open>The comparison of the final sort\<close>

text \<open>
  \<^verbatim>\<open>MarkTemplate\<close> is missing from \<^verbatim>\<open>whatRank\<close>, so the comparison handed to
  \<^verbatim>\<open>sort.SliceStable\<close> is not a strict weak order: a create on node b, a template mark on node a or b
  and a create on node a form a chain in which neighbours are not ordered but the ends are.
\<close>

theorem action_less_not_weak_order: "\<not> weak_order action_less"
proof
  assume w: "weak_order action_less"
  let ?c1 = "(zero_action Create)\<lparr>ac_node := ''a''\<rparr>" and ?c2 = "(zero_action Create)\<lparr>ac_node := ''b''\<rparr>"
    and ?m = "(zero_action MarkTemplate)\<lparr>ac_node := ''a''\<rparr>"
  have "\<not> action_less ?c1 ?m" "\<not> action_less ?m ?c2" "action_less ?c1 ?c2" by code_simp+
  with weak_order.negtrans [OF w] show False by blast
qed

end
