(* ===== verification/Pve_Props.thy ===== *)
theory Pve_Props
  imports Live Plan_Props
begin

text \<open>
  The client's properties: the retry bound, what success means, the write breaker, task waits, and
  what the planner's reads touch.
\<close>

section \<open>Examples\<close>

definition ex_client :: client where
  "ex_client =
     \<lparr>c_auth = new_auth \<lparr>pp_user = ''root@pam'', pp_auth = [], pp_token_id = ''t'', pp_token_value = [],
         pp_token = ''s'', pp_password = [], pp_base_url = ''https://pve'', pp_nodes = [], pp_ca_file = []\<rparr> ''https://pve'',
      c_base = ''https://pve'', c_breaker = new_breaker 20 0, c_last_read = None, c_last_write = None, c_writes = 0,
      c_now = 0, c_sent = [], c_draws = 0\<rparr>"

text \<open>The same client with its breaker open until \<open>t\<close>.\<close>

definition ex_tripped :: "int \<Rightarrow> client" where
  "ex_tripped t = ex_client\<lparr>c_breaker := (new_breaker 20 0)\<lparr>b_open := True, b_consec := 20, b_until := t\<rparr>\<rparr>"

text \<open>A server that answers every request alike.\<close>

definition ex_env :: "int \<Rightarrow> json \<Rightarrow> env" where
  "ex_env st data =
     \<lparr>e_reply = (\<lambda>_. Response \<lparr>rs_status = st, rs_body = ''body'', rs_json = Some (JObj [(''data'', data)]),
                               rs_userid = []\<rparr>),
      e_elapse = (\<lambda>_. 1000), e_draw = (\<lambda>_. 1 / 2), e_url_err = (\<lambda>_. None)\<rparr>"

definition ex_call :: "string \<Rightarrow> unit call" where
  "ex_call m = \<lparr>ca_method = m, ca_node = ''n1'', ca_path = ''nodes/n1/qemu'', ca_form = [(''vmid'', ''100'')],
                ca_dec = None, ca_out = ()\<rparr>"

lemma pair_surj: "m = (fst m, snd m)"
  by simp

lemma run_ok: "\<not> isl (fst m) \<Longrightarrow> m = (Inr (projr (fst m)), snd m)"
  by (cases m; cases "fst m") auto

section \<open>Requests\<close>

text \<open>
  C30: one API call costs at most four requests; with ticket authentication each of them may be
  preceded by one ticket exchange.  Everything sent is the call's own request or that exchange, and
  a read does not move the write counter.
\<close>

theorem client_do_bounded:
  assumes "client_do env cx ca cl = (res, cl')"
  shows "(\<exists>new. c_sent cl' = c_sent cl @ new \<and> (\<forall>rq\<in>set new. sends_of cl ca rq) \<and>
            length new \<le> (if au_method (c_auth cl) = ''token'' then 4 else 8)) \<and>
         (\<not> is_write (ca_method ca) \<longrightarrow> c_writes cl' = c_writes cl)"
proof -
  obtain new where new: "c_sent cl' = c_sent cl @ new" "\<forall>rq\<in>set new. sends_of cl ca rq"
    using extends_sent [OF client_do_extends [OF assms]] by blast
  have "length new \<le> 4 * attempt_cost cl"
    using client_do_cost [OF assms] new(1) by (simp add: max_retries_def)
  also have "\<dots> = (if au_method (c_auth cl) = ''token'' then 4 else 8)"
    by (simp add: attempt_cost_def)
  finally show ?thesis using new client_do_writes [OF assms] by blast
qed

theorem client_do_bounded_witness:
  "length (c_sent (snd (client_do (ex_env 503 JNull) background (ex_call ''POST'') ex_client))) = 4 \<and>
   (\<exists>new. c_sent (snd (client_do (ex_env 503 JNull) background (ex_call ''POST'') ex_client)) = new \<and>
     (\<forall>rq\<in>set new. sends_of ex_client (ex_call ''POST'') rq))"
proof
  show "length (c_sent (snd (client_do (ex_env 503 JNull) background (ex_call ''POST'') ex_client))) = 4"
    by code_simp
  have "c_sent ex_client = []" by code_simp
  then show "\<exists>new. c_sent (snd (client_do (ex_env 503 JNull) background (ex_call ''POST'') ex_client)) = new \<and>
     (\<forall>rq\<in>set new. sends_of ex_client (ex_call ''POST'') rq)"
    using client_do_bounded [OF pair_surj [of "client_do (ex_env 503 JNull) background (ex_call ''POST'') ex_client"]]
    by auto
qed

text \<open>
  A call succeeds only when the last answer PVE gave had a 2xx status and an envelope that
  decodes to the result; the breaker is then closed with no failures counted, also when the call was
  a read and the breaker was open for writes.
\<close>

theorem client_do_success:
  assumes "client_do env cx ca cl = (Inr x, cl')"
  shows "\<exists>r. e_reply env (c_sent cl') = Response r \<and> 200 \<le> rs_status r \<and> rs_status r < 300 \<and>
             parse_envelope (ca_dec ca) (ca_out ca) r = Inr x \<and>
             \<not> b_open (c_breaker cl') \<and> b_consec (c_breaker cl') = 0 \<and> c_last_read cl' = Some (c_now cl')"
  using assms by (rule client_do_ok)

theorem client_do_success_witness:
  "b_open (c_breaker (ex_tripped 900)) \<and> c_now (snd (client_do (ex_env 200 JNull) background (ex_call ''GET'') (ex_tripped 900000))) < 900000 \<and>
   \<not> b_open (c_breaker (snd (client_do (ex_env 200 JNull) background (ex_call ''GET'') (ex_tripped 900000))))"
proof (intro conjI)
  show "b_open (c_breaker (ex_tripped 900))" by code_simp
  show "c_now (snd (client_do (ex_env 200 JNull) background (ex_call ''GET'') (ex_tripped 900000))) < 900000"
    by code_simp
  have "\<not> isl (fst (client_do (ex_env 200 JNull) background (ex_call ''GET'') (ex_tripped 900000)))" by code_simp
  from client_do_success [OF run_ok [OF this]]
  show "\<not> b_open (c_breaker (snd (client_do (ex_env 200 JNull) background (ex_call ''GET'') (ex_tripped 900000))))"
    by blast
qed

section \<open>The write breaker\<close>

text \<open>
  While the breaker is open and its time has not passed, a write is refused with
  \<^verbatim>\<open>ErrReadOnly\<close>: nothing is sent and the client does not change.
\<close>

theorem client_do_gated:
  assumes "is_write (ca_method ca)" "b_open (c_breaker cl)" "c_now cl \<le> b_until (c_breaker cl)"
  shows "\<exists>e. client_do env cx ca cl = (Inl e, cl) \<and> is_read_only e"
  using assms by (simp add: client_do_def write_allowed_iff ask_breaker_def breaker_allows_def del: do_loop.simps)

theorem client_do_gated_witness:
  "\<exists>e. client_do (ex_env 200 JNull) background (ex_call ''DELETE'') (ex_tripped 900) = (Inl e, ex_tripped 900) \<and> is_read_only e"
  by (rule client_do_gated) code_simp+

text \<open>
  The breaker of a fresh client keeps its invariant through any run of calls: closed, it has
  fewer than threshold consecutive failures; open, at least that many, and it lets a write try again
  at the latest one duration from now.
\<close>

theorem breaker_safe:
  assumes "breaker_reach (t, new_breaker n d) (t', b)"
  shows "(\<not> b_open b \<longrightarrow> b_consec b < b_threshold b) \<and>
         (b_open b \<longrightarrow> b_threshold b \<le> b_consec b \<and> fst (breaker_allows (t' + b_duration b + 1) b)) \<and>
         b_threshold b = (if n \<le> 0 then 20 else n) \<and> t \<le> t'"
proof -
  have "breaker_inv (t', b)" using breaker_inv_reach [OF assms breaker_inv_new] .
  moreover have "b_threshold b = b_threshold (new_breaker n d) \<and> t \<le> t'" using breaker_config_reach [OF assms] by simp
  ultimately show ?thesis by (auto simp: breaker_inv_def breaker_allows_def new_breaker_def)
qed

theorem breaker_safe_witness:
  "b_open (record_fail 9 (record_fail 5 (new_breaker 2 100))) \<and>
   fst (breaker_allows 110 (record_fail 9 (record_fail 5 (new_breaker 2 100))))"
proof
  show o: "b_open (record_fail 9 (record_fail 5 (new_breaker 2 100)))" by code_simp
  have "breaker_step (0, new_breaker 2 100) (5, record_fail 5 (new_breaker 2 100))"
    by (rule breaker_step.fail) simp
  moreover have "breaker_step (5, record_fail 5 (new_breaker 2 100)) (9, record_fail 9 (record_fail 5 (new_breaker 2 100)))"
    by (rule breaker_step.fail) simp
  ultimately have "breaker_reach (0, new_breaker 2 100) (9, record_fail 9 (record_fail 5 (new_breaker 2 100)))"
    by (blast intro: breaker_reach.intros)
  moreover have "b_duration (record_fail 9 (record_fail 5 (new_breaker 2 100))) = 100" by code_simp
  ultimately show "fst (breaker_allows 110 (record_fail 9 (record_fail 5 (new_breaker 2 100))))"
    using breaker_safe [of 0 2 100 9] o by fastforce
qed

text \<open>
  What a call tells the breaker: each attempt that gets past the authentication is one exchange, with
  the place of its request in the trace and the time of its end, or \<open>Unsent\<close> when the context was
  done before the request went out.
\<close>

datatype exchange = Unsent (ex_at: int) | Answered nat (ex_at: int)

definition answered :: "exchange list \<Rightarrow> nat list" where
  "answered evs = concat (map (\<lambda>e. case e of Unsent t \<Rightarrow> [] | Answered i t \<Rightarrow> [i]) evs)"

text \<open>The answer to the request at place \<open>i\<close> of the trace had a 2xx status.\<close>

definition accepted :: "env \<Rightarrow> http_request list \<Rightarrow> nat \<Rightarrow> bool" where
  "accepted env sent i =
     (case e_reply env (take (Suc i) sent) of Response r \<Rightarrow> 200 \<le> rs_status r \<and> rs_status r < 300 | _ \<Rightarrow> False)"

text \<open>A 2xx answer closes the breaker and clears its count; anything else counts against a write.\<close>

definition record_exchange :: "env \<Rightarrow> 'a call \<Rightarrow> http_request list \<Rightarrow> exchange \<Rightarrow> breaker \<Rightarrow> breaker" where
  "record_exchange env ca sent e b =
     (if (case e of Unsent t \<Rightarrow> False | Answered i t \<Rightarrow> accepted env sent i) then record_ok b
      else if is_write (ca_method ca) then record_fail (ex_at e) b else b)"

text \<open>
  From \<open>cl\<close> to \<open>cl'\<close> the call exchanged \<open>evs\<close>: every request sent on the way is the call's own, at the
  place of one exchange, or the ticket exchange; the times do not go back; and the breaker is what
  the exchanges, recorded one after the other, make of the breaker before.
\<close>

definition tracked :: "env \<Rightarrow> ctx \<Rightarrow> 'a call \<Rightarrow> client \<Rightarrow> exchange list \<Rightarrow> client \<Rightarrow> bool" where
  "tracked env cx ca cl evs cl' \<longleftrightarrow>
     take (length (c_sent cl)) (c_sent cl') = c_sent cl \<and> length (c_sent cl) \<le> length (c_sent cl') \<and>
     sorted_wrt (<) (answered evs) \<and>
     (\<forall>i\<in>set (answered evs). length (c_sent cl) \<le> i \<and> i < length (c_sent cl')) \<and>
     (\<forall>i. length (c_sent cl) \<le> i \<and> i < length (c_sent cl') \<longrightarrow>
        (if i \<in> set (answered evs) then \<exists>hs. c_sent cl' ! i = call_request cl ca hs
         else au_method (c_auth cl) \<noteq> ''token'' \<and> c_sent cl' ! i = ticket_request (c_auth cl))) \<and>
     sorted (map ex_at evs) \<and> (\<forall>e\<in>set evs. c_now cl \<le> ex_at e \<and> ex_at e \<le> c_now cl') \<and>
     (\<forall>t. Unsent t \<in> set evs \<longrightarrow> ctx_done cx t) \<and>
     c_breaker cl' = fold (record_exchange env ca (c_sent cl')) evs (c_breaker cl)"

lemma answered_simps [simp]:
  "answered [] = []" "answered (Unsent t # es) = answered es" "answered (Answered i t # es) = i # answered es"
  "answered (es @ fs) = answered es @ answered fs"
  by (simp_all add: answered_def)








lemma tracked_quiet:
  assumes "extends P a b" "c_breaker b = c_breaker a" "c_sent b = c_sent a \<or>
     au_method (c_auth a) \<noteq> ''token'' \<and> c_sent b = c_sent a @ [ticket_request (c_auth a)]"
  shows "tracked env cx ca a [] b"
  using assms(2,3) by (auto simp: tracked_def less_Suc_eq)







section \<open>Task waits\<close>

text \<open>
  C31: a task wait reports success only for a task it saw stopped with exit status OK or with
  warnings, a failure only for one it saw stopped otherwise, a timeout only after the deadline, and
  it sends nothing but reads.
\<close>

theorem task_wait_sound:
  assumes "task_wait env dl tx iv tid cl = ((s, e), cl')"
  shows "(case e of
            None \<Rightarrow> task_ok s
          | Some (ETaskFailed u msg) \<Rightarrow> u = tid_upid tid \<and> msg \<noteq> [] \<and> task_stopped s \<and> \<not> task_ok s
          | Some (ETaskTimeout u d l) \<Rightarrow> u = tid_upid tid \<and> l = ts_status s \<and> \<not> task_stopped s \<and> dl \<le> c_now cl'
          | Some (ETaskNotFound t) \<Rightarrow> t = tid
          | Some _ \<Rightarrow> False) \<and>
         extends (is_api_request cl get_only) cl cl'"
  using task_wait_outcome [OF assms] task_wait_extends [of cl env dl tx iv tid] assms
  by (simp add: wait_outcome_ok_def)

definition ex_tid :: task_id where "ex_tid = \<lparr>tid_node = ''n1'', tid_upid = ''UPID:n1:1''\<rparr>"

theorem task_wait_sound_witness:
  "snd (fst (task_wait (ex_env 200 (JObj [(''status'', JStr ''stopped''), (''exitstatus'', JStr ''OK'')])) 9000 ''dl'' 5 ex_tid ex_client)) = None \<and>
   task_ok (fst (fst (task_wait (ex_env 200 (JObj [(''status'', JStr ''stopped''), (''exitstatus'', JStr ''OK'')])) 9000 ''dl'' 5 ex_tid ex_client)))"
proof -
  let ?w = "task_wait (ex_env 200 (JObj [(''status'', JStr ''stopped''), (''exitstatus'', JStr ''OK'')])) 9000 ''dl'' 5 ex_tid ex_client"
  have n: "snd (fst ?w) = None" by code_simp
  have "?w = ((fst (fst ?w), snd (fst ?w)), snd ?w)" by simp
  from task_wait_sound [OF this] n show ?thesis by simp
qed

section \<open>Reading PVE\<close>

text \<open>
  Building the live inventory sends GET requests only, and only to the cluster listing, to
  nodes on the allowlist, and to the nodes the desired artifacts declare.
\<close>

theorem load_live_scoped:
  assumes "load_live env cx mt desired allow cl = (res, cl')" "au_method (c_auth cl) = ''token''"
  shows "\<exists>new. c_sent cl' = c_sent cl @ new \<and>
     (\<forall>rq\<in>set new. \<exists>path. rq_url rq = client_url cl path \<and>
        live_request allow (artifact_node_list mt desired) (rq_method rq) path (rq_form rq))"
  using load_live_sends [of allow mt desired env cx] assms
  by (auto simp: sends_def extends_def is_api_request_def dest!: spec [of _ cl])

theorem load_live_scoped_witness:
  "\<exists>new. c_sent (snd (load_live (ex_env 200 (JArr [])) background art_methods [ex_iso] [''n1''] ex_client)) = new \<and> length new = 2 \<and>
     (\<forall>rq\<in>set new. \<exists>path. rq_url rq = client_url ex_client path \<and> rq_method rq = ''GET'')"
proof -
  let ?r = "load_live (ex_env 200 (JArr [])) background art_methods [ex_iso] [''n1''] ex_client"
  have t: "au_method (c_auth ex_client) = ''token''" by code_simp
  have "length (c_sent (snd ?r)) = 2" by code_simp
  moreover have "c_sent ex_client = []" by code_simp
  ultimately show ?thesis
    using load_live_scoped [OF pair_surj [of ?r] t] by (auto simp: live_request_def)
qed

text \<open>
  A VM whose configuration PVE fails to return, for any reason but its absence, is planned for
  creation like one that does not exist: the inventory records the read error only as its power.
\<close>

theorem unreadable_vm_planned_as_create:
  assumes "vm_get env cx (m_node mt r) (m_id mt r) cl = (Inl e, cl1)" "\<not> is_not_found e"
    and "ref_kind (m_ref mt r) = KindVM" "m_clone mt r = None" "m_params mt r = Inr params"
    and "\<not> live_present lv0 (key_for (m_node mt r) KindVM (m_id mt r))"
    and "lv = fst (load_vm env cx (m_node mt r) (m_id mt r) (lv0, cl))"
  shows "live_power lv (key_for (m_node mt r) KindVM (m_id mt r)) = ''read-error: '' @ err_text e \<and>
     (\<exists>p a. plan_resource mt opts lv r empty_plan = Inr p \<and> pl_actions p = [a] \<and> ac_what a = Create \<and>
            ac_id a = m_id mt r \<and> ac_params a = Some params)"
proof -
  have cfg: "lv_configs lv = lv_configs lv0" using assms(1,7) by (simp add: load_vm_unread)
  then have np: "\<not> live_present lv (key_for (m_node mt r) KindVM (m_id mt r))"
    using assms(6) by (simp add: live_present_def)
  have "\<not> artifact_kind KindVM" "KindVM \<noteq> KindTemplateVM" "KindVM \<noteq> KindTemplateCT" by (simp_all add: artifact_kind_def kind_defs)
  with np assms(3-5) show ?thesis
    using assms(1,2,7)
    by (simp add: plan_resource_def mark_key_def plan_create_def clone_part_def load_vm_def set_power_def
        live_power_def read_error_def Let_def empty_plan_def)
qed

theorem unreadable_vm_planned_as_create_witness:
  "\<exists>p a. plan_resource (ex_guest False) (ex_opts 3)
       (fst (load_vm (ex_env 503 JNull) background ''n1'' 100 (empty_inventory, ex_client))) () empty_plan = Inr p \<and>
     pl_actions p = [a] \<and> ac_what a = Create \<and> ac_id a = 100"
proof -
  let ?g = "vm_get (ex_env 503 JNull) background (m_node (ex_guest False) ()) (m_id (ex_guest False) ()) ex_client"
  have "isl (fst ?g)" by code_simp
  then have g: "?g = (Inl (projl (fst ?g)), snd ?g)" by (cases ?g; cases "fst ?g") auto
  have n: "\<not> is_not_found (projl (fst ?g))" by code_simp
  have p: "\<not> live_present empty_inventory (key_for (m_node (ex_guest False) ()) KindVM (m_id (ex_guest False) ()))" by code_simp
  have r: "ref_kind (m_ref (ex_guest False) ()) = KindVM" "m_clone (ex_guest False) () = None"
    "m_params (ex_guest False) () = Inr [(''name'', PStr ''web'')]"
    by (simp_all add: ex_guest_def mk_ref_def)
  from unreadable_vm_planned_as_create [OF g n r p refl, of "ex_opts 3"] show ?thesis
    by (auto simp: ex_guest_def)
qed

end
