(* ===== verification/Exec_Run.thy ===== *)
theory Exec_Run
  imports Exec_Facts Pve_Props
begin

text \<open>
  The executor's properties: what an action may send, that a failed stop ends it, one result per
  action, when a run defers, and what the status store and its counters show afterwards.
\<close>

section \<open>Runs\<close>

text \<open>For each action of a run the prerequisite it was deferred for, if it was.\<close>

fun deferred_by :: "env \<Rightarrow> ctx \<Rightarrow> executor \<Rightarrow> action list \<Rightarrow> fail_key list \<Rightarrow> xstate \<Rightarrow> ref option list" where
  "deferred_by env cx xc [] failed x = []"
| "deferred_by env cx xc (a # as) failed x =
     (let r = run_one env cx xc a failed x
      in blocking_dep a failed # deferred_by env cx xc as (snd (snd r)) (fst (snd r)))"

lemma length_deferred_by [simp]: "length (deferred_by env cx xc as failed x) = length as"
  by (induction as arbitrary: failed x) (simp_all add: Let_def)

lemma exec_execute_fields [simp]:
  "xr_action (fst (exec_execute env cx xc a x)) = a"
  "xr_ok (fst (exec_execute env cx xc a x)) \<longleftrightarrow> xr_err (fst (exec_execute env cx xc a x)) = None"
  by (simp_all add: exec_execute_def Let_def)

lemma run_one_action [simp]: "xr_action (fst (run_one env cx xc a failed x)) = a"
  by (simp add: run_one_def defer_action_def Let_def split: option.splits)

lemma run_loop_actions: "map xr_action (fst (run_loop env cx xc as failed x)) = as"
  by (induction as arbitrary: failed x) (simp_all add: Let_def)

lemma run_loop_length [simp]: "length (fst (run_loop env cx xc as failed x)) = length as"
  using run_loop_actions [of env cx xc as failed x] by (metis length_map)

lemma blocking_dep_iff:
  "blocking_dep a failed \<noteq> None \<longleftrightarrow>
   (\<exists>d\<in>set (ac_deps a). ref_kind d \<noteq> [] \<and> ref_name d \<noteq> [] \<and> (ref_kind d, ref_name d, ac_node a) \<in> set failed)"
  by (auto simp: blocking_dep_def find_None_iff)

text \<open>What a failed, executed action adds to the failed set.\<close>

definition fails_with :: "action \<Rightarrow> exec_result \<Rightarrow> ref option \<Rightarrow> fail_key \<Rightarrow> bool" where
  "fails_with a r b k \<longleftrightarrow> b = None \<and> \<not> xr_ok r \<and> ref_kind (ac_ref a) \<noteq> [] \<and> ref_name (ac_ref a) \<noteq> [] \<and>
     k = (ref_kind (ac_ref a), ref_name (ac_ref a), ac_node a)"

lemma run_one_failed:
  "k \<in> set (snd (snd (run_one env cx xc a failed x))) \<longleftrightarrow>
   k \<in> set failed \<or> fails_with a (fst (run_one env cx xc a failed x)) (blocking_dep a failed) k"
  by (auto simp: run_one_def add_failed_def fails_with_def Let_def split: option.splits)

lemma deferred_by_iff:
  assumes "j < length as"
  shows "deferred_by env cx xc as failed x ! j \<noteq> None \<longleftrightarrow>
    (\<exists>d\<in>set (ac_deps (as ! j)). ref_kind d \<noteq> [] \<and> ref_name d \<noteq> [] \<and>
       ((ref_kind d, ref_name d, ac_node (as ! j)) \<in> set failed \<or>
        (\<exists>i<j. fails_with (as ! i) (fst (run_loop env cx xc as failed x) ! i)
                 (deferred_by env cx xc as failed x ! i) (ref_kind d, ref_name d, ac_node (as ! j)))))"
  using assms
proof (induction as arbitrary: failed x j)
  case (Cons a as)
  show ?case
  proof (cases j)
    case 0
    then show ?thesis using blocking_dep_iff [of a failed] by (simp add: Let_def del: not_None_eq)
  next
    case (Suc m)
    define r where "r = run_one env cx xc a failed x"
    have "m < length as" using Cons.prems Suc by simp
    from Cons.IH [OF this, of "snd (snd r)" "fst (snd r)"] show ?thesis
      by (simp add: Suc Let_def r_def run_one_failed Ex_less_Suc2)
  qed
qed simp

text \<open>The states a run passes through, the first and the last included.\<close>

fun run_states :: "env \<Rightarrow> ctx \<Rightarrow> executor \<Rightarrow> action list \<Rightarrow> fail_key list \<Rightarrow> xstate \<Rightarrow> xstate list" where
  "run_states env cx xc [] failed x = [x]"
| "run_states env cx xc (a # as) failed x =
     x # (let r = run_one env cx xc a failed x in run_states env cx xc as (snd (snd r)) (fst (snd r)))"

lemma length_run_states [simp]: "length (run_states env cx xc as failed x) = Suc (length as)"
  by (induction as arbitrary: failed x) (simp_all add: Let_def)

lemma run_states_first: "run_states env cx xc as failed x ! 0 = x"
  by (cases as) simp_all

lemma run_states_last: "run_states env cx xc as failed x ! length as = snd (run_loop env cx xc as failed x)"
  by (induction as arbitrary: failed x) (simp_all add: Let_def)

text \<open>One turn of the loop, at its place in the run.\<close>

lemma run_turn:
  assumes "j < length as"
  shows "\<exists>fl. fst (run_one env cx xc (as ! j) fl (run_states env cx xc as failed x ! j)) =
                fst (run_loop env cx xc as failed x) ! j \<and>
              fst (snd (run_one env cx xc (as ! j) fl (run_states env cx xc as failed x ! j))) =
                run_states env cx xc as failed x ! Suc j \<and>
              blocking_dep (as ! j) fl = deferred_by env cx xc as failed x ! j"
  using assms
proof (induction as arbitrary: failed x j)
  case (Cons a as)
  show ?case
  proof (cases j)
    case 0
    then show ?thesis by (auto simp: Let_def run_states_first intro: exI [of _ failed])
  next
    case (Suc m)
    with Cons show ?thesis by (simp add: Let_def)
  qed
qed simp

lemma run_one_client:
  "extends (is_api_request (xs_client x) (reads_or (writes_of a))) (xs_client x)
     (xs_client (fst (snd (run_one env cx xc a failed x)))) \<and>
   (blocking_dep a failed \<noteq> None \<longrightarrow> xs_client (fst (snd (run_one env cx xc a failed x))) = xs_client x \<and>
      \<not> xr_ok (fst (run_one env cx xc a failed x)))"
  by (auto simp: run_one_def defer_action_def exec_execute_def Let_def exec_apply_extends split: option.splits)

section \<open>Counters\<close>

definition tally :: "exec_result \<times> ref option \<Rightarrow> cycle \<Rightarrow> cycle" where
  "tally rb c =
     (if snd rb \<noteq> None then c
      else if xr_ok (fst rb)
      then c\<lparr>cy_actions_ok := cy_actions_ok c + 1,
             cy_pruned := cy_pruned c + (if ac_prune (xr_action (fst rb)) then 1 else 0)\<rparr>
      else c\<lparr>cy_actions_error := cy_actions_error c + 1\<rparr>)"

lemma st_last_count_action:
  "st_last s = Some c \<Longrightarrow> xr_action r = a \<Longrightarrow>
   st_last (count_action a (xr_ok r) s) = Some (tally (r, None) c)"
  by (simp add: count_action_def tally_def bump_defs bump_def)

lemma run_one_tally:
  assumes "xs_store x = Some s" "st_last s = Some c"
  shows "\<exists>s'. xs_store (fst (snd (run_one env cx xc a failed x))) = Some s' \<and>
              st_last s' = Some (tally (fst (run_one env cx xc a failed x), blocking_dep a failed) c)"
proof (cases "blocking_dep a failed")
  case None
  let ?r = "fst (exec_execute env cx xc a x)"
  have "st_last (count_action a (xr_ok ?r) (set_object n o2 (set_object m o1 s))) = Some (tally (?r, None) c)" for n m o1 o2
    by (rule st_last_count_action) (simp_all add: assms)
  with None show ?thesis by (simp add: run_one_def exec_execute_def Let_def assms)
qed (simp add: run_one_def defer_action_def Let_def tally_def assms)

lemma run_loop_tally:
  assumes "xs_store x = Some s" "st_last s = Some c"
  shows "\<exists>s'. xs_store (snd (run_loop env cx xc as failed x)) = Some s' \<and>
     st_last s' = Some (fold tally (zip (fst (run_loop env cx xc as failed x)) (deferred_by env cx xc as failed x)) c)"
  using assms
proof (induction as arbitrary: failed x s c)
  case (Cons a as)
  obtain s1 where "xs_store (fst (snd (run_one env cx xc a failed x))) = Some s1"
    "st_last s1 = Some (tally (fst (run_one env cx xc a failed x), blocking_dep a failed) c)"
    using run_one_tally [OF Cons.prems] by blast
  from Cons.IH [OF this] show ?case by (simp add: Let_def)
qed simp

definition executed_ok :: "exec_result \<times> ref option \<Rightarrow> bool" where
  "executed_ok rb \<longleftrightarrow> snd rb = None \<and> xr_ok (fst rb)"

definition executed_bad :: "exec_result \<times> ref option \<Rightarrow> bool" where
  "executed_bad rb \<longleftrightarrow> snd rb = None \<and> \<not> xr_ok (fst rb)"

lemma fold_tally:
  "cy_actions_ok (fold tally rbs c) = cy_actions_ok c + length (filter executed_ok rbs)"
  "cy_actions_error (fold tally rbs c) = cy_actions_error c + length (filter executed_bad rbs)"
  "cy_pruned (fold tally rbs c) =
     cy_pruned c + length (filter (\<lambda>rb. executed_ok rb \<and> ac_prune (xr_action (fst rb))) rbs)"
  "cy_prune_deferred (fold tally rbs c) = cy_prune_deferred c"
  by (induction rbs arbitrary: c) (simp_all add: tally_def executed_ok_def executed_bad_def)

lemma record_deferred_last:
  "st_last s = Some c \<Longrightarrow>
   st_last (record_deferred now as s) = Some (c\<lparr>cy_prune_deferred := cy_prune_deferred c + length as\<rparr>)"
  by (induction as arbitrary: s c) (simp_all add: record_deferred_def bump_defs bump_def)

text \<open>Every result is counted once, as done or as failed, unless it was deferred.\<close>

lemma length_executed:
  "length rs = length bs \<Longrightarrow>
   length (filter executed_ok (zip rs bs)) + length (filter executed_bad (zip rs bs)) +
   length (filter (\<lambda>b. b \<noteq> None) bs) = length rs"
  by (induction rs bs rule: list_induct2) (auto simp: executed_ok_def executed_bad_def)

section \<open>Examples\<close>

definition ex_executor :: executor where
  "ex_executor = set_cluster ''lab'' (new_executor 0 0)"

definition ex_state :: xstate where
  "ex_state = \<lparr>xs_client = ex_client, xs_store = Some (begin_cycle 0 ''c0ffee'' False False new_store)\<rparr>"

definition ex_action :: "action_kind \<Rightarrow> kind \<Rightarrow> string \<Rightarrow> ref list \<Rightarrow> action" where
  "ex_action what k nm deps =
     (zero_action what)\<lparr>ac_kind := k, ac_name := nm, ac_node := ''n1'', ac_id := 100, ac_deps := deps,
        ac_ref := mk_ref k nm, ac_live_power := ''running'', ac_stop_first := True,
        ac_desired_power := ''started'', ac_prune := (what = Delete)\<rparr>"

text \<open>
  An image download that cannot work (no parameters), a template built from the image, a guest
  cloned from the template, and the prune of an orphan; one more prune is deferred.
\<close>

definition ex_chain :: plan where
  "ex_chain = empty_plan\<lparr>
     pl_actions := [ex_action Create KindISO ''image'' [],
                    ex_action Create KindTemplateVM ''template'' [mk_ref KindISO ''image''],
                    ex_action Start KindVM ''guest'' [mk_ref KindTemplateVM ''template''],
                    ex_action Delete KindVM ''orphan'' []],
     pl_deferred := [ex_action Delete KindVM ''other'' []]\<rparr>"

definition ex_run :: "exec_result list \<times> xstate" where
  "ex_run = exec_run (ex_env 200 JNull) background ex_executor ex_chain ex_state"

lemma ex_run_pair: "exec_run (ex_env 200 JNull) background ex_executor ex_chain ex_state = (fst ex_run, snd ex_run)"
  by (simp add: ex_run_def)

section \<open>Properties\<close>

text \<open>
  C8: a run returns one result per action, in plan order, and the requests it sends fall into one
  stretch per action: each stretch holds only reads, ticket exchanges and the writes of that action
  (\<open>writes_of\<close>), on that action's guest, storage or clone source.
\<close>

theorem exec_run_scoped:
  assumes "exec_run env cx xc p x = (rs, x')"
  shows "map xr_action rs = pl_actions p \<and>
    (\<exists>cs. length cs = Suc (length (pl_actions p)) \<and> cs ! 0 = xs_client x \<and>
          cs ! length (pl_actions p) = xs_client x' \<and>
          (\<forall>j<length (pl_actions p). \<exists>new. c_sent (cs ! Suc j) = c_sent (cs ! j) @ new \<and>
             (\<forall>rq\<in>set new. is_api_request (cs ! j) (reads_or (writes_of (pl_actions p ! j))) rq)))"
proof -
  let ?as = "pl_actions p"
  let ?st = "run_states env cx xc ?as [] x"
  let ?cs = "map xs_client ?st"
  have "\<exists>new. c_sent (?cs ! Suc j) = c_sent (?cs ! j) @ new \<and>
          (\<forall>rq\<in>set new. is_api_request (?cs ! j) (reads_or (writes_of (?as ! j))) rq)" if j: "j < length ?as" for j
  proof -
    obtain fl where "fst (snd (run_one env cx xc (?as ! j) fl (?st ! j))) = ?st ! Suc j"
      using run_turn [OF j, of env cx xc "[]" x] by blast
    with run_one_client [of "?st ! j" "?as ! j" env cx xc fl] j show ?thesis
      by (auto dest: extends_sent)
  qed
  moreover have "rs = fst (run_loop env cx xc ?as [] x)" "xs_client x' = ?cs ! length ?as" "?cs ! 0 = xs_client x"
    using assms run_states_last [of env cx xc ?as "[]" x] run_states_first [of env cx xc ?as "[]" x]
    by (auto simp: exec_run_def Let_def)
  ultimately show ?thesis
    by (intro conjI exI [of _ ?cs]) (auto simp: run_loop_actions)
qed

lemma exec_run_scoped_witness:
  "map xr_action (fst ex_run) = pl_actions ex_chain \<and> length (fst ex_run) = 4 \<and>
   length (c_sent (xs_client (snd ex_run))) = 3"
  by (intro conjI, rule conjunct1 [OF exec_run_scoped [OF ex_run_pair]]) code_simp+

text \<open>
  C15: an action is deferred exactly when an earlier action of the run on the same node was executed,
  failed, and is named by one of its dependencies; its result is then a failure and the client is
  left as it was.  A deferred action does not count as failed for the actions that depend on it.
\<close>

theorem exec_deferral_exact:
  assumes "exec_run env cx xc p x = (rs, x')" "j < length (pl_actions p)"
    "bl = deferred_by env cx xc (pl_actions p) [] x"
  shows "(bl ! j \<noteq> None \<longleftrightarrow>
      (\<exists>d\<in>set (ac_deps (pl_actions p ! j)). ref_kind d \<noteq> [] \<and> ref_name d \<noteq> [] \<and>
        (\<exists>i<j. bl ! i = None \<and> \<not> xr_ok (rs ! i) \<and> ac_ref (pl_actions p ! i) = d \<and>
               ac_node (pl_actions p ! i) = ac_node (pl_actions p ! j)))) \<and>
    (bl ! j \<noteq> None \<longrightarrow> \<not> xr_ok (rs ! j) \<and>
       xs_client (run_states env cx xc (pl_actions p) [] x ! Suc j) =
       xs_client (run_states env cx xc (pl_actions p) [] x ! j))"
proof -
  let ?as = "pl_actions p"
  have rs: "rs = fst (run_loop env cx xc ?as [] x)" using assms(1) by (auto simp: exec_run_def Let_def)
  have f: "fails_with (?as ! i) (rs ! i) (bl ! i) (ref_kind d, ref_name d, n) \<longleftrightarrow>
      ref_kind d \<noteq> [] \<and> ref_name d \<noteq> [] \<and> bl ! i = None \<and> \<not> xr_ok (rs ! i) \<and> ac_ref (?as ! i) = d \<and>
      ac_node (?as ! i) = n" for i d n
    by (auto simp: fails_with_def)
  obtain fl where t: "fst (run_one env cx xc (?as ! j) fl (run_states env cx xc ?as [] x ! j)) = rs ! j"
      "fst (snd (run_one env cx xc (?as ! j) fl (run_states env cx xc ?as [] x ! j))) = run_states env cx xc ?as [] x ! Suc j"
      "blocking_dep (?as ! j) fl = bl ! j"
    using run_turn [OF assms(2), of env cx xc "[]" x] rs assms(3) by blast
  show ?thesis
    using deferred_by_iff [OF assms(2), of env cx xc "[]" x] run_one_client [of "run_states env cx xc ?as [] x ! j" "?as ! j" env cx xc fl]
    unfolding rs [symmetric] assms(3) [symmetric] t f by (intro conjI) (simp, blast, blast)
qed

lemma exec_deferral_exact_witness:
  "deferred_by (ex_env 200 JNull) background ex_executor (pl_actions ex_chain) [] ex_state ! 1 \<noteq> None \<and>
   \<not> xr_ok (fst ex_run ! 1)"
proof -
  have "deferred_by (ex_env 200 JNull) background ex_executor (pl_actions ex_chain) [] ex_state ! 1 \<noteq> None"
    by code_simp
  moreover have "1 < length (pl_actions ex_chain)" by code_simp
  ultimately show ?thesis using exec_deferral_exact [OF ex_run_pair _ refl, of 1] by blast
qed

text \<open>
  Deferral does not chain.  In a run where an image download fails, the template built from the
  image is deferred, and the guest whose only dependency is that template is attempted all the same,
  in the same run.
\<close>

theorem exec_deferral_not_transitive:
  "map xr_ok (fst ex_run) = [False, False, True, True] \<and>
   map ac_deps (pl_actions ex_chain) ! 2 = [ac_ref (pl_actions ex_chain ! 1)] \<and>
   map ac_deps (pl_actions ex_chain) ! 1 = [ac_ref (pl_actions ex_chain ! 0)] \<and>
   map (\<lambda>b. b \<noteq> None) (deferred_by (ex_env 200 JNull) background ex_executor (pl_actions ex_chain) [] ex_state)
     = [False, True, False, False]"
  by (intro conjI) code_simp+

text \<open>
  The cycle's counters.  After a run the open cycle has counted every executed action once, as ok
  or as an error, every executed prune that worked as pruned, and every deferred prune of the plan;
  actions deferred for a dependency are counted nowhere.
\<close>

theorem exec_run_counts:
  assumes "exec_run env cx xc p x = (rs, x')" "xs_store x = Some s" "st_last s = Some c"
    "bl = deferred_by env cx xc (pl_actions p) [] x"
  shows "\<exists>s' c'. xs_store x' = Some s' \<and> st_last s' = Some c' \<and>
    cy_actions_ok c' = cy_actions_ok c + length (filter executed_ok (zip rs bl)) \<and>
    cy_actions_error c' = cy_actions_error c + length (filter executed_bad (zip rs bl)) \<and>
    cy_pruned c' = cy_pruned c + length (filter (\<lambda>rb. executed_ok rb \<and> ac_prune (xr_action (fst rb))) (zip rs bl)) \<and>
    cy_prune_deferred c' = cy_prune_deferred c + length (pl_deferred p) \<and>
    length (filter executed_ok (zip rs bl)) + length (filter executed_bad (zip rs bl)) +
      length (filter (\<lambda>b. b \<noteq> None) bl) = length (pl_actions p)"
proof -
  let ?r = "run_loop env cx xc (pl_actions p) [] x"
  have rs: "rs = fst ?r" using assms(1) by (auto simp: exec_run_def Let_def)
  obtain s1 where s1: "xs_store (snd ?r) = Some s1" "st_last s1 = Some (fold tally (zip rs bl) c)"
    using run_loop_tally [OF assms(2,3), of env cx xc "pl_actions p" "[]"] rs assms(4) by blast
  have "length rs = length bl" "length rs = length (pl_actions p)" by (simp_all add: rs assms(4))
  with length_executed [of rs bl] s1 record_deferred_last [OF s1(2)] assms(1) show ?thesis
    by (auto simp: exec_run_def Let_def fold_tally)
qed

lemma exec_run_counts_witness:
  "\<exists>s' c'. xs_store (snd ex_run) = Some s' \<and> st_last s' = Some c' \<and> cy_actions_ok c' = 2 \<and>
     cy_actions_error c' = 1 \<and> cy_pruned c' = 1 \<and> cy_prune_deferred c' = 1"
proof -
  let ?bl = "deferred_by (ex_env 200 JNull) background ex_executor (pl_actions ex_chain) [] ex_state"
  have "length (filter executed_ok (zip (fst ex_run) ?bl)) = 2"
    "length (filter executed_bad (zip (fst ex_run) ?bl)) = 1"
    "length (filter (\<lambda>rb. executed_ok rb \<and> ac_prune (xr_action (fst rb))) (zip (fst ex_run) ?bl)) = 1"
    "length (pl_deferred ex_chain) = 1"
    by code_simp+
  moreover have "xs_store ex_state = Some (begin_cycle 0 ''c0ffee'' False False new_store)"
    by (simp add: ex_state_def)
  ultimately show ?thesis
    using exec_run_counts [OF ex_run_pair _ _ refl,
        of "begin_cycle 0 ''c0ffee'' False False new_store" "the (st_last (begin_cycle 0 ''c0ffee'' False False new_store))"]
    by (auto simp: begin_cycle_def)
qed

section \<open>Stops\<close>

lemma outcome_stopped [simp]: "fst (fst (outcome_of st m cl)) = st"
  by (simp add: outcome_of_def split: prod.splits sum.splits)

text \<open>The stop an action puts before its change, without the wait.\<close>

definition stop_request :: "env \<Rightarrow> ctx \<Rightarrow> action \<Rightarrow> string io" where
  "stop_request env cx a =
     (if qemu_kind (ac_kind a) then vm_stop env cx (ac_node a) (ac_id a) else lxc_stop env cx (ac_node a) (ac_id a))"

text \<open>
  The stop ended well and left the client \<open>cl1\<close>: PVE accepted it, and if PVE started a task for it,
  the wait for that task ended without an error, having seen it stopped with a good exit status.
\<close>

definition stop_ended_well :: "env \<Rightarrow> ctx \<Rightarrow> executor \<Rightarrow> action \<Rightarrow> client \<Rightarrow> client \<Rightarrow> bool" where
  "stop_ended_well env cx xc a cl cl1 \<longleftrightarrow>
     (\<exists>upid cl0. stop_request env cx a cl = (Inr upid, cl0) \<and>
        (if upid = [] then cl1 = cl0
         else \<exists>s. task_wait env (timeout_at cx (c_now cl0) (xc_task_timeout xc))
                   (timeout_text cx (c_now cl0) (xc_task_timeout xc))
                   (set_interval (xc_task_interval xc) task_poll_interval)
                   \<lparr>tid_node = ac_node a, tid_upid = upid\<rparr> cl0 = ((s, None), cl1) \<and> task_ok s))"

lemma stop_and_wait_exact:
  "stop_and_wait env cx xc a cl = (r, cl1) \<Longrightarrow>
   (case r of Inr st \<Rightarrow> st \<and> stop_ended_well env cx xc a cl cl1
            | Inl e \<Rightarrow> \<not> (\<exists>c. stop_ended_well env cx xc a cl c))"
proof -
  assume a: "stop_and_wait env cx xc a cl = (r, cl1)"
  obtain u cl0 where s: "stop_request env cx a cl = (u, cl0)" by fastforce
  then have s': "(if qemu_kind (ac_kind a) then vm_stop env cx (ac_node a) (ac_id a)
     else lxc_stop env cx (ac_node a) (ac_id a)) cl = (u, cl0)" by (simp add: stop_request_def)
  show ?thesis
  proof (cases u)
    case (Inl e)
    with a s' s show ?thesis
      by (auto simp: stop_and_wait_def then_wait_def io_bind_def stop_ended_well_def)
  next
    case (Inr upid)
    define w where "w = task_wait env (timeout_at cx (c_now cl0) (xc_task_timeout xc))
                   (timeout_text cx (c_now cl0) (xc_task_timeout xc))
                   (set_interval (xc_task_interval xc) task_poll_interval)
                   \<lparr>tid_node = ac_node a, tid_upid = upid\<rparr> cl0"
    obtain s e c where w: "w = ((s, e), c)" by (metis prod.exhaust)
    have ok: "task_ok s" if "e = None"
      using task_wait_outcome [of env _ _ _ _ cl0 s e c] w that unfolding w_def
      by (fastforce simp: wait_outcome_ok_def)
    have "stop_and_wait env cx xc a cl =
        (if upid = [] then (Inr True, cl0) else (case e of None \<Rightarrow> Inr True | Some x \<Rightarrow> Inl x, c))"
      using s' Inr w
      by (simp add: stop_and_wait_def then_wait_def io_bind_def io_return_def wait_task_def Let_def
          w_def [symmetric] split: option.split)
    moreover have "stop_ended_well env cx xc a cl c' \<longleftrightarrow> (if upid = [] then c' = cl0 else e = None \<and> c' = c \<and> task_ok s)" for c'
      using s Inr w by (auto simp: stop_ended_well_def w_def)
    ultimately show ?thesis using a ok by (cases e) (auto split: if_splits)
  qed
qed

lemma stop_then_exact:
  assumes "stop_then True what env cx xc a rest cl = ((stopped, err), cl')"
    "\<And>st. sends (reads_or ws) (rest st)"
  shows "\<exists>cl1. extends (is_api_request cl (reads_or (stop_writes a))) cl cl1 \<and>
     (stopped \<longleftrightarrow> (\<exists>c. stop_ended_well env cx xc a cl c)) \<and>
     (if stopped then stop_ended_well env cx xc a cl cl1 \<and> extends (is_api_request cl1 (reads_or ws)) cl1 cl'
      else cl' = cl1 \<and> err \<noteq> None)"
proof -
  obtain r c where r: "stop_and_wait env cx xc a cl = (r, c)" by fastforce
  have e: "extends (is_api_request cl (reads_or (stop_writes a))) cl c"
    using within_stop [of a env cx xc] r by (metis sends_def snd_conv)
  note x = stop_and_wait_exact [OF r]
  show ?thesis
  proof (cases r)
    case (Inl x)
    with assms r e stop_and_wait_exact [OF r] show ?thesis
      by (intro exI [of _ c]) (auto simp: stop_then_def io_wrap_def)
  next
    case (Inr st)
    have "outcome_of st (rest st) c = ((stopped, err), cl')"
      using assms(1) r Inr by (simp add: stop_then_def io_wrap_def)
    moreover from this have "stopped = st" using outcome_stopped [of st "rest st" c] by simp
    moreover have "extends (is_api_request c (reads_or ws)) c (snd (outcome_of st (rest st) c))"
      by (rule outcome_of_extends [OF assms(2)])
    ultimately show ?thesis using stop_and_wait_exact [OF r] Inr e
      by (intro exI [of _ c]) auto
  qed
qed

text \<open>
  C5: a running guest is deleted, or reconfigured when the change needs it stopped, only after its
  stop ended well.  The action reports the guest stopped exactly when the stop ended well; what it sent
  up to then are reads, ticket exchanges and the stop itself, and everything else comes after.  When
  the stop did not end well the action failed and sent nothing else.
\<close>

theorem exec_stop_gates:
  assumes "exec_apply env cx xc a cl = ((stopped, err), cl')" "ac_live_power a = ''running''"
    "ac_what a = Delete \<or> ac_what a = Update \<and> ac_stop_first a"
  shows "(stopped \<longleftrightarrow> (\<exists>c. stop_ended_well env cx xc a cl c)) \<and>
    (\<exists>cl1 stop rest. c_sent cl1 = c_sent cl @ stop \<and> c_sent cl' = c_sent cl1 @ rest \<and>
       (\<forall>rq\<in>set stop. is_api_request cl (reads_or (stop_writes a)) rq) \<and>
       (if stopped then stop_ended_well env cx xc a cl cl1 else rest = [] \<and> err \<noteq> None))"
proof -
  obtain what rest where s: "stop_then True what env cx xc a rest cl = ((stopped, err), cl')"
    "\<And>st. sends (reads_or (writes_of a)) (rest st)"
  proof (cases "ac_what a = Delete")
    case True
    have "sends (reads_or (writes_of a)) (delete_steps env cx xc a st)" for st
      unfolding delete_steps_def
      by (intro within_then_wait within_mono [OF within_delete]) (simp add: writes_of_def True)
    with that assms True show ?thesis by (auto simp: exec_apply_def)
  next
    case False
    have "sends (reads_or (writes_of a)) (update_steps env cx xc a st)" for st
      by (rule within_mono [OF within_update]) (use False assms(3) in \<open>auto simp: writes_of_def\<close>)
    with that assms False show ?thesis by (auto simp: exec_apply_def exec_update_def)
  qed
  from stop_then_exact [OF s] obtain cl1
    where cl1: "extends (is_api_request cl (reads_or (stop_writes a))) cl cl1"
      "stopped \<longleftrightarrow> (\<exists>c. stop_ended_well env cx xc a cl c)"
      "if stopped then stop_ended_well env cx xc a cl cl1 \<and> extends (is_api_request cl1 (reads_or (writes_of a))) cl1 cl'
      else cl' = cl1 \<and> err \<noteq> None" by blast
  from extends_sent [OF cl1(1)] obtain stop where stop: "c_sent cl1 = c_sent cl @ stop"
    "\<forall>rq\<in>set stop. is_api_request cl (reads_or (stop_writes a)) rq" by blast
  obtain new where new: "c_sent cl' = c_sent cl1 @ new" "\<not> stopped \<longrightarrow> new = []"
  proof (cases stopped)
    case True
    with cl1(3) extends_sent [of _ cl1 cl'] that show ?thesis by fastforce
  qed (use cl1(3) that [of "[]"] in simp)
  have "if stopped then stop_ended_well env cx xc a cl cl1 else new = [] \<and> err \<noteq> None"
    using cl1(3) new(2) by simp
  with stop new(1) cl1(2) show ?thesis by (intro conjI exI [of _ cl1] exI [of _ stop] exI [of _ new]) simp_all
qed

definition ex_stop_env :: env where
  "ex_stop_env = (ex_env 200 JNull)\<lparr>e_reply := (\<lambda>sent. Response \<lparr>rs_status = 200, rs_body = ''body'',
     rs_json = Some (JObj [(''data'', if rq_method (last sent) = ''GET''
        then JObj [(''status'', JStr ''stopped''), (''exitstatus'', JStr ''OK'')] else JStr ''UPID:n1:1'')]),
     rs_userid = []\<rparr>)\<rparr>"

definition ex_prune :: "outcome \<times> client" where
  "ex_prune = exec_apply ex_stop_env background ex_executor (ex_action Delete KindVM ''orphan'' []) ex_client"

lemma exec_stop_gates_witness:
  "map rq_method (c_sent (snd ex_prune)) = [''POST'', ''GET'', ''DELETE'', ''GET''] \<and>
   (\<exists>c. stop_ended_well ex_stop_env background ex_executor (ex_action Delete KindVM ''orphan'' []) ex_client c)"
proof -
  have "ex_prune = ((True, snd (fst ex_prune)), snd ex_prune)"
    by (rule prod_eqI) (rule prod_eqI, code_simp, simp_all)
  then have "exec_apply ex_stop_env background ex_executor (ex_action Delete KindVM ''orphan'' []) ex_client =
      ((True, snd (fst ex_prune)), snd ex_prune)"
    by (simp only: ex_prune_def)
  from exec_stop_gates [OF this]
  have "\<exists>c. stop_ended_well ex_stop_env background ex_executor (ex_action Delete KindVM ''orphan'' []) ex_client c"
    by (simp add: ex_action_def)
  moreover have "map rq_method (c_sent (snd ex_prune)) = [''POST'', ''GET'', ''DELETE'', ''GET'']" by code_simp
  ultimately show ?thesis by simp
qed

section \<open>Clones\<close>

lemma clone_form_keys:
  "k \<in> fst ` set (clone_form a live) \<Longrightarrow> k = ''delete'' \<or> k \<noteq> ''vmid'' \<and> k \<noteq> ''start'' \<and> \<not> is_disk_slot k"
proof -
  let ?w = "clone_config_write (case ac_params a of None \<Rightarrow> [] | Some m \<Rightarrow> m) live"
  assume "k \<in> fst ` set (clone_form a live)"
  then have "k = ''delete'' \<or> k \<in> fst ` set (to_values (Some ?w))"
    by (auto simp: clone_form_def Let_def split: if_splits dest: in_put)
  then show ?thesis
    using clone_config_write_keys [of k ?w live] clone_config_write_keys [of k _ live]
    by (force simp: to_values_def)
qed

text \<open>The clone call, and the configuration write that follows it.\<close>

definition clone_request :: "action \<Rightarrow> string \<Rightarrow> string \<Rightarrow> (string \<times> string) list \<Rightarrow> bool" where
  "clone_request a m p f \<longleftrightarrow>
     m = ''POST'' \<and> p = vm_base (ac_node a) (ac_clone_source a) @ ''/clone'' \<and> ac_clone_source a \<noteq> ac_id a \<and>
     f = [(''newid'', itoa (ac_id a)), (''full'', ''1'')] @ (if ac_name a = [] then [] else [(''name'', ac_name a)])"

definition config_request :: "action \<Rightarrow> params \<Rightarrow> string \<Rightarrow> string \<Rightarrow> (string \<times> string) list \<Rightarrow> bool" where
  "config_request a live m p f \<longleftrightarrow>
     m = ''POST'' \<and> p = vm_base (ac_node a) (ac_id a) @ ''/config'' \<and> f = clone_form a live"

lemma clone_form_delete:
  "ac_delete_keys a \<noteq> [] \<Longrightarrow> map_of (clone_form a live) ''delete'' = Some (join_with '','' (ac_delete_keys a))"
  by (simp add: clone_form_def Let_def)

lemma send_segment:
  assumes "api_send env cx meth node path form cl = (r, c)" "meth \<noteq> ''GET''"
  shows "extends (is_api_request cl (\<lambda>m p f. m = meth \<and> p = path \<and> f = form)) cl c \<and>
    length (c_sent c) \<le> length (c_sent cl) + 8"
proof -
  obtain x c1 where d: "client_do env cx \<lparr>ca_method = meth, ca_node = node, ca_path = path, ca_form = form,
      ca_dec = None, ca_out = ()\<rparr> cl = (x, c1)" by fastforce
  have "c = c1" using assms(1) d by (auto simp: api_send_def io_bind_def io_return_def split: sum.splits prod.splits)
  with client_do_cost [OF d] have "length (c_sent c) \<le> length (c_sent cl) + 8"
    by (simp add: max_retries_def attempt_cost_def split: if_splits)
  then show ?thesis
    using sends_send [OF assms(2), of path form env cx node] assms(1) by (metis sends_def snd_conv)
qed

lemma read_segment: "sends get_only m \<Longrightarrow> m cl = (r, c) \<Longrightarrow> extends (is_api_request cl get_only) cl c"
  by (metis sends_def snd_conv)

text \<open>The requests between two states.\<close>

definition sent_between :: "client \<Rightarrow> client \<Rightarrow> http_request list" where
  "sent_between c c' = drop (length (c_sent c)) (c_sent c')"

lemma sent_between: "extends P c c' \<Longrightarrow> c_sent c' = c_sent c @ sent_between c c' \<and> (\<forall>rq\<in>set (sent_between c c'). P rq)"
  using extends_sent [of P c c'] by (auto simp: sent_between_def)

lemma sent_between_refl [simp]: "sent_between c c = []"
  by (simp add: sent_between_def)

text \<open>The states the creation of a clone goes through; where it stopped, the rest stay the same.\<close>

definition clone_states :: "env \<Rightarrow> ctx \<Rightarrow> executor \<Rightarrow> action \<Rightarrow> client \<Rightarrow> client \<Rightarrow> client \<Rightarrow> params \<Rightarrow> client \<Rightarrow> client \<Rightarrow> bool" where
  "clone_states env cx xc a cl c1 c3 live c4 c5 \<longleftrightarrow>
     extends (is_api_request cl (clone_request a)) cl c1 \<and> length (sent_between cl c1) \<le> 8 \<and>
     extends (is_api_request cl get_only) c1 c3 \<and>
     extends (is_api_request cl (config_request a live)) c3 c4 \<and> length (sent_between c3 c4) \<le> 8 \<and>
     (c4 = c3 \<or> (\<exists>c2. vm_get env cx (ac_node a) (ac_id a) c2 = (Inr live, c3))) \<and>
     extends (is_api_request cl get_only) c4 c5"

lemma length_between: "extends P c c' \<Longrightarrow> length (c_sent c') \<le> length (c_sent c) + n \<Longrightarrow> length (sent_between c c') \<le> n"
  by (simp add: sent_between_def)

lemma at_start: "extends P a b \<Longrightarrow> extends (is_api_request b Q) b c \<Longrightarrow> extends (is_api_request a Q) b c"
  using is_api_request_extends [of P a b Q] by simp

lemma vm_clone_send:
  "vm_clone env cx nd s i True nm = api_send env cx ''POST'' nd (vm_base nd s @ ''/clone'')
     ([(''newid'', itoa i), (''full'', ''1'')] @ (if nm = [] then [] else [(''name'', nm)]))"
  by (simp add: vm_clone_def Let_def put_def)

lemma clone_call:
  assumes "vm_clone env cx (ac_node a) (ac_clone_source a) (ac_id a) True (ac_name a) cl = (r, c)"
    "ac_clone_source a \<noteq> ac_id a"
  shows "extends (is_api_request cl (clone_request a)) cl c \<and> length (sent_between cl c) \<le> 8"
proof -
  have eq: "(\<lambda>m p f. m = ''POST'' \<and> p = vm_base (ac_node a) (ac_clone_source a) @ ''/clone'' \<and>
      f = [(''newid'', itoa (ac_id a)), (''full'', ''1'')] @ (if ac_name a = [] then [] else [(''name'', ac_name a)])) = clone_request a"
    using assms(2) by (simp add: clone_request_def fun_eq_iff)
  have g: "''POST'' \<noteq> ''GET''" by simp
  from send_segment [OF assms(1) [unfolded vm_clone_send] g, unfolded eq] show ?thesis
    by (auto intro: length_between)
qed

lemma config_call:
  assumes "vm_update env cx (ac_node a) (ac_id a) (clone_form a live) cl = (r, c)"
  shows "extends (is_api_request cl (config_request a live)) cl c \<and> length (sent_between cl c) \<le> 8"
proof -
  have eq: "(\<lambda>m p f. m = ''POST'' \<and> p = vm_base (ac_node a) (ac_id a) @ ''/config'' \<and> f = clone_form a live) = config_request a live"
    by (simp add: config_request_def fun_eq_iff)
  have g: "''POST'' \<noteq> ''GET''" by simp
  from send_segment [OF assms [unfolded vm_update_def] g, unfolded eq] show ?thesis
    by (auto intro: length_between)
qed

lemma clone_create_states:
  assumes "ac_clone_source a \<noteq> ac_id a"
    "then_wait env cx xc (ac_node a) (clone_create env cx xc a) cl = (r, cl')"
  shows "\<exists>c1 c3 live c4. clone_states env cx xc a cl c1 c3 live c4 cl'"
proof -
  let ?nd = "ac_node a"
  obtain r1 c1 where 1: "vm_clone env cx ?nd (ac_clone_source a) (ac_id a) True (ac_name a) cl = (r1, c1)" by fastforce
  note e1 = clone_call [OF 1 assms(1)]
  show ?thesis
  proof (cases r1)
    case (Inl e)
    with assms 1 have "cl' = c1" by (auto simp: then_wait_def clone_create_def Let_def io_bind_def io_wrap_def)
    with e1 show ?thesis
      by (intro exI [of _ c1] exI) (auto simp: clone_states_def)
  next
    case (Inr upid)
    obtain r2 c2 where 2: "wait_task env cx xc ?nd upid c1 = (r2, c2)" by fastforce
    have e2: "extends (is_api_request cl get_only) c1 c2"
      by (rule at_start [OF conjunct1 [OF e1] read_segment [OF sends_wait 2]])
    note t2 = extends_trans [OF extends_mono [OF conjunct1 [OF e1] TrueI] extends_mono [OF e2 TrueI]]
    show ?thesis
    proof (cases r2)
      case i: (Inl e)
      with assms 1 2 Inr have "cl' = c2" by (auto simp: then_wait_def clone_create_def Let_def io_bind_def io_wrap_def)
      with e1 e2 show ?thesis
        by (intro exI [of _ c1] exI [of _ c2] exI) (auto simp: clone_states_def)
    next
      case i2: (Inr u)
      obtain r3 c3 where 3: "vm_get env cx ?nd (ac_id a) c2 = (r3, c3)" by fastforce
      have e3: "extends (is_api_request cl get_only) c1 c3"
        by (rule extends_trans [OF e2 at_start [OF t2 read_segment [OF get_only_reads(2) 3]]])
      note t3 = extends_trans [OF extends_mono [OF conjunct1 [OF e1] TrueI] extends_mono [OF e3 TrueI]]
      show ?thesis
      proof (cases r3)
        case (Inl e)
        with assms 1 2 3 Inr i2 have "cl' = c3" by (auto simp: then_wait_def clone_create_def Let_def io_bind_def io_wrap_def)
        with e1 e3 show ?thesis
          by (intro exI [of _ c1] exI [of _ c3] exI) (auto simp: clone_states_def)
      next
        case i3: (Inr live)
        obtain r4 c4 where 4: "vm_update env cx ?nd (ac_id a) (clone_form a live) c3 = (r4, c4)" by fastforce
        have e4: "extends (is_api_request cl (config_request a live)) c3 c4"
          by (rule at_start [OF t3 conjunct1 [OF config_call [OF 4]]])
        note l4 = conjunct2 [OF config_call [OF 4]]
        note t4 = extends_trans [OF t3 extends_mono [OF e4 TrueI]]
        have e5: "extends (is_api_request cl get_only) c4 cl'"
        proof (cases r4)
          case (Inl e)
          with assms 1 2 3 4 Inr i2 i3 have "cl' = c4"
            by (auto simp: then_wait_def clone_create_def Let_def io_bind_def io_wrap_def)
          then show ?thesis by simp
        next
          case i4: (Inr up)
          with assms 1 2 3 4 Inr i2 i3 have "wait_task env cx xc ?nd up c4 = (r, cl')"
            by (auto simp: then_wait_def clone_create_def Let_def io_bind_def io_wrap_def)
          from at_start [OF t4 read_segment [OF sends_wait this]] show ?thesis .
        qed
        from 3 i3 have "vm_get env cx ?nd (ac_id a) c2 = (Inr live, c3)" by simp
        with e1 e3 e4 l4 e5 show ?thesis
          by (intro exI [of _ c1] exI [of _ c3] exI [of _ live] exI [of _ c4]) (auto simp: clone_states_def)
      qed
    qed
  qed
qed

text \<open>
  C16: creating a clone-backed VM sends, in this order, one full clone of a different guest into the
  planned id, reads, one configuration write whose body is \<open>clone_form\<close> of the configuration just
  read, and reads; each of the two calls with its retries and logins.  Where a step fails the rest is not sent, and a
  clone onto itself sends nothing.  The write names no data disk, no vmid and no start flag, and
  its delete list is exactly the planned one, so the volumes the clone has just been given are never
  overwritten.
\<close>

theorem exec_clone_keeps_disks:
  assumes "exec_apply env cx xc a cl = (r, cl')" "ac_what a = Create" "ac_kind a = KindVM"
    "ac_clone_source a \<noteq> 0"
  shows "(\<exists>cs rs live ws ts. c_sent cl' = c_sent cl @ cs @ rs @ ws @ ts \<and>
      (\<forall>rq\<in>set cs. is_api_request cl (clone_request a) rq) \<and> length cs \<le> 8 \<and>
      (\<forall>rq\<in>set (rs @ ts). is_api_request cl get_only rq) \<and>
      (\<forall>rq\<in>set ws. is_api_request cl (config_request a live) rq) \<and> length ws \<le> 8 \<and>
      (ws \<noteq> [] \<longrightarrow> (\<exists>c c'. vm_get env cx (ac_node a) (ac_id a) c = (Inr live, c') \<and> c_sent c' = c_sent cl @ cs @ rs))) \<and>
    (ac_clone_source a = ac_id a \<longrightarrow> cl' = cl) \<and>
    (\<forall>live. \<forall>k\<in>fst ` set (clone_form a live). k = ''delete'' \<or> k \<noteq> ''vmid'' \<and> k \<noteq> ''start'' \<and> \<not> is_disk_slot k) \<and>
    (\<forall>live. ac_delete_keys a \<noteq> [] \<longrightarrow>
       map_of (clone_form a live) ''delete'' = Some (join_with '','' (ac_delete_keys a)))"
proof -
  have c: "exec_create env cx xc a = clone_create env cx xc a"
    using assms(3,4) by (simp add: exec_create_def artifact_kind_def kind_defs)
  have cl': "cl' = snd (then_wait env cx xc (ac_node a) (clone_create env cx xc a) cl)"
    using assms(1,2) c by (auto simp: exec_apply_def outcome_of_def split: prod.splits sum.splits)
  have t: "(\<exists>cs rs live ws ts. c_sent cl' = c_sent cl @ cs @ rs @ ws @ ts \<and>
      (\<forall>rq\<in>set cs. is_api_request cl (clone_request a) rq) \<and> length cs \<le> 8 \<and>
      (\<forall>rq\<in>set (rs @ ts). is_api_request cl get_only rq) \<and>
      (\<forall>rq\<in>set ws. is_api_request cl (config_request a live) rq) \<and> length ws \<le> 8 \<and>
      (ws \<noteq> [] \<longrightarrow> (\<exists>c c'. vm_get env cx (ac_node a) (ac_id a) c = (Inr live, c') \<and> c_sent c' = c_sent cl @ cs @ rs))) \<and>
    (ac_clone_source a = ac_id a \<longrightarrow> cl' = cl)"
  proof (cases "ac_clone_source a = ac_id a")
    case True
    then have "cl' = cl" by (simp add: cl' then_wait_def clone_create_def io_bind_def io_fail_def)
    then show ?thesis by (intro conjI impI exI [of _ "[]"] exI) auto
  next
    case False
    have "then_wait env cx xc (ac_node a) (clone_create env cx xc a) cl =
        (fst (then_wait env cx xc (ac_node a) (clone_create env cx xc a) cl), cl')" by (simp add: cl')
    from clone_create_states [OF False this] obtain c1 c3 live c4
      where s: "clone_states env cx xc a cl c1 c3 live c4 cl'" by blast
    note d = s [unfolded clone_states_def]
    let ?cs = "sent_between cl c1" and ?rs = "sent_between c1 c3" and ?ws = "sent_between c3 c4" and ?ts = "sent_between c4 cl'"
    from d have b: "c_sent c1 = c_sent cl @ ?cs" "c_sent c3 = c_sent c1 @ ?rs" "c_sent c4 = c_sent c3 @ ?ws"
      "c_sent cl' = c_sent c4 @ ?ts"
      "\<forall>rq\<in>set ?cs. is_api_request cl (clone_request a) rq" "\<forall>rq\<in>set ?rs. is_api_request cl get_only rq"
      "\<forall>rq\<in>set ?ws. is_api_request cl (config_request a live) rq" "\<forall>rq\<in>set ?ts. is_api_request cl get_only rq"
      by (blast dest: sent_between)+
    have w: "\<exists>c c'. vm_get env cx (ac_node a) (ac_id a) c = (Inr live, c') \<and> c_sent c' = c_sent cl @ ?cs @ ?rs" if "?ws \<noteq> []"
    proof -
      have "c4 \<noteq> c3" using that by auto
      with d obtain c2 where "vm_get env cx (ac_node a) (ac_id a) c2 = (Inr live, c3)" by blast
      moreover have "c_sent c3 = c_sent cl @ ?cs @ ?rs" using b(1,2) by simp
      ultimately show ?thesis by blast
    qed
    have all: "c_sent cl' = c_sent cl @ ?cs @ ?rs @ ?ws @ ?ts" using b(1-4) by simp
    have "\<forall>rq\<in>set (?rs @ ?ts). is_api_request cl get_only rq" using b(6,8) by auto
    with all b(5,7) d w False show ?thesis by blast
  qed
  have k: "\<forall>live. \<forall>k\<in>fst ` set (clone_form a live). k = ''delete'' \<or> k \<noteq> ''vmid'' \<and> k \<noteq> ''start'' \<and> \<not> is_disk_slot k"
    using clone_form_keys by blast
  have dl: "\<forall>live. ac_delete_keys a \<noteq> [] \<longrightarrow> map_of (clone_form a live) ''delete'' = Some (join_with '','' (ac_delete_keys a))"
    using clone_form_delete by blast
  from t k dl show ?thesis by blast
qed

definition ex_clone :: action where
  "ex_clone = (ex_action Create KindVM ''web'' [])\<lparr>ac_clone_source := 900,
     ac_params := Some [(''vmid'', PInt 100), (''cores'', PInt 4), (''scsi0'', PStr ''local-lvm:32''),
                        (''ide2'', PStr ''local-lvm:cloudinit'')],
     ac_delete_keys := [''onboot'', ''tags'']\<rparr>"

definition ex_clone_run :: "outcome \<times> client" where
  "ex_clone_run = exec_apply (ex_env 200 (JObj [])) background ex_executor ex_clone ex_client"

lemma exec_clone_keeps_disks_witness:
  "\<exists>cs rs ws ts. c_sent (snd ex_clone_run) = cs @ rs @ ws @ ts \<and>
     (\<forall>rq\<in>set cs. is_api_request ex_client (clone_request ex_clone) rq) \<and>
     (\<forall>rq\<in>set (rs @ ts). is_api_request ex_client get_only rq) \<and>
     map rq_form (cs @ rs @ ws @ ts) = [[(''newid'', ''100''), (''full'', ''1''), (''name'', ''web'')], [],
       [(''cores'', ''4''), (''ide2'', ''local-lvm:cloudinit''), (''delete'', ''onboot,tags'')]]"
proof -
  have "exec_apply (ex_env 200 (JObj [])) background ex_executor ex_clone ex_client =
      (fst ex_clone_run, snd ex_clone_run)"
    by (simp add: ex_clone_run_def)
  from exec_clone_keeps_disks [OF this]
  have "\<exists>cs rs ws ts. c_sent (snd ex_clone_run) = c_sent ex_client @ cs @ rs @ ws @ ts \<and>
     (\<forall>rq\<in>set cs. is_api_request ex_client (clone_request ex_clone) rq) \<and>
     (\<forall>rq\<in>set (rs @ ts). is_api_request ex_client get_only rq)"
    by (simp add: ex_clone_def ex_action_def zero_action_def) blast
  moreover have "c_sent ex_client = []" by (simp add: ex_client_def)
  moreover have "map rq_form (c_sent (snd ex_clone_run)) =
      [[(''newid'', ''100''), (''full'', ''1''), (''name'', ''web'')], [],
       [(''cores'', ''4''), (''ide2'', ''local-lvm:cloudinit''), (''delete'', ''onboot,tags'')]]"
    by code_simp
  ultimately show ?thesis by (metis append_Nil)
qed

section \<open>Status\<close>

text \<open>
  What the status store shows after an action: under the executor's cluster the outcome, with the
  error's text; under the empty cluster name the record written when the action started, still in
  progress, because that record is written without the cluster.
\<close>

theorem exec_execute_records:
  assumes "exec_execute env cx xc a x = (r, x')" "xs_store x = Some s" "xc_cluster xc \<noteq> []"
  shows "\<exists>s' ob old. xs_store x' = Some s' \<and>
    store_lookup s' (xc_cluster xc, ac_kind a, ac_name a) = Some ob \<and>
    ob_state ob = (if xr_err r \<noteq> None then Failed else if ac_what a = Delete then Pruned else Converged) \<and>
    ob_last_error ob = (case xr_err r of None \<Rightarrow> [] | Some e \<Rightarrow> err_text e) \<and>
    store_lookup s' ([], ac_kind a, ac_name a) = Some old \<and> ob_state old = InProgress"
proof -
  have look: "store_lookup (count_action a b s1) k = store_lookup s1 k" for b s1 k
    by (simp add: count_action_def store_lookup_def bump_defs)
  define s1 where "s1 = set_object (c_now (xs_client x)) (action_object a InProgress) s"
  define o2 where "o2 = final_object xc (c_now (xs_client x')) a (xr_err r)"
  have "xs_store x' = Some (count_action a (xr_err r = None) (set_object (c_now (xs_client x')) o2 s1))"
    using assms(1,2) by (auto simp: exec_execute_def Let_def s1_def o2_def)
  moreover have "obj_key o2 = (xc_cluster xc, ac_kind a, ac_name a)"
    by (simp add: o2_def final_object_def action_object_def obj_key_def Let_def)
  moreover have "obj_key (action_object a InProgress) = ([], ac_kind a, ac_name a)"
    by (simp add: action_object_def obj_key_def)
  ultimately show ?thesis
    using assms(3)
    by (simp add: look status.lookup_set s1_def) (simp add: o2_def final_object_def action_object_def state_for_def Let_def)
qed

lemma exec_execute_records_witness:
  "\<exists>s' ob old. xs_store (snd (exec_execute (ex_env 200 JNull) background ex_executor (ex_action Start KindVM ''web'' []) ex_state)) = Some s' \<and>
     store_lookup s' (''lab'', KindVM, ''web'') = Some ob \<and> ob_state ob = Converged \<and>
     store_lookup s' ([], KindVM, ''web'') = Some old \<and> ob_state old = InProgress"
proof -
  let ?r = "exec_execute (ex_env 200 JNull) background ex_executor (ex_action Start KindVM ''web'' []) ex_state"
  have "xr_err (fst ?r) = None" by code_simp
  moreover have "xc_cluster ex_executor = ''lab''" by (simp add: ex_executor_def set_cluster_def)
  ultimately show ?thesis
    using exec_execute_records [OF pair_surj [of ?r], of "begin_cycle 0 ''c0ffee'' False False new_store"]
    by (auto simp: ex_state_def ex_action_def zero_action_def)
qed

end
