(* ===== verification/Dep_Graph.thy ===== *)
theory Dep_Graph
  imports Schema_Core
begin

text \<open>
  The dependency graph of \<^verbatim>\<open>internal/parse/parse.go\<close>: \<^verbatim>\<open>indexOfCycle\<close> (a depth-first
  search with three colours and the current path) and \<^verbatim>\<open>Levels\<close> (memoised longest distance to
  a resource without dependencies).  \<open>e\<close> is \<^verbatim>\<open>EdgesFor\<close>.

  The closures of the source are recursive on the graph, which may have cycles, so both take fuel:
  the depth of the recursion.  \<open>graph_size\<close> is always enough for the search, and for the levels of
  a graph without cycles (\<open>index_of_cycle_facts\<close>, \<open>levels_of_ok\<close>).
\<close>

section \<open>The search for a cycle\<close>

datatype colour = White | Gray | Black

type_synonym colours = "(ref \<times> colour) list"

definition colour_of :: "colours \<Rightarrow> ref \<Rightarrow> colour" where
  "colour_of col r = (case map_of col r of None \<Rightarrow> White | Some c \<Rightarrow> c)"

text \<open>Out of fuel, a cycle found, or the colours and the path after the visit.\<close>

datatype dfs = DOut | DCycle "ref list" | DOk colours "ref list"

function (sequential) visit :: "(ref \<Rightarrow> ref list) \<Rightarrow> nat \<Rightarrow> ref \<Rightarrow> colours \<Rightarrow> ref list \<Rightarrow> dfs"
  and visit_deps :: "(ref \<Rightarrow> ref list) \<Rightarrow> nat \<Rightarrow> ref list \<Rightarrow> colours \<Rightarrow> ref list \<Rightarrow> dfs" where
  "visit e 0 r col path = DOut"
| "visit e (Suc n) r col path =
     (case visit_deps e n (e r) (put r Gray col) (path @ [r]) of
        DOk col' path' \<Rightarrow> DOk (put r Black col') (butlast path')
      | x \<Rightarrow> x)"
| "visit_deps e n [] col path = DOk col path"
| "visit_deps e n (d # ds) col path =
     (case colour_of col d of
        Gray \<Rightarrow> (if d \<in> set path then DCycle (dropWhile (\<lambda>p. p \<noteq> d) path @ [d])
                 else visit_deps e n ds col path)
      | White \<Rightarrow> (case visit e n d col path of
                    DOk col' path' \<Rightarrow> visit_deps e n ds col' path'
                  | x \<Rightarrow> x)
      | Black \<Rightarrow> visit_deps e n ds col path)"
  by pat_completeness auto

termination
  by (relation "measures [\<lambda>x. case x of Inl (e, n, r, col, path) \<Rightarrow> n | Inr (e, n, ds, col, path) \<Rightarrow> n,
                          \<lambda>x. case x of Inl y \<Rightarrow> 0 | Inr (e, n, ds, col, path) \<Rightarrow> Suc (length ds)]") auto

fun cycle_loop :: "(ref \<Rightarrow> ref list) \<Rightarrow> nat \<Rightarrow> ref list \<Rightarrow> colours \<Rightarrow> ref list \<Rightarrow> dfs" where
  "cycle_loop e n [] col path = DOk col path"
| "cycle_loop e n (r # rs) col path =
     (if colour_of col r = White
      then (case visit e n r col path of
              DOk col' path' \<Rightarrow> cycle_loop e n rs col' path'
            | x \<Rightarrow> x)
      else cycle_loop e n rs col path)"

definition graph_nodes :: "(ref \<Rightarrow> ref list) \<Rightarrow> ref list \<Rightarrow> ref list" where
  "graph_nodes e order = remdups (order @ concat (map e order))"

definition graph_size :: "(ref \<Rightarrow> ref list) \<Rightarrow> ref list \<Rightarrow> nat" where
  "graph_size e order = length (graph_nodes e order)"

definition index_of_cycle :: "(ref \<Rightarrow> ref list) \<Rightarrow> ref list \<Rightarrow> ref list option" where
  "index_of_cycle e order =
     (case cycle_loop e (graph_size e order) order [] [] of DCycle c \<Rightarrow> Some c | _ \<Rightarrow> None)"

section \<open>Levels\<close>

type_synonym levels = "(ref \<times> int) list"

text \<open>
  \<^verbatim>\<open>levelOf\<close>.  The source keeps the set \<^verbatim>\<open>done\<close> next to \<^verbatim>\<open>levels\<close> and always
  writes both, so one map stands for the two.
\<close>

function (sequential) level_of :: "(ref \<Rightarrow> ref list) \<Rightarrow> nat \<Rightarrow> ref \<Rightarrow> levels \<Rightarrow> (int \<times> levels) option"
  and level_deps :: "(ref \<Rightarrow> ref list) \<Rightarrow> nat \<Rightarrow> ref list \<Rightarrow> int \<Rightarrow> levels \<Rightarrow> (int \<times> levels) option" where
  "level_of e 0 r lv = None"
| "level_of e (Suc n) r lv =
     (case map_of lv r of
        Some l \<Rightarrow> Some (l, lv)
      | None \<Rightarrow> (case level_deps e n (e r) 0 lv of
                   None \<Rightarrow> None
                 | Some (l, lv') \<Rightarrow> Some (l, put r l lv')))"
| "level_deps e n [] lvl lv = Some (lvl, lv)"
| "level_deps e n (d # ds) lvl lv =
     (case level_of e n d lv of
        None \<Rightarrow> None
      | Some (dl, lv') \<Rightarrow> level_deps e n ds (if lvl < dl + 1 then dl + 1 else lvl) lv')"
  by pat_completeness auto

termination
  by (relation "measures [\<lambda>x. case x of Inl (e, n, r, lv) \<Rightarrow> n | Inr (e, n, ds, lvl, lv) \<Rightarrow> n,
                          \<lambda>x. case x of Inl y \<Rightarrow> 0 | Inr (e, n, ds, lvl, lv) \<Rightarrow> Suc (length ds)]") auto

fun levels_loop :: "(ref \<Rightarrow> ref list) \<Rightarrow> nat \<Rightarrow> ref list \<Rightarrow> levels \<Rightarrow> levels option" where
  "levels_loop e n [] lv = Some lv"
| "levels_loop e n (r # rs) lv =
     (case level_of e n r lv of None \<Rightarrow> None | Some (l, lv') \<Rightarrow> levels_loop e n rs lv')"

definition levels_of :: "(ref \<Rightarrow> ref list) \<Rightarrow> ref list \<Rightarrow> levels option" where
  "levels_of e order = levels_loop e (graph_size e order) order []"

section \<open>Cycles and settled nodes\<close>

definition is_cycle :: "(ref \<Rightarrow> ref list) \<Rightarrow> ref list \<Rightarrow> bool" where
  "is_cycle e c \<longleftrightarrow> 2 \<le> length c \<and> hd c = List.last c \<and> successively (\<lambda>a b. b \<in> set (e a)) c"

text \<open>A node is settled when every walk along dependencies from it ends.\<close>

inductive settled :: "(ref \<Rightarrow> ref list) \<Rightarrow> ref \<Rightarrow> bool" for e where
  settledI: "\<forall>d\<in>set (e r). settled e d \<Longrightarrow> settled e r"

inductive_simps settled_iff: "settled e r"

lemma settled_no_cycle: "settled e r \<Longrightarrow> is_cycle e c \<Longrightarrow> hd c \<noteq> r"
proof (induction arbitrary: c rule: settled.induct)
  case (settledI r)
  show ?case
  proof
    assume r: "hd c = r"
    obtain a b cs where c: "c = a # b # cs"
      using settledI.prems by (cases c rule: remdups_adj.cases) (auto simp: is_cycle_def)
    have b: "b \<in> set (e r)" and s: "successively (\<lambda>a b. b \<in> set (e a)) (b # cs)" "List.last (b # cs) = r"
      using settledI.prems r by (auto simp: is_cycle_def c)
    then have "is_cycle e ((b # cs) @ [b])"
      by (simp only: is_cycle_def successively_append_iff) simp
    with settledI.IH b show False by fastforce
  qed
qed

section \<open>The search is right\<close>

definition edge_closed :: "(ref \<Rightarrow> ref list) \<Rightarrow> ref set \<Rightarrow> bool" where
  "edge_closed e U \<longleftrightarrow> finite U \<and> (\<forall>r\<in>U. set (e r) \<subseteq> U)"

definition whites :: "ref set \<Rightarrow> colours \<Rightarrow> ref set" where
  "whites U col = {x \<in> U. colour_of col x = White}"

lemma colour_of_put [simp]: "colour_of (put r c col) x = (if x = r then c else colour_of col x)"
  by (simp add: colour_of_def)

lemma whites_put: "c \<noteq> White \<Longrightarrow> whites U (put r c col) = whites U col - {r}"
  by (auto simp: whites_def)

text \<open>Colours only darken, so the fuel that is enough stays enough.\<close>

lemma visit_fuel:
  shows "edge_closed e U \<Longrightarrow> r \<in> U \<Longrightarrow> colour_of col r = White \<Longrightarrow> card (whites U col) \<le> n \<Longrightarrow>
           visit e n r col path \<noteq> DOut \<and>
           (\<forall>col' path'. visit e n r col path = DOk col' path' \<longrightarrow> whites U col' \<subseteq> whites U col)"
    and "edge_closed e U \<Longrightarrow> set ds \<subseteq> U \<Longrightarrow> card (whites U col) \<le> n \<Longrightarrow>
           visit_deps e n ds col path \<noteq> DOut \<and>
           (\<forall>col' path'. visit_deps e n ds col path = DOk col' path' \<longrightarrow> whites U col' \<subseteq> whites U col)"
proof (induction e n r col path and e n ds col path rule: visit_visit_deps.induct)
  case (1 e r col path)
  have "finite U" using 1 by (simp add: edge_closed_def)
  moreover have "r \<in> whites U col" using 1 by (simp add: whites_def)
  ultimately have "card (whites U col) \<noteq> 0" by (auto simp: whites_def)
  with 1 show ?case by simp
next
  case (2 e n r col path)
  have U: "finite U" "set (e r) \<subseteq> U" using 2(2,3) unfolding edge_closed_def by blast+
  have w: "whites U (put r Gray col) = whites U col - {r}" by (simp add: whites_put)
  have "r \<in> whites U col" using 2(3,4) by (simp add: whites_def)
  then have "card (whites U (put r Gray col)) \<le> n"
    using 2(5) U(1) by (simp add: w card_Diff_singleton)
  with 2(1) [OF 2(2) U(2)] show ?case
    by (auto simp: whites_put w split: dfs.splits)
next
  case (3 e n col path)
  then show ?case by simp
next
  case (4 e n d ds col path)
  have fin: "finite (whites U c)" for c using 4(5) by (simp add: edge_closed_def whites_def)
  show ?case
  proof (cases "colour_of col d")
    case White
    have v: "visit e n d col path \<noteq> DOut"
        "visit e n d col path = DOk c p \<Longrightarrow> whites U c \<subseteq> whites U col" for c p
      using 4(1) [OF White 4(5)] White 4(6,7) by auto
    show ?thesis
    proof (cases "visit e n d col path")
      case (DOk c p)
      with v(2) have sub: "whites U c \<subseteq> whites U col" by simp
      then have "card (whites U c) \<le> n" using 4(7) card_mono [OF fin sub] by simp
      with 4(2) [OF White DOk 4(5)] 4(6) sub White DOk show ?thesis by auto
    qed (use White v in auto)
  next
    case Gray
    with 4 show ?thesis by auto
  next
    case Black
    with 4 show ?thesis by auto
  qed
qed

lemma cycle_loop_fuel:
  "edge_closed e U \<Longrightarrow> set rs \<subseteq> U \<Longrightarrow> card (whites U col) \<le> n \<Longrightarrow> cycle_loop e n rs col path \<noteq> DOut"
proof (induction rs arbitrary: col path)
  case (Cons r rs)
  show ?case
  proof (cases "colour_of col r = White")
    case True
    have v: "visit e n r col path \<noteq> DOut"
        "visit e n r col path = DOk c p \<Longrightarrow> whites U c \<subseteq> whites U col" for c p
      using visit_fuel(1) [OF Cons.prems(1), of r col n path] True Cons.prems by auto
    have "card (whites U c) \<le> n" if "visit e n r col path = DOk c p" for c p
    proof -
      have "card (whites U c) \<le> card (whites U col)"
        using v(2) [OF that] Cons.prems(1) by (intro card_mono) (simp_all add: edge_closed_def whites_def)
      with Cons.prems(3) show ?thesis by simp
    qed
    with v Cons True show ?thesis by (auto split: dfs.splits)
  qed (use Cons in auto)
qed simp

text \<open>
  What holds between visits: the gray nodes are the path, the path follows edges, and the black nodes
  are settled.
\<close>

definition dfs_inv :: "(ref \<Rightarrow> ref list) \<Rightarrow> colours \<Rightarrow> ref list \<Rightarrow> bool" where
  "dfs_inv e col path \<longleftrightarrow>
     (\<forall>x. colour_of col x = Gray \<longleftrightarrow> x \<in> set path) \<and> distinct path \<and>
     successively (\<lambda>a b. b \<in> set (e a)) path \<and> (\<forall>x. colour_of col x = Black \<longrightarrow> settled e x)"

definition extends_path :: "(ref \<Rightarrow> ref list) \<Rightarrow> ref list \<Rightarrow> ref \<Rightarrow> bool" where
  "extends_path e path r \<longleftrightarrow> (path \<noteq> [] \<longrightarrow> r \<in> set (e (List.last path)))"

definition keeps :: "colours \<Rightarrow> colours \<Rightarrow> bool" where
  "keeps col col' \<longleftrightarrow> (\<forall>x. colour_of col x = Black \<longrightarrow> colour_of col' x = Black)"

lemma cycle_of_path:
  assumes "dfs_inv e col path" "d \<in> set path" "extends_path e path d"
  shows "is_cycle e (dropWhile (\<lambda>p. p \<noteq> d) path @ [d])"
proof -
  let ?q = "dropWhile (\<lambda>p. p \<noteq> d) path"
  have q: "?q \<noteq> []" using assms(2) by (simp add: dropWhile_eq_Nil_conv)
  have "hd ?q = d" using hd_dropWhile [OF q] by simp
  moreover have p: "path = takeWhile (\<lambda>p. p \<noteq> d) path @ ?q" by simp
  have "List.last ?q = List.last path" using q by (metis p last_appendR)
  moreover have "path \<noteq> []" using assms(2) by auto
  moreover have "successively (\<lambda>a b. b \<in> set (e a)) ?q"
    using assms(1) by (subst (asm) dfs_inv_def, subst (asm) p, simp only: successively_append_iff)
  moreover have "2 \<le> length (?q @ [d])" using q by (cases ?q) auto
  ultimately show ?thesis
    using assms(3) q by (simp add: is_cycle_def extends_path_def successively_append_iff)
qed

lemma visit_sound:
  shows "dfs_inv e col path \<Longrightarrow> extends_path e path r \<Longrightarrow> colour_of col r = White \<Longrightarrow>
     (case visit e n r col path of
        DOut \<Rightarrow> True
      | DCycle c \<Rightarrow> is_cycle e c
      | DOk col' path' \<Rightarrow> path' = path \<and> dfs_inv e col' path \<and> colour_of col' r = Black \<and> keeps col col')"
    and "dfs_inv e col path \<Longrightarrow> path \<noteq> [] \<Longrightarrow> set ds \<subseteq> set (e (List.last path)) \<Longrightarrow>
     (case visit_deps e n ds col path of
        DOut \<Rightarrow> True
      | DCycle c \<Rightarrow> is_cycle e c
      | DOk col' path' \<Rightarrow> path' = path \<and> dfs_inv e col' path \<and> (\<forall>d\<in>set ds. colour_of col' d = Black) \<and> keeps col col')"
proof (induction e n r col path and e n ds col path rule: visit_visit_deps.induct)
  case (2 e n r col path)
  let ?c = "put r Gray col" and ?p = "path @ [r]"
  have "r \<notin> set path" using 2(2,4) unfolding dfs_inv_def by (metis colour.distinct(1))
  then have "dfs_inv e ?c ?p"
    using 2(2,3,4) by (auto simp: dfs_inv_def extends_path_def successively_append_iff)
  from 2(1) [OF this] have ih: "case visit_deps e n (e r) ?c ?p of DOut \<Rightarrow> True | DCycle c \<Rightarrow> is_cycle e c
      | DOk col' path' \<Rightarrow> path' = ?p \<and> dfs_inv e col' ?p \<and> (\<forall>d\<in>set (e r). colour_of col' d = Black) \<and> keeps ?c col'"
    by simp
  show ?case
  proof (cases "visit_deps e n (e r) ?c ?p")
    case (DOk col' path')
    with ih have i: "path' = ?p" "dfs_inv e col' ?p" "\<forall>d\<in>set (e r). colour_of col' d = Black" "keeps ?c col'"
      by simp_all
    have "settled e r" using i(2,3) by (intro settledI) (auto simp: dfs_inv_def)
    with i(2) \<open>r \<notin> set path\<close> have "dfs_inv e (put r Black col') path"
      by (auto simp: dfs_inv_def successively_append_iff)
    moreover have "keeps col (put r Black col')" using i(4) 2(4) by (auto simp: keeps_def split: if_splits)
    ultimately show ?thesis using DOk i(1) by simp
  qed (use ih in simp_all)
next
  case (4 e n d ds col path)
  have x: "extends_path e path d" using 4(7) by (simp add: extends_path_def)
  show ?case
  proof (cases "colour_of col d")
    case White
    note v = 4(1) [OF White 4(5) x White]
    show ?thesis
    proof (cases "visit e n d col path")
      case (DOk c p)
      with v have i: "p = path" "dfs_inv e c path" "colour_of c d = Black" "keeps col c" by simp_all
      with 4(2) [OF White DOk] 4(6,7) have "case visit_deps e n ds c path of DOut \<Rightarrow> True | DCycle c \<Rightarrow> is_cycle e c
         | DOk col' path' \<Rightarrow> path' = path \<and> dfs_inv e col' path \<and> (\<forall>d\<in>set ds. colour_of col' d = Black) \<and> keeps c col'"
        by (auto split: dfs.splits)
      with White DOk i show ?thesis by (auto simp: keeps_def split: dfs.splits)
    qed (use White v in simp_all)
  next
    case Gray
    then have "d \<in> set path" using 4(5) by (simp add: dfs_inv_def)
    with Gray cycle_of_path [OF 4(5) _ x] show ?thesis by simp
  next
    case Black
    with 4(4) [OF Black 4(5,6)] 4(7) show ?thesis by (auto simp: keeps_def split: dfs.splits)
  qed
qed (simp_all add: keeps_def)

lemma cycle_loop_sound:
  "dfs_inv e col [] \<Longrightarrow>
   (case cycle_loop e n rs col [] of
      DOut \<Rightarrow> True
    | DCycle c \<Rightarrow> is_cycle e c
    | DOk col' path' \<Rightarrow> dfs_inv e col' [] \<and> (\<forall>r\<in>set rs. colour_of col' r = Black) \<and> keeps col col')"
proof (induction rs arbitrary: col)
  case (Cons r rs)
  show ?case
  proof (cases "colour_of col r = White")
    case True
    note v = visit_sound(1) [OF Cons.prems _ True, of n]
    show ?thesis
    proof (cases "visit e n r col []")
      case (DOk c p)
      with v have i: "p = []" "dfs_inv e c []" "colour_of c r = Black" "keeps col c" by (simp_all add: extends_path_def)
      with Cons.IH [OF i(2)] True DOk show ?thesis by (auto simp: keeps_def split: dfs.splits)
    qed (use True v in \<open>simp_all add: extends_path_def\<close>)
  next
    case False
    then have "colour_of col r = Black"
      using Cons.prems by (cases "colour_of col r") (auto simp: dfs_inv_def)
    with Cons.IH [OF Cons.prems] False show ?thesis by (auto simp: keeps_def split: dfs.splits)
  qed
qed (simp add: keeps_def)

lemma graph_closed:
  assumes "\<forall>r. r \<notin> set order \<longrightarrow> e r = []"
  shows "edge_closed e (set (graph_nodes e order))"
  using assms by (fastforce simp: edge_closed_def graph_nodes_def)

lemma index_of_cycle_facts:
  assumes "\<forall>r. r \<notin> set order \<longrightarrow> e r = []"
  shows "case index_of_cycle e order of Some c \<Rightarrow> is_cycle e c | None \<Rightarrow> \<forall>r. settled e r"
proof -
  let ?U = "set (graph_nodes e order)"
  have "card (whites ?U []) \<le> graph_size e order"
    by (simp add: whites_def colour_of_def graph_size_def card_length)
  then have fuel: "cycle_loop e (graph_size e order) order [] [] \<noteq> DOut"
    by (intro cycle_loop_fuel [OF graph_closed [OF assms]]) (auto simp: graph_nodes_def)
  have "dfs_inv e [] []" by (simp add: dfs_inv_def colour_of_def)
  note sound = cycle_loop_sound [OF this, where n = "graph_size e order" and rs = order]
  show ?thesis
  proof (cases "cycle_loop e (graph_size e order) order [] []")
    case DOut
    with fuel show ?thesis by simp
  next
    case (DCycle c)
    with sound show ?thesis by (simp add: index_of_cycle_def)
  next
    case (DOk col p)
    then have col: "dfs_inv e col []" "\<forall>r\<in>set order. colour_of col r = Black" using sound by simp_all
    have "settled e r" for r
    proof (cases "r \<in> set order")
      case True
      with col show ?thesis unfolding dfs_inv_def by blast
    next
      case False
      with assms have "e r = []" by blast
      then show ?thesis by (intro settledI) simp
    qed
    with DOk show ?thesis by (auto simp: index_of_cycle_def)
  qed
qed

section \<open>The levels are right\<close>

text \<open>The reference: the length of the longest chain of dependencies from a node, up to depth \<open>n\<close>.\<close>

fun height :: "(ref \<Rightarrow> ref list) \<Rightarrow> nat \<Rightarrow> ref \<Rightarrow> int" where
  "height e 0 r = 0"
| "height e (Suc n) r = fold (\<lambda>d h. max h (height e n d + 1)) (e r) 0"

text \<open>Every walk from \<open>r\<close> visits at most \<open>n\<close> nodes.\<close>

fun depth_le :: "(ref \<Rightarrow> ref list) \<Rightarrow> nat \<Rightarrow> ref \<Rightarrow> bool" where
  "depth_le e 0 r = False"
| "depth_le e (Suc n) r = list_all (depth_le e n) (e r)"

lemma depth_le_mono: "depth_le e n r \<Longrightarrow> n \<le> m \<Longrightarrow> depth_le e m r"
proof (induction n arbitrary: m r)
  case (Suc n)
  then show ?case by (cases m) (auto simp: list_all_iff)
qed simp

lemma fold_max_cong: "(\<And>d. d \<in> set ds \<Longrightarrow> f d = g d) \<Longrightarrow> fold (\<lambda>d h. max h (f d)) ds x = fold (\<lambda>d h. max h (g d)) ds (x::int)"
  by (rule fold_cong) simp_all

lemma fold_max_ge: "x \<le> fold (\<lambda>d h. max h (f d)) ds (x::int) \<and> (\<forall>d\<in>set ds. f d \<le> fold (\<lambda>d h. max h (f d)) ds x)"
proof (induction ds arbitrary: x)
  case (Cons d ds)
  from Cons.IH [of "max x (f d)"] show ?case by auto
qed simp

lemma fold_max_in: "fold (\<lambda>d h. max h (f d)) ds (x::int) = x \<or> (\<exists>d\<in>set ds. f d = fold (\<lambda>d h. max h (f d)) ds x)"
proof (induction ds arbitrary: x)
  case (Cons d ds)
  from Cons.IH [of "max x (f d)"] show ?case by (auto simp: max_def)
qed simp

lemma height_stable: "depth_le e n r \<Longrightarrow> n \<le> m \<Longrightarrow> height e m r = height e n r"
proof (induction n arbitrary: m r)
  case (Suc n)
  then obtain k where m: "m = Suc k" "n \<le> k" by (cases m) auto
  have "height e k d + 1 = height e n d + 1" if "d \<in> set (e r)" for d
    using Suc.IH [of d k] Suc.prems(1) m(2) that by (simp add: list_all_iff)
  then have "fold (\<lambda>d h. max h (height e k d + 1)) (e r) 0 = fold (\<lambda>d h. max h (height e n d + 1)) (e r) 0"
    by (rule fold_max_cong)
  then show ?case by (simp only: m(1) height.simps)
qed simp

text \<open>What the level of a node is: one more than the largest level among its dependencies, or 0.\<close>

lemma height_eq:
  assumes "depth_le e n r"
  shows "height e n r = fold (\<lambda>d h. max h (height e n d + 1)) (e r) 0"
proof (cases n)
  case (Suc m)
  have "height e n d + 1 = height e m d + 1" if "d \<in> set (e r)" for d
    using assms that Suc height_stable [of e m d n] by (auto simp: list_all_iff)
  then have "fold (\<lambda>d h. max h (height e n d + 1)) (e r) 0 = fold (\<lambda>d h. max h (height e m d + 1)) (e r) 0"
    by (rule fold_max_cong)
  then show ?thesis by (simp only: Suc height.simps)
qed (use assms in simp)

lemma height_less: "depth_le e n r \<Longrightarrow> d \<in> set (e r) \<Longrightarrow> height e n d < height e n r"
  using fold_max_ge [of 0 "\<lambda>d. height e n d + 1" "e r"] height_eq [of e n r] by fastforce

definition levels_ok :: "(ref \<Rightarrow> ref list) \<Rightarrow> nat \<Rightarrow> levels \<Rightarrow> bool" where
  "levels_ok e m lv \<longleftrightarrow> (\<forall>x l. map_of lv x = Some l \<longrightarrow> l = height e m x)"

lemma level_of_ok:
  shows "depth_le e n r \<Longrightarrow> n \<le> m \<Longrightarrow> levels_ok e m lv \<Longrightarrow>
     \<exists>lv'. level_of e n r lv = Some (height e m r, lv') \<and> levels_ok e m lv' \<and>
           insert r (dom (map_of lv)) \<subseteq> dom (map_of lv')"
    and "list_all (depth_le e n) ds \<Longrightarrow> n \<le> m \<Longrightarrow> levels_ok e m lv \<Longrightarrow>
     \<exists>lv'. level_deps e n ds lvl lv = Some (fold (\<lambda>d h. max h (height e m d + 1)) ds lvl, lv') \<and>
           levels_ok e m lv' \<and> dom (map_of lv) \<subseteq> dom (map_of lv')"
proof (induction e n r lv and e n ds lvl lv rule: level_of_level_deps.induct)
  case (2 e n r lv)
  show ?case
  proof (cases "map_of lv r")
    case None
    have "list_all (depth_le e n) (e r)" "n \<le> m" using 2(2,3) by simp_all
    from 2(1) [OF None this 2(4)] obtain lv' where
      lv': "level_deps e n (e r) 0 lv = Some (fold (\<lambda>d h. max h (height e m d + 1)) (e r) 0, lv')"
        "levels_ok e m lv'" "dom (map_of lv) \<subseteq> dom (map_of lv')" by blast
    have "height e m r = fold (\<lambda>d h. max h (height e m d + 1)) (e r) 0"
      by (rule height_eq) (rule depth_le_mono [OF 2(2,3)])
    with lv' None show ?thesis by (auto simp: levels_ok_def)
  qed (use 2(4) in \<open>auto simp: levels_ok_def\<close>)
next
  case (4 e n d ds lvl lv)
  have "depth_le e n d" using 4(3) by simp
  from 4(1) [OF this 4(4,5)] obtain lv1 where
    l1: "level_of e n d lv = Some (height e m d, lv1)" "levels_ok e m lv1" "dom (map_of lv) \<subseteq> dom (map_of lv1)" by blast
  have "list_all (depth_le e n) ds" using 4(3) by simp
  from 4(2) [OF l1(1) refl this 4(4) l1(2)] obtain lv2 where l2:
      "level_deps e n ds (if lvl < height e m d + 1 then height e m d + 1 else lvl) lv1 =
         Some (fold (\<lambda>d h. max h (height e m d + 1)) ds (if lvl < height e m d + 1 then height e m d + 1 else lvl), lv2)"
      "levels_ok e m lv2" "dom (map_of lv1) \<subseteq> dom (map_of lv2)" by blast
  have "(if lvl < height e m d + 1 then height e m d + 1 else lvl) = max lvl (height e m d + 1)" by auto
  with l2 l1(1,3) show ?case by (simp del: max_less_iff_conj)
qed auto

lemma levels_loop_ok:
  "list_all (depth_le e n) rs \<Longrightarrow> levels_ok e n lv \<Longrightarrow>
   \<exists>lv'. levels_loop e n rs lv = Some lv' \<and> levels_ok e n lv' \<and> set rs \<union> dom (map_of lv) \<subseteq> dom (map_of lv')"
proof (induction rs arbitrary: lv)
  case (Cons r rs)
  then obtain lv1 where l1: "level_of e n r lv = Some (height e n r, lv1)" "levels_ok e n lv1"
      "insert r (dom (map_of lv)) \<subseteq> dom (map_of lv1)"
    using level_of_ok(1) [of e n r n lv] by auto
  from Cons.IH [OF _ l1(2)] Cons.prems(1) obtain lv' where
    "levels_loop e n rs lv1 = Some lv'" "levels_ok e n lv'" "set rs \<union> dom (map_of lv1) \<subseteq> dom (map_of lv')" by auto
  with l1(1,3) show ?case by (intro exI [of _ lv']) (simp, blast)
qed simp

text \<open>In a settled graph a walk never meets a node twice, so the number of nodes bounds its length.\<close>

definition reach :: "(ref \<Rightarrow> ref list) \<Rightarrow> ref \<Rightarrow> ref set" where
  "reach e r = {x. (r, x) \<in> {(a, b). b \<in> set (e a)}\<^sup>*}"

lemma reach_dep: "d \<in> set (e r) \<Longrightarrow> reach e d \<subseteq> reach e r"
  by (auto simp: reach_def intro: converse_rtrancl_into_rtrancl)

lemma settled_not_reach: "settled e r \<Longrightarrow> d \<in> set (e r) \<Longrightarrow> r \<notin> reach e d"
proof (induction arbitrary: d rule: settled.induct)
  case (settledI r)
  show ?case
  proof
    assume r: "r \<in> reach e d"
    then have "r = d \<or> (\<exists>x. x \<in> set (e d) \<and> r \<in> reach e x)"
      by (auto simp: reach_def elim: converse_rtranclE)
    moreover have "d \<in> reach e x" if "r \<in> reach e x" for x
      using that settledI.prems by (auto simp: reach_def intro: rtrancl_into_rtrancl)
    moreover have "\<not> d \<in> reach e x" if "x \<in> set (e d)" for x
      using settledI that by blast
    moreover have "d \<noteq> r" using settledI.IH settledI.prems by (auto simp: reach_def)
    ultimately show False by blast
  qed
qed

lemma settled_depth:
  assumes "settled e r" "edge_closed e U" "r \<in> U"
  shows "depth_le e (card (reach e r)) r \<and> reach e r \<subseteq> U"
  using assms
proof (induction rule: settled.induct)
  case (settledI r)
  have U: "set (e r) \<subseteq> U" "finite U" using settledI.prems unfolding edge_closed_def by blast+
  have "x \<in> U" if "x \<in> reach e r" for x
    using that settledI.prems unfolding reach_def mem_Collect_eq
    by (induction rule: rtrancl_induct) (auto simp: edge_closed_def)
  then have sub: "reach e r \<subseteq> U" by blast
  have s: "settled e r" using settledI.IH by (auto intro: settled.settledI)
  have pos: "0 < card (reach e r)"
    using sub U(2) by (auto simp: card_gt_0_iff reach_def intro: finite_subset)
  have "depth_le e (card (reach e r) - 1) d" if d: "d \<in> set (e r)" for d
  proof -
    have "reach e d \<subset> reach e r"
      using reach_dep [of d e r] d settled_not_reach [OF s] by (auto simp: reach_def)
    then have "card (reach e d) < card (reach e r)"
      using sub U(2) by (intro psubset_card_mono) (auto intro: finite_subset)
    then have "card (reach e d) \<le> card (reach e r) - 1" by simp
    moreover have "depth_le e (card (reach e d)) d" using settledI.IH d U(1) settledI.prems(1) by blast
    ultimately show ?thesis by (rule depth_le_mono [rotated])
  qed
  then have "depth_le e (Suc (card (reach e r) - 1)) r" by (simp add: list_all_iff)
  with pos sub show ?case by simp
qed

lemma settled_depth_le:
  assumes "\<forall>r. settled e r" "\<forall>r. r \<notin> set order \<longrightarrow> e r = []" "r \<in> set order"
  shows "depth_le e (graph_size e order) r"
proof -
  let ?U = "set (graph_nodes e order)"
  have r: "r \<in> ?U" using assms(3) by (simp add: graph_nodes_def)
  have d: "depth_le e (card (reach e r)) r" "reach e r \<subseteq> ?U"
    using settled_depth [OF spec [OF assms(1)] graph_closed [OF assms(2)] r] by simp_all
  then have "card (reach e r) \<le> graph_size e order"
    by (metis List.finite_set card_length card_mono graph_size_def le_trans)
  with d(1) show ?thesis by (rule depth_le_mono)
qed

lemma levels_of_ok:
  assumes "\<forall>r. settled e r" "\<forall>r. r \<notin> set order \<longrightarrow> e r = []"
  shows "\<exists>lv. levels_of e order = Some lv \<and> levels_ok e (graph_size e order) lv \<and> set order \<subseteq> dom (map_of lv)"
proof -
  have "list_all (depth_le e (graph_size e order)) order"
    using settled_depth_le [OF assms] by (simp add: list_all_iff)
  from levels_loop_ok [OF this, of "[]"] show ?thesis by (auto simp: levels_of_def levels_ok_def)
qed

end
