(* ===== verification/Parse.thy ===== *)
theory Parse
  imports Composition Dep_Graph Resource
begin

text \<open>
  \<^verbatim>\<open>internal/parse/parse.go\<close>: from the files of a composition to the index of desired
  resources.

  \<open>schema_ops\<close> holds what the parser calls in \<^verbatim>\<open>internal/schema\<close> besides the method table:
  decoding a document into a resource of a kind (\<^verbatim>\<open>docTo\<close>, which is \<^verbatim>\<open>yaml.v3\<close>), and the
  resolution of references over the whole list, which in Go updates the resources in place and here
  returns them updated.  The walk over a whole tree, which finds
  the files of \<^verbatim>\<open>BuildIndex\<close>, is in the theory \<^verbatim>\<open>Walk\<close>.
\<close>

section \<open>The index\<close>

record 'r schema_ops =
  so_decode :: "kind \<Rightarrow> params \<Rightarrow> string + 'r"
  so_resolve :: "'r list \<Rightarrow> string + 'r list"
  so_secrets :: "'r list \<Rightarrow> string + 'r list"

record 'r index =
  ix_by_ref :: "(ref \<times> 'r) list"
  ix_order :: "ref list"
  ix_files :: "string list"
  ix_root :: string

definition index_by_ref :: "'r index \<Rightarrow> ref \<Rightarrow> 'r option" where
  "index_by_ref idx r = map_of (ix_by_ref idx) r"

text \<open>\<^verbatim>\<open>List\<close>: every reference of the order has an entry.\<close>

definition index_list :: "'r index \<Rightarrow> 'r list" where
  "index_list idx = map (\<lambda>r. the (map_of (ix_by_ref idx) r)) (ix_order idx)"

definition index_counts :: "'r index \<Rightarrow> kind \<Rightarrow> nat" where
  "index_counts idx k = length (filter (\<lambda>r. ref_kind r = k) (ix_order idx))"

section \<open>Documents\<close>

text \<open>\<^verbatim>\<open>newResource\<close>: every kind \<^verbatim>\<open>ParseKind\<close> returns has its case in the switch.\<close>

definition new_resource :: "'r schema_ops \<Rightarrow> params \<Rightarrow> string + 'r" where
  "new_resource so doc =
     (let v = cfg_str (Some doc) ''apiVersion''
      in if v \<noteq> api_version
         then Inl (''unsupported apiVersion '' @ go_quote v @ '' (want '' @ go_quote api_version @ '')'')
         else (case parse_kind (cfg_str (Some doc) ''kind'') of
                 Inl e \<Rightarrow> Inl e
               | Inr k \<Rightarrow> so_decode so k doc))"

text \<open>What the loop over the documents has collected: the map, the ids taken, the order.\<close>

record 'r build =
  bd_by_ref :: "(ref \<times> 'r) list"
  bd_seen :: "(string \<times> ref) list"
  bd_order :: "ref list"

definition empty_build :: "'r build" where
  "empty_build = \<lparr>bd_by_ref = [], bd_seen = [], bd_order = []\<rparr>"

definition kind_name :: "'r methods \<Rightarrow> 'r \<Rightarrow> string" where
  "kind_name mt r = ref_kind (m_ref mt r) @ '': '' @ ref_name (m_ref mt r)"

definition id_key :: "'r methods \<Rightarrow> 'r \<Rightarrow> string" where
  "id_key mt r = m_node mt r @ '':'' @ itoa (m_id mt r)"

text \<open>One decoded resource; the error is the text behind the place.\<close>

definition add_resource :: "'r methods \<Rightarrow> 'r \<Rightarrow> 'r build \<Rightarrow> string + 'r build" where
  "add_resource mt r b =
     (let ref = m_ref mt r; i = m_id mt r; key = id_key mt r
      in case m_validate mt r of
           Some e \<Rightarrow> Inl e
         | None \<Rightarrow>
            (case map_of (bd_by_ref b) ref of
               Some dup \<Rightarrow> Inl (''duplicate resource '' @ ref_str ref @ '' ('' @ kind_name mt dup @ '' also defines it)'')
             | None \<Rightarrow>
                (case (if 0 < i then map_of (bd_seen b) key else None) of
                   Some owner \<Rightarrow>
                     Inl (''PVE id '' @ itoa i @ '' on node '' @ go_quote (m_node mt r) @ '' is claimed by both '' @
                          ref_str owner @ '' and '' @ ref_str ref)
                 | None \<Rightarrow>
                     Inr \<lparr>bd_by_ref = put ref (m_filled mt r) (bd_by_ref b),
                          bd_seen = (if 0 < i then put key ref (bd_seen b) else bd_seen b),
                          bd_order = bd_order b @ [ref]\<rparr>)))"

definition add_doc :: "'r methods \<Rightarrow> 'r schema_ops \<Rightarrow> params \<Rightarrow> 'r build \<Rightarrow> string + 'r build" where
  "add_doc mt so doc b =
     (case new_resource so doc of Inl e \<Rightarrow> Inl e | Inr r \<Rightarrow> add_resource mt r b)"

fun add_docs :: "'r methods \<Rightarrow> 'r schema_ops \<Rightarrow> string \<Rightarrow> nat \<Rightarrow> params list \<Rightarrow> 'r build \<Rightarrow> string + 'r build" where
  "add_docs mt so rel i [] b = Inr b"
| "add_docs mt so rel i (doc # docs) b =
     (case add_doc mt so doc b of
        Inl e \<Rightarrow> Inl (rel @ '' (document '' @ nat_str i @ ''): '' @ e)
      | Inr b \<Rightarrow> add_docs mt so rel (Suc i) docs b)"

fun add_files ::
    "'r methods \<Rightarrow> 'r schema_ops \<Rightarrow> fs \<Rightarrow> string \<Rightarrow> string list \<Rightarrow> 'r build \<Rightarrow> string + 'r build" where
  "add_files mt so fs rdir [] b = Inr b"
| "add_files mt so fs rdir (rel # rels) b =
     (case fs_docs fs (join_path rdir rel) of
        Inl e \<Rightarrow> Inl (rel @ '': '' @ e)
      | Inr docs \<Rightarrow>
          (case add_docs mt so rel 0 docs b of Inl e \<Rightarrow> Inl e | Inr b \<Rightarrow> add_files mt so fs rdir rels b))"

section \<open>Dependencies\<close>

definition resource_edges :: "'r methods \<Rightarrow> 'r \<Rightarrow> ref list" where
  "resource_edges mt r =
     keep_first [] (m_deps mt r @
       (case depends_on (m_metadata mt r) of Inl e \<Rightarrow> [] | Inr ds \<Rightarrow> map dep_ref ds))"

definition edges_for :: "'r methods \<Rightarrow> 'r index \<Rightarrow> ref \<Rightarrow> ref list" where
  "edges_for mt idx r = (case map_of (ix_by_ref idx) r of None \<Rightarrow> [] | Some res \<Rightarrow> resource_edges mt res)"

definition index_levels :: "'r methods \<Rightarrow> 'r index \<Rightarrow> levels option" where
  "index_levels mt idx = levels_of (edges_for mt idx) (ix_order idx)"

fun check_targets :: "'r methods \<Rightarrow> 'r index \<Rightarrow> ref list \<Rightarrow> string option" where
  "check_targets mt idx [] = None"
| "check_targets mt idx (r # rs) =
     (case depends_on_error (m_metadata mt (the (map_of (ix_by_ref idx) r))) of
        Some e \<Rightarrow> Some (ref_str r @ '': '' @ e)
      | None \<Rightarrow>
          (case find (\<lambda>d. map_of (ix_by_ref idx) d = None) (edges_for mt idx r) of
             Some d \<Rightarrow> Some (ref_str r @ '': dependency target '' @ ref_str d @ '' is not defined in the repo'')
           | None \<Rightarrow> check_targets mt idx rs))"

definition cycle_text :: "ref list \<Rightarrow> string" where
  "cycle_text c = join_with ('' '' @ map char_of [226 :: nat, 134, 146] @ '' '') (map ref_str c)"

text \<open>The index with its resources resolved, or the error.\<close>

definition check_deps :: "'r methods \<Rightarrow> 'r schema_ops \<Rightarrow> 'r index \<Rightarrow> string + 'r index" where
  "check_deps mt so idx0 =
     (case so_resolve so (index_list idx0) of
        Inl e \<Rightarrow> Inl e
      | Inr rs \<Rightarrow>
          (let idx = idx0\<lparr>ix_by_ref := zip (ix_order idx0) rs\<rparr>
           in case check_targets mt idx (ix_order idx) of
                Some e \<Rightarrow> Inl e
              | None \<Rightarrow>
                  (case index_of_cycle (edges_for mt idx) (ix_order idx) of
                     Some c \<Rightarrow> Inl (''dependency cycle detected: '' @ cycle_text c)
                   | None \<Rightarrow> Inr idx)))"

section \<open>Building\<close>

text \<open>\<^verbatim>\<open>filepath.Clean("/" + p)\<close> without its slash.\<close>

definition clean_rel :: "string \<Rightarrow> string" where
  "clean_rel p = drop 1 (clean_path (CHR ''/'' # p))"

definition check_file :: "fs \<Rightarrow> string \<Rightarrow> string list \<Rightarrow> string \<Rightarrow> string + string" where
  "check_file fs rdir seen p =
     (let rel = clean_rel p
      in if rel = [] \<or> has_prefix rel ''../'' then Inl (''malformed resource path '' @ go_quote p)
         else if rel \<in> set seen then Inl (''duplicate resource path '' @ go_quote rel @ '' in composition'')
         else (case fs_stat fs (join_path rdir rel) of
                 Inl e \<Rightarrow> Inl (''resource '' @ rel @ '': '' @ e)
               | Inr dir \<Rightarrow>
                   (if dir then Inl (''resource '' @ rel @ '' is a directory, not a manifest'')
                    else if kind_for_path rel = []
                    then Inl (''resource '' @ rel @ '' is not under a recognised kind root (vm/, lxc/, iso/, ctt/)'')
                    else Inr rel)))"

fun check_files :: "fs \<Rightarrow> string \<Rightarrow> string list \<Rightarrow> string list \<Rightarrow> string + string list" where
  "check_files fs rdir files [] = Inr files"
| "check_files fs rdir files (p # ps) =
     (case check_file fs rdir files p of Inl e \<Rightarrow> Inl e | Inr rel \<Rightarrow> check_files fs rdir (files @ [rel]) ps)"

definition build_index :: "'r methods \<Rightarrow> 'r schema_ops \<Rightarrow> fs \<Rightarrow> string \<Rightarrow> string list \<Rightarrow> string + 'r index" where
  "build_index mt so fs rdir files =
     (case add_files mt so fs rdir files empty_build of
        Inl e \<Rightarrow> Inl e
      | Inr b \<Rightarrow> check_deps mt so \<lparr>ix_by_ref = bd_by_ref b, ix_order = bd_order b, ix_files = files, ix_root = rdir\<rparr>)"

definition build_index_from_files :: "'r methods \<Rightarrow> 'r schema_ops \<Rightarrow> fs \<Rightarrow> string \<Rightarrow> string list \<Rightarrow> string + 'r index" where
  "build_index_from_files mt so fs rdir paths =
     (case check_files fs rdir [] paths of
        Inl e \<Rightarrow> Inl e
      | Inr files \<Rightarrow> build_index mt so fs rdir (sort_strings files))"

definition build_cluster_index ::
    "'r methods \<Rightarrow> 'r schema_ops \<Rightarrow> fs \<Rightarrow> string \<Rightarrow> string \<Rightarrow> string list \<Rightarrow> string + 'r index" where
  "build_cluster_index mt so fs rdir cluster configured =
     (if \<not> valid_cluster_name cluster
      then Inl (''cluster name '' @ go_quote cluster @ '' is not a valid composition identity (lowercase alnum + '' @
                [char_of (39::nat)] @ ''-'' @ [char_of (39::nat)] @ '')'')
      else if cluster \<notin> set configured
      then Inl (''cluster '' @ go_quote cluster @ '' is not present in pve.clusters; unknown cluster names fail closed'')
      else (case all_compositions fs rdir configured of
              Inl e \<Rightarrow> Inl e
            | Inr comps \<Rightarrow>
                (case map_of comps cluster of
                   None \<Rightarrow> Inl (''no composition found for cluster '' @ go_quote cluster)
                 | Some c \<Rightarrow> build_index_from_files mt so fs rdir (sorted_files c))))"

end
