(* ===== verification/Parse_Facts.thy ===== *)
theory Parse_Facts
  imports Parse
begin

text \<open>
  What an accepted index guarantees: one resource per reference and per PVE id, every dependency
  defined, no cycle, and levels that grow along dependencies.  \<open>schema_contract\<close> is what the
  parser relies on from the schema operations: resolution changes no resource's identity; with
  \<open>placed_contract\<close>, validation gives every resource a node.
\<close>

section \<open>Identities\<close>

definition same_identity :: "'r methods \<Rightarrow> 'r \<Rightarrow> 'r \<Rightarrow> bool" where
  "same_identity mt a b \<longleftrightarrow> m_ref mt a = m_ref mt b \<and> m_node mt a = m_node mt b \<and> m_id mt a = m_id mt b \<and>
     m_nodes mt a = m_nodes mt b"

locale schema_contract =
  fixes mt :: "'r methods" and so :: "'r schema_ops"
  assumes resolve_identity: "so_resolve so rs = Inr rs' \<Longrightarrow> list_all2 (same_identity mt) rs rs'"
    and secrets_identity: "so_secrets so rs = Inr rs' \<Longrightarrow> list_all2 (same_identity mt) rs rs'"
    and filled_identity: "same_identity mt r (m_filled mt r)"

text \<open>Every entry under its own reference, in the order of the list; guests have ids of their own.\<close>

definition id_distinct :: "'r methods \<Rightarrow> 'r list \<Rightarrow> bool" where
  "id_distinct mt rs \<longleftrightarrow> distinct (map (id_key mt) (filter (\<lambda>r. 0 < m_id mt r) rs))"

definition index_wf :: "'r methods \<Rightarrow> 'r index \<Rightarrow> bool" where
  "index_wf mt idx \<longleftrightarrow> distinct (ix_order idx) \<and> map (m_ref mt) (index_list idx) = ix_order idx \<and>
     set (ix_order idx) = fst ` set (ix_by_ref idx) \<and> id_distinct mt (index_list idx)"

definition build_index_of :: "'r build \<Rightarrow> 'r index" where
  "build_index_of b = \<lparr>ix_by_ref = bd_by_ref b, ix_order = bd_order b, ix_files = [], ix_root = []\<rparr>"

definition build_wf :: "'r methods \<Rightarrow> 'r build \<Rightarrow> bool" where
  "build_wf mt b \<longleftrightarrow> index_wf mt (build_index_of b) \<and>
     fst ` set (bd_seen b) = id_key mt ` {r \<in> set (index_list (build_index_of b)). 0 < m_id mt r}"

lemma build_wf_empty: "build_wf mt empty_build"
  by (simp add: build_wf_def index_wf_def build_index_of_def empty_build_def index_list_def id_distinct_def)

lemma map_of_put_other: "ref \<notin> set rs \<Longrightarrow> map (\<lambda>x. the (map_of (put ref r m) x)) rs = map (\<lambda>x. the (map_of m x)) rs"
  by auto

lemma add_resource_wf:
  assumes "schema_contract mt so" "add_resource mt r b = Inr b'" "build_wf mt b"
  shows "build_wf mt b'"
proof -
  let ?l = "index_list (build_index_of b)" and ?r = "m_filled mt r"
  have same: "m_ref mt ?r = m_ref mt r" "m_id mt ?r = m_id mt r" "id_key mt ?r = id_key mt r"
    using schema_contract.filled_identity [OF assms(1), of r] by (simp_all add: same_identity_def id_key_def)
  have ok: "map_of (bd_by_ref b) (m_ref mt r) = None"
      "0 < m_id mt r \<Longrightarrow> map_of (bd_seen b) (id_key mt r) = None"
    and b': "b' = \<lparr>bd_by_ref = put (m_ref mt r) ?r (bd_by_ref b),
               bd_seen = (if 0 < m_id mt r then put (id_key mt r) (m_ref mt r) (bd_seen b) else bd_seen b),
               bd_order = bd_order b @ [m_ref mt r]\<rparr>"
    using assms(2) by (auto simp: add_resource_def Let_def split: option.splits if_splits)
  have nr: "m_ref mt r \<notin> set (bd_order b)"
    using ok(1) assms(3) by (simp add: build_wf_def index_wf_def build_index_of_def map_of_eq_None_iff)
  then have l: "index_list (build_index_of b') = ?l @ [?r]"
    by (simp add: index_list_def build_index_of_def b' map_of_put_other del: map_of_put) simp
  have "0 < m_id mt r \<Longrightarrow> id_key mt r \<notin> id_key mt ` {r \<in> set ?l. 0 < m_id mt r}"
    using ok(2) assms(3) by (metis build_wf_def map_of_eq_None_iff)
  then have "id_distinct mt (?l @ [?r])"
    using assms(3) by (auto simp: id_distinct_def build_wf_def index_wf_def same)
  moreover have "{x \<in> set (?l @ [?r]). 0 < m_id mt x} =
      (if 0 < m_id mt ?r then insert ?r {x \<in> set ?l. 0 < m_id mt x} else {x \<in> set ?l. 0 < m_id mt x})" by auto
  then have "id_key mt ` {x \<in> set (?l @ [?r]). 0 < m_id mt x} = fst ` set (bd_seen b')"
    using assms(3) by (simp add: same b' build_wf_def)
  ultimately show ?thesis
    using assms(3) nr unfolding build_wf_def index_wf_def l
    by (auto simp: build_index_of_def b' same)
qed

lemma add_docs_wf:
  "schema_contract mt so \<Longrightarrow> add_docs mt so rel i docs b = Inr b' \<Longrightarrow> build_wf mt b \<Longrightarrow> build_wf mt b'"
proof (induction docs arbitrary: i b)
  case (Cons doc docs)
  then show ?case
    by (auto simp: add_doc_def add_resource_wf [OF Cons.prems(1)] split: sum.splits)
qed simp

lemma add_files_wf:
  "schema_contract mt so \<Longrightarrow> add_files mt so fs rdir rels b = Inr b' \<Longrightarrow> build_wf mt b \<Longrightarrow> build_wf mt b'"
proof (induction rels arbitrary: b)
  case (Cons rel rels)
  then show ?case by (auto simp: add_docs_wf split: sum.splits)
qed simp

section \<open>Dependencies\<close>

lemma check_targets_ok:
  "check_targets mt idx rs = None \<Longrightarrow> r \<in> set rs \<Longrightarrow> d \<in> set (edges_for mt idx r) \<Longrightarrow>
   map_of (ix_by_ref idx) d \<noteq> None"
  by (induction rs) (auto simp: find_None_iff split: option.splits)

text \<open>What the dependency check leaves of an index.\<close>

definition index_acyclic :: "'r methods \<Rightarrow> 'r index \<Rightarrow> bool" where
  "index_acyclic mt idx \<longleftrightarrow>
     (\<forall>r. set (edges_for mt idx r) \<subseteq> set (ix_order idx)) \<and> (\<forall>r. settled (edges_for mt idx) r)"

lemma list_all2_index:
  assumes "list_all2 (same_identity mt) rs rs'" "map (m_ref mt) rs = order" "distinct order"
  shows "map (\<lambda>r. the (map_of (zip order rs') r)) order = rs'"
proof -
  have "length order = length rs'" using assms(1,2) by (auto dest: list_all2_lengthD)
  then show ?thesis
    using assms(3) by (intro nth_equalityI) (simp_all add: map_of_zip_nth)
qed

lemma id_distinct_same:
  "list_all2 (same_identity mt) rs rs' \<Longrightarrow>
   map (id_key mt) (filter (\<lambda>r. 0 < m_id mt r) rs) = map (id_key mt) (filter (\<lambda>r. 0 < m_id mt r) rs')"
  by (induction rule: list_all2_induct) (simp_all add: same_identity_def id_key_def)

lemma check_deps_wf:
  assumes "schema_contract mt so" "check_deps mt so idx0 = Inr idx" "index_wf mt idx0"
  shows "index_wf mt idx \<and> index_acyclic mt idx \<and> ix_order idx = ix_order idx0"
proof -
  let ?o = "ix_order idx0"
  obtain rs where rs: "so_resolve so (index_list idx0) = Inr rs" "idx = idx0\<lparr>ix_by_ref := zip ?o rs\<rparr>"
      "check_targets mt idx ?o = None" "index_of_cycle (edges_for mt idx) ?o = None"
    using assms(2) by (auto simp: check_deps_def Let_def split: sum.splits option.splits)
  have same: "list_all2 (same_identity mt) (index_list idx0) rs"
    using rs(1) by (rule schema_contract.resolve_identity [OF assms(1)])
  have o: "map (m_ref mt) (index_list idx0) = ?o" "distinct ?o" using assms(3) by (simp_all add: index_wf_def)
  have l: "index_list idx = rs"
    using list_all2_index [OF same o] by (simp add: index_list_def rs(2))
  have refs: "map (m_ref mt) rs = ?o"
    using same o(1) by (metis (mono_tags, lifting) list_all2_conv_all_nth map_equality_iff same_identity_def)
  have len: "length rs = length ?o" using refs by (metis length_map)
  have id: "id_distinct mt rs"
    using id_distinct_same [OF same] assms(3) by (simp add: id_distinct_def index_wf_def)
  have dom: "set ?o = fst ` set (zip ?o rs)" using len by (metis map_fst_zip set_map)
  have "edges_for mt idx r = []" if "r \<notin> set ?o" for r
    using that dom by (simp add: edges_for_def rs(2) split: option.splits) (metis map_of_eq_None_iff option.distinct(1))
  then have closed: "\<forall>r. r \<notin> set ?o \<longrightarrow> edges_for mt idx r = []" by blast
  have "d \<in> set ?o" if "d \<in> set (edges_for mt idx r)" for r d
  proof -
    have "r \<in> set ?o" using that closed by fastforce
    then have "map_of (zip ?o rs) d \<noteq> None"
      using check_targets_ok [OF rs(3) _ that] by (simp add: rs(2))
    then show ?thesis using dom by (metis map_of_eq_None_iff)
  qed
  moreover have "\<forall>r. settled (edges_for mt idx) r"
    using index_of_cycle_facts [OF closed] rs(4) by simp
  ultimately show ?thesis
    using o(2) l refs id dom by (auto simp: index_acyclic_def index_wf_def rs(2))
qed

lemma build_index_wf:
  assumes "schema_contract mt so" "build_index mt so fs rdir files = Inr idx"
  shows "index_wf mt idx \<and> index_acyclic mt idx"
proof -
  obtain b where b: "add_files mt so fs rdir files empty_build = Inr b"
      "check_deps mt so \<lparr>ix_by_ref = bd_by_ref b, ix_order = bd_order b, ix_files = files, ix_root = rdir\<rparr> = Inr idx"
    using assms(2) by (auto simp: build_index_def split: sum.splits)
  have "index_wf mt \<lparr>ix_by_ref = bd_by_ref b, ix_order = bd_order b, ix_files = files, ix_root = rdir\<rparr>"
    using add_files_wf [OF assms(1) b(1) build_wf_empty]
    by (simp add: build_wf_def build_index_of_def index_wf_def index_list_def)
  from check_deps_wf [OF assms(1) b(2) this] show ?thesis by blast
qed

lemma cluster_index_built:
  assumes "build_cluster_index mt so fs rdir cluster configured = Inr idx"
  shows "\<exists>files. build_index mt so fs rdir files = Inr idx"
  using assms
  by (auto simp: build_cluster_index_def build_index_from_files_def split: if_splits sum.splits option.splits)

lemma in_index_list: "index_wf mt idx \<Longrightarrow> r \<in> set (index_list idx) \<Longrightarrow>
  m_ref mt r \<in> set (ix_order idx) \<and> map_of (ix_by_ref idx) (m_ref mt r) = Some r"
proof -
  assume wf: "index_wf mt idx" and r: "r \<in> set (index_list idx)"
  then obtain x where x: "x \<in> set (ix_order idx)" "r = the (map_of (ix_by_ref idx) x)"
    by (auto simp: index_list_def)
  have "map (\<lambda>x. m_ref mt (the (map_of (ix_by_ref idx) x))) (ix_order idx) = map id (ix_order idx)"
    using wf by (simp add: index_wf_def index_list_def comp_def)
  then have "\<forall>x\<in>set (ix_order idx). m_ref mt (the (map_of (ix_by_ref idx) x)) = x"
    by (simp only: map_eq_conv id_apply)
  moreover have "map_of (ix_by_ref idx) x \<noteq> None"
    using wf x(1) by (auto simp: index_wf_def map_of_eq_None_iff)
  ultimately show ?thesis using x by auto
qed

text \<open>
  A contract on top: what \<^verbatim>\<open>Validate\<close> accepts names its nodes.  Nodes belong to the identity, so
  every resource of an accepted index does.
\<close>

definition placed :: "'r methods \<Rightarrow> 'r \<Rightarrow> bool" where
  "placed mt r \<longleftrightarrow> m_node mt r \<in> set (m_nodes mt r) \<and> [] \<notin> set (m_nodes mt r)"

lemma placed_same: "same_identity mt a b \<Longrightarrow> placed mt b = placed mt a"
  by (simp add: same_identity_def placed_def)

lemma placed_all: "list_all2 (same_identity mt) rs rs' \<Longrightarrow> list_all (placed mt) rs' = list_all (placed mt) rs"
  by (induction rule: list_all2_induct) (simp_all add: placed_same)

locale placed_contract = schema_contract +
  assumes validated_placed: "m_validate mt r = None \<Longrightarrow> placed mt r"
begin

lemma add_resource_placed:
  assumes "add_resource mt r b = Inr b'" "\<forall>x\<in>snd ` set (bd_by_ref b). placed mt x"
  shows "\<forall>x\<in>snd ` set (bd_by_ref b'). placed mt x"
proof -
  have "placed mt (m_filled mt r)"
    using assms(1) validated_placed [of r] placed_same [OF filled_identity [of r]]
    by (simp add: add_resource_def Let_def split: option.splits)
  with assms show ?thesis
    by (auto simp: add_resource_def Let_def split: option.splits if_splits dest!: in_put)
qed

lemma add_docs_placed:
  "add_docs mt so rel i docs b = Inr b' \<Longrightarrow> \<forall>x\<in>snd ` set (bd_by_ref b). placed mt x \<Longrightarrow>
   \<forall>x\<in>snd ` set (bd_by_ref b'). placed mt x"
proof (induction docs arbitrary: i b)
  case (Cons doc docs)
  from Cons.prems(1) obtain r b1 where "add_resource mt r b = Inr b1" "add_docs mt so rel (Suc i) docs b1 = Inr b'"
    by (auto simp: add_doc_def split: sum.splits)
  with Cons.IH add_resource_placed [OF _ Cons.prems(2)] show ?case by blast
qed simp

lemma add_files_placed:
  "add_files mt so fs rdir rels b = Inr b' \<Longrightarrow> \<forall>x\<in>snd ` set (bd_by_ref b). placed mt x \<Longrightarrow>
   \<forall>x\<in>snd ` set (bd_by_ref b'). placed mt x"
proof (induction rels arbitrary: b)
  case (Cons rel rels)
  from Cons.prems(1) obtain docs b1 where "add_docs mt so rel 0 docs b = Inr b1" "add_files mt so fs rdir rels b1 = Inr b'"
    by (auto split: sum.splits)
  with Cons.IH add_docs_placed [OF _ Cons.prems(2)] show ?case by blast
qed simp

lemma index_list_same:
  assumes "list_all2 (same_identity mt) (index_list idx) rs" "index_wf mt idx"
  shows "index_list (idx\<lparr>ix_by_ref := zip (ix_order idx) rs\<rparr>) = rs"
proof -
  have "map (\<lambda>r. the (map_of (zip (ix_order idx) rs) r)) (ix_order idx) = rs"
    by (rule list_all2_index [OF assms(1)]) (use assms(2) in \<open>simp_all add: index_wf_def\<close>)
  then show ?thesis by (simp add: index_list_def)
qed

lemma build_index_placed:
  assumes "build_index mt so fs rdir files = Inr idx"
  shows "list_all (placed mt) (index_list idx)"
proof -
  obtain b where b: "add_files mt so fs rdir files empty_build = Inr b"
      "check_deps mt so \<lparr>ix_by_ref = bd_by_ref b, ix_order = bd_order b, ix_files = files, ix_root = rdir\<rparr> = Inr idx"
    using assms by (auto simp: build_index_def split: sum.splits)
  let ?i = "\<lparr>ix_by_ref = bd_by_ref b, ix_order = bd_order b, ix_files = files, ix_root = rdir\<rparr>"
  have wf: "index_wf mt ?i"
    using add_files_wf [OF schema_contract_axioms b(1) build_wf_empty]
    by (simp add: build_wf_def build_index_of_def index_wf_def index_list_def)
  have "placed mt r" if "r \<in> set (index_list ?i)" for r
    using in_index_list [OF wf that] add_files_placed [OF b(1)] by (force simp: empty_build_def dest: map_of_SomeD)
  then have p: "list_all (placed mt) (index_list ?i)" by (simp add: list_all_iff)
  obtain rs where "so_resolve so (index_list ?i) = Inr rs" "idx = ?i\<lparr>ix_by_ref := zip (ix_order ?i) rs\<rparr>"
    using b(2) by (auto simp: check_deps_def Let_def split: sum.splits option.splits)
  with resolve_identity [OF this(1)] p placed_all index_list_same [OF _ wf] show ?thesis by metis
qed

end

text \<open>The levels of an accepted index exist and grow along dependencies.\<close>

lemma index_closed: "index_wf mt idx \<Longrightarrow> r \<notin> set (ix_order idx) \<Longrightarrow> edges_for mt idx r = []"
  by (simp add: index_wf_def edges_for_def split: option.splits) (metis map_of_eq_None_iff option.distinct(1))

lemma index_levels_ok:
  assumes "index_wf mt idx" "index_acyclic mt idx"
  shows "\<exists>lv. index_levels mt idx = Some lv \<and>
    (\<forall>r\<in>set (ix_order idx). \<exists>l. map_of lv r = Some l \<and>
       (\<forall>d\<in>set (edges_for mt idx r). \<exists>k. map_of lv d = Some k \<and> k < l))"
proof -
  let ?e = "edges_for mt idx" and ?o = "ix_order idx"
  let ?n = "graph_size ?e ?o"
  have s: "\<forall>r. settled ?e r" and t: "\<forall>r. set (?e r) \<subseteq> set ?o" and c: "\<forall>r. r \<notin> set ?o \<longrightarrow> ?e r = []"
    using assms index_closed by (auto simp: index_acyclic_def)
  obtain lv where lv: "levels_of ?e ?o = Some lv" "levels_ok ?e ?n lv" "set ?o \<subseteq> dom (map_of lv)"
    using levels_of_ok [OF s c] by blast
  have h: "map_of lv r = Some (height ?e ?n r)" if "r \<in> set ?o" for r
    using that lv(2,3) by (fastforce simp: levels_ok_def)
  have "\<exists>l. map_of lv r = Some l \<and> (\<forall>d\<in>set (?e r). \<exists>k. map_of lv d = Some k \<and> k < l)" if r: "r \<in> set ?o" for r
  proof (intro exI conjI ballI)
    show "map_of lv r = Some (height ?e ?n r)" by (rule h [OF r])
    fix d
    assume d: "d \<in> set (?e r)"
    then show "map_of lv d = Some (height ?e ?n d)" using t h by blast
    show "height ?e ?n d < height ?e ?n r" by (rule height_less [OF settled_depth_le [OF s c r] d])
  qed
  with lv(1) show ?thesis by (auto simp: index_levels_def)
qed

section \<open>Artifact documents\<close>

text \<open>
  The schema operations on the artifact kinds: \<^verbatim>\<open>ResolveArtifactRefs\<close> and
  \<^verbatim>\<open>ResolveCloudInitSecrets\<close> have no case for them, so they leave the list as it is.
\<close>

definition art_ops :: "(kind \<Rightarrow> params \<Rightarrow> string + art) \<Rightarrow> art schema_ops" where
  "art_ops dec = \<lparr>so_decode = dec, so_resolve = Inr, so_secrets = Inr\<rparr>"

lemma same_identity_refl: "list_all2 (same_identity mt) rs rs" "same_identity mt r r"
  by (simp_all add: list_all2_same same_identity_def)

interpretation art_schema: schema_contract art_methods "art_ops dec" for dec
  by unfold_locales (auto simp: art_ops_def same_identity_refl art_methods_def [THEN arg_cong [where f = m_filled]])

lemma art_validate_placed: "art_validate a = None \<Longrightarrow> artifact_node (art_body a) \<in> set (artifact_all_nodes (art_body a))"
  by (cases a) (auto simp: artifact_node_def artifact_validates artifact_validate_wf artifact_wf_def split: list.split)

lemma artifact_nodes_named: "[] \<notin> set (artifact_all_nodes a)"
  by (auto simp: artifact_all_nodes_def dest: artifact_nodes_nonempty)

interpretation art_placed: placed_contract art_methods "art_ops dec" for dec
  by unfold_locales (simp add: placed_def art_methods_def art_validate_placed artifact_nodes_named)

section \<open>Example\<close>

text \<open>Two ISO images, the second of which depends on the first.\<close>

definition ex_doc :: "string \<Rightarrow> params" where
  "ex_doc nm = [(''apiVersion'', PStr ''proxops/v1alpha1''), (''kind'', PStr ''iso''), (''name'', PStr nm)]"

definition ex_image :: "string \<Rightarrow> (string \<times> string) list \<Rightarrow> art" where
  "ex_image nm ann =
     AISO \<lparr>ar_api_version = api_version, ar_kind = KindISO,
           ar_metadata = \<lparr>md_name = nm, md_namespace = [], md_labels = [], md_annotations = ann\<rparr>,
           ar_spec = \<lparr>as_node = ''n1'', as_nodes = [], as_storage = ''local'', as_filename = nm @ ''.iso'',
                      as_url = ''https://x/'' @ nm @ ''.iso'', as_checksum = \<lparr>ck_algorithm = [], ck_value = []\<rparr>\<rparr>\<rparr>"

definition ex_decode :: "kind \<Rightarrow> params \<Rightarrow> string + art" where
  "ex_decode k doc =
     (let nm = cfg_str (Some doc) ''name''
      in Inr (ex_image nm (if nm = ''b'' then [(depends_on_key, ''ISO:a'')] else [])))"

end
