(* ===== verification/Composition_Facts.thy ===== *)
theory Composition_Facts
  imports Composition
begin

text \<open>
  Facts about paths and compositions: a cleaned absolute path has no dot elements, a path accepted by
  \<open>resolve_within_root\<close> is below the root, and what a successful \<open>all_compositions\<close> guarantees.
\<close>

section \<open>Cleaned absolute paths\<close>

definition plain_elem :: "string \<Rightarrow> bool" where
  "plain_elem e \<longleftrightarrow> e \<noteq> [] \<and> e \<noteq> ''.'' \<and> e \<noteq> ''..'' \<and> CHR ''/'' \<notin> set e"

lemma clean_elems_snoc:
  "clean_elems rooted out (es @ fs) = clean_elems rooted (rev (clean_elems rooted out es)) fs"
  by (induction es arbitrary: out) (auto split: list.splits)

lemma clean_elems_plain: "\<forall>e\<in>set es. plain_elem e \<Longrightarrow> clean_elems rooted out es = rev out @ es"
  by (induction es arbitrary: out) (auto simp: plain_elem_def)

lemma clean_elems_rooted:
  "\<forall>e\<in>set out. plain_elem e \<Longrightarrow> \<forall>e\<in>set es. CHR ''/'' \<notin> set e \<Longrightarrow>
   x \<in> set (clean_elems True out es) \<Longrightarrow> plain_elem x"
proof (induction es arbitrary: out)
  case (Cons e es)
  have ih: "plain_elem x" if "\<forall>e\<in>set out'. plain_elem e" "x \<in> set (clean_elems True out' es)" for out'
    using Cons.IH [OF that(1) _ that(2)] Cons.prems(2) by simp
  show ?case
  proof (cases out)
    case Nil
    with Cons.prems ih [of "[]"] ih [of "[e]"] show ?thesis
      by (auto simp: plain_elem_def split: if_splits)
  next
    case (Cons y ys)
    then have "plain_elem y" "\<forall>e\<in>set ys. plain_elem e" using Cons.prems(1) by simp_all
    with Cons Cons.prems ih [of ys] ih [of out] ih [of "e # out"] show ?thesis
      by (auto simp: plain_elem_def split: if_splits)
  qed
qed simp

lemma path_elems_plain: "is_rooted p \<Longrightarrow> x \<in> set (path_elems p) \<Longrightarrow> plain_elem x"
  unfolding path_elems_def by (rule clean_elems_rooted [where out = "[]"]) (auto dest: split_on_pieces)

lemma split_on_append: "split_on d (a @ d # b) = split_on d a @ split_on d b"
  by (induction a) (auto split: list.splits)

lemma is_rooted_Cons [simp]: "is_rooted (CHR ''/'' # s)"
  by (simp add: is_rooted_def)

lemma is_rooted_iff: "is_rooted p \<longleftrightarrow> (\<exists>q. p = CHR ''/'' # q)"
  by (auto simp: is_rooted_def has_prefix_iff)

text \<open>The elements of an absolute path, from the elements its text has.\<close>

lemma split_join_plain:
  "\<forall>e\<in>set es. plain_elem e \<Longrightarrow> filter (\<lambda>x. x \<noteq> []) (split_on (CHR ''/'') (join_with ''/'' es)) = es"
proof (cases "es = []")
  case False
  assume p: "\<forall>e\<in>set es. plain_elem e"
  then have "split_on (CHR ''/'') (join_with ''/'' es) = es"
    using False by (intro split_on_join) (auto simp: plain_elem_def)
  with p show ?thesis by (simp add: plain_elem_def filter_id_conv)
qed simp

lemma path_elems_abs:
  assumes "\<forall>e\<in>set es. plain_elem e"
  shows "path_elems (CHR ''/'' # join_with ''/'' es) = es"
proof (cases "es = []")
  case False
  have "split_on (CHR ''/'') (CHR ''/'' # join_with ''/'' es) = [] # es"
    using assms False split_on_join [of es "CHR ''/''"] split_on_append_sep [of "CHR ''/''" "[]"]
    by (auto simp: plain_elem_def)
  with assms show ?thesis by (simp add: path_elems_def clean_elems_plain)
qed (simp add: path_elems_def)

lemma clean_path_abs: "is_rooted p \<Longrightarrow> clean_path p = CHR ''/'' # join_with ''/'' (path_elems p)"
  by (simp add: clean_path_def)

lemma path_elems_clean: "is_rooted p \<Longrightarrow> path_elems (clean_path p) = path_elems p"
  by (simp add: clean_path_abs path_elems_abs path_elems_plain)

lemma clean_path_idem: "is_rooted p \<Longrightarrow> clean_path (clean_path p) = clean_path p"
  using path_elems_clean [of p] by (simp add: clean_path_abs)

lemma rel_elems_abs: "is_rooted p \<Longrightarrow> rel_elems p = path_elems p"
  by (simp add: rel_elems_def clean_path_abs split_join_plain path_elems_plain)

lemma path_elems_join:
  assumes "is_rooted a" "\<forall>e\<in>set es. plain_elem e"
  shows "path_elems (a @ ''/'' @ join_with ''/'' es) = path_elems a @ es"
proof -
  have r: "is_rooted (a @ x)" for x using assms(1) by (auto simp: is_rooted_iff)
  have "clean_elems True out (split_on (CHR ''/'') (join_with ''/'' es)) = rev out @ es" for out
  proof (cases "es = []")
    case False
    then have "split_on (CHR ''/'') (join_with ''/'' es) = es"
      using assms(2) by (intro split_on_join) (auto simp: plain_elem_def)
    then show ?thesis by (simp add: clean_elems_plain assms(2))
  qed simp
  then show ?thesis
    using assms(1) r [of "''/'' @ join_with ''/'' es"]
    by (simp add: path_elems_def split_on_append clean_elems_snoc)
qed

section \<open>Staying below the root\<close>

lemma trim_right_slash_clean:
  assumes "is_rooted p"
  shows "trim_right_slash (clean_path p) = (if path_elems p = [] then [] else clean_path p)"
proof (cases "path_elems p = []")
  case False
  define l where "l = List.last (path_elems p)"
  have l: "plain_elem l" using False assms by (simp add: l_def path_elems_plain)
  have "path_elems p = butlast (path_elems p) @ [l]" using False by (simp add: l_def)
  moreover have "\<exists>x. join_with ''/'' (bs @ [l]) = x @ l" for bs
    by (induction bs rule: induct_list012) auto
  ultimately obtain x where x: "clean_path p = x @ l" using assms clean_path_abs by (metis append_Cons)
  then have "clean_path p \<noteq> []" "List.last (clean_path p) \<noteq> CHR ''/''"
    using l by (auto simp: plain_elem_def) (metis last_in_set)
  then show ?thesis
    using False by (cases "clean_path p" rule: rev_cases) auto
qed (simp add: assms clean_path_abs)

lemma strip_common_prefix: "strip_common xs (xs @ ys) = ([], ys)"
  by (induction xs) (cases ys; auto)+

lemma resolve_within:
  assumes "resolve_within_root rdir base rel = (full, True)" "is_rooted rdir" "is_rooted base"
  shows "is_rooted full \<and> clean_path full = full \<and> (\<exists>es. path_elems full = path_elems rdir @ es)"
proof -
  let ?j = "join_with ''/'' (filter (\<lambda>x. x \<noteq> []) [base, rel])"
  have b: "base \<noteq> []" using assms(3) by (auto simp: is_rooted_iff)
  have rj: "is_rooted ?j" using assms(3) by (auto simp: is_rooted_iff)
  have jp: "join_path base rel = clean_path ?j" using b by (simp add: join_path_def)
  have a: "full = clean_path ?j"
    using assms(1) clean_path_idem [OF rj] by (simp only: resolve_within_root_def Let_def jp fst_conv prod.inject)
  have ra: "is_rooted full" "clean_path full = full"
    unfolding a clean_path_idem [OF rj] by (simp_all only: clean_path_abs [OF rj] is_rooted_Cons)
  let ?r = "trim_right_slash (clean_path rdir)"
  have "full = ?r \<or> has_prefix full (?r @ ''/'')"
    using assms(1) by (auto simp: resolve_within_root_def Let_def)
  then have "\<exists>es. path_elems full = path_elems rdir @ es"
  proof
    assume e: "full = ?r"
    then have "path_elems rdir \<noteq> []"
      using ra(1) trim_right_slash_clean [OF assms(2)] by (auto simp: is_rooted_def)
    then have "full = clean_path rdir" using e trim_right_slash_clean [OF assms(2)] by simp
    then show ?thesis using path_elems_clean [OF assms(2)] by auto
  next
    assume "has_prefix full (?r @ ''/'')"
    then obtain q where q: "full = ?r @ CHR ''/'' # q" by (auto simp: has_prefix_iff)
    show ?thesis
    proof (cases "path_elems rdir = []")
      case True
      then show ?thesis by simp
    next
      case False
      then have "?r = clean_path rdir" using trim_right_slash_clean [OF assms(2)] by simp
      have dot: "full \<noteq> ''.''" using ra(1) by (auto simp: is_rooted_def)
      from \<open>?r = clean_path rdir\<close> have "split_on (CHR ''/'') full = split_on (CHR ''/'') (clean_path rdir) @ split_on (CHR ''/'') q"
        by (simp add: q split_on_append)
      then have "rel_elems full = rel_elems rdir @ filter (\<lambda>x. x \<noteq> []) (split_on (CHR ''/'') q)"
        using ra clean_path_abs [OF assms(2)] clean_path_abs [OF ra(1)] dot by (simp add: rel_elems_def)
      then show ?thesis using rel_elems_abs assms(2) ra(1) by metis
    qed
  qed
  with ra show ?thesis by blast
qed

lemma rel_slash_below:
  assumes "is_rooted rdir" "is_rooted full" "clean_path full = full" "path_elems full = path_elems rdir @ es"
    "es \<noteq> []"
  shows "rel_slash rdir full = join_with ''/'' es"
proof -
  have "clean_path rdir \<noteq> clean_path full"
    using assms path_elems_clean by (metis append_self_conv)
  moreover have "is_rooted (clean_path rdir)" "is_rooted (clean_path full)" "clean_path full \<noteq> ''.''"
    using assms(1,2) by (simp_all add: clean_path_abs)
  ultimately show ?thesis
    using assms by (simp add: rel_slash_def rel_path_def rel_elems_abs strip_common_prefix Let_def)
qed

lemma join_path_below:
  assumes "is_rooted rdir" "is_rooted full" "clean_path full = full" "path_elems full = path_elems rdir @ es"
    "es \<noteq> []"
  shows "join_path rdir (join_with ''/'' es) = full"
proof -
  have p: "\<forall>e\<in>set es. plain_elem e" using assms(2,4) path_elems_plain by fastforce
  have "rdir \<noteq> []" using assms(1) by (auto simp: is_rooted_iff)
  moreover have "join_with ''/'' es \<noteq> []"
    using p assms(5) by (cases es rule: list.exhaust; cases "tl es") (auto simp: plain_elem_def)
  ultimately have "join_path rdir (join_with ''/'' es) = clean_path (rdir @ ''/'' @ join_with ''/'' es)"
    by (simp add: join_path_def)
  moreover have "is_rooted (rdir @ ''/'' @ join_with ''/'' es)" using assms(1) by (auto simp: is_rooted_iff)
  ultimately show ?thesis
    using path_elems_join [OF assms(1) p] assms(2,3,4) by (metis clean_path_abs)
qed

section \<open>Compositions\<close>

text \<open>What a path that is listed in a composition is: a manifest below the root that exists.\<close>

definition listed_ok :: "fs \<Rightarrow> string \<Rightarrow> string \<Rightarrow> bool" where
  "listed_ok fs rdir f \<longleftrightarrow>
     is_manifest_ext (path_ext f) \<and> fs_stat fs (join_path rdir f) = Inr False \<and>
     \<not> is_rooted f \<and> ''..'' \<notin> set (split_on (CHR ''/'') f)"

lemma plain_path:
  assumes "\<forall>e\<in>set es. plain_elem e" "es \<noteq> []"
  shows "\<not> is_rooted (join_with ''/'' es)" "''..'' \<notin> set (split_on (CHR ''/'') (join_with ''/'' es))"
proof -
  have s: "split_on (CHR ''/'') (join_with ''/'' es) = es"
    using assms by (intro split_on_join) (auto simp: plain_elem_def)
  then show "''..'' \<notin> set (split_on (CHR ''/'') (join_with ''/'' es))"
    using assms(1) by (auto simp: plain_elem_def)
  show "\<not> is_rooted (join_with ''/'' es)"
  proof
    assume "is_rooted (join_with ''/'' es)"
    then obtain q where "join_with ''/'' es = CHR ''/'' # q" by (auto simp: is_rooted_iff)
    then have "es = [] # split_on (CHR ''/'') q" using s split_on_append_sep [of "CHR ''/''" "[]" q] by simp
    with assms(1) show False by (simp add: plain_elem_def)
  qed
qed

lemma load_entry_ok:
  assumes "load_entry fs rdir base rel_res seen p = Inr f" "is_rooted rdir" "is_rooted base"
  shows "listed_ok fs rdir f \<and> f \<notin> set seen"
proof -
  obtain full where r: "resolve_within_root rdir base p = (full, True)"
    using assms(1) by (cases "resolve_within_root rdir base p") (auto simp: load_entry_def Let_def split: if_splits)
  have f: "f = rel_slash rdir full" "fs_stat fs full = Inr False" "is_manifest_ext (path_ext f)" "f \<notin> set seen"
    using assms(1) by (auto simp: load_entry_def r Let_def split: if_splits sum.splits)
  obtain es where full: "is_rooted full" "clean_path full = full" "path_elems full = path_elems rdir @ es"
    using resolve_within [OF r assms(2,3)] by blast
  have ne: "es \<noteq> []"
  proof
    assume "es = []"
    then have "clean_path rdir = clean_path full"
      using full assms(2) by (simp add: clean_path_abs)
    then have "f = ''.''" by (simp add: f(1) rel_slash_def rel_path_def)
    with f(3) show False by (simp add: is_manifest_ext_def path_ext_def last_index_byte_def to_lower_def lower_char_def is_upper_def)
  qed
  have "\<forall>e\<in>set es. plain_elem e" using full(1,3) path_elems_plain by fastforce
  with f plain_path [OF _ ne] rel_slash_below [OF assms(2) full ne] join_path_below [OF assms(2) full ne]
  show ?thesis by (simp add: listed_ok_def)
qed

lemma load_entries_ok:
  "load_entries fs rdir base rel_res files ps = Inr fs' \<Longrightarrow> is_rooted rdir \<Longrightarrow> is_rooted base \<Longrightarrow>
   distinct files \<Longrightarrow> list_all (listed_ok fs rdir) files \<Longrightarrow>
   distinct fs' \<and> list_all (listed_ok fs rdir) fs'"
proof (induction ps arbitrary: files)
  case (Cons p ps)
  show ?case
  proof (cases "trim_space p = []")
    case False
    then obtain f where f: "load_entry fs rdir base rel_res files (trim_space p) = Inr f"
        "load_entries fs rdir base rel_res (files @ [f]) ps = Inr fs'"
      using Cons.prems(1) by (auto simp: Let_def split: sum.splits)
    with load_entry_ok [OF f(1) Cons.prems(2,3)] Cons.IH [OF f(2) Cons.prems(2,3)] Cons.prems(4,5)
    show ?thesis by simp
  qed (use Cons in simp)
qed simp

lemma is_rooted_join: "is_rooted a \<Longrightarrow> is_rooted (join_path a b)"
proof -
  assume "is_rooted a"
  then have "a \<noteq> []" "is_rooted (join_with ''/'' (filter (\<lambda>x. x \<noteq> []) [a, b]))" by (auto simp: is_rooted_iff)
  then show ?thesis by (simp only: join_path_def clean_path_abs) simp
qed

lemma load_composition_ok:
  assumes "load_composition fs rdir cd name = Inr c" "is_rooted rdir" "is_rooted cd"
  shows "cp_cluster c = name \<and> valid_cluster_name name \<and> distinct (cp_files c) \<and> list_all (listed_ok fs rdir) (cp_files c)"
proof -
  obtain ps rr where "load_entries fs rdir (join_path cd name) rr [] ps = Inr (cp_files c)" "cp_cluster c = name"
      "valid_cluster_name name"
    using assms(1) by (auto simp: load_composition_def Let_def split: if_splits sum.splits comp_file.splits option.splits)
  with load_entries_ok [OF this(1) assms(2) is_rooted_join [OF assms(3)]] show ?thesis by simp
qed

lemma compositions_of_snoc:
  "compositions_of (ls @ [(n, r)]) = (case r of Inl e \<Rightarrow> compositions_of ls | Inr c \<Rightarrow> put n c (compositions_of ls))"
  by (simp add: compositions_of_def split: sum.splits)

lemma compositions_of_in: "(n, c) \<in> set (compositions_of ls) \<Longrightarrow> (n, Inr c) \<in> set ls"
proof (induction ls rule: rev_induct)
  case (snoc x ls)
  then show ?case
    by (cases x) (auto simp: compositions_of_snoc split: sum.splits dest: in_put)
qed (simp add: compositions_of_def)

lemma compositions_of_distinct: "distinct (map fst (compositions_of ls))"
  by (induction ls rule: rev_induct) (auto simp: compositions_of_snoc compositions_of_def split: sum.splits)

end
