(* ===== verification/Parse_Props.thy ===== *)
theory Parse_Props
  imports Parse_Facts Plan_Facts Composition_Facts
begin

text \<open>
  The properties of the desired state: what \<open>build_cluster_index\<close> accepts, that it stays inside the
  repository, what its levels are, and that a plan made from it performs dependencies first.
\<close>

section \<open>The search for a cycle\<close>

lemma settled_cycle_free: "\<forall>r. settled e r \<Longrightarrow> \<not> is_cycle e c"
  using settled_no_cycle by blast

text \<open>
  C37: the cycle check of the index: on dependencies declared by known resources, the search returns
  nothing exactly when no cycle exists, and what it returns is a cycle.
\<close>

theorem cycle_search_exact:
  assumes "\<forall>r. r \<notin> set order \<longrightarrow> e r = []"
  shows "(index_of_cycle e order = None \<longleftrightarrow> (\<nexists>c. is_cycle e c)) \<and>
    (\<forall>c. index_of_cycle e order = Some c \<longrightarrow> is_cycle e c)"
  using index_of_cycle_facts [OF assms] settled_cycle_free [of e] by (auto split: option.splits)

definition ex_edges :: "ref \<Rightarrow> ref list" where
  "ex_edges r =
     (if r = mk_ref ''VM'' ''a'' then [mk_ref ''VM'' ''b'']
      else if r = mk_ref ''VM'' ''b'' then [mk_ref ''VM'' ''c'']
      else if r = mk_ref ''VM'' ''c'' then [mk_ref ''VM'' ''b''] else [])"

theorem cycle_search_exact_witness:
  "index_of_cycle ex_edges [mk_ref ''VM'' ''a'', mk_ref ''VM'' ''b'', mk_ref ''VM'' ''c''] =
     Some [mk_ref ''VM'' ''b'', mk_ref ''VM'' ''c'', mk_ref ''VM'' ''b''] \<and>
   is_cycle ex_edges [mk_ref ''VM'' ''b'', mk_ref ''VM'' ''c'', mk_ref ''VM'' ''b'']"
proof -
  have "\<forall>r. r \<notin> set [mk_ref ''VM'' ''a'', mk_ref ''VM'' ''b'', mk_ref ''VM'' ''c''] \<longrightarrow> ex_edges r = []"
    by (simp add: ex_edges_def)
  note f = cycle_search_exact [OF this]
  have "index_of_cycle ex_edges [mk_ref ''VM'' ''a'', mk_ref ''VM'' ''b'', mk_ref ''VM'' ''c''] =
     Some [mk_ref ''VM'' ''b'', mk_ref ''VM'' ''c'', mk_ref ''VM'' ''b'']" by code_simp
  with f show ?thesis by blast
qed

lemma fold_max_Max: "fold (\<lambda>d h. max h (f d)) ds (x::int) = Max (insert x (f ` set ds))"
proof (induction ds arbitrary: x)
  case (Cons d ds)
  have "insert x (f ` set (d # ds)) = insert x (insert (f d) (f ` set ds))" by simp
  then show ?case using Cons.IH [of "max x (f d)"] by (cases "ds = []") (simp_all add: max.assoc)
qed simp

section \<open>What an accepted index guarantees\<close>

text \<open>A repository with one cluster, whose second image depends on the first.\<close>

definition ex_repo :: fs where
  "ex_repo =
     \<lparr>fs_list = (\<lambda>d. if d = ''/repo/clusters'' then Entries [(''lab'', True)] else NoDir),
      fs_stat = (\<lambda>p. if p = ''/repo/iso/base/a.yaml'' \<or> p = ''/repo/iso/base/b.yaml'' then Inr False
                     else Inl ''no such file''),
      fs_comp = (\<lambda>p. if p = ''/repo/clusters/lab/resources.yaml''
                     then CompFile (Inr [''../../iso/base/b.yaml'', ''../../iso/base/a.yaml'']) None else NoFile),
      fs_docs = (\<lambda>p. if p = ''/repo/iso/base/a.yaml'' then Inr [ex_doc ''a''] else Inr [ex_doc ''b''])\<rparr>"

definition ex_index :: "art index" where
  "ex_index =
     \<lparr>ix_by_ref = [(mk_ref ''ISO'' ''a'', ex_image ''a'' []), (mk_ref ''ISO'' ''b'', ex_image ''b'' [(depends_on_key, ''ISO:a'')])],
      ix_order = [mk_ref ''ISO'' ''a'', mk_ref ''ISO'' ''b''],
      ix_files = [''iso/base/a.yaml'', ''iso/base/b.yaml''], ix_root = ''/repo''\<rparr>"

lemma ex_index_built:
  "build_cluster_index art_methods (art_ops ex_decode) ex_repo ''/repo'' ''lab'' [''lab''] = Inr ex_index"
  by code_simp

section \<open>What a cluster reads\<close>

text \<open>A path that stays below the directory it is joined to.\<close>

definition confined :: "string \<Rightarrow> bool" where
  "confined f \<longleftrightarrow> f \<noteq> [] \<and> \<not> is_rooted f \<and> ''..'' \<notin> set (split_on (CHR ''/'') f)"

lemma clean_rel_confined: "clean_rel p \<noteq> [] \<Longrightarrow> confined (clean_rel p)"
proof -
  assume ne: "clean_rel p \<noteq> []"
  let ?es = "path_elems (CHR ''/'' # p)"
  have eq: "clean_rel p = join_with ''/'' ?es" by (simp add: clean_rel_def clean_path_abs)
  have plain: "\<forall>e\<in>set ?es. plain_elem e" using path_elems_plain [of "CHR ''/'' # p"] by simp
  have "?es \<noteq> []" using ne eq by auto
  from plain_path [OF plain this] ne show ?thesis by (simp add: confined_def eq)
qed

lemma check_file_ok:
  "check_file fs rdir seen p = Inr f \<Longrightarrow>
   f = clean_rel p \<and> confined f \<and> f \<notin> set seen \<and> fs_stat fs (join_path rdir f) = Inr False \<and> kind_for_path f \<noteq> []"
  using clean_rel_confined [of p] by (auto simp: check_file_def Let_def split: if_splits sum.splits)

definition file_ok :: "fs \<Rightarrow> string \<Rightarrow> string \<Rightarrow> bool" where
  "file_ok fs rdir f \<longleftrightarrow> confined f \<and> fs_stat fs (join_path rdir f) = Inr False \<and> kind_for_path f \<noteq> []"

lemma check_files_ok:
  "check_files fs rdir files ps = Inr fs' \<Longrightarrow> distinct files \<Longrightarrow>
   distinct fs' \<and> set fs' = set files \<union> clean_rel ` set ps \<and> (list_all (file_ok fs rdir) files \<longrightarrow> list_all (file_ok fs rdir) fs')"
proof (induction ps arbitrary: files)
  case (Cons p ps)
  then obtain f where f: "check_file fs rdir files p = Inr f" "check_files fs rdir (files @ [f]) ps = Inr fs'"
    by (auto split: sum.splits)
  note ok = check_file_ok [OF f(1)]
  have "distinct (files @ [f])" using ok Cons.prems(2) by auto
  from Cons.IH [OF f(2) this] ok show ?case by (simp add: file_ok_def insert_commute) blast
qed simp

text \<open>Nothing but \<open>add_files\<close> reads the documents of a file.\<close>

lemma check_file_docs: "check_file (fs\<lparr>fs_docs := d\<rparr>) rdir seen p = check_file fs rdir seen p"
  by (simp add: check_file_def Let_def)

lemma check_files_docs: "check_files (fs\<lparr>fs_docs := d\<rparr>) rdir files ps = check_files fs rdir files ps"
  by (induction ps arbitrary: files) (simp_all add: check_file_docs split: sum.split)

lemma add_files_docs:
  "\<forall>f\<in>set rels. d (join_path rdir f) = fs_docs fs (join_path rdir f) \<Longrightarrow>
   add_files mt so (fs\<lparr>fs_docs := d\<rparr>) rdir rels b = add_files mt so fs rdir rels b"
  by (induction rels arbitrary: b) (auto split: sum.splits)

lemma load_entry_docs: "load_entry (fs\<lparr>fs_docs := d\<rparr>) rdir base rr seen p = load_entry fs rdir base rr seen p"
  by (simp add: load_entry_def Let_def)

lemma load_entries_docs: "load_entries (fs\<lparr>fs_docs := d\<rparr>) rdir base rr files ps = load_entries fs rdir base rr files ps"
  by (induction ps arbitrary: files) (simp_all add: load_entry_docs Let_def split: sum.split)

lemma load_composition_docs: "load_composition (fs\<lparr>fs_docs := d\<rparr>) rdir cd n = load_composition fs rdir cd n"
  by (simp add: load_composition_def load_entries_docs Let_def)

lemma repo_shape_docs: "check_repo_shape (fs\<lparr>fs_docs := d\<rparr>) rdir = check_repo_shape fs rdir"
proof -
  have "repo_shape_loop (fs\<lparr>fs_docs := d\<rparr>) rdir ks = repo_shape_loop fs rdir ks" for ks
    by (induction ks) (simp_all split: dir_listing.split option.split)
  then show ?thesis by (simp add: check_repo_shape_def)
qed

lemma all_compositions_docs: "all_compositions (fs\<lparr>fs_docs := d\<rparr>) rdir conf = all_compositions fs rdir conf"
  by (simp add: all_compositions_def composition_errors_def load_clusters_def load_composition_docs repo_shape_docs
      Let_def cong: list.case_cong dir_listing.case_cong)

lemma build_index_files:
  "build_index mt so fs rdir files = Inr idx \<Longrightarrow> ix_files idx = files"
  by (auto simp: build_index_def check_deps_def Let_def split: sum.splits option.splits)

lemma load_entries_distinct:
  "load_entries fs rdir base rr files ps = Inr fs' \<Longrightarrow> distinct files \<Longrightarrow> distinct fs'"
  by (induction ps arbitrary: files) (auto simp: load_entry_def Let_def split: if_splits sum.splits)

lemma load_composition_shape:
  "load_composition fs rdir cd name = Inr c \<Longrightarrow> cp_cluster c = name \<and> valid_cluster_name name \<and> distinct (cp_files c)"
  by (auto simp: load_composition_def Let_def split: if_splits sum.splits comp_file.splits option.splits
      dest: load_entries_distinct)

lemma composition_loaded:
  assumes "all_compositions fs rdir configured = Inr comps" "(n, c) \<in> set comps"
  shows "load_composition fs rdir (join_path rdir ''clusters'') n = Inr c"
proof -
  have "comps = compositions_of (load_clusters fs rdir)"
    using assms(1) by (auto simp: all_compositions_def split: list.splits)
  with assms(2) have "(n, Inr c) \<in> set (load_clusters fs rdir)" by (simp add: compositions_of_in)
  then show ?thesis by (auto simp: load_clusters_def split: dir_listing.splits)
qed

lemma compositions_shape:
  assumes "all_compositions fs rdir configured = Inr comps"
  shows "fst ` set comps = set configured" "distinct (map fst comps)"
    "\<forall>(n, c)\<in>set comps. cp_cluster c = n \<and> valid_cluster_name n \<and> distinct (sorted_files c)"
    "is_rooted rdir \<Longrightarrow> \<forall>(n, c)\<in>set comps. \<forall>f\<in>set (sorted_files c). listed_ok fs rdir f"
proof -
  have e: "composition_errors fs rdir configured = []" and c: "comps = compositions_of (load_clusters fs rdir)"
    using assms by (auto simp: all_compositions_def split: list.splits)
  show "fst ` set comps = set configured"
    using e by (auto simp: composition_errors_def Let_def c filter_empty_conv)
  show "distinct (map fst comps)" by (simp add: c compositions_of_distinct)
  note l = composition_loaded [OF assms]
  show "\<forall>(n, c)\<in>set comps. cp_cluster c = n \<and> valid_cluster_name n \<and> distinct (sorted_files c)"
    using load_composition_shape [OF l] by (auto simp: sorted_files_def sort_strings_eq_sort)
  show "\<forall>(n, c)\<in>set comps. \<forall>f\<in>set (sorted_files c). listed_ok fs rdir f" if "is_rooted rdir"
    using load_composition_ok [OF l that is_rooted_join [OF that]]
    by (auto simp: sorted_files_def sort_strings_eq_sort list_all_iff)
qed

text \<open>
  C11: the cluster boundary.  An index of a cluster is built only when every composition of the
  repository is accepted: the clusters that have one are exactly the configured clusters, each under a
  valid name and listing every file once.  The files of the index are those of the cluster's own
  composition, each an existing file under a kind root, named by a path relative to the repository root
  without any \<open>..\<close> element, whatever the root is; and the documents of no other file matter for the
  result.  For an absolute root the composition itself already lists only such manifests.
\<close>

theorem index_confined:
  assumes "build_cluster_index mt so fs rdir cluster configured = Inr idx"
  shows "\<exists>comps c. all_compositions fs rdir configured = Inr comps \<and> map_of comps cluster = Some c \<and>
    fst ` set comps = set configured \<and> distinct (map fst comps) \<and>
    (\<forall>(n, c)\<in>set comps. cp_cluster c = n \<and> valid_cluster_name n \<and> distinct (sorted_files c) \<and>
       (is_rooted rdir \<longrightarrow> (\<forall>f\<in>set (sorted_files c). listed_ok fs rdir f))) \<and>
    distinct (ix_files idx) \<and> set (ix_files idx) = clean_rel ` set (sorted_files c) \<and>
    (\<forall>f\<in>set (ix_files idx). confined f \<and> fs_stat fs (join_path rdir f) = Inr False \<and> kind_for_path f \<noteq> []) \<and>
    (\<forall>d. (\<forall>f\<in>set (ix_files idx). d (join_path rdir f) = fs_docs fs (join_path rdir f)) \<longrightarrow>
       build_cluster_index mt so (fs\<lparr>fs_docs := d\<rparr>) rdir cluster configured = Inr idx)"
proof -
  from assms obtain comps c files where a: "all_compositions fs rdir configured = Inr comps" "map_of comps cluster = Some c"
    "check_files fs rdir [] (sorted_files c) = Inr files" "build_index mt so fs rdir (sort_strings files) = Inr idx"
    by (auto simp: build_cluster_index_def build_index_from_files_def split: if_splits sum.splits option.splits)
  have ix: "ix_files idx = sort_strings files" by (rule build_index_files [OF a(4)])
  from check_files_ok [OF a(3)] have f: "distinct files" "set files = clean_rel ` set (sorted_files c)"
    "list_all (file_ok fs rdir) files" by simp_all
  have "build_cluster_index mt so (fs\<lparr>fs_docs := d\<rparr>) rdir cluster configured = Inr idx"
    if "\<forall>f\<in>set (ix_files idx). d (join_path rdir f) = fs_docs fs (join_path rdir f)" for d
  proof -
    have "build_index mt so (fs\<lparr>fs_docs := d\<rparr>) rdir (sort_strings files) = Inr idx"
      using a(4) add_files_docs [of "sort_strings files" d rdir fs mt so empty_build] that
      by (simp add: build_index_def ix)
    then show ?thesis
      using assms a by (simp add: build_cluster_index_def build_index_from_files_def all_compositions_docs check_files_docs
          split: if_splits)
  qed
  with a(1,2) f compositions_shape [OF a(1)] show ?thesis
    by (intro exI [of _ comps] exI [of _ c]) (auto simp: ix sort_strings_eq_sort file_ok_def list_all_iff)
qed

theorem index_confined_witness:
  "ix_files ex_index = [''iso/base/a.yaml'', ''iso/base/b.yaml''] \<and> list_all confined (ix_files ex_index) \<and>
   build_cluster_index art_methods (art_ops ex_decode)
     (ex_repo\<lparr>fs_docs := (fs_docs ex_repo)(''/repo/iso/stray.yaml'' := fs_docs ex_repo ''/repo/iso/base/a.yaml'')\<rparr>)
     ''/repo'' ''lab'' [''lab''] = Inr ex_index"
proof -
  let ?d = "(fs_docs ex_repo)(''/repo/iso/stray.yaml'' := fs_docs ex_repo ''/repo/iso/base/a.yaml'')"
  have files: "ix_files ex_index = [''iso/base/a.yaml'', ''iso/base/b.yaml'']" by (simp add: ex_index_def)
  have same: "\<forall>f\<in>set (ix_files ex_index). ?d (join_path ''/repo'' f) = fs_docs ex_repo (join_path ''/repo'' f)"
  proof -
    have "\<forall>f\<in>set [''iso/base/a.yaml'', ''iso/base/b.yaml'']. join_path ''/repo'' f \<noteq> ''/repo/iso/stray.yaml''" by code_simp
    then show ?thesis unfolding files by simp
  qed
  from index_confined [OF ex_index_built] have "list_all confined (ix_files ex_index)"
    "build_cluster_index art_methods (art_ops ex_decode) (ex_repo\<lparr>fs_docs := ?d\<rparr>) ''/repo'' ''lab'' [''lab''] = Inr ex_index"
    using same unfolding list_all_iff by blast+
  with files show ?thesis by blast
qed

text \<open>
  A relative root may be above the process directory, and then the check of a composition lets a
  path out of it: \<open>../x.yaml\<close> is accepted for the root \<open>..\<close>, where it is one level above the root.  The
  parser cleans the listed path once more and reads \<open>x.yaml\<close> in the root instead.
\<close>

lemma relative_root_escapes:
  "resolve_within_root ''..'' ''../clusters/lab'' ''../../../x.yaml'' = (''../../x.yaml'', True)"
  "rel_slash ''..'' ''../../x.yaml'' = ''../x.yaml''" "clean_rel ''../x.yaml'' = ''x.yaml''"
  by code_simp+

section \<open>Soundness of an index\<close>

text \<open>
  C12: an accepted index has one resource per reference and per positive PVE id and node, and finds
  each under its reference; every dependency of a resource, implied by its fields or declared in its
  annotation, is a resource of the same index; and the dependencies have no cycle.
\<close>

theorem index_sound:
  assumes "schema_contract mt so" "build_cluster_index mt so fs rdir cluster configured = Inr idx"
  shows "cluster \<in> set configured \<and> distinct (map (m_ref mt) (index_list idx)) \<and> id_distinct mt (index_list idx) \<and>
    (\<forall>r\<in>set (index_list idx). index_by_ref idx (m_ref mt r) = Some r \<and>
       set (resource_edges mt r) \<subseteq> m_ref mt ` set (index_list idx)) \<and>
    (\<nexists>c. is_cycle (edges_for mt idx) c)"
proof -
  obtain files where "build_index mt so fs rdir files = Inr idx" using cluster_index_built [OF assms(2)] ..
  then have wf: "index_wf mt idx" and ac: "index_acyclic mt idx" using build_index_wf [OF assms(1)] by blast+
  have "cluster \<in> set configured" using assms(2) by (auto simp: build_cluster_index_def split: if_splits)
  moreover have "set (resource_edges mt r) \<subseteq> m_ref mt ` set (index_list idx)" if "r \<in> set (index_list idx)" for r
  proof -
    have "resource_edges mt r = edges_for mt idx (m_ref mt r)" using in_index_list [OF wf that] by (simp add: edges_for_def)
    with ac wf show ?thesis by (simp add: index_acyclic_def index_wf_def) (metis list.set_map)
  qed
  ultimately show ?thesis
    using wf ac in_index_list [OF wf] settled_cycle_free [of "edges_for mt idx"]
    by (auto simp: index_wf_def index_acyclic_def index_by_ref_def)
qed

theorem index_sound_witness:
  "set (resource_edges art_methods (ex_image ''b'' [(depends_on_key, ''ISO:a'')])) = {mk_ref ''ISO'' ''a''} \<and>
   index_by_ref ex_index (mk_ref ''ISO'' ''b'') = Some (ex_image ''b'' [(depends_on_key, ''ISO:a'')]) \<and>
   (\<nexists>c. is_cycle (edges_for art_methods ex_index) c)"
proof -
  note f = index_sound [OF art_schema.schema_contract_axioms ex_index_built]
  have "set (resource_edges art_methods (ex_image ''b'' [(depends_on_key, ''ISO:a'')])) = {mk_ref ''ISO'' ''a''}" by code_simp
  moreover have "ex_image ''b'' [(depends_on_key, ''ISO:a'')] \<in> set (index_list ex_index)" by code_simp
  moreover have "m_ref art_methods (ex_image ''b'' [(depends_on_key, ''ISO:a'')]) = mk_ref ''ISO'' ''b''" by code_simp
  ultimately show ?thesis using f by metis
qed

text \<open>
  The levels of an accepted index are computed (the recursion ends) and are the longest distance
  to a resource without dependencies: one more than the largest level of a dependency, or 0.
\<close>

theorem index_levels_longest:
  assumes "schema_contract mt so" "build_cluster_index mt so fs rdir cluster configured = Inr idx"
  shows "\<exists>lv. index_levels mt idx = Some lv \<and> (\<forall>r\<in>set (ix_order idx).
    map_of lv r = Some (Max (insert 0 ((\<lambda>d. the (map_of lv d) + 1) ` set (edges_for mt idx r)))))"
proof -
  let ?e = "edges_for mt idx" and ?o = "ix_order idx"
  let ?n = "graph_size ?e ?o"
  obtain files where "build_index mt so fs rdir files = Inr idx" using cluster_index_built [OF assms(2)] ..
  then have wf: "index_wf mt idx" and ac: "index_acyclic mt idx" using build_index_wf [OF assms(1)] by blast+
  then have s: "\<forall>r. settled ?e r" and t: "\<forall>r. set (?e r) \<subseteq> set ?o" and c: "\<forall>r. r \<notin> set ?o \<longrightarrow> ?e r = []"
    using index_closed by (auto simp: index_acyclic_def)
  obtain lv where lv: "levels_of ?e ?o = Some lv" "levels_ok ?e ?n lv" "set ?o \<subseteq> dom (map_of lv)"
    using levels_of_ok [OF s c] by blast
  have h: "map_of lv r = Some (height ?e ?n r)" if "r \<in> set ?o" for r
    using that lv(2,3) by (fastforce simp: levels_ok_def)
  have "map_of lv r = Some (Max (insert 0 ((\<lambda>d. the (map_of lv d) + 1) ` set (?e r))))" if r: "r \<in> set ?o" for r
  proof -
    have "(\<lambda>d. the (map_of lv d) + 1) ` set (?e r) = (\<lambda>d. height ?e ?n d + 1) ` set (?e r)"
    proof (intro image_cong refl)
      fix d
      assume "d \<in> set (?e r)"
      then have "d \<in> set ?o" using t by blast
      from h [OF this] show "the (map_of lv d) + 1 = height ?e ?n d + 1" by simp
    qed
    then show ?thesis
      using h [OF r] height_eq [OF settled_depth_le [OF s c r]] by (simp add: fold_max_Max)
  qed
  with lv(1) show ?thesis by (auto simp: index_levels_def)
qed

theorem index_levels_longest_witness:
  "index_levels art_methods ex_index = Some [(mk_ref ''ISO'' ''a'', 0), (mk_ref ''ISO'' ''b'', 1)] \<and>
   (\<exists>lv. index_levels art_methods ex_index = Some lv \<and> (\<forall>r\<in>set (ix_order ex_index).
      map_of lv r = Some (Max (insert 0 ((\<lambda>d. the (map_of lv d) + 1) ` set (edges_for art_methods ex_index r))))))"
  by (intro conjI index_levels_longest [OF art_schema.schema_contract_axioms ex_index_built]) code_simp

section \<open>A plan respects the dependencies\<close>

text \<open>The options the caller builds from the index: its edges and its levels.\<close>

definition index_options :: "'r methods \<Rightarrow> 'r index \<Rightarrow> int \<Rightarrow> string list \<Rightarrow> plan_options" where
  "index_options mt idx budget allow =
     \<lparr>po_budget = budget,
      po_levels = Some (\<lambda>r. case index_levels mt idx of None \<Rightarrow> 0
                              | Some lv \<Rightarrow> (case map_of lv r of None \<Rightarrow> 0 | Some l \<Rightarrow> l)),
      po_edges = Some (edges_for mt idx), po_allow = allow\<rparr>"

text \<open>
  C13: in the plan of an accepted index, what a resource depends on is acted on first: if an action's
  resource depends on another action's resource, the other action stands before it.
\<close>

theorem plan_respects_dependencies:
  assumes "schema_contract mt so" "build_cluster_index mt so fs rdir cluster configured = Inr idx"
    and "plan_actions mt (index_list idx) live (index_options mt idx budget allow) = Inr p"
    and "i < length (pl_actions p)" "j < length (pl_actions p)"
    and "\<not> ac_prune (pl_actions p ! i)" "\<not> ac_prune (pl_actions p ! j)"
    and "ac_ref (pl_actions p ! i) \<in> set (edges_for mt idx (ac_ref (pl_actions p ! j)))"
  shows "i < j"
proof (rule ccontr)
  let ?a = "pl_actions p ! i" and ?b = "pl_actions p ! j" and ?opts = "index_options mt idx budget allow"
  obtain files where "build_index mt so fs rdir files = Inr idx" using cluster_index_built [OF assms(2)] ..
  then have wf: "index_wf mt idx" and ac: "index_acyclic mt idx" using build_index_wf [OF assms(1)] by blast+
  obtain lv where lv: "index_levels mt idx = Some lv" "\<forall>r\<in>set (ix_order idx). \<exists>l. map_of lv r = Some l \<and>
       (\<forall>d\<in>set (edges_for mt idx r). \<exists>k. map_of lv d = Some k \<and> k < l)"
    using index_levels_ok [OF wf ac] by blast
  have in_p: "?a \<in> set (pl_actions p)" "?b \<in> set (pl_actions p)" using assms(4,5) by auto
  have a: "ac_tier ?a = 0 \<and> ac_level ?a = opt_level ?opts (ac_ref ?a)"
    by (rule plan_action_cases [OF assms(3) in_p(1)]) (use assms(6) in \<open>auto simp: action_for_def Let_def prune_action_def\<close>)
  have b: "ac_tier ?b = 0 \<and> ac_level ?b = opt_level ?opts (ac_ref ?b)"
    by (rule plan_action_cases [OF assms(3) in_p(2)]) (use assms(7) in \<open>auto simp: action_for_def Let_def prune_action_def\<close>)
  have "ac_ref ?b \<in> set (ix_order idx)" using assms(8) index_closed [OF wf] by fastforce
  then obtain l k where "map_of lv (ac_ref ?b) = Some l" "map_of lv (ac_ref ?a) = Some k" "k < l"
    using lv(2) assms(8) by blast
  with lv(1) a b have "plan_key ?a < plan_key ?b" by (simp add: plan_key_def opt_level_def index_options_def)
  moreover assume "\<not> i < j"
  then have "plan_key ?b \<le> plan_key ?a"
    using plan_sorted_key [OF assms(3)] assms(4) by (simp add: sorted_iff_nth_mono)
  ultimately show False by simp
qed

definition ex_absent :: live_inventory where
  "ex_absent = \<lparr>lv_configs = [(''n1|ISO|local:a.iso'', Some [(''present'', PBool False)]),
                               (''n1|ISO|local:b.iso'', Some [(''present'', PBool False)])],
                lv_power = [], lv_listing = [], lv_template_keys = []\<rparr>"

definition ex_dep_plan :: "string + plan" where
  "ex_dep_plan = plan_actions art_methods (index_list ex_index) (Some ex_absent)
     (index_options art_methods ex_index 3 [''n1''])"

lemma ex_dep_plan_ok:
  "plan_actions art_methods (index_list ex_index) (Some ex_absent) (index_options art_methods ex_index 3 [''n1'']) =
     Inr (projr ex_dep_plan)"
proof -
  have "\<not> isl ex_dep_plan" by code_simp
  then show ?thesis unfolding ex_dep_plan_def
    by (cases "plan_actions art_methods (index_list ex_index) (Some ex_absent)
                 (index_options art_methods ex_index 3 [''n1''])") auto
qed

theorem plan_respects_dependencies_witness:
  "map (ref_name \<circ> ac_ref) (pl_actions (projr ex_dep_plan)) = [''a'', ''b''] \<and> (0::nat) < 1"
proof (intro conjI)
  show "map (ref_name \<circ> ac_ref) (pl_actions (projr ex_dep_plan)) = [''a'', ''b'']" by code_simp
  show "(0::nat) < 1"
    by (rule plan_respects_dependencies [OF art_schema.schema_contract_axioms ex_index_built ex_dep_plan_ok]) code_simp+
qed

end
