(* ===== verification/Reconcile.thy ===== *)
theory Reconcile
  imports Exec_Run Parse_Props Live
begin

text \<open>
  \<^verbatim>\<open>internal/reconcile/reconcile.go\<close>: one reconcile cycle, from the git tree to the executor.

  The git source is a theory of its own (\<^verbatim>\<open>Gitx\<close>): \<open>sync\<close> is what it returns in one cycle, the outcome of
  \<^verbatim>\<open>Fetch\<close>, the revision, the work directory and the file tree found there.  The PVE client and
  the status store are the \<open>xstate\<close> the executor shares with the reconciler, as \<^verbatim>\<open>app.go\<close> wires
  them.  The log and the Prometheus counters are not modelled.
\<close>

section \<open>Data\<close>

record sync =
  sy_err :: "string option"
  sy_rev :: string
  sy_dir :: string
  sy_fs :: fs

record 'r reconciler =
  rc_budget :: int
  rc_cluster :: string
  rc_allow :: "string list"
  rc_configured :: "string list"
  rc_exec :: "executor option"
  rc_last_good :: "'r index option"
  rc_last_commit :: string
  rc_stale :: bool

text \<open>\<^verbatim>\<open>New\<close> on its non-nil options: the budget and the cluster default.\<close>

definition new_reconciler :: "int \<Rightarrow> string \<Rightarrow> string list \<Rightarrow> string list \<Rightarrow> executor option \<Rightarrow> 'r reconciler" where
  "new_reconciler budget cluster allow configured xc =
     \<lparr>rc_budget = (if budget \<le> 0 then default_budget else budget),
      rc_cluster = (if cluster = [] then ''default'' else cluster),
      rc_allow = allow,
      rc_configured = (if cluster = [] \<and> configured = [] then [''default''] else configured),
      rc_exec = xc, rc_last_good = None, rc_last_commit = [], rc_stale = False\<rparr>"

record cycle_result =
  rs_aborted :: bool
  rs_reason :: string
  rs_commit :: string
  rs_stale :: bool
  rs_actions :: nat
  rs_actions_ok :: nat
  rs_actions_err :: nat
  rs_pruned :: nat
  rs_prune_deferred :: nat
  rs_skipped :: nat
  rs_anomalies :: "string list"
  rs_anomaly :: string

definition fresh_result :: "string \<Rightarrow> bool \<Rightarrow> cycle_result" where
  "fresh_result commit stale =
     \<lparr>rs_aborted = False, rs_reason = [], rs_commit = commit, rs_stale = stale, rs_actions = 0,
      rs_actions_ok = 0, rs_actions_err = 0, rs_pruned = 0, rs_prune_deferred = 0, rs_skipped = 0,
      rs_anomalies = [], rs_anomaly = []\<rparr>"

text \<open>An update of the status store at the client's time.\<close>

definition on_store :: "(int \<Rightarrow> store \<Rightarrow> store) \<Rightarrow> xstate \<Rightarrow> xstate" where
  "on_store f x = x\<lparr>xs_store := map_option (f (c_now (xs_client x))) (xs_store x)\<rparr>"

text \<open>\<^verbatim>\<open>res.Aborted = true\<close> and \<^verbatim>\<open>FinishCycle(true, reason)\<close>.\<close>

definition abort_cycle :: "string \<Rightarrow> cycle_result \<Rightarrow> xstate \<Rightarrow> cycle_result \<times> xstate" where
  "abort_cycle reason res x =
     (res\<lparr>rs_aborted := True, rs_reason := reason\<rparr>, on_store (\<lambda>now. finish_cycle now True reason) x)"

section \<open>The node allowlist\<close>

definition bad_node :: "string list \<Rightarrow> 'r methods \<Rightarrow> 'r \<Rightarrow> string option" where
  "bad_node allow mt r = find (\<lambda>n. n \<noteq> [] \<and> n \<notin> set allow) (m_nodes mt r)"

fun first_bad_node :: "string list \<Rightarrow> string \<Rightarrow> 'r methods \<Rightarrow> 'r list \<Rightarrow> string option" where
  "first_bad_node allow cluster mt [] = None"
| "first_bad_node allow cluster mt (r # rs) =
     (case bad_node allow mt r of
        Some n \<Rightarrow> Some (ref_str (m_ref mt r) @ '' references node '' @ go_quote n @
          '' which is not in pve.clusters.'' @ cluster @ ''.nodes (allowed: ['' @ join_with '' '' allow @ ''])'')
      | None \<Rightarrow> first_bad_node allow cluster mt rs)"

definition check_node_allowlist :: "string list \<Rightarrow> string \<Rightarrow> 'r methods \<Rightarrow> 'r list \<Rightarrow> string option" where
  "check_node_allowlist allow cluster mt rs = (if allow = [] then None else first_bad_node allow cluster mt rs)"

section \<open>The desired state of a cycle\<close>

text \<open>
  Step 1: the sync.  Without a tree the cycle is over before it began; a failed sync over an earlier
  tree marks the cycle stale.
\<close>

definition sync_commit :: "'r reconciler \<Rightarrow> sync \<Rightarrow> bool" where
  "sync_commit rc sy \<longleftrightarrow> sy_err sy = None \<or> rc_last_good rc \<noteq> None"

definition not_ready :: string where
  "not_ready = ''git sync failed and no previous good tree available''"

text \<open>Step 2: parse the composition and resolve the secrets; the error is the reason of the abort.\<close>

definition desired_index :: "'r methods \<Rightarrow> 'r schema_ops \<Rightarrow> 'r reconciler \<Rightarrow> sync \<Rightarrow> string + 'r index" where
  "desired_index mt so rc sy =
     (case build_cluster_index mt so (sy_fs sy) (sy_dir sy) (rc_cluster rc) (rc_configured rc) of
        Inl e \<Rightarrow> Inl (''manifest parse error: '' @ e)
      | Inr idx \<Rightarrow>
          (case so_secrets so (index_list idx) of
             Inl e \<Rightarrow> Inl (''cloud-init secret resolution: '' @ e)
           | Inr rs \<Rightarrow> Inr (idx\<lparr>ix_by_ref := zip (ix_order idx) rs\<rparr>)))"

section \<open>Recording what the plan shows\<close>

definition action_names :: "plan \<Rightarrow> string list" where
  "action_names p = map (\<lambda>a. ac_kind a @ ''/'' @ ac_name a) (pl_actions p)"

definition desired_object :: "'r methods \<Rightarrow> string \<Rightarrow> plan \<Rightarrow> 'r \<Rightarrow> object" where
  "desired_object mt cluster p r =
     (let ref = m_ref mt r
      in \<lparr>ob_kind = ref_kind ref, ob_name = ref_name ref, ob_cluster = cluster, ob_node = m_node mt r, ob_id = m_id mt r,
          ob_state = (if ref_kind ref @ ''/'' @ ref_name ref \<in> set (action_names p) then Drifting else Converged),
          ob_last_action = [], ob_last_error = [], ob_converged_at = None, ob_prune_reason = [], ob_updated_at = None\<rparr>)"

text \<open>
  The loop over \<^verbatim>\<open>byName\<close> visits a Go map; the records it writes have different keys
  (\<open>index_sound\<close>), so here it visits the resources in the order of the index.
\<close>

definition record_desired :: "'r methods \<Rightarrow> string \<Rightarrow> plan \<Rightarrow> 'r list \<Rightarrow> int \<Rightarrow> store \<Rightarrow> store" where
  "record_desired mt cluster p rs now s = fold (\<lambda>r. set_object now (desired_object mt cluster p r)) rs s"

definition anomaly_object :: "string \<Rightarrow> action \<Rightarrow> object" where
  "anomaly_object cluster a =
     \<lparr>ob_kind = ac_kind a, ob_name = ac_name a, ob_cluster = cluster, ob_node = ac_node a, ob_id = ac_id a,
      ob_state = Anomalous, ob_last_action = action_text (ac_what a), ob_last_error = ac_reason a,
      ob_converged_at = None, ob_prune_reason = [], ob_updated_at = None\<rparr>"

definition record_anomalies :: "string \<Rightarrow> plan \<Rightarrow> int \<Rightarrow> store \<Rightarrow> store" where
  "record_anomalies cluster p now s =
     fold (\<lambda>a s. set_object now (anomaly_object cluster a) (bump_anomaly s)) (pl_anomalies p) s"

section \<open>Executing\<close>

text \<open>Step 5 and 6 on a plan: a dry run only counts; otherwise the executor runs.\<close>

definition plan_result :: "plan \<Rightarrow> cycle_result \<Rightarrow> cycle_result" where
  "plan_result p res =
     res\<lparr>rs_anomaly := pl_anomaly p, rs_anomalies := map ac_reason (pl_anomalies p),
         rs_actions := length (pl_actions p), rs_skipped := length (pl_skipped p),
         rs_prune_deferred := length (pl_deferred p)\<rparr>"

definition bump_all_skipped :: "plan \<Rightarrow> store \<Rightarrow> store" where
  "bump_all_skipped p = bump_skipped ^^ length (pl_skipped p)"

definition run_plan ::
    "env \<Rightarrow> ctx \<Rightarrow> executor option \<Rightarrow> plan \<Rightarrow> cycle_result \<Rightarrow> xstate \<Rightarrow> cycle_result \<times> xstate" where
  "run_plan env cx exc p res x =
     (case exc of
        None \<Rightarrow> (plan_result p res, on_store (\<lambda>now. finish_cycle now False []) (on_store (\<lambda>_. bump_all_skipped p) x))
      | Some xc \<Rightarrow>
          (let r = exec_run env cx xc p x
           in ((plan_result p res)\<lparr>rs_actions_ok := length (filter xr_ok (fst r)),
                 rs_actions_err := length (filter (\<lambda>q. \<not> xr_ok q) (fst r)),
                 rs_pruned := length (filter (\<lambda>q. xr_ok q \<and> ac_prune (xr_action q)) (fst r))\<rparr>,
               on_store (\<lambda>now. finish_cycle now False []) (on_store (\<lambda>_. bump_all_skipped p) (snd r)))))"

section \<open>One cycle\<close>

record 'r cycle_out =
  co_result :: cycle_result
  co_plan :: "plan option"
  co_fatal :: "string option"
  co_reconciler :: "'r reconciler"
  co_state :: xstate

definition aborted :: "'r reconciler \<Rightarrow> string option \<Rightarrow> cycle_result \<times> xstate \<Rightarrow> 'r cycle_out" where
  "aborted rc fatal ra =
     \<lparr>co_result = fst ra, co_plan = None, co_fatal = fatal, co_reconciler = rc, co_state = snd ra\<rparr>"

text \<open>Steps 4 to 6 on the live inventory.\<close>

definition plan_and_run ::
    "env \<Rightarrow> ctx \<Rightarrow> 'r methods \<Rightarrow> 'r reconciler \<Rightarrow> 'r index \<Rightarrow> live_inventory \<Rightarrow> cycle_result \<Rightarrow> xstate \<Rightarrow> 'r cycle_out" where
  "plan_and_run env cx mt rc idx live res x =
     (case plan_actions mt (index_list idx) (Some live) (index_options mt idx (rc_budget rc) (rc_allow rc)) of
        Inl e \<Rightarrow> aborted rc (Some (''plan: '' @ e)) (abort_cycle (''plan error: '' @ e) res x)
      | Inr p \<Rightarrow>
          (let x1 = on_store (record_desired mt (rc_cluster rc) p (index_list idx)) x;
               x2 = on_store (record_anomalies (rc_cluster rc) p) x1;
               rr = run_plan env cx (rc_exec rc) p res x2
           in \<lparr>co_result = fst rr, co_plan = Some p, co_fatal = None, co_reconciler = rc, co_state = snd rr\<rparr>))"

text \<open>Steps 2b to 6 on an accepted index.\<close>

definition reconcile_index ::
    "env \<Rightarrow> ctx \<Rightarrow> 'r methods \<Rightarrow> 'r reconciler \<Rightarrow> 'r index \<Rightarrow> cycle_result \<Rightarrow> xstate \<Rightarrow> 'r cycle_out" where
  "reconcile_index env cx mt rc idx res x =
     (case check_node_allowlist (rc_allow rc) (rc_cluster rc) mt (index_list idx) of
        Some e \<Rightarrow> aborted rc None (abort_cycle (''unknown node: '' @ e) res x)
      | None \<Rightarrow>
          (let l = load_live env cx mt (index_list idx) (rc_allow rc) (xs_client x); x = x\<lparr>xs_client := snd l\<rparr>
           in case fst l of
                Inl e \<Rightarrow> aborted rc None (abort_cycle (''pve inventory read failed: '' @ err_text e) res x)
              | Inr live \<Rightarrow> plan_and_run env cx mt rc idx live res x))"

definition run_one_cycle ::
    "env \<Rightarrow> ctx \<Rightarrow> 'r methods \<Rightarrow> 'r schema_ops \<Rightarrow> sync \<Rightarrow> 'r reconciler \<Rightarrow> xstate \<Rightarrow> 'r cycle_out" where
  "run_one_cycle env cx mt so sy rc x =
     (let begin = (\<lambda>commit stale. on_store (\<lambda>now. begin_cycle now commit stale (rc_exec rc = None)) x)
      in if \<not> sync_commit rc sy
         then aborted rc None (abort_cycle not_ready (fresh_result (rc_last_commit rc) False)
                (begin (rc_last_commit rc) False))
         else (let stale = (sy_err sy \<noteq> None); rc = rc\<lparr>rc_stale := stale\<rparr>;
                   res = fresh_result (sy_rev sy) stale; x = begin (sy_rev sy) stale
               in case desired_index mt so rc sy of
                    Inl e \<Rightarrow> aborted rc None (abort_cycle e res x)
                  | Inr idx \<Rightarrow>
                      reconcile_index env cx mt (rc\<lparr>rc_last_good := Some idx, rc_last_commit := sy_rev sy\<rparr>) idx res x))"

end
