(* ===== verification/Vm_Types.thy ===== *)
theory Vm_Types
  imports Resource
begin

text \<open>
  The VM manifest of \<^verbatim>\<open>internal/schema/vm.go\<close> as records, with the parts of the
  \<^verbatim>\<open>Resource\<close> interface that only read it.  The unexported fields the resolvers fill
  (\<^verbatim>\<open>imageVolid\<close>, \<^verbatim>\<open>cdromVolid\<close>, \<^verbatim>\<open>cloneSourceID\<close>, the resolved secrets) are
  fields here too; a nil pointer is \<open>None\<close>.
\<close>

section \<open>Data\<close>

record cpu =
  cp_type :: string
  cp_cores :: int
  cp_flags :: "string list"

record disk =
  dk_storage :: string
  dk_size :: string
  dk_image :: string
  dk_slot :: string
  dk_controller :: string
  dk_iothread :: bool
  dk_discard :: string
  dk_ssd :: "bool option"
  dk_aio :: string
  dk_image_volid :: string

record nic =
  ni_model :: string
  ni_bridge :: string
  ni_mac :: string
  ni_firewall :: bool
  ni_rate :: int
  ni_vlan :: int
  ni_slot :: string

record cd_drive =
  cd_iso :: string
  cd_media :: string

record efi_disk =
  ef_storage :: string
  ef_size :: string
  ef_template :: string
  ef_secure_boot :: string

record cloud_init =
  ci_enabled :: bool
  ci_storage :: string
  ci_size :: string

record ip_config =
  ip_nic :: int
  ip_addr :: string
  ip_gateway :: string

record cloud_init_data =
  cd_user :: string
  cd_ssh_keys :: "string list"
  cd_ssh_key_refs :: "string list"
  cd_password_ref :: string
  cd_nameservers :: "string list"
  cd_search_domains :: "string list"
  cd_ip_configs :: "ip_config list"
  cd_resolved_keys :: "string list"
  cd_resolved_password :: string

record pci_device =
  pd_slot :: string
  pd_device :: string
  pd_pcie :: "bool option"

record vm_hardware =
  hw_machine :: string
  hw_bios :: string
  hw_display :: string
  hw_cdrom :: cd_drive
  hw_efi :: "efi_disk option"
  hw_cloud_init :: cloud_init
  hw_tpm :: "string option"
  hw_serial0 :: string
  hw_numa :: bool
  hw_sockets :: int
  hw_pci :: "pci_device list"

record vm_opts =
  op_onboot :: bool
  op_startup :: string
  op_protection :: bool
  op_agent :: bool
  op_acpi :: bool
  op_tablet :: bool
  op_hotplug :: "string list"
  op_boot_order :: "string list"
  op_nested_virt :: bool
  op_hidden :: bool

record vm_spec =
  vs_node :: string
  vs_vmid :: int
  vs_pve_name :: string
  vs_description :: string
  vs_tags :: "string list"
  vs_cpu :: cpu
  vs_memory :: string
  vs_disks :: "disk list"
  vs_nics :: "nic list"
  vs_hardware :: vm_hardware
  vs_options :: vm_opts
  vs_cloud_data :: cloud_init_data
  vs_extra :: "(string \<times> string) list"
  vs_state :: string
  vs_clone :: string

record vm =
  vm_api_version :: string
  vm_kind :: kind
  vm_metadata :: metadata
  vm_spec :: vm_spec
  vm_cdrom_volid :: string
  vm_clone_source :: int

section \<open>The zero values\<close>

definition new_disk :: disk where
  "new_disk = \<lparr>dk_storage = [], dk_size = [], dk_image = [], dk_slot = [], dk_controller = [], dk_iothread = False,
     dk_discard = [], dk_ssd = None, dk_aio = [], dk_image_volid = []\<rparr>"

definition zero_nic :: nic where
  "zero_nic = \<lparr>ni_model = [], ni_bridge = [], ni_mac = [], ni_firewall = False, ni_rate = 0, ni_vlan = 0, ni_slot = []\<rparr>"

definition zero_cloud_data :: cloud_init_data where
  "zero_cloud_data = \<lparr>cd_user = [], cd_ssh_keys = [], cd_ssh_key_refs = [], cd_password_ref = [], cd_nameservers = [],
     cd_search_domains = [], cd_ip_configs = [], cd_resolved_keys = [], cd_resolved_password = []\<rparr>"

definition zero_hardware :: vm_hardware where
  "zero_hardware = \<lparr>hw_machine = [], hw_bios = [], hw_display = [], hw_cdrom = \<lparr>cd_iso = [], cd_media = []\<rparr>,
     hw_efi = None, hw_cloud_init = \<lparr>ci_enabled = False, ci_storage = [], ci_size = []\<rparr>, hw_tpm = None,
     hw_serial0 = [], hw_numa = False, hw_sockets = 0, hw_pci = []\<rparr>"

definition zero_opts :: vm_opts where
  "zero_opts = \<lparr>op_onboot = False, op_startup = [], op_protection = False, op_agent = False, op_acpi = False,
     op_tablet = False, op_hotplug = [], op_boot_order = [], op_nested_virt = False, op_hidden = False\<rparr>"

definition zero_vm_spec :: vm_spec where
  "zero_vm_spec = \<lparr>vs_node = [], vs_vmid = 0, vs_pve_name = [], vs_description = [], vs_tags = [],
     vs_cpu = \<lparr>cp_type = [], cp_cores = 0, cp_flags = []\<rparr>, vs_memory = [], vs_disks = [], vs_nics = [],
     vs_hardware = zero_hardware, vs_options = zero_opts, vs_cloud_data = zero_cloud_data, vs_extra = [],
     vs_state = [], vs_clone = []\<rparr>"

definition new_vm :: vm where
  "new_vm = \<lparr>vm_api_version = api_version, vm_kind = KindVM, vm_metadata = empty_metadata, vm_spec = zero_vm_spec,
     vm_cdrom_volid = [], vm_clone_source = 0\<rparr>"

definition new_template_vm :: vm where
  "new_template_vm = new_vm\<lparr>vm_kind := KindTemplateVM\<rparr>"

section \<open>Reading the manifest\<close>

definition vm_ref :: "vm \<Rightarrow> ref" where
  "vm_ref v = mk_ref (vm_kind v) (md_name (vm_metadata v))"

definition vm_node :: "vm \<Rightarrow> string" where
  "vm_node v = vs_node (vm_spec v)"

definition vm_nodes :: "vm \<Rightarrow> string list" where
  "vm_nodes v = (if vs_node (vm_spec v) = [] then [] else [vs_node (vm_spec v)])"

definition vm_id :: "vm \<Rightarrow> int" where
  "vm_id v = vs_vmid (vm_spec v)"

definition vm_desired_state :: "vm \<Rightarrow> string" where
  "vm_desired_state v = (case parse_state (vs_state (vm_spec v)) of Inr s \<Rightarrow> s | Inl _ \<Rightarrow> ''started'')"

definition clone_name :: "vm \<Rightarrow> string" where
  "clone_name v = trim_space (vs_clone (vm_spec v))"

definition is_clone_backed :: "vm \<Rightarrow> bool" where
  "is_clone_backed v \<longleftrightarrow> clone_name v \<noteq> []"

definition cdrom_none :: string where "cdrom_none = ''none''"

text \<open>\<^verbatim>\<open>Deps\<close> up to the clone edge, which \<^verbatim>\<open>TemplateVM.Deps\<close> repeats.\<close>

definition artifact_deps :: "vm \<Rightarrow> ref list" where
  "artifact_deps v =
     (let iso = trim_space (cd_iso (hw_cdrom (vs_hardware (vm_spec v))))
      in (if iso \<noteq> [] \<and> iso \<noteq> cdrom_none then [mk_ref KindISO iso] else []) @
         map (\<lambda>d. mk_ref KindDiskImage (trim_space (dk_image d)))
           (filter (\<lambda>d. trim_space (dk_image d) \<noteq> []) (vs_disks (vm_spec v))))"

definition vm_deps :: "vm \<Rightarrow> ref list" where
  "vm_deps v = artifact_deps v @ (if clone_name v \<noteq> [] then [mk_ref KindTemplateVM (clone_name v)] else [])"

definition template_vm_deps :: "vm \<Rightarrow> ref list" where
  "template_vm_deps v = (if clone_name v = [] then vm_deps v else artifact_deps v)"

text \<open>The slot a list entry stands for: its own, or the prefix with its position.\<close>

definition slot_or :: "string \<Rightarrow> nat \<Rightarrow> string \<Rightarrow> string" where
  "slot_or prefix i s = (if s = [] then prefix @ nat_str i else s)"

definition disk_slots :: "vm \<Rightarrow> (string \<times> disk) list" where
  "disk_slots v = map (\<lambda>(i, d). (slot_or ''scsi'' i (dk_slot d), d)) (enumerate 0 (vs_disks (vm_spec v)))"

definition nic_slots :: "vm \<Rightarrow> (string \<times> nic) list" where
  "nic_slots v = map (\<lambda>(i, n). (slot_or ''net'' i (ni_slot n), n)) (enumerate 0 (vs_nics (vm_spec v)))"

definition pve_name :: "vm \<Rightarrow> string" where
  "pve_name v = (if vs_pve_name (vm_spec v) \<noteq> [] then vs_pve_name (vm_spec v) else md_name (vm_metadata v))"

text \<open>\<^verbatim>\<open>allTags\<close>: first occurrences in order, the ownership tag added when missing.\<close>

definition all_tags :: "string list \<Rightarrow> string list" where
  "all_tags tags = keep_first [] tags @ (if ''proxops'' \<in> set tags then [] else [''proxops''])"

fun vm_scsi_hw :: "disk list \<Rightarrow> string" where
  "vm_scsi_hw [] = []"
| "vm_scsi_hw (d # ds) = (if dk_controller d \<noteq> [] then dk_controller d else vm_scsi_hw ds)"

section \<open>The cdrom's state\<close>

datatype cdrom_state = Unmanaged | Detached | Attached

definition cdrom_managed_state :: "vm \<Rightarrow> cdrom_state" where
  "cdrom_managed_state v =
     (let iso = trim_space (cd_iso (hw_cdrom (vs_hardware (vm_spec v))))
      in if iso = [] then Unmanaged else if iso = cdrom_none then Detached else Attached)"

definition cdrom_slot :: "vm \<Rightarrow> string" where
  "cdrom_slot v = (if ci_enabled (hw_cloud_init (vs_hardware (vm_spec v))) then ''ide3'' else ''ide2'')"

definition cdrom_source :: "vm \<Rightarrow> string" where
  "cdrom_source v = (if vm_cdrom_volid v = [] then cd_iso (hw_cdrom (vs_hardware (vm_spec v))) else vm_cdrom_volid v)"

definition cdrom_wire_value :: "vm \<Rightarrow> string" where
  "cdrom_wire_value v =
     (case cdrom_managed_state v of
        Unmanaged \<Rightarrow> []
      | Detached \<Rightarrow> cdrom_none
      | Attached \<Rightarrow>
          (let m = cd_media (hw_cdrom (vs_hardware (vm_spec v)))
           in cdrom_source v @ '',media='' @ (if m = [] then ''cdrom'' else m)))"

section \<open>Facts\<close>

lemma all_tags_set: "set (all_tags tags) = insert ''proxops'' (set tags)"
  by (auto simp: all_tags_def keep_first_set)

lemma artifact_deps_kind: "r \<in> set (artifact_deps v) \<Longrightarrow> ref_kind r \<in> {KindISO, KindDiskImage}"
  by (auto simp: artifact_deps_def mk_ref_def Let_def split: if_splits)

end
