(* ===== verification/Go_Net.thy ===== *)
theory Go_Net
  imports Go_Prelude
begin

text \<open>
  The parts of Go's \<^verbatim>\<open>net\<close> and \<^verbatim>\<open>net/url\<close> the schema layer uses: \<^verbatim>\<open>ParseIP\<close> and
  \<^verbatim>\<open>ParseCIDR\<close> as tests, \<^verbatim>\<open>QueryUnescape\<close>, and the percent-encoding of
  \<^verbatim>\<open>pveURLEncode\<close>.
\<close>

section \<open>Addresses\<close>

text \<open>One decimal field of a dotted quad: one to three digits, no leading zero, at most 255.\<close>

definition ipv4_field :: "string \<Rightarrow> bool" where
  "ipv4_field s \<longleftrightarrow> s \<noteq> [] \<and> list_all is_digit s \<and> (length s = 1 \<or> hd s \<noteq> CHR ''0'') \<and> length s \<le> 3 \<and> digits_val s \<le> 255"

definition is_ipv4 :: "string \<Rightarrow> bool" where
  "is_ipv4 s \<longleftrightarrow> (let fs = split_on (CHR ''.'') s in length fs = 4 \<and> list_all ipv4_field fs)"

definition is_hex :: "char \<Rightarrow> bool" where
  "is_hex c \<longleftrightarrow> is_digit c \<or> c \<in> set ''abcdefABCDEF''"

definition hex_group :: "string \<Rightarrow> bool" where
  "hex_group s \<longleftrightarrow> s \<noteq> [] \<and> length s \<le> 4 \<and> list_all is_hex s"

text \<open>
  How many 16-bit groups a part of an IPv6 address spells; the last field of the address may be a
  dotted quad, which is two groups.
\<close>

definition ipv6_groups :: "bool \<Rightarrow> string \<Rightarrow> nat option" where
  "ipv6_groups final s =
     (if s = [] then Some 0
      else (let gs = split_on (CHR '':'') s
            in if list_all hex_group gs then Some (length gs)
               else if final \<and> list_all hex_group (butlast gs) \<and> is_ipv4 (List.last gs) then Some (length gs + 1)
               else None))"

definition is_ipv6 :: "string \<Rightarrow> bool" where
  "is_ipv6 s \<longleftrightarrow>
     (case index_sub s ''::'' of
        None \<Rightarrow> ipv6_groups True s = Some 8
      | Some i \<Rightarrow>
          (case (ipv6_groups False (take i s), ipv6_groups True (drop (i + 2) s)) of
             (Some a, Some b) \<Rightarrow> a + b \<le> 7
           | _ \<Rightarrow> False))"

text \<open>\<^verbatim>\<open>net.ParseIP(s) != nil\<close>; zones are not accepted.\<close>

definition parse_ip_ok :: "string \<Rightarrow> bool" where
  "parse_ip_ok s \<longleftrightarrow> is_ipv4 s \<or> is_ipv6 s"

text \<open>\<^verbatim>\<open>net.ParseCIDR\<close> succeeds: an address, a slash, and a prefix length within the address.\<close>

definition parse_cidr_ok :: "string \<Rightarrow> bool" where
  "parse_cidr_ok s \<longleftrightarrow>
     (case index_byte s (CHR ''/'') of
        None \<Rightarrow> False
      | Some i \<Rightarrow>
          (let a = take i s; m = drop (Suc i) s; bits = (if is_ipv4 a then 32 else 128)
           in parse_ip_ok a \<and> m \<noteq> [] \<and> list_all is_digit m \<and> digits_val m \<le> bits))"

section \<open>Percent encoding\<close>

definition hex_digit :: "nat \<Rightarrow> char" where
  "hex_digit n = ''0123456789ABCDEF'' ! n"

definition url_plain :: "char \<Rightarrow> bool" where
  "url_plain c \<longleftrightarrow> is_alnum c \<or> c = CHR ''-'' \<or> c = CHR ''.'' \<or> c = CHR ''_'' \<or> c = CHR ''~''"

definition pct :: "char \<Rightarrow> string" where
  "pct c = [CHR 37, hex_digit ((of_char c :: nat) div 16), hex_digit ((of_char c :: nat) mod 16)]"

definition pve_url_encode :: "string \<Rightarrow> string" where
  "pve_url_encode s = concat (map (\<lambda>c. if url_plain c then [c] else pct c) s)"

definition unhex :: "char \<Rightarrow> nat" where
  "unhex c = (if is_digit c then of_char c - 48 else if is_lower c then of_char c - 87 else of_char c - 55)"

text \<open>\<^verbatim>\<open>url.QueryUnescape\<close>: a percent sign needs two hexadecimal digits, a plus is a space.\<close>

fun query_unescape :: "string \<Rightarrow> string option" where
  "query_unescape [] = Some []"
| "query_unescape (c # s) =
     (if c = CHR 37
      then (case s of
              a # b # r \<Rightarrow>
                (if is_hex a \<and> is_hex b
                 then map_option ((#) (char_of (16 * unhex a + unhex b))) (query_unescape r) else None)
            | _ \<Rightarrow> None)
      else map_option ((#) (if c = CHR ''+'' then CHR '' '' else c)) (query_unescape s))"

section \<open>Facts\<close>

lemma hex_digit_ok: "n < 16 \<Longrightarrow> is_hex (hex_digit n) \<and> unhex (hex_digit n) = n"
proof -
  have "\<forall>n\<in>set [0..<16]. is_hex (hex_digit n) \<and> unhex (hex_digit n) = n" by code_simp
  then show "n < 16 \<Longrightarrow> ?thesis" by simp
qed

lemma char_split: "char_of (16 * ((of_char c :: nat) div 16) + (of_char c :: nat) mod 16) = c"
  by (simp only: mult_div_mod_eq) simp

lemma url_plain_not: "url_plain c \<Longrightarrow> c \<noteq> CHR 37 \<and> c \<noteq> CHR ''+''"
  by (auto simp: url_plain_def is_alnum_def is_digit_def is_upper_def is_lower_def)

lemma unescape_step: "query_unescape ((if url_plain c then [c] else pct c) @ r) = map_option ((#) c) (query_unescape r)"
proof (cases "url_plain c")
  case False
  have n: "(of_char c :: nat) div 16 < 16" "(of_char c :: nat) mod 16 < 16"
    using nat_of_char_less_256 [of c] by (auto simp: less_mult_imp_div_less)
  show ?thesis
    using False hex_digit_ok [OF n(1)] hex_digit_ok [OF n(2)] char_split [of c] by (simp add: pct_def)
qed (simp add: url_plain_not)

lemma query_unescape_encode: "query_unescape (pve_url_encode s) = Some s"
  by (induction s) (simp_all add: pve_url_encode_def unescape_step del: query_unescape.simps(2))

lemma encode_no_plus: "CHR ''+'' \<notin> set (pve_url_encode s)"
proof -
  have "CHR ''+'' \<noteq> hex_digit n" if "n < 16" for n
  proof -
    have "\<forall>n\<in>set [0..<16]. CHR ''+'' \<noteq> hex_digit n" by code_simp
    with that show ?thesis by simp
  qed
  then have "CHR ''+'' \<notin> set (pct c)" for c
    using nat_of_char_less_256 [of c] by (auto simp: pct_def less_mult_imp_div_less)
  then show ?thesis by (auto simp: pve_url_encode_def dest: url_plain_not split: if_splits)
qed

end
