(* ===== verification/Vm_Wire.thy ===== *)
theory Vm_Wire
  imports Vm_Types Go_Net Wire
begin

text \<open>
  The wire strings of \<^verbatim>\<open>internal/schema/vm.go\<close> and \<^verbatim>\<open>pci.go\<close>: what a manifest value is
  written as, how a live value is read back, and when the two are the same.
\<close>

section \<open>Pieces\<close>

text \<open>\<^verbatim>\<open>strings.Cut(s, "=")\<close>; \<open>None\<close> is not found.\<close>

definition cut_eq :: "string \<Rightarrow> (string \<times> string) option" where
  "cut_eq s = (case index_byte s (CHR ''='') of None \<Rightarrow> None | Some i \<Rightarrow> Some (take i s, drop (Suc i) s))"

text \<open>Two sets built as Go maps, compared by size and by the keys of the second.\<close>

definition same_keys :: "string list \<Rightarrow> string list \<Rightarrow> bool" where
  "same_keys xs ys =
     (let c = remdups xs; w = remdups ys in length c = length w \<and> list_all (\<lambda>k. k \<in> set c) w)"

text \<open>The UTF-8 bytes of a dash in the messages.\<close>

definition em_dash :: string where
  "em_dash = map char_of [226 :: nat, 128, 148]"

definition truthy :: "string \<Rightarrow> bool" where
  "truthy v \<longleftrightarrow> v \<in> {''1'', ''on'', ''true''}"

definition bit_str :: "bool \<Rightarrow> string" where
  "bit_str b = (if b then ''1'' else ''0'')"

definition size_bytes :: "string \<Rightarrow> int" where
  "size_bytes s = (case disk_bytes s of Inl _ \<Rightarrow> 0 | Inr b \<Rightarrow> b)"

definition mem_mib :: "string \<Rightarrow> int" where
  "mem_mib s = (case memory_mib s of Inl _ \<Rightarrow> 0 | Inr b \<Rightarrow> b)"

section \<open>Drives\<close>

definition disk_volume_string :: "disk \<Rightarrow> string" where
  "disk_volume_string d = dk_storage d @ '':'' @ gib_string (size_bytes (dk_size d))"

definition drive_option_tokens :: "disk \<Rightarrow> string" where
  "drive_option_tokens d =
     (if dk_discard d \<noteq> [] then '',discard='' @ to_lower (dk_discard d) else []) @
     (case dk_ssd d of None \<Rightarrow> [] | Some b \<Rightarrow> '',ssd='' @ bit_str b) @
     (if dk_aio d \<noteq> [] then '',aio='' @ to_lower (dk_aio d) else [])"

definition drive_volume_string :: "disk \<Rightarrow> string" where
  "drive_volume_string d =
     (if dk_image d \<noteq> []
      then dk_storage d @ '':0,import-from='' @ (if dk_image_volid d = [] then dk_image d else dk_image_volid d)
      else disk_volume_string d) @
     (if dk_iothread d then '',iothread=1'' else []) @ drive_option_tokens d"

definition disk_bus_supports_ssd :: "string \<Rightarrow> bool" where
  "disk_bus_supports_ssd slot \<longleftrightarrow> has_prefix slot ''scsi'' \<or> has_prefix slot ''sata'' \<or> has_prefix slot ''ide''"

definition secure_boot_wire :: "string \<Rightarrow> string option" where
  "secure_boot_wire s =
     (let t = to_lower (trim_space s)
      in if t = ''enabled'' then Some ''1'' else if t = ''disabled'' then Some ''0'' else None)"

record disk_info =
  di_pool :: string
  di_volume :: string
  di_size :: int
  di_size_token :: string
  di_size_set :: bool
  di_iothread :: bool
  di_discard :: string
  di_ssd :: "bool option"
  di_aio :: string
  di_efitype :: string
  di_pre :: "bool option"
  di_extra :: string

definition no_disk_info :: disk_info where
  "no_disk_info = \<lparr>di_pool = [], di_volume = [], di_size = 0, di_size_token = [], di_size_set = False,
     di_iothread = False, di_discard = [], di_ssd = None, di_aio = [], di_efitype = [], di_pre = None, di_extra = []\<rparr>"

definition add_raw_token :: "string \<Rightarrow> string \<Rightarrow> string" where
  "add_raw_token cur tok = (if cur = [] then tok else cur @ '','' @ tok)"

definition add_extra :: "string \<Rightarrow> disk_info \<Rightarrow> disk_info" where
  "add_extra t out = out\<lparr>di_extra := add_raw_token (di_extra out) t\<rparr>"

definition disk_option :: "string \<Rightarrow> string \<Rightarrow> string \<Rightarrow> disk_info \<Rightarrow> disk_info" where
  "disk_option t k v out =
     (if k = ''size''
      then (case pve_disk_size_bytes v of
              Some b \<Rightarrow> out\<lparr>di_size := b, di_size_set := True, di_size_token := v\<rparr>
            | None \<Rightarrow> add_extra t out)
      else if k = ''iothread'' then out\<lparr>di_iothread := truthy v\<rparr>
      else if k = ''discard'' then out\<lparr>di_discard := to_lower v\<rparr>
      else if k = ''ssd'' then out\<lparr>di_ssd := Some (truthy v)\<rparr>
      else if k = ''aio'' then out\<lparr>di_aio := to_lower v\<rparr>
      else if k = ''efitype'' then out\<lparr>di_efitype := to_lower v\<rparr>
      else if k = ''pre-enrolled-keys'' then out\<lparr>di_pre := Some (truthy v)\<rparr>
      else add_extra t out)"

text \<open>A positive decimal, in GiB, as bytes: \<^verbatim>\<open>int64(f * float64(1<<30))\<close>.\<close>

definition float_gib :: "string \<Rightarrow> int option" where
  "float_gib t =
     (case parse_decimal t of
        Some (neg, n, d) \<Rightarrow> (if neg \<or> n = 0 then None else Some (int (float_scale_trunc (float_of n d) 30)))
      | None \<Rightarrow> None)"

definition disk_token :: "nat \<times> string \<Rightarrow> disk_info \<Rightarrow> disk_info" where
  "disk_token it out =
     (let t = trim_space (snd it)
      in if t = [] then out
         else (case cut_eq t of
                 Some (k, v) \<Rightarrow> (if k = [] then add_extra t out else disk_option t k v out)
               | None \<Rightarrow>
                   (if fst it = 0
                    then (case float_gib t of
                            Some b \<Rightarrow> out\<lparr>di_size := b, di_size_set := True, di_size_token := t\<rparr>
                          | None \<Rightarrow> out\<lparr>di_volume := t\<rparr>)
                    else add_extra t out)))"

definition parse_disk_info :: "string \<Rightarrow> disk_info" where
  "parse_disk_info s0 =
     (let s = trim_space s0
      in case index_byte s (CHR '':'') of
           None \<Rightarrow> no_disk_info
         | Some ci \<Rightarrow>
             (if ci = 0 then no_disk_info
              else fold disk_token (enumerate 0 (split_on (CHR '','') (drop (Suc ci) s)))
                     (no_disk_info\<lparr>di_pool := take ci s\<rparr>)))"

definition drive_options_drift :: "disk_info \<Rightarrow> disk_info \<Rightarrow> bool" where
  "drive_options_drift cur want \<longleftrightarrow>
     di_iothread cur \<noteq> di_iothread want \<or>
     (di_discard want \<noteq> [] \<and>
        \<not> equal_fold (if di_discard cur = [] then ''ignore'' else di_discard cur) (di_discard want)) \<or>
     (di_ssd want \<noteq> None \<and> (di_ssd cur = Some True) \<noteq> the (di_ssd want)) \<or>
     (di_aio want \<noteq> [] \<and> (di_aio cur = [] \<or> \<not> equal_fold (di_aio cur) (di_aio want)))"

definition live_drive_rewrite :: "disk_info \<Rightarrow> disk_info \<Rightarrow> string" where
  "live_drive_rewrite cur want =
     (let discard = (if di_discard want \<noteq> [] then di_discard want else di_discard cur);
          ssd = (if di_ssd want \<noteq> None then di_ssd want else di_ssd cur);
          aio = (if di_aio want \<noteq> [] then di_aio want else di_aio cur)
      in di_pool cur @ '':'' @ di_volume cur @
         (if di_size_set cur then '',size='' @ di_size_token cur else []) @
         (if di_iothread want then '',iothread=1'' else []) @
         (if discard \<noteq> [] then '',discard='' @ discard else []) @
         (case ssd of None \<Rightarrow> [] | Some b \<Rightarrow> '',ssd='' @ bit_str b) @
         (if aio \<noteq> [] then '',aio='' @ aio else []) @
         (if di_extra cur \<noteq> [] then '','' @ di_extra cur else []))"

section \<open>Network cards\<close>

definition nic_string :: "nic \<Rightarrow> string" where
  "nic_string n =
     (let model = (if ni_model n = [] then ''virtio'' else ni_model n); mac = to_lower (trim_space (ni_mac n))
      in (if mac \<noteq> [] then model @ ''='' @ mac else model) @ '',bridge='' @ ni_bridge n @
         (if 0 < ni_vlan n then '',tag='' @ itoa (ni_vlan n) else []) @
         (if 0 < ni_rate n then '',rate='' @ itoa (ni_rate n) else []) @
         (if ni_firewall n then '',firewall=1'' else []))"

record nic_fields =
  nf_model :: string
  nf_mac :: string
  nf_bridge :: string
  nf_vlan :: int
  nf_rate :: int
  nf_firewall :: bool

definition nic_models :: "string list" where
  "nic_models = [''virtio'', ''vmxnet3'', ''e1000'', ''e1000-82540'', ''rtl8139'', ''i82551'', ''ne2k_pci'', ''pcnet'', ''shaper'']"

definition nic_option :: "string \<Rightarrow> string \<Rightarrow> nic_fields \<Rightarrow> nic_fields" where
  "nic_option k v out =
     (if k = ''bridge'' then out\<lparr>nf_bridge := v\<rparr>
      else if k = ''tag'' \<or> k = ''vlan'' then out\<lparr>nf_vlan := atoi_clamp v\<rparr>
      else if k = ''rate'' then out\<lparr>nf_rate := atoi_clamp v\<rparr>
      else if k = ''firewall'' then out\<lparr>nf_firewall := (v = ''1'' \<or> v = ''true'')\<rparr>
      else if k \<in> set nic_models then out\<lparr>nf_model := k, nf_mac := v\<rparr>
      else out)"

definition nic_token :: "string \<Rightarrow> nic_fields \<Rightarrow> nic_fields" where
  "nic_token p0 out =
     (let p = trim_space p0
      in if p = [] then out
         else (case cut_eq p of
                 Some (k, v) \<Rightarrow> nic_option k v out
               | None \<Rightarrow> (if nf_model out = [] then out\<lparr>nf_model := p\<rparr> else out)))"

definition parse_nic_fields :: "string \<Rightarrow> nic_fields" where
  "parse_nic_fields s = fold nic_token (split_on (CHR '','') s)
     \<lparr>nf_model = [], nf_mac = [], nf_bridge = [], nf_vlan = 0, nf_rate = 0, nf_firewall = False\<rparr>"

definition nic_matches :: "string \<Rightarrow> string \<Rightarrow> bool" where
  "nic_matches cur want \<longleftrightarrow>
     (let c = parse_nic_fields cur; w = parse_nic_fields want
      in nf_model c = nf_model w \<and> nf_bridge c = nf_bridge w \<and>
         (nf_mac w = [] \<or> equal_fold (nf_mac w) (nf_mac c)) \<and>
         (nf_vlan w \<le> 0 \<or> nf_vlan c = nf_vlan w) \<and> (nf_rate w \<le> 0 \<or> nf_rate c = nf_rate w) \<and>
         (nf_firewall w \<longrightarrow> nf_firewall c))"

section \<open>Cloud-init\<close>

definition redacted_sentinel :: string where "redacted_sentinel = ''*''"

definition ssh_keys_effective :: "cloud_init_data \<Rightarrow> string list" where
  "ssh_keys_effective cd = (if cd_resolved_keys cd \<noteq> [] then cd_resolved_keys cd else cd_ssh_keys cd)"

definition password_effective :: "cloud_init_data \<Rightarrow> string" where
  "password_effective cd = cd_resolved_password cd"

definition ssh_keys_wire :: "string list \<Rightarrow> string" where
  "ssh_keys_wire keys =
     (if keys = [] \<or> redacted_sentinel \<in> set keys then []
      else pve_url_encode (join_with [CHR 10] (keep_first [] keys)))"

definition escape_plus :: "string \<Rightarrow> string" where
  "escape_plus v = concat (map (\<lambda>c. if c = CHR ''+'' then [CHR 37, CHR ''2'', CHR ''B''] else [c]) v)"

definition ssh_key_set :: "string \<Rightarrow> string list" where
  "ssh_key_set v =
     (let s = (case query_unescape (escape_plus v) of Some s \<Rightarrow> s | None \<Rightarrow> v)
      in filter (\<lambda>k. k \<noteq> []) (map trim_space (split_on (CHR 10) s)))"

definition ssh_keys_wire_match :: "string \<Rightarrow> string \<Rightarrow> bool" where
  "ssh_keys_wire_match cur want = same_keys (ssh_key_set cur) (ssh_key_set want)"

definition ip_config_wire :: "ip_config list \<Rightarrow> (string \<times> string) list" where
  "ip_config_wire ips = fold (\<lambda>c. put (''ipconfig'' @ itoa (ip_nic c))
       (''ip='' @ ip_addr c @ (if ip_gateway c \<noteq> [] then '',gw='' @ ip_gateway c else [])))
     (filter (\<lambda>c. ip_addr c \<noteq> []) ips) []"

definition csv_tokens :: "string \<Rightarrow> string list" where
  "csv_tokens s = filter (\<lambda>t. t \<noteq> []) (map trim_space (str_fields (trim_space s)))"

definition csv_sets_equal :: "string \<Rightarrow> string \<Rightarrow> bool" where
  "csv_sets_equal cur want \<longleftrightarrow>
     (let c = csv_tokens cur; w = csv_tokens want in length c = length w \<and> list_all (\<lambda>t. t \<in> set c) w)"

text \<open>\<^verbatim>\<open>splitCloudInit\<close>: pool and size token; the last size counts.\<close>

definition split_cloud_init :: "string \<Rightarrow> (string \<times> string) option" where
  "split_cloud_init s0 =
     (let s = trim_space s0
      in case index_byte s (CHR '':'') of
           None \<Rightarrow> None
         | Some c \<Rightarrow>
             (if c = 0 then None
              else Some (take c s,
                fold (\<lambda>o1 size. case cut_eq (trim_space o1) of Some (k, v) \<Rightarrow> if k = ''size'' then v else size | None \<Rightarrow> size)
                  (split_on (CHR '','') (drop (Suc c) s)) [])))"

definition cloud_init_matches :: "string \<Rightarrow> string \<Rightarrow> bool" where
  "cloud_init_matches cur want =
     (case (split_cloud_init cur, split_cloud_init want) of
        (None, w) \<Rightarrow> w = None
      | (Some c, None) \<Rightarrow> False
      | (Some (cp, cs), Some (wp, ws)) \<Rightarrow>
          cp = wp \<and>
          (cs = [] \<or>
           (case (pve_disk_size_bytes cs, pve_disk_size_bytes ws) of
              (Some cb, Some wb) \<Rightarrow> cb = wb
            | _ \<Rightarrow> equal_fold cs ws)))"

section \<open>Cdrom and TPM\<close>

record cdrom_info =
  cr_pool :: string
  cr_filename :: string
  cr_media :: string

definition parse_cdrom :: "string \<Rightarrow> cdrom_info option" where
  "parse_cdrom s0 =
     (let s = trim_space s0
      in if s = ''none'' then None
         else (case index_byte s (CHR '':'') of
                 None \<Rightarrow> None
               | Some c \<Rightarrow>
                   (let rest = drop (Suc c) s; fn = takeWhile (\<lambda>x. x \<noteq> CHR '','') (drop 4 rest)
                    in if c = 0 \<or> \<not> has_prefix rest ''iso/'' \<or> fn = [] then None
                       else Some \<lparr>cr_pool = take c s, cr_filename = fn,
                         cr_media = fold (\<lambda>o1 m. case cut_eq o1 of Some (k, v) \<Rightarrow> if k = ''media'' then v else m | None \<Rightarrow> m)
                           (split_on (CHR '','') rest) []\<rparr>)))"

definition cdrom_matches :: "string \<Rightarrow> string \<Rightarrow> bool" where
  "cdrom_matches cur want =
     (case (parse_cdrom cur, parse_cdrom want) of
        (None, None) \<Rightarrow> True
      | (Some c, Some w) \<Rightarrow> cr_pool c = cr_pool w \<and> cr_filename c = cr_filename w \<and>
          (cr_media w = [] \<or> cr_media c = cr_media w)
      | _ \<Rightarrow> False)"

text \<open>\<^verbatim>\<open>extractTPMVersion\<close>, \<^verbatim>\<open>extractTPMEndpoint\<close>: the first option of that name.\<close>

fun extract_option :: "string \<Rightarrow> string list \<Rightarrow> string" where
  "extract_option key [] = []"
| "extract_option key (o1 # os) =
     (case cut_eq (trim_space o1) of
        Some (k, v) \<Rightarrow> (if k = key then v else extract_option key os)
      | None \<Rightarrow> extract_option key os)"

definition tpm_matches :: "string \<Rightarrow> string \<Rightarrow> bool" where
  "tpm_matches cur want =
     (if cur = [] \<or> want = [] then cur = want
      else (let cs = split_on (CHR '','') cur; ws = split_on (CHR '','') want;
                cv = extract_option ''version'' cs; wv = extract_option ''version'' ws
            in if cv = [] \<and> wv = [] then extract_option ''endpoint'' cs = extract_option ''endpoint'' ws
               else cv = wv))"

definition tpm_wire :: "string \<Rightarrow> string" where
  "tpm_wire version = ''endpoint=host,version='' @ (if version = [] then ''v2.0'' else to_lower version)"

section \<open>PCI devices\<close>

definition pci_function :: "string \<Rightarrow> bool" where
  "pci_function s \<longleftrightarrow> s = [] \<or> (length s = 2 \<and> s ! 0 = CHR ''.'' \<and> s ! 1 \<in> set ''01234567'')"

text \<open>\<^verbatim>\<open>pciBDFRe\<close>: domain of two to five, bus and slot of two hexadecimal digits, optional function.\<close>

definition pci_bdf_ok :: "string \<Rightarrow> bool" where
  "pci_bdf_ok s =
     (case split_on (CHR '':'') s of
        [a, b, c] \<Rightarrow> 2 \<le> length a \<and> length a \<le> 5 \<and> list_all is_hex a \<and> length b = 2 \<and> list_all is_hex b \<and>
          2 \<le> length c \<and> list_all is_hex (take 2 c) \<and> pci_function (drop 2 c)
      | _ \<Rightarrow> False)"

definition pci_slot_number :: "string \<Rightarrow> nat option" where
  "pci_slot_number slot =
     (let ds = drop 7 slot
      in if has_prefix slot ''hostpci'' \<and> ds \<noteq> [] \<and> length ds \<le> 3 \<and> list_all is_digit ds
         then Some (digits_val ds) else None)"

definition pci_key_is_owned :: "string \<Rightarrow> bool" where
  "pci_key_is_owned k \<longleftrightarrow> pci_slot_number k \<noteq> None"

definition pci_device_wire :: "pci_device \<Rightarrow> string" where
  "pci_device_wire d = to_lower (trim_space (pd_device d)) @
     (case pd_pcie d of None \<Rightarrow> [] | Some b \<Rightarrow> '',pcie='' @ bit_str b)"

definition trim_set :: "char list \<Rightarrow> string \<Rightarrow> string" where
  "trim_set cs s = rev (dropWhile (\<lambda>c. c \<in> set cs) (rev (dropWhile (\<lambda>c. c \<in> set cs) s)))"

definition hostpci_token :: "string \<Rightarrow> (string \<times> string) list \<Rightarrow> (string \<times> string) list" where
  "hostpci_token t0 out =
     (let t = trim_space t0
      in if t = [] then out
         else (case cut_eq t of
                 Some (k, v) \<Rightarrow> put (to_lower (trim_space k)) (trim_set [CHR 34, CHR '' ''] v) out
               | None \<Rightarrow> put ''host'' (to_lower t) out))"

definition hostpci_token_map :: "string \<Rightarrow> (string \<times> string) list" where
  "hostpci_token_map raw = fold hostpci_token (split_on (CHR '','') raw) []"

definition hostpci_tokens_equal :: "string \<Rightarrow> pci_device \<Rightarrow> bool" where
  "hostpci_tokens_equal cur d \<longleftrightarrow>
     (let c = hostpci_token_map cur; w = hostpci_token_map (pci_device_wire d)
      in length c = length w \<and>
         list_all (\<lambda>(k, v). (case map_of c k of Some x \<Rightarrow> x | None \<Rightarrow> []) = v) w)"

section \<open>Facts\<close>

lemma same_keys_iff: "same_keys xs ys \<longleftrightarrow> set xs = set ys"
proof
  assume s: "same_keys xs ys"
  then have "set ys \<subseteq> set xs" "card (set xs) = card (set ys)"
    by (auto simp: same_keys_def Let_def list_all_iff length_remdups_card_conv)
  then show "set xs = set ys" by (intro card_subset_eq [symmetric]) simp_all
qed (simp add: same_keys_def Let_def list_all_iff length_remdups_card_conv)

end
