(* ===== verification/Vm_Validate.thy ===== *)
theory Vm_Validate
  imports Vm_Wire
begin

text \<open>
  \<^verbatim>\<open>VM.Validate\<close>, \<^verbatim>\<open>ValidatePCIDevices\<close> and \<^verbatim>\<open>ValidateCloudInitRefs\<close>.  The Go
  method checks and fills defaults in one pass; here \<open>vm_validate\<close> is the error it returns and
  \<open>vm_filled\<close> the manifest as a successful call leaves it.  The loop over \<^verbatim>\<open>spec.extra\<close>
  visits a Go map: when several keys are refused, which one is named is not determined.
\<close>

section \<open>Checks\<close>

fun checks :: "'e option list \<Rightarrow> 'e option" where
  "checks [] = None"
| "checks (Some e # cs) = Some e"
| "checks (None # cs) = checks cs"

definition guard :: "bool \<Rightarrow> string \<Rightarrow> string option" where
  "guard bad msg = (if bad then Some msg else None)"

text \<open>A word between single quotes.\<close>

definition sq :: "string \<Rightarrow> string" where
  "sq w = [CHR 39] @ w @ [CHR 39]"

definition of_result :: "string \<Rightarrow> string + 'a \<Rightarrow> string option" where
  "of_result msg r = (case r of Inl e \<Rightarrow> Some (msg @ e) | Inr _ \<Rightarrow> None)"

definition item :: "string \<Rightarrow> nat \<Rightarrow> string" where
  "item p i = p @ ''['' @ nat_str i @ '']''"

section \<open>Disks and network cards\<close>

definition valid_disk_slot :: "string \<Rightarrow> bool" where
  "valid_disk_slot s \<longleftrightarrow> list_ex (has_prefix s) [''scsi'', ''virtio'', ''sata'', ''ide'', ''sata'', ''nvme'']"

definition valid_net_slot :: "string \<Rightarrow> bool" where
  "valid_net_slot s \<longleftrightarrow> has_prefix s ''net'' \<and> drop 3 s \<noteq> []"

definition check_disk :: "string \<Rightarrow> nat \<Rightarrow> string list \<Rightarrow> disk \<Rightarrow> string option" where
  "check_disk rs i seen d =
     (let slot = slot_or ''scsi'' i (dk_slot d); p = rs @ item '': spec.disks'' i
      in checks
        [guard (dk_storage d = []) (p @ ''.storage must be set''),
         (if dk_image d \<noteq> []
          then guard (dk_size d \<noteq> []) (p @ ''.size must be empty when image is set (the imported disk takes its size from the DiskImage '' @ go_quote (dk_image d) @ '')'')
          else if dk_size d = [] then Some (p @ ''.size must be set (e.g. 50GiB)'')
          else of_result (p @ ''.size: '') (disk_bytes (dk_size d))),
         guard (slot \<in> set seen) (rs @ '': duplicate disk slot '' @ go_quote slot),
         guard (\<not> valid_disk_slot slot) (p @ '' slot '' @ go_quote slot @ '' is not a valid PVE disk slot (use scsi0, virtio0, sata0, ...)''),
         guard (to_lower (dk_discard d) \<notin> {[], ''ignore'', ''on''})
           (p @ ''.discard '' @ go_quote (dk_discard d) @ '' must be '' @ sq ''ignore'' @ '' or '' @ sq ''on'' @ '' (PVE 9.2)''),
         guard (to_lower (dk_aio d) \<notin> {[], ''native'', ''threads'', ''io_uring''})
           (p @ ''.aio '' @ go_quote (dk_aio d) @ '' must be '' @ sq ''native'' @ '', '' @ sq ''threads'' @ '' or '' @ sq ''io_uring'' @ '' (PVE 9.2)''),
         guard (dk_ssd d \<noteq> None \<and> \<not> disk_bus_supports_ssd slot)
           (p @ ''.ssd is not supported on slot '' @ go_quote slot @ '' (PVE 9.2 accepts ssd= only on scsi/sata/ide drives; virtio/nvme reject it)'')])"

fun check_disks :: "string \<Rightarrow> nat \<Rightarrow> string list \<Rightarrow> disk list \<Rightarrow> string option" where
  "check_disks rs i seen [] = None"
| "check_disks rs i seen (d # ds) =
     (case check_disk rs i seen d of
        Some e \<Rightarrow> Some e
      | None \<Rightarrow> check_disks rs (Suc i) (slot_or ''scsi'' i (dk_slot d) # seen) ds)"

definition check_nic :: "string \<Rightarrow> nat \<Rightarrow> string list \<Rightarrow> nic \<Rightarrow> string option" where
  "check_nic rs i seen n =
     (let slot = slot_or ''net'' i (ni_slot n); p = rs @ item '': spec.networks'' i
      in checks
        [guard (ni_bridge n = []) (p @ ''.bridge must be set''),
         guard (0 < ni_vlan n \<and> (ni_vlan n < 1 \<or> 4094 < ni_vlan n)) (p @ ''.vlan must be in [1, 4094]''),
         guard (ni_rate n < 0) (p @ ''.rate-limit must be non-negative''),
         guard (slot \<in> set seen) (rs @ '': duplicate net slot '' @ go_quote slot),
         guard (\<not> valid_net_slot slot) (p @ '' slot '' @ go_quote slot @ '' invalid (use net0, net1, ...)'')])"

fun check_nics :: "string \<Rightarrow> nat \<Rightarrow> string list \<Rightarrow> nic list \<Rightarrow> string option" where
  "check_nics rs i seen [] = None"
| "check_nics rs i seen (n # ns) =
     (case check_nic rs i seen n of
        Some e \<Rightarrow> Some e
      | None \<Rightarrow> check_nics rs (Suc i) (slot_or ''net'' i (ni_slot n) # seen) ns)"

section \<open>PCI devices and cloud-init references\<close>

text \<open>The stable sort by slot number; an invalid slot counts as 0.\<close>

definition pci_order :: "pci_device list \<Rightarrow> pci_device list" where
  "pci_order = sort_key (\<lambda>d. case pci_slot_number (pd_slot d) of Some n \<Rightarrow> n | None \<Rightarrow> 0)"

definition pci_normal :: "pci_device \<Rightarrow> pci_device" where
  "pci_normal d = d\<lparr>pd_device := to_lower (trim_space (pd_device d))\<rparr>"

fun check_pci :: "string \<Rightarrow> string list \<Rightarrow> pci_device list \<Rightarrow> string option" where
  "check_pci rs seen [] = None"
| "check_pci rs seen (d # ds) =
     (case checks
        [guard (pci_slot_number (pd_slot d) = None)
           (rs @ '': spec.hardware.pci-devices slot '' @ go_quote (pd_slot d) @ '' is not hostpciN (N a non-negative integer 0-999)''),
         guard (pd_slot d \<in> set seen) (rs @ '': duplicate PCI slot '' @ go_quote (pd_slot d)),
         guard (\<not> pci_bdf_ok (pd_device (pci_normal d)))
           (rs @ '': spec.hardware.pci-devices['' @ pd_slot d @ ''].device '' @ go_quote (pd_device (pci_normal d)) @
            '' is not a PVE PCI BDF (want domain:bus:slot[.func], e.g. '' @ go_quote ''0000:17:00'' @ '')'')] of
        Some e \<Rightarrow> Some e
      | None \<Rightarrow> check_pci rs (pd_slot d # seen) ds)"

definition validate_pci_devices :: "string \<Rightarrow> pci_device list \<Rightarrow> string option" where
  "validate_pci_devices rs ds = check_pci rs [] (pci_order ds)"

definition ssh_ref_prefix :: string where "ssh_ref_prefix = ''cloud-init.ssh-keys.''"
definition password_ref_prefix :: string where "password_ref_prefix = ''cloud-init.passwords.''"

text \<open>\<^verbatim>\<open>strings.CutPrefix\<close>.\<close>

definition cut_prefix :: "string \<Rightarrow> string \<Rightarrow> string option" where
  "cut_prefix s p = (if has_prefix s p then Some (drop (length p) s) else None)"

definition valid_ref_name :: "string \<Rightarrow> bool" where
  "valid_ref_name s \<longleftrightarrow> s \<noteq> [] \<and> length s \<le> 64 \<and>
     list_all (\<lambda>c. is_lower c \<or> is_digit c \<or> c = CHR ''-'') s \<and> hd s \<noteq> CHR ''-''"

fun check_ssh_refs :: "string \<Rightarrow> nat \<Rightarrow> string list \<Rightarrow> string option" where
  "check_ssh_refs rs i [] = None"
| "check_ssh_refs rs i (r0 # refs) =
     (let r = trim_space r0; p = rs @ item '': spec.cloud-init-data.ssh-key-refs'' i
      in if r = [] then Some (p @ '' is empty (drop the entry or provide a cloud-init.ssh-keys.<name> dot-path)'')
         else (case cut_prefix r ssh_ref_prefix of
                 None \<Rightarrow> Some (p @ '' '' @ go_quote r @ '' does not start with '' @ go_quote ssh_ref_prefix)
               | Some name \<Rightarrow>
                   (if \<not> valid_ref_name name
                    then Some (rs @ '': ssh-key-ref '' @ go_quote r @ '' has an invalid reference name (want [a-z0-9][a-z0-9-]* up to 64 chars, no dots or spaces)'')
                    else check_ssh_refs rs (Suc i) refs)))"

definition validate_cloud_init_refs :: "string \<Rightarrow> cloud_init_data \<Rightarrow> string option" where
  "validate_cloud_init_refs rs cd = checks
     [guard (cd_ssh_keys cd \<noteq> [] \<and> cd_ssh_key_refs cd \<noteq> [])
        (rs @ '': spec.cloud-init-data defines BOTH ssh-keys (plaintext, pre-M13.2) and ssh-key-refs (SOPS-referenced, M13.2); pick one '' @ em_dash @
         '' keep ssh-keys to hold keys in-repo verbatim, or switch to ssh-key-refs to hold keys in SOPS''),
      check_ssh_refs rs 0 (cd_ssh_key_refs cd),
      (if cd_password_ref cd = [] then None
       else (let p = trim_space (cd_password_ref cd)
             in case cut_prefix p password_ref_prefix of
                  None \<Rightarrow> Some (rs @ '': spec.cloud-init-data.ci-password-ref '' @ go_quote p @ '' does not start with '' @ go_quote password_ref_prefix)
                | Some name \<Rightarrow> guard (\<not> valid_ref_name name)
                    (rs @ '': ci-password-ref '' @ go_quote p @ '' has an invalid reference name (want [a-z0-9][a-z0-9-]* up to 64 chars, no dots or spaces)'')))]"

section \<open>Hardware and cloud-init data\<close>

definition check_efi :: "string \<Rightarrow> efi_disk \<Rightarrow> string option" where
  "check_efi rs ef =
     (let p = rs @ '': spec.hardware.efi-disk.''; sz = (if ef_size ef = [] then ''4MiB'' else ef_size ef)
      in checks
        [guard (ef_storage ef = []) (p @ ''storage must be set''),
         guard (\<not> storage_id_ok (ef_storage ef)) (p @ ''storage '' @ go_quote (ef_storage ef) @ '' invalid''),
         of_result (p @ ''size: '') (disk_bytes sz),
         guard (to_lower (ef_secure_boot ef) \<notin> {[], ''enabled'', ''disabled''})
           (p @ ''secure-boot '' @ go_quote (ef_secure_boot ef) @ '' must be '' @ sq ''enabled'' @ '' or '' @ sq ''disabled'' @ '' (PVE 9.2 pre-enrolled-keys; see docs/GAPS.md M13)'')])"

definition check_hardware :: "string \<Rightarrow> vm_hardware \<Rightarrow> string option" where
  "check_hardware rs hw =
     (let p = rs @ '': spec.hardware.''; ci = hw_cloud_init hw
      in checks
        [guard (hw_machine hw \<notin> {[], ''i440fx'', ''q35''}) (p @ ''machine '' @ go_quote (hw_machine hw) @ '' must be '' @ sq ''i440fx'' @ '' or '' @ sq ''q35''),
         guard (hw_bios hw \<notin> {[], ''seabios'', ''ovmf''}) (p @ ''bios '' @ go_quote (hw_bios hw) @ '' must be '' @ sq ''seabios'' @ '' or '' @ sq ''ovmf'' @ '' (PVE 9.2)''),
         (case hw_efi hw of None \<Rightarrow> None | Some ef \<Rightarrow> check_efi rs ef),
         guard (cd_media (hw_cdrom hw) \<notin> {[], ''cdrom'', ''disk''})
           (p @ ''cdrom.media '' @ go_quote (cd_media (hw_cdrom hw)) @ '' must be '' @ sq ''cdrom'' @ '' or '' @ sq ''disk''),
         (if ci_enabled ci
          then checks [guard (ci_storage ci = []) (p @ ''cloud-init.storage must be set''),
                 of_result (p @ ''cloud-init.size: '') (disk_bytes (if ci_size ci = [] then ''4M'' else ci_size ci))]
          else None),
         (case hw_tpm hw of None \<Rightarrow> None | Some ver \<Rightarrow>
            guard (to_lower ver \<notin> {[], ''v1.2'', ''v2.0''}) (p @ ''tpm.version '' @ go_quote ver @ '' must be '' @ sq ''v1.2'' @ '' or '' @ sq ''v2.0'')),
         guard (hw_sockets hw < 0) (p @ ''sockets must be non-negative''),
         validate_pci_devices rs (hw_pci hw)])"

definition check_sentinel :: "string \<Rightarrow> string list \<Rightarrow> string option" where
  "check_sentinel rs keys =
     (let n = length (filter (\<lambda>k. k = redacted_sentinel) keys)
      in guard (0 < n \<and> n \<noteq> length keys)
           (rs @ '': spec.cloud-init-data.ssh-keys mixes the redacted sentinel '' @ go_quote redacted_sentinel @
            '' with real keys; use ONLY the sentinel (PVE owns the value) or ONLY real keys (proxops writes them)''))"

definition check_ip_config :: "string \<Rightarrow> nat \<Rightarrow> ip_config \<Rightarrow> string option" where
  "check_ip_config rs i c =
     (let p = rs @ item '': spec.cloud-init-data.ipconfigs'' i
      in checks
        [guard (ip_nic c < 0) (p @ ''.nic must be >= 0''),
         guard (ip_addr c \<noteq> [] \<and> \<not> parse_cidr_ok (ip_addr c)) (p @ ''.ip: invalid CIDR address: '' @ ip_addr c),
         guard (ip_addr c = [] \<and> ip_gateway c \<noteq> []) (p @ '': gateway requires ip''),
         guard (ip_gateway c \<noteq> [] \<and> \<not> parse_ip_ok (ip_gateway c))
           (p @ ''.gateway '' @ go_quote (ip_gateway c) @ '' is not an IP address'')])"

definition check_ip_configs :: "string \<Rightarrow> ip_config list \<Rightarrow> string option" where
  "check_ip_configs rs cs = checks (map (\<lambda>(i, c). check_ip_config rs i c) (enumerate 0 cs))"

fun check_boot_order :: "string \<Rightarrow> string list \<Rightarrow> string list \<Rightarrow> string option" where
  "check_boot_order rs seen [] = None"
| "check_boot_order rs seen (s # ss) =
     (if s = [] then Some (rs @ '': spec.options.boot-order entries must be non-empty'')
      else if s \<in> set seen then Some (rs @ '': duplicate boot-order entry '' @ go_quote s)
      else check_boot_order rs (s # seen) ss)"

definition structured_reserved :: "string list" where
  "structured_reserved =
     [''vmid'', ''name'', ''memory'', ''cpu'', ''cores'', ''machine'', ''bios'', ''vga'',
      ''cdrom'', ''ide0'', ''ide1'', ''ide2'', ''ide3'', ''efidisk0'', ''tpm0'', ''serial0'',
      ''onboot'', ''startup'', ''protection'', ''agent'', ''acpi'', ''tablet'', ''hotplug'', ''boot'',
      ''nestedvirt'', ''hidden'', ''tags'', ''ciuser'', ''sshkeys'', ''nameserver'', ''searchdomain'']"

definition check_extra_key :: "string \<Rightarrow> string \<Rightarrow> string option" where
  "check_extra_key rs k =
     (let p = rs @ '': spec.extra key '' @ go_quote k @ '' conflicts with a structured field''
      in checks
        [guard (k \<in> set structured_reserved) (p @ ''; remove it''),
         guard (has_prefix k ''scsi'' \<or> has_prefix k ''net'') (p @ ''; remove it''),
         guard (has_prefix k ''ipconfig'') (p @ '' (use spec.cloud-init-data.ipconfigs); remove it'')])"

section \<open>Validate\<close>

definition check_clone :: "string \<Rightarrow> vm \<Rightarrow> string option" where
  "check_clone rs v = checks
     [guard (vs_disks (vm_spec v) = [] \<and> \<not> is_clone_backed v) (rs @ '': spec.disks must be present''),
      guard (is_clone_backed v \<and> vs_disks (vm_spec v) \<noteq> [])
        (rs @ '': spec.disks must be empty when spec.clone is set (a clone inherits the template '' @
         go_quote (vs_clone (vm_spec v)) @ [CHR 39] @ ''s disk layout; proxops will not re-state a disk over a cloned live volume)''),
      guard (is_clone_backed v \<and> clone_name v = md_name (vm_metadata v)) (rs @ '': spec.clone references itself'')]"

definition vm_validate :: "vm \<Rightarrow> string option" where
  "vm_validate v =
     (let s = vm_spec v; rs = ref_str (vm_ref v); cd = vs_cloud_data s
      in checks
        [guard (vs_node s = []) (rs @ '': spec.node is empty''),
         guard (\<not> valid_node_name (vs_node s)) (rs @ '': spec.node '' @ go_quote (vs_node s) @ '' invalid''),
         guard (vs_vmid s \<le> 0) (rs @ '': spec.vmid must be > 0''),
         guard (cp_type (vs_cpu s) = []) (rs @ '': spec.cpu.type must be set''),
         guard (cp_cores (vs_cpu s) \<le> 0) (rs @ '': spec.cpu.cores must be > 0''),
         guard (vs_memory s = []) (rs @ '': spec.memory must be set (e.g. 8GiB)''),
         of_result (rs @ '': spec.memory: '') (memory_mib (vs_memory s)),
         check_clone rs v,
         check_disks rs 0 [] (vs_disks s),
         check_nics rs 0 [] (vs_nics s),
         check_hardware rs (vs_hardware s),
         validate_cloud_init_refs rs cd,
         check_sentinel rs (cd_ssh_keys cd),
         check_ip_configs rs (cd_ip_configs cd),
         check_boot_order rs [] (op_boot_order (vs_options s)),
         checks (map (\<lambda>kv. check_extra_key rs (fst kv)) (vs_extra s)),
         (if vs_state s = [] then None else of_result (rs @ '': '') (parse_state (vs_state s)))])"

definition template_vm_validate :: "vm \<Rightarrow> string option" where
  "template_vm_validate v =
     (let rs = ref_str (vm_ref v); st = vs_state (vm_spec v)
      in checks
        [guard (clone_name v \<noteq> []) (rs @ '': spec.clone is not allowed on a TemplateVM (templates are clone sources, not clone targets)''),
         vm_validate v,
         guard (st \<notin> {[], ''stopped''}) (rs @ '': spec.state '' @ go_quote st @
           '' is not allowed for a TemplateVM (PVE templates cannot be started; use '' @ sq ''stopped'' @ '')'')])"

section \<open>What Validate fills in\<close>

definition fill_disks :: "disk list \<Rightarrow> disk list" where
  "fill_disks ds = map (\<lambda>(i, d). d\<lparr>dk_slot := slot_or ''scsi'' i (dk_slot d)\<rparr>) (enumerate 0 ds)"

definition fill_nics :: "nic list \<Rightarrow> nic list" where
  "fill_nics ns = map (\<lambda>(i, n). n\<lparr>ni_model := (if ni_model n = [] then ''virtio'' else ni_model n),
     ni_slot := slot_or ''net'' i (ni_slot n)\<rparr>) (enumerate 0 ns)"

definition fill_hardware :: "vm_hardware \<Rightarrow> vm_hardware" where
  "fill_hardware hw = hw
     \<lparr>hw_efi := map_option (\<lambda>ef. ef\<lparr>ef_size := (if ef_size ef = [] then ''4MiB'' else ef_size ef)\<rparr>) (hw_efi hw),
      hw_cloud_init := (let ci = hw_cloud_init hw in
        if ci_enabled ci \<and> ci_size ci = [] then ci\<lparr>ci_size := ''4M''\<rparr> else ci),
      hw_pci := map pci_normal (pci_order (hw_pci hw))\<rparr>"

definition vm_filled :: "vm \<Rightarrow> vm" where
  "vm_filled v = v\<lparr>vm_spec := (let s = vm_spec v in
     s\<lparr>vs_disks := fill_disks (vs_disks s), vs_nics := fill_nics (vs_nics s),
       vs_hardware := fill_hardware (vs_hardware s)\<rparr>)\<rparr>"

end
