(* ===== verification/Vm_Drift.thy ===== *)
theory Vm_Drift
  imports Vm_Validate
begin

text \<open>
  \<^verbatim>\<open>VM.ToCreateParams\<close>, \<^verbatim>\<open>VM.Drift\<close>, \<^verbatim>\<open>VM.DriftAnomalies\<close> and the clone keys.

  The updates of \<^verbatim>\<open>Drift\<close> are collected by a chain of steps on the map of updates and the
  stop flag, one step per block of the method, in its order.
\<close>

section \<open>Create parameters\<close>

definition put_if :: "bool \<Rightarrow> string \<Rightarrow> pval \<Rightarrow> params \<Rightarrow> params" where
  "put_if b k v m = (if b then put k v m else m)"

definition put_all :: "(string \<times> pval) list \<Rightarrow> params \<Rightarrow> params" where
  "put_all kvs m = fold (\<lambda>kv. put (fst kv) (snd kv)) kvs m"

definition flag_put :: "bool \<Rightarrow> string \<Rightarrow> params \<Rightarrow> params" where
  "flag_put b k = put_if b k (PStr ''1'')"

definition options_wire :: "vm_opts \<Rightarrow> params" where
  "options_wire o1 =
     flag_put (op_hidden o1) ''hidden''
     (flag_put (op_nested_virt o1) ''nestedvirt''
     (put_if (op_boot_order o1 \<noteq> []) ''boot'' (PStr (''order='' @ join_with '';'' (op_boot_order o1)))
     (put_if (op_hotplug o1 \<noteq> []) ''hotplug'' (PStr (join_with '','' (op_hotplug o1)))
     (flag_put (op_tablet o1) ''tablet''
     (flag_put (op_acpi o1) ''acpi''
     (flag_put (op_agent o1) ''agent''
     (flag_put (op_protection o1) ''protection''
     (put_if (op_startup o1 \<noteq> []) ''startup'' (PStr (op_startup o1))
     (flag_put (op_onboot o1) ''onboot'' [])))))))))"

definition efi_wire :: "efi_disk \<Rightarrow> string" where
  "efi_wire ef = ef_storage ef @ '':'' @ gib_string (size_bytes (ef_size ef)) @
     (if ef_template ef \<noteq> [] then '',efitype='' @ to_lower (ef_template ef) else []) @
     (case secure_boot_wire (ef_secure_boot ef) of None \<Rightarrow> [] | Some t \<Rightarrow> '',pre-enrolled-keys='' @ t)"

definition cloud_init_wire :: "cloud_init \<Rightarrow> string" where
  "cloud_init_wire ci = ci_storage ci @ '':cloudinit,size='' @ ci_size ci"

definition hardware_params :: "vm \<Rightarrow> params \<Rightarrow> params" where
  "hardware_params v m =
     (let hw = vs_hardware (vm_spec v);
          m = put_if (hw_machine hw \<noteq> []) ''machine'' (PStr (hw_machine hw)) m;
          m = put_if (hw_bios hw \<noteq> []) ''bios'' (PStr (hw_bios hw)) m;
          m = put_if (hw_display hw \<noteq> []) ''vga'' (PStr (hw_display hw)) m;
          m = put_if (hw_sockets hw \<noteq> 0) ''sockets'' (PInt (hw_sockets hw)) m;
          m = put_if (hw_numa hw) ''numa'' (PStr ''1'') m;
          m = put_if (ci_enabled (hw_cloud_init hw)) ''ide2'' (PStr (cloud_init_wire (hw_cloud_init hw))) m;
          m = put_if (cdrom_managed_state v \<noteq> Unmanaged) (cdrom_slot v) (PStr (cdrom_wire_value v)) m;
          m = (case hw_efi hw of None \<Rightarrow> m | Some ef \<Rightarrow> put ''efidisk0'' (PStr (efi_wire ef)) m);
          m = (case hw_tpm hw of None \<Rightarrow> m | Some ver \<Rightarrow> put ''tpm0'' (PStr (tpm_wire ver)) m);
          m = put_if (hw_serial0 hw \<noteq> []) ''serial0'' (PStr (hw_serial0 hw)) m
      in put_all (map (\<lambda>d. (pd_slot d, PStr (pci_device_wire d))) (hw_pci hw)) m)"

definition cloud_data_params :: "cloud_init_data \<Rightarrow> params \<Rightarrow> params" where
  "cloud_data_params cd m =
     (let keys = ssh_keys_wire (ssh_keys_effective cd);
          m = put_if (cd_user cd \<noteq> []) ''ciuser'' (PStr (cd_user cd)) m;
          m = put_if (keys \<noteq> []) ''sshkeys'' (PStr keys) m;
          m = put_if (password_effective cd \<noteq> []) ''cipassword'' (PStr (password_effective cd)) m;
          m = put_if (cd_nameservers cd \<noteq> []) ''nameserver'' (PStr (join_with '' '' (cd_nameservers cd))) m;
          m = put_if (cd_search_domains cd \<noteq> []) ''searchdomain'' (PStr (join_with '' '' (cd_search_domains cd))) m
      in put_all (map (\<lambda>kv. (fst kv, PStr (snd kv))) (ip_config_wire (cd_ip_configs cd))) m)"

text \<open>The parameters of a manifest whose defaults are filled in.\<close>

definition vm_base_params :: "vm \<Rightarrow> params" where
  "vm_base_params v =
     (let s = vm_spec v
      in put_if (vm_scsi_hw (vs_disks s) \<noteq> []) ''scsihw'' (PStr (vm_scsi_hw (vs_disks s)))
         (put_if (vs_description s \<noteq> []) ''description'' (PStr (vs_description s))
           [(''vmid'', PInt (vs_vmid s)), (''name'', PStr (pve_name v)), (''memory'', PInt64 (mem_mib (vs_memory s))),
            (''cpu'', PStr (cp_type (vs_cpu s))), (''cores'', PInt (cp_cores (vs_cpu s))),
            (''tags'', PStr (join_with '','' (all_tags (vs_tags s)))), (''start'', PStr ''0'')]))"

definition vm_params_filled :: "vm \<Rightarrow> params" where
  "vm_params_filled v =
     (let s = vm_spec v;
          m = put_all (map (\<lambda>sd. (fst sd, PStr (drive_volume_string (snd sd)))) (disk_slots v)) (vm_base_params v);
          m = put_all (map (\<lambda>sn. (fst sn, PStr (nic_string (snd sn)))) (nic_slots v)) m;
          m = cloud_data_params (vs_cloud_data s) (hardware_params v m)
      in put_all (map (\<lambda>kv. (fst kv, PStr (snd kv))) (vs_extra s)) (put_all (options_wire (vs_options s)) m))"

definition vm_to_create_params :: "vm \<Rightarrow> string + params" where
  "vm_to_create_params v =
     (case vm_validate v of Some e \<Rightarrow> Inl e | None \<Rightarrow> Inr (vm_params_filled (vm_filled v)))"

section \<open>Clones\<close>

definition clone_inherited_keys :: "string list" where
  "clone_inherited_keys = [''ciuser'', ''sshkeys'', ''cipassword'', ''cicustom'', ''nameserver'', ''searchdomain'']"

text \<open>\<^verbatim>\<open>ipconfigSlotCount\<close>: one slot per network card, and up to the highest configured.\<close>

definition ip_slot_count :: "vm \<Rightarrow> nat" where
  "ip_slot_count v = fold (\<lambda>c n. if int n < ip_nic c + 1 then nat (ip_nic c + 1) else n)
     (cd_ip_configs (vs_cloud_data (vm_spec v))) (length (vs_nics (vm_spec v)))"

definition ip_slots :: "vm \<Rightarrow> string list" where
  "ip_slots v = map (\<lambda>i. ''ipconfig'' @ nat_str i) [0..<ip_slot_count v]"

definition clone_delete_keys :: "vm \<Rightarrow> params \<Rightarrow> string list" where
  "clone_delete_keys v ps =
     sort_strings (filter (\<lambda>k. map_of ps k = None) (clone_inherited_keys @ ip_slots v))"

definition clone_owned :: "vm \<Rightarrow> (string \<times> bool) list" where
  "clone_owned v =
     (let cd = vs_cloud_data (vm_spec v)
      in [(''ciuser'', cd_user cd \<noteq> []), (''sshkeys'', ssh_keys_wire (ssh_keys_effective cd) \<noteq> []),
          (''nameserver'', cd_nameservers cd \<noteq> []), (''searchdomain'', cd_search_domains cd \<noteq> []),
          (''cipassword'', password_effective cd \<noteq> []), (''cicustom'', False)] @
         map (\<lambda>i. (''ipconfig'' @ nat_str i, list_ex (\<lambda>c. ip_nic c = int i \<and> ip_addr c \<noteq> []) (cd_ip_configs cd)))
           [0..<ip_slot_count v])"

definition clone_clear_keys :: "vm \<Rightarrow> config \<Rightarrow> string list" where
  "clone_clear_keys v current =
     (if current = None then []
      else sort_strings (map fst (filter (\<lambda>(k, owned). \<not> owned \<and>
             trim_space (pve_str_at current k) \<noteq> [] \<and> \<not> is_none_slot (trim_space (pve_str_at current k)))
             (clone_owned v))))"

section \<open>Disks\<close>

text \<open>One declared disk against the live slot: the new value of the slot, or the anomaly.\<close>

datatype slot_verdict = Keep | Write string | Report string

definition disk_anomaly :: "string \<Rightarrow> string \<Rightarrow> disk \<Rightarrow> string" where
  "disk_anomaly slot raw d =
     ''disk '' @ slot @ '' storage/size drift (live='' @ go_quote raw @ ''; desired pool='' @
     di_pool (parse_disk_info (drive_volume_string d)) @ '' size='' @
     (if dk_image d \<noteq> [] then ''from image '' @ dk_image d else dk_size d) @
     ''); proxops will NOT auto-resize or re-pool a live data disk (PVE /config would recreate the volume and lose its data) '' @
     em_dash @ '' resize deliberately on PVE (qm set/qmresize) or via a new disk, then update the manifest''"

definition disk_verdict :: "config \<Rightarrow> string \<Rightarrow> disk \<Rightarrow> slot_verdict" where
  "disk_verdict current slot d =
     (let raw = pve_str_at current slot; cur = parse_disk_info raw; want = parse_disk_info (drive_volume_string d)
      in if is_new_storage_slot raw then Write (drive_volume_string d)
         else if di_pool cur \<noteq> di_pool want \<or> (di_size_set want \<and> di_size_set cur \<and> di_size cur \<noteq> di_size want)
         then Report (disk_anomaly slot raw d)
         else if drive_options_drift cur want then Write (live_drive_rewrite cur want)
         else Keep)"

definition disk_verdicts :: "vm \<Rightarrow> config \<Rightarrow> (string \<times> slot_verdict) list" where
  "disk_verdicts v current = map (\<lambda>sd. (fst sd, disk_verdict current (fst sd) (snd sd))) (disk_slots v)"

section \<open>Drift\<close>

type_synonym drift_state = "params \<times> bool"

text \<open>\<^verbatim>\<open>upd[k] = x\<close>, with \<^verbatim>\<open>stop = true\<close> when \<open>s\<close>.\<close>

definition drift_put :: "bool \<Rightarrow> bool \<Rightarrow> string \<Rightarrow> pval \<Rightarrow> drift_state \<Rightarrow> drift_state" where
  "drift_put b s k x st = (if b then (put k x (fst st), s \<or> snd st) else st)"

definition live_int :: "config \<Rightarrow> string \<Rightarrow> int" where
  "live_int current k = (case cfg_get current k of None \<Rightarrow> 0 | Some v \<Rightarrow> pve_int v)"

text \<open>A string key the manifest owns when it is not empty.\<close>

definition drift_str :: "config \<Rightarrow> bool \<Rightarrow> string \<Rightarrow> string \<Rightarrow> drift_state \<Rightarrow> drift_state" where
  "drift_str current s k want = drift_put (want \<noteq> [] \<and> pve_str_at current k \<noteq> want) s k (PStr want)"

definition drift_flag :: "config \<Rightarrow> bool \<Rightarrow> string \<Rightarrow> drift_state \<Rightarrow> drift_state" where
  "drift_flag current b k = drift_put (b \<and> live_int current k \<noteq> 1) False k (PStr ''1'')"

definition drift_base :: "vm \<Rightarrow> config \<Rightarrow> drift_state \<Rightarrow> drift_state" where
  "drift_base v current st =
     (let s = vm_spec v; cores = cp_cores (vs_cpu s);
          st = drift_str current True ''cpu'' (cp_type (vs_cpu s)) st;
          st = drift_put (0 < cores \<and> live_int current ''cores'' \<noteq> cores) True ''cores'' (PInt cores) st;
          st = (case memory_mib (vs_memory s) of
                  Inl _ \<Rightarrow> st
                | Inr m \<Rightarrow> drift_put (live_int current ''memory'' \<noteq> m) True ''memory'' (PInt64 m) st);
          st = drift_put (\<not> tags_equal (cfg_get current ''tags'') (all_tags (vs_tags s))) False ''tags''
                 (PStr (join_with '','' (all_tags (vs_tags s)))) st
      in drift_str current True ''scsihw'' (vm_scsi_hw (vs_disks s)) st)"

definition disk_update :: "string \<times> slot_verdict \<Rightarrow> params \<Rightarrow> params" where
  "disk_update sv m = (case snd sv of Write x \<Rightarrow> put (fst sv) (PStr x) m | _ \<Rightarrow> m)"

fun is_write :: "slot_verdict \<Rightarrow> bool" where
  "is_write (Write x) = True"
| "is_write _ = False"

definition drift_disks :: "vm \<Rightarrow> config \<Rightarrow> drift_state \<Rightarrow> drift_state" where
  "drift_disks v current st =
     (let vs = disk_verdicts v current
      in (put_all (fold disk_update vs []) (fst st), snd st \<or> list_ex (is_write \<circ> snd) vs))"

definition drift_nics :: "vm \<Rightarrow> config \<Rightarrow> drift_state \<Rightarrow> drift_state" where
  "drift_nics v current st = fold (\<lambda>sn.
     drift_put (\<not> nic_matches (pve_str_at current (fst sn)) (nic_string (snd sn))) True (fst sn)
       (PStr (nic_string (snd sn)))) (nic_slots v) st"

text \<open>The live form of an EFI disk with its type and keys corrected.\<close>

definition efi_rewrite :: "efi_disk \<Rightarrow> disk_info \<Rightarrow> string" where
  "efi_rewrite ef cur =
     (let t = to_lower (ef_template ef)
      in di_pool cur @ '':'' @ di_volume cur @
         (if di_size_set cur then '',size='' @ di_size_token cur else []) @
         (if di_efitype cur \<noteq> [] then '',efitype='' @ di_efitype cur else if t \<noteq> [] then '',efitype='' @ t else []) @
         (case secure_boot_wire (ef_secure_boot ef) of
            Some k \<Rightarrow> '',pre-enrolled-keys='' @ k
          | None \<Rightarrow> (case di_pre cur of None \<Rightarrow> [] | Some b \<Rightarrow> '',pre-enrolled-keys='' @ bit_str b)) @
         (if di_extra cur \<noteq> [] then '','' @ di_extra cur else []))"

definition efi_options_drift :: "efi_disk \<Rightarrow> disk_info \<Rightarrow> bool" where
  "efi_options_drift ef cur \<longleftrightarrow>
     (let t = to_lower (ef_template ef)
      in (t \<noteq> [] \<and> di_efitype cur \<noteq> [] \<and> di_efitype cur \<noteq> t) \<or>
         (case secure_boot_wire (ef_secure_boot ef) of
            None \<Rightarrow> False
          | Some k \<Rightarrow> (di_pre cur = Some True) \<noteq> (k = ''1'')))"

definition drift_efi :: "efi_disk \<Rightarrow> config \<Rightarrow> drift_state \<Rightarrow> drift_state" where
  "drift_efi ef current st =
     (let raw = pve_str_at current ''efidisk0''; cur = parse_disk_info raw
      in if is_new_storage_slot raw then drift_put True True ''efidisk0'' (PStr (efi_wire ef)) st
         else drift_put (di_pool cur \<noteq> [] \<and> di_pool cur = ef_storage ef \<and> efi_options_drift ef cur) True
                ''efidisk0'' (PStr (efi_rewrite ef cur)) st)"

definition drift_hardware :: "vm \<Rightarrow> config \<Rightarrow> drift_state \<Rightarrow> drift_state" where
  "drift_hardware v current st =
     (let hw = vs_hardware (vm_spec v); ci = hw_cloud_init hw; drive = pve_str_at current cloud_init_slot;
          st = drift_str current True ''machine'' (hw_machine hw) st;
          st = drift_str current True ''bios'' (hw_bios hw) st;
          st = drift_str current False ''vga'' (hw_display hw) st;
          st = drift_put (hw_sockets hw \<noteq> 0 \<and> live_int current ''sockets'' \<noteq> hw_sockets hw) True ''sockets'' (PInt (hw_sockets hw)) st;
          st = drift_put (hw_numa hw \<and> cfg_str current ''numa'' \<noteq> ''1'' \<and> live_int current ''numa'' \<noteq> 1) True ''numa'' (PStr ''1'') st;
          st = drift_put (ci_enabled ci \<and> \<not> cloud_init_matches drive (cloud_init_wire ci) \<and>
                  (\<not> is_clone_backed v \<or> is_new_storage_slot drive)) True cloud_init_slot (PStr (cloud_init_wire ci)) st;
          st = (case hw_efi hw of None \<Rightarrow> st | Some ef \<Rightarrow> drift_efi ef current st);
          st = (case hw_tpm hw of None \<Rightarrow> st
                | Some ver \<Rightarrow> drift_put (\<not> tpm_matches (pve_str_at current ''tpm0'') (tpm_wire ver)) True ''tpm0'' (PStr (tpm_wire ver)) st);
          st = drift_str current True ''serial0'' (hw_serial0 hw) st
      in fold (\<lambda>d. drift_put (\<not> hostpci_tokens_equal (pve_str_at current (pd_slot d)) d) True (pd_slot d) (PStr (pci_device_wire d)))
           (hw_pci hw) st)"

definition drift_cloud_data :: "cloud_init_data \<Rightarrow> config \<Rightarrow> drift_state \<Rightarrow> drift_state" where
  "drift_cloud_data cd current st =
     (let keys = ssh_keys_wire (ssh_keys_effective cd); pw = password_effective cd;
          ns = join_with '' '' (cd_nameservers cd); sd = join_with '' '' (cd_search_domains cd);
          st = drift_str current False ''ciuser'' (cd_user cd) st;
          st = drift_put (keys \<noteq> [] \<and> \<not> ssh_keys_wire_match (pve_str_at current ''sshkeys'') keys) False ''sshkeys'' (PStr keys) st;
          st = drift_put (pw \<noteq> [] \<and> pve_str_at current ''cipassword'' = []) False ''cipassword'' (PStr pw) st;
          st = drift_put (ns \<noteq> [] \<and> \<not> csv_sets_equal (pve_str_at current ''nameserver'') ns) False ''nameserver'' (PStr ns) st;
          st = drift_put (sd \<noteq> [] \<and> \<not> csv_sets_equal (pve_str_at current ''searchdomain'') sd) False ''searchdomain'' (PStr sd) st
      in fold (\<lambda>kv. drift_put (pve_str_at current (fst kv) \<noteq> snd kv) False (fst kv) (PStr (snd kv)))
           (ip_config_wire (cd_ip_configs cd)) st)"

definition drift_cdrom :: "vm \<Rightarrow> config \<Rightarrow> drift_state \<Rightarrow> drift_state" where
  "drift_cdrom v current st =
     (let slot = cdrom_slot v; cur = pve_str_at current slot; t = trim_space cur
      in case cdrom_managed_state v of
           Unmanaged \<Rightarrow> st
         | Attached \<Rightarrow> drift_put (\<not> cdrom_matches cur (cdrom_source v)) True slot (PStr (cdrom_wire_value v)) st
         | Detached \<Rightarrow> drift_put (t \<noteq> [] \<and> t \<noteq> cdrom_none \<and> \<not> has_prefix t cdrom_none) True slot (PStr cdrom_none) st)"

definition drift_options :: "vm_opts \<Rightarrow> config \<Rightarrow> drift_state \<Rightarrow> drift_state" where
  "drift_options o1 current st =
     (let boot = ''order='' @ join_with '';'' (op_boot_order o1); hot = join_with '','' (op_hotplug o1);
          st = drift_flag current (op_onboot o1) ''onboot'' st;
          st = drift_str current False ''startup'' (op_startup o1) st;
          st = drift_flag current (op_protection o1) ''protection'' st;
          st = drift_flag current (op_agent o1) ''agent'' st;
          st = drift_flag current (op_acpi o1) ''acpi'' st;
          st = drift_flag current (op_tablet o1) ''tablet'' st;
          st = drift_put (op_hotplug o1 \<noteq> [] \<and> pve_str_at current ''hotplug'' \<noteq> hot) False ''hotplug'' (PStr hot) st;
          st = drift_put (op_boot_order o1 \<noteq> [] \<and> pve_str_at current ''boot'' \<noteq> boot) False ''boot'' (PStr boot) st;
          st = drift_flag current (op_nested_virt o1) ''nestedvirt'' st
      in drift_flag current (op_hidden o1) ''hidden'' st)"

definition drift_clone :: "vm \<Rightarrow> config \<Rightarrow> drift_state \<Rightarrow> drift_state" where
  "drift_clone v current st =
     (let clear = clone_clear_keys v current
      in drift_put (is_clone_backed v \<and> clear \<noteq> []) False ''delete'' (PStr (join_with '','' clear)) st)"

definition vm_drift_state :: "vm \<Rightarrow> config \<Rightarrow> drift_state" where
  "vm_drift_state v current =
     drift_clone v current
       (drift_options (vs_options (vm_spec v)) current
         (drift_cdrom v current
           (drift_cloud_data (vs_cloud_data (vm_spec v)) current
             (drift_hardware v current
               (drift_nics v current (drift_disks v current (drift_base v current ([], False))))))))"

definition vm_drift :: "vm \<Rightarrow> config \<Rightarrow> drift_result" where
  "vm_drift v current =
     (if current = None then (None, False, False)
      else (let st = vm_drift_state v current
            in if fst st = [] then (None, snd st, False) else (Some (fst st), snd st, True)))"

section \<open>Anomalies\<close>

definition slot_anomaly :: "vm \<Rightarrow> string \<Rightarrow> pval \<Rightarrow> string option" where
  "slot_anomaly v k raw =
     (let s = pve_str raw
      in if is_disk_slot k
         then guard (\<not> is_clone_backed v \<and> k \<notin> fst ` set (disk_slots v) \<and> \<not> is_none_slot s)
                (''live-only disk slot '' @ k @ ''='' @ s @ '' is not in spec.disks; proxops will not automatically remove a live-only disk'')
         else if is_nic_slot k
         then guard (k \<notin> fst ` set (nic_slots v))
                (''live-only NIC slot '' @ k @ ''='' @ s @ '' is not in spec.networks; proxops will not automatically remove it'')
         else if pci_key_is_owned k
         then guard (s \<noteq> [] \<and> \<not> is_none_slot s \<and> k \<notin> pd_slot ` set (hw_pci (vs_hardware (vm_spec v))))
                (''live-only PCI slot '' @ k @ ''='' @ s @ '' is not in spec.hardware.pci-devices; proxops will not automatically remove a PVE-side hostpciN device'')
         else None)"

definition somes :: "'a option list \<Rightarrow> 'a list" where
  "somes xs = concat (map (\<lambda>x. case x of None \<Rightarrow> [] | Some y \<Rightarrow> [y]) xs)"

definition disk_reports :: "vm \<Rightarrow> config \<Rightarrow> string list" where
  "disk_reports v current =
     concat (map (\<lambda>sv. case snd sv of Report m \<Rightarrow> [m] | _ \<Rightarrow> []) (disk_verdicts v current))"

definition clone_drive_anomaly :: "vm \<Rightarrow> config \<Rightarrow> string option" where
  "clone_drive_anomaly v current =
     (let ci = hw_cloud_init (vs_hardware (vm_spec v)); pool = di_pool (parse_disk_info (pve_str_at current cloud_init_slot))
      in guard (ci_enabled ci \<and> pool \<noteq> [] \<and> pool \<noteq> ci_storage ci)
           (''clone cloud-init drive lives on pool '' @ go_quote pool @ '' (inherited from template '' @ go_quote (clone_name v) @
            '') but spec.hardware.cloud-init.storage is '' @ go_quote (ci_storage ci) @
            ''; proxops will not move a live cloud-init volume '' @ em_dash @ '' align the manifest with the template or recreate the VM''))"

definition efi_anomaly :: "vm \<Rightarrow> config \<Rightarrow> string option" where
  "efi_anomaly v current =
     (case hw_efi (vs_hardware (vm_spec v)) of
        None \<Rightarrow> None
      | Some ef \<Rightarrow>
          (let raw = pve_str_at current ''efidisk0''; pool = di_pool (parse_disk_info raw)
           in guard (\<not> is_new_storage_slot raw \<and> pool \<noteq> [] \<and> pool \<noteq> ef_storage ef)
                (''efidisk0 storage drift (live pool='' @ go_quote pool @ ''; desired pool='' @ ef_storage ef @
                 ''); proxops will NOT move a live EFI vars volume (PVE /config would recreate it) '' @ em_dash @
                 '' recreate the VM or migrate deliberately on PVE, then update the manifest'')))"

definition vm_drift_anomalies :: "vm \<Rightarrow> config \<Rightarrow> string list" where
  "vm_drift_anomalies v current =
     (case current of
        None \<Rightarrow> []
      | Some m \<Rightarrow>
          sort_strings (somes (map (\<lambda>kv. slot_anomaly v (fst kv) (snd kv)) m) @
            (if is_clone_backed v then somes [clone_drive_anomaly v current] else disk_reports v current) @
            somes [efi_anomaly v current]))"

end
