(* ===== verification/Lxc_Types.thy ===== *)
theory Lxc_Types
  imports Vm_Drift
begin

text \<open>
  The container manifest of \<^verbatim>\<open>internal/schema/lxc.go\<close> as records, and its wire strings:
  volumes, mount points, bind mounts and network cards, written, read back and compared.  The
  anomalies \<^verbatim>\<open>Drift\<close> leaves in the field \<^verbatim>\<open>lxcDiskAnoms\<close> for the following
  \<^verbatim>\<open>DriftAnomalies\<close> are computed from the same configuration (the planner calls the two
  in that order, on one configuration).
\<close>

section \<open>Data\<close>

record lxc_net =
  ln_iface :: string
  ln_bridge :: string
  ln_type :: string
  ln_hwaddr :: string
  ln_tag :: int
  ln_rate :: int
  ln_firewall :: bool
  ln_ip :: string
  ln_gw :: string
  ln_slot :: string

record mount_opts =
  mo_read_only :: "bool option"
  mo_backup :: "bool option"
  mo_acl :: "bool option"
  mo_quota :: "bool option"
  mo_shared :: "bool option"
  mo_options :: string

record lxc_mount =
  lm_storage :: string
  lm_size :: string
  lm_path :: string
  lm_slot :: string
  lm_opts :: "mount_opts option"

record binding =
  lb_host :: string
  lb_path :: string
  lb_slot :: string
  lb_read_only :: "bool option"

record lxc_opts =
  lo_unprivileged :: "bool option"
  lo_protection :: "bool option"
  lo_nesting :: "bool option"
  lo_keyctl :: "bool option"
  lo_fuse :: "bool option"
  lo_onboot :: "bool option"
  lo_startup :: string
  lo_ttys :: int
  lo_console :: "bool option"

record lxc_spec =
  ls_node :: string
  ls_vmid :: int
  ls_template :: string
  ls_description :: string
  ls_tags :: "string list"
  ls_cores :: int
  ls_units :: int
  ls_memory :: string
  ls_swap :: string
  ls_root_storage :: string
  ls_root_size :: string
  ls_mounts :: "lxc_mount list"
  ls_binds :: "binding list"
  ls_nets :: "lxc_net list"
  ls_hostname :: string
  ls_nameservers :: "string list"
  ls_domain :: string
  ls_arch :: string
  ls_options :: lxc_opts
  ls_extra :: "(string \<times> string) list"
  ls_state :: string

record lxc =
  lx_api_version :: string
  lx_kind :: kind
  lx_metadata :: metadata
  lx_spec :: lxc_spec
  lx_ostemplate :: string

section \<open>The zero values\<close>

definition zero_lxc_net :: lxc_net where
  "zero_lxc_net = \<lparr>ln_iface = [], ln_bridge = [], ln_type = [], ln_hwaddr = [], ln_tag = 0, ln_rate = 0,
     ln_firewall = False, ln_ip = [], ln_gw = [], ln_slot = []\<rparr>"

definition zero_mount_opts :: mount_opts where
  "zero_mount_opts = \<lparr>mo_read_only = None, mo_backup = None, mo_acl = None, mo_quota = None, mo_shared = None,
     mo_options = []\<rparr>"

definition zero_lxc_opts :: lxc_opts where
  "zero_lxc_opts = \<lparr>lo_unprivileged = None, lo_protection = None, lo_nesting = None, lo_keyctl = None, lo_fuse = None,
     lo_onboot = None, lo_startup = [], lo_ttys = 0, lo_console = None\<rparr>"

definition zero_lxc_spec :: lxc_spec where
  "zero_lxc_spec = \<lparr>ls_node = [], ls_vmid = 0, ls_template = [], ls_description = [], ls_tags = [], ls_cores = 0,
     ls_units = 0, ls_memory = [], ls_swap = [], ls_root_storage = [], ls_root_size = [], ls_mounts = [], ls_binds = [],
     ls_nets = [], ls_hostname = [], ls_nameservers = [], ls_domain = [], ls_arch = [], ls_options = zero_lxc_opts,
     ls_extra = [], ls_state = []\<rparr>"

definition new_lxc :: lxc where
  "new_lxc = \<lparr>lx_api_version = api_version, lx_kind = KindLXC, lx_metadata = empty_metadata, lx_spec = zero_lxc_spec,
     lx_ostemplate = []\<rparr>"

definition new_template_ct :: lxc where
  "new_template_ct = new_lxc\<lparr>lx_kind := KindTemplateCT\<rparr>"

section \<open>Reading the manifest\<close>

definition lxc_ref :: "lxc \<Rightarrow> ref" where
  "lxc_ref l = mk_ref (lx_kind l) (md_name (lx_metadata l))"

definition lxc_node :: "lxc \<Rightarrow> string" where
  "lxc_node l = ls_node (lx_spec l)"

definition lxc_nodes :: "lxc \<Rightarrow> string list" where
  "lxc_nodes l = (if ls_node (lx_spec l) = [] then [] else [ls_node (lx_spec l)])"

definition lxc_id :: "lxc \<Rightarrow> int" where
  "lxc_id l = ls_vmid (lx_spec l)"

definition lxc_desired_state :: "lxc \<Rightarrow> string" where
  "lxc_desired_state l = (case parse_state (ls_state (lx_spec l)) of Inr s \<Rightarrow> s | Inl _ \<Rightarrow> ''started'')"

definition lxc_deps :: "lxc \<Rightarrow> ref list" where
  "lxc_deps l = (if ls_template (lx_spec l) = [] then [] else [mk_ref KindCTTemplate (ls_template (lx_spec l))])"

definition net_slots :: "lxc \<Rightarrow> (string \<times> lxc_net) list" where
  "net_slots l = map (\<lambda>(i, n). (slot_or ''net'' i (ln_slot n), n)) (enumerate 0 (ls_nets (lx_spec l)))"

definition mount_slots :: "lxc \<Rightarrow> (string \<times> lxc_mount) list" where
  "mount_slots l = map (\<lambda>(i, m). (slot_or ''mp'' i (lm_slot m), m)) (enumerate 0 (ls_mounts (lx_spec l)))"

definition bind_slots :: "lxc \<Rightarrow> (string \<times> binding) list" where
  "bind_slots l = map (\<lambda>(i, b). (slot_or ''mp'' i (lb_slot b), b)) (enumerate (length (ls_mounts (lx_spec l))) (ls_binds (lx_spec l)))"

definition lxc_hostname :: "lxc \<Rightarrow> string" where
  "lxc_hostname l = (let h = trim_space (ls_hostname (lx_spec l)) in if h \<noteq> [] then h else md_name (lx_metadata l))"

section \<open>Volumes\<close>

definition lxc_lvm_alloc :: "string \<Rightarrow> string \<Rightarrow> string" where
  "lxc_lvm_alloc pool sz = pool @ '':'' @ gib_string (size_bytes sz)"

definition opt_token :: "string \<Rightarrow> bool option \<Rightarrow> string" where
  "opt_token name b = (case b of None \<Rightarrow> [] | Some x \<Rightarrow> '','' @ name @ ''='' @ bit_str x)"

definition mount_option_tokens :: "mount_opts option \<Rightarrow> string" where
  "mount_option_tokens mo =
     (case mo of
        None \<Rightarrow> []
      | Some mo \<Rightarrow>
          opt_token ''ro'' (mo_read_only mo) @ opt_token ''backup'' (mo_backup mo) @ opt_token ''acl'' (mo_acl mo) @
          opt_token ''quota'' (mo_quota mo) @ opt_token ''shared'' (mo_shared mo) @
          (if mo_options mo \<noteq> [] then '',mountoptions='' @ mo_options mo else []))"

definition mount_create_wire :: "lxc_mount \<Rightarrow> string" where
  "mount_create_wire m = lxc_lvm_alloc (lm_storage m) (lm_size m) @
     (if lm_path m \<noteq> [] then '',mp='' @ lm_path m else []) @ mount_option_tokens (lm_opts m)"

definition bind_create_wire :: "binding \<Rightarrow> string" where
  "bind_create_wire b = lb_host b @ '',mp='' @ lb_path b @ opt_token ''ro'' (lb_read_only b)"

definition disk_matches :: "disk_info \<Rightarrow> disk_info \<Rightarrow> bool" where
  "disk_matches a b \<longleftrightarrow> di_pool a = di_pool b \<and> di_iothread a = di_iothread b \<and>
     (di_size_set a \<longrightarrow> di_size_set b \<and> di_size a = di_size b)"

text \<open>\<^verbatim>\<open>isLXCBindMount\<close>.\<close>

definition is_lxc_bind_mount :: "string \<Rightarrow> bool" where
  "is_lxc_bind_mount raw \<longleftrightarrow>
     (let t = trim_space raw
      in has_prefix t ''/'' \<or>
         (case index_byte t (CHR '':'') of
            None \<Rightarrow> False
          | Some i \<Rightarrow>
              (let pool = trim_space (take i t)
               in pool = [] \<or> \<not> list_all (\<lambda>c. is_alnum c \<or> c = CHR ''_'' \<or> c = CHR ''-'') pool)))"

definition trim_slashes :: "string \<Rightarrow> string" where
  "trim_slashes p = rev (dropWhile (\<lambda>c. c = CHR ''/'') (rev p))"

definition system_dirs :: "string list" where
  "system_dirs =
     [''/bin'', ''/boot'', ''/dev'', ''/etc'', ''/lib'', ''/lib32'', ''/lib64'', ''/libx32'',
      ''/proc'', ''/root'', ''/run'', ''/sbin'', ''/srv'', ''/sys'', ''/usr'', ''/var'']"

definition bind_host_path_unsafe :: "string \<Rightarrow> bool" where
  "bind_host_path_unsafe p \<longleftrightarrow> trim_slashes p = [] \<or> trim_slashes p \<in> set system_dirs"

text \<open>A live bind mount: host path, guest path, read-only flag.\<close>

definition bind_token :: "string \<Rightarrow> string \<times> bool option \<Rightarrow> string \<times> bool option" where
  "bind_token t0 gr =
     (let t = trim_space t0
      in case cut_prefix t ''mp='' of
           Some v \<Rightarrow> (trim_space v, snd gr)
         | None \<Rightarrow>
             (case cut_prefix t ''ro='' of
                Some v \<Rightarrow> (fst gr, Some (v = ''1'' \<or> v = ''true''))
              | None \<Rightarrow> if t = ''ro'' then (fst gr, Some True) else gr))"

definition bind_parse_live :: "string \<Rightarrow> (string \<times> string \<times> bool option) option" where
  "bind_parse_live raw0 =
     (let raw = trim_space raw0; toks = split_on (CHR '','') raw; host = trim_space (hd toks);
          gr = fold bind_token (drop 1 toks) ([], None)
      in if raw = [] \<or> \<not> is_lxc_bind_mount raw then None
         else if fst gr = []
         then (case index_byte host (CHR '':'') of
                 Some i \<Rightarrow> (if has_prefix (drop (Suc i) host) ''/''
                            then Some (trim_space (take i host), trim_space (drop (Suc i) host), snd gr)
                            else Some (host, fst gr, snd gr))
               | None \<Rightarrow> Some (host, fst gr, snd gr))
         else Some (host, fst gr, snd gr))"

section \<open>Tokens of a live mount point\<close>

text \<open>\<^verbatim>\<open>lxcRawToken\<close>: the first token with the prefix; \<^verbatim>\<open>lxcRawBoolToken\<close> reads it as a flag.\<close>

fun raw_token_in :: "string \<Rightarrow> string list \<Rightarrow> string option" where
  "raw_token_in kv [] = None"
| "raw_token_in kv (t # ts) =
     (case cut_prefix (trim_space t) kv of Some v \<Rightarrow> Some v | None \<Rightarrow> raw_token_in kv ts)"

definition lxc_raw_token :: "string \<Rightarrow> string \<Rightarrow> string" where
  "lxc_raw_token raw kv = (case raw_token_in kv (split_on (CHR '','') raw) of Some v \<Rightarrow> v | None \<Rightarrow> [])"

definition lxc_raw_bool_token :: "string \<Rightarrow> string \<Rightarrow> bool option" where
  "lxc_raw_bool_token raw kv = map_option (\<lambda>v. v = ''1'' \<or> v = ''true'') (raw_token_in kv (split_on (CHR '','') raw))"

definition kept_token :: "string list \<Rightarrow> string \<Rightarrow> bool" where
  "kept_token skip t \<longleftrightarrow> t \<noteq> [] \<and>
     (case cut_eq t of None \<Rightarrow> True | Some (k, v) \<Rightarrow> k = [] \<or> k \<notin> set skip)"

definition lxc_raw_tokens_except :: "string \<Rightarrow> string list \<Rightarrow> string" where
  "lxc_raw_tokens_except raw except =
     (let out = filter (kept_token (''mp'' # except)) (map trim_space (drop 1 (split_on (CHR '','') raw)))
      in if out = [] then [] else '','' @ join_with '','' out)"

section \<open>Network cards\<close>

definition lxc_net_string :: "lxc_net \<Rightarrow> string" where
  "lxc_net_string n =
     (let i = trim_space (ln_iface n);
          iface = (if i \<noteq> [] then i else if ln_slot n \<noteq> [] then ln_slot n else ''net0'');
          t = trim_space (ln_type n); mac = to_lower (trim_space (ln_hwaddr n)); ip = trim_space (ln_ip n); gw = trim_space (ln_gw n)
      in ''name='' @ iface @
         (if t \<noteq> [] then '',type='' @ t else []) @
         (if ln_bridge n \<noteq> [] then '',bridge='' @ ln_bridge n else []) @
         (if 0 < ln_tag n then '',tag='' @ itoa (ln_tag n) else []) @
         (if mac \<noteq> [] then '',hwaddr='' @ mac else []) @
         (if 0 < ln_rate n then '',rate='' @ itoa (ln_rate n) else []) @
         (if ln_firewall n then '',firewall=1'' else []) @
         (if ip \<noteq> [] then '',ip='' @ ip else []) @
         (if gw \<noteq> [] then '',gw='' @ gw else []))"

record lxc_net_fields =
  lf_iface :: string
  lf_type :: string
  lf_bridge :: string
  lf_tag :: int
  lf_hwaddr :: string
  lf_rate :: int
  lf_firewall :: bool
  lf_ip :: string
  lf_gw :: string

definition lxc_net_option :: "string \<Rightarrow> string \<Rightarrow> lxc_net_fields \<Rightarrow> lxc_net_fields" where
  "lxc_net_option k v out =
     (if k = ''name'' then out\<lparr>lf_iface := v\<rparr>
      else if k = ''type'' then out\<lparr>lf_type := v\<rparr>
      else if k = ''bridge'' then out\<lparr>lf_bridge := v\<rparr>
      else if k = ''tag'' then out\<lparr>lf_tag := atoi_clamp v\<rparr>
      else if k = ''hwaddr'' then out\<lparr>lf_hwaddr := to_lower v\<rparr>
      else if k = ''rate'' then out\<lparr>lf_rate := atoi_clamp v\<rparr>
      else if k = ''firewall'' then out\<lparr>lf_firewall := (v = ''1'' \<or> v = ''true'')\<rparr>
      else if k = ''ip'' then out\<lparr>lf_ip := v\<rparr>
      else if k = ''gw'' then out\<lparr>lf_gw := v\<rparr>
      else out)"

definition lxc_net_token :: "string \<Rightarrow> lxc_net_fields \<Rightarrow> lxc_net_fields" where
  "lxc_net_token t out = (case cut_eq (trim_space t) of None \<Rightarrow> out | Some (k, v) \<Rightarrow> lxc_net_option k v out)"

definition no_net_fields :: lxc_net_fields where
  "no_net_fields = \<lparr>lf_iface = [], lf_type = [], lf_bridge = [], lf_tag = 0, lf_hwaddr = [], lf_rate = 0,
     lf_firewall = False, lf_ip = [], lf_gw = []\<rparr>"

definition parse_lxc_net_fields :: "string \<Rightarrow> lxc_net_fields" where
  "parse_lxc_net_fields s = fold lxc_net_token (split_on (CHR '','') s) no_net_fields"

definition lxc_net_matches :: "string \<Rightarrow> lxc_net \<Rightarrow> bool" where
  "lxc_net_matches cur n \<longleftrightarrow>
     (let got = parse_lxc_net_fields cur; i = trim_space (ln_iface n); mac = to_lower (trim_space (ln_hwaddr n));
          ip = trim_space (ln_ip n); gw = trim_space (ln_gw n)
      in (i = [] \<or> lf_iface got = i) \<and> (ln_bridge n = [] \<or> lf_bridge got = ln_bridge n) \<and>
         (ln_tag n \<le> 0 \<or> lf_tag got = ln_tag n) \<and> (mac = [] \<or> lf_hwaddr got = mac) \<and>
         (ln_rate n \<le> 0 \<or> lf_rate got = ln_rate n) \<and> (ln_firewall n \<longrightarrow> lf_firewall got) \<and>
         (ip = [] \<or> lf_ip got = ip) \<and> (gw = [] \<or> lf_gw got = gw))"

end
