(* ===== verification/Lxc.thy ===== *)
theory Lxc
  imports Lxc_Types
begin

text \<open>
  \<^verbatim>\<open>LXC.Validate\<close>, \<^verbatim>\<open>LXC.ToCreateParams\<close>, \<^verbatim>\<open>LXC.Drift\<close>,
  \<^verbatim>\<open>LXC.DriftAnomalies\<close> and what \<^verbatim>\<open>TemplateCT\<close> changes of them.
\<close>

section \<open>Validate\<close>

text \<open>\<^verbatim>\<open>ValidName\<close>: lower-case letters, digits, single dashes inside.\<close>

definition valid_name :: "string \<Rightarrow> bool" where
  "valid_name s \<longleftrightarrow> list_all (\<lambda>w. w \<noteq> [] \<and> list_all (\<lambda>c. is_lower c \<or> is_digit c) w) (split_on (CHR ''-'') s)"

definition check_lxc_net :: "string \<Rightarrow> nat \<Rightarrow> string list \<Rightarrow> lxc_net \<Rightarrow> string option" where
  "check_lxc_net rs i seen n =
     (let slot = slot_or ''net'' i (ln_slot n); p = rs @ item '': spec.networks'' i
      in checks
        [guard (ln_bridge n = []) (p @ ''.bridge must be set''),
         guard (ln_tag n < 0 \<or> 4094 < ln_tag n) (p @ ''.tag must be in [0, 4094]''),
         guard (ln_rate n < 0) (p @ ''.rate-limit must be non-negative''),
         guard (slot \<in> set seen) (rs @ '': duplicate net slot '' @ go_quote slot),
         guard (\<not> valid_net_slot slot) (p @ '' slot '' @ go_quote slot @ '' invalid (use net0, net1, ...)'')])"

fun check_lxc_nets :: "string \<Rightarrow> nat \<Rightarrow> string list \<Rightarrow> lxc_net list \<Rightarrow> string option" where
  "check_lxc_nets rs i seen [] = None"
| "check_lxc_nets rs i seen (n # ns) =
     (case check_lxc_net rs i seen n of
        Some e \<Rightarrow> Some e
      | None \<Rightarrow> check_lxc_nets rs (Suc i) (slot_or ''net'' i (ln_slot n) # seen) ns)"

definition check_mount :: "string \<Rightarrow> nat \<Rightarrow> string list \<Rightarrow> lxc_mount \<Rightarrow> string option" where
  "check_mount rs i seen m =
     (let slot = slot_or ''mp'' i (lm_slot m); p = rs @ item '': spec.mount-points'' i
      in checks
        [guard (lm_storage m = []) (p @ ''.storage must be set''),
         guard (lm_size m = []) (p @ ''.size must be set''),
         of_result (p @ ''.size: '') (disk_bytes (lm_size m)),
         guard (lm_path m \<noteq> [] \<and> \<not> has_prefix (lm_path m) ''/'')
           (p @ ''.mount-point '' @ go_quote (lm_path m) @ '' must be an absolute path''),
         guard (slot \<in> set seen) (rs @ '': duplicate mount point '' @ go_quote slot)])"

text \<open>The loops over mount points and binds share \<^verbatim>\<open>seenMp\<close>: the first leaves it to the second.\<close>

fun check_mounts :: "string \<Rightarrow> nat \<Rightarrow> string list \<Rightarrow> lxc_mount list \<Rightarrow> string + string list" where
  "check_mounts rs i seen [] = Inr seen"
| "check_mounts rs i seen (m # ms) =
     (case check_mount rs i seen m of
        Some e \<Rightarrow> Inl e
      | None \<Rightarrow> check_mounts rs (Suc i) (slot_or ''mp'' i (lm_slot m) # seen) ms)"

definition check_bind :: "string \<Rightarrow> nat \<Rightarrow> nat \<Rightarrow> string list \<Rightarrow> binding \<Rightarrow> string option" where
  "check_bind rs n i seen b =
     (let slot = slot_or ''mp'' (n + i) (lb_slot b); p = rs @ item '': spec.bind-mounts'' i
      in checks
        [guard (\<not> has_prefix (lb_host b) ''/'') (p @ ''.host-path '' @ go_quote (lb_host b) @ '' must be an absolute path on the PVE node''),
         guard (\<not> has_prefix (lb_path b) ''/'') (p @ ''.mount-point '' @ go_quote (lb_path b) @ '' must be an absolute path in the guest''),
         guard (bind_host_path_unsafe (lb_host b))
           (p @ ''.host-path '' @ go_quote (lb_host b) @ '' is a system-critical host directory; PVE'' @ [CHR 39] @
            ''s pct.conf warns never to bind-mount system dirs (a misconfigured container can damage the host) '' @ em_dash @
            '' choose a dedicated directory''),
         guard (slot \<in> set seen)
           (rs @ '': duplicate mount point slot '' @ go_quote slot @ '' (spec.mount-points and spec.bind-mounts share the mpN namespace)'')])"

fun check_binds :: "string \<Rightarrow> nat \<Rightarrow> nat \<Rightarrow> string list \<Rightarrow> binding list \<Rightarrow> string option" where
  "check_binds rs n i seen [] = None"
| "check_binds rs n i seen (b # bs) =
     (case check_bind rs n i seen b of
        Some e \<Rightarrow> Some e
      | None \<Rightarrow> check_binds rs n (Suc i) (slot_or ''mp'' (n + i) (lb_slot b) # seen) bs)"

definition check_volumes :: "string \<Rightarrow> lxc_spec \<Rightarrow> string option" where
  "check_volumes rs s =
     (case check_mounts rs 0 [] (ls_mounts s) of
        Inl e \<Rightarrow> Some e
      | Inr seen \<Rightarrow> check_binds rs (length (ls_mounts s)) 0 seen (ls_binds s))"

definition lxc_reserved :: "string list" where
  "lxc_reserved =
     [''vmid'', ''ctid'', ''name'', ''memory'', ''core_count'', ''cores'', ''rootfs'', ''ostemplate'', ''ostype'', ''arch'',
      ''hostname'', ''nameserver'', ''searchdomain'', ''unprivileged'', ''onboot'', ''protection'', ''nesting'', ''keyctl'',
      ''fuse'', ''start'', ''tags'']"

definition check_lxc_extra :: "string \<Rightarrow> string \<Rightarrow> string option" where
  "check_lxc_extra rs k =
     guard (has_prefix k ''net'' \<or> has_prefix k ''mp'' \<or> k \<in> set lxc_reserved)
       (rs @ '': spec.extra key '' @ go_quote k @ '' conflicts with a structured field; remove it'')"

definition lxc_validate :: "lxc \<Rightarrow> string option" where
  "lxc_validate l =
     (let s = lx_spec l; rs = ref_str (lxc_ref l)
      in checks
        [guard (ls_node s = [] \<or> \<not> valid_node_name (ls_node s)) (rs @ '': spec.node must be a valid PVE node''),
         guard (ls_vmid s \<le> 0) (rs @ '': spec.vmid must be > 0''),
         guard (ls_cores s \<le> 0) (rs @ '': spec.cpu.cores must be > 0''),
         guard (ls_memory s = []) (rs @ '': spec.memory must be set (e.g. 2GiB)''),
         of_result (rs @ '': spec.memory: '') (memory_mib (ls_memory s)),
         (if ls_swap s \<noteq> [] then of_result (rs @ '': spec.swap: '') (memory_mib (ls_swap s)) else None),
         guard (ls_root_storage s = []) (rs @ '': spec.root.storage must be set (a PVE storage id with rootdir content)''),
         guard (ls_root_size s = []) (rs @ '': spec.root.size must be set (e.g. 32GiB)''),
         of_result (rs @ '': spec.root.size: '') (disk_bytes (ls_root_size s)),
         guard (ls_template s = []) (rs @ '': spec.template must reference a CTTemplate manifest (PVE /lxc create requires an ostemplate)''),
         guard (\<not> valid_name (ls_template s)) (rs @ '': spec.template '' @ go_quote (ls_template s) @ '' is not a valid resource name''),
         check_lxc_nets rs 0 [] (ls_nets s),
         check_volumes rs s,
         guard (ls_arch s \<notin> {[], ''amd64'', ''i686'', ''arm64''}) (rs @ '': spec.arch '' @ go_quote (ls_arch s) @ '' must be amd64|i686|arm64 (PVE 9.2)''),
         checks (map (\<lambda>kv. check_lxc_extra rs (fst kv)) (ls_extra s)),
         (if ls_state s = [] then None else of_result (rs @ '': '') (parse_state (ls_state s)))])"

definition template_ct_validate :: "lxc \<Rightarrow> string option" where
  "template_ct_validate l =
     checks
       [lxc_validate l,
        guard (ls_state (lx_spec l) \<notin> {[], ''stopped''})
          (ref_str (lxc_ref l) @ '': spec.state '' @ go_quote (ls_state (lx_spec l)) @
           '' is not allowed for a TemplateCT (PVE templates are not started; use '' @ sq ''stopped'' @ '')'')]"

text \<open>The manifest as a successful call leaves it: every slot is named.\<close>

definition lxc_filled :: "lxc \<Rightarrow> lxc" where
  "lxc_filled l = l\<lparr>lx_spec := (let s = lx_spec l in
     s\<lparr>ls_nets := map (\<lambda>(i, n). n\<lparr>ln_slot := slot_or ''net'' i (ln_slot n)\<rparr>) (enumerate 0 (ls_nets s)),
       ls_mounts := map (\<lambda>(i, m). m\<lparr>lm_slot := slot_or ''mp'' i (lm_slot m)\<rparr>) (enumerate 0 (ls_mounts s)),
       ls_binds := map (\<lambda>(i, b). b\<lparr>lb_slot := slot_or ''mp'' i (lb_slot b)\<rparr>)
         (enumerate (length (ls_mounts s)) (ls_binds s))\<rparr>)\<rparr>"

section \<open>Create parameters\<close>

definition bool_put :: "string \<Rightarrow> bool option \<Rightarrow> params \<Rightarrow> params" where
  "bool_put k b m = (case b of None \<Rightarrow> m | Some x \<Rightarrow> put k (PStr (bit_str x)) m)"

definition features_create :: "bool \<Rightarrow> string" where
  "features_create n = ''nesting='' @ bit_str n"

definition lxc_base_params :: "lxc \<Rightarrow> params" where
  "lxc_base_params l =
     (let s = lx_spec l;
          m = [(''vmid'', PInt (ls_vmid s)), (''cores'', PInt (ls_cores s)), (''memory'', PInt64 (mem_mib (ls_memory s))),
               (''tags'', PStr (join_with '','' (all_tags (ls_tags s)))), (''start'', PStr ''0'')];
          m = put_if (lx_ostemplate l \<noteq> []) ''ostemplate'' (PStr (lx_ostemplate l)) m;
          m = put ''hostname'' (PStr (lxc_hostname l)) m;
          m = put_if (ls_nameservers s \<noteq> []) ''nameserver'' (PStr (join_with '','' (ls_nameservers s))) m;
          m = put_if (ls_domain s \<noteq> []) ''searchdomain'' (PStr (ls_domain s)) m;
          m = put_if (ls_description s \<noteq> []) ''description'' (PStr (ls_description s)) m;
          m = put ''rootfs'' (PStr (lxc_lvm_alloc (ls_root_storage s) (ls_root_size s))) m;
          m = put_if (ls_arch s \<noteq> []) ''arch'' (PStr (ls_arch s)) m
      in put_if (ls_swap s \<noteq> []) ''swap'' (PInt64 (mem_mib (ls_swap s))) m)"

definition lxc_device_params :: "lxc \<Rightarrow> params \<Rightarrow> params" where
  "lxc_device_params l m =
     put_all (map (\<lambda>sn. (fst sn, PStr (lxc_net_string (snd sn)))) (net_slots l))
       (put_all (map (\<lambda>sb. (fst sb, PStr (bind_create_wire (snd sb)))) (bind_slots l))
         (put_all (map (\<lambda>sm. (fst sm, PStr (mount_create_wire (snd sm)))) (mount_slots l)) m))"

definition lxc_option_params :: "lxc_opts \<Rightarrow> params \<Rightarrow> params" where
  "lxc_option_params o1 m =
     (let m = bool_put ''unprivileged'' (lo_unprivileged o1) m;
          m = bool_put ''protection'' (lo_protection o1) m;
          m = bool_put ''onboot'' (lo_onboot o1) m;
          m = bool_put ''console'' (lo_console o1) m
      in case lo_nesting o1 of None \<Rightarrow> m | Some n \<Rightarrow> put ''features'' (PStr (features_create n)) m)"

definition no_create_form :: "string \<Rightarrow> string \<Rightarrow> string" where
  "no_create_form rs k =
     rs @ '': spec.options.'' @ k @ ''=true has no PVE 9.x LXC create form (POST /lxc rejects top-level '' @ k @
     '' with 403 and the features composite has no '' @ k @ '' token); create the container and enable '' @ k @
     '' on PVE, or drop spec.options.'' @ k"

text \<open>A manifest that can be created: the two options without a create form are not asked for.\<close>

definition lxc_creatable :: "lxc \<Rightarrow> bool" where
  "lxc_creatable l \<longleftrightarrow> lo_keyctl (ls_options (lx_spec l)) \<noteq> Some True \<and> lo_fuse (ls_options (lx_spec l)) \<noteq> Some True"

definition lxc_params_filled :: "lxc \<Rightarrow> params" where
  "lxc_params_filled l =
     (let s = lx_spec l; m = lxc_option_params (ls_options s) (lxc_device_params l (lxc_base_params l));
          m = put_if (lo_startup (ls_options s) \<noteq> []) ''startup'' (PStr (lo_startup (ls_options s))) m
      in put_all (map (\<lambda>kv. (fst kv, PStr (snd kv))) (ls_extra s)) m)"

definition lxc_to_create_params :: "lxc \<Rightarrow> string + params" where
  "lxc_to_create_params l =
     (let rs = ref_str (lxc_ref l); o1 = ls_options (lx_spec l)
      in case lxc_validate l of
           Some e \<Rightarrow> Inl e
         | None \<Rightarrow>
             (if lo_keyctl o1 = Some True then Inl (no_create_form rs ''keyctl'')
              else if lo_fuse o1 = Some True then Inl (no_create_form rs ''fuse'')
              else Inr (lxc_params_filled (lxc_filled l))))"

section \<open>One storage slot\<close>

definition volume_anomaly :: "string \<Rightarrow> string \<Rightarrow> disk_info \<Rightarrow> string" where
  "volume_anomaly slot raw want =
     slot @ '' storage/size drift (live='' @ go_quote raw @ ''; desired pool='' @ di_pool want @ '' size='' @
     (if di_size_set want then itoa (di_size want) @ '' bytes'' else []) @
     ''); proxops will NOT auto-resize or re-pool a live LXC volume (PVE /config would recreate the volume and lose its data) '' @
     em_dash @ '' resize deliberately on PVE, then update the manifest''"

definition volume_moved :: "disk_info \<Rightarrow> disk_info \<Rightarrow> bool" where
  "volume_moved cur want \<longleftrightarrow>
     di_pool cur \<noteq> di_pool want \<or> (di_size_set want \<and> di_size_set cur \<and> di_size cur \<noteq> di_size want)"

definition rootfs_verdict :: "string \<Rightarrow> string \<Rightarrow> string \<Rightarrow> slot_verdict" where
  "rootfs_verdict slot want_wire cur_wire =
     (let cur = parse_disk_info cur_wire; want = parse_disk_info want_wire
      in if is_new_storage_slot cur_wire then (if disk_matches cur want then Keep else Write want_wire)
         else if volume_moved cur want then Report (volume_anomaly slot cur_wire want)
         else Keep)"

text \<open>
  \<^verbatim>\<open>lxcMountLiveRewrite\<close>: the flags with their defaults, and the rewritten value when an owned
  piece differs.
\<close>

definition flag_differs :: "string \<Rightarrow> string \<Rightarrow> bool option \<Rightarrow> bool \<Rightarrow> bool" where
  "flag_differs raw tok want dflt =
     (case want of
        None \<Rightarrow> False
      | Some w \<Rightarrow> (case lxc_raw_bool_token raw tok of None \<Rightarrow> dflt | Some lv \<Rightarrow> lv) \<noteq> w)"

definition mount_differs :: "string \<Rightarrow> lxc_mount \<Rightarrow> bool" where
  "mount_differs raw m \<longleftrightarrow>
     (let live_mp = lxc_raw_token raw ''mp=''
      in (lm_path m \<noteq> [] \<and> live_mp \<noteq> [] \<and> lm_path m \<noteq> live_mp) \<or>
         (case lm_opts m of
            None \<Rightarrow> False
          | Some mo \<Rightarrow>
              flag_differs raw ''ro='' (mo_read_only mo) False \<or> flag_differs raw ''backup='' (mo_backup mo) False \<or>
              flag_differs raw ''acl='' (mo_acl mo) False \<or> flag_differs raw ''quota='' (mo_quota mo) False \<or>
              flag_differs raw ''shared='' (mo_shared mo) False \<or>
              (mo_options mo \<noteq> [] \<and> lxc_raw_token raw ''mountoptions='' \<noteq> [] \<and>
               lxc_raw_token raw ''mountoptions='' \<noteq> mo_options mo)))"

definition mount_rewrite :: "string \<Rightarrow> lxc_mount \<Rightarrow> string" where
  "mount_rewrite raw m =
     (let cur = parse_disk_info raw; mp = (if lm_path m \<noteq> [] then lm_path m else lxc_raw_token raw ''mp='')
      in di_pool cur @ '':'' @ di_volume cur @
         (if di_size_set cur then '',size='' @ di_size_token cur else []) @
         (if mp \<noteq> [] then '',mp='' @ mp else []) @ mount_option_tokens (lm_opts m) @
         lxc_raw_tokens_except raw [''mp'', ''ro'', ''backup'', ''acl'', ''quota'', ''shared'', ''mountoptions'', ''size''])"

definition mount_verdict :: "string \<Rightarrow> lxc_mount \<Rightarrow> string \<Rightarrow> slot_verdict" where
  "mount_verdict slot m raw =
     (let want = parse_disk_info (mount_create_wire m)
      in if is_new_storage_slot raw then Write (mount_create_wire m)
         else if is_lxc_bind_mount raw
         then Report (slot @ '' is a live host-path bind mount ('' @ go_quote raw @
                '') but spec.mount-points declares an allocated volume '' @ em_dash @
                '' proxops will not replace a live bind mount (host data); reconcile the manifest with PVE or remove the bind deliberately'')
         else if volume_moved (parse_disk_info raw) want then Report (volume_anomaly slot raw want)
         else if mount_differs raw m then Write (mount_rewrite raw m)
         else Keep)"

definition bind_verdict :: "string \<Rightarrow> binding \<Rightarrow> string \<Rightarrow> slot_verdict" where
  "bind_verdict slot b raw =
     (if is_new_storage_slot raw then Write (bind_create_wire b)
      else if \<not> is_lxc_bind_mount raw
      then Report (slot @ '' is a live allocated volume ('' @ go_quote raw @
             '') but spec.bind-mounts declares a host-path bind '' @ em_dash @
             '' proxops will not swap a bind mount and a storage volume on one slot (data safety); reconcile the manifest or move one off this slot'')
      else (case bind_parse_live raw of
              None \<Rightarrow> Keep
            | Some (host, guest, ro) \<Rightarrow>
                (if host \<noteq> [] \<and> trim_slashes host \<noteq> trim_slashes (lb_host b)
                 then Report (slot @ '' bind host path drift (live='' @ go_quote host @ ''; desired='' @ go_quote (lb_host b) @
                        ''); proxops will NOT re-point a live bind mount '' @ em_dash @
                        '' exposing a different host directory to a running container can damage host data; reconcile deliberately on PVE'')
                 else if (lb_path b \<noteq> [] \<and> guest \<noteq> [] \<and> lb_path b \<noteq> guest) \<or>
                         (case lb_read_only b of None \<Rightarrow> False | Some w \<Rightarrow> (ro = Some True) \<noteq> w)
                 then Write (bind_create_wire b)
                 else Keep)))"

end
