(* ===== verification/Lxc_Drift.thy ===== *)
theory Lxc_Drift
  imports Lxc
begin

text \<open>
  \<^verbatim>\<open>LXC.Drift\<close> and \<^verbatim>\<open>LXC.DriftAnomalies\<close>, as steps on the map of updates and
  the stop flag in the order of the method, and the container as the planner sees it.
\<close>

section \<open>Drift\<close>

text \<open>The verdict of every storage slot: root file system, mount points, bind mounts.\<close>

definition volume_verdicts :: "lxc \<Rightarrow> config \<Rightarrow> (string \<times> slot_verdict) list" where
  "volume_verdicts l current =
     (''rootfs'', rootfs_verdict ''rootfs'' (lxc_lvm_alloc (ls_root_storage (lx_spec l)) (ls_root_size (lx_spec l)))
        (pve_str_at current ''rootfs'')) #
     map (\<lambda>sm. (fst sm, mount_verdict (fst sm) (snd sm) (pve_str_at current (fst sm)))) (mount_slots l) @
     map (\<lambda>sb. (fst sb, bind_verdict (fst sb) (snd sb) (pve_str_at current (fst sb)))) (bind_slots l)"

definition drift_volume :: "string \<times> slot_verdict \<Rightarrow> drift_state \<Rightarrow> drift_state" where
  "drift_volume sv st = (case snd sv of Write x \<Rightarrow> drift_put True True (fst sv) (PStr x) st | _ \<Rightarrow> st)"

definition drift_mib :: "config \<Rightarrow> string \<Rightarrow> string \<Rightarrow> drift_state \<Rightarrow> drift_state" where
  "drift_mib current k human st =
     (case memory_mib human of
        Inl _ \<Rightarrow> st
      | Inr m \<Rightarrow> drift_put (live_int current k \<noteq> m) True k (PInt64 m) st)"

definition drift_lxc_base :: "lxc \<Rightarrow> config \<Rightarrow> drift_state \<Rightarrow> drift_state" where
  "drift_lxc_base l current st =
     (let s = lx_spec l; ns = join_with '','' (ls_nameservers s);
          st = drift_put (live_int current ''cores'' \<noteq> ls_cores s) True ''cores'' (PInt (ls_cores s)) st;
          st = drift_mib current ''memory'' (ls_memory s) st;
          st = (if ls_swap s \<noteq> [] then drift_mib current ''swap'' (ls_swap s) st else st);
          st = drift_str current True ''arch'' (ls_arch s) st;
          st = drift_put (pve_str_at current ''hostname'' \<noteq> lxc_hostname l) False ''hostname'' (PStr (lxc_hostname l)) st;
          st = drift_put (ls_nameservers s \<noteq> [] \<and> \<not> nameserver_equals (pve_str_at current ''nameserver'') ns) False ''nameserver'' (PStr ns) st;
          st = drift_str current False ''searchdomain'' (ls_domain s) st;
          st = drift_put (ls_description s \<noteq> [] \<and> trim_space (pve_str_at current ''description'') \<noteq> trim_space (ls_description s)) False
                 ''description'' (PStr (ls_description s)) st
      in drift_put (\<not> tags_equal (cfg_get current ''tags'') (all_tags (ls_tags s))) False ''tags''
           (PStr (join_with '','' (all_tags (ls_tags s)))) st)"

definition drift_lxc_nets :: "lxc \<Rightarrow> config \<Rightarrow> drift_state \<Rightarrow> drift_state" where
  "drift_lxc_nets l current st = fold (\<lambda>sn.
     drift_put (\<not> lxc_net_matches (pve_str_at current (fst sn)) (snd sn)) True (fst sn) (PStr (lxc_net_string (snd sn))))
     (net_slots l) st"

text \<open>
  \<^verbatim>\<open>compareLXCBoolOption\<close>: live \<^verbatim>\<open>1\<close> or \<^verbatim>\<open>true\<close> is on, anything else is
  off.
\<close>

definition drift_lxc_bool :: "config \<Rightarrow> string \<Rightarrow> bool option \<Rightarrow> drift_state \<Rightarrow> drift_state" where
  "drift_lxc_bool current k want st =
     (case want of
        None \<Rightarrow> st
      | Some w \<Rightarrow> drift_put ((pve_str_at current k = ''1'' \<or> pve_str_at current k = ''true'') \<noteq> w) True k (PStr (bit_str w)) st)"

fun nesting_token :: "string list \<Rightarrow> string" where
  "nesting_token [] = ''0''"
| "nesting_token (t # ts) =
     (case cut_eq (trim_space t) of
        Some (k, v) \<Rightarrow> (if k = ''nesting'' then v else nesting_token ts)
      | None \<Rightarrow> nesting_token ts)"

definition features_nesting_wire :: "config \<Rightarrow> string" where
  "features_nesting_wire current =
     (if pve_str_at current ''nesting'' \<noteq> [] then pve_str_at current ''nesting''
      else nesting_token (split_on (CHR '','') (pve_str_at current ''features'')))"

definition drift_lxc_options :: "lxc_opts \<Rightarrow> config \<Rightarrow> drift_state \<Rightarrow> drift_state" where
  "drift_lxc_options o1 current st =
     (let st = drift_lxc_bool current ''protection'' (lo_protection o1) st;
          st = drift_lxc_bool current ''onboot'' (lo_onboot o1) st;
          st = drift_lxc_bool current ''console'' (lo_console o1) st;
          st = (case lo_nesting o1 of None \<Rightarrow> st
                | Some n \<Rightarrow> drift_put (features_nesting_wire current \<noteq> bit_str n) True ''features'' (PStr (features_create n)) st)
      in drift_str current True ''startup'' (lo_startup o1) st)"

definition lxc_drift_state :: "lxc \<Rightarrow> config \<Rightarrow> drift_state" where
  "lxc_drift_state l current =
     drift_lxc_options (ls_options (lx_spec l)) current
       (drift_lxc_nets l current (fold drift_volume (volume_verdicts l current) (drift_lxc_base l current ([], False))))"

definition lxc_drift :: "lxc \<Rightarrow> config \<Rightarrow> drift_result" where
  "lxc_drift l current =
     (if current = None then (None, False, False)
      else (let st = lxc_drift_state l current
            in if fst st = [] then (None, False, False) else (Some (fst st), snd st, True)))"

section \<open>Anomalies\<close>

definition is_mp_slot :: "string \<Rightarrow> bool" where
  "is_mp_slot k \<longleftrightarrow> numbered_slot ''mp'' k"

definition unprivileged_anomaly :: "lxc_opts \<Rightarrow> config \<Rightarrow> string option" where
  "unprivileged_anomaly o1 current =
     (case lo_unprivileged o1 of
        None \<Rightarrow> None
      | Some w \<Rightarrow>
          (let eff = (case cfg_get current ''unprivileged'' of None \<Rightarrow> True | Some v \<Rightarrow> pve_int v = 1)
           in guard (eff \<noteq> w)
                (''spec.options.unprivileged diverges from PVE'' @ [CHR 39] @ ''s live value (effective live='' @ bit_str eff @
                 ''); unprivileged is a PVE 9.x create-only flag (PUT /config returns HTTP 500) '' @ em_dash @
                 '' proxops cannot flip it in place, a recreate is required to converge'')))"

definition nonconvergable_anomaly :: "string \<Rightarrow> bool option \<Rightarrow> config \<Rightarrow> string option" where
  "nonconvergable_anomaly k want current =
     guard (want = Some True \<and> live_int current k \<noteq> 1)
       (''spec.options.'' @ k @ ''=true has no PVE 9.x convergable wire form: top-level `'' @ k @
        ''` is rejected by /lxc create AND /config (403/400 probe-verified 2026-09-10), and the PVE 9.x `features` composite only carries `nesting`. Toggle '' @
        k @ '' on the PVE host (e.g. `pct set <ctid> -'' @ k @ '' 1`) and proxops will observe converged on the next cycle'')"

definition volume_reports :: "(string \<times> slot_verdict) list \<Rightarrow> string list" where
  "volume_reports vs = concat (map (\<lambda>sv. case snd sv of Report m \<Rightarrow> [m] | _ \<Rightarrow> []) vs)"

definition live_mount_anomaly :: "lxc \<Rightarrow> string \<Rightarrow> pval \<Rightarrow> string option" where
  "live_mount_anomaly l k raw =
     guard (is_mp_slot k \<and> k \<notin> fst ` set (mount_slots l) \<and> k \<notin> fst ` set (bind_slots l) \<and> \<not> is_none_slot (pve_str raw))
       (''live-only LXC mountpoint slot '' @ k @ ''='' @ pve_str raw @
        '' is not in spec.mount-points or spec.bind-mounts; proxops will not automatically remove it'')"

definition lxc_drift_anomalies :: "lxc \<Rightarrow> config \<Rightarrow> string list" where
  "lxc_drift_anomalies l current =
     (case current of
        None \<Rightarrow> []
      | Some m \<Rightarrow>
          somes (map (\<lambda>kv. live_mount_anomaly l (fst kv) (snd kv)) m) @
          volume_reports (volume_verdicts l current) @
          somes [unprivileged_anomaly (ls_options (lx_spec l)) current,
                 nonconvergable_anomaly ''keyctl'' (lo_keyctl (ls_options (lx_spec l))) current,
                 nonconvergable_anomaly ''fuse'' (lo_fuse (ls_options (lx_spec l))) current])"

section \<open>Findings\<close>

definition ex_mount :: lxc_mount where
  "ex_mount = \<lparr>lm_storage = ''local-lvm'', lm_size = ''1GiB'', lm_path = ''/data'', lm_slot = ''mp0'',
     lm_opts = Some (zero_mount_opts\<lparr>mo_acl := Some True\<rparr>)\<rparr>"

text \<open>
  A rewrite drops a token the manifest does not own: the live mount is read-only, the manifest pins
  only \<^verbatim>\<open>acl\<close>, and the value written has no \<^verbatim>\<open>ro=1\<close>.
\<close>

lemma rewrite_drops_read_only:
  "mount_verdict ''mp0'' ex_mount ''local-lvm:vm-9-disk-1,mp=/data,ro=1,size=1G'' =
     Write ''local-lvm:vm-9-disk-1,size=1G,mp=/data,acl=1''"
  by code_simp

text \<open>A bind whose guest path changed loses an unowned \<^verbatim>\<open>ro=1\<close> the same way.\<close>

lemma bind_drops_read_only:
  "bind_verdict ''mp0'' \<lparr>lb_host = ''/mnt/share'', lb_path = ''/new'', lb_slot = ''mp0'', lb_read_only = None\<rparr>
     ''/mnt/share,mp=/old,ro=1'' = Write ''/mnt/share,mp=/new''"
  by code_simp

text \<open>Declared mount options that the live mount point lacks are never written.\<close>

lemma mount_options_never_added:
  "mount_verdict ''mp0'' (ex_mount\<lparr>lm_opts := Some (zero_mount_opts\<lparr>mo_options := ''noatime''\<rparr>)\<rparr>)
     ''local-lvm:vm-9-disk-1,mp=/data,size=1G'' = Keep"
  by code_simp

text \<open>A storage id with a dot, which the schema accepts elsewhere, reads as a bind mount.\<close>

lemma dotted_storage_is_bind:
  "storage_id_ok ''nfs.data'' \<and> is_lxc_bind_mount ''nfs.data:9/vm-9-disk-1.raw''"
  by code_simp

end
