(* ===== verification/Resolve.thy ===== *)
theory Resolve
  imports Lxc_Drift Parse_Facts
begin

text \<open>
  \<^verbatim>\<open>internal/schema/resolve_refs.go\<close> and \<^verbatim>\<open>resolve_secrets.go\<close>: the seven
  kinds of resources as one type, its method table, and the resolution of references and of
  cloud-init secrets.  A Go type assertion is the test of the constructor.  In Go the resources
  are updated in place while the list is walked; nothing the resolution reads of another resource
  is something it writes, so the map is taken of the list as it was.
\<close>

section \<open>Resources\<close>

datatype res = RArt art | RVM vm | RTemplateVM vm | RLXC lxc | RTemplateCT lxc

fun res_validate :: "res \<Rightarrow> string option" where
  "res_validate (RArt a) = art_validate a"
| "res_validate (RVM v) = vm_validate v"
| "res_validate (RTemplateVM v) = template_vm_validate v"
| "res_validate (RLXC l) = lxc_validate l"
| "res_validate (RTemplateCT l) = template_ct_validate l"

fun res_filled :: "res \<Rightarrow> res" where
  "res_filled (RArt a) = RArt a"
| "res_filled (RVM v) = RVM (vm_filled v)"
| "res_filled (RTemplateVM v) = RTemplateVM (vm_filled v)"
| "res_filled (RLXC l) = RLXC (lxc_filled l)"
| "res_filled (RTemplateCT l) = RTemplateCT (lxc_filled l)"

fun res_ref :: "res \<Rightarrow> ref" where
  "res_ref (RArt a) = artifact_ref (art_body a)"
| "res_ref (RVM v) = vm_ref v"
| "res_ref (RTemplateVM v) = vm_ref v"
| "res_ref (RLXC l) = lxc_ref l"
| "res_ref (RTemplateCT l) = lxc_ref l"

fun res_node :: "res \<Rightarrow> string" where
  "res_node (RArt a) = artifact_node (art_body a)"
| "res_node (RVM v) = vm_node v"
| "res_node (RTemplateVM v) = vm_node v"
| "res_node (RLXC l) = lxc_node l"
| "res_node (RTemplateCT l) = lxc_node l"

fun res_nodes :: "res \<Rightarrow> string list" where
  "res_nodes (RArt a) = artifact_all_nodes (art_body a)"
| "res_nodes (RVM v) = vm_nodes v"
| "res_nodes (RTemplateVM v) = vm_nodes v"
| "res_nodes (RLXC l) = lxc_nodes l"
| "res_nodes (RTemplateCT l) = lxc_nodes l"

fun res_id :: "res \<Rightarrow> int" where
  "res_id (RArt a) = 0"
| "res_id (RVM v) = vm_id v"
| "res_id (RTemplateVM v) = vm_id v"
| "res_id (RLXC l) = lxc_id l"
| "res_id (RTemplateCT l) = lxc_id l"

text \<open>The templates override \<^verbatim>\<open>DesiredState\<close>: a template is not started.\<close>

fun res_state :: "res \<Rightarrow> string" where
  "res_state (RArt a) = []"
| "res_state (RVM v) = vm_desired_state v"
| "res_state (RTemplateVM v) = ''stopped''"
| "res_state (RLXC l) = lxc_desired_state l"
| "res_state (RTemplateCT l) = ''stopped''"

fun res_params :: "res \<Rightarrow> string + params" where
  "res_params (RArt a) = art_params a"
| "res_params (RVM v) = vm_to_create_params v"
| "res_params (RTemplateVM v) = vm_to_create_params v"
| "res_params (RLXC l) = lxc_to_create_params l"
| "res_params (RTemplateCT l) = lxc_to_create_params l"

fun res_drift :: "res \<Rightarrow> config \<Rightarrow> drift_result" where
  "res_drift (RArt a) c = art_drift a c"
| "res_drift (RVM v) c = vm_drift v c"
| "res_drift (RTemplateVM v) c = vm_drift v c"
| "res_drift (RLXC l) c = lxc_drift l c"
| "res_drift (RTemplateCT l) c = lxc_drift l c"

fun res_anomalies :: "res \<Rightarrow> config \<Rightarrow> string list" where
  "res_anomalies (RArt a) c = []"
| "res_anomalies (RVM v) c = vm_drift_anomalies v c"
| "res_anomalies (RTemplateVM v) c = vm_drift_anomalies v c"
| "res_anomalies (RLXC l) c = lxc_drift_anomalies l c"
| "res_anomalies (RTemplateCT l) c = lxc_drift_anomalies l c"

fun res_deps :: "res \<Rightarrow> ref list" where
  "res_deps (RArt a) = []"
| "res_deps (RVM v) = vm_deps v"
| "res_deps (RTemplateVM v) = template_vm_deps v"
| "res_deps (RLXC l) = lxc_deps l"
| "res_deps (RTemplateCT l) = lxc_deps l"

text \<open>\<^verbatim>\<open>parse.metadataOf\<close>.\<close>

fun res_metadata :: "res \<Rightarrow> metadata" where
  "res_metadata (RArt a) = art_metadata a"
| "res_metadata (RVM v) = vm_metadata v"
| "res_metadata (RTemplateVM v) = vm_metadata v"
| "res_metadata (RLXC l) = lx_metadata l"
| "res_metadata (RTemplateCT l) = lx_metadata l"

text \<open>The planner's view of a clone-backed \<^verbatim>\<open>*schema.VM\<close>.\<close>

fun res_clone :: "res \<Rightarrow> clone_view option" where
  "res_clone (RVM v) =
     (if is_clone_backed v
      then Some \<lparr>cv_source = vm_clone_source v, cv_vmid = vs_vmid (vm_spec v), cv_clone = vs_clone (vm_spec v),
             cv_delete_keys = clone_delete_keys v\<rparr>
      else None)"
| "res_clone _ = None"

fun res_storage :: "res \<Rightarrow> string \<times> string \<times> string" where
  "res_storage (RArt a) = art_storage a"
| "res_storage _ = ([], [], [])"

definition res_methods :: "res methods" where
  "res_methods =
     \<lparr>m_validate = res_validate, m_filled = res_filled, m_ref = res_ref, m_node = res_node, m_nodes = res_nodes,
      m_id = res_id, m_state = res_state, m_params = res_params, m_drift = res_drift, m_anomalies = res_anomalies,
      m_deps = res_deps, m_metadata = res_metadata, m_clone = res_clone, m_storage = res_storage\<rparr>"

text \<open>
  The resources the decoder builds, of the kind their constructor stands for.  A container that asks
  for an option without a create form passes validation and then has no create parameters; the
  planner's contract is for the others.
\<close>

fun res_kind_ok :: "res \<Rightarrow> bool" where
  "res_kind_ok (RArt a) \<longleftrightarrow> art_kind_ok a"
| "res_kind_ok (RVM v) \<longleftrightarrow> vm_kind v = KindVM"
| "res_kind_ok (RTemplateVM v) \<longleftrightarrow> vm_kind v = KindTemplateVM"
| "res_kind_ok (RLXC l) \<longleftrightarrow> lx_kind l = KindLXC \<and> lxc_creatable l"
| "res_kind_ok (RTemplateCT l) \<longleftrightarrow> lx_kind l = KindTemplateCT \<and> lxc_creatable l"

section \<open>References\<close>

type_synonym res_map = "ref \<Rightarrow> res option"

definition node_list :: "string list \<Rightarrow> string" where
  "node_list ns = ''['' @ join_space ns @ '']''"

definition resolve_clone :: "res_map \<Rightarrow> vm \<Rightarrow> string + vm" where
  "resolve_clone by_ref v =
     (let tpl = clone_name v; rs = ref_str (vm_ref v)
      in if tpl = [] then Inr (v\<lparr>vm_clone_source := 0\<rparr>)
         else (case by_ref (mk_ref KindTemplateVM tpl) of
                 None \<Rightarrow> Inl (rs @ '': spec.clone references unknown TemplateVM '' @ go_quote tpl)
               | Some (RTemplateVM tv) \<Rightarrow>
                   (if vs_node (vm_spec v) \<notin> set (vm_nodes tv)
                    then Inl (rs @ '': spec.clone '' @ go_quote tpl @ '' is not placed on node '' @ vs_node (vm_spec v) @
                              '' (TemplateVM nodes: '' @ node_list (vm_nodes tv) @ '')'')
                    else if vs_vmid (vm_spec tv) \<le> 0
                    then Inl (rs @ '': spec.clone '' @ go_quote tpl @ '' has no valid spec.vmid to clone from'')
                    else Inr (v\<lparr>vm_clone_source := vs_vmid (vm_spec tv)\<rparr>))
               | Some r \<Rightarrow> Inl (rs @ '': spec.clone references '' @ ref_str (res_ref r) @ '' which is not a TemplateVM'')))"

definition resolve_cdrom :: "res_map \<Rightarrow> vm \<Rightarrow> string + vm" where
  "resolve_cdrom by_ref v =
     (let name = trim_space (cd_iso (hw_cdrom (vs_hardware (vm_spec v))));
          p = ref_str (vm_ref v) @ '': spec.hardware.cdrom.iso ''
      in if name = [] \<or> name = cdrom_none then Inr (v\<lparr>vm_cdrom_volid := []\<rparr>)
         else (case by_ref (mk_ref KindISO name) of
                 None \<Rightarrow> Inl (p @ ''references unknown ISO '' @ go_quote name)
               | Some (RArt (AISO a)) \<Rightarrow>
                   (if vs_node (vm_spec v) \<notin> set (artifact_all_nodes a)
                    then Inl (p @ go_quote name @ '' is not placed on node '' @ vs_node (vm_spec v) @
                              '' (ISO nodes: '' @ node_list (artifact_all_nodes a) @ '')'')
                    else Inr (v\<lparr>vm_cdrom_volid := as_storage (ar_spec a) @ '':iso/'' @ as_filename (ar_spec a)\<rparr>))
               | Some r \<Rightarrow> Inl (p @ ''references '' @ name @ '' which is not an ISO'')))"

definition resolve_disk :: "res_map \<Rightarrow> string \<Rightarrow> string \<Rightarrow> nat \<Rightarrow> disk \<Rightarrow> string + disk" where
  "resolve_disk by_ref rs node i d =
     (let name = trim_space (dk_image d); p = rs @ item '': spec.disks'' i @ ''.image ''
      in if name = [] then Inr (d\<lparr>dk_image_volid := []\<rparr>)
         else (case by_ref (mk_ref KindDiskImage name) of
                 None \<Rightarrow> Inl (p @ ''references unknown DiskImage '' @ go_quote name)
               | Some (RArt (ADisk a)) \<Rightarrow>
                   (if node \<notin> set (artifact_all_nodes a)
                    then Inl (p @ go_quote name @ '' is not placed on node '' @ node @
                              '' (DiskImage nodes: '' @ node_list (artifact_all_nodes a) @ '')'')
                    else Inr (d\<lparr>dk_image_volid := as_storage (ar_spec a) @ '':import/'' @ as_filename (ar_spec a)\<rparr>))
               | Some r \<Rightarrow> Inl (p @ ''references '' @ ref_str (res_ref r) @ '' which is not a DiskImage'')))"

fun resolve_disks :: "res_map \<Rightarrow> string \<Rightarrow> string \<Rightarrow> nat \<Rightarrow> disk list \<Rightarrow> string + disk list" where
  "resolve_disks by_ref rs node i [] = Inr []"
| "resolve_disks by_ref rs node i (d # ds) =
     (case resolve_disk by_ref rs node i d of
        Inl e \<Rightarrow> Inl e
      | Inr d \<Rightarrow> (case resolve_disks by_ref rs node (Suc i) ds of Inl e \<Rightarrow> Inl e | Inr ds \<Rightarrow> Inr (d # ds)))"

definition set_disks :: "vm \<Rightarrow> disk list \<Rightarrow> vm" where
  "set_disks v ds = v\<lparr>vm_spec := (vm_spec v)\<lparr>vs_disks := ds\<rparr>\<rparr>"

definition resolve_disk_images :: "res_map \<Rightarrow> vm \<Rightarrow> string + vm" where
  "resolve_disk_images by_ref v =
     (case resolve_disks by_ref (ref_str (vm_ref v)) (vs_node (vm_spec v)) 0 (vs_disks (vm_spec v)) of
        Inl e \<Rightarrow> Inl e
      | Inr ds \<Rightarrow> Inr (set_disks v ds))"

definition resolve_template :: "res_map \<Rightarrow> lxc \<Rightarrow> string + lxc" where
  "resolve_template by_ref l =
     (let name = ls_template (lx_spec l); p = ref_str (lxc_ref l) @ '': spec.template ''; node = ls_node (lx_spec l)
      in if name = [] then Inr (l\<lparr>lx_ostemplate := []\<rparr>)
         else (case by_ref (mk_ref KindCTTemplate name) of
                 None \<Rightarrow> Inl (p @ ''references unknown CTTemplate '' @ go_quote name)
               | Some (RArt (ACTT a)) \<Rightarrow>
                   (if node \<notin> set (artifact_all_nodes a)
                    then Inl (p @ go_quote name @ '' is not placed on node '' @ node @
                              '' (CTTemplate nodes: '' @ node_list (artifact_all_nodes a) @ '')'')
                    else Inr (l\<lparr>lx_ostemplate := as_storage (ar_spec a) @ '':vztmpl/'' @ as_filename (ar_spec a)\<rparr>))
               | Some r \<Rightarrow> Inl (p @ ''references '' @ name @ '' which is not a CTTemplate'')))"

definition bind :: "string + 'a \<Rightarrow> ('a \<Rightarrow> string + 'b) \<Rightarrow> string + 'b" where
  "bind r f = (case r of Inl e \<Rightarrow> Inl e | Inr x \<Rightarrow> f x)"

fun resolve_res :: "res_map \<Rightarrow> res \<Rightarrow> string + res" where
  "resolve_res by_ref (RArt a) = Inr (RArt a)"
| "resolve_res by_ref (RVM v) =
     bind (resolve_cdrom by_ref v) (\<lambda>v. bind (resolve_disk_images by_ref v)
       (\<lambda>v. bind (resolve_clone by_ref v) (\<lambda>v. Inr (RVM v))))"
| "resolve_res by_ref (RTemplateVM v) =
     bind (resolve_cdrom by_ref v) (\<lambda>v. bind (resolve_disk_images by_ref v) (\<lambda>v. Inr (RTemplateVM v)))"
| "resolve_res by_ref (RLXC l) = bind (resolve_template by_ref l) (\<lambda>l. Inr (RLXC l))"
| "resolve_res by_ref (RTemplateCT l) = bind (resolve_template by_ref l) (\<lambda>l. Inr (RTemplateCT l))"

fun map_result :: "('a \<Rightarrow> string + 'b) \<Rightarrow> 'a list \<Rightarrow> string + 'b list" where
  "map_result f [] = Inr []"
| "map_result f (x # xs) = bind (f x) (\<lambda>y. bind (map_result f xs) (\<lambda>ys. Inr (y # ys)))"

text \<open>A later resource of the list replaces an earlier one of its reference.\<close>

definition res_by_ref :: "res list \<Rightarrow> res_map" where
  "res_by_ref rs = map_of (rev (map (\<lambda>r. (res_ref r, r)) rs))"

definition resolve_artifact_refs :: "res list \<Rightarrow> string + res list" where
  "resolve_artifact_refs rs = map_result (resolve_res (res_by_ref rs)) rs"

section \<open>Secrets\<close>

record secret_stores =
  ss_ssh_keys :: "(string \<times> string) list"
  ss_passwords :: "(string \<times> string) list"

text \<open>A named entry that is there and not blank, trimmed.\<close>

definition secret_at :: "(string \<times> string) list \<Rightarrow> string \<Rightarrow> string option" where
  "secret_at st name =
     (case map_of st name of None \<Rightarrow> None | Some x \<Rightarrow> if trim_space x = [] then None else Some (trim_space x))"

fun resolve_keys :: "string \<Rightarrow> (string \<times> string) list \<Rightarrow> nat \<Rightarrow> string list \<Rightarrow> string list \<Rightarrow> string + string list" where
  "resolve_keys rs st i acc [] = Inr acc"
| "resolve_keys rs st i acc (r # refs) =
     (case cut_prefix r ssh_ref_prefix of
        None \<Rightarrow> Inl (rs @ item '': ssh-key-ref'' i @ '' '' @ go_quote r @ '': malformed (want '' @ go_quote ssh_ref_prefix @ ''+name)'')
      | Some name \<Rightarrow>
          (case secret_at st name of
             None \<Rightarrow> Inl (rs @ '': ssh-key-ref '' @ go_quote r @ '' references cloud-init.ssh-keys.'' @ name @
                '' which is missing or empty in the cluster'' @ [CHR 39] @ ''s SOPS document; proxops fails closed rather than treating a missing ref as '' @ sq ''no keys'')
           | Some x \<Rightarrow> resolve_keys rs st (Suc i) (if x \<in> set acc then acc else acc @ [x]) refs))"

definition resolve_key_refs :: "string \<Rightarrow> secret_stores \<Rightarrow> cloud_init_data \<Rightarrow> string + cloud_init_data" where
  "resolve_key_refs rs st cd =
     (if cd_ssh_key_refs cd = [] then Inr cd
      else if ss_ssh_keys st = []
      then Inl (rs @ '': spec.cloud-init-data.ssh-key-refs declares SOPS references but cluster has no SOPS cloud-init.ssh-keys material; add cloud-init.ssh-keys.<name> entries to the cluster'' @
                [CHR 39] @ ''s secrets-file (or remove the refs from the manifest)'')
      else bind (resolve_keys rs (ss_ssh_keys st) 0 [] (cd_ssh_key_refs cd))
             (\<lambda>ks. if ks = []
                   then Inl (rs @ '': ssh-key-refs resolve to zero keys (every named entry is missing or a duplicate); proxops fails closed'')
                   else Inr (cd\<lparr>cd_resolved_keys := ks\<rparr>)))"

definition resolve_password_ref :: "string \<Rightarrow> secret_stores \<Rightarrow> cloud_init_data \<Rightarrow> string + cloud_init_data" where
  "resolve_password_ref rs st cd =
     (let r = cd_password_ref cd
      in if r = [] then Inr cd
         else if ss_passwords st = []
         then Inl (rs @ '': spec.cloud-init-data.ci-password-ref '' @ go_quote r @
                   '' declares a SOPS reference but cluster has no SOPS cloud-init.passwords material; add cloud-init.passwords.<name> entries (or remove the ref)'')
         else (case cut_prefix r password_ref_prefix of
                 None \<Rightarrow> Inl (rs @ '': ci-password-ref '' @ go_quote r @ '' malformed (want '' @ go_quote password_ref_prefix @ ''+name)'')
               | Some name \<Rightarrow>
                   (case secret_at (ss_passwords st) name of
                      None \<Rightarrow> Inl (rs @ '': ci-password-ref '' @ go_quote r @ '' references cloud-init.passwords.'' @ name @
                        '' which is missing or empty in the cluster'' @ [CHR 39] @ ''s SOPS document; proxops fails closed rather than sending no password'')
                    | Some x \<Rightarrow> Inr (cd\<lparr>cd_resolved_password := x\<rparr>))))"

definition set_cloud_data :: "vm \<Rightarrow> cloud_init_data \<Rightarrow> vm" where
  "set_cloud_data v cd = v\<lparr>vm_spec := (vm_spec v)\<lparr>vs_cloud_data := cd\<rparr>\<rparr>"

definition resolve_vm_secrets :: "secret_stores \<Rightarrow> vm \<Rightarrow> string + vm" where
  "resolve_vm_secrets st v =
     bind (resolve_key_refs (ref_str (vm_ref v)) st (vs_cloud_data (vm_spec v)))
       (\<lambda>cd. bind (resolve_password_ref (ref_str (vm_ref v)) st cd) (\<lambda>cd. Inr (set_cloud_data v cd)))"

fun resolve_res_secrets :: "secret_stores \<Rightarrow> res \<Rightarrow> string + res" where
  "resolve_res_secrets st (RVM v) = bind (resolve_vm_secrets st v) (\<lambda>v. Inr (RVM v))"
| "resolve_res_secrets st (RTemplateVM v) = bind (resolve_vm_secrets st v) (\<lambda>v. Inr (RTemplateVM v))"
| "resolve_res_secrets st r = Inr r"

definition resolve_cloud_init_secrets :: "secret_stores \<Rightarrow> res list \<Rightarrow> string + res list" where
  "resolve_cloud_init_secrets st = map_result (resolve_res_secrets st)"

text \<open>The schema operations of the parser and the reconciler; \<open>dec\<close> is the YAML decoder.\<close>

definition res_ops :: "(kind \<Rightarrow> params \<Rightarrow> string + res) \<Rightarrow> secret_stores \<Rightarrow> res schema_ops" where
  "res_ops dec st = \<lparr>so_decode = dec, so_resolve = resolve_artifact_refs, so_secrets = resolve_cloud_init_secrets st\<rparr>"

end
