(* ===== verification/Vm_Facts.thy ===== *)
theory Vm_Facts
  imports Vm_Drift
begin

text \<open>
  Facts about VM manifests: what validation guarantees, which keys the drift touches, and that a live
  drive keeps its volume.
\<close>

section \<open>Checks\<close>

lemma checks_None: "checks cs = None \<longleftrightarrow> (\<forall>c\<in>set cs. c = None)"
  by (induction cs rule: checks.induct) auto

lemma guard_None [simp]: "guard b m = None \<longleftrightarrow> \<not> b"
  by (simp add: guard_def)

lemma of_result_None [simp]: "of_result m r = None \<longleftrightarrow> (\<exists>x. r = Inr x)"
  by (simp add: of_result_def split: sum.split)

text \<open>What a passed validation means for the slots.\<close>

definition slots_ok :: "(string \<Rightarrow> bool) \<Rightarrow> string list \<Rightarrow> bool" where
  "slots_ok P ss \<longleftrightarrow> distinct ss \<and> list_all P ss"

lemma check_disks_slots:
  "check_disks rs i seen ds = None \<Longrightarrow>
   slots_ok valid_disk_slot (map (\<lambda>(j, d). slot_or ''scsi'' j (dk_slot d)) (enumerate i ds)) \<and>
   set (map (\<lambda>(j, d). slot_or ''scsi'' j (dk_slot d)) (enumerate i ds)) \<inter> set seen = {} \<and>
   (\<forall>d\<in>set ds. dk_storage d \<noteq> [])"
proof (induction ds arbitrary: i seen)
  case (Cons d ds)
  have c: "check_disk rs i seen d = None" "check_disks rs (Suc i) (slot_or ''scsi'' i (dk_slot d) # seen) ds = None"
    using Cons.prems by (simp_all split: option.splits)
  have "dk_storage d \<noteq> []" "slot_or ''scsi'' i (dk_slot d) \<notin> set seen" "valid_disk_slot (slot_or ''scsi'' i (dk_slot d))"
    using c(1) by (simp_all add: check_disk_def Let_def checks_None)
  with Cons.IH [OF c(2)] show ?case by (auto simp: slots_ok_def)
qed (simp add: slots_ok_def)

lemma check_nics_slots:
  "check_nics rs i seen ns = None \<Longrightarrow>
   slots_ok valid_net_slot (map (\<lambda>(j, n). slot_or ''net'' j (ni_slot n)) (enumerate i ns)) \<and>
   set (map (\<lambda>(j, n). slot_or ''net'' j (ni_slot n)) (enumerate i ns)) \<inter> set seen = {} \<and>
   (\<forall>n\<in>set ns. ni_bridge n \<noteq> [])"
proof (induction ns arbitrary: i seen)
  case (Cons n ns)
  have c: "check_nic rs i seen n = None" "check_nics rs (Suc i) (slot_or ''net'' i (ni_slot n) # seen) ns = None"
    using Cons.prems by (simp_all split: option.splits)
  have "ni_bridge n \<noteq> []" "slot_or ''net'' i (ni_slot n) \<notin> set seen" "valid_net_slot (slot_or ''net'' i (ni_slot n))"
    using c(1) by (simp_all add: check_nic_def Let_def checks_None)
  with Cons.IH [OF c(2)] show ?case by (auto simp: slots_ok_def)
qed (simp add: slots_ok_def)

lemma check_pci_slots:
  "check_pci rs seen ds = None \<Longrightarrow>
   slots_ok pci_key_is_owned (map pd_slot ds) \<and> set (map pd_slot ds) \<inter> set seen = {}"
proof (induction ds arbitrary: seen)
  case (Cons d ds)
  have c: "pci_slot_number (pd_slot d) \<noteq> None" "pd_slot d \<notin> set seen" "check_pci rs (pd_slot d # seen) ds = None"
    using Cons.prems by (auto simp: checks_None split: option.splits)
  from Cons.IH [OF c(3)] c(1,2) show ?case by (auto simp: slots_ok_def pci_key_is_owned_def)
qed (simp add: slots_ok_def)

definition vm_slots_ok :: "vm \<Rightarrow> bool" where
  "vm_slots_ok v \<longleftrightarrow>
     slots_ok valid_disk_slot (map fst (disk_slots v)) \<and> slots_ok valid_net_slot (map fst (nic_slots v)) \<and>
     distinct (map pd_slot (hw_pci (vs_hardware (vm_spec v)))) \<and>
     list_all pci_key_is_owned (map pd_slot (hw_pci (vs_hardware (vm_spec v)))) \<and>
     (\<forall>d\<in>set (vs_disks (vm_spec v)). dk_storage d \<noteq> [])"

lemma map_fst_slots: "map fst (map (\<lambda>(i, x). (f i x, x)) xs) = map (\<lambda>(i, x). f i x) xs"
  by (induction xs) auto

lemma distinct_sort_map: "distinct (map f (sort_key g xs)) = distinct (map f xs)"
proof -
  have "mset (map f (sort_key g xs)) = mset (map f xs)" by simp
  then show ?thesis by (rule mset_eq_imp_distinct_iff)
qed

lemma vm_validate_slots:
  assumes "vm_validate v = None"
  shows "vm_slots_ok v"
proof -
  let ?s = "vm_spec v" and ?rs = "ref_str (vm_ref v)"
  have c: "check_disks ?rs 0 [] (vs_disks ?s) = None" "check_nics ?rs 0 [] (vs_nics ?s) = None"
      "check_hardware ?rs (vs_hardware ?s) = None"
    using assms by (simp_all add: vm_validate_def Let_def checks_None)
  have "check_pci ?rs [] (pci_order (hw_pci (vs_hardware ?s))) = None"
    using c(3) by (simp add: check_hardware_def Let_def checks_None validate_pci_devices_def)
  note p = check_pci_slots [OF this]
  have d: "map fst (disk_slots v) = map (\<lambda>(j, d). slot_or ''scsi'' j (dk_slot d)) (enumerate 0 (vs_disks ?s))"
    and n: "map fst (nic_slots v) = map (\<lambda>(j, n). slot_or ''net'' j (ni_slot n)) (enumerate 0 (vs_nics ?s))"
    by (simp_all only: disk_slots_def nic_slots_def map_fst_slots)
  have q: "distinct (map pd_slot (hw_pci (vs_hardware ?s)))" "list_all pci_key_is_owned (map pd_slot (hw_pci (vs_hardware ?s)))"
    using p by (simp_all add: slots_ok_def pci_order_def distinct_sort_map list_all_iff)
  show ?thesis
    unfolding vm_slots_ok_def d n using q check_disks_slots [OF c(1)] check_nics_slots [OF c(2)] by blast
qed

section \<open>Keys\<close>

lemma digits_no: "list_all is_digit s \<Longrightarrow> c \<in> set s \<Longrightarrow> is_digit c"
  by (simp add: list_all_iff)

lemma not_disk_slot [simp]:
  "\<not> is_disk_slot ''cpu''" "\<not> is_disk_slot ''cores''" "\<not> is_disk_slot ''memory''" "\<not> is_disk_slot ''tags''"
  "\<not> is_disk_slot ''scsihw''" "\<not> is_disk_slot ''machine''" "\<not> is_disk_slot ''bios''" "\<not> is_disk_slot ''vga''"
  "\<not> is_disk_slot ''sockets''" "\<not> is_disk_slot ''numa''" "\<not> is_disk_slot cloud_init_slot" "\<not> is_disk_slot ''efidisk0''"
  "\<not> is_disk_slot ''tpm0''" "\<not> is_disk_slot ''serial0''" "\<not> is_disk_slot ''ciuser''" "\<not> is_disk_slot ''sshkeys''"
  "\<not> is_disk_slot ''cipassword''" "\<not> is_disk_slot ''nameserver''" "\<not> is_disk_slot ''searchdomain''"
  "\<not> is_disk_slot ''onboot''" "\<not> is_disk_slot ''startup''" "\<not> is_disk_slot ''protection''" "\<not> is_disk_slot ''agent''"
  "\<not> is_disk_slot ''acpi''" "\<not> is_disk_slot ''tablet''" "\<not> is_disk_slot ''hotplug''" "\<not> is_disk_slot ''boot''"
  "\<not> is_disk_slot ''nestedvirt''" "\<not> is_disk_slot ''hidden''" "\<not> is_disk_slot ''delete''"
  "\<not> is_disk_slot (cdrom_slot v)"
  by (simp_all add: is_disk_slot_def numbered_slot_def cloud_init_slot_def cdrom_slot_def is_digit_def)

lemma prefix_cases: "has_prefix s (c # p) \<Longrightarrow> \<exists>r. s = c # r \<and> has_prefix r p"
  by (cases s) auto

lemma not_disk_slot_prefix [simp]: "\<not> is_disk_slot (''ipconfig'' @ s)"
  by (simp add: is_disk_slot_def numbered_slot_def)

lemma not_disk_slot_net: "valid_net_slot s \<Longrightarrow> \<not> is_disk_slot s"
  by (auto simp: valid_net_slot_def is_disk_slot_def numbered_slot_def dest!: prefix_cases)

lemma not_disk_slot_pci: "pci_key_is_owned s \<Longrightarrow> \<not> is_disk_slot s"
  by (auto simp: pci_key_is_owned_def pci_slot_number_def Let_def is_disk_slot_def numbered_slot_def dest!: prefix_cases split: if_splits)

section \<open>Which keys the drift touches\<close>

definition upd_at :: "string \<Rightarrow> drift_state \<Rightarrow> pval option" where
  "upd_at k st = map_of (fst st) k"

lemma upd_at_put: "upd_at k (drift_put b s k' x st) = (if b \<and> k = k' then Some x else upd_at k st)"
  by (simp add: upd_at_def drift_put_def)

lemma upd_at_other: "is_disk_slot k \<Longrightarrow> \<not> is_disk_slot k' \<Longrightarrow> upd_at k (drift_put b s k' x st) = upd_at k st"
  by (auto simp: upd_at_put)

lemma upd_at_fold:
  "(\<And>y. y \<in> set ys \<Longrightarrow> \<not> is_disk_slot (f y)) \<Longrightarrow> is_disk_slot k \<Longrightarrow>
   upd_at k (fold (\<lambda>y. drift_put (b y) (s y) (f y) (g y)) ys st) = upd_at k st"
  by (induction ys arbitrary: st) (simp_all add: upd_at_other)

lemma fold_put_keys: "fst ` set (fold (\<lambda>c. put (f c) (w c)) cs m) = fst ` set m \<union> f ` set cs"
proof (induction cs arbitrary: m)
  case (Cons c cs)
  have "fst ` set (put (f c) (w c) m) = insert (f c) (fst ` set m)" by (simp add: put_keys)
  with Cons.IH [of "put (f c) (w c) m"] show ?case by simp
qed simp

lemma ip_config_keys: "kv \<in> set (ip_config_wire cs) \<Longrightarrow> \<not> is_disk_slot (fst kv)"
proof -
  assume "kv \<in> set (ip_config_wire cs)"
  then have "fst kv \<in> fst ` set (ip_config_wire cs)" by simp
  then show ?thesis
    unfolding ip_config_wire_def fold_put_keys by (elim UnE imageE) (simp, simp only: not_disk_slot_prefix simp_thms)
qed

lemma fold_put_distinct: "distinct (map fst m) \<Longrightarrow> distinct (map fst (fold (\<lambda>c. put (f c) (w c)) cs m))"
  by (induction cs arbitrary: m) (simp_all add: put_def distinct_update)

lemma map_of_put_all:
  "distinct (map fst kvs) \<Longrightarrow> map_of (put_all kvs m) k = (case map_of kvs k of Some x \<Rightarrow> Some x | None \<Rightarrow> map_of m k)"
proof (induction kvs arbitrary: m)
  case (Cons kv kvs)
  then have "map_of (put_all kvs (put (fst kv) (snd kv) m)) k =
      (case map_of kvs k of Some x \<Rightarrow> Some x | None \<Rightarrow> map_of (put (fst kv) (snd kv) m) k)" by simp
  moreover have "k \<noteq> fst kv" if "map_of kvs k = Some x" for x
  proof -
    have "k \<in> fst ` set kvs" using that by (metis map_of_eq_None_iff option.distinct(1))
    moreover have "fst kv \<notin> fst ` set kvs" using Cons.prems by simp
    ultimately show ?thesis by metis
  qed
  ultimately show ?case by (auto simp: put_all_def split: option.split)
qed (simp add: put_all_def)

lemma disk_update_distinct: "distinct (map fst m) \<Longrightarrow> distinct (map fst (fold disk_update vs m))"
  by (induction vs arbitrary: m) (simp_all add: disk_update_def put_def distinct_update split: slot_verdict.split)

lemmas drift_simps = drift_str_def drift_flag_def Let_def upd_at_other

lemma disk_key_base: "is_disk_slot k \<Longrightarrow> upd_at k (drift_base v c st) = upd_at k st"
  by (simp add: drift_base_def drift_simps split: sum.split)

lemma disk_key_nics:
  "list_all valid_net_slot (map fst (nic_slots v)) \<Longrightarrow> is_disk_slot k \<Longrightarrow> upd_at k (drift_nics v c st) = upd_at k st"
  unfolding drift_nics_def by (rule upd_at_fold) (auto simp: list_all_iff not_disk_slot_net)

lemma disk_key_hardware:
  assumes "list_all pci_key_is_owned (map pd_slot (hw_pci (vs_hardware (vm_spec v))))" "is_disk_slot k"
  shows "upd_at k (drift_hardware v c st) = upd_at k st"
proof -
  have "upd_at k (fold (\<lambda>d. drift_put (\<not> hostpci_tokens_equal (pve_str_at c (pd_slot d)) d) True (pd_slot d) (PStr (pci_device_wire d)))
           (hw_pci (vs_hardware (vm_spec v))) st) = upd_at k st" for st
    by (rule upd_at_fold) (use assms in \<open>auto simp: list_all_iff not_disk_slot_pci\<close>)
  with assms(2) show ?thesis
    by (simp add: drift_hardware_def drift_efi_def drift_simps split: option.split)
qed

lemma disk_key_cloud: "is_disk_slot k \<Longrightarrow> upd_at k (drift_cloud_data cd c st) = upd_at k st"
proof -
  assume k: "is_disk_slot k"
  have "upd_at k (fold (\<lambda>kv. drift_put (pve_str_at c (fst kv) \<noteq> snd kv) False (fst kv) (PStr (snd kv))) (ip_config_wire (cd_ip_configs cd)) st)
          = upd_at k st" for st
    by (rule upd_at_fold [OF _ k]) (rule ip_config_keys)
  with k show ?thesis by (simp add: drift_cloud_data_def drift_simps)
qed

lemma disk_key_rest:
  "is_disk_slot k \<Longrightarrow> upd_at k (drift_clone v c (drift_options o1 c (drift_cdrom v c st))) = upd_at k st"
  by (simp add: drift_clone_def drift_options_def drift_cdrom_def drift_simps split: cdrom_state.split)

text \<open>At a disk slot the drift is that of the declared disk alone.\<close>

lemma vm_drift_disk_key:
  assumes "vm_slots_ok v" "is_disk_slot k"
  shows "map_of (fst (vm_drift_state v c)) k = map_of (fold disk_update (disk_verdicts v c) []) k"
proof -
  have "upd_at k (vm_drift_state v c) = upd_at k (drift_disks v c (drift_base v c ([], False)))"
    using assms by (simp add: vm_drift_state_def disk_key_rest disk_key_cloud disk_key_hardware disk_key_nics
        vm_slots_ok_def slots_ok_def)
  also have "\<dots> = map_of (put_all (fold disk_update (disk_verdicts v c) []) (fst (drift_base v c ([], False)))) k"
    by (simp add: drift_disks_def upd_at_def Let_def)
  also have "\<dots> = (case map_of (fold disk_update (disk_verdicts v c) []) k of
        Some x \<Rightarrow> Some x | None \<Rightarrow> upd_at k (drift_base v c ([], False)))"
    unfolding upd_at_def by (rule map_of_put_all) (simp add: disk_update_distinct)
  also have "upd_at k (drift_base v c ([], False)) = None"
    using disk_key_base [OF assms(2)] by (simp add: upd_at_def)
  finally show ?thesis by (simp add: upd_at_def split: option.splits)
qed


section \<open>A declared disk\<close>

lemma update_at:
  "distinct (map fst vs) \<Longrightarrow>
   map_of (fold disk_update vs m) k =
     (case map_of vs k of Some (Write x) \<Rightarrow> Some (PStr x) | _ \<Rightarrow> map_of m k)"
proof (induction vs arbitrary: m)
  case (Cons sv vs)
  have n: "map_of vs k = None" if "k = fst sv"
    using Cons.prems that by (simp add: map_of_eq_None_iff)
  from Cons show ?case
    using n by (cases "snd sv") (auto simp: disk_update_def split: option.split slot_verdict.split)
qed simp

lemma disk_verdicts_keys: "map fst (disk_verdicts v c) = map fst (disk_slots v)"
  by (simp add: disk_verdicts_def)

lemma vm_drift_disk:
  assumes "vm_slots_ok v" "is_disk_slot k"
  shows "map_of (fst (vm_drift_state v c)) k = Some x \<longleftrightarrow>
    (\<exists>d y. (k, d) \<in> set (disk_slots v) \<and> disk_verdict c k d = Write y \<and> x = PStr y)"
proof -
  have d: "distinct (map fst (disk_slots v))" "distinct (map fst (disk_verdicts v c))"
    using assms(1) by (simp_all add: vm_slots_ok_def slots_ok_def disk_verdicts_keys)
  have "map_of (fst (vm_drift_state v c)) k = (case map_of (disk_verdicts v c) k of Some (Write x) \<Rightarrow> Some (PStr x) | _ \<Rightarrow> None)"
    by (simp add: vm_drift_disk_key [OF assms] update_at [OF d(2)] cong: option.case_cong slot_verdict.case_cong)
  moreover have "map_of (disk_verdicts v c) k = Some w \<longleftrightarrow> (\<exists>d. (k, d) \<in> set (disk_slots v) \<and> w = disk_verdict c k d)" for w
    unfolding map_of_eq_Some_iff [OF d(2)] by (force simp: disk_verdicts_def)
  moreover have "(case map_of (disk_verdicts v c) k of Some (Write x) \<Rightarrow> Some (PStr x) | _ \<Rightarrow> None) = Some x \<longleftrightarrow>
      (\<exists>y. map_of (disk_verdicts v c) k = Some (Write y) \<and> x = PStr y)"
    by (auto split: option.split slot_verdict.split)
  ultimately show ?thesis by metis
qed

text \<open>The live form names the live pool and the live volume.\<close>

lemma live_rewrite_volume: "\<exists>opts. live_drive_rewrite cur want = di_pool cur @ '':'' @ di_volume cur @ opts"
  by (auto simp: live_drive_rewrite_def Let_def)

end
