(* ===== verification/Resolve_Facts.thy ===== *)
theory Resolve_Facts
  imports Resolve Vm_Facts
begin

text \<open>
  Facts about resolution: it changes no resource's identity, what a resolved resource was bound to,
  and the two interfaces (\<open>resource_contract\<close>, \<open>schema_contract\<close>) on the resources of the
  program.
\<close>

section \<open>Results\<close>

lemma bind_Inr [simp]: "bind r f = Inr y \<longleftrightarrow> (\<exists>x. r = Inr x \<and> f x = Inr y)"
  by (cases r) (simp_all add: bind_def)

lemma map_result_Inr: "map_result f xs = Inr ys \<longleftrightarrow> list_all2 (\<lambda>x y. f x = Inr y) xs ys"
proof (induction xs arbitrary: ys)
  case (Cons x xs)
  show ?case by (cases ys) (auto simp: Cons.IH)
qed auto

section \<open>Identity\<close>

lemmas res_methods_simps [simp] =
  res_methods_def [THEN arg_cong [where f = m_ref], simplified] res_methods_def [THEN arg_cong [where f = m_node], simplified]
  res_methods_def [THEN arg_cong [where f = m_nodes], simplified] res_methods_def [THEN arg_cong [where f = m_id], simplified]
  res_methods_def [THEN arg_cong [where f = m_filled], simplified] res_methods_def [THEN arg_cong [where f = m_validate], simplified]
  res_methods_def [THEN arg_cong [where f = m_params], simplified] res_methods_def [THEN arg_cong [where f = m_drift], simplified]
  res_methods_def [THEN arg_cong [where f = m_clone], simplified]

definition same_vm :: "vm \<Rightarrow> vm \<Rightarrow> bool" where
  "same_vm a b \<longleftrightarrow> vm_kind a = vm_kind b \<and> vm_metadata a = vm_metadata b \<and>
     vs_node (vm_spec a) = vs_node (vm_spec b) \<and> vs_vmid (vm_spec a) = vs_vmid (vm_spec b)"

lemma same_vm_trans: "same_vm a b \<Longrightarrow> same_vm b c \<Longrightarrow> same_vm a c"
  by (simp add: same_vm_def)

lemma same_vm_identity:
  "same_vm a b \<Longrightarrow> vm_ref a = vm_ref b \<and> vm_node a = vm_node b \<and> vm_nodes a = vm_nodes b \<and> vm_id a = vm_id b"
  by (simp add: same_vm_def vm_ref_def vm_node_def vm_nodes_def vm_id_def)

lemma resolve_same_vm:
  "resolve_cdrom m v = Inr v' \<Longrightarrow> same_vm v v'" "resolve_disk_images m v = Inr v' \<Longrightarrow> same_vm v v'"
  "resolve_clone m v = Inr v' \<Longrightarrow> same_vm v v'" "resolve_vm_secrets st v = Inr v' \<Longrightarrow> same_vm v v'" "same_vm v (vm_filled v)"
  by (auto simp: resolve_cdrom_def resolve_disk_images_def resolve_clone_def resolve_vm_secrets_def set_disks_def
      set_cloud_data_def vm_filled_def same_vm_def Let_def split: if_splits option.splits res.splits art.splits sum.splits)

definition same_lxc :: "lxc \<Rightarrow> lxc \<Rightarrow> bool" where
  "same_lxc a b \<longleftrightarrow> lx_kind a = lx_kind b \<and> lx_metadata a = lx_metadata b \<and>
     ls_node (lx_spec a) = ls_node (lx_spec b) \<and> ls_vmid (lx_spec a) = ls_vmid (lx_spec b)"

lemma same_lxc_identity:
  "same_lxc a b \<Longrightarrow> lxc_ref a = lxc_ref b \<and> lxc_node a = lxc_node b \<and> lxc_nodes a = lxc_nodes b \<and> lxc_id a = lxc_id b"
  by (simp add: same_lxc_def lxc_ref_def lxc_node_def lxc_nodes_def lxc_id_def)

lemma resolve_same_lxc: "resolve_template m l = Inr l' \<Longrightarrow> same_lxc l l'" "same_lxc l (lxc_filled l)"
  by (auto simp: resolve_template_def lxc_filled_def same_lxc_def Let_def split: if_splits option.splits res.splits art.splits)

text \<open>The same constructor over the same manifest identity.\<close>

fun same_res :: "res \<Rightarrow> res \<Rightarrow> bool" where
  "same_res (RArt a) (RArt b) = (a = b)"
| "same_res (RVM a) (RVM b) = same_vm a b"
| "same_res (RTemplateVM a) (RTemplateVM b) = same_vm a b"
| "same_res (RLXC a) (RLXC b) = same_lxc a b"
| "same_res (RTemplateCT a) (RTemplateCT b) = same_lxc a b"
| "same_res _ _ = False"

lemma same_res_identity: "same_res a b \<Longrightarrow> same_identity res_methods a b"
  by (induction a b rule: same_res.induct) (auto simp: same_identity_def dest: same_vm_identity same_lxc_identity)

lemma resolve_same_res: "resolve_res m r = Inr r' \<Longrightarrow> same_res r r'"
proof (cases r)
  case (RVM v)
  assume "resolve_res m r = Inr r'"
  then obtain v1 v2 v3 where "resolve_cdrom m v = Inr v1" "resolve_disk_images m v1 = Inr v2" "resolve_clone m v2 = Inr v3" "r' = RVM v3"
    using RVM by auto
  then show "same_res r r'" using RVM resolve_same_vm(1-3) same_vm_trans by (metis same_res.simps(2))
next
  case (RTemplateVM v)
  assume "resolve_res m r = Inr r'"
  then obtain v1 v2 where "resolve_cdrom m v = Inr v1" "resolve_disk_images m v1 = Inr v2" "r' = RTemplateVM v2"
    using RTemplateVM by auto
  then show "same_res r r'" using RTemplateVM resolve_same_vm(1,2) same_vm_trans by (metis same_res.simps(3))
qed (auto intro: resolve_same_lxc)

lemma secrets_same_res: "resolve_res_secrets st r = Inr r' \<Longrightarrow> same_res r r'"
  by (cases r) (auto intro: resolve_same_vm simp: same_lxc_def)

lemma filled_same_res: "same_res r (res_filled r)"
  by (cases r) (auto intro: resolve_same_vm resolve_same_lxc)

interpretation res_schema: schema_contract res_methods "res_ops dec st" for dec st
proof
  show "same_identity res_methods r (m_filled res_methods r)" for r
    by (simp add: same_res_identity filled_same_res)
  show "list_all2 (same_identity res_methods) rs rs'" if "so_resolve (res_ops dec st) rs = Inr rs'" for rs rs'
    using that by (auto simp: res_ops_def resolve_artifact_refs_def map_result_Inr elim!: list_all2_mono
        dest: resolve_same_res same_res_identity)
  show "list_all2 (same_identity res_methods) rs rs'" if "so_secrets (res_ops dec st) rs = Inr rs'" for rs rs'
    using that by (auto simp: res_ops_def resolve_cloud_init_secrets_def map_result_Inr elim!: list_all2_mono
        dest: secrets_same_res same_res_identity)
qed

section \<open>The planner's contract\<close>

lemma guest_not_artifact:
  "\<not> artifact_kind KindVM" "\<not> artifact_kind KindTemplateVM" "\<not> artifact_kind KindLXC" "\<not> artifact_kind KindTemplateCT"
  by code_simp+

lemma lxc_params_ok: "lxc_validate l = None \<Longrightarrow> lxc_creatable l \<Longrightarrow> \<exists>p. lxc_to_create_params l = Inr p"
  by (simp add: lxc_to_create_params_def lxc_creatable_def Let_def)

lemma template_vm_validate_vm: "template_vm_validate v = None \<Longrightarrow> vm_validate v = None"
  by (simp add: template_vm_validate_def Let_def checks_None)

lemma template_ct_validate_lxc: "template_ct_validate l = None \<Longrightarrow> lxc_validate l = None"
  by (simp add: template_ct_validate_def checks_None)

lemma res_params_ok: "res_kind_ok r \<Longrightarrow> res_validate r = None \<Longrightarrow> \<exists>p. res_params r = Inr p"
  by (cases r) (auto simp: artifact_validated vm_to_create_params_def lxc_params_ok
      dest: template_vm_validate_vm template_ct_validate_lxc)

lemma res_artifact: "res_kind_ok r \<Longrightarrow> artifact_kind (ref_kind (res_ref r)) \<Longrightarrow> \<exists>a. r = RArt a"
  by (cases r) (auto simp: vm_ref_def lxc_ref_def mk_ref_def guest_not_artifact)

interpretation res_planner: resource_contract res_methods res_kind_ok
proof
  fix r :: res and cur :: config and c p v
  assume r: "res_kind_ok r"
  show "m_nodes res_methods r \<noteq> [] \<Longrightarrow> m_node res_methods r = hd (m_nodes res_methods r)"
    by (cases r) (auto simp: artifact_node_def vm_node_def vm_nodes_def lxc_node_def lxc_nodes_def split: list.splits if_splits)
  show "distinct (m_nodes res_methods r)"
    by (cases r) (auto simp: artifact_all_nodes_def artifact_nodes_distinct vm_nodes_def lxc_nodes_def)
  show "m_validate res_methods r = None \<Longrightarrow> \<exists>p. m_params res_methods r = Inr p"
    using r by (simp add: res_params_ok)
  show "m_clone res_methods r = Some v \<Longrightarrow> cv_vmid v = m_id res_methods r"
    by (cases r) (auto simp: vm_id_def split: if_splits)
  show "artifact_kind (ref_kind (m_ref res_methods r)) \<Longrightarrow> cfg_present cur \<Longrightarrow> \<not> snd (snd (m_drift res_methods r cur))"
    using r res_artifact [of r] art.art_present [of "_" cur] by (fastforce simp: art_methods_def)
  show "artifact_kind (ref_kind (m_ref res_methods r)) \<Longrightarrow> \<not> cfg_present (Some c) \<Longrightarrow> m_params res_methods r = Inr p \<Longrightarrow>
      snd (snd (m_drift res_methods r (Some c)))"
    using r res_artifact [of r] art.art_absent [of "_" c p] by (fastforce simp: art_methods_def)
qed

section \<open>Nodes\<close>

lemma vm_validate_placed: "vm_validate v = None \<Longrightarrow> vs_node (vm_spec v) \<noteq> []"
  by (simp add: vm_validate_def Let_def checks_None)

lemma lxc_validate_placed: "lxc_validate l = None \<Longrightarrow> ls_node (lx_spec l) \<noteq> []"
  by (simp add: lxc_validate_def Let_def checks_None)

interpretation res_placed: placed_contract res_methods "res_ops dec st" for dec st
proof
  show "m_validate res_methods r = None \<Longrightarrow> placed res_methods r" for r
    by (cases r) (auto simp: placed_def res_methods_def art_validate_placed artifact_nodes_named vm_nodes_def lxc_nodes_def
        vm_node_def lxc_node_def dest!: template_vm_validate_vm template_ct_validate_lxc dest: vm_validate_placed lxc_validate_placed)
qed

end
