(* ===== verification/Reconcile_Props.thy ===== *)
theory Reconcile_Props
  imports Reconcile Resolve_Facts
begin

text \<open>
  The properties of a reconcile cycle: it fails closed, it only reads unless it executes, it closes
  the cycle record with the counts it returns, and it acts only on allowed nodes.
\<close>

section \<open>The ways a cycle ends\<close>

text \<open>A cycle that stopped before any call to PVE, and why.\<close>

definition stopped_early :: "'r methods \<Rightarrow> 'r schema_ops \<Rightarrow> sync \<Rightarrow> 'r reconciler \<Rightarrow> string option" where
  "stopped_early mt so sy rc =
     (if \<not> sync_commit rc sy then Some not_ready
      else case desired_index mt so rc sy of
             Inl e \<Rightarrow> Some e
           | Inr idx \<Rightarrow> map_option (\<lambda>e. ''unknown node: '' @ e)
                          (check_node_allowlist (rc_allow rc) (rc_cluster rc) mt (index_list idx)))"

lemma on_store_sel [simp]:
  "xs_client (on_store f x) = xs_client x"
  "xs_store (on_store f x) = map_option (f (c_now (xs_client x))) (xs_store x)"
  by (simp_all add: on_store_def)

lemma desired_index_stale [simp]: "desired_index mt so (rc\<lparr>rc_stale := b\<rparr>) sy = desired_index mt so rc sy"
  by (simp add: desired_index_def)

text \<open>What the rest of the cycle starts from.\<close>

definition opened :: "sync \<Rightarrow> 'r reconciler \<Rightarrow> xstate \<Rightarrow> xstate" where
  "opened sy rc x =
     (if sync_commit rc sy
      then on_store (\<lambda>now. begin_cycle now (sy_rev sy) (sy_err sy \<noteq> None) (rc_exec rc = None)) x
      else on_store (\<lambda>now. begin_cycle now (rc_last_commit rc) False (rc_exec rc = None)) x)"

definition opened_result :: "sync \<Rightarrow> 'r reconciler \<Rightarrow> cycle_result" where
  "opened_result sy rc =
     (if sync_commit rc sy then fresh_result (sy_rev sy) (sy_err sy \<noteq> None) else fresh_result (rc_last_commit rc) False)"

lemma opened_client [simp]: "xs_client (opened sy rc x) = xs_client x"
  by (simp add: opened_def)

definition accepted_rc :: "sync \<Rightarrow> 'r reconciler \<Rightarrow> 'r index \<Rightarrow> 'r reconciler" where
  "accepted_rc sy rc idx = rc\<lparr>rc_stale := (sy_err sy \<noteq> None), rc_last_good := Some idx, rc_last_commit := sy_rev sy\<rparr>"

lemma accepted_rc_sel [simp]:
  "rc_allow (accepted_rc sy rc idx) = rc_allow rc" "rc_cluster (accepted_rc sy rc idx) = rc_cluster rc"
  "rc_budget (accepted_rc sy rc idx) = rc_budget rc" "rc_exec (accepted_rc sy rc idx) = rc_exec rc"
  by (simp_all add: accepted_rc_def)

lemma run_one_cycle_early:
  assumes "stopped_early mt so sy rc = Some e"
  shows "\<exists>rc'. run_one_cycle env cx mt so sy rc x = aborted rc' None (abort_cycle e (opened_result sy rc) (opened sy rc x))"
  using assms
  by (auto simp: stopped_early_def run_one_cycle_def reconcile_index_def opened_def opened_result_def Let_def
      split: if_splits sum.splits option.splits)

lemma run_one_cycle_late:
  assumes "stopped_early mt so sy rc = None"
  obtains idx where "desired_index mt so rc sy = Inr idx"
    "check_node_allowlist (rc_allow rc) (rc_cluster rc) mt (index_list idx) = None"
    "sync_commit rc sy"
    "run_one_cycle env cx mt so sy rc x = reconcile_index env cx mt (accepted_rc sy rc idx) idx (opened_result sy rc) (opened sy rc x)"
  using assms
  by (auto simp: stopped_early_def run_one_cycle_def opened_def opened_result_def accepted_rc_def Let_def
      split: if_splits sum.splits option.splits)

text \<open>Past the early stops: an abort after reads, or a plan that was run.\<close>

lemma reconcile_index_cases:
  assumes "check_node_allowlist (rc_allow rc) (rc_cluster rc) mt (index_list idx) = None"
  obtains (aborts) reason fatal cl where
      "reconcile_index env cx mt rc idx res x = aborted rc fatal (abort_cycle reason res (x\<lparr>xs_client := cl\<rparr>))"
      "cl = snd (load_live env cx mt (index_list idx) (rc_allow rc) (xs_client x))"
  | (runs) live cl p where
      "load_live env cx mt (index_list idx) (rc_allow rc) (xs_client x) = (Inr live, cl)"
      "plan_actions mt (index_list idx) (Some live) (index_options mt idx (rc_budget rc) (rc_allow rc)) = Inr p"
      "reconcile_index env cx mt rc idx res x =
         (let rr = run_plan env cx (rc_exec rc) p res
                     (on_store (record_anomalies (rc_cluster rc) p)
                        (on_store (record_desired mt (rc_cluster rc) p (index_list idx)) (x\<lparr>xs_client := cl\<rparr>)))
          in \<lparr>co_result = fst rr, co_plan = Some p, co_fatal = None, co_reconciler = rc, co_state = snd rr\<rparr>)"
proof -
  obtain lr cl where l: "load_live env cx mt (index_list idx) (rc_allow rc) (xs_client x) = (lr, cl)" by fastforce
  show thesis
  proof (cases lr)
    case (Inl e)
    with l assms show thesis by (intro aborts) (auto simp: reconcile_index_def Let_def)
  next
    case (Inr live)
    show thesis
    proof (cases "plan_actions mt (index_list idx) (Some live) (index_options mt idx (rc_budget rc) (rc_allow rc))")
      case (Inl e)
      with l Inr assms show thesis by (intro aborts) (auto simp: reconcile_index_def plan_and_run_def Let_def)
    next
      case (Inr p)
      show thesis by (rule runs) (use l \<open>lr = Inr live\<close> Inr assms in \<open>auto simp: reconcile_index_def plan_and_run_def Let_def\<close>)
    qed
  qed
qed

lemma abort_cycle_sel [simp]:
  "rs_aborted (fst (abort_cycle e res x))" "rs_reason (fst (abort_cycle e res x)) = e"
  "xs_client (snd (abort_cycle e res x)) = xs_client x"
  by (simp_all add: abort_cycle_def)

lemma aborted_sel [simp]:
  "co_result (aborted rc f ra) = fst ra" "co_plan (aborted rc f ra) = None" "co_state (aborted rc f ra) = snd ra"
  "co_fatal (aborted rc f ra) = f" "co_reconciler (aborted rc f ra) = rc"
  by (simp_all add: aborted_def)

lemma run_plan_dry: "run_plan env cx None p res x =
  (plan_result p res, on_store (\<lambda>now. finish_cycle now False []) (on_store (\<lambda>_. bump_all_skipped p) x))"
  by (simp add: run_plan_def)

lemma run_plan_not_aborted [simp]: "rs_aborted (fst (run_plan env cx exc p res x)) = rs_aborted res"
  by (simp add: run_plan_def plan_result_def Let_def split: option.splits)

lemma opened_result_sel [simp]: "\<not> rs_aborted (opened_result sy rc)"
  by (simp add: opened_result_def fresh_result_def)

section \<open>Example\<close>

text \<open>The repository of two images against an empty PVE, with and without an executor.\<close>

definition ex_sync :: "string option \<Rightarrow> sync" where
  "ex_sync e = \<lparr>sy_err = e, sy_rev = ''abc'', sy_dir = ''/repo'', sy_fs = ex_repo\<rparr>"

definition ex_cycle :: "string option \<Rightarrow> executor option \<Rightarrow> art cycle_out" where
  "ex_cycle e xc = run_one_cycle (ex_env 200 (JArr [])) background art_methods (art_ops ex_decode) (ex_sync e)
     (new_reconciler 0 ''lab'' [''n1''] [''lab''] xc) ex_state"

section \<open>Reads and writes\<close>

text \<open>
  C10: the cycle fails closed before PVE: without a usable tree, with a manifest set that does not
  parse, validate or resolve, or with a node outside the allowlist, it aborts with that reason, has
  no plan, and the PVE client is exactly as it was, no request sent.
\<close>

theorem cycle_fails_closed:
  assumes "stopped_early mt so sy rc = Some e"
  shows "let r = run_one_cycle env cx mt so sy rc x
    in rs_aborted (co_result r) \<and> rs_reason (co_result r) = e \<and> co_plan r = None \<and>
       xs_client (co_state r) = xs_client x"
  using run_one_cycle_early [OF assms, of env cx x] by auto

theorem cycle_fails_closed_witness:
  "rs_reason (co_result (ex_cycle (Some ''timeout'') None)) = not_ready \<and>
   xs_client (co_state (ex_cycle (Some ''timeout'') None)) = xs_client ex_state"
proof -
  have "stopped_early art_methods (art_ops ex_decode) (ex_sync (Some ''timeout''))
          (new_reconciler 0 ''lab'' [''n1''] [''lab''] None) = Some not_ready" by code_simp
  from cycle_fails_closed [OF this] show ?thesis unfolding ex_cycle_def Let_def by blast
qed

text \<open>
  A cycle that aborts, and every cycle of a reconciler without an executor, sends only GET
  requests (and ticket exchanges): to the listing, to allowed nodes, and to the nodes of the desired
  artifacts.  A plan is returned exactly when the cycle was not aborted.
\<close>

theorem cycle_reads_only:
  assumes "r = run_one_cycle env cx mt so sy rc x" "rs_aborted (co_result r) \<or> rc_exec rc = None"
  shows "(co_plan r = None \<longleftrightarrow> rs_aborted (co_result r)) \<and>
    (\<exists>new desired. c_sent (xs_client (co_state r)) = c_sent (xs_client x) @ new \<and>
       (\<forall>rq\<in>set new. is_api_request (xs_client x)
          (live_request (rc_allow rc) (artifact_node_list mt desired)) rq))"
proof (cases "stopped_early mt so sy rc")
  case (Some e)
  with run_one_cycle_early [OF Some, of env cx x] assms(1) show ?thesis by auto
next
  case None
  obtain idx where idx: "check_node_allowlist (rc_allow rc) (rc_cluster rc) mt (index_list idx) = None"
    "r = reconcile_index env cx mt (accepted_rc sy rc idx) idx (opened_result sy rc) (opened sy rc x)"
    using run_one_cycle_late [OF None, of env cx x] assms(1) by metis
  let ?cl = "snd (load_live env cx mt (index_list idx) (rc_allow rc) (xs_client x))"
  have "extends (is_api_request (xs_client x) (live_request (rc_allow rc) (artifact_node_list mt (index_list idx))))
          (xs_client x) ?cl"
    using load_live_sends [of "rc_allow rc" mt "index_list idx" env cx] unfolding sends_def by blast
  then have sent: "\<exists>new. c_sent ?cl = c_sent (xs_client x) @ new \<and>
      (\<forall>rq\<in>set new. is_api_request (xs_client x) (live_request (rc_allow rc) (artifact_node_list mt (index_list idx))) rq)"
    by (rule extends_sent)
  have "check_node_allowlist (rc_allow (accepted_rc sy rc idx)) (rc_cluster (accepted_rc sy rc idx)) mt (index_list idx) = None"
    using idx(1) by simp
  then have "(co_plan r = None \<longleftrightarrow> rs_aborted (co_result r)) \<and> xs_client (co_state r) = ?cl"
  proof (cases rule: reconcile_index_cases [where env = env and cx = cx and res = "opened_result sy rc" and x = "opened sy rc x"])
    case (runs live cl p)
    then show ?thesis using assms(2) idx(2) by (auto simp: Let_def run_plan_dry plan_result_def)
  qed (auto simp: idx(2))
  with sent show ?thesis by auto
qed

theorem cycle_reads_only_witness:
  "co_plan (ex_cycle None None) \<noteq> None \<and> rs_actions (co_result (ex_cycle None None)) = 2 \<and>
   (\<exists>new desired. c_sent (xs_client (co_state (ex_cycle None None))) = c_sent (xs_client ex_state) @ new \<and>
      (\<forall>rq\<in>set new. is_api_request (xs_client ex_state) (live_request [''n1''] (artifact_node_list art_methods desired)) rq))"
proof -
  let ?rc = "new_reconciler 0 ''lab'' [''n1''] [''lab''] None :: art reconciler"
  have rc: "rc_exec ?rc = None" "rc_allow ?rc = [''n1'']" by code_simp+
  have "\<not> rs_aborted (co_result (ex_cycle None None))" "rs_actions (co_result (ex_cycle None None)) = 2" by code_simp+
  with cycle_reads_only [OF ex_cycle_def disjI2 [OF rc(1)]] rc(2) show ?thesis by metis
qed

section \<open>The cycle record\<close>

text \<open>The fields of the open cycle that only the reconciler writes.\<close>

definition frame :: "cycle \<Rightarrow> string \<times> bool \<times> bool \<times> nat \<times> nat" where
  "frame c = (cy_commit c, cy_desired_stale c, cy_read_only c, cy_skipped c, cy_anomalies c)"

definition open_frame :: "string \<times> bool \<times> bool \<times> nat \<times> nat \<Rightarrow> xstate \<Rightarrow> bool" where
  "open_frame f x \<longleftrightarrow> (\<exists>s c. xs_store x = Some s \<and> st_last s = Some c \<and> frame c = f)"

lemma frame_tally: "frame (fold tally rbs c) = frame c"
  by (induction rbs arbitrary: c) (simp_all add: tally_def frame_def)

lemma frame_exec_run: "open_frame f x \<Longrightarrow> open_frame f (snd (exec_run env cx xc p x))"
proof -
  assume "open_frame f x"
  then obtain s c where x: "xs_store x = Some s" "st_last s = Some c" "frame c = f" by (auto simp: open_frame_def)
  let ?r = "run_loop env cx xc (pl_actions p) [] x"
  obtain s1 rbs where "xs_store (snd ?r) = Some s1" "st_last s1 = Some (fold tally rbs c)"
    using run_loop_tally [OF x(1,2), of env cx xc "pl_actions p" "[]"] by blast
  with x(3) record_deferred_last [OF this(2)] show ?thesis
    by (auto simp: open_frame_def exec_run_def Let_def frame_tally) (simp add: frame_def prod_eq_iff, metis fst_conv snd_conv frame_def frame_tally)
qed

lemma st_last_fold_set:
  "st_last (fold (\<lambda>r. set_object now (f r)) rs s) = st_last s"
  by (induction rs arbitrary: s) simp_all

lemma frame_skipped:
  "st_last s = Some c \<Longrightarrow> st_last (bump_all_skipped p s) = Some (c\<lparr>cy_skipped := cy_skipped c + length (pl_skipped p)\<rparr>)"
proof -
  have "st_last ((bump_skipped ^^ n) s) = Some (c\<lparr>cy_skipped := cy_skipped c + n\<rparr>)" if "st_last s = Some c" for n
    using that by (induction n) (simp_all add: bump_defs bump_def)
  then show "st_last s = Some c \<Longrightarrow> ?thesis" by (simp add: bump_all_skipped_def)
qed

lemma frame_anomalies:
  "st_last s = Some c \<Longrightarrow> st_last (record_anomalies cluster p now s) =
     Some (c\<lparr>cy_anomalies := cy_anomalies c + length (pl_anomalies p)\<rparr>)"
proof -
  have "st_last (fold (\<lambda>a s. set_object now (anomaly_object cluster a) (bump_anomaly s)) as s) =
          Some (c\<lparr>cy_anomalies := cy_anomalies c + length as\<rparr>)" if "st_last s = Some c" for as
    using that by (induction as arbitrary: s c) (simp_all add: bump_defs bump_def)
  then show "st_last s = Some c \<Longrightarrow> ?thesis" by (simp add: record_anomalies_def)
qed

text \<open>The record of a cycle agrees with what the cycle returned.\<close>

definition closed_as :: "cycle_result \<Rightarrow> bool \<Rightarrow> xstate \<Rightarrow> bool" where
  "closed_as res ro x \<longleftrightarrow> (\<exists>s c. xs_store x = Some s \<and> st_last s = Some c \<and> cy_finished c = Some (c_now (xs_client x)) \<and>
     cy_aborted c = rs_aborted res \<and> cy_abort_reason c = rs_reason res \<and> cy_commit c = rs_commit res \<and>
     cy_desired_stale c = rs_stale res \<and> cy_read_only c = ro \<and> cy_skipped c = rs_skipped res \<and>
     cy_anomalies c = length (rs_anomalies res) \<and> cy_objects c = object_count s)"

lemma closed_finish:
  assumes "open_frame (rs_commit res, rs_stale res, ro, rs_skipped res, length (rs_anomalies res)) x"
  shows "closed_as res ro (on_store (\<lambda>now. finish_cycle now (rs_aborted res) (rs_reason res)) x)"
  using assms by (auto simp: open_frame_def closed_as_def frame_def finish_cycle_def bump_def object_count_def)

lemma open_frame_opened:
  "xs_store x = Some s \<Longrightarrow> open_frame (rs_commit (opened_result sy rc), rs_stale (opened_result sy rc), rc_exec rc = None, 0, 0)
     (opened sy rc x)"
  by (simp add: open_frame_def opened_def opened_result_def begin_cycle_def frame_def fresh_result_def)

lemma closed_abort:
  assumes "open_frame (rs_commit res, rs_stale res, ro, rs_skipped res, length (rs_anomalies res)) x"
  shows "closed_as (fst (abort_cycle e res x)) ro (snd (abort_cycle e res x))"
  using closed_finish [of "res\<lparr>rs_aborted := True, rs_reason := e\<rparr>" ro x] assms by (simp add: abort_cycle_def)

lemma closed_run_plan:
  assumes "open_frame (rs_commit res, rs_stale res, ro, 0, length (pl_anomalies p)) x" "\<not> rs_aborted res" "rs_reason res = []"
  shows "closed_as (fst (run_plan env cx exc p res x)) ro (snd (run_plan env cx exc p res x))"
proof -
  have skip: "open_frame (rs_commit res, rs_stale res, ro, length (pl_skipped p), length (pl_anomalies p)) (on_store (\<lambda>_. bump_all_skipped p) y)"
    if "open_frame (rs_commit res, rs_stale res, ro, 0, length (pl_anomalies p)) y" for y
    using that by (auto simp: open_frame_def frame_skipped frame_def)
  show ?thesis
  proof (cases exc)
    case None
    with closed_finish [of "plan_result p res" ro, OF _] skip [OF assms(1)] assms(2,3) show ?thesis
      by (simp add: run_plan_def plan_result_def)
  next
    case (Some xc)
    let ?r = "exec_run env cx xc p x"
    let ?res = "(plan_result p res)\<lparr>rs_actions_ok := length (filter xr_ok (fst ?r)),
                 rs_actions_err := length (filter (\<lambda>q. \<not> xr_ok q) (fst ?r)),
                 rs_pruned := length (filter (\<lambda>q. xr_ok q \<and> ac_prune (xr_action q)) (fst ?r))\<rparr>"
    from closed_finish [of ?res ro, OF _] skip [OF frame_exec_run [OF assms(1)]] assms(2,3) Some show ?thesis
      by (simp add: run_plan_def plan_result_def Let_def)
  qed
qed

text \<open>
  Every cycle closes its record: however it ends, the store's last cycle is finished, carries the
  commit, staleness and mode of this cycle and the outcome and reason it returns, and its counters of
  skips and anomalies are those of the result.
\<close>

theorem cycle_record_closed:
  assumes "r = run_one_cycle env cx mt so sy rc x" "xs_store x = Some s"
  shows "closed_as (co_result r) (rc_exec rc = None) (co_state r)"
proof -
  note o = open_frame_opened [OF assms(2), of sy rc]
  have z: "rs_skipped (opened_result sy rc) = 0" "rs_anomalies (opened_result sy rc) = []" "rs_reason (opened_result sy rc) = []"
    by (simp_all add: opened_result_def fresh_result_def)
  have closed: "closed_as (fst (abort_cycle e (opened_result sy rc) ((opened sy rc x)\<lparr>xs_client := cl\<rparr>))) (rc_exec rc = None)
                  (snd (abort_cycle e (opened_result sy rc) ((opened sy rc x)\<lparr>xs_client := cl\<rparr>)))" for e cl
    by (rule closed_abort) (use o z in \<open>simp add: open_frame_def\<close>)
  have same: "(opened sy rc x)\<lparr>xs_client := xs_client x\<rparr> = opened sy rc x" by (simp add: opened_def on_store_def)
  show ?thesis
  proof (cases "stopped_early mt so sy rc")
    case (Some e)
    with run_one_cycle_early [OF Some, of env cx x] assms(1) closed [of e "xs_client x"] show ?thesis by (auto simp: same)
  next
    case None
    obtain idx where idx: "check_node_allowlist (rc_allow rc) (rc_cluster rc) mt (index_list idx) = None"
      "r = reconcile_index env cx mt (accepted_rc sy rc idx) idx (opened_result sy rc) (opened sy rc x)"
      using run_one_cycle_late [OF None, of env cx x] assms(1) by metis
    have c: "check_node_allowlist (rc_allow (accepted_rc sy rc idx)) (rc_cluster (accepted_rc sy rc idx)) mt (index_list idx) = None"
      using idx(1) by simp
    from c show ?thesis
    proof (cases rule: reconcile_index_cases [where env = env and cx = cx and res = "opened_result sy rc" and x = "opened sy rc x"])
      case (aborts reason fatal cl)
      with closed [of reason cl] idx(2) show ?thesis by simp
    next
      case (runs live cl p)
      let ?x = "on_store (record_anomalies (rc_cluster rc) p)
                  (on_store (record_desired mt (rc_cluster rc) p (index_list idx)) ((opened sy rc x)\<lparr>xs_client := cl\<rparr>))"
      have "open_frame (rs_commit (opened_result sy rc), rs_stale (opened_result sy rc), rc_exec rc = None, 0, length (pl_anomalies p)) ?x"
        using o by (auto simp: open_frame_def record_desired_def st_last_fold_set frame_anomalies frame_def)
      from closed_run_plan [OF this _ z(3)] show ?thesis using runs(3) idx(2) by (simp add: Let_def)
    qed
  qed
qed

theorem cycle_record_closed_witness:
  "closed_as (co_result (ex_cycle None (Some ex_executor))) False (co_state (ex_cycle None (Some ex_executor))) \<and>
   rs_actions_ok (co_result (ex_cycle None (Some ex_executor))) = 2"
proof
  have "xs_store ex_state = Some (begin_cycle 0 ''c0ffee'' False False new_store)" by (simp add: ex_state_def)
  note f = cycle_record_closed [OF ex_cycle_def [of None "Some ex_executor"] this]
  have "(rc_exec (new_reconciler 0 ''lab'' [''n1''] [''lab''] (Some ex_executor) :: art reconciler) = None) = False"
    by (simp add: new_reconciler_def)
  with f show "closed_as (co_result (ex_cycle None (Some ex_executor))) False (co_state (ex_cycle None (Some ex_executor)))"
    by (simp only:)
  show "rs_actions_ok (co_result (ex_cycle None (Some ex_executor))) = 2" by code_simp
qed

section \<open>What an executed cycle may write\<close>

lemma run_loop_extends:
  "(\<And>a. a \<in> set as \<Longrightarrow> set (writes_of a) \<subseteq> set ws) \<Longrightarrow>
   extends (is_api_request (xs_client x) (reads_or ws)) (xs_client x) (xs_client (snd (run_loop env cx xc as failed x)))"
proof (induction as arbitrary: failed x)
  case (Cons a as)
  let ?r = "run_one env cx xc a failed x"
  have mono: "reads_or (writes_of a) m p f \<Longrightarrow> reads_or ws m p f" for m p f
    using Cons.prems [of a] by (auto simp: reads_or_def)
  have 1: "extends (is_api_request (xs_client x) (reads_or ws)) (xs_client x) (xs_client (fst (snd ?r)))"
    by (rule extends_mono [OF conjunct1 [OF run_one_client]]) (auto simp: is_api_request_def mono)
  have "extends (is_api_request (xs_client (fst (snd ?r))) (reads_or ws)) (xs_client (fst (snd ?r)))
          (xs_client (snd (run_loop env cx xc as (snd (snd ?r)) (fst (snd ?r)))))"
    by (rule Cons.IH) (use Cons.prems in simp)
  with 1 show ?case using is_api_request_extends [OF 1] by (auto simp: Let_def intro: extends_trans)
qed simp

definition plan_writes :: "plan \<Rightarrow> (string \<times> string) list" where
  "plan_writes p = concat (map writes_of (pl_actions p))"

lemma exec_run_extends:
  "extends (is_api_request (xs_client x) (reads_or (plan_writes p))) (xs_client x) (xs_client (snd (exec_run env cx xc p x)))"
proof -
  have "extends (is_api_request (xs_client x) (reads_or (plan_writes p))) (xs_client x)
          (xs_client (snd (run_loop env cx xc (pl_actions p) [] x)))"
    by (rule run_loop_extends) (auto simp: plan_writes_def)
  then show ?thesis by (simp add: exec_run_def Let_def)
qed

lemma run_plan_extends:
  "extends (is_api_request (xs_client x) (reads_or (plan_writes p))) (xs_client x) (xs_client (snd (run_plan env cx exc p res x)))"
  by (cases exc) (simp_all add: run_plan_def Let_def exec_run_extends)

lemma check_node_allowlist_ok:
  assumes "check_node_allowlist allow cluster mt rs = None" "allow \<noteq> []" "r \<in> set rs" "n \<in> set (m_nodes mt r)"
  shows "n = [] \<or> n \<in> set allow"
proof -
  have "first_bad_node allow cluster mt rs = None \<Longrightarrow> r \<in> set rs \<Longrightarrow> bad_node allow mt r = None"
    by (induction rs) (auto split: option.splits)
  with assms show ?thesis by (auto simp: check_node_allowlist_def bad_node_def find_None_iff)
qed

context placed_contract
begin

lemma desired_placed:
  assumes "desired_index mt so rc sy = Inr idx" "r \<in> set (index_list idx)"
  shows "placed mt r"
proof -
  obtain i rs where i: "build_cluster_index mt so (sy_fs sy) (sy_dir sy) (rc_cluster rc) (rc_configured rc) = Inr i"
    "so_secrets so (index_list i) = Inr rs" "idx = i\<lparr>ix_by_ref := zip (ix_order i) rs\<rparr>"
    using assms(1) by (auto simp: desired_index_def split: sum.splits)
  obtain files where files: "build_index mt so (sy_fs sy) (sy_dir sy) files = Inr i" using cluster_index_built [OF i(1)] ..
  have "index_wf mt i" using build_index_wf [OF schema_contract_axioms files] by blast
  with index_list_same [OF secrets_identity [OF i(2)]] i(3) have "index_list idx = rs" by simp
  with build_index_placed [OF files] placed_all [OF secrets_identity [OF i(2)]] assms(2) show ?thesis
    by (simp add: list_all_iff)
qed

end

text \<open>
  C6: the boundary of an executed cycle over the manifests: with a node allowlist, every action of its
  plan is on an allowed node, and everything the cycle sends is a read, a ticket exchange or a write
  of one of those actions.
\<close>

theorem cycle_writes_bounded:
  assumes "r = run_one_cycle env cx res_methods (res_ops dec st) sy rc x" "co_plan r = Some p" "rc_allow rc \<noteq> []"
  shows "(\<forall>a\<in>set (pl_actions p). ac_node a \<in> set (rc_allow rc)) \<and>
    (\<exists>new. c_sent (xs_client (co_state r)) = c_sent (xs_client x) @ new \<and>
       (\<forall>rq\<in>set new. is_api_request (xs_client x) (reads_or (plan_writes p)) rq))"
proof (cases "stopped_early res_methods (res_ops dec st) sy rc")
  case (Some e)
  with run_one_cycle_early [OF Some, of env cx x] assms(1,2) show ?thesis by auto
next
  case None
  let ?P = "is_api_request (xs_client x) (reads_or (plan_writes p))"
  obtain idx where idx: "desired_index res_methods (res_ops dec st) rc sy = Inr idx"
    "check_node_allowlist (rc_allow rc) (rc_cluster rc) res_methods (index_list idx) = None"
    "r = reconcile_index env cx res_methods (accepted_rc sy rc idx) idx (opened_result sy rc) (opened sy rc x)"
    using run_one_cycle_late [OF None, of env cx x] assms(1) by metis
  have c: "check_node_allowlist (rc_allow (accepted_rc sy rc idx)) (rc_cluster (accepted_rc sy rc idx)) res_methods (index_list idx) = None"
    using idx(2) by simp
  from c show ?thesis
  proof (cases rule: reconcile_index_cases [where env = env and cx = cx and res = "opened_result sy rc" and x = "opened sy rc x"])
    case (aborts reason fatal cl)
    with idx(3) assms(2) show ?thesis by simp
  next
    case (runs live cl q)
    have q: "q = p" using runs(3) idx(3) assms(2) by (simp add: Let_def)
    let ?y = "on_store (record_anomalies (rc_cluster rc) p)
                (on_store (record_desired res_methods (rc_cluster rc) p (index_list idx)) ((opened sy rc x)\<lparr>xs_client := cl\<rparr>))"
    have "extends (is_api_request (xs_client x) (live_request (rc_allow rc) (artifact_node_list res_methods (index_list idx)))) (xs_client x) cl"
      using load_live_sends [of "rc_allow rc" res_methods "index_list idx" env cx] runs(1) unfolding sends_def
      by (metis accepted_rc_sel(1) opened_client snd_conv)
    then have 1: "extends ?P (xs_client x) cl"
      by (rule extends_mono) (auto simp: is_api_request_def live_request_def reads_or_def)
    have "extends (is_api_request cl (reads_or (plan_writes p))) cl (xs_client (snd (run_plan env cx (rc_exec rc) p (opened_result sy rc) ?y)))"
      using run_plan_extends [of ?y p env cx "rc_exec rc"] by simp
    then have "extends ?P (xs_client x) (xs_client (co_state r))"
      using is_api_request_extends [OF 1] 1 runs(3) idx(3) q by (auto simp: Let_def intro: extends_trans)
    then have "\<exists>new. c_sent (xs_client (co_state r)) = c_sent (xs_client x) @ new \<and> (\<forall>rq\<in>set new. ?P rq)"
      by (rule extends_sent)
    moreover have "ac_node a \<in> set (rc_allow rc)" if a: "a \<in> set (pl_actions p)" for a
      using runs(2) [unfolded q] a
    proof (cases rule: plan_action_cases)
      case (desired d)
      have "placed res_methods d" by (rule res_placed.desired_placed [OF idx(1) desired(1)])
      moreover have "ac_node a \<in> set (m_nodes res_methods d) \<or> ac_node a = m_node res_methods d"
        using desired(2) by (auto simp: action_for_def Let_def split: if_splits)
      ultimately show ?thesis
        using check_node_allowlist_ok [OF idx(2) assms(3) desired(1), of "ac_node a"] by (auto simp: placed_def)
    next
      case (prune res)
      with assms(3) show ?thesis
        by (auto simp: prune_action_def prunable_def node_allowed_def index_options_def Let_def)
    qed
    ultimately show ?thesis by blast
  qed
qed

definition ex_res_decode :: "kind \<Rightarrow> params \<Rightarrow> string + res" where
  "ex_res_decode k doc = map_sum id RArt (ex_decode k doc)"

definition ex_stores :: secret_stores where
  "ex_stores = \<lparr>ss_ssh_keys = [], ss_passwords = []\<rparr>"

definition ex_res_cycle :: "res cycle_out" where
  "ex_res_cycle = run_one_cycle (ex_env 200 (JArr [])) background res_methods (res_ops ex_res_decode ex_stores) (ex_sync None)
     (new_reconciler 0 ''lab'' [''n1''] [''lab''] (Some ex_executor)) ex_state"

theorem cycle_writes_bounded_witness:
  "\<exists>p. co_plan ex_res_cycle = Some p \<and> length (pl_actions p) = 2 \<and>
     (\<forall>a\<in>set (pl_actions p). ac_node a = ''n1'') \<and>
     (\<exists>new. c_sent (xs_client (co_state ex_res_cycle)) = c_sent (xs_client ex_state) @ new \<and>
        (\<forall>rq\<in>set new. is_api_request (xs_client ex_state) (reads_or (plan_writes p)) rq))"
proof -
  let ?rc = "new_reconciler 0 ''lab'' [''n1''] [''lab''] (Some ex_executor) :: res reconciler"
  have "co_plan ex_res_cycle \<noteq> None" by code_simp
  then obtain p where p: "co_plan ex_res_cycle = Some p" by blast
  have "length (pl_actions (the (co_plan ex_res_cycle))) = 2" by code_simp
  with p have l: "length (pl_actions p) = 2" by simp
  have rc: "rc_allow ?rc = [''n1'']" by code_simp
  from cycle_writes_bounded [OF ex_res_cycle_def p] rc l p show ?thesis by auto
qed

end
