(* ===== verification/App.thy ===== *)
theory App
  imports Gitx Wiring Reconcile_Props Resolve
begin

text \<open>
  \<^verbatim>\<open>internal/app/app.go\<close>, \<^verbatim>\<open>app/report.go\<close> and \<^verbatim>\<open>server/server.go\<close>: the
  agent over all clusters, its loop, its reports and its health endpoint.

  Each cluster has its own PVE client; the status store and the git source are shared, and \<open>ag_now\<close> is
  the clock all of them read.  \<open>ag_last_git\<close> and \<open>ag_last_pve\<close> are \<open>None\<close> for the zero time.
  Logging, metrics and the HTTP transport are left out; so is the mutex, since the bookkeeping is read and
  written in single steps.
\<close>

section \<open>The agent\<close>

record 'r cluster_agent =
  ka_name :: string
  ka_client :: client
  ka_dry :: "'r reconciler"
  ka_apply :: "'r reconciler"

record 'r agent =
  ag_config :: process_config
  ag_git :: git_source
  ag_store :: store
  ag_clusters :: "'r cluster_agent list"
  ag_ready :: bool
  ag_last_git :: "int option"
  ag_last_pve :: "int option"
  ag_now :: int

text \<open>What one cycle meets: the PVE server of the cluster, the context, the git library, the tree.\<close>

record surroundings =
  su_env :: env
  su_ctx :: ctx
  su_git :: git_call
  su_fs :: fs

definition agent_git_options :: "process_config \<Rightarrow> string \<Rightarrow> git_options" where
  "agent_git_options c token =
     \<lparr>go_url = gc_url (cf_git c), go_token = token, go_user = [], go_branch = gc_branch (cf_git c),
      go_cache_dir = (if gc_url (cf_git c) \<noteq> [] then git_cache_dir c else []),
      go_local = (if gc_url (cf_git c) \<noteq> [] then [] else gc_path (cf_git c))\<rparr>"

definition stores_from :: "sops_cluster \<Rightarrow> secret_stores" where
  "stores_from sc = \<lparr>ss_ssh_keys = sx_ssh_keys sc, ss_passwords = sx_passwords sc\<rparr>"

definition cluster_reconciler :: "process_config \<Rightarrow> string \<Rightarrow> executor option \<Rightarrow> 'r reconciler" where
  "cluster_reconciler c name xc =
     new_reconciler (rf_prune_budget (cf_rec c)) name (cl_nodes (cluster_get c name)) (cluster_names c) xc"

definition cluster_executor :: "process_config \<Rightarrow> string \<Rightarrow> executor" where
  "cluster_executor c name = set_cluster name (new_executor (rf_task_timeout (cf_rec c)) (2 * sec_ns))"

fun build_clusters :: "(string \<Rightarrow> go_err option) \<Rightarrow> int \<Rightarrow> process_config \<Rightarrow> string list \<Rightarrow> string + 'r cluster_agent list" where
  "build_clusters ca_err now c [] = Inr []"
| "build_clusters ca_err now c (name # names) =
     (case new_client ca_err now (client_options c name) of
        Inl e \<Rightarrow> Inl (''pveclient for cluster '' @ name @ '': '' @ err_text e)
      | Inr cl \<Rightarrow>
          map_sum id ((#) \<lparr>ka_name = name, ka_client = cl, ka_dry = cluster_reconciler c name None,
                          ka_apply = cluster_reconciler c name (Some (cluster_executor c name))\<rparr>)
            (build_clusters ca_err now c names))"

definition new_agent :: "host \<Rightarrow> (string \<Rightarrow> go_err option) \<Rightarrow> git_call \<Rightarrow> int \<Rightarrow> process_config \<Rightarrow> string + 'r agent" where
  "new_agent h ca_err g now c0 =
     (case checked_config h c0 of
        Inl e \<Rightarrow> Inl e
      | Inr (c, token) \<Rightarrow>
          (case git_new h g now (agent_git_options c token) of
             Inl e \<Rightarrow> Inl (''git source: '' @ e)
           | Inr src \<Rightarrow>
               map_sum id (\<lambda>ks. \<lparr>ag_config = c, ag_git = src, ag_store = new_store, ag_clusters = ks, ag_ready = False,
                                ag_last_git = Some now, ag_last_pve = None, ag_now = now\<rparr>)
                 (build_clusters ca_err now c (cluster_names c))))"

definition agent_clusters :: "'r agent \<Rightarrow> string list" where
  "agent_clusters ag = map ka_name (ag_clusters ag)"

definition pve_client_for :: "'r agent \<Rightarrow> string \<Rightarrow> string + client" where
  "pve_client_for ag name =
     (case find (\<lambda>k. ka_name k = name) (ag_clusters ag) of
        None \<Rightarrow> Inl (''unknown cluster '' @ go_quote name @ '' (configured: ['' @ join_with '' '' (agent_clusters ag) @ ''])'')
      | Some k \<Rightarrow> Inr (ka_client k))"

section \<open>One cycle of one cluster\<close>

text \<open>The sync inside a cycle is a fetch of the shared source.\<close>

definition sync_of :: "surroundings \<Rightarrow> string option \<Rightarrow> git_source \<Rightarrow> sync" where
  "sync_of su e s = \<lparr>sy_err = e, sy_rev = gs_rev s, sy_dir = work_dir s, sy_fs = su_fs su\<rparr>"

definition cluster_cycle ::
    "'r methods \<Rightarrow> (string \<Rightarrow> 'r schema_ops) \<Rightarrow> bool \<Rightarrow> surroundings \<Rightarrow> 'r cluster_agent \<Rightarrow> 'r agent \<Rightarrow>
     'r cycle_out \<times> 'r cluster_agent \<times> 'r agent" where
  "cluster_cycle mt so dry su ka ag =
     (let f = git_fetch (su_git su) (ag_now ag) (ag_git ag); s = snd f;
          rc = (if dry then ka_dry ka else ka_apply ka);
          out = run_one_cycle (su_env su) (su_ctx su) mt (so (ka_name ka)) (sync_of su (snd (fst f)) s) rc
                  \<lparr>xs_client = (ka_client ka)\<lparr>c_now := ag_now ag\<rparr>, xs_store = Some (ag_store ag)\<rparr>;
          x = co_state out;
          ka1 = ka\<lparr>ka_client := xs_client x\<rparr>;
          ka2 = (if dry then ka1\<lparr>ka_dry := co_reconciler out\<rparr> else ka1\<lparr>ka_apply := co_reconciler out\<rparr>)
      in (out, ka2, ag\<lparr>ag_git := s, ag_store := (case xs_store x of Some st \<Rightarrow> st | None \<Rightarrow> ag_store ag),
                       ag_now := c_now (xs_client x)\<rparr>))"

definition mark_pve_read :: "'r agent \<Rightarrow> 'r agent" where
  "mark_pve_read ag = ag\<lparr>ag_last_pve := Some (ag_now ag)\<rparr>"

definition set_ready :: "bool \<Rightarrow> 'r agent \<Rightarrow> 'r agent" where
  "set_ready b ag = ag\<lparr>ag_ready := b\<rparr>"

text \<open>\<^verbatim>\<open>runClusterApply\<close>: the error of the cycle with the cluster in front.\<close>

definition run_cluster_apply ::
    "'r methods \<Rightarrow> (string \<Rightarrow> 'r schema_ops) \<Rightarrow> surroundings \<Rightarrow> 'r cluster_agent \<Rightarrow> 'r agent \<Rightarrow>
     (cycle_result \<times> string option) \<times> 'r cluster_agent \<times> 'r agent" where
  "run_cluster_apply mt so su ka ag =
     (let (out, ka1, ag1) = cluster_cycle mt so False su ka ag
      in ((co_result out, map_option (\<lambda>e. ''reconcile cluster '' @ ka_name ka @ '': '' @ e) (co_fatal out)), ka1, mark_pve_read ag1))"

section \<open>All clusters\<close>

text \<open>\<^verbatim>\<open>runAllClusters\<close>: whether some cycle failed, and the clusters after their cycles.\<close>

fun apply_all ::
    "'r methods \<Rightarrow> (string \<Rightarrow> 'r schema_ops) \<Rightarrow> (string \<Rightarrow> surroundings) \<Rightarrow> 'r cluster_agent list \<Rightarrow> 'r agent \<Rightarrow>
     bool \<times> 'r cluster_agent list \<times> 'r agent" where
  "apply_all mt so su [] ag = (False, [], ag)"
| "apply_all mt so su (ka # ks) ag =
     (let ((res, e), ka1, ag1) = run_cluster_apply mt so (su (ka_name ka)) ka ag;
          (failed, ks1, ag2) = apply_all mt so su ks ag1
      in (e \<noteq> None \<or> rs_aborted res \<or> failed, ka1 # ks1, ag2))"

definition run_all_clusters :: "'r methods \<Rightarrow> (string \<Rightarrow> 'r schema_ops) \<Rightarrow> (string \<Rightarrow> surroundings) \<Rightarrow> 'r agent \<Rightarrow> 'r agent" where
  "run_all_clusters mt so su ag =
     (let (failed, ks, ag1) = apply_all mt so su (ag_clusters ag) ag
      in set_ready (\<not> failed) (ag1\<lparr>ag_clusters := ks\<rparr>))"

text \<open>\<open>AbortError\<close>, or an error of a cycle.\<close>

datatype run_error = CycleAborted string | RunFailure string

definition run_error_text :: "run_error \<Rightarrow> string" where
  "run_error_text e = (case e of CycleAborted r \<Rightarrow> ''cycle aborted: '' @ r | RunFailure t \<Rightarrow> t)"

text \<open>\<^verbatim>\<open>RunOnce\<close>: it stops at the first error and remembers the first abort.\<close>

fun apply_until_error ::
    "'r methods \<Rightarrow> (string \<Rightarrow> 'r schema_ops) \<Rightarrow> (string \<Rightarrow> surroundings) \<Rightarrow> run_error option \<Rightarrow> 'r cluster_agent list \<Rightarrow> 'r agent \<Rightarrow>
     run_error option \<times> 'r cluster_agent list \<times> 'r agent" where
  "apply_until_error mt so su first [] ag = (first, [], ag)"
| "apply_until_error mt so su first (ka # ks) ag =
     (let ((res, e), ka1, ag1) = run_cluster_apply mt so (su (ka_name ka)) ka ag
      in case e of
           Some t \<Rightarrow> (Some (RunFailure (''reconcile cluster '' @ ka_name ka @ '': '' @ t)), ka1 # ks, ag1)
         | None \<Rightarrow>
             (let first1 = (if rs_aborted res \<and> first = None
                            then Some (CycleAborted (ka_name ka @ '': '' @ rs_reason res)) else first);
                  (r, ks1, ag2) = apply_until_error mt so su first1 ks ag1
              in (r, ka1 # ks1, ag2)))"

section \<open>Reports\<close>

text \<open>\<^verbatim>\<open>%-8s\<close>; the width counts bytes, as it does in Go for ASCII names.\<close>

definition pad_right :: "nat \<Rightarrow> string \<Rightarrow> string" where
  "pad_right n s = s @ replicate (n - length s) CHR '' ''"

definition state_word :: "bool \<Rightarrow> string \<Rightarrow> nat \<Rightarrow> string" where
  "state_word is_aborted reason errors =
     (if is_aborted then ''ABORTED ('' @ reason @ '')''
      else if 0 < errors then ''incomplete ('' @ nat_str errors @ '' failed action'' @ (if errors = 1 then [] else ''s'') @ '')''
      else ''converged'')"

definition short_id :: "int \<Rightarrow> string" where
  "short_id i = (if i \<le> 0 then ''-'' else itoa i)"

definition object_line :: "object \<Rightarrow> string" where
  "object_line ob =
     ''  '' @ pad_right 8 (ob_kind ob) @ '' '' @ pad_right 40 (ob_name ob) @ '' '' @ pad_right 10 (short_id (ob_id ob)) @ '' '' @
     pad_right 12 (state_text (ob_state ob)) @ '' '' @ ob_prune_reason ob @
     (if ob_last_error ob \<noteq> [] then '' err: '' @ ob_last_error ob else [])"

definition cluster_lines :: "object list \<Rightarrow> string \<Rightarrow> string list" where
  "cluster_lines obs name =
     (let own = filter (\<lambda>ob. ob_cluster ob = name) obs
      in if own = [] then [''['' @ name @ ''] (no recorded objects)''] else (''['' @ name @ '']'') # map object_line own)"

definition cycle_lines :: "cycle \<Rightarrow> string list" where
  "cycle_lines cy =
     (''last cycle: '' @ state_word (cy_aborted cy) (cy_abort_reason cy) (cy_actions_error cy) @ '' (commit '' @ cy_commit cy @ '')'') #
     (if cy_desired_stale cy then [''DESIRED STATE IS STALE (git fetch has been failing)''] else []) @
     [''objects='' @ nat_str (cy_objects cy) @ '' actions_ok='' @ nat_str (cy_actions_ok cy) @
      '' actions_err='' @ nat_str (cy_actions_error cy) @ '' pruned='' @ nat_str (cy_pruned cy) @
      '' prune_deferred='' @ nat_str (cy_prune_deferred cy) @ '' skipped='' @ nat_str (cy_skipped cy) @
      '' anomalies='' @ nat_str (cy_anomalies cy)]"

definition multicluster_report :: "'r agent \<Rightarrow> string" where
  "multicluster_report ag =
     (case store_last (ag_store ag) of
        None \<Rightarrow> ''no reconcile cycle has completed yet''
      | Some cy \<Rightarrow>
          join_with [CHR 10] (cycle_lines cy @
            concat (map (cluster_lines (store_objects (ag_store ag))) (agent_clusters ag)) @ [[]]))"

definition action_label :: "action \<Rightarrow> string" where
  "action_label a = (if ac_kind a = [] then ac_name a else ac_kind a @ ''/'' @ ac_name a)"

definition action_line :: "action \<Rightarrow> string" where
  "action_line a =
     ''  '' @ pad_right 12 (action_text (ac_what a)) @ '' '' @ pad_right 24 (action_label a) @ '' '' @ pad_right 10 (ac_node a) @
     '' id='' @ itoa (ac_id a) @ ''  '' @ ac_reason a @ [CHR 10]"

definition plan_section :: "string \<Rightarrow> action list \<Rightarrow> string" where
  "plan_section title acts =
     (if acts = [] then []
      else ''=== '' @ title @ '' ('' @ nat_str (length acts) @ '') ==='' @ [CHR 10] @ concat (map action_line acts))"

definition of_what :: "action_kind list \<Rightarrow> plan \<Rightarrow> action list" where
  "of_what ws p = filter (\<lambda>a. ac_what a \<in> set ws) (pl_actions p)"

definition render_cluster_plan :: "plan \<Rightarrow> string" where
  "render_cluster_plan p =
     (if pl_actions p = [] \<and> pl_deferred p = [] \<and> pl_skipped p = [] \<and> pl_anomalies p = [] then []
      else plan_section ''will create'' (of_what [Create] p) @
           plan_section ''will update'' (of_what [Update] p) @
           plan_section ''power changes'' (of_what [Start, Stop] p) @
           plan_section ''will delete (prune)'' (of_what [Delete] p) @
           plan_section ''deferred prunes (budget)'' (pl_deferred p) @
           plan_section ''skipped (no proxops tag)'' (pl_skipped p) @
           plan_section ''anomalies (live-only slots proxops will NOT auto-remove)'' (pl_anomalies p))"

definition render_cluster_diff :: "nat \<Rightarrow> string \<Rightarrow> plan option \<Rightarrow> cycle_result \<Rightarrow> string" where
  "render_cluster_diff i cluster pl res =
     (if 0 < i then [CHR 10] else []) @ ''=== '' @ cluster @ '' ==='' @ [CHR 10] @
     (case pl of Some p \<Rightarrow> render_cluster_plan p | None \<Rightarrow> []) @
     (if rs_anomaly res \<noteq> [] then [CHR 10] @ ''ANOMALY: '' @ rs_anomaly res @ [CHR 10] else []) @
     (if rs_anomalies res \<noteq> []
      then [CHR 10] @ ''ANOMALIES ('' @ nat_str (length (rs_anomalies res)) @ '' live-only slots proxops will NOT auto-remove):'' @ [CHR 10] @
           concat (map (\<lambda>m. ''  - '' @ m @ [CHR 10]) (rs_anomalies res))
      else []) @
     (if (case pl of None \<Rightarrow> True
          | Some p \<Rightarrow> pl_actions p = [] \<and> pl_deferred p = [] \<and> pl_skipped p = [] \<and> pl_anomalies p = [])
      then ''no drift '' @ long_dash @ '' PVE matches git'' @ [CHR 10] else [])"

section \<open>The commands\<close>

definition run_once ::
    "'r methods \<Rightarrow> (string \<Rightarrow> 'r schema_ops) \<Rightarrow> (string \<Rightarrow> surroundings) \<Rightarrow> 'r agent \<Rightarrow> (string \<times> run_error option) \<times> 'r agent" where
  "run_once mt so su ag =
     (let (e, ks, ag1) = apply_until_error mt so su None (ag_clusters ag) ag; ag2 = ag1\<lparr>ag_clusters := ks\<rparr>
      in ((multicluster_report ag2, e), ag2))"

text \<open>\<^verbatim>\<open>fetchOnce\<close>: one fetch for the whole report.\<close>

definition fetch_once :: "git_call \<Rightarrow> 'r agent \<Rightarrow> string option \<times> 'r agent" where
  "fetch_once g ag =
     (let f = git_fetch g (ag_now ag) (ag_git ag); ag1 = ag\<lparr>ag_git := snd f\<rparr>
      in case snd (fst f) of
           Some e \<Rightarrow> (Some (''git sync: '' @ e), ag1)
         | None \<Rightarrow> (None, ag1\<lparr>ag_last_git := Some (last_success (snd f))\<rparr>))"

record 'r diff_state =
  df_text :: string
  df_aborted :: bool
  df_error :: "string option"
  df_done :: "'r cluster_agent list"
  df_agent :: "'r agent"

fun diff_all ::
    "'r methods \<Rightarrow> (string \<Rightarrow> 'r schema_ops) \<Rightarrow> (string \<Rightarrow> surroundings) \<Rightarrow> nat \<Rightarrow> 'r cluster_agent list \<Rightarrow> 'r diff_state \<Rightarrow> 'r diff_state" where
  "diff_all mt so su i [] d = d"
| "diff_all mt so su i (ka # ks) d =
     (let (out, ka1, ag1) = cluster_cycle mt so True (su (ka_name ka)) ka (df_agent d); res = co_result out
      in case co_fatal out of
           Some e \<Rightarrow> d\<lparr>df_error := Some (''diff: cluster '' @ ka_name ka @ '': '' @ e), df_done := df_done d @ ka1 # ks, df_agent := ag1\<rparr>
         | None \<Rightarrow>
             (let ag2 = mark_pve_read ag1; d1 = d\<lparr>df_done := df_done d @ [ka1], df_agent := ag2\<rparr>
              in diff_all mt so su (Suc i) ks
                   (if rs_aborted res
                    then d1\<lparr>df_aborted := True,
                            df_text := df_text d @ [CHR 10] @ ''=== cluster '' @ ka_name ka @ '' ==='' @ [CHR 10] @
                              ''ABORTED: '' @ rs_reason res @ [CHR 10]\<rparr>
                    else d1\<lparr>df_text := df_text d @ render_cluster_diff i (ka_name ka) (co_plan out) res\<rparr>)))"

definition run_diff ::
    "'r methods \<Rightarrow> (string \<Rightarrow> 'r schema_ops) \<Rightarrow> git_call \<Rightarrow> (string \<Rightarrow> surroundings) \<Rightarrow> 'r agent \<Rightarrow>
     (string \<times> run_error option) \<times> 'r agent" where
  "run_diff mt so g su ag =
     (let ag0 = snd (fetch_once g ag);
          d = diff_all mt so su 0 (ag_clusters ag0)
                \<lparr>df_text = [], df_aborted = False, df_error = None, df_done = [], df_agent = ag0\<rparr>;
          ag1 = (df_agent d)\<lparr>ag_clusters := df_done d\<rparr>
      in case df_error d of
           Some e \<Rightarrow> ((multicluster_report ag1, Some (RunFailure e)), ag1)
         | None \<Rightarrow>
             (let ag2 = set_ready (\<not> df_aborted d \<or> ag_clusters ag1 = []) ag1
              in if df_text d = [] then ((''no drift '' @ long_dash @ '' PVE matches git'', None), ag2)
                 else if df_aborted d then ((df_text d, Some (CycleAborted ''one or more clusters aborted'')), ag2)
                 else ((df_text d, None), ag2)))"

definition apply_once where
  "apply_once mt so g su dry ag = (if dry then run_diff mt so g su ag else run_once mt so su ag)"

text \<open>\<^verbatim>\<open>ShowStatus\<close>: dry cycles for a store that has seen none; their errors are only logged.\<close>

fun dry_all ::
    "'r methods \<Rightarrow> (string \<Rightarrow> 'r schema_ops) \<Rightarrow> (string \<Rightarrow> surroundings) \<Rightarrow> 'r cluster_agent list \<Rightarrow> 'r agent \<Rightarrow>
     'r cluster_agent list \<times> 'r agent" where
  "dry_all mt so su [] ag = ([], ag)"
| "dry_all mt so su (ka # ks) ag =
     (let (out, ka1, ag1) = cluster_cycle mt so True (su (ka_name ka)) ka ag; (ks1, ag2) = dry_all mt so su ks ag1
      in (ka1 # ks1, ag2))"

definition show_status ::
    "'r methods \<Rightarrow> (string \<Rightarrow> 'r schema_ops) \<Rightarrow> (string \<Rightarrow> surroundings) \<Rightarrow> 'r agent \<Rightarrow> string \<times> 'r agent" where
  "show_status mt so su ag =
     (let ag1 = (if store_last (ag_store ag) = None
                 then (let (ks, a) = dry_all mt so su (ag_clusters ag) ag in a\<lparr>ag_clusters := ks\<rparr>) else ag)
      in (multicluster_report ag1, ag1))"

section \<open>The loop and the health endpoint\<close>

text \<open>What the loop of \<^verbatim>\<open>Start\<close> receives until it is told to stop: a tick, an error of the server, time.\<close>

datatype watch_event = Tick "string \<Rightarrow> surroundings" | ServerError string | Elapse nat

fun watch_step :: "'r methods \<Rightarrow> (string \<Rightarrow> 'r schema_ops) \<Rightarrow> watch_event \<Rightarrow> 'r agent \<Rightarrow> 'r agent" where
  "watch_step mt so (Tick su) ag = run_all_clusters mt so su ag"
| "watch_step mt so (ServerError e) ag = ag"
| "watch_step mt so (Elapse d) ag = ag\<lparr>ag_now := ag_now ag + int d\<rparr>"

definition watch :: "'r methods \<Rightarrow> (string \<Rightarrow> 'r schema_ops) \<Rightarrow> watch_event list \<Rightarrow> 'r agent \<Rightarrow> 'r agent" where
  "watch mt so es ag = fold (watch_step mt so) es ag"

record health_info =
  hi_ready :: bool
  hi_git_age :: int
  hi_pve_age :: int

text \<open>\<^verbatim>\<open>healthInfo\<close>: the age of the zero time is taken as none.\<close>

definition health_of :: "'r agent \<Rightarrow> health_info" where
  "health_of ag =
     \<lparr>hi_ready = ag_ready ag,
      hi_git_age = (case ag_last_git ag of Some t \<Rightarrow> ag_now ag - t | None \<Rightarrow> 0),
      hi_pve_age = (case ag_last_pve ag of Some t \<Rightarrow> ag_now ag - t | None \<Rightarrow> 0)\<rparr>"

text \<open>\<^verbatim>\<open>handleHealthz\<close>: the status code and the reason of a refusal.\<close>

definition healthz :: "health_info \<Rightarrow> int \<times> string" where
  "healthz info =
     (if \<not> hi_ready info then (503, ''not_ready'')
      else if 120 * sec_ns < hi_git_age info \<or> 120 * sec_ns < hi_pve_age info then (503, ''stale'')
      else (200, []))"

text \<open>\<^verbatim>\<open>handleStatus\<close>: the last cycle and the objects of the store.\<close>

definition status_page :: "'r agent \<Rightarrow> cycle option \<times> object list" where
  "status_page ag = (store_last (ag_store ag), store_objects (ag_store ag))"

end
