(* ===== verification/App_Facts.thy ===== *)
theory App_Facts
  imports App
begin

text \<open>Facts about the cycles of the agent: what a cycle may send, and what it leaves of its cluster.\<close>

section \<open>One cycle\<close>

definition may_send :: "executor option \<Rightarrow> string \<Rightarrow> string \<Rightarrow> (string \<times> string) list \<Rightarrow> bool" where
  "may_send xc m p f \<longleftrightarrow> (xc = None \<longrightarrow> m = ''GET'')"

lemma cycle_client_extends:
  "extends (is_api_request (xs_client x) (may_send (rc_exec rc))) (xs_client x)
     (xs_client (co_state (run_one_cycle env cx mt so sy rc x)))"
proof (cases "stopped_early mt so sy rc")
  case (Some e)
  from run_one_cycle_early [OF Some, of env cx x] show ?thesis
    by (auto simp: aborted_def abort_cycle_def)
next
  case None
  let ?P = "is_api_request (xs_client x) (may_send (rc_exec rc))"
  obtain idx where idx: "check_node_allowlist (rc_allow rc) (rc_cluster rc) mt (index_list idx) = None"
    "run_one_cycle env cx mt so sy rc x = reconcile_index env cx mt (accepted_rc sy rc idx) idx (opened_result sy rc) (opened sy rc x)"
    using run_one_cycle_late [OF None, of env cx x] by metis
  have "extends (is_api_request (xs_client x) (live_request (rc_allow rc) (artifact_node_list mt (index_list idx))))
      (xs_client x) (snd (load_live env cx mt (index_list idx) (rc_allow rc) (xs_client x)))"
    using load_live_sends [of "rc_allow rc" mt "index_list idx" env cx] unfolding sends_def by blast
  then have reads: "extends ?P (xs_client x) (snd (load_live env cx mt (index_list idx) (rc_allow rc) (xs_client x)))"
    by (rule extends_mono) (auto simp: is_api_request_def live_request_def may_send_def)
  have c: "check_node_allowlist (rc_allow (accepted_rc sy rc idx)) (rc_cluster (accepted_rc sy rc idx)) mt (index_list idx) = None"
    using idx(1) by simp
  from c show ?thesis
  proof (cases rule: reconcile_index_cases [where env = env and cx = cx and res = "opened_result sy rc" and x = "opened sy rc x"])
    case (aborts reason fatal cl)
    with reads idx(2) show ?thesis by (simp add: aborted_def abort_cycle_def)
  next
    case (runs live cl p)
    let ?y = "on_store (record_anomalies (rc_cluster rc) p)
                (on_store (record_desired mt (rc_cluster rc) p (index_list idx)) ((opened sy rc x)\<lparr>xs_client := cl\<rparr>))"
    have 1: "extends ?P (xs_client x) cl" using reads runs(1) by simp
    have "extends (is_api_request cl (may_send (rc_exec rc))) cl (xs_client (snd (run_plan env cx (rc_exec rc) p (opened_result sy rc) ?y)))"
    proof (cases "rc_exec rc")
      case None
      then show ?thesis by (simp add: run_plan_def)
    next
      case (Some xc)
      have "extends (is_api_request cl (reads_or (plan_writes p))) cl (xs_client (snd (run_plan env cx (rc_exec rc) p (opened_result sy rc) ?y)))"
        using run_plan_extends [of ?y p env cx "rc_exec rc"] by simp
      then show ?thesis by (rule extends_mono) (auto simp: is_api_request_def may_send_def Some)
    qed
    then show ?thesis
      using is_api_request_extends [OF 1] 1 runs(3) idx(2) by (auto simp: Let_def intro: extends_trans)
  qed
qed

lemma cycle_reconciler:
  "let rc' = co_reconciler (run_one_cycle env cx mt so sy rc x)
   in rc_exec rc' = rc_exec rc \<and> rc_cluster rc' = rc_cluster rc \<and> rc_allow rc' = rc_allow rc \<and>
      rc_budget rc' = rc_budget rc \<and> rc_configured rc' = rc_configured rc"
  by (simp add: run_one_cycle_def reconcile_index_def plan_and_run_def aborted_def Let_def
      split: sum.split option.split)

section \<open>The contract of the loops over clusters\<close>

text \<open>
  A relation between a cluster before and after: kept by every cycle, it is kept by every loop over the
  clusters.  \<open>dry\<close> tells cycles without execution from those that execute.
\<close>

locale cluster_contract =
  fixes R :: "bool \<Rightarrow> 'r cluster_agent \<Rightarrow> 'r cluster_agent \<Rightarrow> bool"
    and mt :: "'r methods" and so :: "string \<Rightarrow> 'r schema_ops"
  assumes kept: "R dry ka (fst (snd (cluster_cycle mt so dry su ka ag)))"
    and same: "R dry ka ka"
    and again: "R dry a b \<Longrightarrow> R dry b c \<Longrightarrow> R dry a c"
begin

lemma same_all: "list_all2 (R dry) ks ks"
  by (simp add: list.rel_refl same)

lemma run_cluster_keeps: "R False ka (fst (snd (run_cluster_apply mt so su ka ag)))"
  using kept [of False ka su ag] by (simp add: run_cluster_apply_def case_prod_beta Let_def)

lemma apply_all_keeps: "list_all2 (R False) ks (fst (snd (apply_all mt so su ks ag)))"
proof (induction ks arbitrary: ag)
  case (Cons ka ks)
  from Cons run_cluster_keeps [of ka "su (ka_name ka)" ag] show ?case
    by (simp add: Let_def case_prod_beta)
qed simp

lemma until_error_keeps: "list_all2 (R False) ks (fst (snd (apply_until_error mt so su first ks ag)))"
proof (induction ks arbitrary: ag first)
  case (Cons ka ks)
  from Cons run_cluster_keeps [of ka "su (ka_name ka)" ag] show ?case
    by (auto simp: Let_def same_all case_prod_beta split: option.split)
qed simp

lemma dry_all_keeps: "list_all2 (R True) ks (fst (dry_all mt so su ks ag))"
proof (induction ks arbitrary: ag)
  case (Cons ka ks)
  from Cons kept [of True ka "su (ka_name ka)" ag] show ?case
    by (simp add: Let_def case_prod_beta)
qed simp

lemma diff_all_keeps:
  "\<exists>ks'. df_done (diff_all mt so su i ks d) = df_done d @ ks' \<and> list_all2 (R True) ks ks'"
proof (induction ks arbitrary: i d)
  case (Cons ka ks)
  obtain out ka1 ag1 where c: "cluster_cycle mt so True (su (ka_name ka)) ka (df_agent d) = (out, ka1, ag1)"
    by (metis prod_cases3)
  have ka1: "R True ka ka1" using kept [of True ka "su (ka_name ka)" "df_agent d"] c by simp
  show ?case
  proof (cases "co_fatal out")
    case (Some e)
    then have "df_done (diff_all mt so su i (ka # ks) d) = df_done d @ ka1 # ks" by (simp add: c Let_def)
    with ka1 same_all show ?thesis by (intro exI [of _ "ka1 # ks"]) simp
  next
    case None
    then obtain d1 where d1: "diff_all mt so su i (ka # ks) d = diff_all mt so su (Suc i) ks d1" "df_done d1 = df_done d @ [ka1]"
      by (simp add: c Let_def)
    from Cons [of "Suc i" d1] obtain ks' where "df_done (diff_all mt so su (Suc i) ks d1) = df_done d1 @ ks'" "list_all2 (R True) ks ks'"
      by blast
    with d1 ka1 show ?thesis by (intro exI [of _ "ka1 # ks'"]) simp
  qed
qed simp

lemma all_again: "list_all2 (R dry) as bs \<Longrightarrow> list_all2 (R dry) bs cs \<Longrightarrow> list_all2 (R dry) as cs"
  by (rule list_all2_trans [where ?P1.0 = "R dry" and ?P2.0 = "R dry"]) (auto intro: again)

lemma watch_step_keeps: "list_all2 (R False) (ag_clusters ag) (ag_clusters (watch_step mt so e ag))"
proof (cases e)
  case (Tick su)
  then show ?thesis
    using apply_all_keeps [of "ag_clusters ag" su ag] by (simp add: run_all_clusters_def set_ready_def case_prod_beta Let_def)
qed (simp_all add: same_all)

lemma watch_keeps: "list_all2 (R False) (ag_clusters ag) (ag_clusters (watch mt so es ag))"
  unfolding watch_def
proof (induction es arbitrary: ag)
  case (Cons e es)
  from all_again [OF watch_step_keeps [of ag e] Cons [of "watch_step mt so e ag"]] show ?case by simp
qed (simp add: same_all)

lemma diff_keeps: "list_all2 (R True) (ag_clusters ag) (ag_clusters (snd (run_diff mt so g su ag)))"
proof -
  have fetch: "ag_clusters (snd (fetch_once g ag)) = ag_clusters ag"
    by (simp add: fetch_once_def Let_def split: option.split)
  let ?d = "diff_all mt so su 0 (ag_clusters ag)
      \<lparr>df_text = [], df_aborted = False, df_error = None, df_done = [], df_agent = snd (fetch_once g ag)\<rparr>"
  have "ag_clusters (snd (run_diff mt so g su ag)) = df_done ?d"
    by (simp add: run_diff_def fetch Let_def set_ready_def split: option.split)
  with diff_all_keeps [of su 0 "ag_clusters ag" "\<lparr>df_text = [], df_aborted = False, df_error = None, df_done = [], df_agent = snd (fetch_once g ag)\<rparr>"]
  show ?thesis by auto
qed

end

section \<open>Served clusters\<close>

text \<open>What of a cluster no cycle changes.\<close>

definition constitution :: "'r cluster_agent \<Rightarrow> string \<times> (executor option \<times> string \<times> string list) \<times> (executor option \<times> string \<times> string list)" where
  "constitution ka = (ka_name ka, (rc_exec (ka_dry ka), rc_cluster (ka_dry ka), rc_allow (ka_dry ka)),
     (rc_exec (ka_apply ka), rc_cluster (ka_apply ka), rc_allow (ka_apply ka)))"

text \<open>
  A cycle keeps what is fixed and the identity of the client, and what it sends are requests of this client; a
  dry cycle without executor only reads.
\<close>

definition served :: "bool \<Rightarrow> 'r cluster_agent \<Rightarrow> 'r cluster_agent \<Rightarrow> bool" where
  "served dry ka kb \<longleftrightarrow> constitution kb = constitution ka \<and> c_base (ka_client kb) = c_base (ka_client ka) \<and>
     invalidate (c_auth (ka_client kb)) = invalidate (c_auth (ka_client ka)) \<and>
     (\<exists>new. c_sent (ka_client kb) = c_sent (ka_client ka) @ new \<and>
        (\<forall>rq\<in>set new. is_api_request (ka_client ka) (may_send (rc_exec (if dry then ka_dry ka else ka_apply ka))) rq))"

lemma is_api_request_same:
  "c_base a = c_base b \<Longrightarrow> invalidate (c_auth a) = invalidate (c_auth b) \<Longrightarrow> is_api_request a P = is_api_request b P"
  using invalidate_same [of "c_auth a" "c_auth b"]
  by (simp add: is_api_request_def client_url_def ticket_request_def ticket_endpoint_def fun_eq_iff)

lemma served_cycle: "served dry ka (fst (snd (cluster_cycle mt so dry su ka ag)))"
proof -
  define cl where "cl = (ka_client ka)\<lparr>c_now := ag_now ag\<rparr>"
  define rc where "rc = (if dry then ka_dry ka else ka_apply ka)"
  define f where "f = git_fetch (su_git su) (ag_now ag) (ag_git ag)"
  define out where "out = run_one_cycle (su_env su) (su_ctx su) mt (so (ka_name ka)) (sync_of su (snd (fst f)) (snd f)) rc
      \<lparr>xs_client = cl, xs_store = Some (ag_store ag)\<rparr>"
  have ext: "extends (is_api_request cl (may_send (rc_exec rc))) cl (xs_client (co_state out))"
    using cycle_client_extends [of "\<lparr>xs_client = cl, xs_store = Some (ag_store ag)\<rparr>" rc] by (simp add: out_def)
  have rc': "rc_exec (co_reconciler out) = rc_exec rc" "rc_cluster (co_reconciler out) = rc_cluster rc"
    "rc_allow (co_reconciler out) = rc_allow rc"
    using cycle_reconciler [of "su_env su" "su_ctx su" mt "so (ka_name ka)" "sync_of su (snd (fst f)) (snd f)" rc
        "\<lparr>xs_client = cl, xs_store = Some (ag_store ag)\<rparr>"] by (simp_all add: out_def Let_def)
  have same: "c_base cl = c_base (ka_client ka)" "c_auth cl = c_auth (ka_client ka)" "c_sent cl = c_sent (ka_client ka)"
    by (simp_all add: cl_def)
  have ka': "fst (snd (cluster_cycle mt so dry su ka ag)) =
      (if dry then ka\<lparr>ka_client := xs_client (co_state out), ka_dry := co_reconciler out\<rparr>
       else ka\<lparr>ka_client := xs_client (co_state out), ka_apply := co_reconciler out\<rparr>)"
    by (simp add: cluster_cycle_def out_def f_def rc_def cl_def Let_def)
  have req: "is_api_request cl P = is_api_request (ka_client ka) P" for P
    by (rule is_api_request_same) (simp_all add: same)
  from ext have "c_base (xs_client (co_state out)) = c_base (ka_client ka)"
    "invalidate (c_auth (xs_client (co_state out))) = invalidate (c_auth (ka_client ka))"
    "\<exists>new. c_sent (xs_client (co_state out)) = c_sent (ka_client ka) @ new \<and>
       (\<forall>rq\<in>set new. is_api_request (ka_client ka) (may_send (rc_exec rc)) rq)"
    unfolding extends_def req by (simp_all add: same)
  then show ?thesis using rc' unfolding served_def ka' by (cases dry) (simp_all add: constitution_def rc_def)
qed

lemma served_trans: "served dry a b \<Longrightarrow> served dry b c \<Longrightarrow> served dry a c"
proof -
  assume ab: "served dry a b" and bc: "served dry b c"
  have x: "rc_exec (if dry then ka_dry b else ka_apply b) = rc_exec (if dry then ka_dry a else ka_apply a)"
    using ab by (cases dry) (simp_all add: served_def constitution_def)
  have req: "is_api_request (ka_client b) P = is_api_request (ka_client a) P" for P
    by (rule is_api_request_same) (use ab in \<open>simp_all add: served_def\<close>)
  from ab bc show ?thesis unfolding served_def x req by (fastforce simp del: split_paired_Ex)
qed

interpretation serve: cluster_contract served mt so
  by unfold_locales (simp_all add: served_cycle, simp add: served_def, rule served_trans)

section \<open>The agent as it is built\<close>

lemma build_clusters_ok:
  "build_clusters ca now c names = Inr ks \<Longrightarrow>
   list_all2 (\<lambda>n ka. ka_name ka = n \<and> new_client ca now (client_options c n) = Inr (ka_client ka) \<and>
     ka_dry ka = cluster_reconciler c n None \<and>
     ka_apply ka = cluster_reconciler c n (Some (cluster_executor c n))) names ks"
proof (induction names arbitrary: ks)
  case (Cons n names)
  then obtain cl where cl: "new_client ca now (client_options c n) = Inr cl" by (auto split: sum.splits)
  with Cons show ?case
    by (cases "build_clusters ca now c names :: string + 'a cluster_agent list") auto
qed simp

lemma new_client_fields:
  "new_client ca now opt = Inr cl \<Longrightarrow>
   c_sent cl = [] \<and> c_base cl = (if op_base_url opt = [] then pp_base_url (op_pve opt) else op_base_url opt) \<and>
   au_base (c_auth cl) = c_base cl"
  by (auto simp: new_client_def new_auth_def Let_def split: option.splits if_splits)

lemma new_agent_Inr:
  assumes "new_agent h ca g now c0 = Inr ag"
  obtains c token where "checked_config h c0 = Inr (c, token)" "ag_config ag = c"
    "build_clusters ca now c (cluster_names c) = Inr (ag_clusters ag)"
    "ag_last_git ag = Some now" "ag_now ag = now" "ag_last_pve ag = None"
proof -
  from assms obtain c token where c: "checked_config h c0 = Inr (c, token)"
    by (auto simp: new_agent_def split: sum.splits)
  with assms obtain src where "git_new h g now (agent_git_options c token) = Inr src"
    by (auto simp: new_agent_def split: sum.splits)
  with assms c obtain ks where "build_clusters ca now c (cluster_names c) = Inr ks"
    "ag = \<lparr>ag_config = c, ag_git = src, ag_store = new_store, ag_clusters = ks, ag_ready = False,
           ag_last_git = Some now, ag_last_pve = None, ag_now = now\<rparr>"
    by (cases "build_clusters ca now c (cluster_names c) :: string + 'a cluster_agent list") (auto simp: new_agent_def)
  with c that show thesis by simp
qed

lemma list_all2_set2: "list_all2 P xs ys \<Longrightarrow> y \<in> set ys \<Longrightarrow> \<exists>x\<in>set xs. P x y"
  by (metis in_set_conv_nth list_all2_conv_all_nth)

end
