(* ===== verification/Config_Facts.thy ===== *)
theory Config_Facts
  imports Wiring
begin

text \<open>Facts about checking, loading and merging a configuration.\<close>

section \<open>What an accepted configuration satisfies\<close>

lemma err_if_Nil [simp]: "err_if b e = [] \<longleftrightarrow> \<not> b"
  by (simp add: err_if_def)

lemma set_sel [simp]:
  "cf_pve (set_git_path p c) = cf_pve c" "cf_sops (set_git_path p c) = cf_sops c" "cf_rec (set_git_path p c) = cf_rec c"
  "cf_log_level (set_git_path p c) = cf_log_level c" "gc_path (cf_git (set_git_path p c)) = p"
  "gc_url (cf_git (set_git_path p c)) = gc_url (cf_git c)" "gc_branch (cf_git (set_git_path p c)) = gc_branch (cf_git c)"
  "gc_token (cf_git (set_git_path p c)) = gc_token (cf_git c)"
  by (simp_all add: set_git_path_def)

lemma drop_sentinel_sel [simp]:
  "cf_pve (drop_sentinel c) = cf_pve c" "cf_sops (drop_sentinel c) = cf_sops c" "cf_rec (drop_sentinel c) = cf_rec c"
  "cf_log_level (drop_sentinel c) = cf_log_level c"
  by (simp_all add: drop_sentinel_def)

lemma same_pve_same:
  "cf_pve c = cf_pve d \<Longrightarrow> cluster_map c = cluster_map d"
  "cf_pve c = cf_pve d \<Longrightarrow> cluster_names c = cluster_names d"
  "cf_pve c = cf_pve d \<Longrightarrow> cluster_of c n = cluster_of d n"
  "cf_pve c = cf_pve d \<Longrightarrow> cluster_get c n = cluster_get d n"
  "cf_sops c = cf_sops d \<Longrightarrow> sops_of c n = sops_of d n"
  by (simp_all add: cluster_map_def cluster_names_def cluster_of_def cluster_get_def sops_of_def)

lemma set_cluster_names: "set (cluster_names c) = fst ` set (cluster_map c)"
  by (simp add: cluster_names_def sort_strings_eq_sort)

lemma cluster_of_iff: "cluster_of c n \<noteq> None \<longleftrightarrow> n \<in> set (cluster_names c)"
  by (auto simp: cluster_of_def set_cluster_names map_of_eq_None_iff)

text \<open>The lists of errors are empty, part by part.\<close>

lemma validate_ok:
  assumes "validate_config h c = (None, c')"
  shows "fst (auth_errors (drop_sentinel c)) = []"
    and "n \<in> set (cluster_names c') \<Longrightarrow> cluster_cred_errors c' n = []"
    and "cluster_map c' \<noteq> []"
    and "endpoint_errors c' (cluster_names c') [] = []"
    and "n \<in> set (cluster_names c') \<Longrightarrow> cluster_errors h c' n = []"
    and "source_errors c' = []"
    and "pc_auth (cf_pve c') = auth_token \<or> pc_auth (cf_pve c') = auth_ticket"
proof -
  obtain errs d where d: "auth_errors (drop_sentinel c) = (errs, d)" by (cases "auth_errors (drop_sentinel c)")
  from assms have c': "c' = drop_sentinel d"
    by (simp add: validate_config_def all_errors_def d Let_def split: if_splits)
  have same: "cf_pve c' = cf_pve d" "cf_sops c' = cf_sops d" by (simp_all add: c')
  have cred: "cluster_cred_errors d = cluster_cred_errors c'" "endpoint_errors d xs s = endpoint_errors c' xs s"
    "cluster_errors h d = cluster_errors h c'" for xs s
  proof -
    show "cluster_cred_errors d = cluster_cred_errors c'"
      by (simp add: fun_eq_iff cluster_cred_errors_def same same_pve_same(5) [OF same(2)])
    show "endpoint_errors d xs s = endpoint_errors c' xs s"
      by (induction xs arbitrary: s) (simp_all add: same_pve_same(4) [OF same(1)] Let_def split: option.split)
    show "cluster_errors h d = cluster_errors h c'"
      by (simp add: fun_eq_iff cluster_errors_def same_pve_same(4) [OF same(1)])
  qed
  note names = same_pve_same(2) [OF same(1)] same_pve_same(1) [OF same(1)]
  from assms have all: "errs @ concat (map (cluster_cred_errors c') (cluster_names c')) @
      err_if (cluster_map c' = []) ''pve.clusters: at least one named PVE cluster is required (each with its own base-url)'' @
      endpoint_errors c' (cluster_names c') [] @ concat (map (cluster_errors h c') (cluster_names c')) @ source_errors c' = []"
    by (simp add: validate_config_def all_errors_def d Let_def cred names c' [symmetric] split: if_splits)
  then show "fst (auth_errors (drop_sentinel c)) = []" "cluster_map c' \<noteq> []"
    "endpoint_errors c' (cluster_names c') [] = []" "source_errors c' = []"
    "n \<in> set (cluster_names c') \<Longrightarrow> cluster_cred_errors c' n = []"
    "n \<in> set (cluster_names c') \<Longrightarrow> cluster_errors h c' n = []"
    by (auto simp: d)
  from all d show "pc_auth (cf_pve c') = auth_token \<or> pc_auth (cf_pve c') = auth_ticket"
    by (auto simp: same auth_errors_def Let_def on_pve_def split: if_splits)
qed

section \<open>Credentials\<close>

text \<open>\<^verbatim>\<open>Validate\<close> checks the credentials \<^verbatim>\<open>PVEParamsFrom\<close> composes.\<close>

definition usable :: "pve_params \<Rightarrow> bool" where
  "usable p \<longleftrightarrow> pp_user p \<noteq> [] \<and> (if pp_auth p = auth_token then credential p \<noteq> [] else pp_password p \<noteq> [])"

lemma cluster_cred_errors_usable:
  assumes "pc_auth (cf_pve c) = auth_token \<or> pc_auth (cf_pve c) = auth_ticket" "cluster_of c n = Some cl"
  shows "cluster_cred_errors c n = [] \<longleftrightarrow> usable (pve_params_from c n)"
proof -
  have "auth_token \<noteq> auth_ticket" by code_simp
  with assms show ?thesis
    by (auto simp: cluster_cred_errors_def usable_def pve_params_from_def credential_def pick_def has_pve_secret_def Let_def)
qed

lemma new_client_plain:
  assumes "pp_base_url p \<noteq> []"
  shows "\<exists>k. new_client (\<lambda>_. None) now \<lparr>op_pve = p, op_http_timeout = 0, op_breaker_threshold = 0,
      op_breaker_duration = 0, op_base_url = []\<rparr> = Inr k \<and> c_base k = pp_base_url p \<and> c_auth k = new_auth p (pp_base_url p)"
  using assms by (simp add: new_client_def Let_def)

lemma usable_auth:
  assumes "usable p" "pp_auth p = auth_token \<or> pp_auth p = auth_ticket"
  shows "au_user (new_auth p b) \<noteq> [] \<and>
    (au_method (new_auth p b) = ''token'' \<and> token_auth_value (new_auth p b) \<noteq> [] \<or>
     au_method (new_auth p b) = ''ticket'' \<and> au_password (new_auth p b) \<noteq> [])"
proof (cases "pp_auth p = auth_token")
  case True
  with assms have "pp_user p \<noteq> []" "credential p \<noteq> []" "pp_auth p = ''token''"
    by (simp_all add: usable_def auth_token_def)
  then show ?thesis
    by (simp add: new_auth_def token_auth_value_def credential_def split: if_splits)
next
  case False
  with assms have "pp_user p \<noteq> []" "pp_password p \<noteq> []" "pp_auth p = ''ticket''"
    by (simp_all add: usable_def auth_ticket_def)
  then show ?thesis by (simp add: new_auth_def)
qed

section \<open>Endpoints and nodes\<close>

lemma endpoint_errors_seen:
  "endpoint_errors c names seen = [] \<Longrightarrow> n \<in> set names \<Longrightarrow> cl_base_url (cluster_get c n) = b \<Longrightarrow> b \<noteq> [] \<Longrightarrow> map_of seen b = None"
  by (induction c names seen rule: endpoint_errors.induct)
    (auto simp: Let_def split: if_splits option.splits)

lemma endpoint_errors_Cons:
  "cl_base_url (cluster_get c name) \<noteq> [] \<Longrightarrow>
   endpoint_errors c (name # names) seen = [] \<longleftrightarrow>
     map_of seen (cl_base_url (cluster_get c name)) = None \<and>
     endpoint_errors c names (put (cl_base_url (cluster_get c name)) name seen) = []"
  by (simp add: Let_def split: option.split)

lemma endpoint_errors_distinct:
  "endpoint_errors c names seen = [] \<Longrightarrow> \<forall>n\<in>set names. cl_base_url (cluster_get c n) \<noteq> [] \<Longrightarrow>
   distinct (map (\<lambda>n. cl_base_url (cluster_get c n)) names)"
proof (induction names arbitrary: seen)
  case (Cons name names)
  let ?b = "cl_base_url (cluster_get c name)"
  from Cons.prems(2) have b: "?b \<noteq> []" by simp
  with Cons.prems(1) endpoint_errors_Cons have rest: "endpoint_errors c names (put ?b name seen) = []" by blast
  then have "cl_base_url (cluster_get c n) \<noteq> ?b" if "n \<in> set names" for n
    using endpoint_errors_seen [OF rest that] b by fastforce
  moreover have "distinct (map (\<lambda>n. cl_base_url (cluster_get c n)) names)"
    using Cons.IH [OF rest] Cons.prems(2) by simp
  ultimately show ?case by force
qed simp

lemma node_errors_ok:
  "node_errors name i seen ns = [] \<longleftrightarrow> distinct ns \<and> set ns \<inter> set seen = {} \<and> list_all (\<lambda>n. \<not> bad_node_name n) ns"
  by (induction name i seen ns rule: node_errors.induct) auto

section \<open>Secrets\<close>

lemma sops_field_Inr:
  "sops_field n fl doc key field = Inr v \<longleftrightarrow> (if key = [] then v = [] else sf_get doc key = Some v)"
  by (auto simp: sops_field_def split: option.splits)

lemma sf_get_nonempty: "sf_get doc k = Some v \<Longrightarrow> v \<noteq> []"
  by (auto simp: sf_get_def Let_def split: option.splits if_splits)

lemma sops_cluster_secrets_Inr:
  "sops_cluster_secrets n cl doc = Inr sx \<longleftrightarrow>
     sops_field n (cl_secrets_file cl) doc (sr_user (cd_pve (cl_secrets cl))) ''pve.user'' = Inr (sx_user sx) \<and>
     sops_field n (cl_secrets_file cl) doc (sr_token_id (cd_pve (cl_secrets cl))) ''pve.token-id'' = Inr (sx_token_id sx) \<and>
     sops_field n (cl_secrets_file cl) doc (sr_token (cd_pve (cl_secrets cl))) ''pve.token'' = Inr (sx_token sx) \<and>
     sops_field n (cl_secrets_file cl) doc (sr_password (cd_pve (cl_secrets cl))) ''pve.password'' = Inr (sx_password sx) \<and>
     sops_field n (cl_secrets_file cl) doc (cd_git_token (cl_secrets cl)) ''git token'' = Inr (sx_git_token sx) \<and>
     sx_ssh_keys sx = sf_ssh_keys doc \<and> sx_passwords sx = sf_passwords doc \<and> sx_source sx = cl_secrets_file cl"
  unfolding sops_cluster_secrets_def Let_def by (cases sx) (auto split: sum.splits)

text \<open>What the entry of a cluster is after decryption.\<close>

definition decrypted :: "host \<Rightarrow> string \<Rightarrow> pve_cluster \<Rightarrow> sops_cluster \<Rightarrow> bool" where
  "decrypted h n cl sx \<longleftrightarrow>
     (\<exists>doc. decrypt_file (h_float h) (h_sops h) (cl_secrets_file cl) = Inr doc \<and> sops_cluster_secrets n cl doc = Inr sx)"

lemma resolve_sops_loop_Inr:
  assumes "resolve_sops_loop h c names acc = Inr m" "distinct names"
  shows "map_of m n = (if n \<in> set names \<and> cl_secrets_file (cluster_get c n) \<noteq> [] then map_of m n else map_of acc n) \<and>
    (n \<in> set names \<and> cl_secrets_file (cluster_get c n) \<noteq> [] \<longrightarrow>
      (\<exists>sx. map_of m n = Some sx \<and> decrypted h n (cluster_get c n) sx))"
  using assms
proof (induction names arbitrary: acc)
  case (Cons name names)
  show ?case
  proof (cases "cl_secrets_file (cluster_get c name) = []")
    case True
    with Cons show ?thesis by (auto simp: Let_def)
  next
    case False
    with Cons.prems(1) obtain doc sx where s: "decrypt_file (h_float h) (h_sops h) (cl_secrets_file (cluster_get c name)) = Inr doc"
      "sops_cluster_secrets name (cluster_get c name) doc = Inr sx"
      "resolve_sops_loop h c names (put name sx acc) = Inr m"
      by (auto simp: Let_def split: sum.splits)
    from Cons.IH [OF s(3)] Cons.prems(2) s(1,2) False show ?thesis
      by (cases "n = name") (auto simp: decrypted_def)
  qed
qed simp

lemma distinct_cluster_names: "distinct (map fst (cluster_map c)) \<Longrightarrow> distinct (cluster_names c)"
  by (simp add: cluster_names_def sort_strings_eq_sort)

lemma resolve_sops_Inr:
  assumes "resolve_sops h c = Inr c'" "distinct (map fst (cluster_map c))"
  shows "cf_pve c' = cf_pve c" "cf_git c' = cf_git c"
    "cluster_of c n = Some cl \<Longrightarrow> cl_secrets_file cl = [] \<Longrightarrow> sops_of c' n = no_sops"
    "cluster_of c n = Some cl \<Longrightarrow> cl_secrets_file cl \<noteq> [] \<Longrightarrow> decrypted h n cl (sops_of c' n)"
proof -
  obtain m where m: "resolve_sops_loop h c (cluster_names c) [] = Inr m" "c' = c\<lparr>cf_sops := m\<rparr>"
    using assms(1) by (auto simp: resolve_sops_def split: sum.splits)
  note loop = resolve_sops_loop_Inr [OF m(1) distinct_cluster_names [OF assms(2)], of n]
  show "cf_pve c' = cf_pve c" "cf_git c' = cf_git c" by (simp_all add: m)
  assume n: "cluster_of c n = Some cl"
  then have "n \<in> set (cluster_names c)" "cluster_get c n = cl"
    by (auto simp: cluster_of_iff [symmetric] cluster_get_def)
  with loop show "cl_secrets_file cl = [] \<Longrightarrow> sops_of c' n = no_sops"
    "cl_secrets_file cl \<noteq> [] \<Longrightarrow> decrypted h n cl (sops_of c' n)"
    by (auto simp: m sops_of_def split: option.splits)
qed

section \<open>Loading\<close>

lemma take_entries_Inr:
  assumes "take_entries dir cl names c = Inr c'" "names \<noteq> []"
  shows "\<exists>m. pc_clusters (cf_pve c) = Some m \<and> c' = set_clusters (Some (put dir (cluster_get cl dir) m)) c \<and> set names = {dir}"
  using assms
proof (induction names arbitrary: c)
  case (Cons name names)
  from Cons.prems(1) obtain m where m: "name = dir" "pc_clusters (cf_pve c) = Some m"
    "take_entries dir cl names (set_clusters (Some (put dir (cluster_get cl dir) m)) c) = Inr c'"
    by (auto split: if_splits option.splits)
  have again: "put dir x (put dir x m) = put dir x m" for x :: pve_cluster
    by (simp add: put_def)
  show ?case
  proof (cases "names = []")
    case False
    from Cons.IH [OF m(3) False] m(1,2) again show ?thesis
      by (auto simp: set_clusters_def)
  qed (use m in auto)
qed simp

lemma cluster_set [simp]:
  "cluster_map (set_clusters (Some m) c) = m" "cf_git (set_clusters x c) = cf_git c"
  "cf_sops (set_clusters x c) = cf_sops c" "cf_rec (set_clusters x c) = cf_rec c"
  by (simp_all add: cluster_map_def set_clusters_def)

lemma cluster_of_set [simp]: "cluster_of (set_clusters (Some m) c) n = map_of m n"
  by (simp add: cluster_of_def)

lemma cluster_of_Some: "pc_clusters (cf_pve c) = Some m \<Longrightarrow> cluster_of c n = map_of m n"
  by (simp add: cluster_of_def cluster_map_def)

text \<open>What \<^verbatim>\<open>LoadLocal\<close> finds in one directory of \<^verbatim>\<open>clusters/\<close>.\<close>

definition found_at :: "host \<Rightarrow> string \<Rightarrow> string \<Rightarrow> pve_cluster option" where
  "found_at h cluster_dir dir =
     (let p = join_path (join_path cluster_dir dir) ''config.yaml''
      in if h_exists h p then (case load_config h p of Inr cl \<Rightarrow> cluster_of cl dir | Inl e \<Rightarrow> None) else None)"

lemma load_cluster_dir_Inr:
  assumes "load_cluster_dir h cd dir c = Inr c'"
  shows "cf_git c' = cf_git c \<and> cluster_of c' n = (if n = dir \<and> found_at h cd dir \<noteq> None then found_at h cd dir else cluster_of c n) \<and>
    (h_exists h (join_path (join_path cd dir) ''config.yaml'') \<longrightarrow> found_at h cd dir \<noteq> None)"
proof (cases "h_exists h (join_path (join_path cd dir) ''config.yaml'')")
  case True
  with assms obtain cl where cl: "load_config h (join_path (join_path cd dir) ''config.yaml'') = Inr cl"
    "cluster_names cl \<noteq> []" "take_entries dir cl (cluster_names cl) c = Inr c'"
    by (auto simp: load_cluster_dir_def Let_def split: sum.splits if_splits)
  from take_entries_Inr [OF cl(3,2)] obtain m where m: "pc_clusters (cf_pve c) = Some m"
    "c' = set_clusters (Some (put dir (cluster_get cl dir) m)) c" "set (cluster_names cl) = {dir}" by blast
  then have "cluster_of cl dir \<noteq> None" unfolding cluster_of_iff by simp
  then have "found_at h cd dir = Some (cluster_get cl dir)"
    using True cl(1) by (auto simp: found_at_def cluster_get_def)
  with m(1,2) show ?thesis by (auto simp: cluster_of_Some)
next
  case False
  with assms show ?thesis by (auto simp: load_cluster_dir_def found_at_def)
qed

lemma load_cluster_dirs_Inr:
  assumes "load_cluster_dirs h cd es c = Inr c'" "distinct (map fst es)"
  shows "cf_git c' = cf_git c \<and>
    cluster_of c' n = (if (n, True) \<in> set es \<and> found_at h cd n \<noteq> None then found_at h cd n else cluster_of c n)"
  using assms
proof (induction es arbitrary: c)
  case (Cons e es)
  obtain dir d where e: "e = (dir, d)" by (cases e)
  show ?case
  proof (cases d)
    case True
    with Cons.prems obtain c1 where c1: "load_cluster_dir h cd dir c = Inr c1" "load_cluster_dirs h cd es c1 = Inr c'"
      by (auto simp: e split: sum.splits)
    have "dir \<notin> fst ` set es" using Cons.prems(2) by (simp add: e)
    then have "(dir, True) \<notin> set es" by force
    with Cons.IH [OF c1(2)] Cons.prems(2) load_cluster_dir_Inr [OF c1(1), of n] True show ?thesis
      by (auto simp: e)
  next
    case False
    with Cons show ?thesis by (auto simp: e)
  qed
qed simp

section \<open>Merging\<close>

lemma cluster_of_add:
  "cluster_of (add_cluster proc name t) n = (if cluster_of t n = None \<and> n = name then Some (cluster_get proc name) else cluster_of t n)"
  by (auto simp: add_cluster_def cluster_of_def)

lemma cluster_of_add_clusters:
  "cluster_of (fold (add_cluster proc) names t) n =
     (if cluster_of t n = None \<and> n \<in> set names then Some (cluster_get proc n) else cluster_of t n)"
  by (induction names arbitrary: t) (auto simp: cluster_of_add)

lemma add_cluster_keeps: "cf_git (add_cluster proc name t) = cf_git t"
  by (simp add: add_cluster_def)

lemma add_clusters_git: "cf_git (fold (add_cluster proc) names t) = cf_git t"
  by (induction names arbitrary: t) (simp_all add: add_cluster_keeps)

lemma add_clusters_same:
  "cf_rec (fold (add_cluster proc) names t) = cf_rec t"
  "pc_token (cf_pve (fold (add_cluster proc) names t)) = pc_token (cf_pve t)"
  "pc_user (cf_pve (fold (add_cluster proc) names t)) = pc_user (cf_pve t)"
  by (induction names arbitrary: t) (simp_all add: add_cluster_def set_clusters_def)

end
