(* ===== verification/Config_Props.thy ===== *)
theory Config_Props
  imports Config_Facts
begin

text \<open>
  What an accepted configuration guarantees to the rest of the program, where it comes from, and how
  secrets get into it.
\<close>

section \<open>An example\<close>

definition ex_cluster :: "string \<Rightarrow> string \<Rightarrow> string list \<Rightarrow> pve_cluster" where
  "ex_cluster url secrets nodes = no_cluster\<lparr>cl_base_url := url, cl_nodes := nodes, cl_secrets_file := secrets,
     cl_secrets := \<lparr>cd_pve = \<lparr>sr_user = ''u'', sr_token_id = ''i'', sr_token = ''t'', sr_password = []\<rparr>, cd_git_token = []\<rparr>\<rparr>"

text \<open>
  A host whose files are \<open>texts\<close>, with a repository at \<^verbatim>\<open>/g\<close>; \<open>yaml\<close> is what the
  texts decode to.
\<close>

definition ex_host :: "(string \<times> string) list \<Rightarrow> (string \<Rightarrow> process_config \<Rightarrow> string + process_config) \<Rightarrow> host" where
  "ex_host texts yaml =
     \<lparr>h_cwd = Inr ''/g'', h_home = Some ''/root'',
      h_read = (\<lambda>p. case map_of texts p of Some t \<Rightarrow> Inr t | None \<Rightarrow> Inl ''no such file''),
      h_exists = (\<lambda>p. p = ''/g/.git'' \<or> map_of texts p \<noteq> None),
      h_list = (\<lambda>p. if p = ''/g/clusters'' then Entries [(''lab'', True)] else NoDir),
      h_yaml = yaml,
      h_url = (\<lambda>u. if has_prefix u ''https://'' then Some (''https'', drop 8 u) else None),
      h_env = (\<lambda>_. []),
      h_sops = (\<lambda>p. Printed (Some (JObj [(''secrets'', JObj [(''u'', JStr ''root@pam''), (''i'', JStr ''ops''), (''t'', JStr '' abc '')])]))),
      h_float = (\<lambda>_. [])\<rparr>"

definition ex_config :: "host \<Rightarrow> (string \<times> pve_cluster) list \<Rightarrow> process_config" where
  "ex_config h m = set_git_path ''/g'' (set_clusters (Some m) (defaults h))"

definition no_yaml :: "string \<Rightarrow> process_config \<Rightarrow> string + process_config" where
  "no_yaml t c = Inr c"

abbreviation "plain_host \<equiv> ex_host [] no_yaml"

text \<open>One cluster with secrets and one without, and a shared composed token.\<close>

definition ex_raw :: process_config where
  "ex_raw = on_pve (\<lambda>p. p\<lparr>pc_user := ''git@pam'', pc_token_value := ''git@pam!x=shared''\<rparr>)
     (ex_config plain_host [(''lab'', ex_cluster ''https://lab'' ''/g/lab.yaml'' [''n1'']),
                            (''prod'', ex_cluster ''https://prod'' [] [''n1''])])"

definition ex_checked :: process_config where
  "ex_checked = ex_raw\<lparr>cf_sops := [(''lab'', \<lparr>sx_user = ''root@pam'', sx_token_id = ''ops'', sx_token = ''abc'',
     sx_password = [], sx_git_token = [], sx_ssh_keys = [], sx_passwords = [], sx_source = ''/g/lab.yaml''\<rparr>)]\<rparr>"

lemma ex_resolved: "resolve_sops plain_host ex_raw = Inr ex_checked"
  by code_simp

lemma ex_validated: "validate_config plain_host ex_checked = (None, ex_checked)"
  by code_simp

section \<open>Credentials\<close>

text \<open>
  C22: every cluster of a configuration that \<^verbatim>\<open>Validate\<close> accepts gets a client, at the endpoint
  of this cluster, and the client has a credential: a token that is not empty, or a user and a password.
\<close>

theorem validated_client:
  assumes "validate_config h c = (None, c')" "cluster_of c' name = Some cl"
  shows "\<exists>k. new_client (\<lambda>_. None) now (client_options c' name) = Inr k \<and> c_base k = cl_base_url cl \<and>
    au_user (c_auth k) \<noteq> [] \<and>
    (au_method (c_auth k) = ''token'' \<and> token_auth_value (c_auth k) \<noteq> [] \<or>
     au_method (c_auth k) = ''ticket'' \<and> au_password (c_auth k) \<noteq> [])"
proof -
  from assms(2) have n: "name \<in> set (cluster_names c')" "cluster_get c' name = cl"
    by (auto simp: cluster_of_iff [symmetric] cluster_get_def)
  have auth: "pc_auth (cf_pve c') = auth_token \<or> pc_auth (cf_pve c') = auth_ticket"
    using assms(1) by (rule validate_ok)
  have "usable (pve_params_from c' name)"
    using validate_ok(2) [OF assms(1) n(1)] cluster_cred_errors_usable [OF auth assms(2)] by simp
  moreover have "cl_base_url cl \<noteq> []"
    using validate_ok(5) [OF assms(1) n(1)] n(2) by (auto simp: cluster_errors_def Let_def split: if_splits)
  moreover have "pp_auth (pve_params_from c' name) = pc_auth (cf_pve c')" "pp_base_url (pve_params_from c' name) = cl_base_url cl"
    using assms(2) by (simp_all add: pve_params_from_def Let_def)
  ultimately show ?thesis
    using new_client_plain [of "pve_params_from c' name" now] usable_auth [of "pve_params_from c' name" "cl_base_url cl"] auth
    by (auto simp: client_options_def)
qed

lemma validated_client_witness:
  "\<exists>k. new_client (\<lambda>_. None) 0 (client_options ex_checked ''lab'') = Inr k \<and> c_base k = ''https://lab''"
proof -
  have "cluster_of ex_checked ''lab'' = Some (ex_cluster ''https://lab'' ''/g/lab.yaml'' [''n1''])" by code_simp
  from validated_client [OF ex_validated this, of 0] show ?thesis by (auto simp: ex_cluster_def)
qed

text \<open>A field with a reference is what the file has under it; one without is the shared value.\<close>

definition field_from :: "secrets_file \<Rightarrow> string \<Rightarrow> string \<Rightarrow> string \<Rightarrow> bool" where
  "field_from doc key shared v \<longleftrightarrow> (if key = [] then v = shared else sf_get doc key = Some v)"

text \<open>
  C23: decryption fails closed.  Once \<^verbatim>\<open>ResolveSOPS\<close> succeeds, a field a cluster refers to its
  SOPS file is the trimmed value the file has under that name, never a shared one, and the composed shared
  token reaches no cluster with a reference; a cluster without a secrets file has the shared credentials.
\<close>

theorem sops_fields_exact:
  assumes "resolve_sops h c = Inr c'" "distinct (map fst (cluster_map c))" "cluster_of c name = Some cl"
    "p = pve_params_from c' name" "refs = cd_pve (cl_secrets cl)" "shared = cf_pve c"
  shows "if cl_secrets_file cl = []
    then pp_user p = pc_user shared \<and> pp_token_id p = pc_token_id shared \<and> pp_token p = pc_token shared \<and>
         pp_password p = pc_password shared \<and> pp_token_value p = pc_token_value shared
    else \<exists>doc. decrypt_file (h_float h) (h_sops h) (cl_secrets_file cl) = Inr doc \<and>
         field_from doc (sr_user refs) (pc_user shared) (pp_user p) \<and>
         field_from doc (sr_token_id refs) (pc_token_id shared) (pp_token_id p) \<and>
         field_from doc (sr_token refs) (pc_token shared) (pp_token p) \<and>
         field_from doc (sr_password refs) (pc_password shared) (pp_password p) \<and>
         (refs = cd_pve (cl_secrets no_cluster) \<or> pp_token_value p = [])"
proof -
  have same: "cf_pve c' = cf_pve c" using resolve_sops_Inr(1) [OF assms(1,2)] .
  then have p: "cluster_of c' name = Some cl" using assms(3) same_pve_same(3) by metis
  show ?thesis
  proof (cases "cl_secrets_file cl = []")
    case True
    then have "sops_of c' name = no_sops" using resolve_sops_Inr(3) [OF assms(1,2,3)] by blast
    then show ?thesis using True by (simp add: assms(4,6) pve_params_from_def p same no_sops_def Let_def)
  next
    case False
    from resolve_sops_Inr(4) [OF assms(1-3) False] obtain doc where
      doc: "decrypt_file (h_float h) (h_sops h) (cl_secrets_file cl) = Inr doc"
        "sops_cluster_secrets name cl doc = Inr (sops_of c' name)" by (auto simp: decrypted_def)
    define sx where "sx = sops_of c' name"
    have bound: "if key = [] then v = [] else sf_get doc key = Some v \<and> v \<noteq> []"
      if "sops_field name (cl_secrets_file cl) doc key field = Inr v" for key field v
      using that by (auto simp: sops_field_Inr dest: sf_get_nonempty split: if_splits)
    from doc(2) have
      "if sr_user refs = [] then sx_user sx = [] else sf_get doc (sr_user refs) = Some (sx_user sx) \<and> sx_user sx \<noteq> []"
      "if sr_token_id refs = [] then sx_token_id sx = [] else sf_get doc (sr_token_id refs) = Some (sx_token_id sx) \<and> sx_token_id sx \<noteq> []"
      "if sr_token refs = [] then sx_token sx = [] else sf_get doc (sr_token refs) = Some (sx_token sx) \<and> sx_token sx \<noteq> []"
      "if sr_password refs = [] then sx_password sx = [] else sf_get doc (sr_password refs) = Some (sx_password sx) \<and> sx_password sx \<noteq> []"
      unfolding sops_cluster_secrets_Inr assms(5) [symmetric] sx_def [symmetric] by (blast dest: bound)+
    then show ?thesis using False doc(1)
      by (cases refs) (auto simp: assms(4,6) field_from_def pve_params_from_def p same sx_def no_cluster_def Let_def split: if_splits)
  qed
qed

lemma sops_fields_exact_witness:
  "\<exists>doc. decrypt_file (h_float plain_host) (h_sops plain_host) ''/g/lab.yaml'' = Inr doc \<and>
     sf_get doc ''t'' = Some (pp_token (pve_params_from ex_checked ''lab'')) \<and>
     pp_token_value (pve_params_from ex_checked ''lab'') = []"
proof -
  have c: "distinct (map fst (cluster_map ex_raw))"
    "cluster_of ex_raw ''lab'' = Some (ex_cluster ''https://lab'' ''/g/lab.yaml'' [''n1''])" by code_simp+
  from sops_fields_exact [OF ex_resolved c refl refl refl] show ?thesis
    by (auto simp: ex_cluster_def no_cluster_def field_from_def)
qed

text \<open>
  The credentials of a cluster do not depend on the secrets of another one.
\<close>

theorem credentials_isolated:
  "pve_params_from (c\<lparr>cf_sops := put other sx (cf_sops c)\<rparr>) name =
     pve_params_from (if other = name then c\<lparr>cf_sops := [(name, sx)]\<rparr> else c) name"
proof -
  have "cluster_of (c\<lparr>cf_sops := m\<rparr>) name = cluster_of c name" for m by (simp add: cluster_of_def cluster_map_def)
  then show ?thesis by (cases "cluster_of c name") (simp_all add: pve_params_from_def sops_of_def)
qed

text \<open>The tokens the SOPS files of the clusters carry.\<close>

definition sops_tokens :: "process_config \<Rightarrow> string list \<Rightarrow> string set" where
  "sops_tokens c names = (\<lambda>n. sx_git_token (sops_of c n)) ` set names - {[]}"

lemma sops_tokens_Cons:
  "sops_tokens c (n # names) =
     (if sx_git_token (sops_of c n) = [] then sops_tokens c names
      else insert (sx_git_token (sops_of c n)) (sops_tokens c names))"
  by (auto simp: sops_tokens_def)

lemma git_token_loop_held:
  "first \<noteq> [] \<Longrightarrow> (case git_token_loop c names first cl of
     Inr t \<Rightarrow> t = first \<and> sops_tokens c names \<subseteq> {t} | Inl e \<Rightarrow> \<exists>b. b \<in> sops_tokens c names \<and> b \<noteq> first)"
proof (induction names)
  case (Cons n names)
  then show ?case
    by (cases "sx_git_token (sops_of c n) = [] \<or> sx_git_token (sops_of c n) = first")
      (auto simp: sops_tokens_Cons Let_def split: sum.splits)
qed (simp add: sops_tokens_def)

lemma git_token_loop_spec:
  "case git_token_loop c names [] cl of
     Inr t \<Rightarrow> sops_tokens c names = (if t = [] then {} else {t})
   | Inl e \<Rightarrow> \<exists>a b. a \<in> sops_tokens c names \<and> b \<in> sops_tokens c names \<and> a \<noteq> b"
proof (induction names arbitrary: cl)
  case (Cons n names)
  show ?case
  proof (cases "sx_git_token (sops_of c n) = []")
    case True
    with Cons [of cl] show ?thesis by (simp add: sops_tokens_Cons Let_def split: sum.splits)
  next
    case False
    from git_token_loop_held [OF this, of c names n] False show ?thesis
      by (auto simp: sops_tokens_Cons Let_def split: sum.splits)
  qed
qed (simp add: sops_tokens_def)

text \<open>
  The one git source of all clusters has one token: the token all the SOPS files that carry one agree
  on, or the shared one when none does; two files that differ are an error.
\<close>

theorem git_token_unique:
  "case effective_git_token c of
     Inr t \<Rightarrow> sops_tokens c (cluster_names c) = {t} \<or> sops_tokens c (cluster_names c) = {} \<and> t = gc_token (cf_git c)
   | Inl e \<Rightarrow> \<exists>a b. a \<in> sops_tokens c (cluster_names c) \<and> b \<in> sops_tokens c (cluster_names c) \<and> a \<noteq> b"
  using git_token_loop_spec [of c "cluster_names c" "[]"]
  by (auto simp: effective_git_token_def split: sum.splits if_splits)

end
