(* ===== verification/Load_Props.thy ===== *)
theory Load_Props
  imports Config_Props
begin

text \<open>
  Where a configuration comes from: the repository that is found, the clusters that are loaded, what the
  repository's own file adds, and what an accepted configuration looks like.
\<close>

section \<open>Shape\<close>

text \<open>
  A configuration that \<^verbatim>\<open>Validate\<close> accepts has at least one cluster, valid cluster names, a
  URL with a host for each and no URL twice, node lists without blanks or repeats, exactly one git source,
  and intervals that are positive.
\<close>

theorem validated_shape:
  assumes "validate_config h c = (None, c')"
  shows "cluster_names c' \<noteq> [] \<and> list_all valid_cluster_name (cluster_names c') \<and>
    list_all (\<lambda>n. base_url_ok h (cl_base_url (cluster_get c' n)) \<and> distinct (cl_nodes (cluster_get c' n)) \<and>
       list_all (\<lambda>m. \<not> bad_node_name m) (cl_nodes (cluster_get c' n))) (cluster_names c') \<and>
    distinct (map (\<lambda>n. cl_base_url (cluster_get c' n)) (cluster_names c')) \<and>
    (gc_url (cf_git c') = []) = (gc_path (cf_git c') \<noteq> []) \<and>
    0 < rf_poll_interval (cf_rec c') \<and> 0 < rf_task_timeout (cf_rec c') \<and> 0 \<le> rf_prune_budget (cf_rec c')"
proof -
  have each: "valid_cluster_name n \<and> cl_base_url (cluster_get c' n) \<noteq> [] \<and> base_url_ok h (cl_base_url (cluster_get c' n)) \<and>
      distinct (cl_nodes (cluster_get c' n)) \<and> list_all (\<lambda>m. \<not> bad_node_name m) (cl_nodes (cluster_get c' n))"
    if "n \<in> set (cluster_names c')" for n
    using validate_ok(5) [OF assms that] by (auto simp: cluster_errors_def Let_def node_errors_ok split: if_splits)
  then have "distinct (map (\<lambda>n. cl_base_url (cluster_get c' n)) (cluster_names c'))"
    using endpoint_errors_distinct [OF validate_ok(4) [OF assms]] by blast
  moreover have "cluster_names c' \<noteq> []"
    using validate_ok(3) [OF assms] set_cluster_names [of c'] by auto
  ultimately show ?thesis
    using each validate_ok(6) [OF assms] by (auto simp: list_all_iff source_errors_def Let_def)
qed

lemma validated_shape_witness:
  "distinct (map (\<lambda>n. cl_base_url (cluster_get ex_checked n)) (cluster_names ex_checked)) \<and>
   list_all valid_cluster_name (cluster_names ex_checked)"
  using validated_shape [OF ex_validated] by blast

text \<open>
  The endpoints are compared as they are written: the same server under two spellings passes for two, and
  each of the two clusters then sees the guests of both.
\<close>

lemma same_endpoint_accepted:
  "fst (validate_config plain_host (on_pve (\<lambda>p. p\<lparr>pc_user := ''a@pam'', pc_token_value := ''a@pam!x=y''\<rparr>)
     (ex_config plain_host [(''lab'', ex_cluster ''https://pve:8006'' [] []), (''prod'', ex_cluster ''https://pve:8006/'' [] [])]))) = None"
  by code_simp

section \<open>The repository\<close>

lemma walk_loop_nearest:
  "(walk_loop h cur = [] \<and> (\<forall>n. \<not> h_exists h (join_path ((dir_path ^^ n) cur) ''.git''))) \<or>
   (\<exists>n. walk_loop h cur = (dir_path ^^ n) cur \<and> h_exists h (join_path ((dir_path ^^ n) cur) ''.git'') \<and>
     (\<forall>m<n. \<not> h_exists h (join_path ((dir_path ^^ m) cur) ''.git'')))"
proof (induction h cur rule: walk_loop.induct)
  case (1 h cur)
  show ?case
  proof (cases "h_exists h (join_path cur ''.git'')")
    case True
    then have "walk_loop h cur = (dir_path ^^ 0) cur \<and> h_exists h (join_path ((dir_path ^^ 0) cur) ''.git'')"
      by (simp add: walk_loop.simps)
    then show ?thesis by blast
  next
    case no: False
    show ?thesis
    proof (cases "dir_path cur = cur")
      case True
      then have "(dir_path ^^ n) cur = cur" for n by (induction n) simp_all
      then show ?thesis using no True by (simp add: walk_loop.simps)
    next
      case False
      have step: "walk_loop h cur = walk_loop h (dir_path cur)"
        using no False by (subst walk_loop.simps) (simp add: Let_def)
      have up: "(dir_path ^^ n) (dir_path cur) = (dir_path ^^ Suc n) cur" for n by (simp add: funpow_swap1)
      define alone where "alone = (\<lambda>n. \<forall>m<n. \<not> h_exists h (join_path ((dir_path ^^ m) cur) ''.git''))"
      have alone: "alone (Suc n)" if nearer: "\<forall>m<n. \<not> h_exists h (join_path ((dir_path ^^ Suc m) cur) ''.git'')" for n
      proof -
        have "\<not> h_exists h (join_path ((dir_path ^^ m) cur) ''.git'')" if "m < Suc n" for m
          using that no nearer by (cases m) auto
        then show ?thesis by (simp add: alone_def)
      qed
      from 1 [OF no refl False] consider
          "walk_loop h cur = []" "\<forall>n. \<not> h_exists h (join_path ((dir_path ^^ Suc n) cur) ''.git'')"
        | n where "walk_loop h cur = (dir_path ^^ Suc n) cur" "h_exists h (join_path ((dir_path ^^ Suc n) cur) ''.git'')"
          "\<forall>m<n. \<not> h_exists h (join_path ((dir_path ^^ Suc m) cur) ''.git'')"
        unfolding step up by blast
      then show ?thesis
      proof cases
        case 1
        then have "\<not> h_exists h (join_path ((dir_path ^^ n) cur) ''.git'')" for n using no by (cases n) auto
        with 1 show ?thesis by blast
      next
        case (2 n)
        from 2(1,2) alone [OF 2(3)] show ?thesis unfolding alone_def by blast
      qed
    qed
  qed
qed

text \<open>
  C38: the walk to the repository ends, and it ends at the nearest directory above that has a
  \<^verbatim>\<open>.git\<close> entry; the empty result means that no directory above has one.
\<close>

theorem discover_git_root_nearest:
  assumes "is_rooted (abs_dir h dir)"
  shows "discover_git_root h dir = [] \<and> (\<forall>n. \<not> h_exists h (join_path ((dir_path ^^ n) (abs_dir h dir)) ''.git'')) \<or>
    (\<exists>n. discover_git_root h dir = (dir_path ^^ n) (abs_dir h dir) \<and>
      h_exists h (join_path ((dir_path ^^ n) (abs_dir h dir)) ''.git'') \<and>
      (\<forall>m<n. \<not> h_exists h (join_path ((dir_path ^^ m) (abs_dir h dir)) ''.git'')))"
proof -
  from assms have "abs_dir h dir \<noteq> [] \<and> abs_dir h dir \<noteq> ''.''" by (auto simp: is_rooted_def)
  then show ?thesis using walk_loop_nearest [of h "abs_dir h dir"] by (simp add: discover_git_root_def walk_up_def)
qed

lemma discover_git_root_nearest_witness:
  "\<exists>n. discover_git_root plain_host ''clusters/lab'' = (dir_path ^^ n) ''/g/clusters/lab'' \<and>
     h_exists plain_host (join_path ((dir_path ^^ n) ''/g/clusters/lab'') ''.git'')"
proof -
  have a: "abs_dir plain_host ''clusters/lab'' = ''/g/clusters/lab''" "is_rooted ''/g/clusters/lab''"
    "h_exists plain_host (join_path ((dir_path ^^ 2) ''/g/clusters/lab'') ''.git'')" by code_simp+
  from a(1,2) have "is_rooted (abs_dir plain_host ''clusters/lab'')" by simp
  from discover_git_root_nearest [OF this] a(3) show ?thesis unfolding a(1) by blast
qed

section \<open>Loading from inside the repository\<close>

lemma load_local_Inr:
  assumes "load_local h dir = Inr (c, r)"
  shows "r = discover_git_root h dir" "r \<noteq> []"
    "\<exists>d. c = pin_tree r d \<and> (case h_list h (join_path r ''clusters'') of
        NoDir \<Rightarrow> d = local_process_config h r | DirError e \<Rightarrow> False
      | Entries es \<Rightarrow> load_cluster_dirs h (join_path r ''clusters'') es (local_process_config h r) = Inr d)"
  using assms by (auto simp: load_local_def Let_def split: if_splits dir_listing.splits sum.splits)

lemma pin_tree_facts:
  "cluster_of (pin_tree r c) n = cluster_of c n"
  "r \<noteq> [] \<Longrightarrow> gc_url (cf_git (pin_tree r c)) \<noteq> [] \<or> gc_path (cf_git (pin_tree r c)) \<noteq> []"
  by (auto simp: pin_tree_def cluster_of_def cluster_map_def)

text \<open>
  A configuration loaded from inside a repository has a git source, and its clusters are those the
  directories under \<^verbatim>\<open>clusters/\<close> declare, each under the name of its directory and as its own file
  says, and otherwise those of the repository's own file.
\<close>

theorem load_local_clusters:
  assumes "load_local h dir = Inr (c, r)" "h_list h (join_path r ''clusters'') = Entries es" "distinct (map fst es)"
  shows "r = discover_git_root h dir \<and> (gc_url (cf_git c) \<noteq> [] \<or> gc_path (cf_git c) \<noteq> []) \<and>
    (\<forall>n. cluster_of c n =
      (if (n, True) \<in> set es \<and> found_at h (join_path r ''clusters'') n \<noteq> None
       then found_at h (join_path r ''clusters'') n else cluster_of (local_process_config h r) n))"
proof -
  from load_local_Inr(3) [OF assms(1)] assms(2) obtain d where
    d: "c = pin_tree r d" "load_cluster_dirs h (join_path r ''clusters'') es (local_process_config h r) = Inr d" by auto
  show ?thesis
    using load_cluster_dirs_Inr [OF d(2) assms(3)] load_local_Inr(1,2) [OF assms(1)] pin_tree_facts d(1) by metis
qed

definition ex_texts :: "(string \<times> string) list" where
  "ex_texts = [(''/g/clusters/lab/config.yaml'', ''lab''), (''/g/proxops.yaml'', ''proc'')]"

definition lab_yaml :: "(process_config \<Rightarrow> string + process_config) \<Rightarrow> string \<Rightarrow> process_config \<Rightarrow> string + process_config" where
  "lab_yaml proc t c =
     (if t = ''lab'' then Inr (set_clusters (Some [(''lab'', ex_cluster ''https://lab'' ''s.yaml'' [])]) c) else proc c)"

definition ex_local :: host where
  "ex_local = ex_host ex_texts (lab_yaml Inr)"

definition ex_loaded :: process_config where
  "ex_loaded = set_git_path ''/g'' (set_clusters (Some [(''lab'', ex_cluster ''https://lab'' ''/g/clusters/lab/s.yaml'' [])]) (defaults ex_local))"

lemma ex_load: "load_local ex_local ''/g/clusters'' = Inr (ex_loaded, ''/g'')"
  by code_simp

lemma load_local_clusters_witness:
  "cluster_of ex_loaded ''lab'' = found_at ex_local ''/g/clusters'' ''lab'' \<and> found_at ex_local ''/g/clusters'' ''lab'' \<noteq> None"
proof -
  have a: "h_list ex_local (join_path ''/g'' ''clusters'') = Entries [(''lab'', True)]"
    "join_path ''/g'' ''clusters'' = ''/g/clusters''" "found_at ex_local ''/g/clusters'' ''lab'' \<noteq> None"
    "distinct (map fst [(''lab'', True)])" by code_simp+
  from load_local_clusters [OF ex_load a(1,4)] a(3) show ?thesis unfolding a(2) by simp
qed

text \<open>
  A repository file that does not parse is passed over without a word: the defaults apply, a budget of three
  deletions among them.
\<close>

lemma broken_file_ignored:
  "local_process_config (ex_host ex_texts (lab_yaml (\<lambda>c. Inl ''did not find expected key''))) ''/g'' =
     defaults (ex_host ex_texts (lab_yaml (\<lambda>c. Inl ''did not find expected key'')))"
  by code_simp

text \<open>An empty \<^verbatim>\<open>clusters:\<close> key in that file makes the map nil, and adding a cluster panics.\<close>

lemma empty_clusters_panic:
  "load_local (ex_host ex_texts (lab_yaml (\<lambda>c. Inr (set_clusters None c)))) ''/g'' = Inl NilMapPanic"
  by code_simp

section \<open>The repository's file under one the operator names\<close>

text \<open>
  Merging the repository's file changes neither the git source nor a cluster or a field the operator
  gave; it fills the fields that have their default and adds the clusters that are missing.
\<close>

theorem merge_keeps_operator:
  assumes "merge_process_config h anchor t = Inr t'"
  shows "cf_git t' = cf_git t \<and>
    (t' = t \<or> (\<exists>p proc. load_config h p = Inr proc \<and>
      (\<forall>n. cluster_of t' n = (if cluster_of t n \<noteq> None then cluster_of t n else cluster_of proc n)) \<and>
      rf_prune_budget (cf_rec t') = fill 3 (rf_prune_budget (cf_rec proc)) (rf_prune_budget (cf_rec t)) \<and>
      pc_token (cf_pve t') = fill [] (pc_token (cf_pve proc)) (pc_token (cf_pve t)) \<and>
      pc_user (cf_pve t') = fill [] (pc_user (cf_pve proc)) (pc_user (cf_pve t))))"
proof (cases "t' = t")
  case False
  with assms obtain p proc where p: "load_config h p = Inr proc" "t' = add_clusters proc (fill_fields (defaults h) proc t)"
    by (auto simp: merge_process_config_def Let_def split: if_splits sum.splits)
  let ?f = "fill_fields (defaults h) proc t"
  have f: "cluster_of ?f n = cluster_of t n" for n by (simp add: fill_fields_def cluster_of_def cluster_map_def)
  have "cluster_of t' n = (if cluster_of t n \<noteq> None then cluster_of t n else cluster_of proc n)" for n
    using cluster_of_iff [of proc n]
    by (auto simp: p(2) add_clusters_def cluster_of_add_clusters f cluster_get_def split: option.splits)
  moreover have "cf_git t' = cf_git t"
    by (simp add: p(2) add_clusters_def add_clusters_git fill_fields_def)
  moreover have "cf_rec t' = cf_rec ?f" "pc_token (cf_pve t') = pc_token (cf_pve ?f)" "pc_user (cf_pve t') = pc_user (cf_pve ?f)"
    by (simp_all add: p(2) add_clusters_def add_clusters_same)
  ultimately show ?thesis using p(1) by (auto simp: fill_fields_def defaults_def)
qed simp

definition ex_operator :: "int \<Rightarrow> process_config" where
  "ex_operator budget = (ex_config ex_local [(''prod'', ex_cluster ''https://prod'' [] [])])
     \<lparr>cf_rec := \<lparr>rf_poll_interval = 1, rf_task_timeout = 1, rf_prune_budget = budget\<rparr>\<rparr>"

definition ex_merging :: host where
  "ex_merging = ex_host ex_texts (lab_yaml (\<lambda>c. Inr (set_clusters (Some [(''lab'', ex_cluster ''https://x'' [] [])])
     (c\<lparr>cf_rec := (cf_rec c)\<lparr>rf_prune_budget := 50\<rparr>\<rparr>))))"

definition ex_merged :: "int \<Rightarrow> process_config" where
  "ex_merged budget = set_clusters (Some [(''prod'', ex_cluster ''https://prod'' [] []), (''lab'', ex_cluster ''https://x'' [] [])])
     ((ex_operator 0)\<lparr>cf_rec := \<lparr>rf_poll_interval = 1, rf_task_timeout = 1, rf_prune_budget = budget\<rparr>\<rparr>)"

lemma ex_merge: "merge_process_config ex_merging ''/g/clusters/prod/config.yaml'' (ex_operator 1) = Inr (ex_merged 1)"
  by code_simp

lemma merge_keeps_operator_witness:
  "cf_git (ex_merged 1) = cf_git (ex_operator 1) \<and> rf_prune_budget (cf_rec (ex_merged 1)) = 1"
  using merge_keeps_operator [OF ex_merge] by (simp add: ex_merged_def set_clusters_def)

text \<open>A budget the operator wrote is taken for unset when it happens to be the default.\<close>

lemma explicit_default_replaced:
  "merge_process_config ex_merging ''/g/clusters/prod/config.yaml'' (ex_operator 3) = Inr (ex_merged 50)"
  by code_simp

end
