(* ===== verification/App_Props.thy ===== *)
theory App_Props
  imports App_Facts Load_Props
begin

text \<open>
  The agent over all clusters: each cluster is served by its own client alone, a diff only reads, one run
  of the apply command and one tick of the loop agree, and what the health endpoint says.
\<close>

section \<open>An example\<close>

text \<open>One cluster, the repository of two images, an empty PVE.\<close>

definition ex_agent_config :: process_config where
  "ex_agent_config = set_git_path ''/repo'' (set_clusters (Some [(''lab'', no_cluster\<lparr>cl_base_url := ''https://lab'', cl_nodes := [''n1'']\<rparr>)])
     (on_pve (\<lambda>p. p\<lparr>pc_user := ''a@pam'', pc_token_value := ''a@pam!x=y''\<rparr>) (defaults plain_host)))"

definition ex_agent :: "art agent" where
  "ex_agent = projr (new_agent plain_host (\<lambda>_. None) (ex_git ''abc'' None) 0 ex_agent_config)"

definition ex_around :: "string \<Rightarrow> surroundings" where
  "ex_around name = \<lparr>su_env = ex_env 200 (JArr []), su_ctx = background, su_git = ex_git ''abc'' None, su_fs = ex_repo\<rparr>"

abbreviation "art_so \<equiv> (\<lambda>_ :: string. art_ops ex_decode)"

lemma ex_agent_built: "new_agent plain_host (\<lambda>_. None) (ex_git ''abc'' None) 0 ex_agent_config = Inr ex_agent"
proof -
  have "\<not> isl (new_agent plain_host (\<lambda>_. None) (ex_git ''abc'' None) 0 ex_agent_config :: string + art agent)" by code_simp
  then show ?thesis by (simp add: ex_agent_def)
qed

section \<open>Isolation\<close>

lemma checked_validated:
  assumes "checked_config h c0 = Inr (c, token)"
  obtains c1 where "validate_config h c1 = (None, c)"
proof -
  from assms obtain c1 where c1: "resolve_sops h c0 = Inr c1" by (auto simp: checked_config_def split: sum.splits)
  obtain e d where d: "validate_config h c1 = (e, d)" by fastforce
  show thesis
  proof (cases "effective_git_token d")
    case (Inl x)
    with assms c1 d show thesis by (auto simp: checked_config_def split: option.splits)
  next
    case (Inr x)
    with assms c1 d that show thesis by (auto simp: checked_config_def split: option.splits)
  qed
qed

text \<open>The endpoints of an accepted configuration.\<close>

lemma validated_endpoints:
  assumes "validate_config h c = (None, c')"
  shows "n \<in> set (cluster_names c') \<Longrightarrow> cl_base_url (cluster_get c' n) \<noteq> []"
    and "distinct (map (\<lambda>n. cl_base_url (cluster_get c' n)) (cluster_names c'))"
proof -
  show urls: "cl_base_url (cluster_get c' n) \<noteq> []" if "n \<in> set (cluster_names c')" for n
    using validate_ok(5) [OF assms that] by (auto simp: cluster_errors_def Let_def split: if_splits)
  show "distinct (map (\<lambda>n. cl_base_url (cluster_get c' n)) (cluster_names c'))"
    using endpoint_errors_distinct [OF validate_ok(4) [OF assms]] urls by blast
qed

lemma served_requests:
  assumes "served dry ka kb" "c_sent (ka_client ka) = []" "rq \<in> set (c_sent (ka_client kb))"
    "au_base (c_auth (ka_client ka)) = c_base (ka_client ka)"
  shows "has_prefix (rq_url rq) (c_base (ka_client ka) @ ''/api2/json/'')"
proof -
  from assms(1-3) have "is_api_request (ka_client ka) (may_send (rc_exec (if dry then ka_dry ka else ka_apply ka))) rq"
    by (auto simp: served_def)
  then show ?thesis
    using assms(4) by (auto simp: is_api_request_def client_url_def ticket_request_def ticket_endpoint_def has_prefix_iff)
qed

text \<open>
  C4: whatever happens in the watch loop, every request of a cluster goes to the endpoint this cluster has
  in the configuration, and no two clusters have the same endpoint.
\<close>

theorem clusters_isolated:
  assumes "new_agent h ca g now c0 = Inr ag0" "ka \<in> set (ag_clusters (watch mt so es ag0))"
  shows "ka_name ka \<in> set (cluster_names (ag_config ag0)) \<and>
    (\<forall>rq\<in>set (c_sent (ka_client ka)).
       has_prefix (rq_url rq) (cl_base_url (cluster_get (ag_config ag0) (ka_name ka)) @ ''/api2/json/'')) \<and>
    distinct (map (\<lambda>n. cl_base_url (cluster_get (ag_config ag0) n)) (cluster_names (ag_config ag0)))"
proof -
  obtain c token where c: "checked_config h c0 = Inr (c, token)" "ag_config ag0 = c"
    "build_clusters ca now c (cluster_names c) = Inr (ag_clusters ag0)"
    using new_agent_Inr [OF assms(1)] by metis
  from checked_validated [OF c(1)] obtain c1 where v: "validate_config h c1 = (None, c)" by blast
  obtain k0 where k0: "k0 \<in> set (ag_clusters ag0)" "served False k0 ka"
    using list_all2_set2 [OF serve.watch_keeps assms(2)] by blast
  obtain n where n: "n \<in> set (cluster_names c)" "ka_name k0 = n" "new_client ca now (client_options c n) = Inr (ka_client k0)"
    using list_all2_set2 [OF build_clusters_ok [OF c(3)] k0(1)] by blast
  from n(1) have "cluster_of c n \<noteq> None" unfolding cluster_of_iff .
  then have base: "pp_base_url (pve_params_from c n) = cl_base_url (cluster_get c n)"
    by (auto simp: pve_params_from_def cluster_get_def Let_def)
  from new_client_fields [OF n(3)] have k: "c_sent (ka_client k0) = []" "c_base (ka_client k0) = cl_base_url (cluster_get c n)"
    "au_base (c_auth (ka_client k0)) = c_base (ka_client k0)" by (simp_all add: client_options_def base)
  have "ka_name ka = n" using k0(2) n(2) by (simp add: served_def constitution_def)
  with validated_endpoints(2) [OF v] n(1) served_requests [OF k0(2) k(1) _ k(3)] k(2) c(2) show ?thesis by simp
qed

lemma clusters_isolated_witness:
  "list_all (\<lambda>ka. list_all (\<lambda>rq. has_prefix (rq_url rq) ''https://lab/api2/json/'') (c_sent (ka_client ka)) \<and> c_sent (ka_client ka) \<noteq> [])
     (ag_clusters (watch art_methods art_so [Tick ex_around] ex_agent))"
proof -
  let ?ks = "ag_clusters (watch art_methods art_so [Tick ex_around] ex_agent)"
  have n: "list_all (\<lambda>ka. c_sent (ka_client ka) \<noteq> []) ?ks" by code_simp
  have u: "list_all (\<lambda>n. cl_base_url (cluster_get (ag_config ex_agent) n) = ''https://lab'') (cluster_names (ag_config ex_agent))" by code_simp
  have "has_prefix (rq_url rq) (''https://lab'' @ ''/api2/json/'')" if "ka \<in> set ?ks" "rq \<in> set (c_sent (ka_client ka))" for ka rq
    using clusters_isolated [OF ex_agent_built that(1)] that(2) u by (auto simp: list_all_iff)
  then show ?thesis using n by (auto simp: list_all_iff)
qed

section \<open>The diff\<close>

text \<open>
  A diff sends no request that could change PVE: whatever the loop did before, each cluster's client
  sends during the diff only reads and, with ticket authentication, logins.
\<close>

theorem diff_reads_only:
  assumes "new_agent h ca g now c0 = Inr ag0"
  shows "list_all2 (\<lambda>ka kb. \<exists>new. c_sent (ka_client kb) = c_sent (ka_client ka) @ new \<and>
      list_all (\<lambda>rq. rq_method rq = ''GET'' \<or> rq = ticket_request (c_auth (ka_client ka))) new)
    (ag_clusters (watch mt so es ag0)) (ag_clusters (snd (run_diff mt so g' su (watch mt so es ag0))))"
proof -
  obtain c where c: "build_clusters ca now c (cluster_names c) = Inr (ag_clusters ag0)"
    using new_agent_Inr [OF assms] by metis
  have dry: "rc_exec (ka_dry ka) = None" if "ka \<in> set (ag_clusters (watch mt so es ag0))" for ka
  proof -
    obtain k0 where k0: "k0 \<in> set (ag_clusters ag0)" "served False k0 ka"
      using list_all2_set2 [OF serve.watch_keeps \<open>ka \<in> _\<close>] by blast
    then have "rc_exec (ka_dry ka) = rc_exec (ka_dry k0)" by (simp add: served_def constitution_def)
    then show ?thesis using list_all2_set2 [OF build_clusters_ok [OF c] k0(1)]
      by (auto simp: cluster_reconciler_def new_reconciler_def)
  qed
  show ?thesis
    by (rule list.rel_mono_strong [OF serve.diff_keeps [where ag = "watch mt so es ag0"]])
      (use dry in \<open>fastforce simp: served_def may_send_def is_api_request_def list_all_iff\<close>)
qed

lemma diff_reads_only_witness:
  "list_all2 (\<lambda>ka kb. \<exists>new. c_sent (ka_client kb) = c_sent (ka_client ka) @ new \<and>
      list_all (\<lambda>rq. rq_method rq = ''GET'' \<or> rq = ticket_request (c_auth (ka_client ka))) new)
    (ag_clusters ex_agent) (ag_clusters (snd (run_diff art_methods art_so (ex_git ''abc'' None) ex_around ex_agent))) \<and>
   list_all (\<lambda>ka. c_sent (ka_client ka) \<noteq> []) (ag_clusters (snd (run_diff art_methods art_so (ex_git ''abc'' None) ex_around ex_agent)))"
proof
  show "list_all2 (\<lambda>ka kb. \<exists>new. c_sent (ka_client kb) = c_sent (ka_client ka) @ new \<and>
      list_all (\<lambda>rq. rq_method rq = ''GET'' \<or> rq = ticket_request (c_auth (ka_client ka))) new)
    (ag_clusters ex_agent) (ag_clusters (snd (run_diff art_methods art_so (ex_git ''abc'' None) ex_around ex_agent)))"
    using diff_reads_only [OF ex_agent_built, where es = "[]"] by (simp add: watch_def)
  show "list_all (\<lambda>ka. c_sent (ka_client ka) \<noteq> []) (ag_clusters (snd (run_diff art_methods art_so (ex_git ''abc'' None) ex_around ex_agent)))"
    by code_simp
qed

section \<open>One run and one tick\<close>

lemma until_error_first: "fst (apply_until_error mt so su (Some e) ks ag) \<noteq> None"
proof (induction ks arbitrary: ag)
  case (Cons ka ks)
  show ?case using Cons by (simp add: Let_def case_prod_beta split: option.split)
qed simp

lemma until_error_all:
  "apply_until_error mt so su None ks ag = (None, ks', ag') \<longleftrightarrow> apply_all mt so su ks ag = (False, ks', ag')"
proof (induction ks arbitrary: ag ks')
  case (Cons ka ks)
  obtain res e ka1 ag1 where c: "run_cluster_apply mt so (su (ka_name ka)) ka ag = ((res, e), ka1, ag1)"
    by (metis prod_cases3 surj_pair)
  obtain f ks1 ag2 where a: "apply_all mt so su ks ag1 = (f, ks1, ag2)" by (metis prod_cases3)
  show ?case
  proof (cases "e = None \<and> \<not> rs_aborted res")
    case True
    obtain r ks3 ag3 where u: "apply_until_error mt so su None ks ag1 = (r, ks3, ag3)" by (metis prod_cases3)
    from True have "apply_until_error mt so su None (ka # ks) ag = (r, ka1 # ks3, ag3)"
      "apply_all mt so su (ka # ks) ag = (f, ka1 # ks1, ag2)" by (simp_all add: c a u)
    with Cons [of ag1 ks1] Cons [of ag1 ks3] a u show ?thesis by (cases ks') auto
  next
    case False
    then have "fst (apply_all mt so su (ka # ks) ag)" by (auto simp: c a)
    moreover have "fst (apply_until_error mt so su None (ka # ks) ag) \<noteq> None"
      using False until_error_first [of mt so su _ ks ag1] by (auto simp: c case_prod_beta Let_def split: option.split)
    ultimately show ?thesis by auto
  qed
qed auto

text \<open>
  A run of the apply command that reports no error does to the agent and to PVE what a tick of the
  loop does that ends ready, and the other way round; they part only where a cycle fails.
\<close>

theorem run_once_is_a_good_tick:
  "(snd (fst (run_once mt so su ag)) = None \<and> set_ready True (snd (run_once mt so su ag)) = b) =
   (ag_ready b \<and> run_all_clusters mt so su ag = b)"
proof -
  obtain e ks ag1 where u: "apply_until_error mt so su None (ag_clusters ag) ag = (e, ks, ag1)" by (metis prod_cases3)
  obtain f ks' ag2 where a: "apply_all mt so su (ag_clusters ag) ag = (f, ks', ag2)" by (metis prod_cases3)
  show ?thesis
    using until_error_all [of mt so su "ag_clusters ag" ag ks ag1] until_error_all [of mt so su "ag_clusters ag" ag ks' ag2]
    by (auto simp: run_once_def run_all_clusters_def u a set_ready_def Let_def)
qed

section \<open>The health endpoint\<close>

definition is_tick :: "watch_event \<Rightarrow> bool" where
  "is_tick e = (case e of Tick su \<Rightarrow> True | _ \<Rightarrow> False)"

lemma cycle_last_git: "ag_last_git (snd (snd (cluster_cycle mt so dry su ka ag))) = ag_last_git ag"
  by (simp add: cluster_cycle_def Let_def)

lemma apply_all_last_git: "ag_last_git (snd (snd (apply_all mt so su ks ag))) = ag_last_git ag"
proof (induction ks arbitrary: ag)
  case (Cons ka ks)
  then show ?case
    using cycle_last_git [of mt so False "su (ka_name ka)" ka ag]
    by (simp add: run_cluster_apply_def mark_pve_read_def Let_def case_prod_beta)
qed simp

lemma watch_last_git: "ag_last_git (watch mt so es ag) = ag_last_git ag"
  unfolding watch_def
proof (induction es arbitrary: ag)
  case (Cons e es)
  have "ag_last_git (watch_step mt so e ag) = ag_last_git ag"
    by (cases e) (simp_all add: run_all_clusters_def set_ready_def apply_all_last_git Let_def case_prod_beta)
  with Cons show ?case by simp
qed simp

lemma watch_no_tick: "\<not> list_ex is_tick es \<Longrightarrow> ag_ready (watch mt so es ag) = ag_ready ag"
  unfolding watch_def
proof (induction es arbitrary: ag)
  case (Cons e es)
  then show ?case by (cases e) (auto simp: is_tick_def)
qed simp

lemma watch_append: "watch mt so (es @ es') ag = watch mt so es' (watch mt so es ag)"
  by (simp add: watch_def)

lemma clusters_of_new: "new_agent h ca g now c0 = Inr ag0 \<Longrightarrow> ag_clusters ag0 \<noteq> []"
proof -
  assume a: "new_agent h ca g now c0 = Inr ag0"
  obtain c token where c: "checked_config h c0 = Inr (c, token)"
    "build_clusters ca now c (cluster_names c) = Inr (ag_clusters ag0)"
    using new_agent_Inr [OF a] by metis
  from checked_validated [OF c(1)] obtain c1 where v: "validate_config h c1 = (None, c)" by blast
  have "cluster_names c \<noteq> []"
    using validate_ok(3) [OF v] by (auto simp: cluster_names_def sort_strings_eq_sort dest: arg_cong [where f = set])
  with build_clusters_ok [OF c(2)] show ?thesis by auto
qed

lemma map_sum_Inr_iff: "map_sum f g x = Inr y \<longleftrightarrow> (\<exists>z. x = Inr z \<and> y = g z)"
  by (cases x) auto

lemma new_agent_not_ready: "new_agent h ca g now c0 = Inr ag0 \<Longrightarrow> \<not> ag_ready ag0"
  by (auto simp: new_agent_def Let_def map_sum_Inr_iff split: sum.splits)

lemma watch_nonempty: "ag_clusters ag \<noteq> [] \<Longrightarrow> ag_clusters (watch mt so es ag) \<noteq> []"
  using serve.watch_keeps [of ag mt so es] by auto

lemma apply_all_last_pve:
  "ks \<noteq> [] \<Longrightarrow> apply_all mt so su ks ag = (f, ks', ag') \<Longrightarrow> ag_last_pve ag' = Some (ag_now ag')"
proof (induction ks arbitrary: f ks' ag)
  case (Cons ka ks)
  show ?case
  proof (cases "ks = []")
    case True
    with Cons.prems show ?thesis
      by (auto simp: run_cluster_apply_def mark_pve_read_def Let_def split: prod.splits)
  next
    case False
    with Cons.IH [OF False] Cons.prems(2) show ?thesis by (auto simp: Let_def split: prod.splits)
  qed
qed simp

lemma watch_last_pve: "\<not> list_ex is_tick es \<Longrightarrow> ag_last_pve (watch mt so es ag) = ag_last_pve ag"
  unfolding watch_def
proof (induction es arbitrary: ag)
  case (Cons e es)
  then show ?case by (cases e) (auto simp: is_tick_def)
qed simp

text \<open>
  C39: the health endpoint answers 200 only when a tick of the watch loop has run, every cluster's
  cycle of the last one went through, and that tick ended at most two minutes ago; in every other case
  it answers 503.
\<close>

theorem healthz_sound:
  assumes "new_agent h ca g now c0 = Inr ag0" "ag = watch mt so es ag0"
  shows "fst (healthz (health_of ag)) \<in> {200, 503} \<and>
    (fst (healthz (health_of ag)) = 200 \<longrightarrow>
      (\<exists>pre su post. es = pre @ Tick su # post \<and> \<not> list_ex is_tick post \<and>
         (let before = watch mt so pre ag0
          in \<not> fst (apply_all mt so su (ag_clusters before) before) \<and>
             ag_now ag - ag_now (run_all_clusters mt so su before) \<le> 120 * sec_ns)))"
proof (intro conjI impI)
  show "fst (healthz (health_of ag)) \<in> {200, 503}" by (simp add: healthz_def)
next
  assume ok: "fst (healthz (health_of ag)) = 200"
  then have r: "ag_ready ag" by (auto simp: healthz_def health_of_def split: if_splits)
  have "list_ex is_tick es"
  proof (rule ccontr)
    assume "\<not> list_ex is_tick es"
    from watch_no_tick [OF this, of mt so ag0] r new_agent_not_ready [OF assms(1)] assms(2) show False by simp
  qed
  then obtain pre e post where es: "es = pre @ e # post" "is_tick e" "\<forall>x\<in>set post. \<not> is_tick x"
    using split_list_last_prop [of es is_tick] by (auto simp: list_ex_iff)
  then obtain su where e: "e = Tick su" by (cases e) (auto simp: is_tick_def)
  have no: "\<not> list_ex is_tick post" using es(3) by (auto simp: list_ex_iff)
  define before where "before = watch mt so pre ag0"
  let ?done = "run_all_clusters mt so su before"
  have ag: "ag = watch mt so post ?done"
    using watch_append [of mt so pre "e # post" ag0]
    by (simp add: assms(2) es(1) e before_def) (simp add: watch_def)
  obtain f ks a where all: "apply_all mt so su (ag_clusters before) before = (f, ks, a)" by (metis prod_cases3)
  have "ag_clusters before \<noteq> []" unfolding before_def by (rule watch_nonempty [OF clusters_of_new [OF assms(1)]])
  from apply_all_last_pve [OF this all] have "ag_last_pve ?done = Some (ag_now ?done)"
    by (simp add: run_all_clusters_def set_ready_def all)
  then have pve: "ag_last_pve ag = Some (ag_now ?done)" unfolding ag watch_last_pve [OF no] .
  have "ag_ready ag = (\<not> f)"
    unfolding ag watch_no_tick [OF no] by (simp add: run_all_clusters_def set_ready_def all)
  with r all have "\<not> fst (apply_all mt so su (ag_clusters before) before)" by simp
  moreover have "ag_now ag - ag_now ?done \<le> 120 * sec_ns"
    using ok pve by (auto simp: healthz_def health_of_def split: if_splits)
  ultimately show "\<exists>pre su post. es = pre @ Tick su # post \<and> \<not> list_ex is_tick post \<and>
         (let before = watch mt so pre ag0
          in \<not> fst (apply_all mt so su (ag_clusters before) before) \<and>
             ag_now ag - ag_now (run_all_clusters mt so su before) \<le> 120 * sec_ns)"
    using es(1) e no unfolding before_def Let_def by blast
qed

lemma healthz_sound_witness:
  "fst (healthz (health_of (watch art_methods art_so [Tick ex_around] ex_agent))) = 200 \<and>
   \<not> fst (apply_all art_methods art_so ex_around (ag_clusters ex_agent) ex_agent) \<and>
   fst (healthz (health_of ex_agent)) = 503"
proof -
  let ?w = "watch art_methods art_so [Tick ex_around] ex_agent"
  have ok: "fst (healthz (health_of ?w)) = 200" by code_simp
  from healthz_sound [OF ex_agent_built refl, of art_methods art_so "[Tick ex_around]"] ok
  have "\<not> fst (apply_all art_methods art_so ex_around (ag_clusters ex_agent) ex_agent)"
    by (auto simp: Cons_eq_append_conv watch_def)
  moreover from healthz_sound [OF ex_agent_built refl, of art_methods art_so "[]"]
  have "fst (healthz (health_of ex_agent)) = 503" by (auto simp: watch_def)
  ultimately show ?thesis using ok by simp
qed

text \<open>
  The exact condition has one more part, which the operations guide does not name: the start of the
  process, which \<^verbatim>\<open>lastGit\<close> holds for good, must not be over two minutes ago either.
\<close>

lemma healthz_exact:
  assumes "new_agent h ca g now c0 = Inr ag0" "\<not> list_ex is_tick later"
  shows "let before = watch mt so es ag0; ag = watch mt so (es @ Tick su # later) ag0
    in (fst (healthz (health_of ag)) = 200) =
       (\<not> fst (apply_all mt so su (ag_clusters before) before) \<and> ag_now ag - now \<le> 120 * sec_ns \<and>
        (case ag_last_pve ag of None \<Rightarrow> True | Some t \<Rightarrow> ag_now ag - t \<le> 120 * sec_ns))"
proof -
  define before where "before = watch mt so es ag0"
  define ag where "ag = watch mt so (es @ Tick su # later) ag0"
  have ag: "ag = watch mt so later (run_all_clusters mt so su before)"
    by (simp add: ag_def watch_append before_def) (simp add: watch_def)
  have ready: "ag_ready ag = (\<not> fst (apply_all mt so su (ag_clusters before) before))"
    unfolding ag watch_no_tick [OF assms(2)] by (simp add: run_all_clusters_def set_ready_def Let_def case_prod_beta)
  have git: "ag_last_git ag = Some now"
    using new_agent_Inr [OF assms(1)] watch_last_git [of mt so _ ag0] by (metis ag_def)
  have sec: "0 \<le> sec_ns" by (simp add: sec_ns_def)
  show ?thesis
    unfolding before_def [symmetric] ag_def [symmetric] Let_def
    using sec by (auto simp: healthz_def health_of_def ready git split: option.splits)
qed

text \<open>
  A fetch inside a cycle does not touch \<^verbatim>\<open>lastGit\<close>: two minutes after the start the endpoint refuses for good,
  however well the ticks go.
\<close>

lemma health_expires:
  assumes "new_agent h ca g now c0 = Inr ag0" "120 * sec_ns < ag_now (watch mt so es ag0) - now"
  shows "fst (healthz (health_of (watch mt so es ag0))) = 503"
proof -
  have "ag_last_git (watch mt so es ag0) = Some now"
    using new_agent_Inr [OF assms(1)] watch_last_git [of mt so es ag0] by metis
  then show ?thesis using assms(2) by (auto simp: healthz_def health_of_def)
qed

end
