(* ===== verification/Commands.thy ===== *)
theory Commands
  imports App_Props
begin

text \<open>
  The commands of \<^verbatim>\<open>cmd/proxops/main.go\<close>: from the flags to the agent, and from the agent to what
  is printed and how the process ends.  \<^verbatim>\<open>newAdoptCmd\<close> is in the theory of the adopt command.

  \<open>rt\<close> holds what the process meets besides the files of the host: the certificate file, the git
  library, the clock, and PVE and the tree at each cycle.  Parsing the command line (\<^verbatim>\<open>cobra\<close>)
  and writing to the terminal are left out.
\<close>

section \<open>The version and the flags\<close>

definition resolve_version :: "string \<Rightarrow> string \<Rightarrow> string" where
  "resolve_version linked built =
     (if linked \<noteq> ''dev'' then linked else if built \<noteq> [] \<and> built \<noteq> ''(devel)'' then built else linked)"

definition env_or :: "host \<Rightarrow> string \<Rightarrow> string \<Rightarrow> string" where
  "env_or h key fallback = (if h_env h key \<noteq> [] then h_env h key else fallback)"

text \<open>The flags of an empty command line.\<close>

definition default_flags :: "host \<Rightarrow> global_flags" where
  "default_flags h =
     \<lparr>gf_config = env_or h ''PROXOPS_CONFIG'' [], gf_log_level = [], gf_listen = [], gf_git_url = [], gf_git_branch = [],
      gf_poll_sec = 0, gf_prune_budget = - 1, gf_pve_user = [], gf_pve_auth = [], gf_ca_file = [], gf_git_path = [],
      gf_changed = (\<lambda>_. False)\<rparr>"

section \<open>Running a command\<close>

record runtime =
  rt_ca :: "string \<Rightarrow> go_err option"
  rt_git :: git_call
  rt_now :: int
  rt_around :: "string \<Rightarrow> surroundings"

text \<open>How the process ends: \<^verbatim>\<open>main\<close> exits with 1 on an error; a panic exits with 2.\<close>

datatype command_end = Succeeded | ExitError string | Panicked

record 'r command_run =
  cm_output :: string
  cm_end :: command_end
  cm_agent :: "'r agent option"

definition exit_code :: "command_end \<Rightarrow> int" where
  "exit_code e = (case e of Succeeded \<Rightarrow> 0 | ExitError t \<Rightarrow> 1 | Panicked \<Rightarrow> 2)"

definition build_agent :: "host \<Rightarrow> runtime \<Rightarrow> global_flags \<Rightarrow> load_failure + 'r agent" where
  "build_agent h rt gf =
     (case build_config h gf of
        Inl e \<Rightarrow> Inl e
      | Inr c \<Rightarrow> map_sum LoadError id (new_agent h (rt_ca rt) (rt_git rt) (rt_now rt) c))"

definition ends_with :: "command_end \<Rightarrow> 'r command_run" where
  "ends_with e = \<lparr>cm_output = [], cm_end = e, cm_agent = None\<rparr>"

text \<open>The start of every command: the log level, then the agent.\<close>

definition with_agent :: "host \<Rightarrow> runtime \<Rightarrow> global_flags \<Rightarrow> ('r agent \<Rightarrow> 'r command_run) \<Rightarrow> 'r command_run" where
  "with_agent h rt gf k =
     (if level_for h gf = None then ends_with Panicked
      else (case build_agent h rt gf of
              Inl NilMapPanic \<Rightarrow> ends_with Panicked
            | Inl (LoadError e) \<Rightarrow> ends_with (ExitError e)
            | Inr ag \<Rightarrow> k ag))"

definition failed_run :: "run_error \<Rightarrow> 'r agent \<Rightarrow> 'r command_run" where
  "failed_run e ag = \<lparr>cm_output = [], cm_end = ExitError (run_error_text e), cm_agent = Some ag\<rparr>"

definition printed_run :: "string \<Rightarrow> 'r agent \<Rightarrow> 'r command_run" where
  "printed_run out ag = \<lparr>cm_output = out, cm_end = Succeeded, cm_agent = Some ag\<rparr>"

text \<open>\<open>sof\<close> gives the schema operations of each cluster under a configuration.\<close>

definition diff_command ::
    "'r methods \<Rightarrow> (process_config \<Rightarrow> string \<Rightarrow> 'r schema_ops) \<Rightarrow> host \<Rightarrow> runtime \<Rightarrow> global_flags \<Rightarrow> 'r command_run" where
  "diff_command mt sof h rt gf = with_agent h rt gf
     (\<lambda>ag. case run_diff mt (sof (ag_config ag)) (rt_git rt) (rt_around rt) ag of
             ((out, Some e), ag1) \<Rightarrow> failed_run e ag1
           | ((out, None), ag1) \<Rightarrow> printed_run ((if out = [] then ''no drift'' else out) @ [CHR 10]) ag1)"

definition apply_command ::
    "'r methods \<Rightarrow> (process_config \<Rightarrow> string \<Rightarrow> 'r schema_ops) \<Rightarrow> host \<Rightarrow> runtime \<Rightarrow> global_flags \<Rightarrow> bool \<Rightarrow> 'r command_run" where
  "apply_command mt sof h rt gf dry = with_agent h rt gf
     (\<lambda>ag. case apply_once mt (sof (ag_config ag)) (rt_git rt) (rt_around rt) dry ag of
             ((out, Some e), ag1) \<Rightarrow> failed_run e ag1
           | ((out, None), ag1) \<Rightarrow> printed_run (if out = [] then [] else out @ [CHR 10]) ag1)"

definition status_command ::
    "'r methods \<Rightarrow> (process_config \<Rightarrow> string \<Rightarrow> 'r schema_ops) \<Rightarrow> host \<Rightarrow> runtime \<Rightarrow> global_flags \<Rightarrow> 'r command_run" where
  "status_command mt sof h rt gf = with_agent h rt gf
     (\<lambda>ag. let (out, ag1) = show_status mt (sof (ag_config ag)) (rt_around rt) ag in printed_run (out @ [CHR 10]) ag1)"

text \<open>The daemon: the events until it is told to stop, then the shutdown of the HTTP server.\<close>

definition run_command ::
    "'r methods \<Rightarrow> (process_config \<Rightarrow> string \<Rightarrow> 'r schema_ops) \<Rightarrow> host \<Rightarrow> runtime \<Rightarrow> global_flags \<Rightarrow>
     watch_event list \<Rightarrow> string option \<Rightarrow> 'r command_run" where
  "run_command mt sof h rt gf es shutdown = with_agent h rt gf
     (\<lambda>ag. let ag1 = watch mt (sof (ag_config ag)) es ag
           in (case shutdown of
                 None \<Rightarrow> printed_run [] ag1
               | Some e \<Rightarrow> failed_run (RunFailure e) ag1))"

text \<open>
  The operations the program runs with: the resources of a cluster resolve their secrets against the document of
  this cluster (\<^verbatim>\<open>StoresFromClusterSecrets\<close> in \<^verbatim>\<open>app.New\<close>).
\<close>

definition agent_ops :: "(kind \<Rightarrow> params \<Rightarrow> string + res) \<Rightarrow> process_config \<Rightarrow> string \<Rightarrow> res schema_ops" where
  "agent_ops dec c name = res_ops dec (stores_from (sops_of c name))"

section \<open>Facts\<close>

lemma with_agent_Some:
  fixes ag :: "'a agent"
  assumes "cm_agent (with_agent h rt gf k) = Some ag"
  obtains ag0 c where "build_config h gf = Inr c" "new_agent h (rt_ca rt) (rt_git rt) (rt_now rt) c = Inr ag0"
    "with_agent h rt gf k = k ag0"
proof -
  have l: "level_for h gf \<noteq> None"
  proof
    assume "level_for h gf = None"
    with assms show False by (simp add: with_agent_def ends_with_def)
  qed
  with assms obtain ag0 where a: "build_agent h rt gf = Inr ag0" "with_agent h rt gf k = k ag0"
    by (auto simp: with_agent_def ends_with_def split: sum.splits load_failure.splits)
  then obtain c where c: "build_config h gf = Inr c" by (auto simp: build_agent_def split: sum.splits)
  with a(1) have "new_agent h (rt_ca rt) (rt_git rt) (rt_now rt) c = Inr ag0"
    by (cases "new_agent h (rt_ca rt) (rt_git rt) (rt_now rt) c :: string + 'a agent") (auto simp: build_agent_def)
  with c a(2) that show thesis by blast
qed

text \<open>What a cycle without executor may send.\<close>

definition only_reads :: "client \<Rightarrow> http_request \<Rightarrow> bool" where
  "only_reads k rq \<longleftrightarrow> rq_method rq = ''GET'' \<or> rq = ticket_request (c_auth k)"

lemma fresh_cluster:
  assumes "new_agent h ca g now c0 = Inr ag0" "ka \<in> set (ag_clusters ag0)"
  shows "c_sent (ka_client ka) = []" "rc_exec (ka_dry ka) = None"
proof -
  obtain c where c: "build_clusters ca now c (cluster_names c) = Inr (ag_clusters ag0)" using new_agent_Inr [OF assms(1)] by metis
  from list_all2_set2 [OF build_clusters_ok [OF c] assms(2)] obtain n where
    n: "new_client ca now (client_options c n) = Inr (ka_client ka)" "ka_dry ka = cluster_reconciler c n None" by blast
  from new_client_fields [OF n(1)] show "c_sent (ka_client ka) = []" by simp
  from n(2) show "rc_exec (ka_dry ka) = None" by (simp add: cluster_reconciler_def new_reconciler_def)
qed

lemma served_dry_reads:
  assumes "served True ka kb" "c_sent (ka_client ka) = []" "rc_exec (ka_dry ka) = None" "rq \<in> set (c_sent (ka_client kb))"
  shows "only_reads (ka_client kb) rq"
proof -
  from assms(1) obtain new where n: "c_sent (ka_client kb) = c_sent (ka_client ka) @ new"
    "\<forall>rq\<in>set new. is_api_request (ka_client ka) (may_send (rc_exec (ka_dry ka))) rq"
    "invalidate (c_auth (ka_client kb)) = invalidate (c_auth (ka_client ka))"
    unfolding served_def by auto
  from n(1,2) assms(2-4) have "is_api_request (ka_client ka) (may_send None) rq" by simp
  then have "rq_method rq = ''GET'' \<or> rq = ticket_request (c_auth (ka_client ka))"
    unfolding is_api_request_def may_send_def by blast
  moreover have "ticket_request (c_auth (ka_client kb)) = ticket_request (c_auth (ka_client ka))"
    using invalidate_same [OF n(3)] by (simp add: ticket_request_def ticket_endpoint_def)
  ultimately show ?thesis by (simp add: only_reads_def)
qed

lemma dry_step_reads:
  assumes "new_agent h ca g now c0 = Inr ag0" "list_all2 (served True) (ag_clusters ag0) ks" "kb \<in> set ks"
  shows "list_all (only_reads (ka_client kb)) (c_sent (ka_client kb))"
proof -
  obtain ka where ka: "ka \<in> set (ag_clusters ag0)" "served True ka kb" using list_all2_set2 [OF assms(2,3)] by blast
  from served_dry_reads [OF ka(2) fresh_cluster [OF assms(1) ka(1)]] show ?thesis by (auto simp: list_all_iff)
qed

section \<open>Properties\<close>

text \<open>
  C3: \<^verbatim>\<open>proxops diff\<close>, \<^verbatim>\<open>proxops apply --dry-run\<close> and \<^verbatim>\<open>proxops status\<close> never
  write: under any flags, files and environment, and whatever PVE answers, all that the whole process has sent are
  reads and logins.
\<close>

theorem dry_commands_only_read:
  assumes "run \<in> {diff_command mt sof h rt gf, apply_command mt sof h rt gf True, status_command mt sof h rt gf}"
    and "cm_agent run = Some ag" "ka \<in> set (ag_clusters ag)"
  shows "list_all (only_reads (ka_client ka)) (c_sent (ka_client ka))"
proof -
  have diff: "list_all (only_reads (ka_client ka)) (c_sent (ka_client ka))"
    if r: "cm_agent run = Some ag" "run = with_agent h rt gf k" and o: "\<And>ag0. cm_agent (k ag0) = Some (out ag0)"
      and kept: "\<And>ag0. list_all2 (served True) (ag_clusters ag0) (ag_clusters (out ag0))" for k and out :: "'a agent \<Rightarrow> 'a agent"
  proof -
    obtain ag0 c where a: "new_agent h (rt_ca rt) (rt_git rt) (rt_now rt) c = Inr ag0" "run = k ag0"
      using with_agent_Some [of h rt gf k ag] r by metis
    with r(1) o have "ag = out ag0" by simp
    with dry_step_reads [OF a(1) kept] assms(3) show ?thesis by blast
  qed
  consider (d) "run = diff_command mt sof h rt gf" | (a) "run = apply_command mt sof h rt gf True"
    | (s) "run = status_command mt sof h rt gf" using assms(1) by blast
  then show ?thesis
  proof cases
    case d
    show ?thesis
      by (rule diff [OF assms(2) d [unfolded diff_command_def], of "\<lambda>ag. snd (run_diff mt (sof (ag_config ag)) (rt_git rt) (rt_around rt) ag)"])
        (simp_all add: failed_run_def printed_run_def serve.diff_keeps case_prod_beta split: option.split)
  next
    case a
    show ?thesis
      by (rule diff [OF assms(2) a [unfolded apply_command_def], of "\<lambda>ag. snd (run_diff mt (sof (ag_config ag)) (rt_git rt) (rt_around rt) ag)"])
        (simp_all add: apply_once_def failed_run_def printed_run_def serve.diff_keeps case_prod_beta split: option.split)
  next
    case s
    have keeps: "list_all2 (served True) (ag_clusters ag0) (ag_clusters (snd (show_status mt so su ag0)))" for so su and ag0 :: "'a agent"
      using serve.dry_all_keeps [of "ag_clusters ag0" mt so su ag0] serve.same_all [of True "ag_clusters ag0"]
      by (simp add: show_status_def Let_def case_prod_beta)
    show ?thesis
      by (rule diff [OF assms(2) s [unfolded status_command_def], of "\<lambda>ag. snd (show_status mt (sof (ag_config ag)) (rt_around rt) ag)"])
        (simp_all add: printed_run_def keeps case_prod_beta)
  qed
qed

definition ex_start :: host where
  "ex_start = ex_host ex_texts (lab_yaml (\<lambda>c. Inr (set_git_path ''/repo'' c)))"

definition ex_runtime :: runtime where
  "ex_runtime = \<lparr>rt_ca = (\<lambda>_. None), rt_git = ex_git ''abc'' None, rt_now = 0, rt_around = ex_around\<rparr>"

definition ex_diff :: "art command_run" where
  "ex_diff = diff_command art_methods (\<lambda>_. art_so) ex_start ex_runtime (default_flags ex_start)"

lemma ex_diff_run:
  "cm_end ex_diff = Succeeded \<and> (case cm_agent ex_diff of None \<Rightarrow> False | Some ag \<Rightarrow>
     ag_clusters ag \<noteq> [] \<and> list_all (\<lambda>ka. c_sent (ka_client ka) \<noteq> []) (ag_clusters ag))"
  by code_simp

lemma dry_commands_only_read_witness:
  "\<exists>ag. cm_agent ex_diff = Some ag \<and> ag_clusters ag \<noteq> [] \<and>
     list_all (\<lambda>ka. c_sent (ka_client ka) \<noteq> [] \<and> list_all (only_reads (ka_client ka)) (c_sent (ka_client ka))) (ag_clusters ag)"
proof -
  obtain ag where ag: "cm_agent ex_diff = Some ag" "ag_clusters ag \<noteq> []"
    "list_all (\<lambda>ka. c_sent (ka_client ka) \<noteq> []) (ag_clusters ag)"
    using ex_diff_run by (auto split: option.splits)
  have "ex_diff \<in> {diff_command art_methods (\<lambda>_. art_so) ex_start ex_runtime (default_flags ex_start),
      apply_command art_methods (\<lambda>_. art_so) ex_start ex_runtime (default_flags ex_start) True,
      status_command art_methods (\<lambda>_. art_so) ex_start ex_runtime (default_flags ex_start)}" by (simp add: ex_diff_def)
  from dry_commands_only_read [OF this ag(1)] ag show ?thesis by (auto simp: list_all_iff)
qed




text \<open>
  The operations guide says any failed action makes the exit non-zero.  PVE refuses both downloads of
  this run: two failed actions are on record, and the exit is 0.
\<close>

definition ex_refusing :: env where
  "ex_refusing = (ex_env 200 (JArr []))\<lparr>e_reply := (\<lambda>sent.
     if rq_method (last sent) = ''GET'' then e_reply (ex_env 200 (JArr [])) sent else e_reply (ex_env 403 JNull) sent)\<rparr>"

definition ex_refused :: "art command_run" where
  "ex_refused = apply_command art_methods (\<lambda>_. art_so) ex_start
     (ex_runtime\<lparr>rt_around := (\<lambda>n. (ex_around n)\<lparr>su_env := ex_refusing\<rparr>)\<rparr>) (default_flags ex_start) False"

lemma failed_actions_exit_zero:
  "exit_code (cm_end ex_refused) = 0"
  "map_option (\<lambda>ag. map_option cy_actions_error (store_last (ag_store ag))) (cm_agent ex_refused) = Some (Some 2)"
  by code_simp+

text \<open>
  A run of the apply command that ends with an error prints no report, although \<^verbatim>\<open>RunOnce\<close> returns one.
\<close>

lemma failed_run_prints_nothing: "cm_output (failed_run e ag) = []"
  by (simp add: failed_run_def)

text \<open>
  The help of \<^verbatim>\<open>--prune-budget\<close> says that -1 means the configuration's budget.  Given on the
  command line, -1 replaces that budget, and the configuration is then refused.
\<close>

lemma prune_budget_flag_refused:
  "rf_prune_budget (cf_rec (apply_flags ((default_flags ex_start)\<lparr>gf_changed := (\<lambda>f. f = ''prune-budget'')\<rparr>) [] ex_checked)) = - 1 \<and>
   fst (validate_config ex_start (apply_flags ((default_flags ex_start)\<lparr>gf_changed := (\<lambda>f. f = ''prune-budget'')\<rparr>) [] ex_checked)) \<noteq> None"
  by code_simp

end
