(* ===== verification/App_Inv.thy ===== *)
theory App_Inv
  imports App_Props
begin

text \<open>
  The shape of an agent, kept by everything it does: one cluster for each name of the configuration, with
  the reconcilers the configuration prescribes.
\<close>

definition cluster_wf :: "process_config \<Rightarrow> 'r cluster_agent \<Rightarrow> bool" where
  "cluster_wf c ka \<longleftrightarrow>
     rc_exec (ka_dry ka) = None \<and> rc_exec (ka_apply ka) = Some (cluster_executor c (ka_name ka)) \<and>
     rc_cluster (ka_dry ka) = ka_name ka \<and> rc_cluster (ka_apply ka) = ka_name ka \<and>
     rc_allow (ka_dry ka) = cl_nodes (cluster_get c (ka_name ka)) \<and>
     rc_allow (ka_apply ka) = cl_nodes (cluster_get c (ka_name ka)) \<and>
     c_base (ka_client ka) = cl_base_url (cluster_get c (ka_name ka))"

definition agent_wf :: "'r agent \<Rightarrow> bool" where
  "agent_wf ag \<longleftrightarrow> agent_clusters ag = cluster_names (ag_config ag) \<and> list_all (cluster_wf (ag_config ag)) (ag_clusters ag)"

text \<open>Everything an agent can be asked to do.\<close>

datatype agent_op =
    Watched watch_event
  | AppliedOnce "string \<Rightarrow> surroundings"
  | Diffed git_call "string \<Rightarrow> surroundings"
  | Shown "string \<Rightarrow> surroundings"

fun agent_step :: "'r methods \<Rightarrow> (string \<Rightarrow> 'r schema_ops) \<Rightarrow> agent_op \<Rightarrow> 'r agent \<Rightarrow> 'r agent" where
  "agent_step mt so (Watched e) ag = watch_step mt so e ag"
| "agent_step mt so (AppliedOnce su) ag = snd (run_once mt so su ag)"
| "agent_step mt so (Diffed g su) ag = snd (run_diff mt so g su ag)"
| "agent_step mt so (Shown su) ag = snd (show_status mt so su ag)"

lemma cycle_config: "ag_config (snd (snd (cluster_cycle mt so dry su ka ag))) = ag_config ag"
  by (simp add: cluster_cycle_def Let_def)

lemma run_cluster_config: "ag_config (snd (snd (run_cluster_apply mt so su ka ag))) = ag_config ag"
  using cycle_config [of mt so False su ka ag] by (simp add: run_cluster_apply_def mark_pve_read_def Let_def case_prod_beta)

lemma apply_all_config: "ag_config (snd (snd (apply_all mt so su ks ag))) = ag_config ag"
  by (induction ks arbitrary: ag) (simp_all add: run_cluster_config Let_def case_prod_beta)

lemma until_error_config: "ag_config (snd (snd (apply_until_error mt so su first ks ag))) = ag_config ag"
  by (induction ks arbitrary: ag first) (simp_all add: run_cluster_config Let_def case_prod_beta split: option.split)

lemma dry_all_config: "ag_config (snd (dry_all mt so su ks ag)) = ag_config ag"
  by (induction ks arbitrary: ag) (simp_all add: cycle_config Let_def case_prod_beta)

lemma diff_all_config: "ag_config (df_agent (diff_all mt so su i ks d)) = ag_config (df_agent d)"
proof (induction ks arbitrary: i d)
  case (Cons ka ks)
  then show ?case using cycle_config [of mt so True "su (ka_name ka)" ka "df_agent d"]
    by (simp add: mark_pve_read_def Let_def case_prod_beta split: option.split)
qed simp

lemma agent_step_config: "ag_config (agent_step mt so op ag) = ag_config ag"
proof (cases op)
  case (Watched e)
  then show ?thesis by (cases e) (simp_all add: run_all_clusters_def set_ready_def apply_all_config Let_def case_prod_beta)
next
  case (AppliedOnce su)
  then show ?thesis by (simp add: run_once_def until_error_config Let_def case_prod_beta)
next
  case (Diffed g su)
  have "ag_config (snd (fetch_once g ag)) = ag_config ag" by (simp add: fetch_once_def Let_def split: option.split)
  with Diffed show ?thesis by (simp add: run_diff_def set_ready_def diff_all_config Let_def split: option.split)
next
  case (Shown su)
  then show ?thesis by (simp add: show_status_def dry_all_config Let_def case_prod_beta)
qed

lemma served_wf: "served dry ka kb \<Longrightarrow> cluster_wf c ka \<Longrightarrow> cluster_wf c kb \<and> ka_name kb = ka_name ka"
  by (simp add: served_def constitution_def cluster_wf_def)

lemma all_served_wf:
  "list_all2 (served dry) ks ks' \<Longrightarrow> list_all (cluster_wf c) ks \<Longrightarrow>
   list_all (cluster_wf c) ks' \<and> map ka_name ks' = map ka_name ks"
  by (induction rule: list_all2_induct) (auto dest: served_wf)

lemma agent_step_serves: "\<exists>dry. list_all2 (served dry) (ag_clusters ag) (ag_clusters (agent_step mt so op ag))"
proof (cases op)
  case (Watched e)
  then show ?thesis using serve.watch_step_keeps [of ag mt so e] by auto
next
  case (AppliedOnce su)
  then show ?thesis using serve.until_error_keeps [of "ag_clusters ag" mt so su None ag]
    by (auto simp: run_once_def Let_def case_prod_beta)
next
  case (Diffed g su)
  then show ?thesis using serve.diff_keeps [of ag mt so g su] by auto
next
  case (Shown su)
  then show ?thesis using serve.dry_all_keeps [of "ag_clusters ag" mt so su ag] serve.same_all [of True "ag_clusters ag"]
    by (auto simp: show_status_def Let_def case_prod_beta)
qed

lemma agent_step_wf: "agent_wf ag \<Longrightarrow> agent_wf (agent_step mt so op ag)"
  using agent_step_serves [of ag mt so op] all_served_wf
  by (fastforce simp: agent_wf_def agent_step_config agent_clusters_def)

lemma new_agent_wf:
  fixes ag :: "'a agent"
  assumes a: "new_agent h ca g now c0 = Inr ag"
  shows "agent_wf ag"
proof -
  from a obtain c token where c: "ag_config ag = c" "build_clusters ca now c (cluster_names c) = Inr (ag_clusters ag)"
    and ck: "checked_config h c0 = Inr (c, token)"
    using new_agent_Inr [OF a] by metis
  obtain c1 where v: "validate_config h c1 = (None, c)" using checked_validated [OF ck] .
  have named: "n \<noteq> []" if "n \<in> set (cluster_names c)" for n
    using validate_ok(5) [OF v that] by (auto simp: cluster_errors_def valid_cluster_name_def Let_def split: if_splits)
  have wf: "cluster_wf c ka \<and> ka_name ka = n"
    if n: "n \<in> set (cluster_names c)" and k: "ka_name ka = n \<and> new_client ca now (client_options c n) = Inr (ka_client ka) \<and>
      ka_dry ka = cluster_reconciler c n None \<and> ka_apply ka = cluster_reconciler c n (Some (cluster_executor c n))" for n and ka :: "'a cluster_agent"
  proof -
    from n have "cluster_of c n \<noteq> None" unfolding cluster_of_iff .
    then have "pp_base_url (pve_params_from c n) = cl_base_url (cluster_get c n)"
      by (auto simp: pve_params_from_def cluster_get_def Let_def)
    with k named [OF n] new_client_fields [of ca now "client_options c n" "ka_client ka"] show ?thesis
      by (simp add: cluster_wf_def cluster_reconciler_def new_reconciler_def client_options_def)
  qed
  have "list_all2 (\<lambda>n ka. cluster_wf c ka \<and> ka_name ka = n) (cluster_names c) (ag_clusters ag)"
    by (rule list.rel_mono_strong [OF build_clusters_ok [OF c(2)]]) (rule wf)
  then have "list_all (cluster_wf c) (ag_clusters ag) \<and> map ka_name (ag_clusters ag) = cluster_names c"
    by (induction rule: list_all2_induct) auto
  with c(1) show ?thesis by (simp add: agent_wf_def agent_clusters_def)
qed

text \<open>
  C24: an agent stays what the configuration says: whatever it is asked to do, and whatever PVE and the tree
  answer, it has one cluster per configured name, in order, each with its endpoint and its node allowlist, a dry
  reconciler that has no executor, and an apply reconciler with the executor of this cluster.
\<close>

theorem agent_keeps_shape:
  assumes "new_agent h ca g now c0 = Inr ag"
  shows "agent_wf (fold (agent_step mt so) ops ag) \<and> ag_config (fold (agent_step mt so) ops ag) = ag_config ag"
proof -
  have "agent_wf a \<Longrightarrow> agent_wf (fold (agent_step mt so) ops a) \<and> ag_config (fold (agent_step mt so) ops a) = ag_config a" for a
    by (induction ops arbitrary: a) (simp_all add: agent_step_wf agent_step_config)
  then show ?thesis using new_agent_wf [OF assms] .
qed

lemma agent_keeps_shape_witness:
  "agent_wf (fold (agent_step art_methods art_so) [Watched (Tick ex_around), Diffed (ex_git ''def'' None) ex_around] ex_agent)"
  using agent_keeps_shape [OF ex_agent_built] by blast

text \<open>
  The documentation gives \<^verbatim>\<open>prune-budget: 0\<close> as unlimited; \<^verbatim>\<open>Validate\<close> accepts it, and
  the reconciler takes the default of three instead.
\<close>

lemma zero_budget_is_default:
  "rf_prune_budget (cf_rec c) = 0 \<Longrightarrow> rc_budget (cluster_reconciler c n xc) = 3"
  by (simp add: cluster_reconciler_def new_reconciler_def default_budget_def)

end
