(* ===== verification/Breaker_Props.thy ===== *)
theory Breaker_Props
  imports Pve_Breaker
begin

text \<open>The write breaker does not lock writes out for good.\<close>

lemma breaker_inv_duration: "breaker_inv (t, b) \<Longrightarrow> b_open b \<Longrightarrow> b_until b \<le> t + b_duration b"
  by (simp add: breaker_inv_def)

text \<open>\<open>tripped s tm s'\<close>: on the way from \<open>s\<close> to \<open>s'\<close> a failure at time \<open>tm\<close> opened the breaker.\<close>

definition tripped :: "int \<times> breaker \<Rightarrow> int \<Rightarrow> int \<times> breaker \<Rightarrow> bool" where
  "tripped s tm s' \<longleftrightarrow>
     (\<exists>tf bf. breaker_reach s (tf, bf) \<and> tf \<le> tm \<and> \<not> b_open bf \<and> b_open (record_fail tm bf) \<and>
        breaker_reach (tm, record_fail tm bf) s')"

lemma tripped_step: "tripped s tm s' \<Longrightarrow> breaker_step s' s'' \<Longrightarrow> tripped s tm s''"
  unfolding tripped_def by (blast intro: breaker_reach.step)

lemma open_since:
  assumes "breaker_inv (t, b)" "breaker_reach (t, b) (t', b')"
  shows "b_open b' \<Longrightarrow> b_until b' \<le> t + b_duration b \<or> (\<exists>tm. tripped (t, b) tm (t', b') \<and> b_until b' = tm + b_duration b)"
  using assms(2)
proof (induction "(t', b')" arbitrary: t' b' rule: breaker_reach.induct)
  case start
  with assms(1) show ?case by (simp add: breaker_inv_duration)
next
  case (step s')
  obtain t1 b1 where s': "s' = (t1, b1)" by fastforce
  have d: "b_duration b1 = b_duration b" using breaker_config_reach [of t b t1 b1] step.hyps(1) s' by simp
  show ?case
  proof (cases "b_open b1 \<and> b_until b' = b_until b1")
    case True
    with step.hyps(2) [OF s'] show ?thesis using tripped_step [OF _ step.hyps(3)] s' by metis
  next
    case False
    have st: "breaker_step (t1, b1) (t', b')" using step.hyps(3) s' by simp
    from st False step.prems have f: "\<not> b_open b1" "t1 \<le> t'" "b' = record_fail t' b1"
      by (auto elim!: breaker_step_E simp: breaker_ops split: if_splits)
    then have "b_until b' = t' + b_duration b" using step.prems d by (auto simp: breaker_ops split: if_splits)
    moreover have "tripped (t, b) t' (t', b')"
      unfolding tripped_def using f step.prems step.hyps(1) s' by (blast intro: breaker_reach.start)
    ultimately show ?thesis by blast
  qed
qed

text \<open>
  C32: the breaker recovers.  A write is let through as soon as more than one duration has passed since
  the breaker was last opened: if it is still refused that long after some moment, the threshold of
  failures was reached again in between, at most one duration ago.
\<close>

theorem breaker_recovers:
  assumes "breaker_reach (t0, new_breaker n d) (t, b)" "breaker_reach (t, b) (t', b')"
    and "t + b_duration b < t'" "\<not> fst (breaker_allows t' b')"
  shows "\<exists>tm. tripped (t, b) tm (t', b') \<and> t' \<le> tm + b_duration b"
proof -
  have "breaker_inv (t, b)" using breaker_inv_reach [OF assms(1) breaker_inv_new] .
  from open_since [OF this assms(2)] assms(3,4) show ?thesis
    by (auto simp: breaker_allows_def split: if_splits)
qed

lemma breaker_recovers_witness:
  "\<exists>tm. tripped (0, new_breaker 1 100) tm (200, record_fail 150 (new_breaker 1 100)) \<and> 200 \<le> tm + 100"
proof -
  have r: "breaker_reach (0, new_breaker 1 100) (0, new_breaker 1 100)" by (rule breaker_reach.start)
  have "breaker_step (0, new_breaker 1 100) (150, record_fail 150 (new_breaker 1 100))" by (rule breaker_step.fail) simp
  moreover have "breaker_step (150, record_fail 150 (new_breaker 1 100)) (200, record_fail 150 (new_breaker 1 100))"
    by (rule breaker_step.wait) simp
  ultimately have s: "breaker_reach (0, new_breaker 1 100) (200, record_fail 150 (new_breaker 1 100))"
    by (blast intro: breaker_reach.intros)
  have d: "b_duration (new_breaker 1 100) = 100" by code_simp
  have "(0 :: int) + b_duration (new_breaker 1 100) < 200" "\<not> fst (breaker_allows 200 (record_fail 150 (new_breaker 1 100)))"
    by code_simp+
  from breaker_recovers [OF r s this] show ?thesis unfolding d .
qed

end
