(* ===== verification/Adopt_Read.thy ===== *)
theory Adopt_Read
  imports Lxc_Drift
begin

text \<open>
  \<^verbatim>\<open>internal/schema/adopt.go\<close> and the reading half of \<^verbatim>\<open>pci.go\<close>: how a live PVE
  configuration is read back into manifest fields.  The Go functions range over a map and sort what
  they collect by the slot; here the configuration is an association list with distinct keys, and
  the sort makes its order irrelevant.
\<close>

section \<open>Sizes\<close>

text \<open>\<^verbatim>\<open>HumanFromBytes\<close>: the largest binary unit that divides the count.\<close>

definition human_from_bytes :: "int \<Rightarrow> string option" where
  "human_from_bytes b =
     (if b \<le> 0 then None
      else if b mod 2 ^ 40 = 0 then Some (itoa (b div 2 ^ 40) @ ''TiB'')
      else if b mod 2 ^ 30 = 0 then Some (itoa (b div 2 ^ 30) @ ''GiB'')
      else if b mod 2 ^ 20 = 0 then Some (itoa (b div 2 ^ 20) @ ''MiB'')
      else if b mod 2 ^ 10 = 0 then Some (itoa (b div 2 ^ 10) @ ''KiB'')
      else Some (itoa b))"

definition pve_disk_size_human :: "string \<Rightarrow> string option" where
  "pve_disk_size_human s = (case pve_disk_size_bytes s of None \<Rightarrow> None | Some b \<Rightarrow> human_from_bytes b)"

definition size_human :: "disk_info \<Rightarrow> string" where
  "size_human info = (if di_size_set info then (case human_from_bytes (di_size info) of Some s \<Rightarrow> s | None \<Rightarrow> []) else [])"

definition cfg_val :: "params \<Rightarrow> string \<Rightarrow> pval" where
  "cfg_val cur k = (case map_of cur k of None \<Rightarrow> PNil | Some v \<Rightarrow> v)"

definition bytes_from_mib :: "pval \<Rightarrow> int option" where
  "bytes_from_mib v =
     (if 0 < pve_int v then Some (wrap64 (pve_int v * 2 ^ 20))
      else (case v of
              PFloat x \<Rightarrow> (if x \<le> 0 then None else Some (wrap64 (\<lfloor>x\<rfloor> * 2 ^ 20)))
            | _ \<Rightarrow> None))"

definition pve_memory_to_human :: "pval \<Rightarrow> string option" where
  "pve_memory_to_human v = (case bytes_from_mib v of None \<Rightarrow> None | Some b \<Rightarrow> human_from_bytes b)"

text \<open>\<^verbatim>\<open>pveBool\<close>: the words of \<^verbatim>\<open>strconv.ParseBool\<close>; any other value but \<^verbatim>\<open>nil\<close> is a number.\<close>

definition parse_bool :: "string \<Rightarrow> bool option" where
  "parse_bool s =
     (if s \<in> {''1'', ''t'', ''T'', ''TRUE'', ''true'', ''True''} then Some True
      else if s \<in> {''0'', ''f'', ''F'', ''FALSE'', ''false'', ''False''} then Some False
      else None)"

definition pve_bool :: "pval \<Rightarrow> bool option" where
  "pve_bool v = (case v of PNil \<Rightarrow> None | PBool b \<Rightarrow> Some b | PStr s \<Rightarrow> parse_bool s | _ \<Rightarrow> Some (pve_int v = 1))"

definition flag_at :: "params \<Rightarrow> string \<Rightarrow> bool" where
  "flag_at cur k = (case pve_bool (cfg_val cur k) of Some b \<Rightarrow> b | None \<Rightarrow> False)"

abbreviation str_at :: "params \<Rightarrow> string \<Rightarrow> string" where
  "str_at cur k \<equiv> pve_str_at (Some cur) k"

section \<open>Slots in order\<close>

fun slot_key_loop :: "string list \<Rightarrow> string \<Rightarrow> string" where
  "slot_key_loop [] s = s"
| "slot_key_loop (p # ps) s = (if has_prefix s p then p @ CHR 0x00 # drop (length p) s else slot_key_loop ps s)"

definition slot_sort_key :: "string \<Rightarrow> string" where
  "slot_sort_key s = slot_key_loop [''scsi'', ''sata'', ''virtio'', ''net'', ''mp'', ''ide'', ''nvme''] s"

definition by_slot :: "('a \<Rightarrow> string) \<Rightarrow> 'a list \<Rightarrow> 'a list" where
  "by_slot f xs = go_isort (\<lambda>a b. slot_sort_key (f a) < slot_sort_key (f b)) xs"

section \<open>Disks and network cards of a VM\<close>

text \<open>One drive slot; \<open>None\<close> where the loop continues.\<close>

definition read_disk :: "params \<Rightarrow> string \<Rightarrow> pval \<Rightarrow> disk option" where
  "read_disk cur k v =
     (let raw = pve_str v; info = parse_disk_info raw
      in if \<not> is_disk_slot k \<or> is_new_storage_slot raw \<or> di_pool info = [] then None
         else Some (new_disk\<lparr>dk_slot := k, dk_storage := di_pool info, dk_iothread := di_iothread info,
           dk_discard := di_discard info, dk_ssd := di_ssd info, dk_aio := di_aio info,
           dk_size := size_human info,
           dk_controller := (if k = ''scsi0'' then cfg_str (Some cur) ''scsihw'' else [])\<rparr>))"

definition pve_disks :: "params \<Rightarrow> disk list" where
  "pve_disks cur = by_slot dk_slot (List.map_filter (\<lambda>kv. read_disk cur (fst kv) (snd kv)) cur)"

definition read_nic :: "string \<Rightarrow> pval \<Rightarrow> nic option" where
  "read_nic k v =
     (let f = parse_nic_fields (pve_str v)
      in if \<not> is_nic_slot k \<or> nf_model f = [] then None
         else Some (zero_nic\<lparr>ni_slot := k, ni_model := nf_model f, ni_bridge := nf_bridge f, ni_vlan := nf_vlan f,
           ni_rate := nf_rate f, ni_firewall := nf_firewall f\<rparr>))"

definition pve_nics :: "params \<Rightarrow> nic list" where
  "pve_nics cur = by_slot ni_slot (List.map_filter (\<lambda>kv. read_nic (fst kv) (snd kv)) cur)"

text \<open>\<^verbatim>\<open>PveDiskMedia\<close>: the media token, or a volume named like a cloud-init drive.\<close>

definition pve_disk_media :: "params \<Rightarrow> string \<Rightarrow> string" where
  "pve_disk_media cur slot =
     (let raw = str_at cur slot
      in case raw_token_in ''media='' (split_on (CHR '','') raw) of
           Some m \<Rightarrow> m
         | None \<Rightarrow> if contains_sub raw ''-cloudinit'' then ''cdrom'' else [])"

text \<open>
  \<^verbatim>\<open>PveCDROMFromPVE\<close>: \<^verbatim>\<open>ide3\<close> first; \<open>Some []\<close> is an explicit detach, \<open>None\<close> no CD-ROM.
\<close>

fun cdrom_loop :: "params \<Rightarrow> string list \<Rightarrow> string option" where
  "cdrom_loop cur [] = None"
| "cdrom_loop cur (slot # slots) =
     (case map_of cur slot of
        None \<Rightarrow> cdrom_loop cur slots
      | Some v \<Rightarrow>
          (if is_new_storage_slot (pve_str v) then Some []
           else (case parse_cdrom (pve_str v) of
                   None \<Rightarrow> cdrom_loop cur slots
                 | Some c \<Rightarrow> Some (cr_pool c @ '':iso/'' @ cr_filename c))))"

definition pve_cdrom :: "params \<Rightarrow> string option" where
  "pve_cdrom cur = cdrom_loop cur [''ide3'', ''ide2'']"

section \<open>Cloud-init data\<close>

definition csv_field :: "pval \<Rightarrow> string list" where
  "csv_field v = csv_tokens (pve_str v)"

text \<open>\<^verbatim>\<open>PveCISshLinesFromPVE\<close>: decoded, one key per line; \<open>[]\<close> is not present.\<close>

definition pve_ssh_lines :: "params \<Rightarrow> string list" where
  "pve_ssh_lines cur =
     (let raw = str_at cur ''sshkeys'' in if trim_space raw = [] then [] else ssh_key_set raw)"

definition ip_token :: "string \<Rightarrow> string \<times> string \<Rightarrow> string \<times> string" where
  "ip_token t0 ig =
     (let t = trim_space t0
      in case cut_prefix t ''ip='' of
           Some v \<Rightarrow> (v, snd ig)
         | None \<Rightarrow> (case cut_prefix t ''gw='' of Some v \<Rightarrow> (fst ig, v) | None \<Rightarrow> ig))"

definition read_ip_config :: "string \<Rightarrow> pval \<Rightarrow> ip_config option" where
  "read_ip_config k v =
     (case cut_prefix k ''ipconfig'' of
        None \<Rightarrow> None
      | Some ds \<Rightarrow>
          (case parse_int64 ds of
             None \<Rightarrow> None
           | Some n \<Rightarrow>
               (let raw = trim_space (pve_str v); ig = fold ip_token (split_on (CHR '','') raw) ([], [])
                in if raw = [] \<or> raw = ''dhcp'' \<or> fst ig = [] then None
                   else Some \<lparr>ip_nic = n, ip_addr = fst ig, ip_gateway = snd ig\<rparr>)))"

definition pve_ip_configs :: "params \<Rightarrow> ip_config list" where
  "pve_ip_configs cur =
     go_isort (\<lambda>a b. ip_nic a < ip_nic b) (List.map_filter (\<lambda>kv. read_ip_config (fst kv) (snd kv)) cur)"

definition pve_cloud_data :: "params \<Rightarrow> cloud_init_data" where
  "pve_cloud_data cur = zero_cloud_data
     \<lparr>cd_user := trim_space (str_at cur ''ciuser''),
      cd_ssh_keys := (if trim_space (str_at cur ''sshkeys'') = [] then [] else [redacted_sentinel]),
      cd_nameservers := csv_field (cfg_val cur ''nameserver''),
      cd_search_domains := csv_field (cfg_val cur ''searchdomain''),
      cd_ip_configs := pve_ip_configs cur\<rparr>"

definition pve_password_present :: "params \<Rightarrow> bool" where
  "pve_password_present cur \<longleftrightarrow> trim_space (str_at cur ''cipassword'') \<noteq> []"

section \<open>Options and hardware of a VM\<close>

definition boot_order_of :: "string \<Rightarrow> string list" where
  "boot_order_of s = (case cut_prefix s ''order='' of None \<Rightarrow> [] | Some body \<Rightarrow> split_on (CHR '';'') body)"

definition pve_vm_options :: "params \<Rightarrow> vm_opts" where
  "pve_vm_options cur =
     \<lparr>op_onboot = flag_at cur ''onboot'', op_startup = str_at cur ''startup'', op_protection = flag_at cur ''protection'',
      op_agent = flag_at cur ''agent'', op_acpi = flag_at cur ''acpi'', op_tablet = flag_at cur ''tablet'',
      op_hotplug = (if str_at cur ''hotplug'' = [] then [] else split_on (CHR '','') (str_at cur ''hotplug'')),
      op_boot_order = (if str_at cur ''boot'' = [] then [] else boot_order_of (str_at cur ''boot'')),
      op_nested_virt = flag_at cur ''nestedvirt'', op_hidden = flag_at cur ''hidden''\<rparr>"

definition read_efi :: "string \<Rightarrow> efi_disk option" where
  "read_efi s =
     (let info = parse_disk_info (trim_space s)
      in if di_pool info = [] then None
         else Some \<lparr>ef_storage = di_pool info,
           ef_size = size_human info,
           ef_template = di_efitype info,
           ef_secure_boot = (case di_pre info of None \<Rightarrow> [] | Some b \<Rightarrow> if b then ''enabled'' else ''disabled'')\<rparr>)"

definition read_cloud_init :: "string \<Rightarrow> cloud_init option" where
  "read_cloud_init s0 =
     (let s = trim_space s0;
          mark = (contains_sub s '':cloudinit'' \<and> length (filter (\<lambda>c. c = CHR '':'') s) = 1) \<or> contains_sub s ''-cloudinit''
      in if s = [] \<or> s = ''none'' \<or> \<not> mark then None
         else (case split_cloud_init s of
                 None \<Rightarrow> None
               | Some (cp, cs) \<Rightarrow>
                   Some \<lparr>ci_enabled = True, ci_storage = cp,
                     ci_size = (case (if cs = [] then None else pve_disk_size_human cs) of Some h \<Rightarrow> h | None \<Rightarrow> ''4MiB'')\<rparr>))"

text \<open>\<^verbatim>\<open>PvePCIDeviceFromPVE\<close>: the loop ends at the first token it does not model.\<close>

fun pci_tokens :: "pci_device \<Rightarrow> string list \<Rightarrow> pci_device option" where
  "pci_tokens dev [] = Some dev"
| "pci_tokens dev (t0 # ts) =
     (let t = trim_space t0
      in if t = [] then pci_tokens dev ts
         else (case cut_prefix t ''pcie='' of
                 Some x \<Rightarrow>
                   (if x = ''1'' then pci_tokens (dev\<lparr>pd_pcie := Some True\<rparr>) ts
                    else if x = ''0'' then pci_tokens (dev\<lparr>pd_pcie := Some False\<rparr>) ts
                    else None)
               | None \<Rightarrow> Some dev))"

definition read_pci :: "string \<Rightarrow> pval \<Rightarrow> pci_device option" where
  "read_pci slot raw =
     (let v = pve_str raw; toks = split_on (CHR '','') v; t = to_lower (trim_space (hd toks));
          dev = \<lparr>pd_slot = slot, pd_device = [], pd_pcie = None\<rparr>
      in if \<not> pci_key_is_owned slot \<or> v = [] then None
         else if t = [] then pci_tokens dev (tl toks)
         else if \<not> pci_bdf_ok t then None
         else pci_tokens (dev\<lparr>pd_device := t\<rparr>) (tl toks))"

definition pci_before :: "pci_device \<Rightarrow> pci_device \<Rightarrow> bool" where
  "pci_before a b =
     (let n = (case pci_slot_number (pd_slot a) of Some i \<Rightarrow> i | None \<Rightarrow> 0);
          m = (case pci_slot_number (pd_slot b) of Some i \<Rightarrow> i | None \<Rightarrow> 0)
      in if n \<noteq> m then n < m else pd_slot a < pd_slot b)"

definition pve_pci_devices :: "params \<Rightarrow> pci_device list" where
  "pve_pci_devices cur = go_isort pci_before (List.map_filter (\<lambda>kv. read_pci (fst kv) (snd kv)) cur)"

definition pve_vm_hardware :: "params \<Rightarrow> vm_hardware" where
  "pve_vm_hardware cur = zero_hardware
     \<lparr>hw_machine := str_at cur ''machine'', hw_bios := str_at cur ''bios'', hw_display := str_at cur ''vga'',
      hw_efi := (if is_new_storage_slot (str_at cur ''efidisk0'') then None else read_efi (str_at cur ''efidisk0'')),
      hw_cloud_init := (case read_cloud_init (str_at cur ''ide2'') of Some c \<Rightarrow> c | None \<Rightarrow> hw_cloud_init zero_hardware),
      hw_numa := flag_at cur ''numa'', hw_sockets := pve_int (cfg_val cur ''sockets''),
      hw_tpm := (let ver = extract_option ''version'' (split_on (CHR '','') (str_at cur ''tpm0'')) in if ver = [] then None else Some ver),
      hw_serial0 := (if str_at cur ''serial0'' = ''none'' then [] else str_at cur ''serial0''),
      hw_pci := pve_pci_devices cur\<rparr>"

section \<open>Containers\<close>

text \<open>Live mount options: only the tokens PVE reports.\<close>

definition mount_options_from_live :: "string \<Rightarrow> mount_opts option" where
  "mount_options_from_live raw =
     (let mo = \<lparr>mo_read_only = lxc_raw_bool_token raw ''ro='', mo_backup = lxc_raw_bool_token raw ''backup='',
           mo_acl = lxc_raw_bool_token raw ''acl='', mo_quota = lxc_raw_bool_token raw ''quota='',
           mo_shared = lxc_raw_bool_token raw ''shared='', mo_options = lxc_raw_token raw ''mountoptions=''\<rparr>
      in if mo = zero_mount_opts then None else Some mo)"

text \<open>The guest path of a mount point: behind the first \<^verbatim>\<open>,mp=\<close>, or the default of the slot.\<close>

definition mount_path :: "string \<Rightarrow> string \<Rightarrow> string" where
  "mount_path k raw =
     (case index_sub raw '',mp='' of
        None \<Rightarrow> ''/mnt/'' @ k
      | Some i \<Rightarrow> takeWhile (\<lambda>c. c \<noteq> CHR '','') (drop (i + 4) raw))"

definition read_mount :: "string \<Rightarrow> pval \<Rightarrow> lxc_mount option" where
  "read_mount k v =
     (let raw = pve_str v; info = parse_disk_info raw
      in if \<not> is_mp_slot k \<or> is_new_storage_slot raw \<or> is_lxc_bind_mount raw \<or> di_pool info = [] then None
         else Some \<lparr>lm_storage = di_pool info, lm_size = size_human info, lm_path = mount_path k raw, lm_slot = k,
           lm_opts = mount_options_from_live raw\<rparr>)"

record live_bind =
  bm_slot :: string
  bm_raw :: string
  bm_host :: string
  bm_path :: string
  bm_read_only :: "bool option"

definition read_bind :: "string \<Rightarrow> pval \<Rightarrow> live_bind option" where
  "read_bind k v =
     (let raw = pve_str v
      in if \<not> is_mp_slot k \<or> is_new_storage_slot raw \<or> \<not> is_lxc_bind_mount raw then None
         else Some (case bind_parse_live raw of
                      Some (host, guest, ro) \<Rightarrow> \<lparr>bm_slot = k, bm_raw = raw, bm_host = host, bm_path = guest, bm_read_only = ro\<rparr>
                    | None \<Rightarrow> \<lparr>bm_slot = k, bm_raw = raw, bm_host = [], bm_path = [], bm_read_only = None\<rparr>))"

definition pve_mounts :: "params \<Rightarrow> lxc_mount list" where
  "pve_mounts cur = by_slot lm_slot (List.map_filter (\<lambda>kv. read_mount (fst kv) (snd kv)) cur)"

definition pve_binds :: "params \<Rightarrow> live_bind list" where
  "pve_binds cur = by_slot bm_slot (List.map_filter (\<lambda>kv. read_bind (fst kv) (snd kv)) cur)"

text \<open>The root file system: storage, size, live value and whether the value carries a size.\<close>

record live_root =
  rt_storage :: string
  rt_size :: string
  rt_volid :: string
  rt_sized :: bool

definition pve_root :: "params \<Rightarrow> live_root" where
  "pve_root cur =
     (let s = str_at cur ''rootfs''; info = parse_disk_info s
      in if is_new_storage_slot s \<or> di_pool info = []
         then \<lparr>rt_storage = [], rt_size = [], rt_volid = [], rt_sized = False\<rparr>
         else \<lparr>rt_storage = di_pool info, rt_size = size_human info, rt_volid = s, rt_sized = di_size_set info\<rparr>)"

definition read_lxc_net :: "string \<Rightarrow> pval \<Rightarrow> lxc_net option" where
  "read_lxc_net k v =
     (let f = parse_lxc_net_fields (pve_str v)
      in if \<not> valid_net_slot k then None
         else Some (zero_lxc_net\<lparr>ln_slot := k, ln_bridge := lf_bridge f, ln_tag := lf_tag f, ln_rate := lf_rate f,
           ln_firewall := lf_firewall f, ln_iface := (if lf_iface f = k then [] else lf_iface f),
           ln_ip := lf_ip f, ln_gw := lf_gw f\<rparr>))"

definition pve_lxc_nets :: "params \<Rightarrow> lxc_net list" where
  "pve_lxc_nets cur = by_slot ln_slot (List.map_filter (\<lambda>kv. read_lxc_net (fst kv) (snd kv)) cur)"

definition features_nesting :: "params \<Rightarrow> bool" where
  "features_nesting cur \<longleftrightarrow>
     list_ex (\<lambda>t. trim_space t \<noteq> [] \<and> cut_eq (trim_space t) = Some (''nesting'', ''1''))
       (split_on (CHR '','') (str_at cur ''features''))"

definition pve_lxc_options :: "params \<Rightarrow> lxc_opts" where
  "pve_lxc_options cur = zero_lxc_opts
     \<lparr>lo_unprivileged := pve_bool (cfg_val cur ''unprivileged''), lo_protection := pve_bool (cfg_val cur ''protection''),
      lo_keyctl := pve_bool (cfg_val cur ''keyctl''), lo_fuse := pve_bool (cfg_val cur ''fuse''),
      lo_onboot := pve_bool (cfg_val cur ''onboot''), lo_console := pve_bool (cfg_val cur ''console''),
      lo_nesting := (case pve_bool (cfg_val cur ''nesting'') of
          Some b \<Rightarrow> Some b
        | None \<Rightarrow> if str_at cur ''features'' \<noteq> [] then Some (features_nesting cur) else None),
      lo_startup := str_at cur ''startup''\<rparr>"

definition pve_lxc_arch :: "params \<Rightarrow> string" where
  "pve_lxc_arch cur = (if str_at cur ''arch'' = [] then ''amd64'' else str_at cur ''arch'')"

text \<open>\<^verbatim>\<open>PveLXCTemplateFromPVE\<close>: storage and file name of \<^verbatim>\<open>pool:vztmpl/file\<close>.\<close>

definition pve_lxc_template :: "params \<Rightarrow> (string \<times> string) option" where
  "pve_lxc_template cur =
     (let s = str_at cur ''ostemplate''
      in case index_byte s (CHR '':'') of
           None \<Rightarrow> None
         | Some c \<Rightarrow>
             (if c = 0 then None
              else (case cut_prefix (drop (Suc c) s) ''vztmpl/'' of
                      None \<Rightarrow> None
                    | Some rest \<Rightarrow> Some (take c s, takeWhile (\<lambda>x. x \<noteq> CHR '','') rest))))"

end
