(* ===== verification/Adopt.thy ===== *)
theory Adopt
  imports Pve_Endpoints Resolve Adopt_Read Go_Sha
begin

text \<open>
  \<^verbatim>\<open>internal/adopt\<close>: a live cluster written out as manifests.  The run is a sequence of reads
  of the PVE API; what it has found so far is the record \<open>adopt\<close>.  A written file is the resource
  it holds under its path: the YAML text is the work of the YAML library, and \<open>dk\<close> says which
  paths the file system refuses.  The explanatory \<^verbatim>\<open>Note\<close> of a gap and the log lines
  are left out.
\<close>

section \<open>Keys of a live configuration\<close>

definition bookkeeping_keys :: "string list" where
  "bookkeeping_keys = [''digest'', ''meta'', ''vmgenid'', ''smbios1'', ''uuid'', ''ostype'', ''ostemplate'']"

definition vm_keys_owned :: "string list" where
  "vm_keys_owned =
     [''name'', ''memory'', ''cpu'', ''cores'', ''tags'', ''description'', ''scsihw'', ''machine'', ''bios'', ''vga'',
      ''sockets'', ''numa'', ''efidisk0'', ''tpm0'', ''serial0'', ''ide2'', ''ide3'', ''onboot'', ''startup'',
      ''protection'', ''agent'', ''acpi'', ''tablet'', ''hotplug'', ''boot'', ''nestedvirt'', ''hidden'']"

definition vm_key_dynamic :: "string \<Rightarrow> bool" where
  "vm_key_dynamic k \<longleftrightarrow> list_ex (\<lambda>p. numbered_slot p k) [''scsi'', ''virtio'', ''sata'', ''net'']"

definition lxc_keys_owned :: "string list" where
  "lxc_keys_owned =
     [''cores'', ''memory'', ''swap'', ''arch'', ''hostname'', ''nameserver'', ''searchdomain'', ''search-domain'',
      ''description'', ''tags'', ''rootfs'', ''unprivileged'', ''protection'', ''nesting'', ''keyctl'', ''fuse'',
      ''onboot'', ''startup'', ''console'', ''features'']"

definition lxc_key_dynamic :: "string \<Rightarrow> bool" where
  "lxc_key_dynamic k \<longleftrightarrow> numbered_slot ''mp'' k \<or> numbered_slot ''net'' k"

definition cloud_data_key :: "string \<Rightarrow> bool" where
  "cloud_data_key k \<longleftrightarrow> k \<in> set [''ciuser'', ''sshkeys'', ''nameserver'', ''searchdomain''] \<or> has_prefix k ''ipconfig''"

definition sensitive_gap_fields :: "string list" where
  "sensitive_gap_fields = [''sshkeys'', ''cipassword'', ''password'', ''sshkey'', ''keyfile'', ''secret'']"

definition redact_gap_value :: "string \<Rightarrow> string \<Rightarrow> string" where
  "redact_gap_value field x = (if field \<in> set sensitive_gap_fields then ''<redacted>'' else x)"

definition pci_parsed :: "string \<times> pval \<Rightarrow> bool" where
  "pci_parsed kv \<longleftrightarrow> pci_key_is_owned (fst kv) \<and> read_pci (fst kv) (snd kv) \<noteq> None"

text \<open>What the gap loops of the three guest functions skip.\<close>

definition vm_modelled :: "kind \<Rightarrow> string \<times> pval \<Rightarrow> bool" where
  "vm_modelled k kv \<longleftrightarrow>
     fst kv \<in> set bookkeeping_keys \<or> fst kv \<in> set vm_keys_owned \<or> vm_key_dynamic (fst kv) \<or> pci_parsed kv \<or>
     cloud_data_key (fst kv) \<or> (k = KindTemplateVM \<and> fst kv = ''template'')"

definition lxc_modelled :: "kind \<Rightarrow> string \<times> pval \<Rightarrow> bool" where
  "lxc_modelled k kv \<longleftrightarrow>
     fst kv \<in> set bookkeeping_keys \<or> fst kv \<in> set lxc_keys_owned \<or> lxc_key_dynamic (fst kv) \<or>
     (fst kv = ''template'' \<and> k = KindTemplateCT)"

section \<open>Names and paths\<close>

text \<open>\<^verbatim>\<open>sanitizeName\<close>: runs of other bytes become one dash; \<open>dash\<close> is \<^verbatim>\<open>prevDash\<close>.\<close>

fun sanitize_loop :: "bool \<Rightarrow> string \<Rightarrow> string \<Rightarrow> string" where
  "sanitize_loop dash out [] = out"
| "sanitize_loop dash out (c # cs) =
     (if is_lower c \<or> is_digit c then sanitize_loop False (out @ [c]) cs
      else if \<not> dash \<and> out \<noteq> [] then sanitize_loop True (out @ ''-'') cs
      else sanitize_loop True out cs)"

definition sanitize_name :: "string \<Rightarrow> string" where
  "sanitize_name s =
     (let out = trim_set ''-'' (sanitize_loop True [] (to_lower s))
      in take 63 (if out = [] then ''unnamed'' else out))"

definition name_for_pve :: "string \<Rightarrow> int \<Rightarrow> string \<Rightarrow> string" where
  "name_for_pve live_name i prefix =
     (let n = sanitize_name (trim_space live_name)
      in if (n = [] \<or> n = ''unnamed'') \<and> 0 \<le> i then prefix @ ''-'' @ itoa i else n)"

definition kind_dir :: "kind \<Rightarrow> string" where
  "kind_dir k =
     (if k = KindLXC then ''lxc'' else if k = KindISO then ''iso'' else if k = KindCTTemplate then ''ctt''
      else if k = KindTemplateVM then ''templatevm'' else if k = KindTemplateCT then ''templatect'' else ''vm'')"

text \<open>\<^verbatim>\<open>kindPath\<close>; the parts are plain names, so \<^verbatim>\<open>filepath.Join\<close> only puts slashes between them.\<close>

definition kind_path :: "string \<Rightarrow> kind \<Rightarrow> string \<Rightarrow> string" where
  "kind_path cluster k name = kind_dir k @ ''/'' @ cluster @ ''/'' @ name @ ''.yaml''"

definition cluster_name_ok :: "string \<Rightarrow> bool" where
  "cluster_name_ok s \<longleftrightarrow>
     0 < length s \<and> length s \<le> 64 \<and> list_all (\<lambda>c. is_lower c \<or> is_digit c \<or> c = CHR ''-'') s \<and>
     hd s \<noteq> CHR ''-'' \<and> List.last s \<noteq> CHR ''-''"

definition placeholder_url :: "string \<Rightarrow> string \<Rightarrow> string" where
  "placeholder_url storage fn = ''https://placeholder.invalid/'' @ storage @ ''/'' @ fn"

text \<open>\<^verbatim>\<open>pveTemplateValue\<close>: \<^verbatim>\<open>ParseFloat\<close> of the printed value.\<close>

definition template_value :: "pval \<Rightarrow> bool" where
  "template_value v = (case v of
      PNil \<Rightarrow> False
    | PBool b \<Rightarrow> b
    | PStr s \<Rightarrow> s = ''1'' \<or> equal_fold s ''true''
    | PFloat q \<Rightarrow> q = 1
    | PInt i \<Rightarrow> i = 1
    | PInt64 i \<Rightarrow> i = 1
    | _ \<Rightarrow> False)"

definition pve_status_to_state :: "string \<Rightarrow> string" where
  "pve_status_to_state s = (if to_lower (trim_space s) \<in> {''running'', ''started''} then ''started'' else ''stopped'')"

section \<open>What a run has found\<close>

record gap =
  gp_kind :: kind
  gp_node :: string
  gp_id :: int
  gp_field :: string
  gp_value :: string

definition mk_gap :: "kind \<Rightarrow> string \<Rightarrow> int \<Rightarrow> string \<Rightarrow> string \<Rightarrow> gap" where
  "mk_gap k node i field x = \<lparr>gp_kind = k, gp_node = node, gp_id = i, gp_field = field, gp_value = x\<rparr>"

record adopt_options =
  ao_loaded :: bool
  ao_keys :: "(string \<times> string) list"
  ao_adopt_secrets :: bool

record adopt =
  ad_files :: "(string \<times> res) list"
  ad_wrote :: "(kind \<times> string) list"
  ad_gaps :: "gap list"
  ad_incomplete :: "string list"
  ad_iso :: "(string \<times> string) list"
  ad_vzt :: "(string \<times> string) list"
  ad_volumes :: "(string \<times> (string \<times> int) list) list"
  ad_unique :: "string list"
  ad_reused :: "string list"
  ad_configured :: nat
  ad_with_refs :: nat
  ad_passwords :: nat
  ad_new :: "(string \<times> string) list"
  ad_live_keys :: "string list"

definition new_adopt :: adopt where
  "new_adopt = \<lparr>ad_files = [], ad_wrote = [], ad_gaps = [], ad_incomplete = [], ad_iso = [], ad_vzt = [],
     ad_volumes = [], ad_unique = [], ad_reused = [], ad_configured = 0, ad_with_refs = 0, ad_passwords = 0,
     ad_new = [], ad_live_keys = []\<rparr>"

definition add_gaps :: "gap list \<Rightarrow> adopt \<Rightarrow> adopt" where
  "add_gaps gs st = st\<lparr>ad_gaps := ad_gaps st @ gs\<rparr>"

definition add_incomplete :: "string list \<Rightarrow> adopt \<Rightarrow> adopt" where
  "add_incomplete ls st = st\<lparr>ad_incomplete := ad_incomplete st @ ls\<rparr>"

text \<open>A set kept as a list: \<^verbatim>\<open>m[k] = true\<close>.\<close>

definition set_add :: "'a \<Rightarrow> 'a list \<Rightarrow> 'a list" where
  "set_add x xs = (if x \<in> set xs then xs else xs @ [x])"

text \<open>
  \<^verbatim>\<open>writeManifest\<close>: the file, its record, and an entry in \<^verbatim>\<open>Incomplete\<close> when the manifest
  does not validate.
\<close>

definition write_manifest :: "(string \<Rightarrow> string option) \<Rightarrow> string \<Rightarrow> kind \<Rightarrow> res \<Rightarrow> string \<Rightarrow> adopt \<Rightarrow> string + adopt" where
  "write_manifest dk cluster k doc name st =
     (let path = kind_path cluster k name
      in case dk path of
           Some e \<Rightarrow> Inl (''adopt: write '' @ path @ '': '' @ e)
         | None \<Rightarrow>
             (let st = st\<lparr>ad_files := put path doc (ad_files st), ad_wrote := ad_wrote st @ [(k, path)]\<rparr>
              in Inr (case m_validate res_methods doc of
                        None \<Rightarrow> st
                      | Some e \<Rightarrow> add_incomplete [path @ '': '' @ e] st)))"

section \<open>SSH keys against the SOPS document\<close>

text \<open>\<^verbatim>\<open>SSHKeyFingerprint\<close>: type and key without the comment; \<open>None\<close> is no OpenSSH key.\<close>

definition ssh_key_identity :: "string \<Rightarrow> (string \<times> string) option" where
  "ssh_key_identity line =
     (case str_fields (trim_space line) of
        typ # blob # rest \<Rightarrow> (if length blob < 16 then None else Some (typ, blob))
      | _ \<Rightarrow> None)"

definition ssh_key_fingerprint :: "string \<Rightarrow> string option" where
  "ssh_key_fingerprint line =
     map_option (\<lambda>(typ, blob). sha256_prefix (''sshpki'' @ [CHR 0x00] @ typ @ [CHR 0x00] @ blob)) (ssh_key_identity line)"

definition adopted_name :: "string \<Rightarrow> string" where
  "adopted_name fp = ''adopted-'' @ fp"

record key_match =
  km_refs :: "string list"
  km_unique :: "string list"
  km_reused :: "string list"
  km_new :: "(string \<times> string) list"

definition existing_by_line :: "(string \<times> string) list \<Rightarrow> (string \<times> string) list" where
  "existing_by_line keys =
     fold (\<lambda>nl m. if trim_space (snd nl) = [] then m else put (trim_space (snd nl)) (fst nl) m) keys []"

definition match_name :: "string \<Rightarrow> key_match \<Rightarrow> key_match" where
  "match_name name m =
     (if name \<in> set (km_unique m) then m
      else m\<lparr>km_unique := km_unique m @ [name], km_refs := km_refs m @ [ssh_ref_prefix @ name]\<rparr>)"

definition match_line :: "bool \<Rightarrow> (string \<times> string) list \<Rightarrow> string \<Rightarrow> key_match \<Rightarrow> key_match option" where
  "match_line adopt_secrets existing line0 m =
     (let line = trim_space line0
      in if line = [] \<or> line = redacted_sentinel then None
         else (case map_of existing line of
                 Some name \<Rightarrow> Some (match_name name (m\<lparr>km_reused := set_add name (km_reused m)\<rparr>))
               | None \<Rightarrow>
                   (if \<not> adopt_secrets then None
                    else (case ssh_key_fingerprint line of
                            None \<Rightarrow> None
                          | Some fp \<Rightarrow>
                              (let name = adopted_name fp
                               in Some (match_name name (m\<lparr>km_new := put name line (km_new m)\<rparr>)))))))"

fun match_lines :: "bool \<Rightarrow> (string \<times> string) list \<Rightarrow> string list \<Rightarrow> key_match \<Rightarrow> key_match option" where
  "match_lines secrets existing [] m = Some m"
| "match_lines secrets existing (l # ls) m =
     (case match_line secrets existing l m of None \<Rightarrow> None | Some m \<Rightarrow> match_lines secrets existing ls m)"

definition no_match :: key_match where
  "no_match = \<lparr>km_refs = [], km_unique = [], km_reused = [], km_new = []\<rparr>"

definition commit_match :: "key_match \<Rightarrow> adopt \<Rightarrow> adopt" where
  "commit_match m st = st
     \<lparr>ad_unique := fold set_add (km_unique m) (ad_unique st),
      ad_reused := fold set_add (km_reused m) (ad_reused st),
      ad_new := fold (\<lambda>nl acc. if map_of acc (fst nl) = None then put (fst nl) (snd nl) acc else acc) (km_new m) (ad_new st)\<rparr>"

definition match_or_adopt :: "adopt_options \<Rightarrow> string list \<Rightarrow> adopt \<Rightarrow> string list option \<times> adopt" where
  "match_or_adopt opts lines st =
     (case match_lines (ao_adopt_secrets opts) (existing_by_line (ao_keys opts)) lines no_match of
        None \<Rightarrow> (None, st)
      | Some m \<Rightarrow> (Some (km_refs m), commit_match m st))"

definition live_key_id :: "string \<Rightarrow> string" where
  "live_key_id line = (case ssh_key_fingerprint line of Some fp \<Rightarrow> fp | None \<Rightarrow> ''raw:'' @ line)"

definition record_live_keys :: "string list \<Rightarrow> adopt \<Rightarrow> adopt" where
  "record_live_keys lines st = st\<lparr>ad_live_keys :=
     fold (\<lambda>l ks. let line = trim_space l in if line = [] \<or> line = redacted_sentinel then ks else set_add (live_key_id line) ks)
       lines (ad_live_keys st)\<rparr>"

definition cloud_init_data_adopt :: "adopt_options \<Rightarrow> params \<Rightarrow> adopt \<Rightarrow> cloud_init_data \<times> adopt" where
  "cloud_init_data_adopt opts raw st =
     (let cd = pve_cloud_data raw; lines = pve_ssh_lines raw;
          (cd, st) =
            (if cd_ssh_keys cd = [] \<or> lines = [] then (cd, st)
             else (let st = record_live_keys lines (st\<lparr>ad_configured := ad_configured st + 1\<rparr>)
                   in case match_or_adopt opts lines st of
                        (None, st) \<Rightarrow> (cd, st)
                      | (Some refs, st) \<Rightarrow>
                          (cd\<lparr>cd_ssh_keys := [], cd_ssh_key_refs := refs\<rparr>, st\<lparr>ad_with_refs := ad_with_refs st + 1\<rparr>)))
      in (cd, if pve_password_present raw then st\<lparr>ad_passwords := ad_passwords st + 1\<rparr> else st))"

end
