(* ===== verification/Adopt_Run.thy ===== *)
theory Adopt_Run
  imports Adopt
begin

text \<open>
  \<^verbatim>\<open>internal/adopt/kinds.go\<close> and \<^verbatim>\<open>run.go\<close>: the manifests of guests and artifacts, and
  the run over the nodes of a cluster.  \<open>node_volumes\<close> keeps the listing of a node after the first
  read.  An error ends the run; the files written until then stay on disk and are not part of the
  result.
\<close>

section \<open>Virtual machines and their templates\<close>

definition adopted_cdrom :: "adopt \<Rightarrow> params \<Rightarrow> cd_drive" where
  "adopted_cdrom st raw =
     (case pve_cdrom raw of
        None \<Rightarrow> \<lparr>cd_iso = [], cd_media = []\<rparr>
      | Some volid \<Rightarrow>
          \<lparr>cd_iso = (if volid = [] then cdrom_none else (case map_of (ad_iso st) volid of Some n \<Rightarrow> n | None \<Rightarrow> [])), cd_media = []\<rparr>)"

definition cdrom_gap :: "kind \<Rightarrow> string \<Rightarrow> int \<Rightarrow> adopt \<Rightarrow> params \<Rightarrow> gap list" where
  "cdrom_gap k node i st raw =
     (case pve_cdrom raw of
        None \<Rightarrow> []
      | Some volid \<Rightarrow>
          (if volid = [] \<or> map_of (ad_iso st) volid \<noteq> None then [] else [mk_gap k node i ''ide2/ide3'' volid]))"

definition adopted_tags :: "params \<Rightarrow> string list" where
  "adopted_tags raw =
     filter (\<lambda>t. t \<noteq> [] \<and> t \<noteq> ''proxops'') (map trim_space (split_on (CHR '','') (str_at raw ''tags'')))"

definition data_disk :: "params \<Rightarrow> disk \<Rightarrow> bool" where
  "data_disk raw d \<longleftrightarrow> pve_disk_media raw (dk_slot d) \<noteq> ''cdrom''"

definition adopted_disks :: "params \<Rightarrow> disk list" where
  "adopted_disks raw = filter (data_disk raw) (pve_disks raw)"

text \<open>
  The filter runs in place (\<^verbatim>\<open>kept := rawDisks[:0]\<close>): the second loop, which reports the
  CD-ROM style drives, ranges over the overwritten array.
\<close>

definition overwritten_disks :: "params \<Rightarrow> disk list" where
  "overwritten_disks raw = adopted_disks raw @ drop (length (adopted_disks raw)) (pve_disks raw)"

definition disk_gaps :: "kind \<Rightarrow> string \<Rightarrow> int \<Rightarrow> params \<Rightarrow> gap list" where
  "disk_gaps k node i raw =
     map (\<lambda>d. mk_gap k node i (dk_slot d) (str_at raw (dk_slot d)))
       (filter (\<lambda>d. \<not> data_disk raw d) (overwritten_disks raw))"

definition adopted_vm :: "kind \<Rightarrow> string \<Rightarrow> list_entry \<Rightarrow> params \<Rightarrow> cd_drive \<Rightarrow> cloud_init_data \<Rightarrow> vm" where
  "adopted_vm k node e raw cd data =
     (if k = KindTemplateVM then new_template_vm else new_vm)
       \<lparr>vm_metadata := empty_metadata\<lparr>md_name := name_for_pve (str_at raw ''name'') (le_id e) ''vm''\<rparr>,
        vm_spec := zero_vm_spec
          \<lparr>vs_node := node, vs_vmid := le_id e,
           vs_memory := (case pve_memory_to_human (cfg_val raw ''memory'') of Some m \<Rightarrow> m | None \<Rightarrow> []),
           vs_cpu := \<lparr>cp_type = str_at raw ''cpu'',
             cp_cores = (if 0 < pve_int (cfg_val raw ''cores'') then pve_int (cfg_val raw ''cores'') else 0), cp_flags = []\<rparr>,
           vs_disks := adopted_disks raw, vs_nics := pve_nics raw,
           vs_hardware := (pve_vm_hardware raw)\<lparr>hw_cdrom := cd\<rparr>,
           vs_options := pve_vm_options raw, vs_tags := adopted_tags raw,
           vs_state := (if k = KindTemplateVM then ''stopped'' else pve_status_to_state (le_status e)),
           vs_cloud_data := data\<rparr>\<rparr>"

definition key_gaps :: "(string \<times> pval \<Rightarrow> bool) \<Rightarrow> kind \<Rightarrow> string \<Rightarrow> int \<Rightarrow> params \<Rightarrow> gap list" where
  "key_gaps modelled k node i raw =
     map (\<lambda>kv. mk_gap k node i (fst kv) (redact_gap_value (fst kv) (pve_str (snd kv)))) (filter (\<lambda>kv. \<not> modelled kv) raw)"

text \<open>\<^verbatim>\<open>adoptVM\<close> after its read, and \<^verbatim>\<open>adoptTemplateVM\<close>, which it hands templates to.\<close>

definition adopt_vm_config ::
    "(string \<Rightarrow> string option) \<Rightarrow> adopt_options \<Rightarrow> string \<Rightarrow> string \<Rightarrow> list_entry \<Rightarrow> params \<Rightarrow> adopt \<Rightarrow> string + adopt" where
  "adopt_vm_config dk opts cluster node e raw st =
     (let k = (if template_value (cfg_val raw ''template'') then KindTemplateVM else KindVM); i = le_id e;
          st1 = add_gaps (cdrom_gap k node i st raw) (add_gaps (disk_gaps k node i raw) st);
          (data, st2) = cloud_init_data_adopt opts raw st1;
          v = adopted_vm k node e raw (adopted_cdrom st raw) data
      in case write_manifest dk cluster k (if k = KindTemplateVM then RTemplateVM v else RVM v) (md_name (vm_metadata v)) st2 of
           Inl err \<Rightarrow> Inl err
         | Inr st3 \<Rightarrow> Inr (add_gaps (key_gaps (vm_modelled k) k node i raw) st3))"

section \<open>Containers and their templates\<close>

definition bare_volid :: "string \<Rightarrow> string" where
  "bare_volid v = takeWhile (\<lambda>c. c \<noteq> CHR '','') v"

definition size_of :: "(string \<times> int) list \<Rightarrow> string \<Rightarrow> string" where
  "size_of sizes volid =
     (case map_of sizes volid of
        None \<Rightarrow> []
      | Some b \<Rightarrow> (case human_from_bytes b of Some s \<Rightarrow> s | None \<Rightarrow> []))"

text \<open>Whether the storage listing is needed: a root without size, or any mount point.\<close>

definition needs_sizes :: "params \<Rightarrow> bool" where
  "needs_sizes raw \<longleftrightarrow> \<not> rt_sized (pve_root raw) \<or> pve_mounts raw \<noteq> []"

definition root_size :: "(string \<times> int) list \<Rightarrow> params \<Rightarrow> string" where
  "root_size sizes raw =
     (let rt = pve_root raw
      in if rt_sized rt \<and> rt_size rt \<noteq> [] then rt_size rt else size_of sizes (bare_volid (rt_volid rt)))"

definition sized_mount :: "(string \<times> int) list \<Rightarrow> params \<Rightarrow> lxc_mount \<Rightarrow> lxc_mount" where
  "sized_mount sizes raw m =
     (if lm_size m = [] then m\<lparr>lm_size := size_of sizes (bare_volid (str_at raw (lm_slot m)))\<rparr> else m)"

definition bind_ok :: "live_bind \<Rightarrow> bool" where
  "bind_ok b \<longleftrightarrow> has_prefix (bm_host b) ''/'' \<and> has_prefix (bm_path b) ''/''"

definition adopted_lxc ::
    "kind \<Rightarrow> string \<Rightarrow> list_entry \<Rightarrow> params \<Rightarrow> (string \<times> int) list \<Rightarrow> string \<Rightarrow> lxc" where
  "adopted_lxc k node e raw sizes template =
     (if k = KindTemplateCT then new_template_ct else new_lxc)
       \<lparr>lx_metadata := empty_metadata\<lparr>md_name := name_for_pve (str_at raw ''hostname'') (le_id e) ''ct''\<rparr>,
        lx_spec := zero_lxc_spec
          \<lparr>ls_node := node, ls_vmid := le_id e,
           ls_memory := (case pve_memory_to_human (cfg_val raw ''memory'') of Some m \<Rightarrow> m | None \<Rightarrow> []),
           ls_swap := (case pve_memory_to_human (cfg_val raw ''swap'') of Some m \<Rightarrow> m | None \<Rightarrow> []),
           ls_cores := (if 0 < pve_int (cfg_val raw ''cores'') then pve_int (cfg_val raw ''cores'') else 0),
           ls_root_storage := rt_storage (pve_root raw),
           ls_root_size := (if rt_storage (pve_root raw) = [] then [] else root_size sizes raw),
           ls_mounts := map (sized_mount sizes raw) (pve_mounts raw),
           ls_binds := map (\<lambda>b. \<lparr>lb_host = bm_host b, lb_path = bm_path b, lb_slot = bm_slot b, lb_read_only = bm_read_only b\<rparr>)
             (filter bind_ok (pve_binds raw)),
           ls_nets := pve_lxc_nets raw,
           ls_hostname := str_at raw ''hostname'',
           ls_nameservers := (if str_at raw ''nameserver'' = [] then [] else split_nameserver (str_at raw ''nameserver'')),
           ls_domain := str_at raw ''searchdomain'',
           ls_arch := pve_lxc_arch raw, ls_options := pve_lxc_options raw,
           ls_description := trim_space (str_at raw ''description''),
           ls_tags := adopted_tags raw, ls_template := template, ls_state := pve_status_to_state (le_status e)\<rparr>\<rparr>"

text \<open>The template's manifest name, or the gap that says it is unknown.\<close>

definition adopted_template :: "kind \<Rightarrow> string \<Rightarrow> int \<Rightarrow> adopt \<Rightarrow> params \<Rightarrow> string \<times> gap list" where
  "adopted_template k node i st raw =
     (case pve_lxc_template raw of
        None \<Rightarrow> ([], [mk_gap k node i ''spec.template'' ''unrecoverable (PVE /config does not report ostemplate)''])
      | Some (storage, fn) \<Rightarrow>
          (let volid = storage @ '':vztmpl/'' @ fn
           in case map_of (ad_vzt st) volid of
                Some name \<Rightarrow> (name, [])
              | None \<Rightarrow> ([], [mk_gap k node i ''spec.template'' volid])))"

definition lxc_size_gaps ::
    "kind \<Rightarrow> string \<Rightarrow> int \<Rightarrow> string \<Rightarrow> (string \<times> int) list \<Rightarrow> params \<Rightarrow> gap list \<times> string list" where
  "lxc_size_gaps k node i name sizes raw =
     (let rt = pve_root raw; lost = rt_storage rt \<noteq> [] \<and> root_size sizes raw = [];
          ms = filter (\<lambda>m. lm_size (sized_mount sizes raw m) = []) (pve_mounts raw)
      in ((if lost then [mk_gap k node i ''spec.root.size'' (rt_storage rt)] else []) @
          map (\<lambda>m. mk_gap k node i (''spec.mount-points['' @ lm_slot m @ ''].size'') (lm_storage m)) ms,
          (if lost then [''lxc/'' @ node @ ''/'' @ name @ '': spec.root.size unknown (storage listing had no matching volume)''] else []) @
          map (\<lambda>m. ''lxc/'' @ name @ '': spec.mount-points['' @ lm_slot m @ ''].size unknown'') ms))"

text \<open>\<^verbatim>\<open>writeLXCManifest\<close> after the storage listing; \<open>None\<close> is a listing that could not be read.\<close>

definition adopt_lxc_config ::
    "(string \<Rightarrow> string option) \<Rightarrow> string \<Rightarrow> string \<Rightarrow> list_entry \<Rightarrow> params \<Rightarrow> (string \<times> int) list option \<Rightarrow> adopt \<Rightarrow> string + adopt" where
  "adopt_lxc_config dk cluster node e raw listing st =
     (let k = (if template_value (cfg_val raw ''template'') then KindTemplateCT else KindLXC); i = le_id e;
          sizes = (case listing of Some ss \<Rightarrow> ss | None \<Rightarrow> []);
          (tpl, tgaps) = adopted_template k node i st raw;
          l = adopted_lxc k node e raw sizes tpl; name = md_name (lx_metadata l);
          (sgaps, lost) = lxc_size_gaps k node i name sizes raw;
          gaps = (if listing = None then [mk_gap k node i ''spec.root.size / spec.mount-points'' ''storage listing unreadable''] else []) @
            sgaps @ map (\<lambda>b. mk_gap k node i (bm_slot b) (redact_gap_value (bm_slot b) (bm_raw b))) (filter (\<lambda>b. \<not> bind_ok b) (pve_binds raw)) @ tgaps
      in case write_manifest dk cluster k (if k = KindTemplateCT then RTemplateCT l else RLXC l) name
                (add_incomplete lost (add_gaps gaps st)) of
           Inl err \<Rightarrow> Inl err
         | Inr st1 \<Rightarrow> Inr (add_gaps (key_gaps (lxc_modelled k) k node i raw) st1))"

section \<open>Artifacts\<close>

text \<open>A discovered file: the first storage it was seen on and the nodes that have it.\<close>

type_synonym found = "(string \<times> string \<times> string list) list"

definition add_node :: "string \<Rightarrow> string \<Rightarrow> string \<Rightarrow> found \<Rightarrow> found" where
  "add_node fn storage node fs =
     (case map_of fs fn of
        None \<Rightarrow> put fn (storage, [node]) fs
      | Some (st, ns) \<Rightarrow> put fn (st, set_add node ns) fs)"

definition note_entry :: "string \<Rightarrow> string \<Rightarrow> content_entry \<Rightarrow> found \<times> found \<Rightarrow> found \<times> found" where
  "note_entry node storage e fs =
     (if ce_content e = ''iso'' then (add_node (volid_filename (ce_volid e) ''iso'') storage node (fst fs), snd fs)
      else if ce_content e = ''vztmpl'' then (fst fs, add_node (volid_filename (ce_volid e) ''vztmpl'') storage node (snd fs))
      else fs)"

definition artifact_doc :: "kind \<Rightarrow> string \<Rightarrow> string \<Rightarrow> string \<Rightarrow> string list \<Rightarrow> artifact" where
  "artifact_doc k name fn storage nodes = (empty_artifact k)
     \<lparr>ar_metadata := empty_metadata\<lparr>md_name := name\<rparr>,
      ar_spec := \<lparr>as_node = [], as_nodes = nodes, as_storage = storage, as_filename = fn,
        as_url = placeholder_url storage fn, as_checksum = \<lparr>ck_algorithm = [], ck_value = []\<rparr>\<rparr>\<rparr>"

definition write_iso ::
    "(string \<Rightarrow> string option) \<Rightarrow> string \<Rightarrow> string \<times> string \<times> string list \<Rightarrow> adopt \<Rightarrow> string + adopt" where
  "write_iso dk cluster f st =
     (let fn = fst f; storage = fst (snd f); nodes = sort_strings (snd (snd f)); name = name_for_pve fn (- 1) ''iso'';
          st1 = st\<lparr>ad_iso := put (storage @ '':iso/'' @ fn) name (ad_iso st)\<rparr>
      in case write_manifest dk cluster KindISO (RArt (AISO (artifact_doc KindISO name fn storage nodes))) name st1 of
           Inl err \<Rightarrow> Inl err
         | Inr st2 \<Rightarrow> Inr (add_gaps [mk_gap KindISO (hd nodes) 0 ''spec.url'' (placeholder_url storage fn)] st2))"

definition write_ctt ::
    "(string \<Rightarrow> string option) \<Rightarrow> string \<Rightarrow> string \<times> string \<times> string list \<Rightarrow> adopt \<Rightarrow> string + adopt" where
  "write_ctt dk cluster f st =
     (let fn = fst f; storage = fst (snd f); nodes = sort_strings (snd (snd f)); name = name_for_pve fn (- 1) ''ctt'';
          st1 = st\<lparr>ad_vzt := put (storage @ '':vztmpl/'' @ fn) name (ad_vzt st)\<rparr>
      in case write_manifest dk cluster KindCTTemplate (RArt (ACTT (artifact_doc KindCTTemplate name fn storage nodes))) name st1 of
           Inl err \<Rightarrow> Inl err
         | Inr st2 \<Rightarrow> Inr (add_gaps [mk_gap KindCTTemplate (hd nodes) 0 ''spec.url'' (placeholder_url storage fn)] st2))"

section \<open>The run\<close>

fun result_fold :: "('x \<Rightarrow> 's \<Rightarrow> 'e + 's) \<Rightarrow> 'x list \<Rightarrow> 's \<Rightarrow> 'e + 's" where
  "result_fold f [] s = Inr s"
| "result_fold f (x # xs) s = (case f x s of Inl e \<Rightarrow> Inl e | Inr s \<Rightarrow> result_fold f xs s)"

fun io_fold :: "('x \<Rightarrow> 's \<Rightarrow> 's io) \<Rightarrow> 'x list \<Rightarrow> 's \<Rightarrow> 's io" where
  "io_fold f [] s = io_return s"
| "io_fold f (x # xs) s = io_bind (f x s) (io_fold f xs)"

definition io_result :: "string + 'a \<Rightarrow> 'a io" where
  "io_result r = (case r of Inl e \<Rightarrow> io_fail (EText e) | Inr a \<Rightarrow> io_return a)"

text \<open>An error taken as a value: the run goes on.\<close>

definition io_try :: "'a io \<Rightarrow> 'a option io" where
  "io_try m = (\<lambda>cl. case m cl of (Inl e, cl1) \<Rightarrow> (Inr None, cl1) | (Inr a, cl1) \<Rightarrow> (Inr (Some a), cl1))"

definition discover_storage :: "env \<Rightarrow> ctx \<Rightarrow> string \<Rightarrow> string \<Rightarrow> found \<times> found \<Rightarrow> (found \<times> found) io" where
  "discover_storage env cx node storage fs =
     io_bind (io_wrap (\<lambda>e. EWrap (''adopt: storage content on '' @ node @ ''/'' @ storage @ '': '') e [])
               (storage_content env cx node storage))
       (\<lambda>entries. io_return (fold (note_entry node storage) entries fs))"

definition discover_node :: "env \<Rightarrow> ctx \<Rightarrow> string \<Rightarrow> found \<times> found \<Rightarrow> (found \<times> found) io" where
  "discover_node env cx node fs =
     io_bind (io_wrap (\<lambda>e. EWrap (''adopt: storage listing on '' @ node @ '': '') e []) (storage_list env cx node))
       (\<lambda>storages. io_fold (discover_storage env cx node) storages fs)"

definition in_order :: "found \<Rightarrow> (string \<times> string \<times> string list) list" where
  "in_order fs = go_isort (\<lambda>a b. fst a < fst b) fs"

definition adopt_artifacts ::
    "env \<Rightarrow> ctx \<Rightarrow> (string \<Rightarrow> string option) \<Rightarrow> string \<Rightarrow> string list \<Rightarrow> adopt \<Rightarrow> adopt io" where
  "adopt_artifacts env cx dk cluster nodes st =
     io_bind (io_fold (discover_node env cx) nodes ([], []))
       (\<lambda>(isos, vzts). io_result
          (case result_fold (write_iso dk cluster) (in_order isos) st of
             Inl e \<Rightarrow> Inl e
           | Inr st1 \<Rightarrow> result_fold (write_ctt dk cluster) (in_order vzts) st1))"

definition node_volumes :: "env \<Rightarrow> ctx \<Rightarrow> string \<Rightarrow> (string \<times> int) list io" where
  "node_volumes env cx node =
     io_bind (storage_list env cx node)
       (\<lambda>storages. io_fold
          (\<lambda>storage vols. io_bind (storage_content env cx node storage)
             (\<lambda>entries. io_return (fold (\<lambda>e. put (ce_volid e) (ce_size e)) entries vols)))
          storages [])"

definition node_volume_sizes :: "env \<Rightarrow> ctx \<Rightarrow> string \<Rightarrow> adopt \<Rightarrow> ((string \<times> int) list \<times> adopt) io" where
  "node_volume_sizes env cx node st =
     (case map_of (ad_volumes st) node of
        Some vols \<Rightarrow> io_return (vols, st)
      | None \<Rightarrow> io_bind (node_volumes env cx node)
                  (\<lambda>vols. io_return (vols, st\<lparr>ad_volumes := put node vols (ad_volumes st)\<rparr>)))"

definition adopt_vm ::
    "env \<Rightarrow> ctx \<Rightarrow> (string \<Rightarrow> string option) \<Rightarrow> adopt_options \<Rightarrow> string \<Rightarrow> string \<Rightarrow> list_entry \<Rightarrow> adopt \<Rightarrow> adopt io" where
  "adopt_vm env cx dk opts cluster node e st =
     io_bind (io_wrap (\<lambda>x. EWrap (''adopt: VM '' @ node @ ''#'' @ itoa (le_id e) @ '' /config: '') x []) (vm_get env cx node (le_id e)))
       (\<lambda>raw. io_result (adopt_vm_config dk opts cluster node e raw st))"

definition adopt_lxc ::
    "env \<Rightarrow> ctx \<Rightarrow> (string \<Rightarrow> string option) \<Rightarrow> string \<Rightarrow> string \<Rightarrow> list_entry \<Rightarrow> adopt \<Rightarrow> adopt io" where
  "adopt_lxc env cx dk cluster node e st =
     io_bind (io_wrap (\<lambda>x. EWrap (''adopt: LXC '' @ node @ ''#'' @ itoa (le_id e) @ '' /config: '') x []) (lxc_get env cx node (le_id e)))
       (\<lambda>raw. io_bind
          (if needs_sizes raw then io_try (node_volume_sizes env cx node st) else io_return (Some ([], st)))
          (\<lambda>r. io_result (case r of
               None \<Rightarrow> adopt_lxc_config dk cluster node e raw None st
             | Some (sizes, st1) \<Rightarrow> adopt_lxc_config dk cluster node e raw (Some sizes) st1)))"

definition adopt_node_vms ::
    "env \<Rightarrow> ctx \<Rightarrow> (string \<Rightarrow> string option) \<Rightarrow> adopt_options \<Rightarrow> string \<Rightarrow> string \<Rightarrow> adopt \<Rightarrow> adopt io" where
  "adopt_node_vms env cx dk opts cluster node st =
     io_bind (io_wrap (\<lambda>e. EWrap (''adopt: VM listing on '' @ node @ '': '') e []) (vm_list env cx node))
       (\<lambda>es. io_fold (adopt_vm env cx dk opts cluster node) es st)"

definition adopt_node_lxcs ::
    "env \<Rightarrow> ctx \<Rightarrow> (string \<Rightarrow> string option) \<Rightarrow> string \<Rightarrow> string \<Rightarrow> adopt \<Rightarrow> adopt io" where
  "adopt_node_lxcs env cx dk cluster node st =
     io_bind (io_wrap (\<lambda>e. EWrap (''adopt: LXC listing on '' @ node @ '': '') e []) (lxc_list env cx node))
       (\<lambda>es. io_fold (adopt_lxc env cx dk cluster node) es st)"

text \<open>\<^verbatim>\<open>dedupGaps\<close>: one gap per key, in a total order.\<close>

definition gap_key :: "gap \<Rightarrow> string \<times> string \<times> string \<times> string" where
  "gap_key g = (gp_kind g @ [CHR 0x00] @ itoa (gp_id g), gp_node g, gp_field g, gp_value g)"

definition gap_before :: "gap \<Rightarrow> gap \<Rightarrow> bool" where
  "gap_before a b =
     (case (gap_key a, gap_key b) of ((k1, n1, f1, v1), (k2, n2, f2, v2)) \<Rightarrow>
        if k1 \<noteq> k2 then k1 < k2 else if n1 \<noteq> n2 then n1 < n2 else if f1 \<noteq> f2 then f1 < f2 else v1 < v2)"

definition dedup_gaps :: "gap list \<Rightarrow> gap list" where
  "dedup_gaps gs = go_isort gap_before (remdups gs)"

definition finish_adopt :: "adopt \<Rightarrow> adopt" where
  "finish_adopt st = st
     \<lparr>ad_gaps := dedup_gaps (ad_gaps st), ad_wrote := go_isort (\<lambda>a b. snd a < snd b) (ad_wrote st),
      ad_incomplete := sort_strings (ad_incomplete st), ad_unique := sort_strings (ad_unique st)\<rparr>"

text \<open>\<^verbatim>\<open>runWithOptions\<close>.\<close>

definition adopt_nodes :: "env \<Rightarrow> ctx \<Rightarrow> string \<Rightarrow> string list \<Rightarrow> string list io" where
  "adopt_nodes env cx cluster allowed =
     io_bind (if allowed \<noteq> [] then io_return allowed
              else io_wrap (\<lambda>e. EWrap ''adopt: cluster node listing: '' e ('' (configure pve.clusters.'' @ cluster @ ''.nodes to enumerate without querying /cluster/nodes)''))
                     (pve_nodes env cx))
       (\<lambda>ns. io_return (sort_strings ns))"

definition adopt_cluster ::
    "env \<Rightarrow> ctx \<Rightarrow> (string \<Rightarrow> string option) \<Rightarrow> adopt_options \<Rightarrow> string \<Rightarrow> string list \<Rightarrow> adopt io" where
  "adopt_cluster env cx dk opts cluster allowed =
     io_bind (adopt_nodes env cx cluster allowed)
       (\<lambda>nodes. io_bind (adopt_artifacts env cx dk cluster nodes new_adopt)
         (\<lambda>st. io_bind (io_fold (adopt_node_vms env cx dk opts cluster) nodes st)
           (\<lambda>st. io_bind (io_fold (adopt_node_lxcs env cx dk cluster) nodes st)
             (\<lambda>st. io_return (finish_adopt st)))))"

text \<open>The UTF-8 bytes of the arrow in the message.\<close>

definition arrow :: string where
  "arrow = map char_of [226 :: nat, 134, 146]"

definition run_adopt ::
    "env \<Rightarrow> ctx \<Rightarrow> (string \<Rightarrow> string option) \<Rightarrow> adopt_options \<Rightarrow> string \<Rightarrow> string list \<Rightarrow> adopt io" where
  "run_adopt env cx dk opts cluster allowed =
     (if trim_space cluster = [] then io_fail (EText ''adopt: cluster name required'')
      else if \<not> cluster_name_ok cluster
      then io_fail (EText (''adopt: '' @ go_quote cluster @ '' is not a valid cluster name (lowercase alnum + '' @ sq ''-'' @ ''); cluster names are the GitOps composition identity''))
      else (\<lambda>cl. case adopt_cluster env cx dk opts cluster allowed cl of
              (Inl e, cl1) \<Rightarrow> (Inl e, cl1)
            | (Inr st, cl1) \<Rightarrow>
                (if c_writes cl1 \<noteq> c_writes cl
                 then (Inl (EText (''adopt: PVE write endpoints were called (writes went '' @ nat_str (c_writes cl) @ '' '' @ arrow @ '' '' @
                         nat_str (c_writes cl1) @ ''); adoption must be read-only'')), cl1)
                 else (Inr st, cl1))))"

end
