(* ===== verification/Vm_Converge.thy ===== *)
theory Vm_Converge
  imports Vm_Facts
begin

text \<open>
  A configuration that shows exactly what the create call sent has no drift.  \<open>vm_writes\<close> lists what
  \<^verbatim>\<open>ToCreateParams\<close> writes, in its order; when no two of its writes share a key the
  parameters are that list.
\<close>

section \<open>The writes of a create\<close>

definition opt :: "bool \<Rightarrow> string \<Rightarrow> string \<Rightarrow> params" where
  "opt b k x = (if b then [(k, PStr x)] else [])"

definition base_writes :: "vm \<Rightarrow> params" where
  "base_writes v =
     (let s = vm_spec v
      in [(''vmid'', PInt (vs_vmid s)), (''name'', PStr (pve_name v)), (''memory'', PInt64 (mem_mib (vs_memory s))),
          (''cpu'', PStr (cp_type (vs_cpu s))), (''cores'', PInt (cp_cores (vs_cpu s))),
          (''tags'', PStr (join_with '','' (all_tags (vs_tags s)))), (''start'', PStr ''0'')] @
         opt (vs_description s \<noteq> []) ''description'' (vs_description s) @
         opt (vm_scsi_hw (vs_disks s) \<noteq> []) ''scsihw'' (vm_scsi_hw (vs_disks s)))"

definition device_writes :: "vm \<Rightarrow> params" where
  "device_writes v =
     map (\<lambda>sd. (fst sd, PStr (drive_volume_string (snd sd)))) (disk_slots v) @
     map (\<lambda>sn. (fst sn, PStr (nic_string (snd sn)))) (nic_slots v)"

definition hardware_writes :: "vm \<Rightarrow> params" where
  "hardware_writes v =
     (let hw = vs_hardware (vm_spec v)
      in opt (hw_machine hw \<noteq> []) ''machine'' (hw_machine hw) @ opt (hw_bios hw \<noteq> []) ''bios'' (hw_bios hw) @
         opt (hw_display hw \<noteq> []) ''vga'' (hw_display hw) @
         (if hw_sockets hw \<noteq> 0 then [(''sockets'', PInt (hw_sockets hw))] else []) @
         opt (hw_numa hw) ''numa'' ''1'' @
         opt (ci_enabled (hw_cloud_init hw)) ''ide2'' (cloud_init_wire (hw_cloud_init hw)) @
         opt (cdrom_managed_state v \<noteq> Unmanaged) (cdrom_slot v) (cdrom_wire_value v) @
         (case hw_efi hw of None \<Rightarrow> [] | Some ef \<Rightarrow> [(''efidisk0'', PStr (efi_wire ef))]) @
         (case hw_tpm hw of None \<Rightarrow> [] | Some ver \<Rightarrow> [(''tpm0'', PStr (tpm_wire ver))]) @
         opt (hw_serial0 hw \<noteq> []) ''serial0'' (hw_serial0 hw) @
         map (\<lambda>d. (pd_slot d, PStr (pci_device_wire d))) (hw_pci hw))"

definition cloud_writes :: "cloud_init_data \<Rightarrow> params" where
  "cloud_writes cd =
     (let keys = ssh_keys_wire (ssh_keys_effective cd)
      in opt (cd_user cd \<noteq> []) ''ciuser'' (cd_user cd) @ opt (keys \<noteq> []) ''sshkeys'' keys @
         opt (password_effective cd \<noteq> []) ''cipassword'' (password_effective cd) @
         opt (cd_nameservers cd \<noteq> []) ''nameserver'' (join_with '' '' (cd_nameservers cd)) @
         opt (cd_search_domains cd \<noteq> []) ''searchdomain'' (join_with '' '' (cd_search_domains cd)) @
         map (\<lambda>kv. (fst kv, PStr (snd kv))) (ip_config_wire (cd_ip_configs cd)))"

definition option_writes :: "vm_opts \<Rightarrow> params" where
  "option_writes o1 =
     opt (op_onboot o1) ''onboot'' ''1'' @ opt (op_startup o1 \<noteq> []) ''startup'' (op_startup o1) @
     opt (op_protection o1) ''protection'' ''1'' @ opt (op_agent o1) ''agent'' ''1'' @ opt (op_acpi o1) ''acpi'' ''1'' @
     opt (op_tablet o1) ''tablet'' ''1'' @
     opt (op_hotplug o1 \<noteq> []) ''hotplug'' (join_with '','' (op_hotplug o1)) @
     opt (op_boot_order o1 \<noteq> []) ''boot'' (''order='' @ join_with '';'' (op_boot_order o1)) @
     opt (op_nested_virt o1) ''nestedvirt'' ''1'' @ opt (op_hidden o1) ''hidden'' ''1''"

definition vm_writes :: "vm \<Rightarrow> params" where
  "vm_writes v = base_writes v @ device_writes v @ hardware_writes v @ cloud_writes (vs_cloud_data (vm_spec v)) @
     option_writes (vs_options (vm_spec v)) @ map (\<lambda>kv. (fst kv, PStr (snd kv))) (vs_extra (vm_spec v))"

lemma put_fresh: "k \<notin> fst ` set m \<Longrightarrow> put k x m = m @ [(k, x)]"
  by (induction m) (auto simp: put_def)

lemma put_all_fresh: "distinct (map fst (m @ kvs)) \<Longrightarrow> put_all kvs m = m @ kvs"
proof (induction kvs arbitrary: m)
  case (Cons kv kvs)
  then have "fst kv \<notin> fst ` set m" by auto
  then have "put (fst kv) (snd kv) m = m @ [kv]" by (simp add: put_fresh)
  moreover have "distinct (map fst ((m @ [kv]) @ kvs))" using Cons.prems by simp
  ultimately show ?case using Cons.IH [of "m @ [kv]"] by (simp add: put_all_def)
qed (simp add: put_all_def)

lemma put_all_append: "put_all (a @ b) m = put_all b (put_all a m)"
  by (simp add: put_all_def)

lemma put_if_all: "put_if b k x m = put_all (if b then [(k, x)] else []) m"
  by (simp add: put_if_def put_all_def)

lemma put_if_opt: "put_if b k (PStr x) m = put_all (opt b k x) m"
  by (simp add: put_if_def put_all_def opt_def)

lemma put_as_all: "put k x m = put_all [(k, x)] m"
  by (simp add: put_all_def)

lemma options_wire_writes: "distinct (map fst (option_writes o1)) \<Longrightarrow> options_wire o1 = option_writes o1"
proof -
  assume "distinct (map fst (option_writes o1))"
  then have d: "distinct (map fst ([] @ option_writes o1))" by simp
  have "options_wire o1 = put_all (option_writes o1) []"
    unfolding options_wire_def option_writes_def flag_put_def put_if_opt put_all_append by (rule refl)
  also have "\<dots> = [] @ option_writes o1" by (rule put_all_fresh [OF d])
  finally show ?thesis by simp
qed

lemma hardware_params_writes: "hardware_params v m = put_all (hardware_writes v) m"
  by (simp add: hardware_params_def hardware_writes_def Let_def put_all_append put_if_opt split: option.split)
     (simp add: put_if_def put_all_def)

lemma cloud_params_writes: "cloud_data_params cd m = put_all (cloud_writes cd) m"
  by (simp add: cloud_data_params_def cloud_writes_def Let_def put_all_append put_if_opt)

lemma vm_params_writes:
  assumes "distinct (map fst (vm_writes v))"
  shows "vm_params_filled v = vm_writes v"
proof -
  let ?rest = "device_writes v @ hardware_writes v @ cloud_writes (vs_cloud_data (vm_spec v)) @
     option_writes (vs_options (vm_spec v)) @ map (\<lambda>kv. (fst kv, PStr (snd kv))) (vs_extra (vm_spec v))"
  have "vm_base_params v = base_writes v"
    by (simp add: vm_base_params_def base_writes_def Let_def put_if_def opt_def put_fresh)
  moreover have "options_wire (vs_options (vm_spec v)) = option_writes (vs_options (vm_spec v))"
    by (rule options_wire_writes) (use assms in \<open>simp add: vm_writes_def\<close>)
  ultimately have "vm_params_filled v = put_all ?rest (base_writes v)"
    by (simp add: vm_params_filled_def Let_def put_all_append device_writes_def hardware_params_writes
        cloud_params_writes)
  also have "\<dots> = base_writes v @ ?rest"
    by (rule put_all_fresh) (use assms in \<open>simp add: vm_writes_def\<close>)
  finally show ?thesis by (simp add: vm_writes_def)
qed

section \<open>No drift against what was written\<close>

definition reported :: "config \<Rightarrow> params \<Rightarrow> bool" where
  "reported c w \<longleftrightarrow> (\<forall>(k, x)\<in>set w. cfg_get c k = Some x)"

lemma reported_append [simp]: "reported c (a @ b) \<longleftrightarrow> reported c a \<and> reported c b"
  by (auto simp: reported_def)

lemma reported_Cons [simp]: "reported c ((k, x) # w) \<longleftrightarrow> cfg_get c k = Some x \<and> reported c w"
  by (auto simp: reported_def)

lemma reported_Nil [simp]: "reported c []"
  by (simp add: reported_def)

lemma reported_opt [simp]: "reported c (opt b k x) \<longleftrightarrow> (b \<longrightarrow> cfg_get c k = Some (PStr x))"
  by (auto simp: opt_def)

lemma reportedD: "reported c w \<Longrightarrow> (k, x) \<in> set w \<Longrightarrow> cfg_get c k = Some x"
  by (auto simp: reported_def)

lemma reported_self: "distinct (map fst w) \<Longrightarrow> reported (Some w) w"
  by (auto simp: reported_def)

lemma drift_put_same [simp]: "\<not> b \<Longrightarrow> drift_put b s k x st = st"
  by (simp add: drift_put_def)

lemma drift_put_own [simp]:
  "(b \<longrightarrow> cfg_get c k = Some (PStr want)) \<Longrightarrow> drift_put (b \<and> pve_str_at c k \<noteq> want) s k x st = st"
  by (auto simp: drift_put_def pve_str_at_def)

lemma drift_put_match:
  "(b \<longrightarrow> cfg_get c k = Some (PStr want)) \<Longrightarrow> R want want \<Longrightarrow> drift_put (b \<and> \<not> R (pve_str_at c k) want) s k x st = st"
  by (auto simp: drift_put_def pve_str_at_def)

lemma drift_str_same [simp]: "(want \<noteq> [] \<longrightarrow> cfg_get c k = Some (PStr want)) \<Longrightarrow> drift_str c s k want st = st"
  by (auto simp: drift_str_def pve_str_at_def)

lemma drift_flag_same [simp]: "(b \<longrightarrow> cfg_get c k = Some (PStr ''1'')) \<Longrightarrow> drift_flag c b k st = st"
proof -
  have "pve_int (PStr ''1'') = 1" by code_simp
  then show "(b \<longrightarrow> cfg_get c k = Some (PStr ''1'')) \<Longrightarrow> ?thesis" by (auto simp: drift_flag_def live_int_def)
qed

text \<open>Tags that read back: no comma inside, nothing to trim.\<close>

definition plain_tag :: "string \<Rightarrow> bool" where
  "plain_tag t \<longleftrightarrow> CHR '','' \<notin> set t \<and> trim_space t = t"

lemma tags_reported:
  assumes "list_all plain_tag tags"
  shows "tags_equal (Some (PStr (join_with '','' (all_tags tags)))) (all_tags tags)"
proof -
  have "plain_tag ''proxops''" by code_simp
  then have p: "\<forall>t\<in>set (all_tags tags). plain_tag t" using assms by (simp add: all_tags_set list_all_iff)
  have "all_tags tags \<noteq> []" using all_tags_set [of tags] by (metis empty_iff insertI1 list.set(1))
  then have "split_on (CHR '','') (join_with '','' (all_tags tags)) = all_tags tags"
    by (rule split_on_join) (use p in \<open>simp add: plain_tag_def\<close>)
  moreover have "map trim_space (all_tags tags) = all_tags tags"
    by (rule map_idI) (use p in \<open>simp add: plain_tag_def\<close>)
  ultimately show ?thesis by (auto simp: tags_equal_iff live_tags_def)
qed

lemma same_base:
  assumes "reported c (base_writes v)" "list_all plain_tag (vs_tags (vm_spec v))"
  shows "drift_base v c st = st"
proof -
  have "cfg_get c ''memory'' = Some (PInt64 (mem_mib (vs_memory (vm_spec v))))"
    "cfg_get c ''cpu'' = Some (PStr (cp_type (vs_cpu (vm_spec v))))"
    "cfg_get c ''cores'' = Some (PInt (cp_cores (vs_cpu (vm_spec v))))"
    "cfg_get c ''tags'' = Some (PStr (join_with '','' (all_tags (vs_tags (vm_spec v)))))"
    "vm_scsi_hw (vs_disks (vm_spec v)) \<noteq> [] \<longrightarrow> cfg_get c ''scsihw'' = Some (PStr (vm_scsi_hw (vs_disks (vm_spec v))))"
    using assms(1) by (simp_all add: base_writes_def Let_def)
  then show ?thesis
    using tags_reported [OF assms(2)]
    by (simp add: drift_base_def live_int_def pve_int_def mem_mib_def Let_def split: sum.split)
qed

lemma same_nics: "reported c (device_writes v) \<Longrightarrow> drift_nics v c st = st"
proof -
  assume r: "reported c (device_writes v)"
  have "pve_str_at c (fst sn) = nic_string (snd sn)" if "sn \<in> set (nic_slots v)" for sn
  proof -
    have "(fst sn, PStr (nic_string (snd sn))) \<in> set (device_writes v)" using that by (auto simp: device_writes_def)
    from reportedD [OF r this] show ?thesis by (simp add: pve_str_at_def)
  qed
  moreover have "nic_matches s s" for s by (simp add: nic_matches_def Let_def equal_fold_def)
  ultimately have "fold (\<lambda>sn. drift_put (\<not> nic_matches (pve_str_at c (fst sn)) (nic_string (snd sn))) True (fst sn) (PStr (nic_string (snd sn))))
      ns st = st" if "set ns \<subseteq> set (nic_slots v)" for ns
    using that by (induction ns) simp_all
  then show ?thesis by (simp add: drift_nics_def)
qed

subsection \<open>Disks\<close>

lemma fold_same: "(\<And>y st. y \<in> set ys \<Longrightarrow> f y st = st) \<Longrightarrow> fold f ys st = st"
  by (induction ys) simp_all

lemma storage_char_facts: "storage_char c \<Longrightarrow> \<not> is_space c" "\<not> storage_char (CHR '':'')" "\<not> storage_char (CHR '','')" "\<not> storage_char (CHR '';'')"
  by (auto simp: storage_char_def is_alnum_def is_digit_def is_upper_def is_lower_def is_space_def)

lemma trim_storage:
  assumes "storage_id_ok st"
  shows "\<exists>q. trim_space (st @ CHR '':'' # r) = st @ CHR '':'' # q"
proof -
  obtain x xs where st: "st = x # xs" "\<not> is_space x"
    using assms storage_char_facts(1) by (cases st) (auto simp: storage_id_ok_def)
  have "trim_left (rev (st @ CHR '':'' # r)) = dropWhile is_space (rev r) @ CHR '':'' # rev st"
    by (simp add: trim_left_def dropWhile_append is_space_def)
  moreover have "trim_left (st @ CHR '':'' # r) = st @ CHR '':'' # r" using st by (simp add: trim_left_def)
  ultimately have "trim_space (st @ CHR '':'' # r) = st @ CHR '':'' # rev (dropWhile is_space (rev r))"
    by (simp add: trim_space_def)
  then show ?thesis ..
qed

lemma storage_no_prefix:
  assumes "storage_id_ok st" "\<not> storage_char c" "c \<noteq> CHR '':''"
  shows "\<not> has_prefix (st @ CHR '':'' # r) (''none'' @ [c])"
proof
  assume "has_prefix (st @ CHR '':'' # r) (''none'' @ [c])"
  then obtain q where q: "st @ CHR '':'' # r = ''none'' @ c # q" by (auto simp: has_prefix_iff)
  have "takeWhile storage_char (st @ CHR '':'' # r) = st"
    using assms(1) storage_char_facts(2) by (simp add: storage_id_ok_def list_all_iff takeWhile_append2)
  moreover have "storage_char (CHR ''n'')" "storage_char (CHR ''o'')" "storage_char (CHR ''e'')" by code_simp+
  then have "takeWhile storage_char (''none'' @ c # q) = ''none''" using assms(2) by simp
  ultimately have "st = ''none''" using q by metis
  with q assms(3) show False by simp
qed

lemma live_storage_slot:
  assumes "storage_id_ok st"
  shows "\<not> is_new_storage_slot (st @ CHR '':'' # r)"
proof -
  obtain q where q: "trim_space (st @ CHR '':'' # r) = st @ CHR '':'' # q" using trim_storage [OF assms] by blast
  obtain q' where q': "trim_space (st @ CHR '':'' # q) = st @ CHR '':'' # q'" using trim_storage [OF assms] by blast
  have "CHR '':'' \<in> set (st @ CHR '':'' # q')" "CHR '':'' \<notin> set ''none''" by simp_all
  then have n: "st @ CHR '':'' # q' \<noteq> ''none''" by metis
  show ?thesis
    using n storage_no_prefix [OF assms storage_char_facts(3), of q'] storage_no_prefix [OF assms storage_char_facts(4), of q']
    by (simp add: is_new_storage_slot_def is_none_slot_def q q' Let_def)
qed

lemma drive_string_storage: "\<exists>r. drive_volume_string d = dk_storage d @ CHR '':'' # r"
  by (auto simp: drive_volume_string_def disk_volume_string_def)

lemma drive_options_same: "\<not> drive_options_drift i i"
  by (auto simp: drive_options_drift_def equal_fold_def)

lemma same_disks:
  assumes "reported c (device_writes v)" "\<forall>d\<in>set (vs_disks (vm_spec v)). storage_id_ok (dk_storage d)"
  shows "drift_disks v c st = st"
proof -
  have "snd sv = Keep" if "sv \<in> set (disk_verdicts v c)" for sv
  proof -
    from that obtain sd where sd: "sd \<in> set (disk_slots v)" "sv = (fst sd, disk_verdict c (fst sd) (snd sd))"
      unfolding disk_verdicts_def set_map by (elim imageE)
    define k d where "k = fst sd" and "d = snd sd"
    have kd: "(k, d) \<in> set (disk_slots v)" "sv = (k, disk_verdict c k d)"
      using sd by (simp_all add: k_def d_def)
    have "(k, PStr (drive_volume_string d)) \<in> set (device_writes v)" using kd(1) by (force simp: device_writes_def)
    from reportedD [OF assms(1) this] have raw: "pve_str_at c k = drive_volume_string d" by (simp add: pve_str_at_def)
    have "storage_id_ok (dk_storage d)"
      using kd(1) assms(2) by (auto simp: disk_slots_def in_set_enumerate_eq)
    then have "\<not> is_new_storage_slot (drive_volume_string d)"
      using drive_string_storage [of d] live_storage_slot by metis
    then show ?thesis by (simp add: kd(2) disk_verdict_def raw Let_def drive_options_same)
  qed
  moreover from this have "fold disk_update (disk_verdicts v c) [] = []"
    by (intro fold_same) (simp add: disk_update_def)
  ultimately have "fold disk_update (disk_verdicts v c) [] = [] \<and> \<not> list_ex (is_write \<circ> snd) (disk_verdicts v c)"
    by (auto simp: list_ex_iff)
  then show ?thesis by (simp add: drift_disks_def Let_def put_all_def)
qed

subsection \<open>Hardware, cloud-init, cdrom, options\<close>

lemma hostpci_map_distinct: "distinct (map fst (hostpci_token_map s))"
proof -
  have "distinct (map fst m) \<Longrightarrow> distinct (map fst (fold hostpci_token ts m))" for ts and m
    by (induction ts arbitrary: m) (simp_all add: hostpci_token_def Let_def split: option.split)
  then show ?thesis by (simp add: hostpci_token_map_def)
qed

lemma hostpci_same: "hostpci_tokens_equal (pci_device_wire d) d"
  using hostpci_map_distinct [of "pci_device_wire d"]
  by (auto simp: hostpci_tokens_equal_def Let_def list_all_iff)

lemma match_refl:
  "cloud_init_matches x x" "tpm_matches x x" "csv_sets_equal x x" "ssh_keys_wire_match x x"
  by (auto simp: cloud_init_matches_def tpm_matches_def csv_sets_equal_def ssh_keys_wire_match_def same_keys_iff
      equal_fold_def Let_def list_all_iff split: option.split)

lemma secure_boot_values: "secure_boot_wire s = Some k \<Longrightarrow> k = ''1'' \<or> k = ''0''"
  by (auto simp: secure_boot_wire_def Let_def split: if_splits)

lemma same_cloud:
  assumes "reported c (cloud_writes cd)"
  shows "drift_cloud_data cd c st = st"
proof -
  have r: "cd_user cd \<noteq> [] \<longrightarrow> cfg_get c ''ciuser'' = Some (PStr (cd_user cd))"
    "ssh_keys_wire (ssh_keys_effective cd) \<noteq> [] \<longrightarrow> cfg_get c ''sshkeys'' = Some (PStr (ssh_keys_wire (ssh_keys_effective cd)))"
    "password_effective cd \<noteq> [] \<longrightarrow> cfg_get c ''cipassword'' = Some (PStr (password_effective cd))"
    "cd_nameservers cd \<noteq> [] \<longrightarrow> cfg_get c ''nameserver'' = Some (PStr (join_with '' '' (cd_nameservers cd)))"
    "cd_search_domains cd \<noteq> [] \<longrightarrow> cfg_get c ''searchdomain'' = Some (PStr (join_with '' '' (cd_search_domains cd)))"
    "reported c (map (\<lambda>kv. (fst kv, PStr (snd kv))) (ip_config_wire (cd_ip_configs cd)))"
    using assms by (simp_all add: cloud_writes_def Let_def)
  have ips: "fold (\<lambda>kv. drift_put (pve_str_at c (fst kv) \<noteq> snd kv) False (fst kv) (PStr (snd kv)))
          (ip_config_wire (cd_ip_configs cd)) st = st" for st
  proof (rule fold_same)
    fix kv st
    assume "kv \<in> set (ip_config_wire (cd_ip_configs cd))"
    then have "(fst kv, PStr (snd kv)) \<in> set (map (\<lambda>kv. (fst kv, PStr (snd kv))) (ip_config_wire (cd_ip_configs cd)))" by auto
    from reportedD [OF r(6) this]
    show "drift_put (pve_str_at c (fst kv) \<noteq> snd kv) False (fst kv) (PStr (snd kv)) st = st" by (simp add: pve_str_at_def)
  qed
  have j: "join_with '' '' (cd_nameservers cd) \<noteq> [] \<longrightarrow> cfg_get c ''nameserver'' = Some (PStr (join_with '' '' (cd_nameservers cd)))"
    "join_with '' '' (cd_search_domains cd) \<noteq> [] \<longrightarrow> cfg_get c ''searchdomain'' = Some (PStr (join_with '' '' (cd_search_domains cd)))"
    using r(4,5) by (metis join_with.simps(1))+
  have pw: "drift_put (password_effective cd \<noteq> [] \<and> pve_str_at c ''cipassword'' = []) False ''cipassword'' y st = st" for y st
    using r(3) by (auto simp: drift_put_def pve_str_at_def)
  show ?thesis
    unfolding drift_cloud_data_def Let_def ips drift_str_same [OF r(1)] pw
    by (simp only: drift_put_match [where R = ssh_keys_wire_match, OF r(2) match_refl(4)]
        drift_put_match [where R = csv_sets_equal, OF j(1) match_refl(3)]
        drift_put_match [where R = csv_sets_equal, OF j(2) match_refl(3)])
qed

lemma same_options:
  assumes "reported c (option_writes o1)"
  shows "drift_options o1 c st = st"
proof -
  have r: "op_onboot o1 \<longrightarrow> cfg_get c ''onboot'' = Some (PStr ''1'')" "op_startup o1 \<noteq> [] \<longrightarrow> cfg_get c ''startup'' = Some (PStr (op_startup o1))"
    "op_protection o1 \<longrightarrow> cfg_get c ''protection'' = Some (PStr ''1'')" "op_agent o1 \<longrightarrow> cfg_get c ''agent'' = Some (PStr ''1'')"
    "op_acpi o1 \<longrightarrow> cfg_get c ''acpi'' = Some (PStr ''1'')" "op_tablet o1 \<longrightarrow> cfg_get c ''tablet'' = Some (PStr ''1'')"
    "op_hotplug o1 \<noteq> [] \<longrightarrow> cfg_get c ''hotplug'' = Some (PStr (join_with '','' (op_hotplug o1)))"
    "op_boot_order o1 \<noteq> [] \<longrightarrow> cfg_get c ''boot'' = Some (PStr (''order='' @ join_with '';'' (op_boot_order o1)))"
    "op_nested_virt o1 \<longrightarrow> cfg_get c ''nestedvirt'' = Some (PStr ''1'')" "op_hidden o1 \<longrightarrow> cfg_get c ''hidden'' = Some (PStr ''1'')"
    using assms unfolding option_writes_def reported_append reported_opt by blast+
  show ?thesis
    unfolding drift_options_def Let_def drift_flag_same [OF r(1)] drift_str_same [OF r(2)] drift_flag_same [OF r(3)]
      drift_flag_same [OF r(4)] drift_flag_same [OF r(5)] drift_flag_same [OF r(6)] drift_put_own [OF r(7)]
      drift_put_own [OF r(8)] drift_flag_same [OF r(9)] drift_flag_same [OF r(10)]
    by (rule refl)
qed

subsection \<open>The EFI disk\<close>

lemma trim_id: "s \<noteq> [] \<Longrightarrow> \<not> is_space (hd s) \<Longrightarrow> \<not> is_space (List.last s) \<Longrightarrow> trim_space s = s"
proof -
  assume s: "s \<noteq> []" "\<not> is_space (hd s)" "\<not> is_space (List.last s)"
  then have "trim_left s = s" by (cases s) (simp_all add: trim_left_def)
  moreover have "trim_left (rev s) = rev s"
    using s by (cases s rule: rev_cases) (simp_all add: trim_left_def)
  ultimately show ?thesis by (simp add: trim_space_def)
qed

definition num_char :: "char \<Rightarrow> bool" where
  "num_char c \<longleftrightarrow> is_digit c \<or> c = CHR ''.''"

lemma nat_str_digits: "list_all is_digit (nat_str n) \<and> nat_str n \<noteq> []"
proof (induction n rule: nat_str.induct)
  case (1 n)
  have "is_digit (digit_char d)" if "d < 10" for d
  proof -
    have "\<forall>d\<in>set [0..<10]. is_digit (digit_char d)" by code_simp
    with that show ?thesis by simp
  qed
  with 1 show ?case by (subst nat_str.simps) (simp add: nat_str.simps [of n])
qed

lemma digits_num: "list_all is_digit s \<Longrightarrow> list_all num_char s"
  by (auto simp: list_all_iff num_char_def)

lemma gib_string_chars: "list_all num_char (gib_string b) \<and> gib_string b \<noteq> []"
proof -
  have d: "list_all num_char (decimal_str t k) \<and> decimal_str t k \<noteq> []" for t k
    using nat_str_digits digits_num
    by (auto simp: decimal_str_def pad_left_def num_char_def is_digit_def list_all_iff)
  have i: "list_all num_char (itoa x) \<and> itoa x \<noteq> []" if "0 \<le> x" for x
    using that nat_str_digits digits_num by (simp add: itoa_def)
  have "0 \<le> go_div (if b < 0 then 0 else b) (2 ^ 30)" by (simp add: go_div_nonneg pos_imp_zdiv_nonneg_iff)
  then show ?thesis using d i by (simp add: gib_string_def Let_def split: prod.split)
qed

text \<open>An EFI type that reads back: letters and digits.\<close>

definition plain_word :: "string \<Rightarrow> bool" where
  "plain_word s \<longleftrightarrow> list_all is_alnum s"

lemma plain_lower: "plain_word s \<Longrightarrow> plain_word (to_lower s) \<and> to_lower (to_lower s) = to_lower s"
  by (auto simp: plain_word_def to_lower_def list_all_iff lower_char_def is_alnum_def is_digit_def is_upper_def is_lower_def)

lemma cut_eq_at: "CHR ''='' \<notin> set k \<Longrightarrow> cut_eq (k @ CHR ''='' # v) = Some (k, v)"
  by (simp add: cut_eq_def index_byte_append)

lemma cut_eq_none: "CHR ''='' \<notin> set k \<Longrightarrow> cut_eq k = None"
  by (simp add: cut_eq_def index_byte_None split: option.split)

lemma trim_nospace: "list_all (\<lambda>c. \<not> is_space c) s \<Longrightarrow> trim_space s = s"
proof (cases "s = []")
  case False
  assume "list_all (\<lambda>c. \<not> is_space c) s"
  then show ?thesis using False hd_in_set [OF False] last_in_set [OF False] by (intro trim_id) (auto simp: list_all_iff)
qed (simp add: trim_space_def trim_left_def)

lemma char_classes:
  "is_digit c \<Longrightarrow> \<not> is_space c" "is_alnum c \<Longrightarrow> \<not> is_space c" "num_char c \<Longrightarrow> \<not> is_space c"
  "is_alnum c \<Longrightarrow> c \<noteq> CHR '',''" "num_char c \<Longrightarrow> c \<noteq> CHR '',''" "num_char c \<Longrightarrow> c \<noteq> CHR ''=''"
  by (auto simp: num_char_def is_alnum_def is_digit_def is_upper_def is_lower_def is_space_def)

definition efi_tokens :: "efi_disk \<Rightarrow> string list" where
  "efi_tokens ef = gib_string (size_bytes (ef_size ef)) #
     (if ef_template ef = [] then [] else [''efitype='' @ to_lower (ef_template ef)]) @
     (case secure_boot_wire (ef_secure_boot ef) of None \<Rightarrow> [] | Some k \<Rightarrow> [''pre-enrolled-keys='' @ k])"

lemma efi_wire_tokens: "efi_wire ef = ef_storage ef @ CHR '':'' # join_with '','' (efi_tokens ef)"
  by (simp add: efi_wire_def efi_tokens_def split: option.split)

lemma first_size_token:
  assumes "list_all num_char g"
  shows "di_efitype (disk_token (0, g) out) = di_efitype out \<and> di_pre (disk_token (0, g) out) = di_pre out"
proof -
  have "trim_space g = g" using assms char_classes(3) by (intro trim_nospace) (auto simp: list_all_iff)
  moreover have "CHR ''='' \<notin> set g" using assms char_classes(6) by (auto simp: list_all_iff)
  ultimately show ?thesis by (simp add: disk_token_def cut_eq_none split: option.split)
qed

lemma efitype_token:
  assumes "plain_word t" "t \<noteq> []"
  shows "disk_token (i, ''efitype='' @ t) out = out\<lparr>di_efitype := to_lower t\<rparr>"
proof -
  have "list_all (\<lambda>c. \<not> is_space c) (''efitype='' @ t)"
    using assms(1) char_classes(2) by (auto simp: plain_word_def list_all_iff is_space_def)
  from trim_nospace [OF this] have "disk_token (i, ''efitype='' @ t) out =
      (case cut_eq (''efitype'' @ CHR ''='' # t) of Some (k, v) \<Rightarrow> disk_option (''efitype='' @ t) k v out | None \<Rightarrow> out)"
    by (simp add: disk_token_def cut_eq_at [of "''efitype''", simplified])
  then show ?thesis by (simp only: cut_eq_at) (simp add: cut_eq_at [of "''efitype''", simplified] disk_option_def)
qed

lemma keys_token: "k = ''1'' \<or> k = ''0'' \<Longrightarrow> disk_token (i, ''pre-enrolled-keys='' @ k) out = out\<lparr>di_pre := Some (k = ''1'')\<rparr>"
proof -
  have t: "trim_space ''pre-enrolled-keys=1'' = ''pre-enrolled-keys=1''" "trim_space ''pre-enrolled-keys=0'' = ''pre-enrolled-keys=0''"
    "cut_eq ''pre-enrolled-keys=1'' = Some (''pre-enrolled-keys'', ''1'')" "cut_eq ''pre-enrolled-keys=0'' = Some (''pre-enrolled-keys'', ''0'')"
    by code_simp+
  show "k = ''1'' \<or> k = ''0'' \<Longrightarrow> ?thesis" by (elim disjE) (simp_all add: disk_token_def t disk_option_def truthy_def)
qed

lemma efi_read_back:
  assumes "storage_id_ok (ef_storage ef)" "plain_word (ef_template ef)"
  shows "di_efitype (parse_disk_info (efi_wire ef)) = to_lower (ef_template ef) \<and>
    di_pre (parse_disk_info (efi_wire ef)) = map_option (\<lambda>k. k = ''1'') (secure_boot_wire (ef_secure_boot ef))"
proof -
  let ?ts = "efi_tokens ef" and ?g = "gib_string (size_bytes (ef_size ef))" and ?t = "to_lower (ef_template ef)"
  let ?k = "secure_boot_wire (ef_secure_boot ef)"
  note g = gib_string_chars [of "size_bytes (ef_size ef)"] and t = plain_lower [OF assms(2)]
  let ?ok = "\<lambda>c. \<not> is_space c \<and> c \<noteq> CHR '',''"
  have c: "list_all ?ok ''efitype=''" "list_all ?ok ''pre-enrolled-keys=1''" "list_all ?ok ''pre-enrolled-keys=0''" by code_simp+
  have ok1: "list_all ?ok ?g" using g char_classes(3,5) by (auto simp: list_all_iff)
  have ok2: "list_all ?ok (''efitype='' @ ?t)"
    using c(1) t char_classes(2,4) by (simp only: list_all_append plain_word_def) (auto simp: list_all_iff)
  have ok3: "list_all ?ok x" if "x \<in> set (case ?k of None \<Rightarrow> [] | Some k \<Rightarrow> [''pre-enrolled-keys='' @ k])" for x
  proof (cases ?k)
    case (Some k)
    then have "x = ''pre-enrolled-keys=1'' \<or> x = ''pre-enrolled-keys=0''"
      using that secure_boot_values [of "ef_secure_boot ef"] by auto
    then show ?thesis by (elim disjE) (use c(2,3) in \<open>simp_all only:\<close>)
  qed (use that in simp)
  have all_ok: "list_all ?ok x" if "x \<in> set ?ts" for x
  proof -
    have "x = ?g \<or> x = ''efitype='' @ ?t \<or> x \<in> set (case ?k of None \<Rightarrow> [] | Some k \<Rightarrow> [''pre-enrolled-keys='' @ k])"
      using that by (cases "ef_template ef = []") (auto simp: efi_tokens_def)
    then show ?thesis
    proof (elim disjE)
      assume "x = ?g" with ok1 show ?thesis by (simp only:)
    next
      assume "x = ''efitype='' @ ?t" with ok2 show ?thesis by (simp only:)
    qed (rule ok3)
  qed
  have tok: "CHR '','' \<notin> set x \<and> list_all (\<lambda>c. \<not> is_space c) x" if "x \<in> set ?ts" for x
    using all_ok [OF that] by (auto simp: list_all_iff)
  have "list_all (\<lambda>c. \<not> is_space c) (join_with '','' xs)" if "\<forall>x\<in>set xs. list_all (\<lambda>c. \<not> is_space c) x" for xs
    using that by (induction "'',''" xs rule: join_with.induct) (simp_all add: is_space_def)
  then have "list_all (\<lambda>c. \<not> is_space c) (join_with '','' ?ts)" using tok by blast
  then have "list_all (\<lambda>c. \<not> is_space c) (efi_wire ef)"
    using assms(1) storage_char_facts(1) by (auto simp: efi_wire_tokens storage_id_ok_def list_all_iff is_space_def)
  then have trim: "trim_space (efi_wire ef) = efi_wire ef" by (rule trim_nospace)
  have st: "CHR '':'' \<notin> set (ef_storage ef)" "ef_storage ef \<noteq> []"
    using assms(1) storage_char_facts(2) by (auto simp: storage_id_ok_def list_all_iff)
  have "split_on (CHR '','') (join_with '','' ?ts) = ?ts"
    by (rule split_on_join) (use tok in \<open>auto simp: efi_tokens_def\<close>)
  then have p: "parse_disk_info (efi_wire ef) = fold disk_token (enumerate 0 ?ts) (no_disk_info\<lparr>di_pool := ef_storage ef\<rparr>)"
    using st by (simp add: parse_disk_info_def trim) (simp add: efi_wire_tokens index_byte_append)
  have gg: "list_all num_char ?g" using g by blast
  have tn: "ef_template ef \<noteq> [] \<Longrightarrow> ?t \<noteq> []" by (simp add: to_lower_def)
  show ?thesis
    unfolding p using first_size_token [OF gg] efitype_token [of ?t] keys_token secure_boot_values [of "ef_secure_boot ef"] t tn
    by (cases "ef_template ef = []"; cases ?k) (auto simp: efi_tokens_def no_disk_info_def to_lower_def [of "[]"])
qed

lemma efi_options_same:
  assumes "storage_id_ok (ef_storage ef)" "plain_word (ef_template ef)"
  shows "\<not> efi_options_drift ef (parse_disk_info (efi_wire ef))"
  using efi_read_back [OF assms] secure_boot_values [of "ef_secure_boot ef"]
  by (auto simp: efi_options_drift_def Let_def split: option.split)

subsection \<open>The whole manifest\<close>

lemma same_efi:
  assumes "storage_id_ok (ef_storage ef)" "plain_word (ef_template ef)" "cfg_get c ''efidisk0'' = Some (PStr (efi_wire ef))"
  shows "drift_efi ef c st = st"
proof -
  have "pve_str_at c ''efidisk0'' = efi_wire ef" using assms(3) by (simp add: pve_str_at_def)
  moreover have "\<not> is_new_storage_slot (efi_wire ef)"
    unfolding efi_wire_tokens by (rule live_storage_slot [OF assms(1)])
  ultimately show ?thesis using efi_options_same [OF assms(1,2)] by (simp add: drift_efi_def Let_def)
qed

lemma drift_int_own: "(b \<longrightarrow> cfg_get c k = Some (PInt n)) \<Longrightarrow> drift_put (b \<and> live_int c k \<noteq> n) s k x st = st"
  by (auto simp: drift_put_def live_int_def pve_int_def)

definition efi_plain :: "vm \<Rightarrow> bool" where
  "efi_plain v = (case hw_efi (vs_hardware (vm_spec v)) of None \<Rightarrow> True
     | Some ef \<Rightarrow> storage_id_ok (ef_storage ef) \<and> plain_word (ef_template ef))"

lemma same_hardware:
  assumes "reported c (hardware_writes v)" "efi_plain v"
  shows "drift_hardware v c st = st"
proof -
  let ?hw = "vs_hardware (vm_spec v)"
  let ?ci = "hw_cloud_init ?hw"
  have r: "hw_machine ?hw \<noteq> [] \<longrightarrow> cfg_get c ''machine'' = Some (PStr (hw_machine ?hw))"
    "hw_bios ?hw \<noteq> [] \<longrightarrow> cfg_get c ''bios'' = Some (PStr (hw_bios ?hw))"
    "hw_display ?hw \<noteq> [] \<longrightarrow> cfg_get c ''vga'' = Some (PStr (hw_display ?hw))"
    "hw_sockets ?hw \<noteq> 0 \<longrightarrow> cfg_get c ''sockets'' = Some (PInt (hw_sockets ?hw))"
    "hw_numa ?hw \<longrightarrow> cfg_get c ''numa'' = Some (PStr ''1'')"
    "ci_enabled ?ci \<longrightarrow> cfg_get c ''ide2'' = Some (PStr (cloud_init_wire ?ci))"
    "hw_serial0 ?hw \<noteq> [] \<longrightarrow> cfg_get c ''serial0'' = Some (PStr (hw_serial0 ?hw))"
    and dev: "\<And>ef. hw_efi ?hw = Some ef \<Longrightarrow> cfg_get c ''efidisk0'' = Some (PStr (efi_wire ef))"
      "\<And>ver. hw_tpm ?hw = Some ver \<Longrightarrow> cfg_get c ''tpm0'' = Some (PStr (tpm_wire ver))"
    and pci: "reported c (map (\<lambda>d. (pd_slot d, PStr (pci_device_wire d))) (hw_pci ?hw))"
    using assms(1) by (auto simp: hardware_writes_def Let_def split: if_splits)
  have n: "drift_put (hw_numa ?hw \<and> cfg_str c ''numa'' \<noteq> ''1'' \<and> live_int c ''numa'' \<noteq> 1) True ''numa'' x st = st" for x st
    using r(5) by (auto simp: drift_put_def cfg_str_def)
  have ci: "drift_put (ci_enabled ?ci \<and> \<not> cloud_init_matches (pve_str_at c cloud_init_slot) (cloud_init_wire ?ci) \<and> b) True cloud_init_slot x st = st" for b x st
    using r(6) match_refl(1) by (auto simp: drift_put_def pve_str_at_def cloud_init_slot_def)
  have efi: "(case hw_efi ?hw of None \<Rightarrow> st | Some ef \<Rightarrow> drift_efi ef c st) = st" for st
    using assms(2) dev(1) by (auto simp: efi_plain_def same_efi split: option.splits)
  have tpm: "(case hw_tpm ?hw of None \<Rightarrow> st | Some ver \<Rightarrow>
      drift_put (\<not> tpm_matches (pve_str_at c ''tpm0'') (tpm_wire ver)) True ''tpm0'' (PStr (tpm_wire ver)) st) = st" for st
    using dev(2) match_refl(2) by (auto simp: pve_str_at_def split: option.splits)
  have p: "fold (\<lambda>d. drift_put (\<not> hostpci_tokens_equal (pve_str_at c (pd_slot d)) d) True (pd_slot d) (PStr (pci_device_wire d))) (hw_pci ?hw) st = st" for st
  proof (rule fold_same)
    fix d st
    assume "d \<in> set (hw_pci ?hw)"
    then have "(pd_slot d, PStr (pci_device_wire d)) \<in> set (map (\<lambda>d. (pd_slot d, PStr (pci_device_wire d))) (hw_pci ?hw))" by auto
    from reportedD [OF pci this]
    show "drift_put (\<not> hostpci_tokens_equal (pve_str_at c (pd_slot d)) d) True (pd_slot d) (PStr (pci_device_wire d)) st = st"
      by (simp add: pve_str_at_def hostpci_same)
  qed
  show ?thesis
    unfolding drift_hardware_def Let_def drift_str_same [OF r(1)] drift_str_same [OF r(2)] drift_str_same [OF r(3)]
      drift_int_own [OF r(4)] n ci efi tpm drift_str_same [OF r(7)] p by (rule refl)
qed

text \<open>An attached cdrom as the resolution of an ISO leaves it.\<close>

definition cdrom_resolved :: "vm \<Rightarrow> bool" where
  "cdrom_resolved v \<longleftrightarrow> (cdrom_managed_state v = Attached \<longrightarrow>
     (\<exists>pool file. vm_cdrom_volid v = pool @ '':iso/'' @ file \<and> storage_id_ok pool \<and> artifact_name_ok file))"

lemma cdrom_volid_parse:
  assumes "storage_id_ok pool" "artifact_name_ok fnm" "list_all (\<lambda>c. \<not> is_space c) sfx"
    and "sfx = [] \<or> (\<exists>r. sfx = CHR '','' # r)"
  shows "\<exists>m. parse_cdrom (pool @ '':iso/'' @ fnm @ sfx) = Some \<lparr>cr_pool = pool, cr_filename = fnm, cr_media = m\<rparr> \<and> (sfx = [] \<longrightarrow> m = [])"
proof -
  let ?s = "pool @ CHR '':'' # ''iso/'' @ fnm @ sfx"
  have f: "list_all storage_char fnm" "fnm \<noteq> []"
    using assms(2) by (auto simp: artifact_name_ok_def storage_char_def split: list.splits)
  have ns: "list_all (\<lambda>c. \<not> is_space c) ''iso/''" "\<not> is_space (CHR '':'')" by code_simp+
  have "list_all (\<lambda>c. \<not> is_space c) pool" "list_all (\<lambda>c. \<not> is_space c) fnm"
    using assms(1) f(1) storage_char_facts(1) by (auto simp: storage_id_ok_def list_all_iff)
  with ns assms(3) have t: "trim_space ?s = ?s" by (intro trim_nospace) (simp only: list_all_append list.pred_inject simp_thms)
  have p: "CHR '':'' \<notin> set pool" "pool \<noteq> []" using assms(1) storage_char_facts(2) by (auto simp: storage_id_ok_def list_all_iff)
  have fc: "\<forall>c\<in>set fnm. c \<noteq> CHR '','' \<and> c \<noteq> CHR ''=''"
    using f(1) by (auto simp: list_all_iff storage_char_def is_alnum_def is_digit_def is_upper_def is_lower_def)
  have tw: "takeWhile (\<lambda>x. x \<noteq> CHR '','') (fnm @ sfx) = fnm"
  proof -
    have "takeWhile (\<lambda>x. x \<noteq> CHR '','') (fnm @ sfx) = fnm @ takeWhile (\<lambda>x. x \<noteq> CHR '','') sfx"
      by (rule takeWhile_append2) (use fc in blast)
    moreover have "takeWhile (\<lambda>x. x \<noteq> CHR '','') sfx = []" using assms(4) by (elim disjE exE) simp_all
    ultimately show ?thesis by simp
  qed
  have n: "?s \<noteq> ''none''"
  proof
    assume e: "?s = ''none''"
    have "CHR '':'' \<in> set ?s" by simp
    with e show False by (simp only:) simp
  qed
  have m: "fold (\<lambda>o1 m. case cut_eq o1 of Some (k, v) \<Rightarrow> if k = ''media'' then v else m | None \<Rightarrow> m)
      (split_on (CHR '','') (''iso/'' @ fnm)) [] = []"
  proof -
    have "CHR '','' \<notin> set (''iso/'' @ fnm)" "CHR ''='' \<notin> set (''iso/'' @ fnm)" using fc by auto
    note d = split_on_no_sep [OF this(1)] cut_eq_none [OF this(2)]
    show ?thesis unfolding d(1) by (simp only: fold_simps d(2) option.case)
  qed
  have "parse_cdrom ?s = Some \<lparr>cr_pool = pool, cr_filename = fnm,
      cr_media = fold (\<lambda>o1 m. case cut_eq o1 of Some (k, v) \<Rightarrow> if k = ''media'' then v else m | None \<Rightarrow> m)
        (split_on (CHR '','') (''iso/'' @ fnm @ sfx)) []\<rparr>"
    unfolding parse_cdrom_def Let_def t using n p f(2) tw by (simp add: index_byte_append)
  with m show ?thesis by auto
qed

lemma same_cdrom:
  assumes "reported c (hardware_writes v)" "cdrom_resolved v" "cd_media (hw_cdrom (vs_hardware (vm_spec v))) \<in> {[], ''cdrom'', ''disk''}"
  shows "drift_cdrom v c st = st"
proof (cases "cdrom_managed_state v")
  case Unmanaged
  then show ?thesis by (simp add: drift_cdrom_def Let_def)
next
  case Detached
  then have "cfg_get c (cdrom_slot v) = Some (PStr cdrom_none)"
    using assms(1) by (simp add: hardware_writes_def Let_def cdrom_wire_value_def)
  moreover have "trim_space cdrom_none = cdrom_none" by code_simp
  ultimately show ?thesis using Detached by (simp add: drift_cdrom_def Let_def pve_str_at_def)
next
  case Attached
  let ?m = "cd_media (hw_cdrom (vs_hardware (vm_spec v)))"
  let ?tl = "'',media='' @ (if ?m = [] then ''cdrom'' else ?m)"
  obtain pool fnm where v: "vm_cdrom_volid v = pool @ '':iso/'' @ fnm" "storage_id_ok pool" "artifact_name_ok fnm"
    using assms(2) Attached by (auto simp: cdrom_resolved_def)
  have "vm_cdrom_volid v \<noteq> []" by (simp add: v(1))
  then have src: "cdrom_source v = pool @ '':iso/'' @ fnm" by (simp add: cdrom_source_def v(1))
  then have w: "cdrom_wire_value v = pool @ '':iso/'' @ fnm @ ?tl"
    using Attached by (simp add: cdrom_wire_value_def Let_def)
  have "list_all (\<lambda>c. \<not> is_space c) '',media=cdrom''" "list_all (\<lambda>c. \<not> is_space c) '',media=disk''" by code_simp+
  then have "list_all (\<lambda>c. \<not> is_space c) ?tl" using assms(3) by auto
  from cdrom_volid_parse [OF v(2,3) this] obtain m where
    1: "parse_cdrom (cdrom_wire_value v) = Some \<lparr>cr_pool = pool, cr_filename = fnm, cr_media = m\<rparr>" unfolding w by auto
  have 2: "parse_cdrom (cdrom_source v) = Some \<lparr>cr_pool = pool, cr_filename = fnm, cr_media = []\<rparr>"
    using cdrom_volid_parse [OF v(2,3), of "[]"] by (simp add: src)
  have "cfg_get c (cdrom_slot v) = Some (PStr (cdrom_wire_value v))"
    using assms(1) Attached by (simp add: hardware_writes_def Let_def)
  then have "cdrom_matches (pve_str_at c (cdrom_slot v)) (cdrom_source v)"
    by (simp add: pve_str_at_def cdrom_matches_def 1 2)
  then show ?thesis using Attached by (simp add: drift_cdrom_def Let_def)
qed

lemma no_drift_written:
  assumes "distinct (map fst (vm_writes v))" "\<not> is_clone_backed v" "list_all plain_tag (vs_tags (vm_spec v))"
    and "\<forall>d\<in>set (vs_disks (vm_spec v)). storage_id_ok (dk_storage d)" "efi_plain v" "cdrom_resolved v"
    and "cd_media (hw_cdrom (vs_hardware (vm_spec v))) \<in> {[], ''cdrom'', ''disk''}"
  shows "vm_drift v (Some (vm_params_filled v)) = (None, False, False)"
proof -
  let ?c = "Some (vm_writes v)"
  have "reported ?c (vm_writes v)" by (rule reported_self [OF assms(1)])
  then have r: "reported ?c (base_writes v)" "reported ?c (device_writes v)" "reported ?c (hardware_writes v)"
    "reported ?c (cloud_writes (vs_cloud_data (vm_spec v)))" "reported ?c (option_writes (vs_options (vm_spec v)))"
    by (simp_all add: vm_writes_def [of v, THEN arg_cong [where f = "reported ?c"]])
  have "drift_clone v ?c st = st" for st using assms(2) by (simp add: drift_clone_def)
  then have "vm_drift_state v ?c = ([], False)"
    by (simp add: vm_drift_state_def same_options [OF r(5)] same_cdrom [OF r(3) assms(6,7)] same_cloud [OF r(4)]
        same_hardware [OF r(3) assms(5)] same_nics [OF r(2)] same_disks [OF r(2) assms(4)] same_base [OF r(1) assms(3)])
  then show ?thesis by (simp add: vm_drift_def vm_params_writes [OF assms(1)])
qed

end
