(* ===== verification/Vm_Props.thy ===== *)
theory Vm_Props
  imports Vm_Converge
begin

text \<open>
  The properties of VM manifests: what an update may write into a drive slot, that a created VM
  shows no drift, what a clone inherits, and the SSH keys on the wire.
\<close>

section \<open>Live drives\<close>

lemma enumerate_again: "enumerate n (map f (enumerate n xs)) = map (\<lambda>(i, x). (i, f (i, x))) (enumerate n xs)"
  by (induction xs arbitrary: n) simp_all

lemma map_enumerate_same: "(\<And>i x. f (i, x) = g x) \<Longrightarrow> map f (enumerate n xs) = map g xs"
  by (induction xs arbitrary: n) simp_all

lemma fill_disk_slots: "disk_slots (vm_filled v) = map (\<lambda>(i, d). (slot_or ''scsi'' i (dk_slot d), d\<lparr>dk_slot := slot_or ''scsi'' i (dk_slot d)\<rparr>)) (enumerate 0 (vs_disks (vm_spec v)))"
  by (simp add: disk_slots_def vm_filled_def Let_def fill_disks_def slot_or_def enumerate_again case_prod_unfold)

lemma fill_nic_slots: "map fst (nic_slots (vm_filled v)) = map fst (nic_slots v)"
  by (simp add: nic_slots_def vm_filled_def Let_def fill_nics_def slot_or_def enumerate_again case_prod_unfold)

lemma fill_disk_storage: "map dk_storage (vs_disks (vm_spec (vm_filled v))) = map dk_storage (vs_disks (vm_spec v))"
  by (simp add: vm_filled_def Let_def fill_disks_def map_enumerate_same)

lemma filled_slots_ok: "vm_slots_ok v \<Longrightarrow> vm_slots_ok (vm_filled v)"
proof -
  assume v: "vm_slots_ok v"
  have d: "map fst (disk_slots (vm_filled v)) = map fst (disk_slots v)"
    unfolding fill_disk_slots by (simp add: disk_slots_def case_prod_unfold)
  have p: "map pd_slot (hw_pci (vs_hardware (vm_spec (vm_filled v)))) = map pd_slot (pci_order (hw_pci (vs_hardware (vm_spec v))))"
    by (simp add: vm_filled_def Let_def fill_hardware_def pci_normal_def)
  have "set (map dk_storage (vs_disks (vm_spec (vm_filled v)))) = set (map dk_storage (vs_disks (vm_spec v)))"
    by (simp only: fill_disk_storage)
  then have st: "(\<forall>d\<in>set (vs_disks (vm_spec (vm_filled v))). dk_storage d \<noteq> []) \<longleftrightarrow> (\<forall>d\<in>set (vs_disks (vm_spec v)). dk_storage d \<noteq> [])"
    by (metis (no_types, lifting) image_iff set_map)
  show ?thesis
    using v unfolding vm_slots_ok_def d fill_nic_slots p st
    by (simp add: pci_order_def distinct_sort_map list_all_iff)
qed

text \<open>A drive value that names the pool and the volume of the live one, options aside.\<close>

definition names_volume :: "disk_info \<Rightarrow> string \<Rightarrow> bool" where
  "names_volume cur y \<longleftrightarrow> (\<exists>opts. y = di_pool cur @ '':'' @ di_volume cur @ opts \<and> (opts = [] \<or> hd opts = CHR '',''))"

lemma rewrite_names_volume: "names_volume cur (live_drive_rewrite cur want)"
  by (auto simp: names_volume_def live_drive_rewrite_def Let_def hd_append split: option.split)

definition rewrites_live :: "config \<Rightarrow> string \<Rightarrow> disk \<Rightarrow> string \<Rightarrow> bool" where
  "rewrites_live current k d y \<longleftrightarrow>
     (let cur = parse_disk_info (pve_str_at current k); want = parse_disk_info (drive_volume_string d)
      in di_pool cur = di_pool want \<and> (di_size_set want \<and> di_size_set cur \<longrightarrow> di_size cur = di_size want) \<and>
         names_volume cur y)"

lemma disk_verdict_write:
  "disk_verdict current k d = Write y \<Longrightarrow>
   if is_new_storage_slot (pve_str_at current k) then y = drive_volume_string d else rewrites_live current k d y"
  by (auto simp: disk_verdict_def Let_def rewrites_live_def rewrite_names_volume split: if_splits)

text \<open>
  C2: a live data disk is never recreated.  Whatever the update of a validated VM writes at a drive
  slot, the slot is one the manifest declares; an empty slot gets the create form, and a slot that
  holds a volume gets that volume back, in the same pool and at the same size, with options only.
\<close>

theorem vm_drift_never_recreates:
  assumes "vm_validate v = None" "vm_drift (vm_filled v) current = (Some upd, stop, cfg)"
    and "is_disk_slot k" "map_of upd k = Some x"
  shows "\<exists>d. (k, d) \<in> set (disk_slots (vm_filled v)) \<and>
    (if is_new_storage_slot (pve_str_at current k) then x = PStr (drive_volume_string d)
     else (\<exists>y. x = PStr y \<and> rewrites_live current k d y))"
proof -
  have "vm_slots_ok (vm_filled v)" using assms(1) by (intro filled_slots_ok vm_validate_slots)
  moreover have "map_of (fst (vm_drift_state (vm_filled v) current)) k = Some x"
    using assms(2,4) by (simp add: vm_drift_def Let_def split: if_splits)
  ultimately obtain d y where "(k, d) \<in> set (disk_slots (vm_filled v))" "disk_verdict current k d = Write y" "x = PStr y"
    using vm_drift_disk [OF _ assms(3)] by blast
  then show ?thesis using disk_verdict_write [of current k d y] by (auto split: if_splits)
qed

definition ex_disk :: disk where
  "ex_disk = new_disk\<lparr>dk_storage := ''local-lvm'', dk_size := ''8GiB'', dk_iothread := True\<rparr>"

definition ex_vm :: vm where
  "ex_vm = new_vm\<lparr>vm_metadata := empty_metadata\<lparr>md_name := ''web''\<rparr>,
     vm_spec := zero_vm_spec\<lparr>vs_node := ''pve1'', vs_vmid := 100, vs_tags := [''prod''],
       vs_cpu := \<lparr>cp_type = ''host'', cp_cores = 2, cp_flags = []\<rparr>, vs_memory := ''2GiB'', vs_disks := [ex_disk],
       vs_nics := [zero_nic\<lparr>ni_bridge := ''vmbr0''\<rparr>]\<rparr>\<rparr>"

definition ex_live :: config where
  "ex_live = Some [(''scsi0'', PStr ''local-lvm:vm-100-disk-0,size=8G'')]"

lemma ex_vm_drift:
  "vm_drift (vm_filled ex_vm) ex_live =
     (Some [(''cpu'', PStr ''host''), (''cores'', PInt 2), (''memory'', PInt64 2048), (''tags'', PStr ''prod,proxops''),
        (''scsi0'', PStr ''local-lvm:vm-100-disk-0,size=8G,iothread=1''), (''net0'', PStr ''virtio,bridge=vmbr0'')], True, True)"
  by code_simp

theorem vm_drift_never_recreates_witness:
  "\<exists>d. (''scsi0'', d) \<in> set (disk_slots (vm_filled ex_vm)) \<and>
    (if is_new_storage_slot (pve_str_at ex_live ''scsi0'')
     then PStr ''local-lvm:vm-100-disk-0,size=8G,iothread=1'' = PStr (drive_volume_string d)
     else (\<exists>y. PStr ''local-lvm:vm-100-disk-0,size=8G,iothread=1'' = PStr y \<and> rewrites_live ex_live ''scsi0'' d y))"
proof (rule vm_drift_never_recreates [OF _ ex_vm_drift])
  show "vm_validate ex_vm = None" by code_simp
  show "is_disk_slot ''scsi0''" by code_simp
qed simp

section \<open>A created VM\<close>

lemma validate_media:
  "vm_validate v = None \<Longrightarrow> cd_media (hw_cdrom (vs_hardware (vm_spec (vm_filled v)))) \<in> {[], ''cdrom'', ''disk''}"
  by (simp add: vm_validate_def Let_def checks_None check_hardware_def vm_filled_def fill_hardware_def)

text \<open>
  C18: create and read back.  When the live configuration is exactly what the create call sent, the
  next cycle finds no drift: nothing to write and nothing to restart.  The manifest is not a clone,
  no two of its settings share a key, tags have no commas or outer spaces, storage names are
  storage ids, the EFI type is a word, and a declared ISO has been resolved to its volume.
\<close>

theorem vm_create_converges:
  assumes "vm_to_create_params v = Inr p" "\<not> is_clone_backed v"
    and "distinct (map fst (vm_writes (vm_filled v)))" "list_all plain_tag (vs_tags (vm_spec v))"
    and "\<forall>d\<in>set (vs_disks (vm_spec v)). storage_id_ok (dk_storage d)"
    and "efi_plain (vm_filled v)" "cdrom_resolved (vm_filled v)"
  shows "vm_drift (vm_filled v) (Some p) = (None, False, False)"
proof -
  have ok: "vm_validate v = None" and p: "p = vm_params_filled (vm_filled v)"
    using assms(1) by (auto simp: vm_to_create_params_def split: option.splits)
  have c: "\<not> is_clone_backed (vm_filled v)" "vs_tags (vm_spec (vm_filled v)) = vs_tags (vm_spec v)"
    using assms(2) by (simp_all add: vm_filled_def is_clone_backed_def clone_name_def Let_def)
  have "set (map dk_storage (vs_disks (vm_spec (vm_filled v)))) = set (map dk_storage (vs_disks (vm_spec v)))"
    by (simp only: fill_disk_storage)
  then have "\<forall>d\<in>set (vs_disks (vm_spec (vm_filled v))). storage_id_ok (dk_storage d)"
    using assms(5) by (metis (no_types, lifting) image_iff set_map)
  from no_drift_written [OF assms(3) c(1) _ this assms(6,7) validate_media [OF ok]] assms(4) c(2) p
  show ?thesis by simp
qed

definition ex_vm_full :: vm where
  "ex_vm_full = ex_vm\<lparr>vm_cdrom_volid := ''local:iso/debian.iso'',
     vm_spec := (vm_spec ex_vm)
       \<lparr>vs_hardware := zero_hardware
          \<lparr>hw_bios := ''ovmf'', hw_cdrom := \<lparr>cd_iso = ''debian'', cd_media = []\<rparr>,
           hw_efi := Some \<lparr>ef_storage = ''local-lvm'', ef_size = [], ef_template = ''4M'', ef_secure_boot = ''enabled''\<rparr>,
           hw_cloud_init := \<lparr>ci_enabled = True, ci_storage = ''local-lvm'', ci_size = []\<rparr>, hw_tpm := Some []\<rparr>,
        vs_options := zero_opts\<lparr>op_onboot := True, op_boot_order := [''scsi0'', ''net0'']\<rparr>,
        vs_cloud_data := zero_cloud_data\<lparr>cd_user := ''ops'', cd_ssh_keys := [''ssh-ed25519 AAAA ops''],
          cd_nameservers := [''10.0.0.1''], cd_ip_configs := [\<lparr>ip_nic = 0, ip_addr = ''10.0.0.5/24'', ip_gateway = ''10.0.0.1''\<rparr>]\<rparr>\<rparr>\<rparr>"

theorem vm_create_converges_witness:
  "vm_drift (vm_filled ex_vm_full) (Some (vm_params_filled (vm_filled ex_vm_full))) = (None, False, False)"
proof (rule vm_create_converges)
  have "vm_validate ex_vm_full = None" by code_simp
  then show "vm_to_create_params ex_vm_full = Inr (vm_params_filled (vm_filled ex_vm_full))"
    by (simp add: vm_to_create_params_def)
  show "\<not> is_clone_backed ex_vm_full" by code_simp
  show "distinct (map fst (vm_writes (vm_filled ex_vm_full)))" by code_simp
  show "list_all plain_tag (vs_tags (vm_spec ex_vm_full))" by code_simp
  show "\<forall>d\<in>set (vs_disks (vm_spec ex_vm_full)). storage_id_ok (dk_storage d)" by code_simp
  show "efi_plain (vm_filled ex_vm_full)" by code_simp
  have "vm_cdrom_volid (vm_filled ex_vm_full) = ''local'' @ '':iso/'' @ ''debian.iso''" "storage_id_ok ''local''" "artifact_name_ok ''debian.iso''"
    by code_simp+
  then show "cdrom_resolved (vm_filled ex_vm_full)" unfolding cdrom_resolved_def by blast
qed

text \<open>
  A tag with a comma passes validation, reads back as two tags and is written again by every cycle:
  the update it causes leaves the configuration as it was.
\<close>

lemma comma_tag_drifts:
  "let v = ex_vm\<lparr>vm_spec := (vm_spec ex_vm)\<lparr>vs_tags := [''a,b'']\<rparr>\<rparr>; p = vm_params_filled (vm_filled v)
   in vm_validate v = None \<and> map_of p ''tags'' = Some (PStr ''a,b,proxops'') \<and>
      vm_drift (vm_filled v) (Some p) = (Some [(''tags'', PStr ''a,b,proxops'')], False, True)"
  by code_simp

end
