(* ===== verification/Vm_Keys.thy ===== *)
theory Vm_Keys
  imports Vm_Converge
begin

text \<open>SSH keys and name server lists: what is written, read back, and compared.\<close>

section \<open>SSH keys\<close>

text \<open>A public key as a manifest line holds it.\<close>

definition plain_key :: "string \<Rightarrow> bool" where
  "plain_key k \<longleftrightarrow> k \<noteq> [] \<and> trim_space k = k \<and> CHR 10 \<notin> set k \<and> k \<noteq> redacted_sentinel"

lemma escape_plus_none: "CHR ''+'' \<notin> set s \<Longrightarrow> escape_plus s = s"
  by (induction s) (auto simp: escape_plus_def)

lemma ssh_key_set_wire:
  assumes "keys \<noteq> []" "\<forall>k\<in>set keys. plain_key k"
  shows "ssh_key_set (ssh_keys_wire keys) = keep_first [] keys"
proof -
  let ?ks = "keep_first [] keys"
  have s: "set ?ks = set keys" by (simp add: keep_first_set)
  have w: "ssh_keys_wire keys = pve_url_encode (join_with [CHR 10] ?ks)"
    using assms by (auto simp: ssh_keys_wire_def plain_key_def)
  have "split_on (CHR 10) (join_with [CHR 10] ?ks) = ?ks"
    by (rule split_on_join) (use s assms in \<open>auto simp: plain_key_def\<close>)
  moreover have "map trim_space ?ks = ?ks" "filter (\<lambda>k. k \<noteq> []) ?ks = ?ks"
    using s assms(2) by (auto simp: plain_key_def filter_id_conv intro!: map_idI)
  ultimately show ?thesis
    by (simp add: w ssh_key_set_def escape_plus_none [OF encode_no_plus] query_unescape_encode)
qed

text \<open>
  The SSH keys survive the wire.  Two key lists written to PVE and compared as the drift
  compares them are equal exactly when they hold the same keys, whatever bytes the keys contain, in
  whatever order and with whatever repetitions.
\<close>

theorem ssh_keys_compare_exact:
  assumes "ks \<noteq> []" "ls \<noteq> []" "\<forall>k\<in>set (ks @ ls). plain_key k"
  shows "ssh_keys_wire_match (ssh_keys_wire ks) (ssh_keys_wire ls) \<longleftrightarrow> set ks = set ls"
  using ssh_key_set_wire [of ks] ssh_key_set_wire [of ls] assms
  by (simp add: ssh_keys_wire_match_def same_keys_iff keep_first_set)

theorem ssh_keys_compare_exact_witness:
  "ssh_keys_wire_match (ssh_keys_wire [''ssh-ed25519 AA+/ a@b'', ''ssh-rsa BB'']) (ssh_keys_wire [''ssh-rsa BB'', ''ssh-ed25519 AA+/ a@b'']) \<longleftrightarrow>
    set [''ssh-ed25519 AA+/ a@b'', ''ssh-rsa BB''] = set [''ssh-rsa BB'', ''ssh-ed25519 AA+/ a@b'']"
  by (rule ssh_keys_compare_exact) code_simp+

section \<open>Name servers\<close>

text \<open>
  \<^verbatim>\<open>csvSetsEqual\<close> compares lengths before membership: with repetitions it is neither
  the equality of sets its comment states, nor symmetric.
\<close>

lemma csv_sets_equal_repeats:
  "\<not> csv_sets_equal ''10.0.0.1'' ''10.0.0.1 10.0.0.1'' \<and> csv_sets_equal ''a b'' ''a a'' \<and> \<not> csv_sets_equal ''a a'' ''a b''"
  by code_simp

text \<open>Without repetitions in the manifest it is.\<close>

lemma csv_sets_equal_distinct:
  assumes "distinct (csv_tokens want)"
  shows "csv_sets_equal cur want \<longleftrightarrow> mset (csv_tokens cur) = mset (csv_tokens want)"
proof
  assume e: "csv_sets_equal cur want"
  then have l: "length (csv_tokens cur) = length (csv_tokens want)" "set (csv_tokens want) \<subseteq> set (csv_tokens cur)"
    by (auto simp: csv_sets_equal_def Let_def list_all_iff)
  then have "card (set (csv_tokens cur)) \<le> card (set (csv_tokens want))"
    using card_length [of "csv_tokens cur"] distinct_card [OF assms] by simp
  then have "set (csv_tokens want) = set (csv_tokens cur)" using l(2) by (intro card_seteq) simp_all
  moreover from this have "distinct (csv_tokens cur)"
    using l(1) distinct_card [OF assms] by (intro card_distinct) simp
  ultimately show "mset (csv_tokens cur) = mset (csv_tokens want)" using assms set_eq_iff_mset_eq_distinct by blast
next
  assume m: "mset (csv_tokens cur) = mset (csv_tokens want)"
  then have "length (csv_tokens cur) = length (csv_tokens want)" "set (csv_tokens cur) = set (csv_tokens want)"
    by (metis size_mset, metis set_mset_mset)
  then show "csv_sets_equal cur want" by (simp add: csv_sets_equal_def Let_def list_all_iff)
qed

end
