(* ===== verification/Vm_Clone.thy ===== *)
theory Vm_Clone
  imports Vm_Props Vm_Keys
begin

text \<open>
  What a clone keeps of its template: the configuration after the clone's own write and delete list,
  and the keys the drift clears later.
\<close>

section \<open>Numbered keys\<close>

lemma digit_val_char: "d < 10 \<Longrightarrow> digit_val (digit_char d) = d"
proof -
  have "\<forall>d\<in>set [0..<10]. digit_val (digit_char d) = d" by code_simp
  then show "d < 10 \<Longrightarrow> ?thesis" by simp
qed

lemma digits_val_nat_str: "digits_val (nat_str n) = n"
proof (induction n rule: nat_str.induct)
  case (1 n)
  then show ?case
    by (subst nat_str.simps) (auto simp: digits_val_def digit_val_char)
qed

lemma nat_str_inj: "nat_str m = nat_str n \<longleftrightarrow> m = n"
  by (metis digits_val_nat_str)

section \<open>Keys of the parameters\<close>

definition identity_key :: "string \<Rightarrow> bool" where
  "identity_key k \<longleftrightarrow> k \<in> set clone_inherited_keys \<or> has_prefix k ''ipconfig''"

lemma put_all_keys: "fst ` set (put_all kvs m) = fst ` set m \<union> fst ` set kvs"
  unfolding put_all_def by (rule fold_put_keys)

lemma options_keys: "fst ` set (options_wire o1) = fst ` set (option_writes o1)"
proof -
  have "options_wire o1 = put_all (option_writes o1) []"
    unfolding options_wire_def option_writes_def flag_put_def put_if_opt put_all_append by (rule refl)
  then show ?thesis by (simp add: put_all_keys)
qed

lemma vm_params_keys: "fst ` set (vm_params_filled v) = fst ` set (vm_writes v)"
proof -
  have "vm_base_params v = base_writes v"
    by (simp add: vm_base_params_def base_writes_def Let_def put_if_def opt_def put_fresh)
  then show ?thesis
    by (simp add: vm_params_filled_def Let_def put_all_keys options_keys hardware_params_writes cloud_params_writes
        vm_writes_def device_writes_def image_Un Un_assoc del: set_map)
qed

lemma not_identity:
  "\<not> identity_key ''vmid''" "\<not> identity_key ''name''" "\<not> identity_key ''memory''" "\<not> identity_key ''cpu''"
  "\<not> identity_key ''cores''" "\<not> identity_key ''tags''" "\<not> identity_key ''start''" "\<not> identity_key ''description''"
  "\<not> identity_key ''scsihw''" "\<not> identity_key ''machine''" "\<not> identity_key ''bios''" "\<not> identity_key ''vga''"
  "\<not> identity_key ''sockets''" "\<not> identity_key ''numa''" "\<not> identity_key ''ide2''" "\<not> identity_key ''ide3''"
  "\<not> identity_key ''efidisk0''" "\<not> identity_key ''tpm0''" "\<not> identity_key ''serial0''" "\<not> identity_key ''onboot''"
  "\<not> identity_key ''startup''" "\<not> identity_key ''protection''" "\<not> identity_key ''agent''" "\<not> identity_key ''acpi''"
  "\<not> identity_key ''tablet''" "\<not> identity_key ''hotplug''" "\<not> identity_key ''boot''" "\<not> identity_key ''nestedvirt''"
  "\<not> identity_key ''hidden''"
  by (simp_all add: identity_key_def clone_inherited_keys_def)

lemma identity_not_slot:
  "identity_key k \<Longrightarrow> \<not> valid_disk_slot k" "identity_key k \<Longrightarrow> \<not> valid_net_slot k"
  "identity_key k \<Longrightarrow> \<not> pci_key_is_owned k" "identity_key k \<Longrightarrow> \<not> is_disk_slot k"
  by (auto simp: identity_key_def clone_inherited_keys_def valid_disk_slot_def valid_net_slot_def pci_key_is_owned_def
      pci_slot_number_def Let_def is_disk_slot_def numbered_slot_def split: if_splits dest!: prefix_cases)

definition no_identity :: "params \<Rightarrow> bool" where
  "no_identity w \<longleftrightarrow> (\<forall>kv\<in>set w. \<not> identity_key (fst kv))"

lemma no_identity_simps [simp]:
  "no_identity []" "no_identity ((k, x) # w) \<longleftrightarrow> \<not> identity_key k \<and> no_identity w"
  "no_identity (a @ b) \<longleftrightarrow> no_identity a \<and> no_identity b"
  "no_identity (opt c k y) \<longleftrightarrow> (c \<longrightarrow> \<not> identity_key k)"
  by (auto simp: no_identity_def opt_def)

lemma no_identityD: "no_identity w \<Longrightarrow> identity_key k \<Longrightarrow> k \<notin> fst ` set w"
  by (auto simp: no_identity_def)

lemma base_no_identity: "no_identity (base_writes v)"
  by (simp add: base_writes_def Let_def not_identity)

lemma options_no_identity: "no_identity (option_writes o1)"
  by (simp add: option_writes_def not_identity)

lemma hardware_no_identity:
  assumes "list_all pci_key_is_owned (map pd_slot (hw_pci (vs_hardware (vm_spec v))))"
  shows "no_identity (hardware_writes v)"
proof -
  have "no_identity (map (\<lambda>d. (pd_slot d, PStr (pci_device_wire d))) (hw_pci (vs_hardware (vm_spec v))))"
    using assms identity_not_slot(3) by (auto simp: no_identity_def list_all_iff)
  then show ?thesis
    by (simp add: hardware_writes_def Let_def cdrom_slot_def not_identity split: option.split)
qed

lemma device_no_identity: "vm_slots_ok v \<Longrightarrow> no_identity (device_writes v)"
  using identity_not_slot(1,2) by (auto simp: device_writes_def vm_slots_ok_def slots_ok_def list_all_iff no_identity_def)

text \<open>An identity key is written exactly when the cloud-init data or the extra keys name it.\<close>

lemma identity_written:
  assumes "vm_slots_ok v" "identity_key k"
  shows "k \<in> fst ` set (vm_params_filled v) \<longleftrightarrow>
    k \<in> fst ` set (cloud_writes (vs_cloud_data (vm_spec v))) \<or> k \<in> fst ` set (vs_extra (vm_spec v))"
proof -
  have e: "fst ` set (map (\<lambda>kv. (fst kv, PStr (snd kv))) (vs_extra (vm_spec v))) = fst ` set (vs_extra (vm_spec v))"
    by (simp add: image_image)
  have p: "list_all pci_key_is_owned (map pd_slot (hw_pci (vs_hardware (vm_spec v))))"
    using assms(1) by (simp add: vm_slots_ok_def)
  note n = no_identityD [OF base_no_identity assms(2), of v] no_identityD [OF device_no_identity assms(2), OF assms(1)]
    no_identityD [OF hardware_no_identity assms(2), OF p] no_identityD [OF options_no_identity assms(2), of "vs_options (vm_spec v)"]
  show ?thesis unfolding vm_params_keys vm_writes_def set_append image_Un Un_iff e using n by blast
qed

lemma itoa_slot: "0 \<le> x \<Longrightarrow> itoa x = nat_str i \<longleftrightarrow> x = int i"
  by (auto simp: itoa_def nat_str_inj)

lemma ip_config_owned:
  assumes "\<forall>c\<in>set cs. 0 \<le> ip_nic c"
  shows "''ipconfig'' @ nat_str i \<in> fst ` set (ip_config_wire cs) \<longleftrightarrow> list_ex (\<lambda>c. ip_nic c = int i \<and> ip_addr c \<noteq> []) cs"
proof -
  have "''ipconfig'' @ nat_str i \<in> fst ` set (ip_config_wire cs) \<longleftrightarrow>
      (\<exists>c\<in>set cs. ip_addr c \<noteq> [] \<and> itoa (ip_nic c) = nat_str i)"
    unfolding ip_config_wire_def fold_put_keys by (auto simp: image_iff)
  with assms itoa_slot show ?thesis by (auto simp: list_ex_iff)
qed

section \<open>The extra keys\<close>

lemma validate_extra:
  assumes "vm_validate v = None" "k \<in> fst ` set (vs_extra (vm_spec v))"
  shows "k \<notin> set structured_reserved \<and> \<not> has_prefix k ''ipconfig''"
proof -
  have "checks (map (\<lambda>kv. check_extra_key (ref_str (vm_ref v)) (fst kv)) (vs_extra (vm_spec v))) = None"
    using assms(1) by (simp add: vm_validate_def Let_def checks_None)
  then have "check_extra_key (ref_str (vm_ref v)) k = None" using assms(2) by (auto simp: checks_None)
  then show ?thesis by (simp add: check_extra_key_def Let_def checks_None)
qed

lemma ball_enumerate: "(\<forall>(i, c)\<in>set (enumerate n cs). P c) \<longleftrightarrow> (\<forall>c\<in>set cs. P c)"
  by (induction cs arbitrary: n) simp_all

lemma validate_nics: "vm_validate v = None \<Longrightarrow> \<forall>c\<in>set (cd_ip_configs (vs_cloud_data (vm_spec v))). 0 \<le> ip_nic c"
proof -
  assume "vm_validate v = None"
  then have "check_ip_configs (ref_str (vm_ref v)) (cd_ip_configs (vs_cloud_data (vm_spec v))) = None"
    by (simp add: vm_validate_def Let_def checks_None)
  then have "\<forall>(i, c)\<in>set (enumerate 0 (cd_ip_configs (vs_cloud_data (vm_spec v)))). check_ip_config (ref_str (vm_ref v)) i c = None"
    by (auto simp: check_ip_configs_def checks_None)
  then have "\<forall>(i, c)\<in>set (enumerate 0 (cd_ip_configs (vs_cloud_data (vm_spec v)))). 0 \<le> ip_nic c"
    by (auto simp: check_ip_config_def Let_def checks_None)
  then show ?thesis by (simp only: ball_enumerate)
qed

section \<open>What the manifest owns\<close>

lemma ip_wire_prefix: "k \<in> fst ` set (ip_config_wire cs) \<Longrightarrow> has_prefix k ''ipconfig''"
  unfolding ip_config_wire_def fold_put_keys using has_prefix_append by (elim UnE imageE) (simp, metis)

lemma cloud_keys:
  "k \<in> fst ` set (cloud_writes cd) \<longleftrightarrow>
   (k = ''ciuser'' \<and> cd_user cd \<noteq> []) \<or> (k = ''sshkeys'' \<and> ssh_keys_wire (ssh_keys_effective cd) \<noteq> []) \<or>
   (k = ''cipassword'' \<and> password_effective cd \<noteq> []) \<or> (k = ''nameserver'' \<and> cd_nameservers cd \<noteq> []) \<or>
   (k = ''searchdomain'' \<and> cd_search_domains cd \<noteq> []) \<or> k \<in> fst ` set (ip_config_wire (cd_ip_configs cd))"
proof -
  have o: "k \<in> fst ` set (opt b k' x) \<longleftrightarrow> k = k' \<and> b" for b k' x by (cases b) (simp_all add: opt_def)
  have i: "fst ` set (map (\<lambda>kv. (fst kv, PStr (snd kv))) (ip_config_wire (cd_ip_configs cd))) = fst ` set (ip_config_wire (cd_ip_configs cd))"
    by (simp add: image_image)
  show ?thesis unfolding cloud_writes_def Let_def set_append image_Un Un_iff o i by (rule refl)
qed

lemma owned_written:
  assumes "vm_slots_ok v" "\<forall>c\<in>set (cd_ip_configs (vs_cloud_data (vm_spec v))). 0 \<le> ip_nic c"
    and "\<forall>k\<in>fst ` set (vs_extra (vm_spec v)). \<not> identity_key k" "(k, owned) \<in> set (clone_owned v)"
  shows "identity_key k \<and> (owned \<longleftrightarrow> k \<in> fst ` set (vm_params_filled v))"
proof -
  let ?cd = "vs_cloud_data (vm_spec v)"
  have np: "\<not> has_prefix ''ciuser'' ''ipconfig''" "\<not> has_prefix ''sshkeys'' ''ipconfig''" "\<not> has_prefix ''nameserver'' ''ipconfig''"
    "\<not> has_prefix ''searchdomain'' ''ipconfig''" "\<not> has_prefix ''cipassword'' ''ipconfig''" "\<not> has_prefix ''cicustom'' ''ipconfig''"
    by simp_all
  have no: "\<not> has_prefix k ''ipconfig'' \<Longrightarrow> (k \<in> fst ` set (ip_config_wire cs)) = False" for k cs using ip_wire_prefix by blast
  have c: "''ciuser'' \<in> fst ` set (cloud_writes ?cd) \<longleftrightarrow> cd_user ?cd \<noteq> []"
    "''sshkeys'' \<in> fst ` set (cloud_writes ?cd) \<longleftrightarrow> ssh_keys_wire (ssh_keys_effective ?cd) \<noteq> []"
    "''nameserver'' \<in> fst ` set (cloud_writes ?cd) \<longleftrightarrow> cd_nameservers ?cd \<noteq> []"
    "''searchdomain'' \<in> fst ` set (cloud_writes ?cd) \<longleftrightarrow> cd_search_domains ?cd \<noteq> []"
    "''cipassword'' \<in> fst ` set (cloud_writes ?cd) \<longleftrightarrow> password_effective ?cd \<noteq> []"
    "''cicustom'' \<in> fst ` set (cloud_writes ?cd) \<longleftrightarrow> False"
    unfolding cloud_keys no [OF np(1)] no [OF np(2)] no [OF np(3)] no [OF np(4)] no [OF np(5)] no [OF np(6)] by simp_all
  have ip: "''ipconfig'' @ nat_str i \<in> fst ` set (cloud_writes ?cd) \<longleftrightarrow> list_ex (\<lambda>c. ip_nic c = int i \<and> ip_addr c \<noteq> []) (cd_ip_configs ?cd)" for i
    unfolding cloud_keys ip_config_owned [OF assms(2)] by simp
  let ?P = "\<lambda>ko. identity_key (fst ko) \<and> (snd ko \<longleftrightarrow> fst ko \<in> fst ` set (cloud_writes ?cd))"
  have i: "list_all identity_key clone_inherited_keys" by (simp add: list_all_iff identity_key_def)
  have "list_all ?P [(''ciuser'', cd_user ?cd \<noteq> []), (''sshkeys'', ssh_keys_wire (ssh_keys_effective ?cd) \<noteq> []),
          (''nameserver'', cd_nameservers ?cd \<noteq> []), (''searchdomain'', cd_search_domains ?cd \<noteq> []),
          (''cipassword'', password_effective ?cd \<noteq> []), (''cicustom'', False)]"
    unfolding list.pred_inject fst_conv snd_conv c using i unfolding clone_inherited_keys_def list.pred_inject by simp
  moreover have "list_all ?P (map (\<lambda>i. (''ipconfig'' @ nat_str i, list_ex (\<lambda>c. ip_nic c = int i \<and> ip_addr c \<noteq> []) (cd_ip_configs ?cd)))
           [0..<ip_slot_count v])"
    unfolding list_all_iff set_map by (intro ballI) (elim imageE, simp only: fst_conv snd_conv ip identity_key_def has_prefix_append simp_thms)
  ultimately have "list_all ?P (clone_owned v)" unfolding clone_owned_def Let_def list_all_append by (rule conjI)
  then have "?P (k, owned)" unfolding list_all_iff using assms(4) by (rule bspec)
  then have k: "identity_key k \<and> (owned \<longleftrightarrow> k \<in> fst ` set (cloud_writes ?cd))" unfolding fst_conv snd_conv .
  with assms(3) show ?thesis using identity_written [OF assms(1), of k] by blast
qed

lemma identity_reserved:
  "identity_key k \<Longrightarrow> k \<in> set structured_reserved \<or> has_prefix k ''ipconfig'' \<or> k = ''cicustom'' \<or> k = ''cipassword''"
proof -
  have "list_all (\<lambda>k. k \<in> set structured_reserved \<or> k = ''cicustom'' \<or> k = ''cipassword'') clone_inherited_keys" by code_simp
  then show "identity_key k \<Longrightarrow> ?thesis" unfolding identity_key_def list_all_iff by blast
qed

section \<open>After the clone\<close>

text \<open>
  What a \<^verbatim>\<open>PUT .../config\<close> with form values and a delete list leaves of a
  configuration; PVE refuses a key that is in both.
\<close>

definition config_after :: "params \<Rightarrow> params \<Rightarrow> string list \<Rightarrow> params" where
  "config_after live w del = put_all w (filter (\<lambda>kv. fst kv \<notin> set del) live)"

text \<open>The configuration of a clone after the write and delete list of \<^verbatim>\<open>cloneCreate\<close>.\<close>

definition clone_settled :: "vm \<Rightarrow> params \<Rightarrow> params" where
  "clone_settled v live =
     config_after live (clone_config_write (vm_params_filled v) live) (clone_delete_keys v (vm_params_filled v))"

lemma map_of_filter_key: "map_of (filter (\<lambda>kv. P (fst kv)) m) k = (if P k then map_of m k else None)"
  by (induction m) auto

lemma put_all_distinct: "distinct (map fst m) \<Longrightarrow> distinct (map fst (put_all kvs m))"
  unfolding put_all_def by (rule fold_put_distinct)

lemma vm_params_distinct: "distinct (map fst (vm_params_filled v))"
proof -
  have "distinct (map fst (vm_base_params v))"
    by (simp add: vm_base_params_def Let_def put_if_def)
  then show ?thesis
    by (simp add: vm_params_filled_def Let_def hardware_params_writes cloud_params_writes put_all_distinct)
qed

lemma map_of_clone_write:
  assumes "identity_key k"
  shows "map_of (clone_config_write p live) k = map_of p k"
proof -
  have k: "k \<noteq> ''vmid''" "k \<noteq> ''start''" "\<not> is_disk_slot k" "k \<noteq> cloud_init_slot"
    using assms not_identity(1,7,15) identity_not_slot(4) by (auto simp: cloud_init_slot_def)
  have "map_of (clone_config_set p) k = map_of p k"
    using map_of_filter_key [of "\<lambda>k. \<not> (k = ''vmid'' \<or> k = ''start'' \<or> is_disk_slot k)" p k] k
    by (simp only: clone_config_set_def case_prod_unfold) simp
  moreover have "map_of (filter (\<lambda>(k, v). k \<noteq> cloud_init_slot) (clone_config_set p)) k = map_of (clone_config_set p) k"
    using map_of_filter_key [of "\<lambda>k. k \<noteq> cloud_init_slot" "clone_config_set p" k] k(4)
    by (simp only: case_prod_unfold) simp
  ultimately show ?thesis by (simp add: clone_config_write_def Let_def)
qed

lemma clone_write_distinct: "distinct (map fst p) \<Longrightarrow> distinct (map fst (clone_config_write p live))"
  by (auto simp: clone_config_write_def clone_config_set_def Let_def intro!: distinct_map_filter)

lemma settled_at:
  assumes "identity_key k" "k \<in> set (clone_inherited_keys @ ip_slots v)"
  shows "map_of (clone_settled v live) k = map_of (vm_params_filled v) k"
proof -
  let ?p = "vm_params_filled v"
  have "map_of (clone_settled v live) k = (case map_of ?p k of Some x \<Rightarrow> Some x
      | None \<Rightarrow> if k \<notin> set (clone_delete_keys v ?p) then map_of live k else None)"
    unfolding clone_settled_def config_after_def map_of_put_all [OF clone_write_distinct [OF vm_params_distinct]]
      map_of_clone_write [OF assms(1)] map_of_filter_key [of "\<lambda>k. k \<notin> set (clone_delete_keys v ?p)" live k] by (rule refl)
  moreover have "k \<in> set (clone_delete_keys v ?p)" if "map_of ?p k = None"
    using that assms(2) by (simp add: clone_delete_keys_def sort_strings_eq_sort)
  ultimately show ?thesis by (auto split: option.split)
qed

lemma slots_identity: "k \<in> set (clone_inherited_keys @ ip_slots v) \<Longrightarrow> identity_key k"
  unfolding set_append ip_slots_def set_map
  by (elim UnE imageE) (simp_all only: identity_key_def has_prefix_append simp_thms)

lemma clone_owned_keys: "(k, owned) \<in> set (clone_owned v) \<Longrightarrow> k \<in> set (clone_inherited_keys @ ip_slots v)"
proof -
  have "list_all (\<lambda>ko. fst ko \<in> set (clone_inherited_keys @ ip_slots v)) (clone_owned v)"
    unfolding clone_owned_def Let_def list_all_append list_all_iff [of _ "map _ _"]
    by (simp add: clone_inherited_keys_def ip_slots_def)
  then show "(k, owned) \<in> set (clone_owned v) \<Longrightarrow> ?thesis" unfolding list_all_iff by (metis fst_conv)
qed

text \<open>
  C17: no identity leaks from a template.  The VM validates and its extra keys name neither
  \<^verbatim>\<open>cicustom\<close> nor \<^verbatim>\<open>cipassword\<close>, which validation lets
  through.  Whatever configuration the clone inherited, after its own write and delete list each
  identity key (user, SSH keys, password, custom cloud-init, name servers, search domains and every
  address slot that counts) holds exactly what the manifest says, absent when the manifest says
  nothing; and the next cycle has nothing left to clear.  The address slots that count are those
  below the number of network cards and up to the largest one declared; a template with more of them
  is the subject of \<^verbatim>\<open>slot_beyond_count_inherited\<close>.
\<close>

theorem clone_identity_exact:
  assumes "vm_validate v = None" "''cicustom'' \<notin> fst ` set (vs_extra (vm_spec v))" "''cipassword'' \<notin> fst ` set (vs_extra (vm_spec v))"
  shows "(\<forall>k\<in>set (clone_inherited_keys @ ip_slots (vm_filled v)).
      map_of (clone_settled (vm_filled v) live) k = map_of (vm_params_filled (vm_filled v)) k) \<and>
    clone_clear_keys (vm_filled v) (Some (clone_settled (vm_filled v) live)) = []"
proof (rule conjI, rule ballI)
  fix k assume "k \<in> set (clone_inherited_keys @ ip_slots (vm_filled v))"
  then show "map_of (clone_settled (vm_filled v) live) k = map_of (vm_params_filled (vm_filled v)) k"
    using settled_at slots_identity by blast
next
  let ?f = "vm_filled v"
  have same: "vs_extra (vm_spec ?f) = vs_extra (vm_spec v)" "vs_cloud_data (vm_spec ?f) = vs_cloud_data (vm_spec v)"
    by (simp_all add: vm_filled_def Let_def)
  have x: "\<forall>k\<in>fst ` set (vs_extra (vm_spec ?f)). \<not> identity_key k"
    unfolding same
  proof (intro ballI notI)
    fix k assume k: "k \<in> fst ` set (vs_extra (vm_spec v))" and "identity_key k"
    note no = validate_extra [OF assms(1) k]
    from identity_reserved [OF \<open>identity_key k\<close>] show False
      by (elim disjE) (use no k assms(2,3) in \<open>simp_all only: simp_thms\<close>)
  qed
  have n: "\<forall>c\<in>set (cd_ip_configs (vs_cloud_data (vm_spec ?f))). 0 \<le> ip_nic c"
    unfolding same by (rule validate_nics [OF assms(1)])
  note sl = filled_slots_ok [OF vm_validate_slots [OF assms(1)]]
  have "owned \<or> trim_space (pve_str_at (Some (clone_settled ?f live)) k) = []" if "(k, owned) \<in> set (clone_owned ?f)" for k owned
  proof (cases owned)
    case False
    then have "map_of (vm_params_filled ?f) k = None" "identity_key k"
      using owned_written [OF sl n x that] by (simp_all add: map_of_eq_None_iff)
    then have "map_of (clone_settled ?f live) k = None" using settled_at clone_owned_keys [OF that] by simp
    then show ?thesis by (simp add: pve_str_at_def cfg_get_def trim_space_def trim_left_def)
  qed simp
  then have "filter (\<lambda>(k, owned). \<not> owned \<and> trim_space (pve_str_at (Some (clone_settled ?f live)) k) \<noteq> [] \<and>
      \<not> is_none_slot (trim_space (pve_str_at (Some (clone_settled ?f live)) k))) (clone_owned ?f) = []"
    by (auto simp: filter_empty_conv)
  then show "clone_clear_keys ?f (Some (clone_settled ?f live)) = []"
    by (simp add: clone_clear_keys_def sort_strings_eq_sort)
qed

definition ex_clone :: vm where
  "ex_clone = ex_vm\<lparr>vm_spec := (vm_spec ex_vm)\<lparr>vs_disks := [], vs_clone := ''debian-12'',
     vs_cloud_data := zero_cloud_data\<lparr>cd_user := ''ops''\<rparr>\<rparr>\<rparr>"

definition ex_inherited :: params where
  "ex_inherited = [(''ciuser'', PStr ''root''), (''sshkeys'', PStr ''ssh-rsa%20AAAA''), (''ipconfig0'', PStr ''ip=dhcp'')]"

theorem clone_identity_exact_witness:
  "map (map_of (clone_settled (vm_filled ex_clone) ex_inherited)) (clone_inherited_keys @ ip_slots (vm_filled ex_clone)) =
     map (map_of (vm_params_filled (vm_filled ex_clone))) (clone_inherited_keys @ ip_slots (vm_filled ex_clone)) \<and>
    clone_clear_keys (vm_filled ex_clone) (Some (clone_settled (vm_filled ex_clone) ex_inherited)) = []"
proof -
  have "vm_validate ex_clone = None" "''cicustom'' \<notin> fst ` set (vs_extra (vm_spec ex_clone))"
    "''cipassword'' \<notin> fst ` set (vs_extra (vm_spec ex_clone))"
    by code_simp+
  from clone_identity_exact [OF this, of ex_inherited] show ?thesis by simp
qed

text \<open>
  The extra keys that validation lets through: a \<^verbatim>\<open>cicustom\<close> the manifest writes is cleared
  by every later cycle.
\<close>

lemma cicustom_cleared:
  "let v = ex_clone\<lparr>vm_spec := (vm_spec ex_clone)\<lparr>vs_extra := [(''cicustom'', ''user=local:snippets/a.yml'')]\<rparr>\<rparr>
   in vm_validate v = None \<and> map_of (vm_params_filled v) ''cicustom'' = Some (PStr ''user=local:snippets/a.yml'') \<and>
      clone_clear_keys v (Some (clone_settled v [])) = [''cicustom'']"
  by code_simp

text \<open>
  A template with more address slots than the manifest has cards: the slots beyond stay as the
  template had them, and no later cycle clears them.
\<close>

lemma slot_beyond_count_inherited:
  "let live = [(''ipconfig7'', PStr ''ip=10.0.0.7/24'')]; after = clone_settled (vm_filled ex_clone) live
   in vm_validate ex_clone = None \<and> ip_slot_count (vm_filled ex_clone) < 7 \<and>
      map_of after ''ipconfig7'' = Some (PStr ''ip=10.0.0.7/24'') \<and>
      clone_clear_keys (vm_filled ex_clone) (Some after) = []"
  by code_simp

text \<open>A declared disk that an extra key of the same slot replaces on the wire; validation passes.\<close>

lemma extra_replaces_disk:
  "let v = ex_vm\<lparr>vm_spec := (vm_spec ex_vm)\<lparr>vs_disks := [ex_disk\<lparr>dk_slot := ''virtio0''\<rparr>], vs_extra := [(''virtio0'', ''local-lvm:1'')]\<rparr>\<rparr>
   in vm_validate v = None \<and> map_of (vm_params_filled v) ''virtio0'' = Some (PStr ''local-lvm:1'')"
  by code_simp

end
