(* ===== verification/Size_Facts.thy ===== *)
theory Size_Facts
  imports Vm_Clone Adopt_Read
begin

text \<open>
  Sizes survive the wire: the human form of a byte count parses back to it, and the decimal number
  of GiB the create form carries is read back as the same number of bytes, for every size below
  \<open>2 ^ 53\<close>.
\<close>

section \<open>float64 depends on the value only\<close>

lemma nlog2_bounds: "0 < n \<Longrightarrow> 2 ^ nlog2 n \<le> n \<and> n < 2 ^ Suc (nlog2 n)"
proof (induction n rule: nlog2.induct)
  case (1 n)
  show ?case
  proof (cases "n < 2")
    case True
    then show ?thesis using 1(2) by (simp add: nlog2.simps [of n])
  next
    case False
    then have "2 ^ nlog2 (n div 2) \<le> n div 2" "n div 2 < 2 ^ Suc (nlog2 (n div 2))" using 1(1) by auto
    moreover have "nlog2 n = Suc (nlog2 (n div 2))" using False by (simp add: nlog2.simps [of n])
    ultimately show ?thesis by (simp only: power_Suc) linarith
  qed
qed

lemma nlog2_unique: "2 ^ k \<le> n \<Longrightarrow> n < 2 ^ Suc k \<Longrightarrow> nlog2 n = k"
proof -
  assume k: "2 ^ k \<le> n" "n < 2 ^ Suc k"
  have "0 < n" using k(1) by (metis zero_less_numeral zero_less_power order_less_le_trans)
  from nlog2_bounds [OF this] k have "(2::nat) ^ nlog2 n < 2 ^ Suc k" "(2::nat) ^ k < 2 ^ Suc (nlog2 n)" by linarith+
  then have "nlog2 n < Suc k" "k < Suc (nlog2 n)" by (simp_all only: power_strict_increasing_iff)
  then show "nlog2 n = k" by simp
qed

lemma nlog2_power: "nlog2 (2 ^ k) = k"
  by (rule nlog2_unique) simp_all

text \<open>The quotient rounded to the nearest, ties to even, as a function of the rational.\<close>

definition round_rat :: "rat \<Rightarrow> nat" where
  "round_rat y = (let q = nat \<lfloor>y\<rfloor>; f = y - of_int \<lfloor>y\<rfloor> in if 1 / 2 < f \<or> (f = 1 / 2 \<and> odd q) then q + 1 else q)"

lemma round_nat_quotient:
  assumes "0 < b"
  shows "(if b < 2 * (a mod b) \<or> (2 * (a mod b) = b \<and> odd (a div b)) then a div b + 1 else a div b) = round_rat (of_nat a / of_nat b)"
proof -
  have fl: "\<lfloor>(of_nat a :: rat) / of_nat b\<rfloor> = int (a div b)" by (rule floor_divide_of_nat_eq)
  have "(of_nat a :: rat) = of_nat (a div b) * of_nat b + of_nat (a mod b)"
    by (metis div_mult_mod_eq of_nat_add of_nat_mult)
  then have f: "(of_nat a :: rat) / of_nat b - of_nat (a div b) = of_nat (a mod b) / of_nat b"
    using assms by (simp add: field_simps)
  have "(1 / 2 < (of_nat (a mod b) :: rat) / of_nat b) = ((of_nat b :: rat) < of_nat (2 * (a mod b)))"
    using assms by (simp add: field_simps)
  then have g: "(1 / 2 < (of_nat (a mod b) :: rat) / of_nat b) = (b < 2 * (a mod b))" by (simp only: of_nat_less_iff)
  have "((of_nat (a mod b) :: rat) / of_nat b = 1 / 2) = ((of_nat (2 * (a mod b)) :: rat) = of_nat b)"
    using assms by (auto simp: field_simps)
  then have h: "((of_nat (a mod b) :: rat) / of_nat b = 1 / 2) = (2 * (a mod b) = b)" by (simp only: of_nat_eq_iff)
  have i: "(of_int (int (a div b)) :: rat) = of_nat (a div b)" by simp
  show ?thesis unfolding round_rat_def Let_def fl i f g h by simp
qed

lemma round_rat_int: "round_rat (of_nat q) = q"
  by (simp add: round_rat_def)

text \<open>The exponent is the one that puts the quotient into \<open>[2 ^ 52, 2 ^ 53)\<close>.\<close>

definition float_at :: "rat \<Rightarrow> int \<Rightarrow> float64" where
  "float_at x e = (let q = round_rat (x / 2 powi e) in if q = 2 ^ 53 then (2 ^ 52, e + 1) else (q, e))"

definition in_binade :: "rat \<Rightarrow> int \<Rightarrow> bool" where
  "in_binade x e \<longleftrightarrow> 2 ^ 52 \<le> x / 2 powi e \<and> x / 2 powi e < 2 ^ 53"

lemma in_binade_unique:
  assumes "in_binade x e" "in_binade x e'"
  shows "e = e'"
proof -
  have le: "e' \<le> e" if "in_binade x e" "in_binade x e'" for e e' :: int
  proof (rule ccontr)
    assume "\<not> e' \<le> e"
    then have "(2::rat) powi (e + 1) \<le> 2 powi e'" by (simp add: power_int_increasing)
    then have p: "2 * (2::rat) powi e \<le> 2 powi e'" by (simp add: power_int_add_1)
    have "x < 2 ^ 53 * 2 powi e" "2 ^ 52 * 2 powi e' \<le> x"
      using that by (simp_all add: in_binade_def field_simps)
    with p show False by simp
  qed
  show ?thesis using le [OF assms] le [OF assms(2,1)] by simp
qed

lemma float_of_at:
  assumes "0 < n" "0 < d"
  shows "\<exists>e. in_binade (of_nat n / of_nat d) e \<and> float_of n d = float_at (of_nat n / of_nat d) e"
proof -
  define e0 where "e0 = int (nlog2 n) - int (nlog2 d) - 52"
  define b where "b = d * 2 ^ nat e0"
  define a0 where "a0 = n * 2 ^ nat (- e0)"
  define x where "x = (of_nat n / of_nat d :: rat)"
  have b0: "0 < b" using assms by (simp add: b_def)
  have y0: "of_nat a0 / of_nat b = x / 2 powi e0"
    by (cases "0 \<le> e0") (simp_all add: a0_def b_def x_def power_int_def field_simps)
  have nb: "(2::rat) ^ nlog2 n \<le> of_nat n" "(of_nat n :: rat) < 2 ^ Suc (nlog2 n)"
    "(2::rat) ^ nlog2 d \<le> of_nat d" "(of_nat d :: rat) < 2 ^ Suc (nlog2 d)"
    using nlog2_bounds [OF assms(1)] nlog2_bounds [OF assms(2)]
    by (metis of_nat_le_iff of_nat_less_iff of_nat_numeral of_nat_power)+
  have p: "(2::rat) powi e0 = 2 ^ nlog2 n / (2 ^ nlog2 d * 2 ^ 52)"
    by (simp add: e0_def power_int_diff)
  have d0: "(0::rat) < of_nat d" using assms by simp
  have lo: "2 ^ 51 < x / 2 powi e0"
  proof -
    have "(2::rat) ^ nlog2 n * of_nat d < of_nat n * 2 ^ Suc (nlog2 d)"
      using nb(1,4) d0 by (intro mult_le_less_imp_less) auto
    then show ?thesis using d0 by (simp add: p x_def field_simps)
  qed
  have hi: "x / 2 powi e0 < 2 ^ 53"
  proof -
    have "(of_nat n :: rat) * 2 ^ nlog2 d < 2 ^ Suc (nlog2 n) * of_nat d"
      using nb(2,3) d0 by (intro mult_less_le_imp_less) auto
    then show ?thesis using d0 by (simp add: p x_def field_simps)
  qed
  have lt: "a0 < 2 ^ 52 * b \<longleftrightarrow> x / 2 powi e0 < 2 ^ 52"
  proof -
    have "a0 < 2 ^ 52 * b \<longleftrightarrow> (of_nat a0 :: rat) < of_nat (2 ^ 52 * b)" by (simp only: of_nat_less_iff)
    also have "\<dots> \<longleftrightarrow> of_nat a0 / of_nat b < (2::rat) ^ 52" using b0 by (simp add: field_simps)
    finally show ?thesis by (simp only: y0)
  qed
  show ?thesis
  proof (cases "a0 < 2 ^ 52 * b")
    case True
    have e1: "x / 2 powi (e0 - 1) = 2 * (x / 2 powi e0)" by (simp add: power_int_diff)
    have y1: "of_nat (2 * a0) / of_nat b = x / 2 powi (e0 - 1)" by (simp add: e1 y0 [symmetric])
    have "float_of n d = float_at x (e0 - 1)"
      unfolding float_at_def round_nat_quotient [OF b0, of "2 * a0", unfolded y1, symmetric]
      using True by (simp add: float_of_def Let_def e0_def [symmetric] a0_def [symmetric] b_def [symmetric])
    moreover have "in_binade x (e0 - 1)" using lo True lt by (simp add: in_binade_def e1)
    ultimately show ?thesis unfolding x_def by blast
  next
    case False
    have "float_of n d = float_at x e0"
      unfolding float_at_def round_nat_quotient [OF b0, of a0, unfolded y0, symmetric]
      using False by (simp add: float_of_def Let_def e0_def [symmetric] a0_def [symmetric] b_def [symmetric])
    moreover have "in_binade x e0" using hi False lt by (simp add: in_binade_def)
    ultimately show ?thesis unfolding x_def by blast
  qed
qed

lemma float_of_scale:
  assumes "0 < n" "0 < d" "0 < c"
  shows "float_of (n * c) (d * c) = float_of n d"
proof -
  have x: "(of_nat (n * c) :: rat) / of_nat (d * c) = of_nat n / of_nat d" using assms by simp
  obtain e where e: "in_binade (of_nat n / of_nat d) e" "float_of n d = float_at (of_nat n / of_nat d) e"
    using float_of_at [OF assms(1,2)] by blast
  obtain e' where "in_binade (of_nat n / of_nat d) e'" "float_of (n * c) (d * c) = float_at (of_nat n / of_nat d) e'"
    using float_of_at [of "n * c" "d * c"] assms unfolding x by auto
  with e in_binade_unique show ?thesis by metis
qed

text \<open>Below \<open>2 ^ 53\<close> bytes, a number of GiB is exact.\<close>

lemma float_gib_exact:
  assumes "0 < n" "n < 2 ^ 53"
  shows "float_scale_trunc (float_of n (2 ^ 30)) 30 = n"
proof -
  define L where "L = nlog2 n"
  have L: "2 ^ L \<le> n" "n < 2 ^ Suc L" using nlog2_bounds [OF assms(1)] by (simp_all only: L_def)
  have "(2::nat) ^ L < 2 ^ 53" using L(1) assms(2) by linarith
  then have "L < 53" by (simp only: power_strict_increasing_iff)
  then have L52: "L \<le> 52" by simp
  have s: "(2::rat) ^ 82 = 2 ^ L * 2 ^ (82 - L)" "(2::rat) ^ 52 = 2 ^ L * 2 ^ (52 - L)"
    using L52 by (simp_all only: power_add [symmetric]) simp_all
  define x where "x = (of_nat n / of_nat (2 ^ 30) :: rat)"
  have y: "x / 2 powi (int L - 82) = of_nat (n * 2 ^ (52 - L))"
    using L52 s by (simp add: x_def power_int_diff field_simps)
  have q: "2 ^ 52 \<le> n * 2 ^ (52 - L)" "n * 2 ^ (52 - L) < 2 ^ 53"
  proof -
    have e: "(2::nat) ^ 52 = 2 ^ L * 2 ^ (52 - L)" "(2::nat) ^ 53 = 2 ^ Suc L * 2 ^ (52 - L)"
      using L52 by (simp_all only: power_add [symmetric]) simp_all
    show "2 ^ 52 \<le> n * 2 ^ (52 - L)" "n * 2 ^ (52 - L) < 2 ^ 53"
      unfolding e using L by (intro mult_le_mono mult_strict_right_mono; simp)+
  qed
  have "in_binade x (int L - 82)" unfolding in_binade_def y
    using q by (metis of_nat_le_iff of_nat_less_iff of_nat_numeral of_nat_power)
  moreover obtain e where "in_binade x e" "float_of n (2 ^ 30) = float_at x e"
    using float_of_at [OF assms(1), of "2 ^ 30"] by (auto simp: x_def)
  ultimately have "float_of n (2 ^ 30) = float_at x (int L - 82)" using in_binade_unique by metis
  then have "float_of n (2 ^ 30) = (n * 2 ^ (52 - L), int L - 82)"
    using q by (simp add: float_at_def y round_rat_int Let_def del: of_nat_mult of_nat_power)
  then show ?thesis using L52 by (auto simp: float_scale_trunc_def nat_diff_distrib)
qed

section \<open>The decimal of a float64\<close>

text \<open>The search always ends with a decimal that reads back as the same float64.\<close>

lemma round_half_even_exact: "0 < d \<Longrightarrow> d dvd a \<Longrightarrow> round_half_even a d = a div d"
  by (auto simp: round_half_even_def Let_def)

lemma decimals_loop_reads:
  assumes "0 < n" "k + fuel = 30"
  shows "case decimals_loop fuel k n (2 ^ 30) of (t, j) \<Rightarrow> 0 < t \<and> float_of t (10 ^ j) = float_of n (2 ^ 30)"
  using assms(2)
proof (induction fuel arbitrary: k)
  case 0
  have "n * 10 ^ 30 = n * 5 ^ 30 * 2 ^ 30" by simp
  then have t: "round_half_even (n * 10 ^ 30) (2 ^ 30) = n * 5 ^ 30" by (subst round_half_even_exact) simp_all
  have "float_of (n * 5 ^ 30) (10 ^ 30) = float_of n (2 ^ 30)"
    using float_of_scale [of n "2 ^ 30" "5 ^ 30"] assms(1) by simp
  moreover have "k = 30" using 0 by simp
  then have "decimals_loop 0 k n (2 ^ 30) = (n * 5 ^ 30, 30)" by (simp only: decimals_loop.simps t)
  moreover have "0 < n * 5 ^ 30" using assms(1) by simp
  ultimately show ?case by (simp only: prod.case)
next
  case (Suc fuel)
  then show ?case by (simp add: Let_def)
qed

lemma foldl_digits: "foldl (\<lambda>a c. a * 10 + digit_val c) x b = x * 10 ^ length b + foldl (\<lambda>a c. a * 10 + digit_val c) 0 b"
proof (induction b arbitrary: x)
  case (Cons c b)
  show ?case
    by (simp only: foldl_Cons Cons [of "x * 10 + digit_val c"] Cons [of "0 * 10 + digit_val c"]) (simp add: algebra_simps)
qed simp

lemma digits_val_append: "digits_val (a @ b) = digits_val a * 10 ^ length b + digits_val b"
  unfolding digits_val_def foldl_append by (rule foldl_digits)

lemma length_nat_str: "m < 10 ^ k \<Longrightarrow> 0 < k \<Longrightarrow> length (nat_str m) \<le> k"
proof (induction m arbitrary: k rule: nat_str.induct)
  case (1 n)
  show ?case
  proof (cases "n < 10")
    case True
    then show ?thesis using 1(3) by (simp add: nat_str.simps [of n])
  next
    case False
    then obtain j where j: "k = Suc j" "0 < j" using 1(2,3) by (cases k; cases "k - 1") auto
    then have "n div 10 < 10 ^ j" using 1(2) by auto
    then show ?thesis using 1(1) [OF False _ j(2)] False j by (simp add: nat_str.simps [of n])
  qed
qed

lemma pad_left_digits:
  assumes "m < 10 ^ k" "0 < k"
  shows "length (pad_left k (nat_str m)) = k" "digits_val (pad_left k (nat_str m)) = m"
    "list_all is_digit (pad_left k (nat_str m))"
proof -
  show "length (pad_left k (nat_str m)) = k" using length_nat_str [OF assms] by (simp add: pad_left_def)
  have "digits_val (replicate j (CHR ''0'')) = 0" for j
    by (induction j) (simp_all add: digits_val_def digit_val_def)
  then show "digits_val (pad_left k (nat_str m)) = m"
    by (simp add: pad_left_def digits_val_append digits_val_nat_str)
  show "list_all is_digit (pad_left k (nat_str m))"
    using nat_str_digits [of m] by (auto simp: pad_left_def is_digit_def list_all_iff set_replicate_conv_if split: if_splits)
qed

lemma digits_prefix:
  assumes "list_all is_digit a" "b = [] \<or> \<not> is_digit (hd b)"
  shows "takeWhile is_digit (a @ b) = a" "dropWhile is_digit (a @ b) = b"
  using assms by (induction a; cases b; auto)+

lemma digits_sign:
  assumes "list_all is_digit a" "a \<noteq> []"
  shows "split_sign (a @ b) = (False, a @ b)"
  using assms by (cases a) (auto simp: split_sign_def is_digit_def)

lemma parse_decimal_str: "parse_decimal (decimal_str t k) = Some (False, t, 10 ^ k)"
proof (cases "k = 0")
  case True
  have d: "list_all is_digit (nat_str t)" "nat_str t \<noteq> []" using nat_str_digits [of t] by simp_all
  have tw: "takeWhile is_digit (nat_str t) = nat_str t" "dropWhile is_digit (nat_str t) = []"
    using digits_prefix [OF d(1), of "[]"] by (simp_all only: append_Nil2 simp_thms)
  show ?thesis
    using True digits_sign [OF d, of "[]"] d(2)
    by (simp add: parse_decimal_def decimal_str_def parse_exponent_def digits_val_nat_str Let_def tw)
next
  case False
  let ?a = "nat_str (t div 10 ^ k)" and ?f = "pad_left k (nat_str (t mod 10 ^ k))"
  have d: "list_all is_digit ?a" "?a \<noteq> []" using nat_str_digits [of "t div 10 ^ k"] by simp_all
  have m: "t mod 10 ^ k < 10 ^ k" by simp
  have k: "0 < k" using False by simp
  have v: "digits_val (?a @ ?f) = t"
    using pad_left_digits [OF m k] div_mult_mod_eq [of t "10 ^ k"] by (simp only: digits_val_append digits_val_nat_str)
  have dot: "\<not> is_digit (CHR ''.'')" by code_simp
  have tw: "takeWhile is_digit (?a @ CHR ''.'' # ?f) = ?a" "dropWhile is_digit (?a @ CHR ''.'' # ?f) = CHR ''.'' # ?f"
    using digits_prefix [OF d(1), of "CHR ''.'' # ?f"] dot by simp_all
  have fw: "takeWhile is_digit ?f = ?f" "dropWhile is_digit ?f = []"
    using digits_prefix [OF pad_left_digits(3) [OF m k], of "[]"] by (simp_all only: append_Nil2 simp_thms)
  show ?thesis
    using False digits_sign [OF d, of "CHR ''.'' # ?f"] d(2) pad_left_digits(1) [OF m k] v
    by (simp add: parse_decimal_def decimal_str_def parse_exponent_def Let_def tw fw)
qed

lemma gib_string_reads:
  assumes "0 < b" "b < 2 ^ 53"
  shows "float_gib (gib_string b) = Some b"
proof -
  obtain n where n: "b = int n" "0 < n" "n < 2 ^ 53" using assms by (metis of_nat_0_less_iff of_nat_less_iff of_nat_numeral of_nat_power pos_int_cases)
  have read: "float_gib (decimal_str t k) = Some (int n)" if "0 < t" "float_of t (10 ^ k) = float_of n (2 ^ 30)" for t k
    using that float_gib_exact [OF n(2,3)] by (simp add: float_gib_def parse_decimal_str)
  show ?thesis
  proof (cases "n mod 2 ^ 30 = 0")
    case True
    then have w: "n = n div 2 ^ 30 * 2 ^ 30" by (metis add_0_right div_mult_mod_eq)
    then have p: "0 < n div 2 ^ 30" using n(2) by (metis bot_nat_0.not_eq_extremum mult_0)
    have "float_of (n div 2 ^ 30) (10 ^ 0) = float_of n (2 ^ 30)"
      using float_of_scale [OF p, of 1 "2 ^ 30"] w by simp
    from read [OF p this] have "float_gib (nat_str (n div 2 ^ 30)) = Some (int n)" by (simp add: decimal_str_def)
    moreover have "gib_string b = nat_str (n div 2 ^ 30)"
    proof -
      have "int n mod 2 ^ 30 = int (n mod 2 ^ 30)" "int n div 2 ^ 30 = int (n div 2 ^ 30)" by (simp_all add: zmod_int zdiv_int)
      then have z: "go_mod b (2 ^ 30) = 0" "go_div b (2 ^ 30) = int (n div 2 ^ 30)"
        using True n(1) by (simp_all add: go_div_nonneg go_mod_nonneg)
      have "\<not> b < 0" using n(1) by simp
      then show ?thesis by (simp only: gib_string_def z if_True simp_thms itoa_def nat_int of_nat_less_0_iff if_False Let_def)
    qed
    ultimately show ?thesis using n(1) by simp
  next
    case False
    have g: "gib_string b = (case decimals_loop 30 0 n (2 ^ 30) of (t, k) \<Rightarrow> decimal_str t k)"
    proof -
      have "int n mod 2 ^ 30 = int (n mod 2 ^ 30)" by (simp add: zmod_int)
      then have "go_mod b (2 ^ 30) \<noteq> 0" using False n(1) by (simp add: go_mod_nonneg)
      then show ?thesis using n(1) by (simp add: gib_string_def Let_def)
    qed
    obtain t k where t: "decimals_loop 30 0 n (2 ^ 30) = (t, k)" by (cases "decimals_loop 30 0 n (2 ^ 30)")
    then have "gib_string b = decimal_str t k" by (simp only: g prod.case)
    moreover have "0 < t \<and> float_of t (10 ^ k) = float_of n (2 ^ 30)"
      using decimals_loop_reads [OF n(2), of 0 30] by (simp only: t prod.case)
    ultimately show ?thesis using read [of t k] by (simp only: n(1) simp_thms)
  qed
qed

section \<open>Human sizes\<close>

lemma trim_plain: "s \<noteq> [] \<Longrightarrow> \<not> is_space (hd s) \<Longrightarrow> \<not> is_space (List.last s) \<Longrightarrow> trim_space s = s"
proof -
  assume s: "s \<noteq> []" "\<not> is_space (hd s)" "\<not> is_space (List.last s)"
  have "dropWhile is_space x = x" if "x \<noteq> []" "\<not> is_space (hd x)" for x using that by (cases x) auto
  from this [of s] this [of "rev s"] s show ?thesis by (simp add: trim_space_def trim_left_def hd_rev)
qed

lemma digit_not_space: "is_digit c \<Longrightarrow> \<not> is_space c"
  by (auto simp: is_digit_def is_space_def)

lemma parse_int64_digits:
  assumes "list_all is_digit s" "s \<noteq> []" "digits_val s < 2 ^ 63"
  shows "parse_int64 s = Some (int (digits_val s))"
proof -
  have m: "\<not> is_digit (CHR ''-'')" "\<not> is_digit (CHR ''+'')" by code_simp+
  have "(int (digits_val s)) < 2 ^ 63" using assms(3) by (metis of_nat_less_iff of_nat_numeral of_nat_power)
  with assms(1,2) m show ?thesis
    by (cases s) (auto simp: parse_int64_def Let_def)
qed

lemma nat_str_plain: "list_all is_digit (nat_str n)" "nat_str n \<noteq> []"
  using nat_str_digits [of n] by simp_all

lemma parse_bytes_digits:
  assumes "n < 2 ^ 63"
  shows "parse_bytes (nat_str n) = Inr (int n)"
proof -
  have "trim_space (nat_str n) = nat_str n"
    using nat_str_plain [of n] digit_not_space by (intro trim_plain) (simp_all add: list_all_iff)
  moreover have "parse_int64 (nat_str n) = Some (int n)"
    using parse_int64_digits [OF nat_str_plain] assms by (simp add: digits_val_nat_str)
  ultimately show ?thesis using nat_str_plain(2) [of n] by (simp add: parse_bytes_def)
qed

lemma parse_bytes_unit:
  assumes "n < 2 ^ 63" "unit_mult (to_upper u) = Some k" "u \<noteq> []" "\<not> is_digit (hd u)" "\<not> is_space (List.last u)"
    and "\<not> list_all is_digit u"
  shows "parse_bytes (nat_str n @ u) = Inr (wrap64 (int n * k))"
proof -
  have d: "list_all is_digit (nat_str n)" "nat_str n \<noteq> []" by (rule nat_str_plain)+
  have "trim_space (nat_str n @ u) = nat_str n @ u"
    using d digit_not_space assms(3,5) by (intro trim_plain) (simp_all add: list_all_iff)
  moreover have "parse_int64 (nat_str n @ u) = None"
    using d assms(6) by (cases "nat_str n") (auto simp: parse_int64_def Let_def is_digit_def)
  moreover have "parse_int64 (nat_str n) = Some (int n)"
    using parse_int64_digits [OF d] assms(1) by (simp add: digits_val_nat_str)
  moreover have "takeWhile is_digit (nat_str n @ u) = nat_str n" "dropWhile is_digit (nat_str n @ u) = u"
    using digits_prefix [OF d(1)] assms(4) by simp_all
  ultimately show ?thesis using d(2) assms(2) by (simp add: parse_bytes_def Let_def)
qed

text \<open>\<^verbatim>\<open>HumanFromBytes\<close> and \<^verbatim>\<open>ParseBytes\<close> are inverse on every positive int64.\<close>

lemma human_parses:
  assumes "human_from_bytes b = Some s" "b < 2 ^ 63"
  shows "parse_bytes s = Inr b"
proof -
  have b: "0 < b" using assms(1) by (auto simp: human_from_bytes_def split: if_splits)
  have u: "unit_mult (to_upper ''TiB'') = Some (2 ^ 40)" "unit_mult (to_upper ''GiB'') = Some (2 ^ 30)"
    "unit_mult (to_upper ''MiB'') = Some (2 ^ 20)" "unit_mult (to_upper ''KiB'') = Some (2 ^ 10)"
    by code_simp+
  have c: "\<not> is_digit (hd x) \<and> \<not> is_space (List.last x) \<and> \<not> list_all is_digit x \<and> x \<noteq> []"
    if "x = ''TiB'' \<or> x = ''GiB'' \<or> x = ''MiB'' \<or> x = ''KiB''" for x
    using that by (elim disjE; simp only:; code_simp)
  have unit: "parse_bytes (itoa (b div k) @ x) = Inr b"
    if "x = ''TiB'' \<or> x = ''GiB'' \<or> x = ''MiB'' \<or> x = ''KiB''" "unit_mult (to_upper x) = Some k" "b mod k = 0" "0 < k" for x k
  proof -
    have q: "b div k * k = b" using that(3) by (metis add_0_right div_mult_mod_eq)
    have n: "0 \<le> b div k" using b that(4) by (simp add: pos_imp_zdiv_nonneg_iff)
    have "b div k \<le> b" using b that(4) by (metis div_by_1 int_one_le_iff_zero_less order_less_imp_le zdiv_mono2 zero_less_one)
    then have "nat (b div k) < 2 ^ 63" using assms(2) by (simp add: nat_less_iff)
    then have "parse_bytes (nat_str (nat (b div k)) @ x) = Inr (wrap64 (int (nat (b div k)) * k))"
      using that(2) c [OF that(1)] by (intro parse_bytes_unit) simp_all
    then show ?thesis using n q b assms(2) wrap64_id [of b] by (simp add: itoa_def)
  qed
  have "parse_bytes (itoa b) = Inr b"
    using parse_bytes_digits [of "nat b"] assms(2) b by (simp add: itoa_def nat_less_iff)
  with assms(1) b show ?thesis
    using unit [of "''TiB''" "2 ^ 40"] unit [of "''GiB''" "2 ^ 30"] unit [of "''MiB''" "2 ^ 20"] unit [of "''KiB''" "2 ^ 10"] u
    by (auto simp: human_from_bytes_def split: if_splits)
qed

lemma human_size_bytes: "human_from_bytes b = Some s \<Longrightarrow> b < 2 ^ 63 \<Longrightarrow> size_bytes s = b"
  by (simp add: size_bytes_def disk_bytes_def human_parses)

lemma human_size_wire:
  assumes "human_from_bytes b = Some s" "b < 2 ^ 53"
  shows "float_gib (gib_string (size_bytes s)) = Some b"
proof -
  have "0 < b" using assms(1) by (auto simp: human_from_bytes_def split: if_splits)
  then show ?thesis using human_size_bytes [OF assms(1)] gib_string_reads [of b] assms(2) by simp
qed

text \<open>
  C40: sizes survive adoption exactly.  A byte count below 2^53 printed by \<^verbatim>\<open>HumanFromBytes\<close> is
  read back by \<^verbatim>\<open>ParseBytes\<close>, and the decimal GiB count written to PVE for it reads back
  through \<^verbatim>\<open>float64\<close> to the same number of bytes.
\<close>

theorem size_exact:
  assumes "human_from_bytes b = Some s" "b < 2 ^ 53"
  shows "parse_bytes s = Inr b \<and> float_gib (gib_string (size_bytes s)) = Some b"
proof -
  have "(2 :: int) ^ 53 < 2 ^ 63" by (simp only: power_strict_increasing_iff)
  with assms(2) have "b < 2 ^ 63" by (rule less_trans)
  with assms show ?thesis by (simp only: human_parses human_size_wire simp_thms)
qed

theorem size_exact_witness:
  "parse_bytes ''528KiB'' = Inr 540672 \<and> float_gib (gib_string (size_bytes ''528KiB'')) = Some 540672"
proof -
  have "human_from_bytes 540672 = Some ''528KiB''" by code_simp
  from size_exact [OF this] show ?thesis by simp
qed

end
