(* ===== verification/Adopt_Disks.thy ===== *)
theory Adopt_Disks
  imports Adopt_Run Size_Facts
begin

text \<open>
  Adopting and then reconciling an unchanged machine leaves its drives alone: the wire string of an
  adopted disk reads back to the fields it was adopted from.
\<close>

section \<open>Values on the wire\<close>

text \<open>A value that survives a comma list: no comma, no white space at its end, lower case.\<close>

definition value_ok :: "string \<Rightarrow> bool" where
  "value_ok v \<longleftrightarrow> CHR '','' \<notin> set v \<and> (v \<noteq> [] \<longrightarrow> \<not> is_space (List.last v)) \<and> to_lower v = v"

lemma lower_char_facts: "lower_char (lower_char c) = lower_char c" "lower_char c = CHR '','' \<longleftrightarrow> c = CHR '',''"
  "is_space (lower_char c) = is_space c"
proof -
  have comma: "is_upper (CHR '','') = False" by code_simp
  have up: "\<not> is_upper (lower_char c) \<and> lower_char c \<noteq> CHR '','' \<and> \<not> is_space (lower_char c) \<and> \<not> is_space c"
    if "is_upper c"
  proof -
    let ?n = "of_char c :: nat"
    have n: "65 \<le> ?n" "?n \<le> 90" using that by (simp_all add: is_upper_def)
    then have l: "(of_char (lower_char c) :: nat) = ?n + 32" using that by (simp add: lower_char_def)
    have "(of_char (CHR '','') :: nat) = 44" by simp
    then have "lower_char c \<noteq> CHR '',''" using l n by auto
    then show ?thesis using n by (simp add: is_upper_def is_space_def l)
  qed
  show "lower_char (lower_char c) = lower_char c"
    using up by (cases "is_upper c") (simp_all add: lower_char_def [of "lower_char c"], simp add: lower_char_def)
  show "lower_char c = CHR '','' \<longleftrightarrow> c = CHR '',''"
  proof (cases "is_upper c")
    case True
    then have "c \<noteq> CHR '',''" using comma by (metis (full_types))
    then show ?thesis using up [OF True] by blast
  next
    case False
    then have "lower_char c = c" by (simp only: lower_char_def if_False)
    then show ?thesis by (rule arg_cong)
  qed
  show "is_space (lower_char c) = is_space c"
    using up by (cases "is_upper c") (simp_all add: lower_char_def)
qed

lemma value_ok_lower:
  assumes "CHR '','' \<notin> set v" "v \<noteq> [] \<longrightarrow> \<not> is_space (List.last v)"
  shows "value_ok (to_lower v)"
proof -
  have "CHR '','' \<notin> lower_char ` set v"
  proof
    assume "CHR '','' \<in> lower_char ` set v"
    then obtain c where c: "CHR '','' = lower_char c" "c \<in> set v" by (rule imageE)
    from c(1) [symmetric] have "c = CHR '',''" by (simp only: lower_char_facts(2))
    with c(2) assms(1) show False by (simp only:)
  qed
  moreover have "map lower_char (map lower_char v) = map lower_char v" by (simp add: lower_char_facts(1))
  moreover have "v \<noteq> [] \<longrightarrow> \<not> is_space (List.last (map lower_char v))"
    using assms(2) by (simp add: last_map lower_char_facts(3))
  ultimately show ?thesis by (simp add: value_ok_def to_lower_def)
qed

lemma value_ok_Nil: "value_ok []"
  by (simp add: value_ok_def to_lower_def)

lemma trim_space_ends:
  "set (trim_space s) \<subseteq> set s" "trim_space s \<noteq> [] \<Longrightarrow> \<not> is_space (hd (trim_space s)) \<and> \<not> is_space (List.last (trim_space s))"
proof -
  show "set (trim_space s) \<subseteq> set s"
  proof
    fix x assume "x \<in> set (trim_space s)"
    then have "x \<in> set (dropWhile is_space s)"
      unfolding trim_space_def trim_left_def by (metis (no_types, lifting) set_dropWhileD set_rev)
    then show "x \<in> set s" by (rule set_dropWhileD)
  qed
  show "trim_space s \<noteq> [] \<Longrightarrow> \<not> is_space (hd (trim_space s)) \<and> \<not> is_space (List.last (trim_space s))"
  proof -
    assume ne: "trim_space s \<noteq> []"
    let ?l = "dropWhile is_space s" let ?r = "dropWhile is_space (rev ?l)"
    have r: "?r \<noteq> []" using ne by (simp add: trim_space_def trim_left_def)
    then have l: "?l \<noteq> []" by (metis dropWhile.simps(1) rev.simps(1))
    have "\<not> is_space (hd ?r)" using hd_dropWhile [OF r] .
    moreover have "\<not> is_space (hd ?l)" using hd_dropWhile [OF l] .
    moreover obtain p where p: "rev ?l = p @ ?r" by (metis takeWhile_dropWhile_id)
    then have "?l = rev ?r @ rev p" by (metis rev_append rev_rev_ident)
    then have "hd ?l = hd (rev ?r)" using r by (metis hd_append rev_is_Nil_conv)
    ultimately show ?thesis by (simp add: trim_space_def trim_left_def last_rev)
  qed
qed

lemma cut_eq_parts: "cut_eq t = Some (k, v) \<Longrightarrow> t = k @ CHR ''='' # v \<and> CHR ''='' \<notin> set k"
proof -
  assume "cut_eq t = Some (k, v)"
  then obtain i where i: "index_byte t (CHR ''='') = Some i" "k = take i t" "v = drop (Suc i) t"
    by (auto simp: cut_eq_def split: option.splits)
  have s: "i < length t" "t ! i = CHR ''=''" "CHR ''='' \<notin> set (take i t)" using i(1) by (simp_all add: index_byte_Some)
  show ?thesis using id_take_nth_drop [OF s(1)] s(2,3) by (simp only: i(2,3) simp_thms)
qed

section \<open>What a live drive string holds\<close>

definition info_ok :: "disk_info \<Rightarrow> bool" where
  "info_ok i \<longleftrightarrow> value_ok (di_discard i) \<and> value_ok (di_aio i)"

lemma disk_token_info:
  assumes "info_ok out" "CHR '','' \<notin> set (snd it)"
  shows "info_ok (disk_token it out)" "di_pool (disk_token it out) = di_pool out"
proof -
  let ?t = "trim_space (snd it)"
  have v: "value_ok (to_lower v)" if "cut_eq ?t = Some (k, v)" for k v
  proof (rule value_ok_lower)
    note c = cut_eq_parts [OF that]
    have "CHR '','' \<notin> set ?t" using trim_space_ends(1) [of "snd it"] assms(2) by blast
    then show "CHR '','' \<notin> set v" using c by auto
    have "?t \<noteq> []" using c by auto
    then show "v \<noteq> [] \<longrightarrow> \<not> is_space (List.last v)" using trim_space_ends(2) [of "snd it"] c by auto
  qed
  show "info_ok (disk_token it out)" "di_pool (disk_token it out) = di_pool out"
    using v assms(1)
    by (auto simp: disk_token_def disk_option_def add_extra_def info_ok_def Let_def split: option.splits prod.splits if_splits)
qed

lemma disk_tokens_info:
  assumes "info_ok out" "\<forall>it\<in>set its. CHR '','' \<notin> set (snd it)"
  shows "info_ok (fold disk_token its out) \<and> di_pool (fold disk_token its out) = di_pool out"
  using assms by (induction its arbitrary: out) (simp_all add: disk_token_info)

lemma parse_disk_info_ok:
  "info_ok (parse_disk_info s)"
  "di_pool (parse_disk_info s) \<noteq> [] \<Longrightarrow>
     \<not> is_space (hd (di_pool (parse_disk_info s))) \<and> CHR '':'' \<notin> set (di_pool (parse_disk_info s))"
proof -
  let ?t = "trim_space s"
  have no: "info_ok (no_disk_info\<lparr>di_pool := p\<rparr>)" for p
    by (simp add: info_ok_def no_disk_info_def value_ok_Nil)
  have tok: "\<forall>it\<in>set (enumerate 0 (split_on (CHR '','') r)). CHR '','' \<notin> set (snd it)" for r
    using split_on_pieces nth_mem by (fastforce simp: in_set_enumerate_eq)
  note f = disk_tokens_info [OF no tok]
  show "info_ok (parse_disk_info s)"
    using f no [of "[]"] by (auto simp: parse_disk_info_def Let_def no_disk_info_def split: option.split)
  show "di_pool (parse_disk_info s) \<noteq> [] \<Longrightarrow>
     \<not> is_space (hd (di_pool (parse_disk_info s))) \<and> CHR '':'' \<notin> set (di_pool (parse_disk_info s))"
  proof -
    assume ne: "di_pool (parse_disk_info s) \<noteq> []"
    then obtain ci where ci: "index_byte ?t (CHR '':'') = Some ci" "0 < ci" "di_pool (parse_disk_info s) = take ci ?t"
      using f by (auto simp: parse_disk_info_def Let_def no_disk_info_def split: option.splits if_splits)
    have "?t \<noteq> []" "CHR '':'' \<notin> set (take ci ?t)" using ci(1) by (auto simp: index_byte_Some)
    then show ?thesis using trim_space_ends(2) [of s] ci(2,3) by (cases ?t; cases ci) auto
  qed
qed

section \<open>The wire string of a disk reads back\<close>

lemma option_token:
  assumes "k \<noteq> []" "CHR ''='' \<notin> set k" "\<not> is_space (hd k)" "v \<noteq> []" "\<not> is_space (List.last v)"
  shows "disk_token (i, k @ CHR ''='' # v) out = disk_option (k @ CHR ''='' # v) k v out"
proof -
  have "trim_space (k @ CHR ''='' # v) = k @ CHR ''='' # v" using assms by (intro trim_id) simp_all
  then show ?thesis using assms(1) cut_eq_at [OF assms(2)] by (simp add: disk_token_def)
qed

definition option_tokens :: "disk \<Rightarrow> string list" where
  "option_tokens d =
     (if dk_iothread d then [''iothread=1''] else []) @
     (if dk_discard d \<noteq> [] then [''discard'' @ CHR ''='' # to_lower (dk_discard d)] else []) @
     (case dk_ssd d of None \<Rightarrow> [] | Some b \<Rightarrow> [''ssd='' @ bit_str b]) @
     (if dk_aio d \<noteq> [] then [''aio'' @ CHR ''='' # to_lower (dk_aio d)] else [])"

lemma join_Cons: "join_with '','' (x # xs) = x @ concat (map (\<lambda>t. CHR '','' # t) xs)"
  by (induction xs arbitrary: x) simp_all

lemma drive_string_tokens:
  assumes "dk_image d = []"
  shows "drive_volume_string d = dk_storage d @ CHR '':'' # join_with '','' (gib_string (size_bytes (dk_size d)) # option_tokens d)"
  unfolding join_Cons using assms
  by (simp add: drive_volume_string_def disk_volume_string_def drive_option_tokens_def option_tokens_def split: option.split)

lemma read_options:
  assumes "value_ok (dk_discard d)" "value_ok (dk_aio d)" "di_iothread out = False" "di_discard out = []" "di_ssd out = None" "di_aio out = []"
  shows "fold disk_token (enumerate 1 (option_tokens d)) out = out\<lparr>di_iothread := dk_iothread d, di_discard := dk_discard d,
    di_ssd := dk_ssd d, di_aio := dk_aio d\<rparr>"
proof -
  have io: "disk_token (i, ''iothread=1'') o1 = o1\<lparr>di_iothread := True\<rparr>" for i o1
    using option_token [of "''iothread''" "''1''" i o1] by (simp add: disk_option_def truthy_def is_space_def)
  have ssd: "disk_token (i, ''ssd='' @ bit_str b) o1 = o1\<lparr>di_ssd := Some b\<rparr>" for i o1 b
    using option_token [of "''ssd''" "bit_str b" i o1] by (cases b) (simp_all add: disk_option_def truthy_def is_space_def bit_str_def)
  have disc: "disk_token (i, ''discard'' @ CHR ''='' # to_lower v) o1 = o1\<lparr>di_discard := v\<rparr>" if "value_ok v" "v \<noteq> []" for i v o1
    using that option_token [of "''discard''" v i o1] by (simp add: disk_option_def value_ok_def is_space_def)
  have aio: "disk_token (i, ''aio'' @ CHR ''='' # to_lower v) o1 = o1\<lparr>di_aio := v\<rparr>" if "value_ok v" "v \<noteq> []" for i v o1
    using that option_token [of "''aio''" v i o1] by (simp add: disk_option_def value_ok_def is_space_def)
  have p1: "fold disk_token (enumerate i (if dk_iothread d then [''iothread=1''] else [])) o1 = (if dk_iothread d then o1\<lparr>di_iothread := True\<rparr> else o1)" for i o1
    by (simp add: io)
  have p2: "fold disk_token (enumerate i (if dk_discard d \<noteq> [] then [''discard'' @ CHR ''='' # to_lower (dk_discard d)] else [])) o1 =
      (if dk_discard d \<noteq> [] then o1\<lparr>di_discard := dk_discard d\<rparr> else o1)" for i o1
    using disc [OF assms(1)] by simp
  have p3: "fold disk_token (enumerate i (case dk_ssd d of None \<Rightarrow> [] | Some b \<Rightarrow> [''ssd='' @ bit_str b])) o1 =
      (if dk_ssd d \<noteq> None then o1\<lparr>di_ssd := dk_ssd d\<rparr> else o1)" for i o1
    using ssd by (simp split: option.split)
  have p4: "fold disk_token (enumerate i (if dk_aio d \<noteq> [] then [''aio'' @ CHR ''='' # to_lower (dk_aio d)] else [])) o1 =
      (if dk_aio d \<noteq> [] then o1\<lparr>di_aio := dk_aio d\<rparr> else o1)" for i o1
    using aio [OF assms(2)] by simp
  show ?thesis
    unfolding option_tokens_def enumerate_append_eq fold_append comp_apply p1 p2 p3 p4
    using assms(3-6) by (cases out) simp
qed

definition token_ok :: "string \<Rightarrow> bool" where
  "token_ok x \<longleftrightarrow> x \<noteq> [] \<and> \<not> is_space (List.last x) \<and> CHR '','' \<notin> set x"

lemma option_tokens_ok:
  assumes "value_ok (dk_discard d)" "value_ok (dk_aio d)" "x \<in> set (option_tokens d)"
  shows "token_ok x"
proof -
  have bits: "token_ok ''iothread=1''" "token_ok (''ssd='' @ bit_str True)" "token_ok (''ssd='' @ bit_str False)" by code_simp+
  have ssd: "token_ok (''ssd='' @ bit_str b)" for b using bits by (cases b) (simp_all only:)
  have own: "token_ok (k @ CHR ''='' # to_lower v)" if "value_ok v" "v \<noteq> []" "CHR '','' \<notin> set k" for k v
  proof -
    have l: "to_lower v = v" and c: "CHR '','' \<notin> set v" and e: "\<not> is_space (List.last v)"
      using that unfolding value_ok_def by blast+
    have "CHR '','' \<noteq> CHR ''=''" by code_simp
    with that(3) c have "CHR '','' \<notin> set (k @ CHR ''='' # v)" by (metis Un_iff set_ConsD set_append)
    with e that(2) show ?thesis unfolding token_ok_def l by simp
  qed
  have one: "y = t \<and> b" if "y \<in> set (if b then [t] else [])" for y t :: string and b
    using that by (simp split: if_splits)
  from assms(3) have "x \<in> set (if dk_iothread d then [''iothread=1''] else []) \<or>
      x \<in> set (if dk_discard d \<noteq> [] then [''discard'' @ CHR ''='' # to_lower (dk_discard d)] else []) \<or>
      x \<in> set (case dk_ssd d of None \<Rightarrow> [] | Some b \<Rightarrow> [''ssd='' @ bit_str b]) \<or>
      x \<in> set (if dk_aio d \<noteq> [] then [''aio'' @ CHR ''='' # to_lower (dk_aio d)] else [])"
    unfolding option_tokens_def set_append Un_iff .
  then show ?thesis
  proof (elim disjE)
    assume "x \<in> set (if dk_iothread d then [''iothread=1''] else [])"
    from one [OF this] bits(1) show ?thesis by (simp only:)
  next
    assume "x \<in> set (if dk_discard d \<noteq> [] then [''discard'' @ CHR ''='' # to_lower (dk_discard d)] else [])"
    from one [OF this] show ?thesis using own [OF assms(1), of "''discard''"] by simp
  next
    assume "x \<in> set (case dk_ssd d of None \<Rightarrow> [] | Some b \<Rightarrow> [''ssd='' @ bit_str b])"
    then obtain b where "x = ''ssd='' @ bit_str b" by (cases "dk_ssd d") simp_all
    with ssd [of b] show ?thesis by (simp only:)
  next
    assume "x \<in> set (if dk_aio d \<noteq> [] then [''aio'' @ CHR ''='' # to_lower (dk_aio d)] else [])"
    from one [OF this] show ?thesis using own [OF assms(2), of "''aio''"] by simp
  qed
qed

lemma join_token_ok: "xs \<noteq> [] \<Longrightarrow> \<forall>x\<in>set xs. token_ok x \<Longrightarrow> join_with '','' xs \<noteq> [] \<and> \<not> is_space (List.last (join_with '','' xs))"
  by (induction "'',''" xs rule: join_with.induct) (auto simp: token_ok_def)

text \<open>The whole string: pool, size and options.\<close>

lemma drive_reads_back:
  assumes "dk_image d = []" "dk_storage d \<noteq> []" "\<not> is_space (hd (dk_storage d))" "CHR '':'' \<notin> set (dk_storage d)"
    and "value_ok (dk_discard d)" "value_ok (dk_aio d)"
  defines "i \<equiv> parse_disk_info (drive_volume_string d)" and "g \<equiv> float_gib (gib_string (size_bytes (dk_size d)))"
  shows "di_pool i = dk_storage d" "di_size_set i \<longleftrightarrow> g \<noteq> None" "di_size_set i \<longrightarrow> di_size i = the g"
    "di_iothread i = dk_iothread d" "di_discard i = dk_discard d" "di_ssd i = dk_ssd d" "di_aio i = dk_aio d"
proof -
  let ?g = "gib_string (size_bytes (dk_size d))" and ?j = "join_with '','' (gib_string (size_bytes (dk_size d)) # option_tokens d)"
  have gc: "list_all num_char ?g" "?g \<noteq> []" using gib_string_chars by blast+
  have gs: "trim_space ?g = ?g" using gc char_classes(3) by (intro trim_nospace) (auto simp: list_all_iff)
  have ge: "CHR ''='' \<notin> set ?g" "CHR '','' \<notin> set ?g" using gc char_classes(5,6) by (auto simp: list_all_iff)
  have tl: "token_ok x" if "x \<in> set (?g # option_tokens d)" for x
  proof (cases "x = ?g")
    case True
    have "\<not> is_space (List.last ?g)" using gc char_classes(3) last_in_set [OF gc(2)] by (auto simp: list_all_iff)
    then show ?thesis using True gc(2) ge(2) by (simp add: token_ok_def)
  qed (use that option_tokens_ok [OF assms(5,6)] in simp)
  have "?j \<noteq> [] \<and> \<not> is_space (List.last ?j)" by (rule join_token_ok) (use tl in simp_all)
  then have trim: "trim_space (drive_volume_string d) = dk_storage d @ CHR '':'' # ?j"
    using assms(2,3) unfolding drive_string_tokens [OF assms(1)] by (intro trim_id) simp_all
  have split: "split_on (CHR '','') ?j = ?g # option_tokens d"
    using tl by (intro split_on_join) (simp_all add: token_ok_def)
  let ?o = "no_disk_info\<lparr>di_pool := dk_storage d\<rparr>"
  have "i = fold disk_token (enumerate 0 (?g # option_tokens d)) ?o"
    unfolding i_def parse_disk_info_def trim Let_def
    using assms(2,4) split by (simp add: index_byte_append)
  also have "\<dots> = fold disk_token (enumerate 1 (option_tokens d)) (disk_token (0, ?g) ?o)" by simp
  also have "disk_token (0, ?g) ?o = (case g of Some b \<Rightarrow> ?o\<lparr>di_size := b, di_size_set := True, di_size_token := ?g\<rparr> | None \<Rightarrow> ?o\<lparr>di_volume := ?g\<rparr>)"
    using gc(2) cut_eq_none [OF ge(1)] by (simp add: disk_token_def gs g_def Let_def)
  also have "fold disk_token (enumerate 1 (option_tokens d)) \<dots> = \<dots>\<lparr>di_iothread := dk_iothread d, di_discard := dk_discard d,
      di_ssd := dk_ssd d, di_aio := dk_aio d\<rparr>"
    by (rule read_options [OF assms(5,6)]) (simp_all add: no_disk_info_def split: option.split)
  finally show "di_pool i = dk_storage d" "di_size_set i \<longleftrightarrow> g \<noteq> None" "di_size_set i \<longrightarrow> di_size i = the g"
    "di_iothread i = dk_iothread d" "di_discard i = dk_discard d" "di_ssd i = dk_ssd d" "di_aio i = dk_aio d"
    by (simp_all add: no_disk_info_def split: option.split)
qed

section \<open>Adopted disks are settled\<close>

text \<open>The size an adopted disk asks for is the size its drive has.\<close>

lemma adopted_size:
  assumes "di_size i < 2 ^ 53"
  shows "(case float_gib (gib_string (size_bytes (size_human i))) of None \<Rightarrow> True | Some b \<Rightarrow> b = di_size i)"
proof (cases "di_size_set i \<and> human_from_bytes (di_size i) \<noteq> None")
  case True
  then obtain s where s: "human_from_bytes (di_size i) = Some s" by blast
  then have "size_human i = s" using True by (simp add: size_human_def)
  with human_size_wire [OF s assms] show ?thesis by simp
next
  case False
  then have n: "size_human i = []" by (auto simp: size_human_def)
  have "float_gib (gib_string (size_bytes [])) = None" by code_simp
  then show ?thesis by (simp only: n option.case)
qed

lemma adopted_verdict:
  assumes "read_disk cur k v = Some d" "map_of cur k = Some v" "di_size (parse_disk_info (pve_str v)) < 2 ^ 53"
  shows "disk_verdict (Some cur) k d = Keep"
proof -
  let ?i = "parse_disk_info (pve_str v)" and ?w = "parse_disk_info (drive_volume_string d)"
  have d: "\<not> is_new_storage_slot (pve_str v)" "di_pool ?i \<noteq> []" "dk_image d = []" "dk_storage d = di_pool ?i"
    "dk_iothread d = di_iothread ?i" "dk_discard d = di_discard ?i" "dk_ssd d = di_ssd ?i" "dk_aio d = di_aio ?i"
    "dk_size d = size_human ?i"
    using assms(1) by (auto simp: read_disk_def Let_def new_disk_def split: if_splits)
  have ok: "value_ok (dk_discard d)" "value_ok (dk_aio d)" using parse_disk_info_ok(1) [of "pve_str v"] d by (simp_all add: info_ok_def)
  have st: "dk_storage d \<noteq> []" "\<not> is_space (hd (dk_storage d))" "CHR '':'' \<notin> set (dk_storage d)"
    using parse_disk_info_ok(2) [of "pve_str v"] d(2,4) by simp_all
  note w = drive_reads_back [OF d(3) st ok]
  have raw: "pve_str_at (Some cur) k = pve_str v" using assms(2) by (simp add: pve_str_at_def cfg_get_def)
  have "di_size_set ?w \<longrightarrow> di_size ?w = di_size ?i"
    using w(2,3) adopted_size [OF assms(3)] d(9) by (auto split: option.splits)
  moreover have "\<not> drive_options_drift ?i ?w"
    using w(4-7) d by (auto simp: drive_options_drift_def equal_fold_def)
  ultimately show ?thesis using d(1,4) w(1) by (auto simp: disk_verdict_def Let_def raw)
qed

lemma adopted_disk_read:
  assumes "d \<in> set (adopted_disks raw)" "distinct (map fst raw)"
  shows "\<exists>v. map_of raw (dk_slot d) = Some v \<and> read_disk raw (dk_slot d) v = Some d \<and> is_disk_slot (dk_slot d)"
proof -
  from assms(1) obtain kv where kv: "kv \<in> set raw" "read_disk raw (fst kv) (snd kv) = Some d"
    by (auto simp: adopted_disks_def pve_disks_def by_slot_def set_go_isort map_filter_def)
  then have "dk_slot d = fst kv" "is_disk_slot (fst kv)" by (auto simp: read_disk_def Let_def split: if_splits)
  moreover have "map_of raw (fst kv) = Some (snd kv)" using kv(1) assms(2) by simp
  ultimately show ?thesis using kv(2) by metis
qed

lemma slot_kept: "is_disk_slot (dk_slot d) \<Longrightarrow> slot_or p i (dk_slot d) = dk_slot d"
  by (auto simp: slot_or_def is_disk_slot_def numbered_slot_def)

lemma filled_adopted_slots:
  assumes "\<forall>d\<in>set (vs_disks (vm_spec v)). is_disk_slot (dk_slot d)"
  shows "disk_slots (vm_filled v) = map (\<lambda>d. (dk_slot d, d)) (vs_disks (vm_spec v))"
proof -
  have "map (\<lambda>(i, d). (slot_or ''scsi'' i (dk_slot d), d\<lparr>dk_slot := slot_or ''scsi'' i (dk_slot d)\<rparr>)) (enumerate n ds) =
      map (\<lambda>d. (dk_slot d, d)) ds" if "\<forall>d\<in>set ds. is_disk_slot (dk_slot d)" for n ds
    using that by (induction ds arbitrary: n) (simp_all add: slot_kept)
  with assms show ?thesis unfolding fill_disk_slots by blast
qed

lemma adopted_vm_disks: "vs_disks (vm_spec (adopted_vm k node e raw cd data)) = adopted_disks raw"
  by (simp add: adopted_vm_def)

lemma adopted_not_clone: "\<not> is_clone_backed (vm_filled (adopted_vm k node e raw cd data))"
proof -
  have "trim_space (vs_clone zero_vm_spec) = []" by code_simp
  then show ?thesis by (simp add: adopted_vm_def vm_filled_def is_clone_backed_def clone_name_def Let_def)
qed

text \<open>
  C29: adopt, then reconcile.  A VM is adopted from its live configuration and the manifest
  validates.  Reconciling the unchanged machine against that manifest writes no drive slot and
  reports none of the drives in the manifest: no disk is recreated, resized, moved or restarted for its options.
  A live drive is reported as live-only exactly when adoption left it out of the manifest.  Live sizes
  are below 8 PiB, where a \<^verbatim>\<open>float64\<close> still holds every byte count.
\<close>

theorem adopted_disks_settle:
  assumes "distinct (map fst raw)" "v = adopted_vm k node e raw cd data" "vm_validate v = None" "is_disk_slot s"
    and "\<forall>d\<in>set (adopted_disks raw). di_size (parse_disk_info (str_at raw (dk_slot d))) < 2 ^ 53"
  shows "map_of (fst (vm_drift_state (vm_filled v) (Some raw))) s = None \<and>
    disk_reports (vm_filled v) (Some raw) = [] \<and>
    (slot_anomaly (vm_filled v) s x \<noteq> None \<longleftrightarrow> s \<notin> dk_slot ` set (adopted_disks raw) \<and> \<not> is_none_slot (pve_str x))"
proof (intro conjI)
  have keep: "is_disk_slot (dk_slot d) \<and> disk_verdict (Some raw) (dk_slot d) d = Keep" if "d \<in> set (adopted_disks raw)" for d
  proof -
    from adopted_disk_read [OF that assms(1)]
    obtain x where x: "map_of raw (dk_slot d) = Some x" "read_disk raw (dk_slot d) x = Some d" "is_disk_slot (dk_slot d)"
      by blast
    then have "di_size (parse_disk_info (pve_str x)) < 2 ^ 53"
      using assms(5) that by (force simp: pve_str_at_def cfg_get_def)
    with x show ?thesis by (simp add: adopted_verdict)
  qed
  then have sl: "disk_slots (vm_filled v) = map (\<lambda>d. (dk_slot d, d)) (adopted_disks raw)"
    unfolding adopted_vm_disks [of k node e raw cd data, folded assms(2), symmetric]
    by (intro filled_adopted_slots) simp
  have "vm_slots_ok (vm_filled v)" using assms(3) by (intro filled_slots_ok vm_validate_slots)
  note drift = vm_drift_disk [OF this assms(4), of "Some raw"]
  show "map_of (fst (vm_drift_state (vm_filled v) (Some raw))) s = None"
  proof (rule ccontr)
    assume "map_of (fst (vm_drift_state (vm_filled v) (Some raw))) s \<noteq> None"
    then obtain x where "map_of (fst (vm_drift_state (vm_filled v) (Some raw))) s = Some x" by blast
    then obtain d y where "(s, d) \<in> set (disk_slots (vm_filled v))" "disk_verdict (Some raw) s d = Write y"
      unfolding drift by blast
    then show False using keep [of d] by (auto simp: sl)
  qed
  show "disk_reports (vm_filled v) (Some raw) = []"
    using keep sl by (auto simp: disk_reports_def disk_verdicts_def)
  have "fst ` set (disk_slots (vm_filled v)) = dk_slot ` set (adopted_disks raw)"
    by (simp add: sl image_image)
  then show "slot_anomaly (vm_filled v) s x \<noteq> None \<longleftrightarrow> s \<notin> dk_slot ` set (adopted_disks raw) \<and> \<not> is_none_slot (pve_str x)"
    using assms(4) adopted_not_clone [of k node e raw cd data] by (simp add: slot_anomaly_def assms(2) Let_def)
qed

definition ex_raw :: params where
  "ex_raw =
     [(''name'', PStr ''Web 01''), (''cores'', PFloat 2), (''memory'', PStr ''2048''), (''cpu'', PStr ''host''),
      (''net0'', PStr ''virtio=BC:24:11:00:00:01,bridge=vmbr0''), (''scsi0'', PStr ''lvm:vm-100-disk-0,discard=on,size=32G'')]"

definition ex_adopted :: vm where
  "ex_adopted = adopted_vm KindVM ''pve1'' \<lparr>le_id = 100, le_name = ''Web 01'', le_status = ''running'', le_tags = []\<rparr> ex_raw
     \<lparr>cd_iso = [], cd_media = []\<rparr> zero_cloud_data"

theorem adopted_disks_settle_witness:
  "map_of (fst (vm_drift_state (vm_filled ex_adopted) (Some ex_raw))) ''scsi0'' = None \<and>
   disk_reports (vm_filled ex_adopted) (Some ex_raw) = [] \<and>
   slot_anomaly (vm_filled ex_adopted) ''scsi0'' (PStr ''lvm:vm-100-disk-0,discard=on,size=32G'') = None"
proof -
  have 1: "distinct (map fst ex_raw)" by code_simp
  have 2: "vm_validate ex_adopted = None" by code_simp
  have 3: "is_disk_slot ''scsi0''" by code_simp
  have "list_all (\<lambda>d. di_size (parse_disk_info (str_at ex_raw (dk_slot d))) < 2 ^ 53) (adopted_disks ex_raw)" by code_simp
  then have 4: "\<forall>d\<in>set (adopted_disks ex_raw). di_size (parse_disk_info (str_at ex_raw (dk_slot d))) < 2 ^ 53"
    by (simp only: list_all_iff)
  have "list_ex (\<lambda>d. dk_slot d = ''scsi0'') (adopted_disks ex_raw)" by code_simp
  then have "''scsi0'' \<in> dk_slot ` set (adopted_disks ex_raw)" by (force simp: list_ex_iff)
  with adopted_disks_settle [OF 1 ex_adopted_def 2 3 4, of "PStr ''lvm:vm-100-disk-0,discard=on,size=32G''"]
  show ?thesis by blast
qed

text \<open>
  Adoption leaves the cloud-init drive of a \<^verbatim>\<open>scsi\<close> slot out of the manifest, as a gap.  Every cycle then
  reports that drive of the unchanged machine as a live-only disk.
\<close>

definition ex_raw_ci :: params where
  "ex_raw_ci = ex_raw @ [(''scsi1'', PStr ''lvm:vm-100-cloudinit,media=cdrom'')]"

lemma left_out_drive_reported:
  "let v = adopted_vm KindVM ''pve1'' \<lparr>le_id = 100, le_name = ''Web 01'', le_status = ''running'', le_tags = []\<rparr> ex_raw_ci
     \<lparr>cd_iso = [], cd_media = []\<rparr> zero_cloud_data
   in vm_validate v = None \<and> map dk_slot (adopted_disks ex_raw_ci) = [''scsi0''] \<and>
      slot_anomaly (vm_filled v) ''scsi1'' (PStr ''lvm:vm-100-cloudinit,media=cdrom'') =
        Some (''live-only disk slot scsi1=lvm:vm-100-cloudinit,media=cdrom is not in spec.disks; proxops will not automatically remove a live-only disk'')"
  by code_simp

end
