(* ===== verification/Adopt_Facts.thy ===== *)
theory Adopt_Facts
  imports Adopt_Disks
begin

text \<open>
  Lemmas on adoption runs: which requests they send, what each step leaves of the state, and the
  contract \<open>adoption\<close> under which a fact of the state holds for a whole run.
\<close>

section \<open>Reads\<close>

definition reads :: "'a io \<Rightarrow> bool" where
  "reads m \<longleftrightarrow> sends get_only m \<and> (\<forall>cl. c_writes (snd (m cl)) = c_writes cl)"

named_theorems reading \<open>calls that only read\<close>

lemma reads_return [reading]: "reads (io_return a)"
  unfolding reads_def by (simp add: sends_return) (simp add: io_return_def)

lemma reads_fail [reading]: "reads (io_fail e)"
  unfolding reads_def by (simp add: sends_fail) (simp add: io_fail_def)

lemma reads_bind [reading]: "reads m \<Longrightarrow> (\<And>a. reads (f a)) \<Longrightarrow> reads (io_bind m f)"
proof -
  assume m: "reads m" and f: "\<And>a. reads (f a)"
  have "c_writes (snd (io_bind m f cl)) = c_writes cl" for cl
  proof (cases "m cl")
    case (Pair r cl1)
    then have "c_writes cl1 = c_writes cl" using m by (metis reads_def snd_conv)
    then show ?thesis using f Pair by (cases r) (simp_all add: io_bind_def reads_def)
  qed
  with m f show ?thesis by (simp add: reads_def sends_bind)
qed

lemma reads_wrap [reading]: "reads m \<Longrightarrow> reads (io_wrap w m)"
proof -
  assume m: "reads m"
  have "c_writes (snd (io_wrap w m cl)) = c_writes (snd (m cl))" for cl
    by (simp add: io_wrap_def split: prod.split sum.split)
  with m show ?thesis by (simp add: reads_def sends_wrap)
qed

lemma reads_try [reading]: "reads m \<Longrightarrow> reads (io_try m)"
proof -
  assume m: "reads m"
  have s: "snd (io_try m cl) = snd (m cl)" for cl by (simp add: io_try_def split: prod.split sum.split)
  with m show ?thesis by (simp add: reads_def sends_def)
qed

lemma reads_result [reading]: "reads (io_result r)"
  by (cases r) (simp_all add: io_result_def reads_return reads_fail)

lemma reads_fold [reading]: "(\<And>x s. reads (f x s)) \<Longrightarrow> reads (io_fold f xs s)"
  by (induction xs arbitrary: s) (simp_all add: reads_return reads_bind)

lemma reads_if [reading]: "reads m \<Longrightarrow> reads m' \<Longrightarrow> reads (if b then m else m')"
  by simp

lemma reads_do: "ca_method ca = ''GET'' \<Longrightarrow> reads (client_do env cx ca)"
proof -
  assume g: "ca_method ca = ''GET''"
  have "\<not> Pve_Request.is_write ''GET''" by code_simp
  then have "c_writes (snd (client_do env cx ca cl)) = c_writes cl" for cl
    using client_do_writes [of env cx ca cl] g by (cases "client_do env cx ca cl") simp
  moreover have "sends get_only (client_do env cx ca)"
    by (rule sends_mono [OF sends_do]) (use g in \<open>simp add: get_only_def\<close>)
  ultimately show ?thesis by (simp add: reads_def)
qed

lemma reads_get: "reads (api_get env cx node path dec zero)"
  unfolding api_get_def by (intro reads_bind reads_do) (simp_all add: reads_return split: prod.split)

lemma reads_endpoints [reading]:
  "reads (pve_nodes env cx)" "reads (vm_list env cx node)" "reads (lxc_list env cx node)"
  "reads (vm_get env cx node i)" "reads (lxc_get env cx node i)" "reads (storage_content env cx node st)"
  by (simp_all add: read_defs reads_get)

lemma reads_storage_list [reading]: "reads (storage_list env cx node)"
  unfolding storage_list_def by (intro reading reads_get)

lemma reads_volumes [reading]: "reads (node_volume_sizes env cx node st)"
  unfolding node_volume_sizes_def node_volumes_def by (simp split: option.split) (intro conjI impI allI reading)

lemma reads_adopt_vm [reading]: "reads (adopt_vm env cx dk opts cluster node e st)"
  unfolding adopt_vm_def by (intro reading)

lemma reads_adopt_lxc [reading]: "reads (adopt_lxc env cx dk cluster node e st)"
  unfolding adopt_lxc_def by (intro reading)

lemma reads_artifacts [reading]: "reads (adopt_artifacts env cx dk cluster nodes st)"
  unfolding adopt_artifacts_def discover_node_def discover_storage_def
  by (intro reading) (simp add: reads_result split: prod.split)

lemma reads_cluster: "reads (adopt_cluster env cx dk opts cluster allowed)"
  unfolding adopt_cluster_def adopt_nodes_def adopt_node_vms_def adopt_node_lxcs_def by (intro reading)

section \<open>Results\<close>

text \<open>Whatever a call returns satisfies \<open>P\<close>; nothing is said of its errors.\<close>

definition yields :: "('a \<Rightarrow> bool) \<Rightarrow> 'a io \<Rightarrow> bool" where
  "yields P m \<longleftrightarrow> (\<forall>cl a cl1. m cl = (Inr a, cl1) \<longrightarrow> P a)"

lemma yields_any: "(\<And>a. P a) \<Longrightarrow> yields P m"
  by (simp add: yields_def)

lemma yields_return: "P a \<Longrightarrow> yields P (io_return a)"
  by (simp add: yields_def io_return_def)

lemma yields_bind: "yields Q m \<Longrightarrow> (\<And>a. Q a \<Longrightarrow> yields P (f a)) \<Longrightarrow> yields P (io_bind m f)"
  by (auto simp: yields_def io_bind_def split: prod.splits sum.splits) blast

lemma yields_step: "(\<And>a. yields P (f a)) \<Longrightarrow> yields P (io_bind m f)"
  by (rule yields_bind [OF yields_any [of "\<lambda>_. True"]]) simp_all

lemma yields_result: "(\<And>a. r = Inr a \<Longrightarrow> P a) \<Longrightarrow> yields P (io_result r)"
  by (cases r) (simp_all add: yields_def io_result_def io_return_def io_fail_def)

lemma yields_try: "yields P m \<Longrightarrow> yields (\<lambda>r. case r of None \<Rightarrow> True | Some a \<Rightarrow> P a) (io_try m)"
  by (auto simp: yields_def io_try_def split: prod.splits sum.splits)

lemma yields_fold: "(\<And>x s. P s \<Longrightarrow> yields P (f x s)) \<Longrightarrow> P s \<Longrightarrow> yields P (io_fold f xs s)"
proof (induction xs arbitrary: s)
  case (Cons x xs)
  show ?case using yields_bind [OF Cons.prems(1) [OF Cons.prems(2)] Cons.IH] Cons.prems(1) by simp
qed (simp add: yields_return)

lemma result_fold_keeps: "(\<And>x s s'. P s \<Longrightarrow> f x s = Inr s' \<Longrightarrow> P s') \<Longrightarrow> P s \<Longrightarrow> result_fold f xs s = Inr s' \<Longrightarrow> P s'"
  by (induction xs arbitrary: s) (auto split: sum.splits)

section \<open>Facts of a whole run\<close>

text \<open>
  A fact \<open>I\<close> of the adoption state that holds at the start and that writing one artifact, one VM and
  one container keeps, holds when a run ends, up to the final ordering of its lists.
\<close>

locale adoption =
  fixes I :: "adopt \<Rightarrow> bool" and dk :: "string \<Rightarrow> string option" and opts :: adopt_options and cluster :: string
  assumes start: "I new_adopt"
    and volumes: "I st \<Longrightarrow> I (st\<lparr>ad_volumes := vols\<rparr>)"
    and iso: "I st \<Longrightarrow> write_iso dk cluster f st = Inr st' \<Longrightarrow> I st'"
    and ctt: "I st \<Longrightarrow> write_ctt dk cluster f st = Inr st' \<Longrightarrow> I st'"
    and vm: "I st \<Longrightarrow> adopt_vm_config dk opts cluster node e raw st = Inr st' \<Longrightarrow> I st'"
    and lxc: "I st \<Longrightarrow> adopt_lxc_config dk cluster node e raw listing st = Inr st' \<Longrightarrow> I st'"
begin

lemma keeps_artifacts: "I st \<Longrightarrow> yields I (adopt_artifacts env cx dk cluster nodes st)"
  unfolding adopt_artifacts_def
proof (intro yields_step, clarify, rule yields_result)
  fix isos vzts st'
  assume st: "I st"
    and r: "(case result_fold (write_iso dk cluster) (in_order isos) st of
             Inl e \<Rightarrow> Inl e
           | Inr st1 \<Rightarrow> result_fold (write_ctt dk cluster) (in_order vzts) st1) = Inr st'"
  then obtain st1 where st1: "result_fold (write_iso dk cluster) (in_order isos) st = Inr st1"
    "result_fold (write_ctt dk cluster) (in_order vzts) st1 = Inr st'"
    by (auto split: sum.splits)
  have "I st1" using result_fold_keeps [of I "write_iso dk cluster", OF iso st st1(1)] .
  then show "I st'" using result_fold_keeps [where P = I and f = "write_ctt dk cluster", OF _ _ st1(2)] ctt by blast
qed

lemma keeps_vms: "I st \<Longrightarrow> yields I (adopt_vm env cx dk opts cluster node e st)"
  unfolding adopt_vm_def by (intro yields_step yields_result) (rule vm)

lemma keeps_sizes: "I st \<Longrightarrow> yields (\<lambda>vs. I (snd vs)) (node_volume_sizes env cx node st)"
  unfolding node_volume_sizes_def by (simp add: yields_return yields_step volumes split: option.split)

lemma keeps_lxcs: "I st \<Longrightarrow> yields I (adopt_lxc env cx dk cluster node e st)"
proof -
  assume st: "I st"
  have "yields (\<lambda>r. case r of None \<Rightarrow> True | Some vs \<Rightarrow> I (snd vs))
      (if needs_sizes raw then io_try (node_volume_sizes env cx node st) else io_return (Some ([], st)))" for raw
    using yields_try [OF keeps_sizes [OF st]] st by (simp add: yields_return)
  note vs = this
  show ?thesis
    unfolding adopt_lxc_def
  proof (rule yields_step, rule yields_bind [OF vs], rule yields_result)
    fix raw r st'
    assume "case r of None \<Rightarrow> True | Some vs \<Rightarrow> I (snd vs)"
      and "(case r of None \<Rightarrow> adopt_lxc_config dk cluster node e raw None st
            | Some (sizes, st1) \<Rightarrow> adopt_lxc_config dk cluster node e raw (Some sizes) st1) = Inr st'"
    then show "I st'" using lxc [of _ node e raw _ st'] st by (cases r) auto
  qed
qed

lemma keeps_cluster: "yields (\<lambda>st. \<exists>st0. I st0 \<and> st = finish_adopt st0) (adopt_cluster env cx dk opts cluster allowed)"
proof -
  have v: "I st \<Longrightarrow> yields I (adopt_node_vms env cx dk opts cluster node st)" for node st
    unfolding adopt_node_vms_def by (intro yields_step yields_fold keeps_vms)
  have l: "I st \<Longrightarrow> yields I (adopt_node_lxcs env cx dk cluster node st)" for node st
    unfolding adopt_node_lxcs_def by (intro yields_step yields_fold keeps_lxcs)
  show ?thesis
    unfolding adopt_cluster_def
    by (rule yields_step, rule yields_bind [OF keeps_artifacts [OF start]], rule yields_bind [OF yields_fold [OF v]], assumption, assumption,
        rule yields_bind [OF yields_fold [OF l]], assumption, assumption, rule yields_return, blast)
qed

lemma keeps_run:
  assumes "run_adopt env cx dk opts cluster allowed cl = (Inr st, cl1)"
  obtains st0 where "I st0" "st = finish_adopt st0"
proof -
  from assms obtain cl2 where "adopt_cluster env cx dk opts cluster allowed cl = (Inr st, cl2)"
    by (auto simp: run_adopt_def io_fail_def split: if_splits prod.splits sum.splits)
  with keeps_cluster [of env cx allowed] have "\<exists>st0. I st0 \<and> st = finish_adopt st0" unfolding yields_def by blast
  with that show ?thesis by blast
qed

end

end
