(* ===== verification/Adopt_Keys.thy ===== *)
theory Adopt_Keys
  imports Adopt_Facts
begin

text \<open>
  The SSH keys of an adopted guest: which references replace the live key lines, and that a key of
  the guest never enters its manifest.
\<close>

section \<open>Matching the live lines\<close>

lemma existing_by_line_in:
  assumes "map_of (existing_by_line keys) line = Some n"
  shows "\<exists>l. (n, l) \<in> set keys \<and> trim_space l = line"
proof -
  let ?step = "\<lambda>nl m. if trim_space (snd nl) = [] then m else put (trim_space (snd nl)) (fst nl) m"
  have "map_of (fold ?step ks m) line = Some n \<Longrightarrow> map_of m line = Some n \<or> (\<exists>l. (n, l) \<in> set ks \<and> trim_space l = line)" for ks m
    by (induction ks arbitrary: m) (fastforce simp: map_of_put split: if_splits)+
  from this [of keys "[]"] assms show ?thesis by (simp add: existing_by_line_def)
qed

text \<open>A name that stands for a line: an entry of the document, or a key imported in this run.\<close>

definition names_line :: "adopt_options \<Rightarrow> (string \<times> string) list \<Rightarrow> string \<Rightarrow> string \<Rightarrow> bool" where
  "names_line opts new n line \<longleftrightarrow>
     (\<exists>l. (n, l) \<in> set (ao_keys opts) \<and> trim_space l = line) \<or>
     (ao_adopt_secrets opts \<and> n \<in> fst ` set new \<and> (\<exists>fp. ssh_key_fingerprint line = Some fp \<and> n = adopted_name fp))"

definition match_ok :: "adopt_options \<Rightarrow> string list \<Rightarrow> key_match \<Rightarrow> bool" where
  "match_ok opts lines m \<longleftrightarrow>
     km_refs m = map (\<lambda>n. ssh_ref_prefix @ n) (km_unique m) \<and> distinct (km_unique m) \<and>
     (\<forall>n\<in>set (km_unique m). \<exists>l\<in>set lines. names_line opts (km_new m) n (trim_space l)) \<and>
     (\<forall>l\<in>set lines. \<exists>n\<in>set (km_unique m). names_line opts (km_new m) n (trim_space l)) \<and>
     (\<not> ao_adopt_secrets opts \<longrightarrow> km_new m = [])"

lemma names_line_mono: "names_line opts new n l \<Longrightarrow> fst ` set new \<subseteq> fst ` set new' \<Longrightarrow> names_line opts new' n l"
  by (auto simp: names_line_def)

lemma match_name_ok:
  assumes "match_ok opts lines m" "names_line opts new n (trim_space l)"
    and "fst ` set (km_new m) \<subseteq> fst ` set new" "\<not> ao_adopt_secrets opts \<longrightarrow> new = []"
  shows "match_ok opts (lines @ [l]) (match_name n (m\<lparr>km_new := new, km_reused := r\<rparr>))"
proof -
  have old: "names_line opts (km_new m) n' l' \<Longrightarrow> names_line opts new n' l'" for n' l'
    using names_line_mono assms(3) by blast
  show ?thesis
    using assms(1,2,4) old unfolding match_ok_def match_name_def by (auto; blast)
qed

lemma match_line_ok:
  assumes "match_ok opts lines m" "match_line (ao_adopt_secrets opts) (existing_by_line (ao_keys opts)) l m = Some m'"
  shows "match_ok opts (lines @ [l]) m' \<and> fst ` set (km_new m) \<subseteq> fst ` set (km_new m')"
proof (cases "map_of (existing_by_line (ao_keys opts)) (trim_space l)")
  case (Some n)
  then have "m' = match_name n (m\<lparr>km_new := km_new m, km_reused := set_add n (km_reused m)\<rparr>)"
    using assms(2) by (auto simp: match_line_def Let_def split: if_splits)
  moreover have "names_line opts (km_new m) n (trim_space l)"
    using existing_by_line_in [OF Some] by (auto simp: names_line_def)
  moreover have "\<not> ao_adopt_secrets opts \<longrightarrow> km_new m = []" using assms(1) by (simp add: match_ok_def)
  ultimately show ?thesis
    using match_name_ok [OF assms(1), of "km_new m" n l "set_add n (km_reused m)"] by (simp add: match_name_def)
next
  case None
  then obtain fp where fp: "ssh_key_fingerprint (trim_space l) = Some fp" "ao_adopt_secrets opts"
    and m': "m' = match_name (adopted_name fp) (m\<lparr>km_new := put (adopted_name fp) (trim_space l) (km_new m), km_reused := km_reused m\<rparr>)"
    using assms(2) by (auto simp: match_line_def Let_def split: if_splits option.splits)
  let ?new = "put (adopted_name fp) (trim_space l) (km_new m)"
  have "names_line opts ?new (adopted_name fp) (trim_space l)" using fp by (simp add: names_line_def put_keys)
  moreover have "fst ` set (km_new m) \<subseteq> fst ` set ?new" by (auto simp: put_keys)
  ultimately show ?thesis
    using match_name_ok [OF assms(1), of ?new "adopted_name fp" l "km_reused m"] fp(2) by (simp add: m' match_name_def)
qed

lemma match_lines_ok:
  assumes "match_lines (ao_adopt_secrets opts) (existing_by_line (ao_keys opts)) ls m = Some m'" "match_ok opts done m"
  shows "match_ok opts (done @ ls) m'"
  using assms
proof (induction ls arbitrary: "done" m)
  case (Cons l ls)
  then obtain m1 where m1: "match_line (ao_adopt_secrets opts) (existing_by_line (ao_keys opts)) l m = Some m1"
    "match_lines (ao_adopt_secrets opts) (existing_by_line (ao_keys opts)) ls m1 = Some m'"
    by (auto split: option.splits)
  from Cons.IH [OF m1(2), of "done @ [l]"] match_line_ok [OF Cons.prems(2) m1(1)] show ?case by simp
qed simp

text \<open>The imported keys: every name carries the fingerprint of its key.\<close>

definition imports_ok :: "(string \<times> string) list \<Rightarrow> bool" where
  "imports_ok new \<longleftrightarrow> (\<forall>n t. map_of new n = Some t \<longrightarrow> (\<exists>fp. ssh_key_fingerprint t = Some fp \<and> n = adopted_name fp))"

lemma imports_ok_put:
  "imports_ok new \<Longrightarrow> ssh_key_fingerprint t = Some fp \<Longrightarrow> imports_ok (put (adopted_name fp) t new)"
  by (auto simp: imports_ok_def)

lemma match_line_imports:
  "match_line s ex l m = Some m' \<Longrightarrow> imports_ok (km_new m) \<Longrightarrow> imports_ok (km_new m')"
  by (auto simp: match_line_def match_name_def Let_def imports_ok_put split: if_splits option.splits)

lemma match_lines_imports:
  "match_lines s ex ls m = Some m' \<Longrightarrow> imports_ok (km_new m) \<Longrightarrow> imports_ok (km_new m')"
  by (induction ls arbitrary: m) (auto dest: match_line_imports split: option.splits)

definition merge_new :: "string \<times> string \<Rightarrow> (string \<times> string) list \<Rightarrow> (string \<times> string) list" where
  "merge_new nl acc = (if map_of acc (fst nl) = None then put (fst nl) (snd nl) acc else acc)"

lemma ad_new_commit: "ad_new (commit_match m st) = fold merge_new (km_new m) (ad_new st)"
  by (simp add: commit_match_def merge_new_def [abs_def])

lemma merge_new_keys: "fst ` set (fold merge_new xs acc) = fst ` set xs \<union> fst ` set acc"
proof (induction xs arbitrary: acc)
  case (Cons x xs)
  have "fst ` set (merge_new x acc) = insert (fst x) (fst ` set acc)"
    by (auto simp: merge_new_def map_of_eq_None_iff)
  with Cons show ?case by simp
qed simp

lemma merge_new_imports:
  assumes "imports_ok acc" "\<forall>x\<in>set xs. \<exists>fp. ssh_key_fingerprint (snd x) = Some fp \<and> fst x = adopted_name fp"
  shows "imports_ok (fold merge_new xs acc)"
  using assms
proof (induction xs arbitrary: acc)
  case (Cons x xs)
  then have "imports_ok (merge_new x acc)" by (auto simp: merge_new_def intro: imports_ok_put)
  with Cons show ?case by simp
qed simp

text \<open>What a reference of an adopted guest names.\<close>

definition resolves_line :: "adopt_options \<Rightarrow> (string \<times> string) list \<Rightarrow> string \<Rightarrow> string \<Rightarrow> bool" where
  "resolves_line opts new n line \<longleftrightarrow>
     (\<exists>l. (n, l) \<in> set (ao_keys opts) \<and> trim_space l = line) \<or>
     (ao_adopt_secrets opts \<and>
      (\<exists>t fp. map_of new n = Some t \<and> ssh_key_fingerprint t = Some fp \<and> ssh_key_fingerprint line = Some fp))"

lemma names_resolves:
  assumes "names_line opts new n line" "imports_ok new" shows "resolves_line opts new n line"
proof (cases "\<exists>l. (n, l) \<in> set (ao_keys opts) \<and> trim_space l = line")
  case False
  then obtain fp where n: "ao_adopt_secrets opts" "n \<in> fst ` set new" "ssh_key_fingerprint line = Some fp" "n = adopted_name fp"
    using assms(1) unfolding names_line_def by blast
  from n(2) obtain t where t: "map_of new n = Some t" by (metis map_of_eq_None_iff not_None_eq)
  with assms(2) obtain fq where q: "ssh_key_fingerprint t = Some fq" "n = adopted_name fq" unfolding imports_ok_def by blast
  with n(4) have "fq = fp" by (simp add: adopted_name_def)
  with n q t show ?thesis unfolding resolves_line_def by blast
qed (simp add: resolves_line_def)

lemma fst_map_distinct: "distinct (map fst xs) \<Longrightarrow> (\<forall>x\<in>set xs. map_of xs (fst x) = Some (snd x))"
  by auto

lemma match_new_distinct: "match_lines s ex ls m = Some m' \<Longrightarrow> distinct (map fst (km_new m)) \<Longrightarrow> distinct (map fst (km_new m'))"
  by (induction ls arbitrary: m)
    (auto simp: match_line_def match_name_def Let_def put_distinct split: if_splits option.splits)

lemma match_or_adopt_facts:
  assumes "match_or_adopt opts lines st = (Some refs, st')" "imports_ok (ad_new st)"
  shows "\<exists>m. match_ok opts lines m \<and> refs = km_refs m \<and> imports_ok (ad_new st') \<and>
    fst ` set (ad_new st') = fst ` set (km_new m) \<union> fst ` set (ad_new st)"
proof -
  obtain m where m: "match_lines (ao_adopt_secrets opts) (existing_by_line (ao_keys opts)) lines no_match = Some m"
    "refs = km_refs m" "st' = commit_match m st"
    using assms(1) by (auto simp: match_or_adopt_def split: option.splits)
  have "match_ok opts [] no_match" by (simp add: match_ok_def no_match_def)
  from match_lines_ok [OF m(1) this] have ok: "match_ok opts lines m" by simp
  have "imports_ok (km_new m)" "distinct (map fst (km_new m))"
    using match_lines_imports [OF m(1)] match_new_distinct [OF m(1)] by (simp_all add: no_match_def imports_ok_def)
  then have "imports_ok (ad_new st')"
    unfolding m(3) ad_new_commit using assms(2) fst_map_distinct [of "km_new m"]
    by (intro merge_new_imports) (auto simp: imports_ok_def)
  with ok m show ?thesis by (auto simp: ad_new_commit merge_new_keys)
qed

text \<open>
  The references that replace a guest's SSH keys are exact.  When every live line is matched,
  each reference names a key that is one of the live lines, each live line has such a reference,
  and no reference is repeated: no key is lost, none is added.  A reference to the secrets document
  names the same line; a reference to an imported key names a key with the line's fingerprint.
\<close>

theorem adopted_keys_exact:
  assumes "match_or_adopt opts lines st = (Some refs, st')" "imports_ok (ad_new st)"
  shows "distinct refs \<and>
    (\<forall>r\<in>set refs. \<exists>n l. r = ssh_ref_prefix @ n \<and> l \<in> set lines \<and> resolves_line opts (ad_new st') n (trim_space l)) \<and>
    (\<forall>l\<in>set lines. \<exists>n. ssh_ref_prefix @ n \<in> set refs \<and> resolves_line opts (ad_new st') n (trim_space l))"
proof -
  obtain m where m: "match_ok opts lines m" "refs = km_refs m" "imports_ok (ad_new st')"
    "fst ` set (ad_new st') = fst ` set (km_new m) \<union> fst ` set (ad_new st)"
    using match_or_adopt_facts [OF assms] by blast
  have res: "names_line opts (km_new m) n l \<Longrightarrow> resolves_line opts (ad_new st') n l" for n l
    using names_line_mono [of opts "km_new m" n l "ad_new st'"] m(3,4) by (blast intro: names_resolves)
  have "distinct (map ((@) ssh_ref_prefix) (km_unique m))" using m(1) by (simp add: match_ok_def distinct_map inj_on_def)
  with m(1) res show ?thesis unfolding m(2) match_ok_def by (fastforce simp: image_iff)
qed

definition ex_opts :: adopt_options where
  "ex_opts = \<lparr>ao_loaded = True, ao_keys = [(''alice'', ''ssh-ed25519 AAAAC3NzaC1lZDI1NTE5 alice@laptop'')], ao_adopt_secrets = False\<rparr>"

definition ex_lines :: "string list" where
  "ex_lines = ['' ssh-ed25519 AAAAC3NzaC1lZDI1NTE5 alice@laptop'']"

theorem adopted_keys_exact_witness:
  "resolves_line ex_opts (ad_new (snd (match_or_adopt ex_opts ex_lines new_adopt))) ''alice'' (trim_space (hd ex_lines))"
proof -
  have m: "match_or_adopt ex_opts ex_lines new_adopt = (Some [ssh_ref_prefix @ ''alice''], snd (match_or_adopt ex_opts ex_lines new_adopt))"
    by (rule prod_eqI) code_simp+
  have e: "imports_ok (ad_new new_adopt)" by (simp add: imports_ok_def new_adopt_def)
  from adopted_keys_exact [OF m e] show ?thesis by (auto simp: ex_lines_def)
qed

section \<open>Cloud-init data\<close>

text \<open>No key, no password; the references name keys of the document or imported ones.\<close>

definition data_ok :: "adopt_options \<Rightarrow> (string \<times> string) list \<Rightarrow> cloud_init_data \<Rightarrow> bool" where
  "data_ok opts new d \<longleftrightarrow>
     (cd_ssh_keys d = [] \<or> cd_ssh_keys d = [redacted_sentinel]) \<and>
     cd_password_ref d = [] \<and> cd_resolved_keys d = [] \<and> cd_resolved_password d = [] \<and>
     (\<forall>r\<in>set (cd_ssh_key_refs d). \<exists>n. r = ssh_ref_prefix @ n \<and> (n \<in> fst ` set (ao_keys opts) \<or> (ao_adopt_secrets opts \<and> n \<in> fst ` set new)))"

lemma data_ok_mono: "data_ok opts new d \<Longrightarrow> fst ` set new \<subseteq> fst ` set new' \<Longrightarrow> data_ok opts new' d"
  unfolding data_ok_def by (meson subsetD)

text \<open>Two states that agree on everything but the census of keys and passwords.\<close>

definition same_manifests :: "adopt \<Rightarrow> adopt \<Rightarrow> bool" where
  "same_manifests s t \<longleftrightarrow>
     ad_files t = ad_files s \<and> ad_wrote t = ad_wrote s \<and> ad_gaps t = ad_gaps s \<and> ad_incomplete t = ad_incomplete s \<and>
     ad_iso t = ad_iso s \<and> ad_vzt t = ad_vzt s"

lemma cloud_adopt_facts:
  assumes "cloud_init_data_adopt opts raw s = (d, t)" "imports_ok (ad_new s)"
  shows "same_manifests s t \<and> data_ok opts (ad_new t) d \<and> imports_ok (ad_new t) \<and> fst ` set (ad_new s) \<subseteq> fst ` set (ad_new t)"
proof -
  define ls where "ls = pve_ssh_lines raw"
  define w where "w = record_live_keys ls (s\<lparr>ad_configured := ad_configured s + 1\<rparr>)"
  define inner where "inner = (if cd_ssh_keys (pve_cloud_data raw) = [] \<or> ls = [] then (pve_cloud_data raw, s)
      else (case match_or_adopt opts ls w of (None, st) \<Rightarrow> (pve_cloud_data raw, st)
        | (Some refs, st) \<Rightarrow> ((pve_cloud_data raw)\<lparr>cd_ssh_keys := [], cd_ssh_key_refs := refs\<rparr>, st\<lparr>ad_with_refs := ad_with_refs st + 1\<rparr>)))"
  have cd: "data_ok opts new (pve_cloud_data raw)" for new
    by (simp add: data_ok_def pve_cloud_data_def zero_cloud_data_def)
  have w: "same_manifests s w" "ad_new w = ad_new s" by (simp_all add: w_def record_live_keys_def same_manifests_def)
  let ?ok = "\<lambda>d u. same_manifests s u \<and> data_ok opts (ad_new u) d \<and> imports_ok (ad_new u) \<and> fst ` set (ad_new s) \<subseteq> fst ` set (ad_new u)"
  have inner: "?ok (fst inner) (snd inner)"
  proof (cases "cd_ssh_keys (pve_cloud_data raw) = [] \<or> ls = []")
    case True
    then show ?thesis using cd assms(2) by (simp add: inner_def same_manifests_def)
  next
    case False
    obtain r u where m: "match_or_adopt opts ls w = (r, u)" by fastforce
    show ?thesis
    proof (cases r)
      case None
      then have "u = w" using m by (auto simp: match_or_adopt_def split: option.splits)
      then have "inner = (pve_cloud_data raw, w)" using False m None by (simp add: inner_def)
      then show ?thesis using cd assms(2) w by simp
    next
      case (Some refs)
      have "imports_ok (ad_new w)" using assms(2) w(2) by simp
      from match_or_adopt_facts [OF m [unfolded Some] this]
      obtain km where km: "match_ok opts ls km" "refs = km_refs km" "imports_ok (ad_new u)"
        "fst ` set (ad_new u) = fst ` set (km_new km) \<union> fst ` set (ad_new s)" using w(2) by auto
      have u: "same_manifests s u"
        using m w(1) Some by (auto simp: match_or_adopt_def commit_match_def same_manifests_def split: option.splits)
      have "\<exists>n. r = ssh_ref_prefix @ n \<and> (n \<in> fst ` set (ao_keys opts) \<or> (ao_adopt_secrets opts \<and> n \<in> fst ` set (ad_new u)))"
        if "r \<in> set refs" for r
        using that km(1,4) by (fastforce simp: km(2) match_ok_def names_line_def image_iff)
      moreover have "inner = ((pve_cloud_data raw)\<lparr>cd_ssh_keys := [], cd_ssh_key_refs := refs\<rparr>, u\<lparr>ad_with_refs := ad_with_refs u + 1\<rparr>)"
        using False m Some by (simp add: inner_def)
      ultimately show ?thesis using cd [of "ad_new u"] km(3,4) u by (simp add: data_ok_def same_manifests_def)
    qed
  qed
  have "cloud_init_data_adopt opts raw s = (case inner of (cd, st) \<Rightarrow>
      (cd, if pve_password_present raw then st\<lparr>ad_passwords := ad_passwords st + 1\<rparr> else st))"
    by (simp add: cloud_init_data_adopt_def inner_def w_def ls_def Let_def)
  then have "d = fst inner" "t = (if pve_password_present raw then (snd inner)\<lparr>ad_passwords := ad_passwords (snd inner) + 1\<rparr> else snd inner)"
    using assms(1) by (simp_all add: case_prod_unfold)
  with inner show ?thesis by (simp add: same_manifests_def)
qed

end
