(* ===== verification/Adopt_Props.thy ===== *)
theory Adopt_Props
  imports Pve_Props Adopt_Keys
begin

text \<open>
  What an adoption run leaves behind: the files it wrote and where, the gaps it reports, the lines
  of its summary, and what none of them contains.
\<close>

section \<open>The summary\<close>

text \<open>
  \<^verbatim>\<open>Summary\<close>, the lines for \<^verbatim>\<open>resources.yaml\<close>: the files that no line of
  \<^verbatim>\<open>Incomplete\<close> names before its first colon.
\<close>

definition incomplete_path :: "string \<Rightarrow> string option" where
  "incomplete_path line =
     (case index_byte line (CHR '':'') of
        None \<Rightarrow> None
      | Some i \<Rightarrow> if 0 < i then Some (trim_space (take i line)) else None)"

definition listed :: "adopt \<Rightarrow> string list" where
  "listed st = filter (\<lambda>p. Some p \<notin> set (map incomplete_path (ad_incomplete st))) (map snd (ad_wrote st))"

section \<open>Names and paths\<close>

definition name_char :: "char \<Rightarrow> bool" where
  "name_char c \<longleftrightarrow> is_lower c \<or> is_digit c \<or> c = CHR ''-''"

definition adopted_name_ok :: "string \<Rightarrow> bool" where
  "adopted_name_ok s \<longleftrightarrow> s \<noteq> [] \<and> list_all name_char s"

lemma sanitize_loop_chars: "list_all name_char out \<Longrightarrow> list_all name_char (sanitize_loop d out cs)"
  by (induction d out cs rule: sanitize_loop.induct) (simp_all add: name_char_def)

lemma sanitize_name_ok: "adopted_name_ok (sanitize_name s)"
proof -
  let ?t = "trim_set ''-'' (sanitize_loop True [] (to_lower s))"
  have "set ?t \<subseteq> set (sanitize_loop True [] (to_lower s))"
    unfolding trim_set_def by (metis (no_types, lifting) set_dropWhileD set_rev subsetI)
  then have "list_all name_char ?t" using sanitize_loop_chars [of "[]" True "to_lower s"] by (auto simp: list_all_iff)
  moreover have "list_all name_char ''unnamed''" by code_simp
  ultimately have "list_all name_char (if ?t = [] then ''unnamed'' else ?t)" by simp
  then have "list_all name_char (take 63 (if ?t = [] then ''unnamed'' else ?t))"
    by (auto simp: list_all_iff dest: in_set_takeD)
  then show ?thesis by (simp add: adopted_name_ok_def sanitize_name_def Let_def)
qed

lemma digits_name_char: "list_all is_digit s \<Longrightarrow> list_all name_char s"
  by (auto simp: list_all_iff name_char_def)

lemma name_for_pve_ok: "list_all name_char prefix \<Longrightarrow> adopted_name_ok (name_for_pve s i prefix)"
  using sanitize_name_ok [of "trim_space s"] nat_str_digits [of "nat i"] digits_name_char
  by (auto simp: name_for_pve_def Let_def adopted_name_ok_def itoa_def name_char_def)

lemma incomplete_path_line:
  assumes "CHR '':'' \<notin> set cluster" "adopted_name_ok name"
  shows "incomplete_path (kind_path cluster k name @ '': '' @ e) = Some (kind_path cluster k name)"
proof -
  define p where "p = kind_path cluster k name"
  have d: "CHR '':'' \<notin> set (kind_dir k)" "kind_dir k \<noteq> []" "\<not> is_space (hd (kind_dir k))"
    by (simp_all add: kind_dir_def is_space_def)
  have "\<not> name_char (CHR '':'')" by code_simp
  then have "CHR '':'' \<notin> set name" using assms(2) by (auto simp: adopted_name_ok_def list_all_iff)
  then have c: "CHR '':'' \<notin> set p" using assms(1) d(1) by (simp add: p_def kind_path_def)
  have p: "trim_space p = p" "p \<noteq> []" using d by (auto simp: p_def kind_path_def is_space_def intro!: trim_id)
  have "index_byte (p @ CHR '':'' # '' '' @ e) (CHR '':'') = Some (length p)" using c by (rule index_byte_append)
  then show ?thesis using p by (simp add: incomplete_path_def p_def [symmetric])
qed

section \<open>One step\<close>

text \<open>What a successful step adds: one file, its gaps, its incomplete lines.\<close>

definition invalid_line :: "string \<Rightarrow> res \<Rightarrow> string list" where
  "invalid_line path doc = (case m_validate res_methods doc of None \<Rightarrow> [] | Some e \<Rightarrow> [path @ '': '' @ e])"

definition adds :: "string \<Rightarrow> kind \<Rightarrow> res \<Rightarrow> string \<Rightarrow> gap list \<Rightarrow> string list \<Rightarrow> adopt \<Rightarrow> adopt \<Rightarrow> bool" where
  "adds cluster k doc name gs ls s t \<longleftrightarrow>
     ad_files t = put (kind_path cluster k name) doc (ad_files s) \<and>
     ad_wrote t = ad_wrote s @ [(k, kind_path cluster k name)] \<and>
     set (ad_gaps t) = set (ad_gaps s) \<union> set gs \<and>
     set (ad_incomplete t) = set (ad_incomplete s) \<union> set ls \<union> set (invalid_line (kind_path cluster k name) doc)"

lemma write_manifest_adds:
  assumes "write_manifest dk cluster k doc name s = Inr t"
  shows "adds cluster k doc name [] [] s t \<and> ad_new t = ad_new s \<and> dk (kind_path cluster k name) = None"
  using assms
  by (auto simp: write_manifest_def adds_def invalid_line_def add_incomplete_def Let_def split: option.splits)

text \<open>No key and no password in a manifest.\<close>

fun res_data_ok :: "adopt_options \<Rightarrow> (string \<times> string) list \<Rightarrow> res \<Rightarrow> bool" where
  "res_data_ok opts new (RVM v) \<longleftrightarrow> data_ok opts new (vs_cloud_data (vm_spec v))"
| "res_data_ok opts new (RTemplateVM v) \<longleftrightarrow> data_ok opts new (vs_cloud_data (vm_spec v))"
| "res_data_ok opts new _ \<longleftrightarrow> True"

definition gap_ok :: "gap \<Rightarrow> bool" where
  "gap_ok g \<longleftrightarrow> gp_field g \<notin> set sensitive_gap_fields \<or> gp_value g = ''<redacted>''"

definition one_more :: "adopt_options \<Rightarrow> string \<Rightarrow> adopt \<Rightarrow> adopt \<Rightarrow> bool" where
  "one_more opts cluster s t \<longleftrightarrow>
     (\<exists>k doc name gs ls. adds cluster k doc name gs ls s t \<and> res_ref doc = mk_ref k name \<and> adopted_name_ok name \<and>
        res_data_ok opts (ad_new t) doc \<and> (\<forall>g\<in>set gs. gap_ok g)) \<and>
     (imports_ok (ad_new s) \<longrightarrow> imports_ok (ad_new t)) \<and> fst ` set (ad_new s) \<subseteq> fst ` set (ad_new t)"

lemma url_gap_ok: "gap_ok (mk_gap k node i ''spec.url'' x)"
proof -
  have "''spec.url'' \<notin> set sensitive_gap_fields" by code_simp
  then show ?thesis by (simp add: gap_ok_def mk_gap_def)
qed

lemma prefix_ok: "list_all name_char ''iso''" "list_all name_char ''ctt''" "list_all name_char ''vm''" "list_all name_char ''ct''"
  by code_simp+

lemma step_of_write:
  assumes "write_manifest dk cluster k doc name s1 = Inr u" "t = add_gaps hs u"
    and "ad_files s1 = ad_files s" "ad_wrote s1 = ad_wrote s"
    and "set (ad_gaps s1) = set (ad_gaps s) \<union> set gs" "set (ad_incomplete s1) = set (ad_incomplete s) \<union> set ls"
    and "res_ref doc = mk_ref k name" "adopted_name_ok name" "res_data_ok opts (ad_new s1) doc" "\<forall>g\<in>set (gs @ hs). gap_ok g"
    and "imports_ok (ad_new s) \<longrightarrow> imports_ok (ad_new s1)" "fst ` set (ad_new s) \<subseteq> fst ` set (ad_new s1)"
  shows "one_more opts cluster s t \<and> adds cluster k doc name (gs @ hs) ls s t"
proof -
  have u: "adds cluster k doc name [] [] s1 u" "ad_new u = ad_new s1" using write_manifest_adds [OF assms(1)] by simp_all
  then have t: "adds cluster k doc name (gs @ hs) ls s t" "ad_new t = ad_new s1"
    using assms(2-6) by (auto simp: adds_def add_gaps_def)
  with assms(7-12) show ?thesis unfolding one_more_def by (metis (no_types, lifting))
qed

lemma write_iso_step: "write_iso dk cluster f s = Inr t \<Longrightarrow> one_more opts cluster s t"
proof -
  assume "write_iso dk cluster f s = Inr t"
  then obtain doc name st1 u g where w: "write_manifest dk cluster KindISO (RArt (AISO doc)) name st1 = Inr u"
      "t = add_gaps [g] u" "gap_ok g" "name = name_for_pve (fst f) (- 1) ''iso''" "ar_kind doc = KindISO" "md_name (ar_metadata doc) = name"
      "ad_files st1 = ad_files s" "ad_wrote st1 = ad_wrote s" "ad_gaps st1 = ad_gaps s" "ad_incomplete st1 = ad_incomplete s" "ad_new st1 = ad_new s"
    by (auto simp: write_iso_def Let_def artifact_doc_def empty_artifact_def url_gap_ok split: sum.splits)
  have "adopted_name_ok name" unfolding w(4) by (rule name_for_pve_ok [OF prefix_ok(1)])
  then show ?thesis
    using step_of_write [OF w(1,2,7,8), of "[]" "[]" opts] w by (simp add: artifact_ref_def)
qed

lemma write_ctt_step: "write_ctt dk cluster f s = Inr t \<Longrightarrow> one_more opts cluster s t"
proof -
  assume "write_ctt dk cluster f s = Inr t"
  then obtain doc name st1 u g where w: "write_manifest dk cluster KindCTTemplate (RArt (ACTT doc)) name st1 = Inr u"
      "t = add_gaps [g] u" "gap_ok g" "name = name_for_pve (fst f) (- 1) ''ctt''" "ar_kind doc = KindCTTemplate" "md_name (ar_metadata doc) = name"
      "ad_files st1 = ad_files s" "ad_wrote st1 = ad_wrote s" "ad_gaps st1 = ad_gaps s" "ad_incomplete st1 = ad_incomplete s" "ad_new st1 = ad_new s"
    by (auto simp: write_ctt_def Let_def artifact_doc_def empty_artifact_def url_gap_ok split: sum.splits)
  have "adopted_name_ok name" unfolding w(4) by (rule name_for_pve_ok [OF prefix_ok(2)])
  then show ?thesis
    using step_of_write [OF w(1,2,7,8), of "[]" "[]" opts] w by (simp add: artifact_ref_def)
qed

lemma key_gaps_ok: "g \<in> set (key_gaps modelled k node i raw) \<Longrightarrow> gap_ok g"
  by (auto simp: key_gaps_def gap_ok_def mk_gap_def redact_gap_value_def)

lemma slot_not_sensitive: "is_disk_slot s \<Longrightarrow> s \<notin> set sensitive_gap_fields"
proof -
  have "list_all (\<lambda>f. \<not> is_disk_slot f) sensitive_gap_fields" by code_simp
  then show "is_disk_slot s \<Longrightarrow> s \<notin> set sensitive_gap_fields" by (auto simp: list_all_iff)
qed

lemma disk_gaps_ok: "g \<in> set (disk_gaps k node i raw) \<Longrightarrow> gap_ok g"
proof -
  have "is_disk_slot (dk_slot d)" if "d \<in> set (pve_disks raw)" for d
    using that by (auto simp: pve_disks_def by_slot_def set_go_isort map_filter_def read_disk_def Let_def split: if_splits)
  moreover have "set (overwritten_disks raw) \<subseteq> set (pve_disks raw)"
    by (auto simp: overwritten_disks_def adopted_disks_def dest: in_set_dropD)
  ultimately show "g \<in> set (disk_gaps k node i raw) \<Longrightarrow> gap_ok g"
    using slot_not_sensitive by (auto simp: disk_gaps_def gap_ok_def mk_gap_def)
qed

lemma cdrom_gap_ok: "g \<in> set (cdrom_gap k node i st raw) \<Longrightarrow> gap_ok g"
proof -
  have "''ide2/ide3'' \<notin> set sensitive_gap_fields" by code_simp
  then have "gap_ok (mk_gap k node i ''ide2/ide3'' x)" for x by (simp add: gap_ok_def mk_gap_def)
  then show "g \<in> set (cdrom_gap k node i st raw) \<Longrightarrow> gap_ok g"
    by (auto simp: cdrom_gap_def split: option.splits if_splits)
qed

lemma spec_gap_ok: "take 4 f = ''spec'' \<Longrightarrow> gap_ok (mk_gap k node i f x)"
proof -
  have "list_all (\<lambda>f. take 4 f \<noteq> ''spec'') sensitive_gap_fields" by code_simp
  then show "take 4 f = ''spec'' \<Longrightarrow> gap_ok (mk_gap k node i f x)" by (auto simp: list_all_iff gap_ok_def mk_gap_def)
qed

text \<open>The kind, the manifest and the gaps of one VM.\<close>

definition vm_doc_kind :: "params \<Rightarrow> kind" where
  "vm_doc_kind raw = (if template_value (cfg_val raw ''template'') then KindTemplateVM else KindVM)"

definition vm_doc :: "kind \<Rightarrow> vm \<Rightarrow> res" where
  "vm_doc k v = (if k = KindTemplateVM then RTemplateVM v else RVM v)"

lemma adopt_vm_step:
  assumes "adopt_vm_config dk opts cluster node e raw s = Inr t" "imports_ok (ad_new s)"
  shows "\<exists>data. let k = vm_doc_kind raw; v = adopted_vm k node e raw (adopted_cdrom s raw) data in
    one_more opts cluster s t \<and>
    adds cluster k (vm_doc k v) (md_name (vm_metadata v))
      ((disk_gaps k node (le_id e) raw @ cdrom_gap k node (le_id e) s raw) @ key_gaps (vm_modelled k) k node (le_id e) raw) [] s t"
proof -
  define k where "k = vm_doc_kind raw"
  define s1 where "s1 = add_gaps (cdrom_gap k node (le_id e) s raw) (add_gaps (disk_gaps k node (le_id e) raw) s)"
  obtain data s2 where c: "cloud_init_data_adopt opts raw s1 = (data, s2)" by fastforce
  define v where "v = adopted_vm k node e raw (adopted_cdrom s raw) data"
  obtain u where w: "write_manifest dk cluster k (vm_doc k v) (md_name (vm_metadata v)) s2 = Inr u"
    "t = add_gaps (key_gaps (vm_modelled k) k node (le_id e) raw) u"
    using assms(1) c unfolding adopt_vm_config_def Let_def vm_doc_kind_def [symmetric] k_def [symmetric] s1_def [symmetric] v_def vm_doc_def
    by (auto split: sum.splits)
  have s1: "same_manifests (s\<lparr>ad_gaps := ad_gaps s1\<rparr>) s1" "set (ad_gaps s1) = set (ad_gaps s) \<union> set (disk_gaps k node (le_id e) raw @ cdrom_gap k node (le_id e) s raw)"
    "ad_new s1 = ad_new s" by (auto simp: s1_def add_gaps_def same_manifests_def)
  with assms(2) cloud_adopt_facts [OF c] have s2: "same_manifests s1 s2" "data_ok opts (ad_new s2) data" "imports_ok (ad_new s2)"
    "fst ` set (ad_new s) \<subseteq> fst ` set (ad_new s2)" by simp_all
  have nm: "adopted_name_ok (md_name (vm_metadata v))"
  proof -
    have "md_name (vm_metadata v) = name_for_pve (str_at raw ''name'') (le_id e) ''vm''" by (simp add: v_def adopted_vm_def)
    then show ?thesis by (simp only: name_for_pve_ok [OF prefix_ok(3)])
  qed
  have k: "k = KindVM \<or> k = KindTemplateVM" by (simp add: k_def vm_doc_kind_def)
  have ref: "res_ref (vm_doc k v) = mk_ref k (md_name (vm_metadata v))"
  proof -
    have "vm_kind v = k" using k by (auto simp: v_def adopted_vm_def new_template_vm_def new_vm_def)
    then show ?thesis by (simp add: vm_doc_def vm_ref_def)
  qed
  have dt: "res_data_ok opts (ad_new s2) (vm_doc k v)" using s2(2) by (simp add: vm_doc_def v_def adopted_vm_def)
  have "one_more opts cluster s t \<and> adds cluster k (vm_doc k v) (md_name (vm_metadata v))
      ((disk_gaps k node (le_id e) raw @ cdrom_gap k node (le_id e) s raw) @ key_gaps (vm_modelled k) k node (le_id e) raw) [] s t"
    by (rule step_of_write [OF w])
      (use s1 s2 nm ref dt key_gaps_ok disk_gaps_ok cdrom_gap_ok in \<open>auto simp: same_manifests_def\<close>)
  then show ?thesis unfolding Let_def k_def [symmetric] v_def [symmetric] by (intro exI [of _ data]) (simp add: v_def)
qed

definition lxc_doc_kind :: "params \<Rightarrow> kind" where
  "lxc_doc_kind raw = (if template_value (cfg_val raw ''template'') then KindTemplateCT else KindLXC)"

definition lxc_doc :: "kind \<Rightarrow> lxc \<Rightarrow> res" where
  "lxc_doc k l = (if k = KindTemplateCT then RTemplateCT l else RLXC l)"

lemma template_gaps_ok: "g \<in> set (snd (adopted_template k node i st raw)) \<Longrightarrow> gap_ok g"
proof -
  have "gap_ok (mk_gap k node i ''spec.template'' x)" for x by (rule spec_gap_ok) code_simp
  then show "g \<in> set (snd (adopted_template k node i st raw)) \<Longrightarrow> gap_ok g"
    by (auto simp: adopted_template_def Let_def split: option.splits)
qed

lemma size_gaps_ok: "g \<in> set (fst (lxc_size_gaps k node i name sizes raw)) \<Longrightarrow> gap_ok g"
proof -
  have "gap_ok (mk_gap k node i ''spec.root.size'' x)" for x by (rule spec_gap_ok) code_simp
  moreover have "gap_ok (mk_gap k node i (''spec.mount-points['' @ sl @ ''].size'') x)" for sl x
    by (rule spec_gap_ok) simp
  ultimately show "g \<in> set (fst (lxc_size_gaps k node i name sizes raw)) \<Longrightarrow> gap_ok g"
    by (auto simp: lxc_size_gaps_def Let_def split: if_splits)
qed

lemma redacted_gap_ok: "gap_ok (mk_gap k node i f (redact_gap_value f x))"
  by (auto simp: gap_ok_def mk_gap_def redact_gap_value_def)

lemma adopt_lxc_step:
  assumes "adopt_lxc_config dk cluster node e raw listing s = Inr t"
  shows "\<exists>l gs ls. let k = lxc_doc_kind raw in
    one_more opts cluster s t \<and>
    adds cluster k (lxc_doc k l) (md_name (lx_metadata l)) (gs @ key_gaps (lxc_modelled k) k node (le_id e) raw) ls s t \<and>
    l = adopted_lxc k node e raw (case listing of Some ss \<Rightarrow> ss | None \<Rightarrow> []) (fst (adopted_template k node (le_id e) s raw))"
proof -
  define k where "k = lxc_doc_kind raw"
  define sizes where "sizes = (case listing of Some ss \<Rightarrow> ss | None \<Rightarrow> [])"
  obtain tpl tgaps where tp: "adopted_template k node (le_id e) s raw = (tpl, tgaps)" by fastforce
  define l where "l = adopted_lxc k node e raw sizes tpl"
  obtain sgaps lost where sg: "lxc_size_gaps k node (le_id e) (md_name (lx_metadata l)) sizes raw = (sgaps, lost)" by fastforce
  define gs where "gs = (if listing = None then [mk_gap k node (le_id e) ''spec.root.size / spec.mount-points'' ''storage listing unreadable''] else []) @
      sgaps @ map (\<lambda>b. mk_gap k node (le_id e) (bm_slot b) (redact_gap_value (bm_slot b) (bm_raw b))) (filter (\<lambda>b. \<not> bind_ok b) (pve_binds raw)) @ tgaps"
  define s1 where "s1 = add_incomplete lost (add_gaps gs s)"
  have "adopt_lxc_config dk cluster node e raw listing s =
      (case write_manifest dk cluster k (lxc_doc k l) (md_name (lx_metadata l)) s1 of
         Inl err \<Rightarrow> Inl err | Inr st1 \<Rightarrow> Inr (add_gaps (key_gaps (lxc_modelled k) k node (le_id e) raw) st1))"
    unfolding adopt_lxc_config_def Let_def lxc_doc_kind_def [symmetric]
    unfolding k_def [symmetric] sizes_def [symmetric] tp prod.case
    unfolding l_def [symmetric] sg prod.case
    unfolding gs_def [symmetric] s1_def [symmetric] lxc_doc_def [symmetric] by (rule refl)
  then obtain u where w: "write_manifest dk cluster k (lxc_doc k l) (md_name (lx_metadata l)) s1 = Inr u"
    "t = add_gaps (key_gaps (lxc_modelled k) k node (le_id e) raw) u"
    using assms by (auto split: sum.splits)
  have "gap_ok (mk_gap k node (le_id e) ''spec.root.size / spec.mount-points'' ''storage listing unreadable'')"
    by (rule spec_gap_ok) code_simp
  then have g: "\<forall>g\<in>set gs. gap_ok g"
    using size_gaps_ok [of _ k node "le_id e" "md_name (lx_metadata l)" sizes raw] template_gaps_ok [of _ k node "le_id e" s raw] redacted_gap_ok
    unfolding sg tp gs_def by auto
  have nm: "adopted_name_ok (md_name (lx_metadata l))"
  proof -
    have "md_name (lx_metadata l) = name_for_pve (str_at raw ''hostname'') (le_id e) ''ct''" by (simp add: l_def adopted_lxc_def)
    then show ?thesis by (simp only: name_for_pve_ok [OF prefix_ok(4)])
  qed
  have "k = KindLXC \<or> k = KindTemplateCT" by (simp add: k_def lxc_doc_kind_def)
  then have "lx_kind l = k" by (auto simp: l_def adopted_lxc_def new_template_ct_def new_lxc_def)
  then have ref: "res_ref (lxc_doc k l) = mk_ref k (md_name (lx_metadata l))" by (simp add: lxc_doc_def lxc_ref_def)
  have "one_more opts cluster s t \<and> adds cluster k (lxc_doc k l) (md_name (lx_metadata l)) (gs @ key_gaps (lxc_modelled k) k node (le_id e) raw) lost s t"
    by (rule step_of_write [OF w])
      (use nm ref key_gaps_ok g in \<open>auto simp: s1_def add_gaps_def add_incomplete_def lxc_doc_def\<close>)
  moreover have "l = adopted_lxc k node e raw (case listing of Some ss \<Rightarrow> ss | None \<Rightarrow> []) (fst (adopted_template k node (le_id e) s raw))"
    by (simp add: l_def tp sizes_def)
  ultimately show ?thesis unfolding Let_def k_def [symmetric] by blast
qed

section \<open>A whole run\<close>

text \<open>
  The files are named by their manifests and hold no secret, invalid ones are in the incomplete
  lines, the gaps show no secret, and every written path is a file.
\<close>

definition tidy :: "adopt_options \<Rightarrow> string \<Rightarrow> adopt \<Rightarrow> bool" where
  "tidy opts cluster st \<longleftrightarrow>
     imports_ok (ad_new st) \<and>
     (\<forall>p doc. map_of (ad_files st) p = Some doc \<longrightarrow>
        (\<exists>k name. p = kind_path cluster k name \<and> res_ref doc = mk_ref k name \<and> adopted_name_ok name) \<and>
        res_data_ok opts (ad_new st) doc \<and> set (invalid_line p doc) \<subseteq> set (ad_incomplete st)) \<and>
     (\<forall>g\<in>set (ad_gaps st). gap_ok g) \<and>
     (\<forall>w\<in>set (ad_wrote st). snd w \<in> fst ` set (ad_files st))"

lemma res_data_ok_mono: "res_data_ok opts new doc \<Longrightarrow> fst ` set new \<subseteq> fst ` set new' \<Longrightarrow> res_data_ok opts new' doc"
  by (cases doc) (auto dest: data_ok_mono)

lemma tidy_step:
  assumes "tidy opts cluster s" "one_more opts cluster s t"
  shows "tidy opts cluster t"
proof -
  obtain k doc name gs ls where a: "adds cluster k doc name gs ls s t" "res_ref doc = mk_ref k name" "adopted_name_ok name"
    "res_data_ok opts (ad_new t) doc" "\<forall>g\<in>set gs. gap_ok g"
    and n: "imports_ok (ad_new t)" "fst ` set (ad_new s) \<subseteq> fst ` set (ad_new t)"
    using assms by (auto simp: one_more_def tidy_def)
  have ad: "map_of (ad_files t) = (map_of (ad_files s))(kind_path cluster k name \<mapsto> doc)"
    "fst ` set (ad_files t) = insert (kind_path cluster k name) (fst ` set (ad_files s))"
    "ad_wrote t = ad_wrote s @ [(k, kind_path cluster k name)]" "set (ad_gaps t) = set (ad_gaps s) \<union> set gs"
    "set (ad_incomplete t) = set (ad_incomplete s) \<union> set ls \<union> set (invalid_line (kind_path cluster k name) doc)"
    using a(1) by (simp_all only: adds_def map_of_put put_keys)
  have old: "(\<exists>k name. p = kind_path cluster k name \<and> res_ref d = mk_ref k name \<and> adopted_name_ok name) \<and>
      res_data_ok opts (ad_new t) d \<and> set (invalid_line p d) \<subseteq> set (ad_incomplete t)" if "map_of (ad_files s) p = Some d" for p d
  proof -
    have "(\<exists>k name. p = kind_path cluster k name \<and> res_ref d = mk_ref k name \<and> adopted_name_ok name) \<and>
        res_data_ok opts (ad_new s) d \<and> set (invalid_line p d) \<subseteq> set (ad_incomplete s)"
      using assms(1) that unfolding tidy_def by blast
    then show ?thesis using res_data_ok_mono [OF _ n(2)] ad(5) by blast
  qed
  have new: "(\<exists>k' name'. kind_path cluster k name = kind_path cluster k' name' \<and> res_ref doc = mk_ref k' name' \<and> adopted_name_ok name') \<and>
      res_data_ok opts (ad_new t) doc \<and> set (invalid_line (kind_path cluster k name) doc) \<subseteq> set (ad_incomplete t)"
    using a(2-4) ad(5) by blast
  have files: "(\<exists>k name. p = kind_path cluster k name \<and> res_ref d = mk_ref k name \<and> adopted_name_ok name) \<and>
      res_data_ok opts (ad_new t) d \<and> set (invalid_line p d) \<subseteq> set (ad_incomplete t)" if "map_of (ad_files t) p = Some d" for p d
  proof (cases "p = kind_path cluster k name")
    case True
    then have "d = doc" using that by (simp add: ad(1))
    then show ?thesis using new True by (simp only:)
  next
    case False
    then show ?thesis using that old by (simp add: ad(1))
  qed
  have gaps: "\<forall>g\<in>set (ad_gaps t). gap_ok g" using assms(1) a(5) unfolding tidy_def ad(4) by blast
  have "\<forall>w\<in>set (ad_wrote s). snd w \<in> fst ` set (ad_files s)" using assms(1) unfolding tidy_def by blast
  then have "\<forall>w\<in>set (ad_wrote t). snd w \<in> fst ` set (ad_files t)" unfolding ad(2,3) by simp
  with n(1) files gaps show ?thesis unfolding tidy_def by blast
qed

lemma tidy_imports: "tidy opts cluster s \<Longrightarrow> imports_ok (ad_new s)"
  by (simp add: tidy_def)

interpretation tidy: adoption "tidy opts cluster" dk opts cluster for opts cluster dk
proof
  show "tidy opts cluster new_adopt" by (simp add: tidy_def new_adopt_def imports_ok_def)
  show "tidy opts cluster (st\<lparr>ad_volumes := vols\<rparr>)" if "tidy opts cluster st" for st vols
    using that by (simp add: tidy_def)
  show "tidy opts cluster st'" if "tidy opts cluster st" "write_iso dk cluster f st = Inr st'" for st f st'
    using tidy_step [OF that(1) write_iso_step [OF that(2)]] .
  show "tidy opts cluster st'" if "tidy opts cluster st" "write_ctt dk cluster f st = Inr st'" for st f st'
    using tidy_step [OF that(1) write_ctt_step [OF that(2)]] .
  show "tidy opts cluster st'" if "tidy opts cluster st" "adopt_vm_config dk opts cluster node e raw st = Inr st'" for st node e raw st'
    using adopt_vm_step [OF that(2) tidy_imports [OF that(1)]] tidy_step [OF that(1)] by (auto simp: Let_def)
  show "tidy opts cluster st'" if "tidy opts cluster st" "adopt_lxc_config dk cluster node e raw listing st = Inr st'" for st node e raw listing st'
    using adopt_lxc_step [OF that(2), of opts] tidy_step [OF that(1)] by (auto simp: Let_def)
qed

lemma finished: "set (ad_gaps (finish_adopt st)) = set (ad_gaps st)" "set (ad_wrote (finish_adopt st)) = set (ad_wrote st)"
  "set (ad_incomplete (finish_adopt st)) = set (ad_incomplete st)" "ad_files (finish_adopt st) = ad_files st"
  "ad_new (finish_adopt st) = ad_new st"
  by (simp_all add: finish_adopt_def dedup_gaps_def set_go_isort sort_strings_def)

lemma run_tidy: "run_adopt env cx dk opts cluster allowed cl = (Inr st, cl1) \<Longrightarrow> tidy opts cluster st"
  by (elim tidy.keeps_run [where opts = opts]) (simp add: tidy_def finished)

section \<open>Properties\<close>

text \<open>
  Adoption is read-only.  Whatever the server answers and however the run ends, it sends GET
  requests only and the write counter does not move, so the check at the end of the run never
  fires: a run on a valid cluster name returns what its reads gave.
\<close>

theorem adopt_read_only:
  "sends get_only (run_adopt env cx dk opts cluster allowed) \<and>
   c_writes (snd (run_adopt env cx dk opts cluster allowed cl)) = c_writes cl \<and>
   (if cluster_name_ok cluster
    then run_adopt env cx dk opts cluster allowed cl = adopt_cluster env cx dk opts cluster allowed cl
    else isl (fst (run_adopt env cx dk opts cluster allowed cl)))"
proof -
  let ?m = "adopt_cluster env cx dk opts cluster allowed"
  have w: "c_writes (snd (?m cl)) = c_writes cl" for cl using reads_cluster by (simp add: reads_def)
  have b: "trim_space cluster \<noteq> []" if "cluster_name_ok cluster"
  proof -
    have "cluster \<noteq> []" "list_all (\<lambda>c. \<not> is_space c) cluster"
      using that by (auto simp: cluster_name_ok_def list_all_iff is_lower_def is_digit_def is_space_def)
    then show ?thesis using trim_nospace by simp
  qed
  have r: "run_adopt env cx dk opts cluster allowed cl = ?m cl" if "cluster_name_ok cluster" for cl
    using w [of cl] b that by (cases "?m cl") (auto simp: run_adopt_def split: sum.split)
  have f: "snd (run_adopt env cx dk opts cluster allowed cl) = cl \<and> isl (fst (run_adopt env cx dk opts cluster allowed cl))"
    if "\<not> cluster_name_ok cluster" for cl
    using that by (simp add: run_adopt_def io_fail_def)
  have s: "sends get_only ?m" using reads_cluster by (simp add: reads_def)
  show ?thesis
  proof (cases "cluster_name_ok cluster")
    case True
    then have "run_adopt env cx dk opts cluster allowed = ?m" using r by (simp add: fun_eq_iff)
    then show ?thesis using True s w by simp
  qed (use f in \<open>simp add: sends_def\<close>)
qed

text \<open>
  Where adoption writes.  Every file of a run is the manifest of its own path: the directory of
  its kind, the cluster, its name.  The name has lower-case letters, digits and dashes only, so no
  name PVE reports leads out of that directory, and every path of the report is a file.
\<close>

theorem adopt_paths_confined:
  assumes "run_adopt env cx dk opts cluster allowed cl = (Inr st, cl1)"
  shows "(\<forall>p doc. map_of (ad_files st) p = Some doc \<longrightarrow>
      (\<exists>k name. p = kind_path cluster k name \<and> res_ref doc = mk_ref k name \<and> name \<noteq> [] \<and> list_all name_char name)) \<and>
    (\<forall>w\<in>set (ad_wrote st). snd w \<in> fst ` set (ad_files st))"
  using run_tidy [OF assms] unfolding tidy_def adopted_name_ok_def by blast

text \<open>
  C28: adoption writes no secret.  No manifest of a run holds an SSH key or a password: its keys are
  absent or the sentinel, its references name keys of the secrets document or, only when importing,
  keys imported in this run, and a gap of a sensitive field shows no value.
\<close>

theorem adopt_no_secrets:
  assumes "run_adopt env cx dk opts cluster allowed cl = (Inr st, cl1)"
  shows "(\<forall>p doc. map_of (ad_files st) p = Some doc \<longrightarrow> res_data_ok opts (ad_new st) doc) \<and>
    (\<forall>g\<in>set (ad_gaps st). gp_field g \<in> set sensitive_gap_fields \<longrightarrow> gp_value g = ''<redacted>'')"
  using run_tidy [OF assms] unfolding tidy_def gap_ok_def by blast

text \<open>
  The files the summary lists for \<^verbatim>\<open>resources.yaml\<close> hold valid manifests.  A composition with
  one invalid manifest stops the cluster's cycle, so this is what makes the list safe to commit.
\<close>

theorem adopt_listed_valid:
  assumes "run_adopt env cx dk opts cluster allowed cl = (Inr st, cl1)" "p \<in> set (listed st)"
  shows "\<exists>doc. map_of (ad_files st) p = Some doc \<and> m_validate res_methods doc = None"
proof -
  note t = run_tidy [OF assms(1)]
  have "cluster_name_ok cluster" using assms(1) by (auto simp: run_adopt_def io_fail_def split: if_splits)
  moreover have "\<not> (is_lower (CHR '':'') \<or> is_digit (CHR '':'') \<or> CHR '':'' = CHR ''-'')" by code_simp
  ultimately have c: "CHR '':'' \<notin> set cluster" unfolding cluster_name_ok_def list_all_iff by blast
  have p: "p \<in> snd ` set (ad_wrote st)" "Some p \<notin> incomplete_path ` set (ad_incomplete st)" using assms(2) by (auto simp: listed_def)
  then have "p \<in> fst ` set (ad_files st)" using t unfolding tidy_def by blast
  then obtain doc where d: "map_of (ad_files st) p = Some doc" by (metis map_of_eq_None_iff not_None_eq)
  with t obtain k name where k: "p = kind_path cluster k name" "adopted_name_ok name" and i: "set (invalid_line p doc) \<subseteq> set (ad_incomplete st)"
    unfolding tidy_def by blast
  have "m_validate res_methods doc = None"
  proof (rule ccontr)
    assume "m_validate res_methods doc \<noteq> None"
    then obtain e where "p @ '': '' @ e \<in> set (ad_incomplete st)" using i by (auto simp: invalid_line_def)
    moreover have "incomplete_path (p @ '': '' @ e) = Some p" using incomplete_path_line [OF c k(2)] by (simp only: k(1))
    ultimately show False using p(2) by (metis imageI)
  qed
  with d show ?thesis by blast
qed

text \<open>
  Nothing of a VM is silently left out.  After adopting a VM its manifest is the file of its
  name, with its node and number; every key of its live configuration that the manifest does not
  model is a gap, with its value unless the field is sensitive; and no gap found before is lost.
\<close>

theorem adopt_vm_complete:
  assumes "vm_get env cx node (le_id e) cl = (Inr raw, cl1)"
    and "adopt_vm env cx dk opts cluster node e st cl = (Inr st', cl2)" "imports_ok (ad_new st)"
  shows "(\<exists>v. map_of (ad_files st') (kind_path cluster (vm_doc_kind raw) (md_name (vm_metadata v))) = Some (vm_doc (vm_doc_kind raw) v) \<and>
      vs_node (vm_spec v) = node \<and> vm_spec.vs_vmid (vm_spec v) = le_id e) \<and>
    (\<forall>kv\<in>set raw. vm_modelled (vm_doc_kind raw) kv \<or>
       mk_gap (vm_doc_kind raw) node (le_id e) (fst kv) (redact_gap_value (fst kv) (pve_str (snd kv))) \<in> set (ad_gaps st')) \<and>
    set (ad_gaps st) \<subseteq> set (ad_gaps st')"
proof -
  have "adopt_vm_config dk opts cluster node e raw st = Inr st'"
    using assms(1,2) by (auto simp: adopt_vm_def io_bind_def io_wrap_def io_result_def io_return_def io_fail_def split: sum.splits)
  from adopt_vm_step [OF this assms(3)] obtain data where a: "adds cluster (vm_doc_kind raw)
      (vm_doc (vm_doc_kind raw) (adopted_vm (vm_doc_kind raw) node e raw (adopted_cdrom st raw) data))
      (md_name (vm_metadata (adopted_vm (vm_doc_kind raw) node e raw (adopted_cdrom st raw) data)))
      ((disk_gaps (vm_doc_kind raw) node (le_id e) raw @ cdrom_gap (vm_doc_kind raw) node (le_id e) st raw) @
       key_gaps (vm_modelled (vm_doc_kind raw)) (vm_doc_kind raw) node (le_id e) raw) [] st st'" unfolding Let_def by blast
  define v where "v = adopted_vm (vm_doc_kind raw) node e raw (adopted_cdrom st raw) data"
  have v: "vs_node (vm_spec v) = node" "vm_spec.vs_vmid (vm_spec v) = le_id e" by (simp_all add: v_def adopted_vm_def)
  have g: "set (ad_gaps st) \<subseteq> set (ad_gaps st')" "set (key_gaps (vm_modelled (vm_doc_kind raw)) (vm_doc_kind raw) node (le_id e) raw) \<subseteq> set (ad_gaps st')"
    using a unfolding adds_def by auto
  have "vm_modelled (vm_doc_kind raw) kv \<or>
       mk_gap (vm_doc_kind raw) node (le_id e) (fst kv) (redact_gap_value (fst kv) (pve_str (snd kv))) \<in> set (ad_gaps st')" if "kv \<in> set raw" for kv
    using that g(2) by (auto simp: key_gaps_def)
  moreover have "map_of (ad_files st') (kind_path cluster (vm_doc_kind raw) (md_name (vm_metadata v))) = Some (vm_doc (vm_doc_kind raw) v)"
    using a by (simp only: adds_def v_def map_of_put fun_upd_same)
  ultimately show ?thesis using v g(1) by blast
qed

section \<open>Examples\<close>

text \<open>One node with one ISO file and one VM, whose name is no manifest name and which misses its memory.\<close>

definition ex_replies :: "json list" where
  "ex_replies =
     [JArr [JObj [(''storage'', JStr ''local'')]],
      JArr [JObj [(''volid'', JStr ''local:iso/deb.iso''), (''content'', JStr ''iso'')]],
      JArr [JObj [(''vmid'', JInt 100), (''status'', JStr ''running'')]],
      JObj [(''name'', JStr ''../W 1''), (''cipassword'', JStr ''s3cret'')],
      JArr []]"

definition ex_server :: env where
  "ex_server =
     \<lparr>e_reply = (\<lambda>rqs. Response \<lparr>rs_status = 200, rs_body = ''body'',
          rs_json = Some (JObj [(''data'', ex_replies ! min 4 (length rqs - 1))]), rs_userid = []\<rparr>),
      e_elapse = (\<lambda>_. 1000), e_draw = (\<lambda>_. 1 / 2), e_url_err = (\<lambda>_. None)\<rparr>"

definition ex_adoption :: "(go_err + adopt) \<times> client" where
  "ex_adoption = run_adopt ex_server background (\<lambda>_. None) ex_opts ''c1'' [''n1''] ex_client"

lemma ex_adoption_result:
  "case fst ex_adoption of Inl e \<Rightarrow> False
   | Inr st \<Rightarrow> map fst (ad_files st) = [''iso/c1/deb-iso.yaml'', ''vm/c1/w-1.yaml''] \<and> listed st = [''iso/c1/deb-iso.yaml''] \<and>
       map (\<lambda>g. (gp_field g, gp_value g)) (ad_gaps st) =
         [(''spec.url'', ''https://placeholder.invalid/local/deb.iso''), (''cipassword'', ''<redacted>'')]"
  by code_simp

definition ex_adopted_state :: adopt where
  "ex_adopted_state = projr (fst ex_adoption)"

lemma ex_adoption_run:
  "run_adopt ex_server background (\<lambda>_. None) ex_opts ''c1'' [''n1''] ex_client = (Inr ex_adopted_state, snd ex_adoption)"
proof -
  have "\<not> isl (fst ex_adoption)" using ex_adoption_result by (cases "fst ex_adoption") simp_all
  from run_ok [OF this] show ?thesis by (simp only: ex_adoption_def ex_adopted_state_def)
qed

lemma ex_adopted_files:
  "map fst (ad_files ex_adopted_state) = [''iso/c1/deb-iso.yaml'', ''vm/c1/w-1.yaml'']" "listed ex_adopted_state = [''iso/c1/deb-iso.yaml'']"
  "map (\<lambda>g. (gp_field g, gp_value g)) (ad_gaps ex_adopted_state) =
     [(''spec.url'', ''https://placeholder.invalid/local/deb.iso''), (''cipassword'', ''<redacted>'')]"
  using ex_adoption_result unfolding ex_adopted_state_def by (cases "fst ex_adoption"; simp only: sum.case sum.sel simp_thms)+

lemma ex_vm_file: "\<exists>doc. map_of (ad_files ex_adopted_state) ''vm/c1/w-1.yaml'' = Some doc"
proof -
  have "''vm/c1/w-1.yaml'' \<in> fst ` set (ad_files ex_adopted_state)"
    unfolding set_map [symmetric] ex_adopted_files(1) by simp
  then show ?thesis by (metis map_of_eq_None_iff not_None_eq)
qed

theorem adopt_paths_confined_witness:
  "\<exists>k name. ''vm/c1/w-1.yaml'' = kind_path ''c1'' k name \<and> name \<noteq> [] \<and> list_all name_char name"
  using adopt_paths_confined [OF ex_adoption_run] ex_vm_file by blast

theorem adopt_no_secrets_witness:
  "\<exists>doc. map_of (ad_files ex_adopted_state) ''vm/c1/w-1.yaml'' = Some doc \<and> res_data_ok ex_opts (ad_new ex_adopted_state) doc"
  using adopt_no_secrets [OF ex_adoption_run] ex_vm_file by blast

theorem adopt_listed_valid_witness:
  "\<exists>doc. map_of (ad_files ex_adopted_state) ''iso/c1/deb-iso.yaml'' = Some doc \<and> m_validate res_methods doc = None"
  by (rule adopt_listed_valid [OF ex_adoption_run]) (simp only: ex_adopted_files(2), simp)

definition ex_config_server :: env where
  "ex_config_server = ex_env 200 (JObj [(''name'', JStr ''web''), (''hookscript'', JStr ''local:x'')])"

definition ex_entry :: list_entry where
  "ex_entry = \<lparr>le_id = 100, le_name = [], le_status = ''running'', le_tags = []\<rparr>"

theorem adopt_vm_complete_witness:
  "mk_gap KindVM ''n1'' 100 ''hookscript'' ''local:x''
     \<in> set (ad_gaps (projr (fst (adopt_vm ex_config_server background (\<lambda>_. None) ex_opts ''c1'' ''n1'' ex_entry new_adopt ex_client))))"
proof -
  let ?g = "vm_get ex_config_server background ''n1'' (le_id ex_entry) ex_client"
  let ?m = "adopt_vm ex_config_server background (\<lambda>_. None) ex_opts ''c1'' ''n1'' ex_entry new_adopt ex_client"
  define raw where "raw = [(''name'', PStr ''web''), (''hookscript'', PStr ''local:x'')]"
  have g: "fst ?g = Inr raw" unfolding raw_def by code_simp
  have n: "\<not> isl (fst ?m)" by code_simp
  have e: "imports_ok (ad_new new_adopt)" by (simp add: imports_ok_def new_adopt_def)
  have "?g = (Inr raw, snd ?g)" using g by (metis prod.collapse)
  from adopt_vm_complete [OF this run_ok [OF n] e]
  have "\<forall>kv\<in>set raw. vm_modelled (vm_doc_kind raw) kv \<or>
      mk_gap (vm_doc_kind raw) ''n1'' (le_id ex_entry) (fst kv) (redact_gap_value (fst kv) (pve_str (snd kv))) \<in> set (ad_gaps (projr (fst ?m)))"
    by blast
  moreover have "(''hookscript'', PStr ''local:x'') \<in> set raw" by (simp add: raw_def)
  moreover have "vm_doc_kind raw = KindVM" unfolding raw_def by code_simp
  moreover have "\<not> vm_modelled KindVM (''hookscript'', PStr ''local:x'')" by code_simp
  moreover have "redact_gap_value ''hookscript'' (pve_str (PStr ''local:x'')) = ''local:x''" "le_id ex_entry = 100" by code_simp+
  ultimately show ?thesis by (metis fst_conv snd_conv)
qed

section \<open>What is lost or wrong\<close>

text \<open>
  The filter of the drives runs in place: a CD-ROM style drive that a kept drive follows is
  overwritten before the second loop looks for it, and has no gap.
\<close>

lemma cdrom_gap_lost:
  assumes "pve_disks raw = [c, d]" "\<not> data_disk raw c" "data_disk raw d"
  shows "disk_gaps k node i raw = []"
  using assms by (simp add: disk_gaps_def overwritten_disks_def adopted_disks_def)

text \<open>A VM's description is an owned key and no field of the adopted manifest: it is neither kept nor a gap.\<close>

lemma description_lost: "vm_modelled k (''description'', x) \<and> vs_description (vm_spec (adopted_vm k' node e raw cd data)) = []"
proof -
  have "''description'' \<in> set vm_keys_owned" by code_simp
  then show ?thesis by (simp add: vm_modelled_def adopted_vm_def zero_vm_spec_def)
qed

text \<open>The extension of a file stays in its name.\<close>

lemma sanitize_keeps_extension:
  "sanitize_name ''debian-13.6.0-amd64-netinst.iso'' = ''debian-13-6-0-amd64-netinst-iso''"
  by code_simp

text \<open>Names that differ become one file: the later guest overwrites the earlier.\<close>

lemma adopted_names_collide: "kind_path c KindVM (name_for_pve ''Web 1'' 100 ''vm'') = kind_path c KindVM (name_for_pve ''web_1'' 101 ''vm'')"
proof -
  have "name_for_pve ''Web 1'' 100 ''vm'' = name_for_pve ''web_1'' 101 ''vm''" by code_simp
  then show ?thesis by (simp only:)
qed

end
