(* ===== verification/Secrets_Facts.thy ===== *)
theory Secrets_Facts
  imports Secrets
begin

text \<open>
  Facts about the SOPS file: what may appear in an error, what the rendered document determines, and
  what a failed encryption leaves behind.
\<close>

section \<open>Redaction\<close>

text \<open>No run of 24 token characters.\<close>

definition no_token :: "string \<Rightarrow> bool" where
  "no_token s \<longleftrightarrow> \<not> (\<exists>a t b. s = a @ t @ b \<and> 24 \<le> length t \<and> list_all token_char t)"

lemma no_token_short: "length s < 24 \<Longrightarrow> no_token s"
  by (auto simp: no_token_def)

lemma infix_at_break:
  "r @ c # s = a @ t @ b \<Longrightarrow> c \<notin> set t \<Longrightarrow> (\<exists>x y. r = x @ t @ y) \<or> (\<exists>x y. s = x @ t @ y)"
proof (induction r arbitrary: a)
  case Nil
  then show ?case
  proof (cases a)
    case Nil
    with \<open>[] @ c # s = a @ t @ b\<close> \<open>c \<notin> set t\<close> have "t = []" by (cases t) auto
    then show ?thesis by blast
  qed auto
next
  case (Cons x r)
  then show ?case
  proof (cases a)
    case Nil
    with Cons.prems have eq: "x # (r @ c # s) = t @ b" by simp
    then show ?thesis
    proof (cases t)
      case (Cons y t')
      with eq have "r @ c # s = t' @ b" "x = y" by auto
      moreover have "c \<notin> set t'" using Cons \<open>c \<notin> set t\<close> by simp
      ultimately have "length t' \<le> length r"
        by (auto simp: append_eq_append_conv2 Cons_eq_append_conv)
      with \<open>r @ c # s = t' @ b\<close> obtain z where "r = t' @ z" by (auto simp: append_eq_append_conv2)
      with Cons \<open>x = y\<close> have "x # r = [] @ t @ z" by simp
      then show ?thesis by blast
    qed (metis append_Nil)
  next
    case (Cons y a')
    with Cons.prems have "r @ c # s = a' @ t @ b" by simp
    from Cons.IH [OF this Cons.prems(2)] show ?thesis
      by (metis append_Cons)
  qed
qed

lemma no_token_break:
  assumes "no_token r" "no_token s" "\<not> token_char c"
  shows "no_token (r @ c # s)"
  unfolding no_token_def
proof clarify
  fix a t b
  assume *: "r @ c # s = a @ t @ b" "24 \<le> length t" "list_all token_char t"
  then have "c \<notin> set t" using assms(3) by (auto simp: list_all_iff)
  from infix_at_break [OF *(1) this] show False
    using assms(1,2) *(2,3) unfolding no_token_def by blast
qed

lemma no_token_take: "no_token s \<Longrightarrow> no_token (take n s)"
  unfolding no_token_def by (metis append_assoc append_take_drop_id)

lemma no_token_redact_run: "no_token (redact_run r)"
  by (rule no_token_short) (simp add: redact_run_def redacted_def)

lemma no_token_redact: "no_token (redact_tokens r s)"
  by (induction r s rule: redact_tokens.induct) (auto simp: no_token_redact_run intro: no_token_break)

lemma ellipsis_not_token: "\<not> token_char (hd ellipsis)"
  by code_simp

lemma ellipsis_split: "ellipsis = hd ellipsis # tl ellipsis" "length ellipsis = 3"
  by code_simp+

lemma no_token_cut: "no_token s \<Longrightarrow> no_token (take n s @ ellipsis)"
proof -
  assume "no_token s"
  then have "no_token (take n s @ hd ellipsis # tl ellipsis)"
    by (rule no_token_break [OF no_token_take no_token_short ellipsis_not_token]) (simp add: ellipsis_split(2))
  then show ?thesis using ellipsis_split(1) by argo
qed

text \<open>No newline: the words of one line joined by spaces.\<close>

lemma fields_aux_plain: "x \<in> set (fields_aux acc s) \<Longrightarrow> list_all (\<lambda>c. \<not> is_space c) acc \<Longrightarrow> list_all (\<lambda>c. \<not> is_space c) x"
  by (induction acc s arbitrary: x rule: fields_aux.induct) (auto split: if_splits)

lemma set_join_with: "set (join_with d xs) \<subseteq> set d \<union> (\<Union>x\<in>set xs. set x)"
  by (induction d xs rule: join_with.induct) auto

lemma newline_space: "is_space (CHR 10)" "CHR 10 \<notin> set '' ''"
  by code_simp+

lemma words_one_line: "CHR 10 \<notin> set (join_with '' '' (str_fields s))"
proof
  assume "CHR 10 \<in> set (join_with '' '' (str_fields s))"
  with set_join_with [of "'' ''" "str_fields s"] newline_space(2)
  obtain x where "x \<in> set (str_fields s)" "CHR 10 \<in> set x" by blast
  moreover from this(1) have "list_all (\<lambda>c. \<not> is_space c) x"
    unfolding str_fields_def by (rule fields_aux_plain) simp
  ultimately show False using newline_space(1) by (auto simp only: list_all_iff)
qed

lemma single_line_one: "CHR 10 \<notin> set (single_line s)"
  unfolding single_line_def Let_def by (rule words_one_line)

lemma set_redact_run: "set (redact_run r) \<subseteq> set r \<union> set redacted"
  by (simp add: redact_run_def)

lemma set_redact: "set (redact_tokens r s) \<subseteq> set r \<union> set s \<union> set redacted"
proof (induction r s rule: redact_tokens.induct)
  case (2 r c cs)
  then show ?case using set_redact_run [of r] by (cases "token_char c") auto
qed (use set_redact_run in auto)

lemma redact_plain_chars: "CHR 10 \<notin> set redacted" "CHR 10 \<notin> set ellipsis"
  by code_simp+

section \<open>The rendered document\<close>

lemma replace_all_Cons: "replace_all c t (x # s) = (if x = c then t else [x]) @ replace_all c t s"
  by (simp add: replace_all_def)

lemma replace_all_append: "replace_all c t (a @ b) = replace_all c t a @ replace_all c t b"
  by (simp add: replace_all_def)

text \<open>The three replacements escape each character on its own.\<close>

definition yaml_escape :: "char \<Rightarrow> string" where
  "yaml_escape c =
     (if c = CHR 92 then [CHR 92, CHR 92] else if c = CHR 34 then [CHR 92, CHR 34]
      else if c = CHR 10 then [CHR 92, CHR ''n''] else [c])"

lemma yaml_scalar_quoted_eq: "yaml_scalar_quoted v = CHR 34 # concat (map yaml_escape v) @ [CHR 34]"
proof -
  have "replace_all (CHR 10) [CHR 92, CHR ''n''] (replace_all (CHR 34) [CHR 92, CHR 34] (replace_all (CHR 92) [CHR 92, CHR 92] v)) =
      concat (map yaml_escape v)"
    by (induction v) (auto simp: replace_all_Cons replace_all_append yaml_escape_def, simp_all add: replace_all_def)
  then show ?thesis by (simp add: yaml_scalar_quoted_def Let_def)
qed

lemma yaml_escape_shape:
  "(yaml_escape c = [c] \<and> c \<noteq> CHR 34 \<and> c \<noteq> CHR 92) \<or> (\<exists>d. yaml_escape c = [CHR 92, d])"
  by (auto simp: yaml_escape_def)

lemma yaml_escape_inj: "yaml_escape c @ x = yaml_escape d @ y \<Longrightarrow> c = d \<and> x = y"
  by (auto simp: yaml_escape_def split: if_splits)

text \<open>A quoted value ends where its own closing quote is.\<close>

lemma yaml_escape_open: "CHR 34 # x \<noteq> yaml_escape c @ y"
  using yaml_escape_shape [of c] by auto

lemma escaped_split:
  "concat (map yaml_escape v) @ CHR 34 # x = concat (map yaml_escape w) @ CHR 34 # y \<Longrightarrow> v = w \<and> x = y"
proof (induction v arbitrary: w)
  case Nil
  then show ?case by (cases w) (simp_all add: yaml_escape_open)
next
  case (Cons c v)
  show ?case
  proof (cases w)
    case Nil
    with Cons.prems have "CHR 34 # y = yaml_escape c @ (concat (map yaml_escape v) @ CHR 34 # x)" by simp
    with yaml_escape_open show ?thesis by blast
  next
    case (Cons d w')
    with Cons.prems have "yaml_escape c @ (concat (map yaml_escape v) @ CHR 34 # x) =
        yaml_escape d @ (concat (map yaml_escape w') @ CHR 34 # y)" by simp
    from yaml_escape_inj [OF this] Cons.IH [of w'] Cons show ?thesis by simp
  qed
qed

lemma quoted_split: "yaml_scalar_quoted v @ x = yaml_scalar_quoted w @ y \<Longrightarrow> v = w \<and> x = y"
  unfolding yaml_scalar_quoted_eq by (rule escaped_split) simp

lemma key_split: "c \<notin> set a \<Longrightarrow> c \<notin> set b \<Longrightarrow> a @ c # x = b @ c # y \<Longrightarrow> a = b \<and> x = y"
proof (induction a arbitrary: b)
  case Nil
  then show ?case by (cases b) auto
next
  case (Cons d a)
  then show ?case by (cases b) auto
qed

end
