(* ===== verification/Secrets_Props.thy ===== *)
theory Secrets_Props
  imports Secrets_Facts
begin

text \<open>
  What \<^verbatim>\<open>internal/secrets/secrets.go\<close> promises: an error shows no token, a document that did
  not change renders to the same bytes and one that did to others, a file is replaced whole or not at all.
\<close>

section \<open>Errors\<close>

text \<open>
  C36: the hint an unknown failure of sops leaves in an error message is one line of at most 162 bytes
  without a run of 24 token characters, whatever sops wrote to stderr.
\<close>

theorem redact_line_safe:
  "length (redact_line stderr) \<le> 162 \<and> CHR 10 \<notin> set (redact_line stderr) \<and>
   \<not> (\<exists>a t b. redact_line stderr = a @ t @ b \<and> 24 \<le> length t \<and> list_all token_char t)"
proof -
  define s where "s = redact_tokens [] (single_line stderr)"
  define u where "u = (if 160 < length s then take 159 s @ ellipsis else s)"
  define hint where "hint = ''run `sops --decrypt <file>` manually for details''"
  have line: "redact_line stderr = (if u = [] then hint else u)"
    by (simp add: redact_line_def s_def u_def hint_def Let_def)
  have "CHR 10 \<notin> set s"
    using set_redact [of "[]" "single_line stderr"] single_line_one redact_plain_chars by (auto simp: s_def)
  then have u: "no_token u" "CHR 10 \<notin> set u" "length u \<le> 162"
    using redact_plain_chars(2) no_token_redact [of "[]" "single_line stderr"]
    by (auto simp: u_def s_def no_token_cut ellipsis_split(2) dest: in_set_takeD)
  have hint: "CHR 10 \<notin> set hint" "length hint \<le> 162" "length (takeWhile (\<lambda>c. c \<noteq> CHR 32) hint) < 24"
    unfolding hint_def by code_simp+
  have "hint = ''run `sops --decrypt'' @ CHR 32 # ''<file>` manually for details''"
    unfolding hint_def by code_simp
  moreover have "no_token ''run `sops --decrypt''" by (rule no_token_short) code_simp
  moreover have "no_token (''<file>` manually'' @ CHR 32 # ''for details'')"
    by (intro no_token_break no_token_short; code_simp)
  moreover have "''<file>` manually'' @ CHR 32 # ''for details'' = ''<file>` manually for details''" by code_simp
  moreover have "\<not> token_char (CHR 32)" by code_simp
  ultimately have "no_token hint" using no_token_break by metis
  with u hint have "length v \<le> 162 \<and> CHR 10 \<notin> set v \<and> no_token v" if "v = hint \<or> v = u" for v
    using that by blast
  moreover have "redact_line stderr = hint \<or> redact_line stderr = u" using line by presburger
  ultimately show ?thesis unfolding no_token_def by blast
qed

section \<open>Rendering\<close>

definition plain_key :: "string \<Rightarrow> bool" where
  "plain_key k \<longleftrightarrow> k \<noteq> [] \<and> hd k \<noteq> CHR ''-'' \<and> CHR '':'' \<notin> set k"

definition plain_map :: "(string \<times> string) list \<Rightarrow> bool" where
  "plain_map m \<longleftrightarrow> distinct (map fst m) \<and> list_all plain_key (map fst m)"

definition plain_doc :: "secrets_file \<Rightarrow> bool" where
  "plain_doc d \<longleftrightarrow> plain_map (sf_values d) \<and> plain_map (sf_ssh_keys d) \<and> plain_map (sf_passwords d)"

definition bindings :: "(string \<times> string) list \<Rightarrow> (string \<times> string) list" where
  "bindings m = map (\<lambda>k. (k, case map_of m k of Some v \<Rightarrow> v | None \<Rightarrow> [])) (sorted_keys m)"

definition yaml_lines :: "string \<Rightarrow> (string \<times> string) list \<Rightarrow> string" where
  "yaml_lines indent es = concat (map (\<lambda>(k, v). yaml_line indent k v) es)"

lemma yaml_block_lines: "yaml_block p m = yaml_lines p (bindings m)"
  by (simp add: yaml_block_def yaml_lines_def bindings_def comp_def)

lemma plain_bindings: "plain_map m \<Longrightarrow> list_all plain_key (map fst (bindings m))"
  by (simp add: plain_map_def bindings_def sorted_keys_def sort_strings_eq_sort list_all_iff)

lemma bindings_Nil: "bindings m = [] \<longleftrightarrow> m = []"
  by (simp add: bindings_def sorted_keys_def sort_strings_eq_sort) (metis length_0_conv length_map length_sort)

lemma map_of_bindings: "map_of (bindings m) = map_of m"
proof
  fix k
  have "k \<in> set (sorted_keys m) \<longleftrightarrow> map_of m k \<noteq> None"
    by (simp add: sorted_keys_def sort_strings_eq_sort map_of_eq_None_iff)
  then show "map_of (bindings m) k = map_of m k"
    by (cases "map_of m k") (auto simp: bindings_def map_of_map_restrict restrict_map_def)
qed

lemma sorted_keys_unique:
  assumes "map_of m1 = map_of m2" "distinct (map fst m1)" "distinct (map fst m2)"
  shows "sorted_keys m1 = sorted_keys m2"
proof -
  have "set (map fst m1) = set (map fst m2)"
    using assms(1) by (metis dom_map_of_conv_image_fst list.set_map)
  with assms(2,3) show ?thesis
    by (metis sort_strings_eq_sort sorted_keys_def sorted_list_of_set_sort_remdups distinct_remdups_id)
qed

lemma bindings_eq:
  assumes "distinct (map fst m1)" "distinct (map fst m2)"
  shows "bindings m1 = bindings m2 \<longleftrightarrow> map_of m1 = map_of m2"
  using sorted_keys_unique [OF _ assms] map_of_bindings by (metis bindings_def)

lemma line_head: "plain_key k \<Longrightarrow> yaml_line p k v @ r = p @ k @ CHR '':'' # CHR '' '' # yaml_scalar_quoted v @ CHR 10 # r"
  by (simp add: yaml_line_def yaml_scalar_safe_def plain_key_def)

text \<open>A block ends where no line has its indentation.\<close>

lemma lines_split:
  assumes "yaml_lines p e1 @ r1 = yaml_lines p e2 @ r2" "\<not> has_prefix r1 p" "\<not> has_prefix r2 p"
    "list_all plain_key (map fst e1)" "list_all plain_key (map fst e2)"
  shows "e1 = e2 \<and> r1 = r2"
  using assms(1,4,5)
proof (induction e1 arbitrary: e2)
  case Nil
  with assms(2) show ?case
    by (cases e2) (auto simp: yaml_lines_def yaml_line_def)
next
  case (Cons kv e1)
  obtain k v where kv: "kv = (k, v)" by (cases kv)
  show ?case
  proof (cases e2)
    case Nil
    with Cons.prems(1) assms(3) show ?thesis by (auto simp: kv yaml_lines_def yaml_line_def)
  next
    case (Cons kw e2')
    obtain l w where kw: "kw = (l, w)" by (cases kw)
    have "plain_key k" "plain_key l" using Cons.prems(2,3) by (simp_all add: kv kw Cons)
    moreover have "yaml_line p k v @ (yaml_lines p e1 @ r1) = yaml_line p l w @ (yaml_lines p e2' @ r2)"
      using Cons.prems(1) by (simp add: kv kw Cons yaml_lines_def)
    ultimately have "k @ CHR '':'' # CHR '' '' # yaml_scalar_quoted v @ CHR 10 # yaml_lines p e1 @ r1 =
        l @ CHR '':'' # CHR '' '' # yaml_scalar_quoted w @ CHR 10 # yaml_lines p e2' @ r2"
      by (simp add: line_head)
    from key_split [OF _ _ this] \<open>plain_key k\<close> \<open>plain_key l\<close>
    have "k = l" "yaml_scalar_quoted v @ CHR 10 # yaml_lines p e1 @ r1 = yaml_scalar_quoted w @ CHR 10 # yaml_lines p e2' @ r2"
      by (simp_all add: plain_key_def)
    with quoted_split [OF this(2)] Cons.IH [of e2'] Cons.prems(2,3) show ?thesis
      by (simp add: kv kw Cons)
  qed
qed

lemma titled_split:
  assumes "titled t p m1 @ r1 = titled t p m2 @ r2" "plain_map m1" "plain_map m2"
    "\<not> has_prefix r1 p" "\<not> has_prefix r2 p" "\<not> has_prefix r1 t" "\<not> has_prefix r2 t"
  shows "map_of m1 = map_of m2 \<and> r1 = r2"
proof (cases "m1 = [] \<or> m2 = []")
  case True
  with assms(1,6,7) show ?thesis by (auto simp: titled_def split: if_splits)
next
  case False
  with assms(1) have "yaml_lines p (bindings m1) @ r1 = yaml_lines p (bindings m2) @ r2"
    by (simp add: titled_def yaml_block_lines)
  from lines_split [OF this assms(4,5) plain_bindings plain_bindings] assms(2,3)
  show ?thesis by (metis map_of_bindings)
qed

definition cloud_text :: "secrets_file \<Rightarrow> string" where
  "cloud_text d = titled ''  ssh-keys:'' ''    '' (sf_ssh_keys d) @ titled ''  passwords:'' ''    '' (sf_passwords d)"

lemma cloud_text_split:
  assumes "plain_doc d1" "plain_doc d2" "cloud_text d1 = cloud_text d2"
  shows "map_of (sf_ssh_keys d1) = map_of (sf_ssh_keys d2) \<and> map_of (sf_passwords d1) = map_of (sf_passwords d2)"
proof -
  let ?pw = "\<lambda>d. titled ''  passwords:'' ''    '' (sf_passwords d)"
  have "\<not> has_prefix (?pw d) ''    ''" "\<not> has_prefix (?pw d) ''  ssh-keys:''" for d
    by (simp_all add: titled_def)
  then have "map_of (sf_ssh_keys d1) = map_of (sf_ssh_keys d2) \<and> ?pw d1 = ?pw d2"
    using assms by (intro titled_split [of "''  ssh-keys:''" "''    ''"]) (simp_all add: plain_doc_def cloud_text_def)
  moreover have "map_of (sf_passwords d1) = map_of (sf_passwords d2) \<and> [] = ([] :: string)" if "?pw d1 = ?pw d2"
    using assms that by (intro titled_split [of "''  passwords:''" "''    ''"]) (simp_all add: plain_doc_def)
  ultimately show ?thesis by blast
qed

lemma titled_cong:
  assumes "plain_map m1" "plain_map m2" "map_of m1 = map_of m2"
  shows "titled t p m1 = titled t p m2"
proof -
  from assms have "bindings m1 = bindings m2" by (simp add: bindings_eq plain_map_def)
  then show ?thesis by (metis bindings_Nil titled_def yaml_block_lines)
qed

lemma map_of_Nil_iff: "map_of m = map_of [] \<longleftrightarrow> m = []"
  by (cases m) (auto simp: fun_eq_iff split: if_splits)

definition cloud_block :: "secrets_file \<Rightarrow> string" where
  "cloud_block d = (if sf_ssh_keys d = [] \<and> sf_passwords d = [] then [] else ''cloud-init:'' @ [CHR 10] @ cloud_text d)"

lemma encode_parts: "encode_sops_yaml d = titled ''secrets:'' ''  '' (sf_values d) @ cloud_block d"
  by (simp add: encode_sops_yaml_def cloud_block_def cloud_text_def)

lemma cloud_block_split:
  assumes "plain_doc d1" "plain_doc d2" "cloud_block d1 = cloud_block d2"
  shows "map_of (sf_ssh_keys d1) = map_of (sf_ssh_keys d2) \<and> map_of (sf_passwords d1) = map_of (sf_passwords d2)"
  using assms(3) cloud_text_split [OF assms(1,2)]
  by (auto simp: cloud_block_def split: if_splits)

text \<open>
  C35: two documents render to the same bytes exactly when they hold the same bindings, whatever the
  order of their maps: an unchanged document is re-encrypted from the same text, and no value can pass for
  another or for a key.
\<close>

theorem encode_sops_yaml_exact:
  assumes "plain_doc d1" "plain_doc d2"
  shows "encode_sops_yaml d1 = encode_sops_yaml d2 \<longleftrightarrow>
     map_of (sf_values d1) = map_of (sf_values d2) \<and> map_of (sf_ssh_keys d1) = map_of (sf_ssh_keys d2) \<and>
     map_of (sf_passwords d1) = map_of (sf_passwords d2)" (is "_ \<longleftrightarrow> ?same")
proof
  have pre: "\<not> has_prefix (cloud_block d) ''  ''" "\<not> has_prefix (cloud_block d) ''secrets:''" for d
    by (simp_all add: cloud_block_def)
  assume "encode_sops_yaml d1 = encode_sops_yaml d2"
  then have "map_of (sf_values d1) = map_of (sf_values d2) \<and> cloud_block d1 = cloud_block d2"
    using assms pre by (intro titled_split [of "''secrets:''" "''  ''"]) (simp_all add: encode_parts plain_doc_def)
  with cloud_block_split [OF assms] show ?same by blast
next
  assume s: ?same
  with assms have "titled t p (sf_values d1) = titled t p (sf_values d2)"
    "titled t p (sf_ssh_keys d1) = titled t p (sf_ssh_keys d2)"
    "titled t p (sf_passwords d1) = titled t p (sf_passwords d2)" for t p
    by (auto simp: plain_doc_def intro: titled_cong)
  moreover from s have "sf_ssh_keys d1 = [] \<longleftrightarrow> sf_ssh_keys d2 = []" "sf_passwords d1 = [] \<longleftrightarrow> sf_passwords d2 = []"
    by (metis map_of_Nil_iff)+
  ultimately show "encode_sops_yaml d1 = encode_sops_yaml d2"
    by (simp only: encode_sops_yaml_def)
qed

definition ex_doc :: "(string \<times> string) list \<Rightarrow> secrets_file" where
  "ex_doc vals = \<lparr>sf_values = vals, sf_ssh_keys = [(''main'', ''ssh-ed25519 AAAA'')], sf_passwords = [],
                  sf_source = ''s.yaml'', sf_loaded = True\<rparr>"

lemma encode_sops_yaml_exact_witness:
  "encode_sops_yaml (ex_doc [(''user'', ''root@pam''), (''token'', ''t'')]) =
   encode_sops_yaml (ex_doc [(''token'', ''t''), (''user'', ''root@pam'')])"
proof -
  have "plain_doc (ex_doc [(''user'', ''root@pam''), (''token'', ''t'')])"
    "plain_doc (ex_doc [(''token'', ''t''), (''user'', ''root@pam'')])" by code_simp+
  from encode_sops_yaml_exact [OF this] show ?thesis by (auto simp: ex_doc_def)
qed

section \<open>Replacing the file\<close>

lemma encrypt_outcome:
  assumes "encrypt_to_file ev doc recipients dest fs = (r, fs')"
  shows "(case r of
      None \<Rightarrow> recipients \<noteq> [] \<and> fs' (tmp_path dest) = None \<and>
        (\<exists>b. ev_sops ev (encode_sops_yaml doc) (join_with '','' recipients) = Printed b \<and> fs' dest = Some b)
    | Some e \<Rightarrow> fs' dest = fs dest) \<and> (\<forall>p. p = dest \<or> p = tmp_path dest \<or> fs' p = fs p)"
proof -
  have "dest \<noteq> tmp_path dest" by (simp add: tmp_path_def)
  with assms show ?thesis
    by (auto simp: encrypt_to_file_def encrypt_sops_def atomic_write_def
      split: if_splits sum.splits sops_run.splits option.splits prod.splits write_end.splits)
qed

text \<open>
  C34: re-encryption replaces the secrets file with what sops printed for this document and these
  recipients, or leaves it as it was and reports an error; no other file but the temporary one changes.
\<close>

theorem encrypt_to_file_atomic:
  assumes "encrypt_to_file ev doc recipients dest fs = (r, fs')"
  shows "(case r of
      None \<Rightarrow> recipients \<noteq> [] \<and> fs' (tmp_path dest) = None \<and>
        (\<exists>b. ev_sops ev (encode_sops_yaml doc) (join_with '','' recipients) = Printed b \<and> fs' dest = Some b)
    | Some e \<Rightarrow> fs' dest = fs dest) \<and> (\<forall>p. p = dest \<or> p = tmp_path dest \<or> fs' p = fs p)"
  by (rule encrypt_outcome [OF assms])

definition ex_encrypt :: "write_end \<Rightarrow> encrypt_env" where
  "ex_encrypt w = \<lparr>ev_sops = \<lambda>t ages. Printed (''ENC'' @ ages), ev_write = w, ev_rename = None\<rparr>"

lemma ex_encrypt_ok:
  "encrypt_to_file (ex_encrypt Written) (ex_doc []) [''age1''] ''s'' [''s'' \<mapsto> ''old''] =
     (None, [''s'' \<mapsto> ''ENCage1''])"
  by (simp add: encrypt_to_file_def encrypt_sops_def ex_encrypt_def atomic_write_def tmp_path_def fun_eq_iff)

lemma encrypt_to_file_atomic_witness:
  "\<exists>b. ev_sops (ex_encrypt Written) (encode_sops_yaml (ex_doc [])) (join_with '','' [''age1'']) = Printed b \<and>
       [''s'' \<mapsto> ''ENCage1''] ''s'' = Some b"
  using encrypt_to_file_atomic [OF ex_encrypt_ok] by simp

text \<open>A write that fails leaves the temporary file behind.\<close>

lemma temporary_file_left:
  "snd (encrypt_to_file (ex_encrypt (WriteFailed ''EN'' ''no space left on device'')) (ex_doc []) [''age1''] ''s'' [''s'' \<mapsto> ''old''])
     ''s.proxops-tmp'' = Some ''EN''"
  by (simp add: encrypt_to_file_def encrypt_sops_def ex_encrypt_def atomic_write_def tmp_path_def)

end
