(* ===== verification/Cli_Adopt.thy ===== *)
theory Cli_Adopt
  imports App_Props Adopt_Props Secrets_Props
begin

text \<open>
  \<^verbatim>\<open>cmd/proxops/run_adopt.go\<close> and \<^verbatim>\<open>newAdoptCmd\<close> of \<^verbatim>\<open>main.go\<close>: the adopt
  command of the command line, which runs the adoption and then adds the imported keys to the
  cluster's secrets file.

  What the operator is shown of a run is its result, the \<open>adopt\<close> state, from which
  \<open>adopt_summary\<close> makes the text.
\<close>

section \<open>The secrets file\<close>

text \<open>What the merge reaches outside: the runs of sops, the recipients of the file, the file system.\<close>

record merge_env =
  me_float :: "rat \<Rightarrow> string"
  me_sops :: "string \<Rightarrow> json option sops_run"
  me_meta :: "string \<Rightarrow> string + string list"
  me_encrypt :: encrypt_env

text \<open>An imported key whose name is there already is skipped.\<close>

definition add_key :: "string \<times> string \<Rightarrow> (string \<times> string) list \<times> string list \<Rightarrow> (string \<times> string) list \<times> string list" where
  "add_key nk s = (if map_of (fst s) (fst nk) \<noteq> None then s else (put (fst nk) (snd nk) (fst s), snd s @ [fst nk]))"

definition merge_keys :: "(string \<times> string) list \<Rightarrow> (string \<times> string) list \<Rightarrow> (string \<times> string) list \<times> string list" where
  "merge_keys existing imported = fold add_key imported (existing, [])"

definition format_sops_summary :: "nat \<Rightarrow> string list \<Rightarrow> string" where
  "format_sops_summary n added =
     ''adopt: SOPS merge: imported '' @ nat_str n @ '' new cloud-init.ssh-keys entry/entries into this cluster'' @ [CHR 39] @ ''s secrets-file:'' @ [CHR 10] @
     concat (map (\<lambda>x. ''  - '' @ ssh_ref_prefix @ x @ [CHR 10]) added) @
     ''existing age recipients are preserved (no operator lockout).'' @
     [CHR 10] @ ''commit the updated secrets.sops.yaml together with the new'' @ '' ssh-key-refs manifests so the next cycle is already green.''"

definition merge_failed :: string where
  "merge_failed = ''adopt: SOPS merge failed''"

text \<open>\<^verbatim>\<open>mergeSOPSSSHKeys\<close>: the message, the error, and the files.\<close>

definition merge_sops_ssh_keys ::
    "merge_env \<Rightarrow> process_config \<Rightarrow> string \<Rightarrow> (string \<times> string) list \<Rightarrow> files \<Rightarrow> (string \<times> string option) \<times> files" where
  "merge_sops_ssh_keys me c cluster imported fs =
     (case cluster_of c cluster of
        None \<Rightarrow> ((merge_failed, Some (''cluster '' @ go_quote cluster @ '' not found in config'')), fs)
      | Some cl \<Rightarrow>
          if cl_secrets_file cl = []
          then ((merge_failed, Some (''cluster '' @ go_quote cluster @ '' has no secrets-file; cannot merge new SOPS ssh-keys'')), fs)
          else case decrypt_file (me_float me) (me_sops me) (cl_secrets_file cl) of
            Inl e \<Rightarrow> ((merge_failed, Some (''re-decrypt '' @ cl_secrets_file cl @ '' for merge: '' @ snd e)), fs)
          | Inr doc \<Rightarrow>
              (let (merged, added) = merge_keys (sf_ssh_keys doc) imported
               in if added = []
                  then ((''adopt: SOPS merge: no new ssh-keys to import (all names already in the cluster'' @ [CHR 39] @ ''s secrets-file)'', None), fs)
                  else case read_age_recipients (me_meta me) (cl_secrets_file cl) of
                    Inl e \<Rightarrow> ((merge_failed, Some (snd e)), fs)
                  | Inr rs \<Rightarrow>
                      (case encrypt_to_file (me_encrypt me) (doc\<lparr>sf_ssh_keys := merged\<rparr>) rs (cl_secrets_file cl) fs of
                         (Some e, fs) \<Rightarrow> ((merge_failed, Some (snd e)), fs)
                       | (None, fs) \<Rightarrow> ((format_sops_summary (length added) (sort_strings added), None), fs))))"

section \<open>The command\<close>

record adopt_outcome =
  oc_run :: "adopt option"
  oc_message :: "string option"
  oc_error :: "string option"
  oc_files :: files

definition adopt_fails :: "string \<Rightarrow> files \<Rightarrow> adopt_outcome" where
  "adopt_fails e fs = \<lparr>oc_run = None, oc_message = None, oc_error = Some e, oc_files = fs\<rparr>"

text \<open>The options: a cluster whose secrets were decrypted is backed by them, even without any key.\<close>

definition adopt_opts :: "process_config \<Rightarrow> string \<Rightarrow> bool \<Rightarrow> string + adopt_options" where
  "adopt_opts c cluster adopt_secrets =
     (if sx_source (sops_of c cluster) \<noteq> []
      then Inr \<lparr>ao_loaded = True, ao_keys = sx_ssh_keys (sops_of c cluster), ao_adopt_secrets = adopt_secrets\<rparr>
      else if adopt_secrets
      then Inl (''cluster '' @ go_quote cluster @ '' has no secrets-file configured; --adopt-secrets requires a SOPS-backed cluster'')
      else Inr \<lparr>ao_loaded = False, ao_keys = [], ao_adopt_secrets = False\<rparr>)"

definition run_adopt_cmd ::
    "env \<Rightarrow> ctx \<Rightarrow> (string \<Rightarrow> string option) \<Rightarrow> merge_env \<Rightarrow> 'r agent \<Rightarrow> string \<Rightarrow> bool \<Rightarrow> files \<Rightarrow> adopt_outcome \<times> client option" where
  "run_adopt_cmd env cx dk me ag cluster adopt_secrets fs =
     (case pve_client_for ag cluster of
        Inl e \<Rightarrow> (adopt_fails e fs, None)
      | Inr cl \<Rightarrow>
          (case cluster_of (ag_config ag) cluster of
             None \<Rightarrow> (adopt_fails (''cluster '' @ go_quote cluster @ '' is not in pve.clusters'') fs, Some cl)
           | Some pc \<Rightarrow>
               (case adopt_opts (ag_config ag) cluster adopt_secrets of
                  Inl e \<Rightarrow> (adopt_fails e fs, Some cl)
                | Inr opts \<Rightarrow>
                    (case run_adopt env cx dk opts cluster (cl_nodes pc) cl of
                       (Inl e, cl1) \<Rightarrow> (adopt_fails (err_text e) fs, Some cl1)
                     | (Inr st, cl1) \<Rightarrow>
                         (if adopt_secrets \<and> ad_new st \<noteq> []
                          then (let ((msg, e), fs1) = merge_sops_ssh_keys me (ag_config ag) cluster (ad_new st) fs
                                in (\<lparr>oc_run = Some st, oc_message = Some msg, oc_error = e, oc_files = fs1\<rparr>, Some cl1))
                          else (\<lparr>oc_run = Some st, oc_message = None, oc_error = None, oc_files = fs\<rparr>, Some cl1))))))"

text \<open>\<^verbatim>\<open>newAdoptCmd\<close>: the checks of the flag before the run.\<close>

definition adopt_command ::
    "env \<Rightarrow> ctx \<Rightarrow> (string \<Rightarrow> string option) \<Rightarrow> merge_env \<Rightarrow> 'r agent \<Rightarrow> string \<Rightarrow> bool \<Rightarrow> files \<Rightarrow> adopt_outcome \<times> client option" where
  "adopt_command env cx dk me ag cluster adopt_secrets fs =
     (if cluster = []
      then (adopt_fails (''adopt requires an explicit --cluster=<name>; configured clusters: ['' @ join_with '' '' (agent_clusters ag) @ '']'') fs, None)
      else if cluster_of (ag_config ag) cluster = None
      then (adopt_fails (''--cluster '' @ go_quote cluster @ '' is not in pve.clusters (known: ['' @ join_with '' '' (agent_clusters ag) @ ''])'') fs, None)
      else run_adopt_cmd env cx dk me ag cluster adopt_secrets fs)"

section \<open>The merge\<close>

lemma fold_add_key:
  "map_of (fst (fold add_key ks s)) n = (case map_of (fst s) n of Some x \<Rightarrow> Some x | None \<Rightarrow> map_of ks n)"
  by (induction ks arbitrary: s) (auto simp: add_key_def map_of_put split: option.splits)

lemma add_key_new:
  "map_of (fst s) (fst k) = None \<Longrightarrow> snd (add_key k s) = snd s @ [fst k] \<and> map_of (fst (add_key k s)) = (map_of (fst s))(fst k \<mapsto> snd k)"
  by (auto simp: add_key_def map_of_put)

lemma fold_add_key_added:
  "\<exists>xs. snd (fold add_key ks s) = snd s @ xs \<and> set xs = {n \<in> fst ` set ks. map_of (fst s) n = None} \<and> distinct xs"
proof (induction ks arbitrary: s)
  case (Cons k ks)
  show ?case
  proof (cases "map_of (fst s) (fst k) = None")
    case True
    obtain xs where xs: "snd (fold add_key ks (add_key k s)) = snd (add_key k s) @ xs" "distinct xs"
      "set xs = {n \<in> fst ` set ks. map_of (fst (add_key k s)) n = None}"
      using Cons by blast
    have "set (fst k # xs) = {n \<in> fst ` set (k # ks). map_of (fst s) n = None}"
      using xs(3) add_key_new [OF True] True by auto
    moreover have "fst k \<notin> set xs" using xs(3) add_key_new [OF True] by auto
    moreover have "snd (fold add_key (k # ks) s) = snd s @ fst k # xs"
      using xs(1) add_key_new [OF True] by simp
    ultimately show ?thesis using xs(2) by (metis distinct.simps(2))
  next
    case False
    then have "add_key k s = s" by (simp add: add_key_def)
    with False Cons [of s] show ?thesis by auto
  qed
qed simp

lemma merge_keys_lookup: "map_of (fst (merge_keys old new)) = map_of new ++ map_of old"
  by (simp add: merge_keys_def fold_add_key map_add_def fun_eq_iff)

lemma merge_keys_added:
  "set (snd (merge_keys old new)) = {n \<in> fst ` set new. map_of old n = None} \<and> distinct (snd (merge_keys old new))"
  using fold_add_key_added [of new "(old, [])"] by (auto simp: merge_keys_def)

lemma merge_keys_none: "snd (merge_keys old new) = [] \<Longrightarrow> map_of new ++ map_of old = map_of old"
proof -
  assume "snd (merge_keys old new) = []"
  with merge_keys_added [of old new] have old: "n \<in> fst ` set new \<Longrightarrow> map_of old n \<noteq> None" for n by auto
  show "map_of new ++ map_of old = map_of old"
  proof
    fix n
    show "(map_of new ++ map_of old) n = map_of old n"
    proof (cases "map_of old n")
      case None
      with old [of n] have "map_of new n = None" by (auto simp: map_of_eq_None_iff)
      with None show ?thesis by (simp add: map_add_def)
    qed (simp add: map_add_def)
  qed
qed

section \<open>Properties\<close>

text \<open>What a merge leaves: an encrypted file of the document with the new keys, or the file as it was.\<close>

definition merged_file :: "merge_env \<Rightarrow> string \<Rightarrow> (string \<times> string) list \<Rightarrow> files \<Rightarrow> files \<Rightarrow> secrets_file \<Rightarrow> secrets_file \<Rightarrow> bool" where
  "merged_file me path imported fs fs' doc doc' \<longleftrightarrow>
     sf_values doc' = sf_values doc \<and> sf_passwords doc' = sf_passwords doc \<and>
     map_of (sf_ssh_keys doc') = map_of imported ++ map_of (sf_ssh_keys doc) \<and>
     (fs' = fs \<and> doc' = doc \<or>
      (\<exists>rs b. read_age_recipients (me_meta me) path = Inr rs \<and> rs \<noteq> [] \<and>
         ev_sops (me_encrypt me) (encode_sops_yaml doc') (join_with '','' rs) = Printed b \<and> fs' path = Some b))"

lemma merge_outcome:
  assumes "merge_sops_ssh_keys me c cluster imported fs = ((msg, e), fs')" "cluster_of c cluster = Some cl"
  shows "case e of Some t \<Rightarrow> fs' (cl_secrets_file cl) = fs (cl_secrets_file cl)
    | None \<Rightarrow> \<exists>doc doc'. decrypt_file (me_float me) (me_sops me) (cl_secrets_file cl) = Inr doc \<and>
        merged_file me (cl_secrets_file cl) imported fs fs' doc doc'"
proof -
  let ?p = "cl_secrets_file cl"
  show ?thesis
  proof (cases "?p = [] \<or> isl (decrypt_file (me_float me) (me_sops me) ?p)")
    case True
    then show ?thesis using assms by (auto simp: merge_sops_ssh_keys_def split: sum.splits if_splits)
  next
    case False
    then obtain doc where doc: "decrypt_file (me_float me) (me_sops me) ?p = Inr doc" "?p \<noteq> []"
      by (cases "decrypt_file (me_float me) (me_sops me) ?p") auto
    obtain merged added where m: "merge_keys (sf_ssh_keys doc) imported = (merged, added)" by (metis surj_pair)
    have lookup: "map_of merged = map_of imported ++ map_of (sf_ssh_keys doc)"
      using merge_keys_lookup [of "sf_ssh_keys doc" imported] m by simp
    consider "added = []" | r where "added \<noteq> []" "read_age_recipients (me_meta me) ?p = Inl r"
      | rs where "added \<noteq> []" "read_age_recipients (me_meta me) ?p = Inr rs"
      by (cases "read_age_recipients (me_meta me) ?p") auto
    then show ?thesis
    proof cases
      case 1
      then have "map_of imported ++ map_of (sf_ssh_keys doc) = map_of (sf_ssh_keys doc)"
        using merge_keys_none [of "sf_ssh_keys doc" imported] m by simp
      then have "merged_file me ?p imported fs fs doc doc" by (simp add: merged_file_def)
      then show ?thesis using assms doc m 1 by (auto simp: merge_sops_ssh_keys_def)
    next
      case (2 r)
      then show ?thesis using assms doc m by (auto simp: merge_sops_ssh_keys_def)
    next
      case (3 rs)
      let ?doc' = "doc\<lparr>sf_ssh_keys := merged\<rparr>"
      obtain r fs1 where w: "encrypt_to_file (me_encrypt me) ?doc' rs ?p fs = (r, fs1)" by fastforce
      have e: "fs' = fs1" "e = map_option snd r"
        using assms doc m 3 w by (auto simp: merge_sops_ssh_keys_def split: option.splits)
      have written: "case r of
          None \<Rightarrow> rs \<noteq> [] \<and> fs1 (tmp_path ?p) = None \<and>
            (\<exists>b. ev_sops (me_encrypt me) (encode_sops_yaml ?doc') (join_with '','' rs) = Printed b \<and> fs1 ?p = Some b)
        | Some e \<Rightarrow> fs1 ?p = fs ?p"
        using encrypt_outcome [OF w] by blast
      show ?thesis
      proof (cases r)
        case None
        then have "merged_file me ?p imported fs fs' doc ?doc'" using written e 3 lookup by (auto simp: merged_file_def)
        then show ?thesis using None e doc(1) by auto
      next
        case (Some x)
        then show ?thesis using written e by simp
      qed
    qed
  qed
qed

text \<open>
  C27: the merge of imported keys keeps what operators wrote.  Without an error the new document has
  every credential, every password and every key of the old one, and an imported key only under a name that was
  free; it is encrypted to all the age recipients the file has, and to no other recipients.  With an error the file is as it was.
\<close>

theorem merge_keeps_keys:
  assumes "merge_sops_ssh_keys me c cluster imported fs = ((msg, e), fs')" "cluster_of c cluster = Some cl"
  shows "case e of Some t \<Rightarrow> fs' (cl_secrets_file cl) = fs (cl_secrets_file cl)
    | None \<Rightarrow> \<exists>doc doc'. decrypt_file (me_float me) (me_sops me) (cl_secrets_file cl) = Inr doc \<and>
        merged_file me (cl_secrets_file cl) imported fs fs' doc doc'"
  by (rule merge_outcome [OF assms])

definition ex_document :: "json" where
  "ex_document = JObj [(''secrets'', JObj [(''user'', JStr ''root@pam'')]),
     (''cloud-init'', JObj [(''ssh-keys'', JObj [(''alice'', JStr ''alice-line'')])])]"

definition ex_merge :: merge_env where
  "ex_merge = \<lparr>me_float = (\<lambda>_. []), me_sops = (\<lambda>_. Printed (Some ex_document)), me_meta = (\<lambda>_. Inr [''age1a'', ''age1b'']),
     me_encrypt = \<lparr>ev_sops = (\<lambda>t ages. Printed (ages @ t)), ev_write = Written, ev_rename = None\<rparr>\<rparr>"

definition ex_adopt_config :: process_config where
  "ex_adopt_config = (set_clusters (Some [(''c1'', no_cluster\<lparr>cl_nodes := [''n1''], cl_secrets_file := ''/s.yaml''\<rparr>)])
     (defaults plain_host))\<lparr>cf_sops := [(''c1'', no_sops\<lparr>sx_source := ''/s.yaml'',
        sx_ssh_keys := [(''alice'', ''alice-line'')]\<rparr>)]\<rparr>"

definition ex_merge_run :: "(string \<times> string option) \<times> files" where
  "ex_merge_run = merge_sops_ssh_keys ex_merge ex_adopt_config ''c1'' [(''alice'', ''other''), (''bob'', ''ssh-ed25519 BBBB'')] Map.empty"

lemma merge_keeps_keys_witness:
  "\<exists>doc doc'. decrypt_file (me_float ex_merge) (me_sops ex_merge) ''/s.yaml'' = Inr doc \<and>
     merged_file ex_merge ''/s.yaml'' [(''alice'', ''other''), (''bob'', ''ssh-ed25519 BBBB'')] Map.empty (snd ex_merge_run) doc doc'"
proof -
  have e: "snd (fst ex_merge_run) = None" by code_simp
  have c: "cluster_of ex_adopt_config ''c1'' = Some (no_cluster\<lparr>cl_nodes := [''n1''], cl_secrets_file := ''/s.yaml''\<rparr>)" by code_simp
  have m: "merge_sops_ssh_keys ex_merge ex_adopt_config ''c1'' [(''alice'', ''other''), (''bob'', ''ssh-ed25519 BBBB'')] Map.empty =
      ((fst (fst ex_merge_run), None), snd ex_merge_run)"
    using e by (metis ex_merge_run_def prod.collapse)
  have p: "cl_secrets_file (no_cluster\<lparr>cl_nodes := [''n1''], cl_secrets_file := ''/s.yaml''\<rparr>) = ''/s.yaml''" by simp
  show ?thesis using merge_keeps_keys [OF m c] by (simp only: option.case p)
qed

text \<open>Each SSH key reference of an adopted guest names a key of the document.\<close>

definition refs_known :: "adopt \<Rightarrow> secrets_file \<Rightarrow> bool" where
  "refs_known st doc \<longleftrightarrow>
     (\<forall>p v. map_of (ad_files st) p \<in> {Some (RVM v), Some (RTemplateVM v)} \<longrightarrow>
       (\<forall>r\<in>set (cd_ssh_key_refs (vs_cloud_data (vm_spec v))).
          \<exists>n x. r = ssh_ref_prefix @ n \<and> map_of (sf_ssh_keys doc) n = Some x))"

text \<open>
  C26: after an adoption that imports keys and reports no error, no reference it wrote dangles: every SSH
  key reference of every adopted guest names a key of the document that is then in the secrets file, provided
  the file still had the keys the configuration was built from.
\<close>

theorem adopted_refs_resolve:
  assumes "adopt_command env cx dk me ag cluster True fs = (oc, k)" "oc_run oc = Some st" "oc_error oc = None"
    and "cluster_of (ag_config ag) cluster = Some cl"
    and "decrypt_file (me_float me) (me_sops me) (cl_secrets_file cl) = Inr doc"
    and "fst ` set (sx_ssh_keys (sops_of (ag_config ag) cluster)) \<subseteq> fst ` set (sf_ssh_keys doc)"
  shows "\<exists>doc'. merged_file me (cl_secrets_file cl) (ad_new st) fs (oc_files oc) doc doc' \<and> refs_known st doc'"
proof -
  let ?p = "cl_secrets_file cl"
  obtain opts kc cl1 where o: "adopt_opts (ag_config ag) cluster True = Inr opts"
    "run_adopt env cx dk opts cluster (cl_nodes cl) kc = (Inr st, cl1)"
    and m: "ad_new st = [] \<and> oc_files oc = fs \<or>
      (\<exists>msg. merge_sops_ssh_keys me (ag_config ag) cluster (ad_new st) fs = ((msg, None), oc_files oc))"
    using assms(1-4)
    by (auto simp: adopt_command_def run_adopt_cmd_def adopt_fails_def split: if_splits sum.splits prod.splits)
  from o(1) have opts: "ao_keys opts = sx_ssh_keys (sops_of (ag_config ag) cluster)"
    by (auto simp: adopt_opts_def split: if_splits)
  from m obtain doc' where doc': "merged_file me ?p (ad_new st) fs (oc_files oc) doc doc'"
  proof (elim disjE exE)
    assume "ad_new st = [] \<and> oc_files oc = fs"
    then have "merged_file me ?p (ad_new st) fs (oc_files oc) doc doc" by (simp add: merged_file_def)
    then show thesis by (rule that)
  next
    fix msg
    assume "merge_sops_ssh_keys me (ag_config ag) cluster (ad_new st) fs = ((msg, None), oc_files oc)"
    from merge_outcome [OF this assms(4)] assms(5) that show thesis by auto
  qed
  have known: "\<exists>x. map_of (sf_ssh_keys doc') n = Some x"
    if "n \<in> fst ` set (ao_keys opts) \<or> n \<in> fst ` set (ad_new st)" for n
  proof -
    have "n \<in> fst ` set (sf_ssh_keys doc) \<or> n \<in> fst ` set (ad_new st)" using that assms(6) opts by auto
    moreover have "map_of (sf_ssh_keys doc') = map_of (ad_new st) ++ map_of (sf_ssh_keys doc)" using doc' by (simp add: merged_file_def)
    ultimately have "n \<in> dom (map_of (sf_ssh_keys doc'))" by (auto simp: dom_map_of_conv_image_fst)
    then show ?thesis by auto
  qed
  have "res_data_ok opts (ad_new st) d" if "map_of (ad_files st) p = Some d" for p d
    using run_tidy [OF o(2)] that unfolding tidy_def by blast
  then have "data_ok opts (ad_new st) (vs_cloud_data (vm_spec v))" if "map_of (ad_files st) p \<in> {Some (RVM v), Some (RTemplateVM v)}" for p v
    using that by (metis insertE res_data_ok.simps(1,2) singletonD)
  with doc' known show ?thesis unfolding data_ok_def refs_known_def by meson
qed

text \<open>A guest with one key line that is in the document already.\<close>

definition ex_key_server :: env where
  "ex_key_server = ex_server\<lparr>e_reply := (\<lambda>rqs. Response \<lparr>rs_status = 200, rs_body = ''body'',
     rs_json = Some (JObj [(''data'',
       [JArr [], JArr [JObj [(''vmid'', JInt 100), (''status'', JStr ''running'')]],
        JObj [(''name'', JStr ''web''), (''sshkeys'', JStr ''alice-line'')], JArr []] ! min 3 (length rqs - 1))]), rs_userid = []\<rparr>)\<rparr>"

definition ex_adopt_agent :: "art agent" where
  "ex_adopt_agent = \<lparr>ag_config = ex_adopt_config, ag_git = ag_git ex_agent, ag_store = new_store,
     ag_clusters = [\<lparr>ka_name = ''c1'', ka_client = ex_client, ka_dry = cluster_reconciler ex_adopt_config ''c1'' None,
                     ka_apply = cluster_reconciler ex_adopt_config ''c1'' None\<rparr>], ag_ready = False,
     ag_last_git = None, ag_last_pve = None, ag_now = 0\<rparr>"

definition ex_key_opts :: adopt_options where
  "ex_key_opts = \<lparr>ao_loaded = True, ao_keys = [(''alice'', ''alice-line'')], ao_adopt_secrets = True\<rparr>"

definition ex_key_run :: "(go_err + adopt) \<times> client" where
  "ex_key_run = run_adopt ex_key_server background (\<lambda>_. None) ex_key_opts ''c1'' [''n1''] ex_client"

definition key_refs :: "adopt \<Rightarrow> string list" where
  "key_refs st = (case map_of (ad_files st) ''vm/c1/web.yaml'' of Some (RVM v) \<Rightarrow> cd_ssh_key_refs (vs_cloud_data (vm_spec v)) | _ \<Rightarrow> [])"

lemma ex_key_run_refs:
  "case fst ex_key_run of Inl e \<Rightarrow> False | Inr st \<Rightarrow> ad_new st = [] \<and> key_refs st = [''cloud-init.ssh-keys.alice'']"
  by code_simp

definition ex_cluster_entry :: pve_cluster where
  "ex_cluster_entry = no_cluster\<lparr>cl_nodes := [''n1''], cl_secrets_file := ''/s.yaml''\<rparr>"

lemma ex_nodes: "cl_nodes ex_cluster_entry = [''n1'']"
  by (simp add: ex_cluster_entry_def)

lemma ex_command_run:
  assumes "fst ex_key_run = Inr st" "ad_new st = []"
  shows "adopt_command ex_key_server background (\<lambda>_. None) ex_merge ex_adopt_agent ''c1'' True fs =
    (\<lparr>oc_run = Some st, oc_message = None, oc_error = None, oc_files = fs\<rparr>, Some (snd ex_key_run))"
proof -
  have "cluster_of (ag_config ex_adopt_agent) ''c1'' = Some ex_cluster_entry" by code_simp
  moreover have "adopt_opts (ag_config ex_adopt_agent) ''c1'' True = Inr ex_key_opts" by code_simp
  moreover have "pve_client_for ex_adopt_agent ''c1'' = Inr ex_client" by (simp add: pve_client_for_def ex_adopt_agent_def)
  moreover have "run_adopt ex_key_server background (\<lambda>_. None) ex_key_opts ''c1'' (cl_nodes ex_cluster_entry) ex_client = (Inr st, snd ex_key_run)"
    using assms(1) by (metis ex_key_run_def ex_nodes prod.collapse)
  ultimately show ?thesis using assms(2) by (simp add: adopt_command_def run_adopt_cmd_def)
qed

lemma adopted_refs_resolve_witness:
  "\<exists>(doc' :: secrets_file) n x. ''cloud-init.ssh-keys.alice'' = ssh_ref_prefix @ n \<and> map_of (sf_ssh_keys doc') n = Some x"
proof -
  let ?d = "projr (decrypt_file (me_float ex_merge) (me_sops ex_merge) (cl_secrets_file ex_cluster_entry))"
  have c: "cluster_of (ag_config ex_adopt_agent) ''c1'' = Some ex_cluster_entry" by code_simp
  have "\<not> isl (decrypt_file (me_float ex_merge) (me_sops ex_merge) (cl_secrets_file ex_cluster_entry))" by code_simp
  then have d: "decrypt_file (me_float ex_merge) (me_sops ex_merge) (cl_secrets_file ex_cluster_entry) = Inr ?d" by simp
  have k: "fst ` set (sx_ssh_keys (sops_of (ag_config ex_adopt_agent) ''c1'')) \<subseteq> fst ` set (sf_ssh_keys ?d)" by code_simp
  obtain st where st: "fst ex_key_run = Inr st" "ad_new st = []" "key_refs st = [''cloud-init.ssh-keys.alice'']"
    using ex_key_run_refs by (cases "fst ex_key_run") auto
  then obtain v where v: "map_of (ad_files st) ''vm/c1/web.yaml'' = Some (RVM v)"
    "cd_ssh_key_refs (vs_cloud_data (vm_spec v)) = [''cloud-init.ssh-keys.alice'']"
    by (auto simp: key_refs_def split: option.splits res.splits)
  let ?oc = "\<lparr>oc_run = Some st, oc_message = None, oc_error = None, oc_files = Map.empty\<rparr>"
  have o: "oc_run ?oc = Some st" "oc_error ?oc = None" by simp_all
  have vm: "map_of (ad_files st) ''vm/c1/web.yaml'' \<in> {Some (RVM v), Some (RTemplateVM v)}" using v(1) by (simp only: insertI1)
  have r: "''cloud-init.ssh-keys.alice'' \<in> set (cd_ssh_key_refs (vs_cloud_data (vm_spec v)))" unfolding v(2) by (simp only: list.set insertI1)
  have "\<exists>doc'. refs_known st doc'"
    by (rule exE [OF adopted_refs_resolve [OF ex_command_run [OF st(1,2), of Map.empty] o c d k]]) (erule conjE, rule exI)
  then obtain doc' where "refs_known st doc'" ..
  from this [unfolded refs_known_def, rule_format, OF vm r] show ?thesis by (rule exI [where x = doc'])
qed

end
