(* ===== verification/Lxc_Props.thy ===== *)
theory Lxc_Props
  imports Lxc_Drift Vm_Props
begin

text \<open>What an update of a container may write into a storage slot.\<close>

section \<open>Storage keys\<close>

definition lxc_storage_key :: "string \<Rightarrow> bool" where
  "lxc_storage_key k \<longleftrightarrow> k = ''rootfs'' \<or> is_mp_slot k"

lemma not_storage_key [simp]:
  "\<not> lxc_storage_key ''cores''" "\<not> lxc_storage_key ''memory''" "\<not> lxc_storage_key ''swap''" "\<not> lxc_storage_key ''arch''"
  "\<not> lxc_storage_key ''hostname''" "\<not> lxc_storage_key ''nameserver''" "\<not> lxc_storage_key ''searchdomain''"
  "\<not> lxc_storage_key ''description''" "\<not> lxc_storage_key ''tags''" "\<not> lxc_storage_key ''protection''"
  "\<not> lxc_storage_key ''onboot''" "\<not> lxc_storage_key ''console''" "\<not> lxc_storage_key ''features''" "\<not> lxc_storage_key ''startup''"
  by (simp_all add: lxc_storage_key_def is_mp_slot_def numbered_slot_def)

lemma storage_key_not_net: "valid_net_slot k \<Longrightarrow> \<not> lxc_storage_key k"
  by (auto simp: lxc_storage_key_def is_mp_slot_def numbered_slot_def valid_net_slot_def dest!: prefix_cases)

lemma upd_at_skip: "lxc_storage_key k \<Longrightarrow> \<not> lxc_storage_key k' \<Longrightarrow> upd_at k (drift_put b s k' x st) = upd_at k st"
  by (auto simp: upd_at_put)

lemma storage_key_base: "lxc_storage_key k \<Longrightarrow> upd_at k (drift_lxc_base l c st) = upd_at k st"
  by (simp add: drift_lxc_base_def drift_mib_def drift_str_def Let_def upd_at_skip split: sum.split)

lemma storage_key_options: "lxc_storage_key k \<Longrightarrow> upd_at k (drift_lxc_options o1 c st) = upd_at k st"
  by (simp add: drift_lxc_options_def drift_lxc_bool_def drift_str_def Let_def upd_at_skip split: option.split)

lemma upd_at_fold_skip:
  "(\<And>y. y \<in> set ys \<Longrightarrow> \<not> lxc_storage_key (f y)) \<Longrightarrow> lxc_storage_key k \<Longrightarrow>
   upd_at k (fold (\<lambda>y. drift_put (b y) (s y) (f y) (g y)) ys st) = upd_at k st"
  by (induction ys arbitrary: st) (simp_all add: upd_at_skip)

lemma storage_key_nets:
  "list_all valid_net_slot (map fst (net_slots l)) \<Longrightarrow> lxc_storage_key k \<Longrightarrow> upd_at k (drift_lxc_nets l c st) = upd_at k st"
  unfolding drift_lxc_nets_def by (rule upd_at_fold_skip) (auto simp: list_all_iff storage_key_not_net)

lemma upd_at_volumes:
  "upd_at k (fold drift_volume vs st) = Some x \<Longrightarrow>
   (\<exists>y. (k, Write y) \<in> set vs \<and> x = PStr y) \<or> upd_at k st = Some x"
proof (induction vs arbitrary: st)
  case (Cons sv vs)
  obtain s w where sv: "sv = (s, w)" by (cases sv)
  from Cons.prems consider (a) y where "(k, Write y) \<in> set vs" "x = PStr y" | (b) "upd_at k (drift_volume sv st) = Some x"
    using Cons.IH [of "drift_volume sv st"] by auto
  then show ?case
  proof cases
    case a
    then show ?thesis by auto
  next
    case b
    then show ?thesis by (cases w) (auto simp: sv drift_volume_def upd_at_put split: if_splits)
  qed
qed simp

section \<open>Slots of a validated container\<close>

lemma check_lxc_nets_slots:
  "check_lxc_nets rs i seen ns = None \<Longrightarrow>
   list_all valid_net_slot (map (\<lambda>(j, n). slot_or ''net'' j (ln_slot n)) (enumerate i ns))"
proof (induction ns arbitrary: i seen)
  case (Cons n ns)
  have c: "check_lxc_net rs i seen n = None" "check_lxc_nets rs (Suc i) (slot_or ''net'' i (ln_slot n) # seen) ns = None"
    using Cons.prems by (simp_all split: option.splits)
  have "valid_net_slot (slot_or ''net'' i (ln_slot n))"
    using c(1) by (simp add: check_lxc_net_def Let_def checks_None)
  with Cons.IH [OF c(2)] show ?case by simp
qed simp

lemma lxc_validate_nets:
  assumes "lxc_validate l = None"
  shows "list_all valid_net_slot (map fst (net_slots (lxc_filled l)))"
proof -
  have "check_lxc_nets (ref_str (lxc_ref l)) 0 [] (ls_nets (lx_spec l)) = None"
    using assms by (simp add: lxc_validate_def Let_def checks_None)
  note s = check_lxc_nets_slots [OF this]
  have e: "enumerate n (map f (enumerate n xs)) = map (\<lambda>(i, x). (i, f (i, x))) (enumerate n xs)" for n :: nat and f :: "nat \<times> lxc_net \<Rightarrow> lxc_net" and xs
    by (induction xs arbitrary: n) simp_all
  have "map fst (net_slots (lxc_filled l)) = map (\<lambda>(j, n). slot_or ''net'' j (ln_slot n)) (enumerate 0 (ls_nets (lx_spec l)))"
    by (simp add: net_slots_def lxc_filled_def Let_def slot_or_def e case_prod_unfold)
  with s show ?thesis by simp
qed

section \<open>The property\<close>

text \<open>The value of a slot in create form, as the manifest declares it.\<close>

definition creates_slot :: "lxc \<Rightarrow> string \<Rightarrow> string \<Rightarrow> bool" where
  "creates_slot l k y \<longleftrightarrow>
     (k = ''rootfs'' \<and> y = lxc_lvm_alloc (ls_root_storage (lx_spec l)) (ls_root_size (lx_spec l))) \<or>
     (\<exists>m. (k, m) \<in> set (mount_slots l) \<and> y = mount_create_wire m) \<or>
     (\<exists>b. (k, b) \<in> set (bind_slots l) \<and> y = bind_create_wire b)"

text \<open>A live mount point written back: same volume, same pool, no other size.\<close>

definition keeps_mount :: "lxc \<Rightarrow> string \<Rightarrow> string \<Rightarrow> string \<Rightarrow> bool" where
  "keeps_mount l k raw y \<longleftrightarrow>
     (\<exists>m. (k, m) \<in> set (mount_slots l) \<and> \<not> is_lxc_bind_mount raw \<and>
        \<not> volume_moved (parse_disk_info raw) (parse_disk_info (mount_create_wire m)) \<and> names_volume (parse_disk_info raw) y)"

text \<open>A live bind mount written back: the host directory is the live one.\<close>

definition keeps_bind :: "lxc \<Rightarrow> string \<Rightarrow> string \<Rightarrow> string \<Rightarrow> bool" where
  "keeps_bind l k raw y \<longleftrightarrow>
     (\<exists>b host guest ro. (k, b) \<in> set (bind_slots l) \<and> y = bind_create_wire b \<and>
        bind_parse_live raw = Some (host, guest, ro) \<and> (host = [] \<or> trim_slashes host = trim_slashes (lb_host b)))"

lemma mount_rewrite_names: "names_volume (parse_disk_info raw) (mount_rewrite raw m)"
  by (auto simp: names_volume_def mount_rewrite_def Let_def hd_append mount_option_tokens_def opt_token_def
      lxc_raw_tokens_except_def split: option.split)

lemma mount_verdict_write:
  "mount_verdict k m raw = Write y \<Longrightarrow>
   (if is_new_storage_slot raw then y = mount_create_wire m
    else \<not> is_lxc_bind_mount raw \<and> \<not> volume_moved (parse_disk_info raw) (parse_disk_info (mount_create_wire m)) \<and>
      names_volume (parse_disk_info raw) y)"
  using mount_rewrite_names by (auto simp: mount_verdict_def Let_def split: if_splits)

lemma bind_verdict_write:
  "bind_verdict k b raw = Write y \<Longrightarrow>
   y = bind_create_wire b \<and> (is_new_storage_slot raw \<or>
     (\<exists>host guest ro. bind_parse_live raw = Some (host, guest, ro) \<and> (host = [] \<or> trim_slashes host = trim_slashes (lb_host b))))"
  by (auto simp: bind_verdict_def split: if_splits option.splits)

lemma rootfs_verdict_write: "rootfs_verdict k want raw = Write y \<Longrightarrow> y = want \<and> is_new_storage_slot raw"
  by (auto simp: rootfs_verdict_def Let_def split: if_splits)

lemma volume_verdict_write:
  assumes "(k, Write y) \<in> set (volume_verdicts l c)"
  shows "if is_new_storage_slot (pve_str_at c k) then creates_slot l k y
    else keeps_mount l k (pve_str_at c k) y \<or> keeps_bind l k (pve_str_at c k) y"
proof -
  consider (root) "k = ''rootfs''" "rootfs_verdict k (lxc_lvm_alloc (ls_root_storage (lx_spec l)) (ls_root_size (lx_spec l))) (pve_str_at c k) = Write y"
    | (mount) m where "(k, m) \<in> set (mount_slots l)" "mount_verdict k m (pve_str_at c k) = Write y"
    | (bind) b where "(k, b) \<in> set (bind_slots l)" "bind_verdict k b (pve_str_at c k) = Write y"
  proof -
    from assms consider (1) "(k, Write y) = (''rootfs'', rootfs_verdict ''rootfs'' (lxc_lvm_alloc (ls_root_storage (lx_spec l)) (ls_root_size (lx_spec l))) (pve_str_at c ''rootfs''))"
      | (2) sm where "sm \<in> set (mount_slots l)" "(k, Write y) = (fst sm, mount_verdict (fst sm) (snd sm) (pve_str_at c (fst sm)))"
      | (3) sb where "sb \<in> set (bind_slots l)" "(k, Write y) = (fst sb, bind_verdict (fst sb) (snd sb) (pve_str_at c (fst sb)))"
      unfolding volume_verdicts_def list.set set_append set_map insert_iff Un_iff by blast
    then show thesis
    proof cases
      case 1
      then show ?thesis using that(1) by simp
    next
      case (2 sm)
      then show ?thesis using that(2) [of "snd sm"] by simp
    next
      case (3 sb)
      then show ?thesis using that(3) [of "snd sb"] by simp
    qed
  qed
  then show ?thesis
  proof cases
    case root
    then show ?thesis using rootfs_verdict_write [OF root(2)] by (simp add: creates_slot_def)
  next
    case (mount m)
    show ?thesis using mount_verdict_write [OF mount(2)] mount(1) unfolding creates_slot_def keeps_mount_def by (auto split: if_splits)
  next
    case (bind b)
    show ?thesis using bind_verdict_write [OF bind(2)] bind(1) unfolding creates_slot_def keeps_bind_def by (auto split: if_splits)
  qed
qed

text \<open>
  C19: container data is never recreated.  Whatever the update of a validated container writes at the
  root file system or a mount point, a slot PVE has not allocated gets the declared create form; a
  live volume gets itself back, in the same pool and at the same size; a live bind mount keeps its
  host directory; and a live root file system is written only when the manifest itself gives a mount
  point or a bind mount the slot \<open>rootfs\<close>.
\<close>

theorem lxc_drift_keeps_data:
  assumes "lxc_validate l = None" "lxc_drift (lxc_filled l) current = (Some upd, stop, cfg)"
    and "lxc_storage_key k" "map_of upd k = Some x"
  shows "(\<exists>y. x = PStr y \<and>
    (if is_new_storage_slot (pve_str_at current k) then creates_slot (lxc_filled l) k y
     else keeps_mount (lxc_filled l) k (pve_str_at current k) y \<or> keeps_bind (lxc_filled l) k (pve_str_at current k) y)) \<and>
    (k = ''rootfs'' \<and> \<not> is_new_storage_slot (pve_str_at current ''rootfs'') \<longrightarrow>
       k \<in> fst ` set (mount_slots (lxc_filled l)) \<union> fst ` set (bind_slots (lxc_filled l)))"
proof -
  let ?f = "lxc_filled l"
  have "upd_at k (lxc_drift_state ?f current) = Some x"
    using assms(2,4) by (simp add: lxc_drift_def upd_at_def Let_def split: if_splits)
  then have "upd_at k (fold drift_volume (volume_verdicts ?f current) (drift_lxc_base ?f current ([], False))) = Some x"
    by (simp add: lxc_drift_state_def storage_key_options [OF assms(3)] storage_key_nets [OF lxc_validate_nets [OF assms(1)] assms(3)])
  then obtain y where "(k, Write y) \<in> set (volume_verdicts ?f current)" "x = PStr y"
    using upd_at_volumes [of k] storage_key_base [OF assms(3)] by (fastforce simp: upd_at_def)
  moreover have "k \<in> fst ` set (mount_slots ?f) \<union> fst ` set (bind_slots ?f)"
    if "keeps_mount ?f k raw y \<or> keeps_bind ?f k raw y" for raw
    using that by (force simp: keeps_mount_def keeps_bind_def)
  ultimately show ?thesis using volume_verdict_write [of k y ?f current] by (metis (full_types))
qed

definition ex_lxc :: lxc where
  "ex_lxc = new_lxc\<lparr>lx_metadata := empty_metadata\<lparr>md_name := ''dns''\<rparr>,
     lx_spec := zero_lxc_spec\<lparr>ls_node := ''pve1'', ls_vmid := 200, ls_template := ''debian-12'', ls_cores := 1,
       ls_memory := ''512MiB'', ls_root_storage := ''local-lvm'', ls_root_size := ''8GiB'', ls_mounts := [ex_mount],
       ls_nets := [zero_lxc_net\<lparr>ln_bridge := ''vmbr0''\<rparr>]\<rparr>\<rparr>"

definition ex_lxc_live :: config where
  "ex_lxc_live = Some [(''rootfs'', PStr ''local-lvm:vm-200-disk-0,size=8G''),
     (''mp0'', PStr ''local-lvm:vm-200-disk-1,mp=/data,size=1G'')]"

lemma ex_lxc_drift:
  "lxc_drift (lxc_filled ex_lxc) ex_lxc_live =
     (Some [(''cores'', PInt 1), (''memory'', PInt64 512), (''hostname'', PStr ''dns''), (''tags'', PStr ''proxops''),
        (''mp0'', PStr ''local-lvm:vm-200-disk-1,size=1G,mp=/data,acl=1''), (''net0'', PStr ''name=net0,bridge=vmbr0'')], True, True)"
  by code_simp

theorem lxc_drift_keeps_data_witness:
  "\<exists>y. PStr ''local-lvm:vm-200-disk-1,size=1G,mp=/data,acl=1'' = PStr y \<and>
    (if is_new_storage_slot (pve_str_at ex_lxc_live ''mp0'') then creates_slot (lxc_filled ex_lxc) ''mp0'' y
     else keeps_mount (lxc_filled ex_lxc) ''mp0'' (pve_str_at ex_lxc_live ''mp0'') y \<or>
       keeps_bind (lxc_filled ex_lxc) ''mp0'' (pve_str_at ex_lxc_live ''mp0'') y)"
proof (rule conjunct1 [OF lxc_drift_keeps_data [OF _ ex_lxc_drift]])
  show "lxc_validate ex_lxc = None" by code_simp
  show "lxc_storage_key ''mp0''" by code_simp
qed simp

text \<open>
  The exception is real: validation does not ask for an \<^verbatim>\<open>mpN\<close> slot, and a mount point slotted \<open>rootfs\<close>
  gives the live root file system the options and the path of the mount.
\<close>

lemma rootfs_slot_rewrites:
  "let l = ex_lxc\<lparr>lx_spec := (lx_spec ex_lxc)\<lparr>ls_mounts := [ex_mount\<lparr>lm_slot := ''rootfs'', lm_size := ''8GiB''\<rparr>]\<rparr>\<rparr>
   in lxc_validate l = None \<and>
      (case lxc_drift (lxc_filled l) ex_lxc_live of (upd, _, _) \<Rightarrow>
         map_of (the upd) ''rootfs'' = Some (PStr ''local-lvm:vm-200-disk-0,size=8G,mp=/data,acl=1''))"
  by code_simp

end
