(* ===== verification/Resolve_Props.thy ===== *)
theory Resolve_Props
  imports Resolve_Facts
begin

text \<open>The properties of reference and secret resolution.\<close>

section \<open>What a resolved resource is bound to\<close>

lemma res_by_ref_in: "res_by_ref rs k = Some r \<Longrightarrow> r \<in> set rs \<and> res_ref r = k"
  by (auto simp: res_by_ref_def dest!: map_of_SomeD)

definition artifact_bound :: "artifact \<Rightarrow> kind \<Rightarrow> string \<Rightarrow> string \<Rightarrow> bool" where
  "artifact_bound a k name node \<longleftrightarrow> artifact_ref a = mk_ref k name \<and> node \<in> set (artifact_all_nodes a)"

definition volume_id :: "artifact \<Rightarrow> string \<Rightarrow> string" where
  "volume_id a content = as_storage (ar_spec a) @ '':'' @ content @ ''/'' @ as_filename (ar_spec a)"

definition cdrom_bound :: "res list \<Rightarrow> vm \<Rightarrow> bool" where
  "cdrom_bound rs v \<longleftrightarrow> (cdrom_managed_state v = Attached \<longrightarrow>
     (\<exists>a. RArt (AISO a) \<in> set rs \<and>
        artifact_bound a KindISO (trim_space (cd_iso (hw_cdrom (vs_hardware (vm_spec v))))) (vs_node (vm_spec v)) \<and>
        vm_cdrom_volid v = volume_id a ''iso''))"

definition disk_bound :: "res list \<Rightarrow> string \<Rightarrow> disk \<Rightarrow> bool" where
  "disk_bound rs node d \<longleftrightarrow> (trim_space (dk_image d) \<noteq> [] \<longrightarrow>
     (\<exists>a. RArt (ADisk a) \<in> set rs \<and> artifact_bound a KindDiskImage (trim_space (dk_image d)) node \<and>
        dk_image_volid d = volume_id a ''import''))"

definition clone_bound :: "res list \<Rightarrow> vm \<Rightarrow> bool" where
  "clone_bound rs v \<longleftrightarrow> (is_clone_backed v \<longrightarrow>
     (\<exists>tv. RTemplateVM tv \<in> set rs \<and> vm_ref tv = mk_ref KindTemplateVM (clone_name v) \<and>
        vs_node (vm_spec v) = vs_node (vm_spec tv) \<and> vm_clone_source v = vs_vmid (vm_spec tv) \<and> 0 < vm_clone_source v))"

definition template_bound :: "res list \<Rightarrow> lxc \<Rightarrow> bool" where
  "template_bound rs l \<longleftrightarrow> (ls_template (lx_spec l) \<noteq> [] \<longrightarrow>
     (\<exists>a. RArt (ACTT a) \<in> set rs \<and> artifact_bound a KindCTTemplate (ls_template (lx_spec l)) (ls_node (lx_spec l)) \<and>
        lx_ostemplate l = volume_id a ''vztmpl''))"

definition vm_bound :: "res list \<Rightarrow> vm \<Rightarrow> bool" where
  "vm_bound rs v \<longleftrightarrow> cdrom_bound rs v \<and> list_all (disk_bound rs (vs_node (vm_spec v))) (vs_disks (vm_spec v))"

fun refs_bound :: "res list \<Rightarrow> res \<Rightarrow> bool" where
  "refs_bound rs (RArt a) = True"
| "refs_bound rs (RVM v) \<longleftrightarrow> vm_bound rs v \<and> clone_bound rs v"
| "refs_bound rs (RTemplateVM v) \<longleftrightarrow> vm_bound rs v"
| "refs_bound rs (RLXC l) \<longleftrightarrow> template_bound rs l"
| "refs_bound rs (RTemplateCT l) \<longleftrightarrow> template_bound rs l"

lemma resolve_cdrom_bound: "resolve_cdrom (res_by_ref rs) v = Inr v' \<Longrightarrow> cdrom_bound rs v' \<and> vm_spec v' = vm_spec v"
  by (auto simp: resolve_cdrom_def Let_def cdrom_bound_def cdrom_managed_state_def artifact_bound_def volume_id_def
      split: if_splits option.splits res.splits art.splits dest!: res_by_ref_in)

lemma resolve_disk_bound:
  "resolve_disk (res_by_ref rs) s node i d = Inr d' \<Longrightarrow> disk_bound rs node d'"
  by (auto simp: resolve_disk_def Let_def disk_bound_def artifact_bound_def volume_id_def
      split: if_splits option.splits res.splits art.splits dest!: res_by_ref_in)

lemma resolve_disks_bound:
  "resolve_disks (res_by_ref rs) s node i ds = Inr ds' \<Longrightarrow> list_all (disk_bound rs node) ds'"
  by (induction ds arbitrary: i ds') (auto split: sum.splits dest: resolve_disk_bound)

lemma resolve_clone_bound:
  assumes "resolve_clone (res_by_ref rs) v = Inr v'"
  shows "clone_bound rs v' \<and> vm_spec v' = vm_spec v \<and> vm_cdrom_volid v' = vm_cdrom_volid v"
proof -
  have "vs_node (vm_spec v) = vs_node (vm_spec tv)" if "vs_node (vm_spec v) \<in> set (vm_nodes tv)" for tv
    using that by (auto simp: vm_nodes_def split: if_splits)
  then show ?thesis
    using assms by (auto simp: resolve_clone_def Let_def clone_bound_def is_clone_backed_def clone_name_def
        split: if_splits option.splits res.splits dest!: res_by_ref_in)
qed

lemma resolve_template_bound: "resolve_template (res_by_ref rs) l = Inr l' \<Longrightarrow> template_bound rs l'"
  by (auto simp: resolve_template_def Let_def template_bound_def artifact_bound_def volume_id_def
      split: if_splits option.splits res.splits art.splits dest!: res_by_ref_in)

lemma resolve_vm_bound:
  assumes "resolve_cdrom (res_by_ref rs) v = Inr v1" "resolve_disk_images (res_by_ref rs) v1 = Inr v2"
  shows "vm_bound rs v2"
proof -
  obtain ds where ds: "resolve_disks (res_by_ref rs) (ref_str (vm_ref v1)) (vs_node (vm_spec v1)) 0 (vs_disks (vm_spec v1)) = Inr ds"
    and v2: "v2 = set_disks v1 ds"
    using assms(2) by (auto simp: resolve_disk_images_def split: sum.splits)
  show ?thesis
    using resolve_cdrom_bound [OF assms(1)] resolve_disks_bound [OF ds]
    by (auto simp: v2 vm_bound_def set_disks_def cdrom_bound_def cdrom_managed_state_def)
qed

lemma resolve_res_bound: "resolve_res (res_by_ref rs) r = Inr r' \<Longrightarrow> refs_bound rs r'"
proof (cases r)
  case (RVM v)
  assume "resolve_res (res_by_ref rs) r = Inr r'"
  then obtain v1 v2 v3 where s: "resolve_cdrom (res_by_ref rs) v = Inr v1" "resolve_disk_images (res_by_ref rs) v1 = Inr v2"
    "resolve_clone (res_by_ref rs) v2 = Inr v3" "r' = RVM v3"
    using RVM by auto
  show ?thesis
    using resolve_vm_bound [OF s(1,2)] resolve_clone_bound [OF s(3)]
    by (simp add: s(4) vm_bound_def cdrom_bound_def cdrom_managed_state_def)
qed (auto dest: resolve_vm_bound resolve_template_bound)

text \<open>
  C21: references are bound to what the repository declares.  After a successful resolution every
  VM's ISO and disk images and every container's template are declared artifacts placed on the
  guest's node, with the volume id made of the artifact's own storage and file name; a clone's
  source is the id a \<^verbatim>\<open>TemplateVM\<close> of that name pins on the same node.  Anything else
  has failed the resolution.
\<close>

theorem references_bound:
  assumes "resolve_artifact_refs rs = Inr rs'" "r \<in> set rs'"
  shows "refs_bound rs r"
proof -
  have "list_all2 (\<lambda>x y. resolve_res (res_by_ref rs) x = Inr y) rs rs'"
    using assms(1) by (simp add: resolve_artifact_refs_def map_result_Inr)
  then obtain x where "resolve_res (res_by_ref rs) x = Inr r"
    using assms(2) by (auto simp: list_all2_conv_all_nth in_set_conv_nth)
  then show ?thesis by (rule resolve_res_bound)
qed

definition ex_iso :: artifact where
  "ex_iso = new_iso\<lparr>ar_metadata := empty_metadata\<lparr>md_name := ''debian''\<rparr>,
     ar_spec := (ar_spec new_iso)\<lparr>as_node := ''pve1'', as_storage := ''local'', as_filename := ''debian.iso''\<rparr>\<rparr>"

definition ex_template :: vm where
  "ex_template = new_template_vm\<lparr>vm_metadata := empty_metadata\<lparr>md_name := ''base''\<rparr>,
     vm_spec := zero_vm_spec\<lparr>vs_node := ''pve1'', vs_vmid := 9000\<rparr>\<rparr>"

definition ex_guest :: vm where
  "ex_guest = new_vm\<lparr>vm_metadata := empty_metadata\<lparr>md_name := ''web''\<rparr>,
     vm_spec := zero_vm_spec\<lparr>vs_node := ''pve1'', vs_vmid := 100, vs_clone := ''base'',
       vs_hardware := zero_hardware\<lparr>hw_cdrom := \<lparr>cd_iso = ''debian'', cd_media = []\<rparr>\<rparr>\<rparr>\<rparr>"

definition ex_resolved :: vm where
  "ex_resolved = ex_guest\<lparr>vm_cdrom_volid := ''local:iso/debian.iso'', vm_clone_source := 9000\<rparr>"

definition ex_list :: "vm \<Rightarrow> res list" where
  "ex_list v = [RVM v, RArt (AISO ex_iso), RTemplateVM ex_template]"

lemma ex_resolves: "resolve_artifact_refs (ex_list ex_guest) = Inr (ex_list ex_resolved)"
  by code_simp

theorem references_bound_witness: "refs_bound (ex_list ex_guest) (RVM ex_resolved)"
  by (rule references_bound [OF ex_resolves]) (simp add: ex_list_def)

section \<open>Resolving again\<close>

definition vm_reads :: "vm \<Rightarrow> ref \<times> string \<times> vm_hardware \<times> string" where
  "vm_reads v = (vm_ref v, vs_node (vm_spec v), vs_hardware (vm_spec v), vs_clone (vm_spec v))"

definition similar :: "res_map \<Rightarrow> res_map \<Rightarrow> bool" where
  "similar m m' \<longleftrightarrow> (\<forall>k. rel_option same_res (m k) (m' k))"

lemma similar_cases:
  assumes "similar m m'" "m k = Some r"
  obtains r' where "m' k = Some r'" "same_res r r'"
  using assms by (auto simp: similar_def option_rel_Some1 dest!: spec [of _ k])

lemma same_res_inv:
  "same_res (RArt a) r \<longleftrightarrow> r = RArt a" "same_res (RTemplateVM v) r \<longleftrightarrow> (\<exists>w. r = RTemplateVM w \<and> same_vm v w)"
  by (cases r; auto)+

lemma cdrom_again:
  assumes "resolve_cdrom m v = Inr v'" "similar m m'" "vm_reads w = vm_reads v"
  shows "resolve_cdrom m' w = Inr (w\<lparr>vm_cdrom_volid := vm_cdrom_volid v'\<rparr>)"
  using assms(1,3)
  by (auto simp: resolve_cdrom_def Let_def vm_reads_def same_res_inv split: if_splits option.splits res.splits art.splits
      elim!: similar_cases [OF assms(2)])

lemma disk_again:
  assumes "resolve_disk m s node i d = Inr d'" "similar m m'"
  shows "resolve_disk m' s node i d' = Inr d'"
  using assms(1)
  by (auto simp: resolve_disk_def Let_def same_res_inv split: if_splits option.splits res.splits art.splits
      elim!: similar_cases [OF assms(2)])

lemma disks_again:
  "similar m m' \<Longrightarrow> resolve_disks m s node i ds = Inr ds' \<Longrightarrow> resolve_disks m' s node i ds' = Inr ds'"
  by (induction ds arbitrary: i ds') (auto split: sum.splits dest: disk_again)

lemma clone_again:
  assumes "resolve_clone m v = Inr v'" "similar m m'" "vm_reads w = vm_reads v"
  shows "resolve_clone m' w = Inr (w\<lparr>vm_clone_source := vm_clone_source v'\<rparr>)"
  using assms(1,3)
  by (auto simp: resolve_clone_def Let_def vm_reads_def clone_name_def same_res_inv same_vm_def vm_nodes_def
      split: if_splits option.splits res.splits elim!: similar_cases [OF assms(2)])

lemma template_again:
  assumes "resolve_template m l = Inr l'" "similar m m'"
  shows "resolve_template m' l' = Inr l'"
  using assms(1)
  by (auto simp: resolve_template_def Let_def same_res_inv lxc_ref_def split: if_splits option.splits res.splits art.splits
      elim!: similar_cases [OF assms(2)])

lemma vm_again:
  assumes "resolve_cdrom m v = Inr v1" "resolve_disk_images m v1 = Inr v2" "similar m m'"
    and "vm_reads w = vm_reads v2" "vs_disks (vm_spec w) = vs_disks (vm_spec v2)" "vm_cdrom_volid w = vm_cdrom_volid v2"
  shows "resolve_cdrom m' w = Inr w \<and> resolve_disk_images m' w = Inr w"
proof -
  obtain ds where ds: "resolve_disks m (ref_str (vm_ref v1)) (vs_node (vm_spec v1)) 0 (vs_disks (vm_spec v1)) = Inr ds"
    and v2: "v2 = set_disks v1 ds"
    using assms(2) by (auto simp: resolve_disk_images_def split: sum.splits)
  obtain c where v1: "v1 = v\<lparr>vm_cdrom_volid := c\<rparr>"
    using assms(1) by (auto simp: resolve_cdrom_def Let_def split: if_splits option.splits res.splits art.splits)
  have w: "vm_reads w = vm_reads v" "vm_cdrom_volid w = vm_cdrom_volid v1" "vs_disks (vm_spec w) = ds"
    "vm_ref w = vm_ref v1" "vs_node (vm_spec w) = vs_node (vm_spec v1)"
    using assms(4,5,6) by (simp_all add: v1 v2 set_disks_def vm_reads_def vm_ref_def)
  have "resolve_cdrom m' w = Inr w"
    using cdrom_again [OF assms(1,3) w(1)] by (simp add: w(2) [symmetric])
  moreover have "resolve_disk_images m' w = Inr w"
    using disks_again [OF assms(3) ds] by (simp add: resolve_disk_images_def w(3,4,5) set_disks_def)
  ultimately show ?thesis ..
qed

lemma res_again:
  assumes "resolve_res m r = Inr r'" "similar m m'"
  shows "resolve_res m' r' = Inr r'"
proof (cases r)
  case (RVM v)
  then obtain v1 v2 v3 where s: "resolve_cdrom m v = Inr v1" "resolve_disk_images m v1 = Inr v2" "resolve_clone m v2 = Inr v3"
    and r': "r' = RVM v3"
    using assms(1) by auto
  obtain c where v3: "v3 = v2\<lparr>vm_clone_source := c\<rparr>"
    using s(3) by (auto simp: resolve_clone_def Let_def split: if_splits option.splits res.splits)
  have "resolve_cdrom m' v3 = Inr v3 \<and> resolve_disk_images m' v3 = Inr v3"
    by (rule vm_again [OF s(1,2) assms(2)]) (simp_all add: v3 vm_reads_def vm_ref_def)
  moreover have "vm_reads v3 = vm_reads v2" by (simp add: v3 vm_reads_def vm_ref_def)
  from clone_again [OF s(3) assms(2) this] have "resolve_clone m' v3 = Inr v3" by simp
  ultimately show ?thesis by (simp add: r')
next
  case (RTemplateVM v)
  then obtain v1 v2 where s: "resolve_cdrom m v = Inr v1" "resolve_disk_images m v1 = Inr v2" and r': "r' = RTemplateVM v2"
    using assms(1) by auto
  show ?thesis using vm_again [OF s assms(2), of v2] by (simp add: r')
qed (use assms template_again in auto)

lemma similar_lists: "list_all2 same_res rs rs' \<Longrightarrow> similar (res_by_ref rs) (res_by_ref rs')"
proof -
  have m: "list_all2 same_res xs ys \<Longrightarrow>
      rel_option same_res (map_of (map (\<lambda>r. (res_ref r, r)) xs) k) (map_of (map (\<lambda>r. (res_ref r, r)) ys) k)" for xs ys k
  proof (induction rule: list_all2_induct)
    case (Cons x xs y ys)
    have "res_ref x = res_ref y" using same_res_identity [OF Cons(1)] by (simp add: same_identity_def)
    with Cons show ?case by simp
  qed simp
  assume "list_all2 same_res rs rs'"
  then have "list_all2 same_res (rev rs) (rev rs')" by simp
  from m [OF this] show ?thesis by (simp add: similar_def res_by_ref_def rev_map)
qed

text \<open>
  Resolution is idempotent: the planner, which resolves once more as a gate, gets the resources
  the parser left, unchanged.
\<close>

theorem resolve_idempotent:
  assumes "resolve_artifact_refs rs = Inr rs'"
  shows "resolve_artifact_refs rs' = Inr rs'"
proof -
  have s: "list_all2 (\<lambda>x y. resolve_res (res_by_ref rs) x = Inr y) rs rs'"
    using assms by (simp add: resolve_artifact_refs_def map_result_Inr)
  then have "list_all2 same_res rs rs'" by (rule list_all2_mono) (rule resolve_same_res)
  from similar_lists [OF this] have "resolve_res (res_by_ref rs') y = Inr y" if "resolve_res (res_by_ref rs) x = Inr y" for x y
    using that by (rule res_again [rotated])
  with s show ?thesis
    by (auto simp: resolve_artifact_refs_def map_result_Inr list_all2_conv_all_nth)
qed

theorem resolve_idempotent_witness: "resolve_artifact_refs (ex_list ex_resolved) = Inr (ex_list ex_resolved)"
  by (rule resolve_idempotent [OF ex_resolves])

section \<open>Secrets\<close>

text \<open>The entry a reference names: behind the prefix, present and not blank.\<close>

definition named_secret :: "(string \<times> string) list \<Rightarrow> string \<Rightarrow> string \<Rightarrow> string option" where
  "named_secret st prefix r = (case cut_prefix r prefix of None \<Rightarrow> None | Some name \<Rightarrow> secret_at st name)"

lemma resolve_keys_exact:
  "resolve_keys rs st i acc refs = Inr ks \<Longrightarrow>
   (\<forall>r\<in>set refs. named_secret st ssh_ref_prefix r \<noteq> None) \<and>
   set ks = set acc \<union> {x. \<exists>r\<in>set refs. named_secret st ssh_ref_prefix r = Some x}"
proof (induction refs arbitrary: i acc)
  case (Cons r refs)
  then obtain x where x: "named_secret st ssh_ref_prefix r = Some x"
    and k: "resolve_keys rs st (Suc i) (if x \<in> set acc then acc else acc @ [x]) refs = Inr ks"
    by (auto simp: named_secret_def split: option.splits)
  from Cons.IH [OF k] x show ?case by (cases "x \<in> set acc") auto
qed simp

text \<open>The secrets of a VM are the ones its manifest names.\<close>

definition secrets_bound :: "secret_stores \<Rightarrow> vm \<Rightarrow> bool" where
  "secrets_bound st v \<longleftrightarrow>
     (let cd = vs_cloud_data (vm_spec v)
      in (cd_ssh_key_refs cd \<noteq> [] \<longrightarrow>
           cd_resolved_keys cd \<noteq> [] \<and> (\<forall>r\<in>set (cd_ssh_key_refs cd). named_secret (ss_ssh_keys st) ssh_ref_prefix r \<noteq> None) \<and>
           set (ssh_keys_effective cd) = {x. \<exists>r\<in>set (cd_ssh_key_refs cd). named_secret (ss_ssh_keys st) ssh_ref_prefix r = Some x}) \<and>
         (cd_password_ref cd \<noteq> [] \<longrightarrow>
           password_effective cd \<noteq> [] \<and> named_secret (ss_passwords st) password_ref_prefix (cd_password_ref cd) = Some (password_effective cd)))"

fun res_secrets_bound :: "secret_stores \<Rightarrow> res \<Rightarrow> bool" where
  "res_secrets_bound st (RVM v) \<longleftrightarrow> secrets_bound st v"
| "res_secrets_bound st (RTemplateVM v) \<longleftrightarrow> secrets_bound st v"
| "res_secrets_bound st _ = True"

lemma secret_at_nonempty: "secret_at st n = Some x \<Longrightarrow> x \<noteq> []"
  by (auto simp: secret_at_def split: option.splits if_splits)

lemma resolve_key_refs_bound:
  assumes "resolve_key_refs s st cd = Inr cd'"
  shows "(cd_ssh_key_refs cd \<noteq> [] \<longrightarrow>
      cd_resolved_keys cd' \<noteq> [] \<and> (\<forall>r\<in>set (cd_ssh_key_refs cd). named_secret (ss_ssh_keys st) ssh_ref_prefix r \<noteq> None) \<and>
      set (cd_resolved_keys cd') = {x. \<exists>r\<in>set (cd_ssh_key_refs cd). named_secret (ss_ssh_keys st) ssh_ref_prefix r = Some x}) \<and>
    cd_ssh_key_refs cd' = cd_ssh_key_refs cd \<and> cd_password_ref cd' = cd_password_ref cd"
  using assms resolve_keys_exact [of s "ss_ssh_keys st" 0 "[]" "cd_ssh_key_refs cd"]
  by (auto simp: resolve_key_refs_def split: if_splits)

lemma resolve_password_bound:
  assumes "resolve_password_ref s st cd = Inr cd'"
  shows "(cd_password_ref cd \<noteq> [] \<longrightarrow> password_effective cd' \<noteq> [] \<and>
      named_secret (ss_passwords st) password_ref_prefix (cd_password_ref cd) = Some (password_effective cd')) \<and>
    cd_ssh_key_refs cd' = cd_ssh_key_refs cd \<and> cd_password_ref cd' = cd_password_ref cd \<and> cd_resolved_keys cd' = cd_resolved_keys cd"
  using assms secret_at_nonempty
  by (auto simp: resolve_password_ref_def Let_def password_effective_def named_secret_def split: if_splits option.splits)

lemma resolve_vm_secrets_bound: "resolve_vm_secrets st v = Inr v' \<Longrightarrow> secrets_bound st v'"
proof -
  assume "resolve_vm_secrets st v = Inr v'"
  then obtain c1 c2 where c: "resolve_key_refs (ref_str (vm_ref v)) st (vs_cloud_data (vm_spec v)) = Inr c1"
    "resolve_password_ref (ref_str (vm_ref v)) st c1 = Inr c2" "v' = set_cloud_data v c2"
    by (auto simp: resolve_vm_secrets_def)
  then have "vs_cloud_data (vm_spec v') = c2" by (simp add: set_cloud_data_def)
  with resolve_key_refs_bound [OF c(1)] resolve_password_bound [OF c(2)] show ?thesis
    by (auto simp: secrets_bound_def ssh_keys_effective_def Let_def)
qed

lemma resolve_res_secrets_bound: "resolve_res_secrets st r = Inr r' \<Longrightarrow> res_secrets_bound st r'"
  by (cases r) (auto dest: resolve_vm_secrets_bound)

text \<open>
  C20: secrets fail closed.  After a successful resolution, a VM that names SSH keys or a password
  writes exactly the named entries of the cluster's secret store, each of them present and not
  blank, and at least one key; a missing, blank or malformed name has failed the whole resolution.
\<close>

theorem secrets_fail_closed:
  assumes "resolve_cloud_init_secrets st rs = Inr rs'" "r \<in> set rs'"
  shows "res_secrets_bound st r"
proof -
  have "list_all2 (\<lambda>x y. resolve_res_secrets st x = Inr y) rs rs'"
    using assms(1) by (simp add: resolve_cloud_init_secrets_def map_result_Inr)
  then obtain x where "resolve_res_secrets st x = Inr r"
    using assms(2) by (auto simp: list_all2_conv_all_nth in_set_conv_nth)
  then show ?thesis by (rule resolve_res_secrets_bound)
qed

definition ex_store :: secret_stores where
  "ex_store = \<lparr>ss_ssh_keys = [(''ops'', ''ssh-ed25519 AAAA ops '')], ss_passwords = [(''root'', ''hunter2'')]\<rparr>"

definition ex_secret_vm :: vm where
  "ex_secret_vm = ex_guest\<lparr>vm_spec := (vm_spec ex_guest)\<lparr>vs_cloud_data := zero_cloud_data
     \<lparr>cd_ssh_key_refs := [''cloud-init.ssh-keys.ops''], cd_password_ref := ''cloud-init.passwords.root''\<rparr>\<rparr>\<rparr>"

definition ex_secret_resolved :: vm where
  "ex_secret_resolved = set_cloud_data ex_secret_vm ((vs_cloud_data (vm_spec ex_secret_vm))
     \<lparr>cd_resolved_keys := [''ssh-ed25519 AAAA ops''], cd_resolved_password := ''hunter2''\<rparr>)"

theorem secrets_fail_closed_witness: "res_secrets_bound ex_store (RVM ex_secret_resolved)"
proof (rule secrets_fail_closed)
  show "resolve_cloud_init_secrets ex_store [RVM ex_secret_vm] = Inr [RVM ex_secret_resolved]" by code_simp
qed simp

text \<open>
  Validation trims a reference before it checks the prefix, the resolver does not: a reference with a
  leading space passes the one and fails the other.
\<close>

lemma padded_reference_rejected:
  "check_ssh_refs ''vm/web'' 0 ['' cloud-init.ssh-keys.ops''] = None \<and>
   (\<exists>e. resolve_keys ''vm/web'' (ss_ssh_keys ex_store) 0 [] ['' cloud-init.ssh-keys.ops''] = Inl e)"
proof -
  have "check_ssh_refs ''vm/web'' 0 ['' cloud-init.ssh-keys.ops''] = None" by code_simp
  moreover have "isl (resolve_keys ''vm/web'' (ss_ssh_keys ex_store) 0 [] ['' cloud-init.ssh-keys.ops''])" by code_simp
  ultimately show ?thesis by (auto simp: isl_def)
qed

end
