(* ===== verification/Go_Loops.thy ===== *)
theory Go_Loops
  imports Go_Sort Quantity
begin

text \<open>
  The loops the code writes out instead of calling the standard library: \<^verbatim>\<open>sortStrings\<close> of
  \<^verbatim>\<open>parse.go\<close> and \<^verbatim>\<open>config.go\<close> (the inner loop of \<^verbatim>\<open>sortedKeys\<close> in \<^verbatim>\<open>secrets.go\<close>
  is the same), and \<^verbatim>\<open>itoa\<close> of \<^verbatim>\<open>parse.go\<close> and \<^verbatim>\<open>adopt.go\<close>, each over its array.
  The other theories use the functions these loops are proved to compute.
\<close>

section \<open>Sorting in place\<close>

text \<open>The inner loop: the element at \<open>j\<close> moves down past the larger ones.\<close>

fun sift_down :: "string list \<Rightarrow> nat \<Rightarrow> string list" where
  "sift_down s 0 = s"
| "sift_down s (Suc j) = (if s ! Suc j < s ! j then sift_down (s[Suc j := s ! j, j := s ! Suc j]) j else s)"

definition sort_in_place :: "string list \<Rightarrow> string list" where
  "sort_in_place s = fold (\<lambda>i s. sift_down s i) [1..<length s] s"

lemma length_sift_down [simp]: "length (sift_down s j) = length s"
  by (induction s j rule: sift_down.induct) auto

lemma mset_sift_down: "j < length s \<Longrightarrow> mset (sift_down s j) = mset s"
  by (induction s j rule: sift_down.induct) (auto simp: mset_swap)

lemma sift_down_above: "j < k \<Longrightarrow> sift_down s j ! k = s ! k"
  by (induction s j rule: sift_down.induct) auto

lemma drop_sift_down: "drop (Suc j) (sift_down s j) = drop (Suc j) s"
  by (rule nth_equalityI) (simp_all add: sift_down_above)

lemma mset_take_sift_down:
  assumes "Suc j \<le> length s"
  shows "mset (take (Suc j) (sift_down s j)) = mset (take (Suc j) s)"
proof -
  have "mset (sift_down s j) = mset s" by (rule mset_sift_down) (use assms in simp)
  then have "mset (take (Suc j) (sift_down s j)) + mset (drop (Suc j) (sift_down s j)) =
      mset (take (Suc j) s) + mset (drop (Suc j) s)"
    by (simp only: mset_append [symmetric] append_take_drop_id)
  then show ?thesis by (simp add: drop_sift_down)
qed

lemma sift_down_sorted:
  "j < length s \<Longrightarrow> sorted (take j s) \<Longrightarrow> sorted (take (Suc j) (sift_down s j))"
proof (induction s j rule: sift_down.induct)
  case (2 s j)
  have tk: "take (Suc j) s = take j s @ [s ! j]" using 2(2) by (simp add: take_Suc_conv_app_nth)
  show ?case
  proof (cases "s ! Suc j < s ! j")
    case True
    let ?t = "s[Suc j := s ! j, j := s ! Suc j]"
    have t: "take j ?t = take j s" "?t ! Suc j = s ! j" "Suc j < length ?t" using 2(2) by simp_all
    have "sorted (take j ?t)" using 2(3) by (simp only: t(1) tk sorted_append)
    from 2(1) [OF True _ this] 2(2) have srt: "sorted (take (Suc j) (sift_down ?t j))" by simp
    have "x \<le> s ! j" if x: "x \<in> set (take (Suc j) (sift_down ?t j))" for x
    proof -
      have "mset (take (Suc j) (sift_down ?t j)) = mset (take (Suc j) ?t)"
        by (rule mset_take_sift_down) (use 2(2) in simp)
      with x have "x \<in> set (take (Suc j) ?t)" using mset_eq_setD by blast
      moreover have "take (Suc j) ?t = take j s @ [s ! Suc j]" using 2(2) by (simp add: take_Suc_conv_app_nth)
      moreover have "\<forall>y\<in>set (take j s). y \<le> s ! j" using 2(3) by (simp add: tk sorted_append)
      ultimately show ?thesis using True by auto
    qed
    with srt have "sorted (take (Suc j) (sift_down ?t j) @ [s ! j])" by (simp add: sorted_append)
    moreover have "take (Suc (Suc j)) (sift_down ?t j) = take (Suc j) (sift_down ?t j) @ [s ! j]"
      using 2(2) t(2) take_Suc_conv_app_nth [of "Suc j" "sift_down ?t j"] by (simp add: sift_down_above)
    ultimately show ?thesis using True by simp
  next
    case False
    then have "\<forall>y\<in>set (take j s @ [s ! j]). y \<le> s ! Suc j" using 2(3) by (auto simp: tk sorted_append)
    then show ?thesis using 2(2,3) False tk take_Suc_conv_app_nth [of "Suc j" s] by (simp add: sorted_append)
  qed
next
  case (1 s)
  then show ?case by (cases s) simp_all
qed

lemma sort_in_place_upto:
  "n \<le> length s \<Longrightarrow> 1 \<le> n \<Longrightarrow>
   (let t = fold (\<lambda>i s. sift_down s i) [1..<n] s in length t = length s \<and> mset t = mset s \<and> sorted (take n t))"
proof (induction n)
  case (Suc n)
  show ?case
  proof (cases "n = 0")
    case True
    then show ?thesis using Suc.prems by (cases s) auto
  next
    case False
    let ?t = "fold (\<lambda>i s. sift_down s i) [1..<n] s"
    from Suc False have t: "length ?t = length s" "mset ?t = mset s" "sorted (take n ?t)" by (simp_all add: Let_def)
    from False have u: "[1..<Suc n] = [1..<n] @ [n]" by simp
    show ?thesis unfolding u using t sift_down_sorted [of n ?t] mset_sift_down [of n ?t] Suc.prems by (simp add: Let_def)
  qed
qed simp

theorem sort_in_place_exact: "sort_in_place s = sort_strings s"
proof (cases "s = []")
  case False
  let ?t = "sort_in_place s"
  from False have "1 \<le> length s" by (cases s) auto
  from sort_in_place_upto [OF order.refl this]
  have t: "length ?t = length s" "mset ?t = mset s" "sorted (take (length s) ?t)"
    by (simp_all only: sort_in_place_def Let_def)
  then have "sorted ?t" by simp
  with t(2) show ?thesis unfolding sort_strings_eq_sort by (metis properties_for_sort)
qed (simp add: sort_in_place_def sort_strings_def)

section \<open>Decimal digits in a buffer\<close>

text \<open>
  The digit loop of \<open>itoa\<close>, from the end of the buffer downwards; \<open>None\<close> is the panic of a write
  before its start.
\<close>

function put_digits :: "string \<Rightarrow> nat \<Rightarrow> int \<Rightarrow> (string \<times> nat) option" where
  "put_digits buf p i =
     (if 0 < i
      then (if p = 0 then None else put_digits (buf[p - 1 := digit_char (nat (i mod 10))]) (p - 1) (i div 10))
      else Some (buf, p))"
  by auto
termination
  by (relation "measure (\<lambda>(buf, p, i). nat i)") auto

declare put_digits.simps [simp del]

text \<open>The sign, and \<open>-i\<close> on 64 bits.\<close>

definition itoa_loop :: "int \<Rightarrow> string option" where
  "itoa_loop i =
     (if i = 0 then Some ''0''
      else case put_digits (replicate 20 (CHR 0x00)) 20 (if i < 0 then wrap64 (- i) else i) of
             None \<Rightarrow> None
           | Some (buf, p) \<Rightarrow>
               (if i < 0 then if p = 0 then None else Some (drop (p - 1) (buf[p - 1 := CHR ''-'']))
                else Some (drop p buf)))"

lemma put_digits_exact:
  "0 \<le> i \<Longrightarrow> length (nat_str (nat i)) \<le> p \<Longrightarrow> p \<le> length buf \<Longrightarrow> 0 < i \<Longrightarrow>
   \<exists>buf'. put_digits buf p i = Some (buf', p - length (nat_str (nat i))) \<and> length buf' = length buf \<and>
          drop (p - length (nat_str (nat i))) buf' = nat_str (nat i) @ drop p buf"
proof (induction buf p i rule: put_digits.induct)
  case (1 buf p i)
  let ?b = "buf[p - 1 := digit_char (nat (i mod 10))]"
  have p: "0 < p" using 1(3) nat_str.simps [of "nat i"] by (cases p) (auto split: if_splits)
  have d: "drop (p - 1) ?b = digit_char (nat (i mod 10)) # drop p buf"
    using p 1(4) by (cases p) (simp_all add: Cons_nth_drop_Suc [symmetric] Suc_le_eq)
  have stp: "put_digits buf p i = put_digits ?b (p - 1) (i div 10)"
    using 1(5) p by (simp add: put_digits.simps [of buf p i])
  have m: "nat i div 10 = nat (i div 10)" "nat i mod 10 = nat (i mod 10)" using 1(2) by (simp_all add: nat_div_distrib nat_mod_distrib)
  show ?case
  proof (cases "i < 10")
    case True
    then have "i div 10 = 0" "i mod 10 = i" "nat_str (nat i) = [digit_char (nat i)]"
      using 1(5) nat_str.simps [of "nat i"] by auto
    then show ?thesis using d by (simp add: stp put_digits.simps [of _ _ 0])
  next
    case False
    then have n: "nat_str (nat i) = nat_str (nat (i div 10)) @ [digit_char (nat (i mod 10))]"
      using nat_str.simps [of "nat i"] m False by (auto simp: nat_less_iff)
    have "\<exists>buf'. put_digits ?b (p - 1) (i div 10) = Some (buf', p - 1 - length (nat_str (nat (i div 10)))) \<and> length buf' = length ?b \<and>
          drop (p - 1 - length (nat_str (nat (i div 10)))) buf' = nat_str (nat (i div 10)) @ drop (p - 1) ?b"
      by (rule 1(1)) (use 1(2-5) False p n in auto)
    then show ?thesis using d by (simp add: stp n)
  qed
qed

lemma nat_str_short: "n < 10 ^ Suc k \<Longrightarrow> length (nat_str n) \<le> Suc k"
proof (induction k arbitrary: n)
  case (Suc k)
  have "n div 10 < 10 ^ Suc k" using Suc.prems by (simp add: less_mult_imp_div_less mult.commute)
  from Suc.IH [OF this] show ?case by (subst nat_str.simps) simp
qed (simp add: nat_str.simps)

theorem itoa_loop_exact:
  assumes "- (2 ^ 63) < i" "i < 2 ^ 63"
  shows "itoa_loop i = Some (itoa i)"
proof (cases "i = 0")
  case False
  let ?j = "if i < 0 then - i else i"
  have w: "(if i < 0 then wrap64 (- i) else i) = ?j" using assms by (simp add: wrap64_id)
  have "nat ?j < 10 ^ Suc 18" using assms by (auto simp: nat_less_iff)
  from nat_str_short [OF this] have l: "length (nat_str (nat ?j)) \<le> 19" by simp
  have "\<exists>b. put_digits (replicate 20 (CHR 0x00)) 20 ?j = Some (b, 20 - length (nat_str (nat ?j))) \<and>
      length b = length (replicate 20 (CHR 0x00)) \<and>
      drop (20 - length (nat_str (nat ?j))) b = nat_str (nat ?j) @ drop 20 (replicate 20 (CHR 0x00))"
    by (rule put_digits_exact) (use False l in auto)
  then obtain b where b: "put_digits (replicate 20 (CHR 0x00)) 20 ?j = Some (b, 20 - length (nat_str (nat ?j)))"
    "length b = 20" "drop (20 - length (nat_str (nat ?j))) b = nat_str (nat ?j)"
    by auto
  have r: "itoa_loop i = (if i < 0 then Some (drop (20 - length (nat_str (nat ?j)) - 1)
      (b[20 - length (nat_str (nat ?j)) - 1 := CHR ''-''])) else Some (drop (20 - length (nat_str (nat ?j))) b))"
    unfolding itoa_loop_def w b(1) using False l by (cases "i < 0") simp_all
  have "drop (p - 1) (b[p - 1 := x]) = x # drop p b" if "0 < p" "p \<le> length b" for p and x :: char
    using that by (cases p) (simp_all add: Cons_nth_drop_Suc [symmetric] Suc_le_eq)
  from this [of "20 - length (nat_str (nat ?j))"] have "drop (20 - length (nat_str (nat ?j)) - 1)
      (b[20 - length (nat_str (nat ?j)) - 1 := CHR ''-'']) = CHR ''-'' # nat_str (nat ?j)"
    using b(2,3) l by simp
  with r b(3) show ?thesis by (cases "i < 0") (simp_all add: itoa_def)
next
  case True
  have "digit_char 0 = CHR ''0''" by code_simp
  with True show ?thesis by (simp add: itoa_loop_def itoa_def nat_str.simps)
qed

text \<open>The least integer is its own negation: no digit is written.\<close>

lemma itoa_loop_least: "itoa_loop (- (2 ^ 63)) = Some ''-''"
  by code_simp

end
