(* ===== verification/Walk.thy ===== *)
theory Walk
  imports Parse Go_Loops
begin

text \<open>
  \<^verbatim>\<open>walkManifests\<close> and \<^verbatim>\<open>BuildIndex\<close> of \<^verbatim>\<open>internal/parse/parse.go\<close>: the index over a whole
  tree, which the tests and library callers use.  The agent builds its indices from compositions
  (theory \<^verbatim>\<open>Parse\<close>).

  The tree is what \<^verbatim>\<open>filepath.WalkDir\<close> sees of the file system below the root: files (with all
  that is not a directory), directories with their entries, and directories or roots that cannot be read,
  with the error \<^verbatim>\<open>walkFn\<close> is called with.
\<close>

datatype tree =
    File
  | Dir "(string \<times> tree) list"
  | Unreadable string

definition hidden_dir :: "string \<Rightarrow> bool" where
  "hidden_dir n \<longleftrightarrow> n = ''.git'' \<or> has_prefix n ''.''"

text \<open>
  The walk from an entry called \<open>n\<close>; a result is the path below that entry, as a list of names.  The
  function is called for a directory before its entries are read, so a hidden one is never read.
\<close>

fun walk :: "string \<Rightarrow> tree \<Rightarrow> string + string list list"
  and walk_entries :: "(string \<times> tree) list \<Rightarrow> string + string list list" where
  "walk n File = Inr (if is_manifest_ext (path_ext n) then [[]] else [])"
| "walk n (Dir es) = (if hidden_dir n then Inr [] else walk_entries es)"
| "walk n (Unreadable e) = (if hidden_dir n then Inr [] else Inl e)"
| "walk_entries [] = Inr []"
| "walk_entries ((n, t) # es) =
     (case walk n t of
        Inl e \<Rightarrow> Inl e
      | Inr ps \<Rightarrow> (case walk_entries es of Inl e \<Rightarrow> Inl e | Inr qs \<Rightarrow> Inr (map ((#) n) ps @ qs)))"

text \<open>\<^verbatim>\<open>filepath.Rel\<close> of an entry of the tree: the root itself is a dot.\<close>

definition rel_path :: "string list \<Rightarrow> string" where
  "rel_path ps = (if ps = [] then ''.'' else join_with ''/'' ps)"

text \<open>The root's base name, and the root itself or the error of \<^verbatim>\<open>os.Lstat\<close>.\<close>

definition walk_manifests :: "string \<Rightarrow> string + tree \<Rightarrow> string + string list" where
  "walk_manifests n tr =
     (case tr of
        Inl e \<Rightarrow> Inl e
      | Inr t \<Rightarrow> (case walk n t of Inl e \<Rightarrow> Inl e | Inr ps \<Rightarrow> Inr (sort_in_place (map rel_path ps))))"

definition build_index_of_tree ::
    "'r methods \<Rightarrow> 'r schema_ops \<Rightarrow> fs \<Rightarrow> string \<Rightarrow> string \<Rightarrow> string + tree \<Rightarrow> string + 'r index" where
  "build_index_of_tree mt so fs rdir n tr =
     (case walk_manifests n tr of Inl e \<Rightarrow> Inl e | Inr files \<Rightarrow> build_index mt so fs rdir files)"

section \<open>Which files are found\<close>

text \<open>A path of the tree to a file, through directories that are not hidden.\<close>

fun visible_file :: "tree \<Rightarrow> string list \<Rightarrow> bool" where
  "visible_file File ps = (ps = [])"
| "visible_file (Dir es) [] = False"
| "visible_file (Dir es) (p # ps) =
     (\<exists>(n, t) \<in> set es. n = p \<and> (t = File \<or> \<not> hidden_dir n) \<and> visible_file t ps)"
| "visible_file (Unreadable e) ps = False"

lemma walk_set:
  "walk n t = Inr ps \<Longrightarrow>
   set ps = (if t \<noteq> File \<and> hidden_dir n then {}
             else {qs. visible_file t qs \<and> is_manifest_ext (path_ext (last (n # qs)))})"
  "walk_entries es = Inr ps \<Longrightarrow>
   set ps = {qs. visible_file (Dir es) qs \<and> is_manifest_ext (path_ext (last qs))}"
proof (induction n t and es arbitrary: ps and ps rule: walk_walk_entries.induct)
  case (2 n es)
  have "last (n # qs) = last qs" if "visible_file (Dir es) qs" for qs using that by (cases qs) auto
  with 2 show ?case by (auto split: if_splits)
next
  case (4)
  have "\<not> visible_file (Dir []) qs" for qs by (cases qs) auto
  with 4 show ?case by simp
next
  case (5 n t es)
  from 5(3) obtain qs rs where w: "walk n t = Inr qs" "walk_entries es = Inr rs" "ps = map ((#) n) qs @ rs"
    by (auto split: sum.splits)
  have v: "visible_file (Dir ((n, t) # es)) us \<longleftrightarrow>
      (\<exists>vs. us = n # vs \<and> (t = File \<or> \<not> hidden_dir n) \<and> visible_file t vs) \<or> visible_file (Dir es) us" for us
    by (cases us) auto
  have q: "vs \<in> set qs \<longleftrightarrow> (t = File \<or> \<not> hidden_dir n) \<and> visible_file t vs \<and> is_manifest_ext (path_ext (last (n # vs)))" for vs
    unfolding 5(1) [OF w(1)] by simp
  have r: "us \<in> set rs \<longleftrightarrow> visible_file (Dir es) us \<and> is_manifest_ext (path_ext (last us))" for us
    unfolding 5(2) [OF w(1,2)] by simp
  show ?case unfolding w(3) by (rule set_eqI) (simp only: set_append set_map Un_iff image_iff mem_Collect_eq v q r Bex_def, blast)
qed (auto split: if_splits)

theorem walk_manifests_exact:
  assumes "walk_manifests n (Inr t) = Inr files" and "t = File \<or> \<not> hidden_dir n"
  shows "sorted files"
    and "set files = rel_path ` {ps. visible_file t ps \<and> is_manifest_ext (path_ext (last (n # ps)))}"
proof -
  from assms(1) obtain ps where ps: "walk n t = Inr ps" "files = sort_in_place (map rel_path ps)"
    by (auto simp: walk_manifests_def split: sum.splits)
  then show "sorted files" by (simp add: sort_in_place_exact sort_strings_sorted)
  show "set files = rel_path ` {ps. visible_file t ps \<and> is_manifest_ext (path_ext (last (n # ps)))}"
    using walk_set(1) [OF ps(1)] assms(2) unfolding ps(2) sort_in_place_exact sort_strings_eq_sort by auto
qed

text \<open>
  A root whose base name starts with a dot, the current directory among them, is skipped as a hidden
  directory: the index is empty, and no manifest below it is read.
\<close>

lemma hidden_root_is_empty: "walk_manifests ''.'' (Inr (Dir es)) = Inr []"
  by (simp add: walk_manifests_def hidden_dir_def sort_in_place_def)

end
