(* ===== verification/Adopt_Summary.thy ===== *)
theory Adopt_Summary
  imports Adopt_Props
begin

text \<open>
  \<^verbatim>\<open>Summary\<close> of \<^verbatim>\<open>internal/adopt/adopt.go\<close>: what an adoption prints.  The
  explanatory note of a gap is the argument \<open>note\<close>; the section on skipped objects is left out, since
  nothing is ever added to \<^verbatim>\<open>Skipped\<close>.
\<close>

text \<open>\<^verbatim>\<open>CloudInitSummary\<close> and \<^verbatim>\<open>collectCensus\<close>.\<close>

record census =
  ce_adopt_secrets :: bool
  ce_unique_live_keys :: nat
  ce_reused :: nat
  ce_added :: nat
  ce_resources :: nat
  ce_resources_with_refs :: nat
  ce_passwords :: nat
  ce_sops_backed :: bool

definition collect_census :: "adopt_options \<Rightarrow> adopt \<Rightarrow> census" where
  "collect_census opts st =
     \<lparr>ce_adopt_secrets = ao_adopt_secrets opts, ce_unique_live_keys = length (ad_live_keys st),
      ce_reused = length (ad_reused st), ce_added = length (ad_new st), ce_resources = ad_configured st,
      ce_resources_with_refs = ad_with_refs st, ce_passwords = ad_passwords st, ce_sops_backed = ao_loaded opts\<rparr>"

definition kind_label :: "kind \<Rightarrow> string" where
  "kind_label k =
     (if k = KindVM then ''VM'' else if k = KindLXC then ''LXC'' else if k = KindISO then ''ISO''
      else if k = KindCTTemplate then ''CTTemplate'' else k)"

definition wrote_line :: "kind \<times> string \<Rightarrow> string" where
  "wrote_line w = ''adopt: wrote '' @ snd w @ '' ('' @ kind_label (fst w) @ '')''"

definition gap_line :: "(gap \<Rightarrow> string) \<Rightarrow> gap \<Rightarrow> string" where
  "gap_line note g =
     ''adopt: gap '' @ kind_label (gp_kind g) @ '' on '' @ gp_node g @ ''#'' @ itoa (gp_id g) @ '': '' @ gp_field g @ ''='' @
     gp_value g @ '' '' @ em_dash @ '' '' @ note g"

definition incomplete_lines :: "string list \<Rightarrow> string list" where
  "incomplete_lines ls =
     (if ls = [] then []
      else ''adopt: INCOMPLETE MESSAGES (do NOT list in resources.yaml until reviewed):'' # map (\<lambda>l. ''  - '' @ l) ls @ [[]])"

definition listed_lines :: "string \<Rightarrow> string list \<Rightarrow> string list" where
  "listed_lines cluster ps =
     (if ps = [] then []
      else (''adopt: add these lines to clusters/'' @ cluster @ ''/resources.yaml:'') # ''  resources:'' #
           map (\<lambda>p. ''  - ../../'' @ p) ps)"

definition key_census_lines :: "census \<Rightarrow> string list" where
  "key_census_lines ci =
     (if ce_resources ci = 0 then []
      else (''  SSH public keys: '' @ nat_str (ce_unique_live_keys ci) @ '' unique across '' @ nat_str (ce_resources ci) @ '' resources'') #
           (if ce_adopt_secrets ci
            then [''  imported: '' @ nat_str (ce_added ci), ''  reused existing: '' @ nat_str (ce_reused ci),
                  ''  resources referencing: '' @ nat_str (ce_resources_with_refs ci)]
            else [''  SSH keys were not imported; re-run with --adopt-secrets to import recoverable keys'']) @ [[]])"

definition password_census_lines :: "census \<Rightarrow> string list" where
  "password_census_lines ci =
     (if ce_passwords ci = 0 then []
      else [''  Cloud-Init passwords: configured on '' @ nat_str (ce_passwords ci) @ '' resources'',
            ''  recoverable: 0 (PVE 9.2 returns only the masked value \"**********\" on readback; the plaintext is unrecoverable)'',
            ''  manual ci-password-ref mapping required: '' @ nat_str (ce_passwords ci)])"

definition census_lines :: "census \<Rightarrow> string list" where
  "census_lines ci =
     (if ce_resources ci = 0 \<and> ce_passwords ci = 0 then []
      else (if ce_adopt_secrets ci then ''adopt: cloud-init secrets (PVE material; values NOT printed):''
            else ''adopt: cloud-init secret census (PVE material; values NOT printed):'') #
           key_census_lines ci @ password_census_lines ci)"

definition summary_lines :: "string \<Rightarrow> (gap \<Rightarrow> string) \<Rightarrow> census \<Rightarrow> adopt \<Rightarrow> string list" where
  "summary_lines cluster note ci st =
     (''adopt: cluster '' @ cluster @ '' (read-only)'') #
     (if ad_wrote st = [] then [''adopt: no objects to adopt'']
      else map wrote_line (ad_wrote st) @ map (gap_line note) (ad_gaps st) @ incomplete_lines (ad_incomplete st) @
           listed_lines cluster (listed st) @ census_lines ci @
           (if ad_gaps st = [] then []
            else [''adopt: WARNING: generated YAML does not fully represent the live object(s); see gaps above. Review before git committing.'']))"

definition adopt_summary :: "string \<Rightarrow> (gap \<Rightarrow> string) \<Rightarrow> adopt_options \<Rightarrow> adopt \<Rightarrow> string" where
  "adopt_summary cluster note opts st =
     concat (map (\<lambda>l. l @ [CHR 10]) (summary_lines cluster note (collect_census opts st) st))"

section \<open>What the summary shows\<close>

text \<open>
  The keys of the guests and of the secrets file reach the summary only as counts: whatever replaces
  them, it prints the same.
\<close>

theorem summary_shows_counts:
  "adopt_summary cluster note (opts\<lparr>ao_keys := ks\<rparr>)
     (st\<lparr>ad_files := fs, ad_unique := us, ad_reused := map f (ad_reused st), ad_new := map g (ad_new st),
         ad_live_keys := map h (ad_live_keys st)\<rparr>) = adopt_summary cluster note opts st"
  by (simp add: adopt_summary_def summary_lines_def collect_census_def listed_def)

text \<open>
  The value of a sensitive field never stands in the line of its gap, and every file the summary tells the
  operator to list is a valid manifest.
\<close>

theorem summary_hides_sensitive:
  assumes "run_adopt env cx dk opts cluster allowed cl = (Inr st, cl1)"
    and "g \<in> set (ad_gaps st)" "gp_field g \<in> set sensitive_gap_fields"
  shows "gap_line note g = ''adopt: gap '' @ kind_label (gp_kind g) @ '' on '' @ gp_node g @ ''#'' @ itoa (gp_id g) @ '': '' @
    gp_field g @ ''=<redacted> '' @ em_dash @ '' '' @ note g"
proof -
  from run_tidy [OF assms(1)] assms(2,3) have "gp_value g = ''<redacted>''" unfolding tidy_def gap_ok_def by blast
  then show ?thesis by (simp add: gap_line_def)
qed

theorem summary_lists_valid:
  assumes "run_adopt env cx dk opts cluster allowed cl = (Inr st, cl1)"
    and "''  - ../../'' @ p \<in> set (listed_lines cluster (listed st))"
  shows "\<exists>doc. map_of (ad_files st) p = Some doc \<and> m_validate res_methods doc = None"
proof -
  from assms(2) have "p \<in> set (listed st)" by (auto simp: listed_lines_def split: if_splits)
  with assms(1) show ?thesis by (rule adopt_listed_valid)
qed

end
