(* ===== verification/Spec2Isabelle.thy ===== *)
theory Spec2Isabelle
  imports Commands App_Inv Breaker_Props Cli_Adopt Composition_Facts Vm_Clone Lxc_Props Resolve_Props Walk Adopt_Summary
begin

text \<open>
  proxops: a GitOps controller that reconciles Proxmox VE guests with YAML manifests.

  This theory imports the development.  It verifies a model of the Go program under \<^verbatim>\<open>src/\<close>, written
  function by function from its source.

  Overview of the program.  A process (\<^verbatim>\<open>cmd/proxops/main.go\<close>) reads its configuration
  (\<^verbatim>\<open>internal/config\<close>), takes the secrets of each cluster from a SOPS file (\<^verbatim>\<open>internal/secrets\<close>), opens a git
  tree (\<^verbatim>\<open>internal/gitx\<close>) and builds an agent (\<^verbatim>\<open>internal/app\<close>): per cluster one PVE client
  (\<^verbatim>\<open>internal/pveclient\<close>) and two reconcilers (\<^verbatim>\<open>internal/reconcile\<close>), one of which has no executor.  A cycle
  fetches the tree, finds the manifests of the cluster (\<^verbatim>\<open>internal/composition\<close>), parses and validates them
  into an index (\<^verbatim>\<open>internal/parse\<close>, \<^verbatim>\<open>internal/schema\<close>), reads the live cluster, plans actions
  (\<^verbatim>\<open>internal/plan\<close>), executes them (\<^verbatim>\<open>internal/exec\<close>) and records everything in a store (\<^verbatim>\<open>internal/statusx\<close>)
  that the reports and the HTTP handlers show (\<^verbatim>\<open>internal/server\<close>).  \<^verbatim>\<open>proxops adopt\<close> (\<^verbatim>\<open>internal/adopt\<close>) goes
  the other way and writes the manifests of a live cluster.

  \<^bold>\<open>How Go becomes HOL\<close>

  A struct is a record, an enumeration of strings the strings themselves.  A function that returns
  \<^verbatim>\<open>(T, error)\<close> returns \<open>error + T\<close>, the error as its text or as the datatype \<open>go_err\<close>, so that
  \<^verbatim>\<open>errors.As\<close> can be asked.  A string is its bytes.  \<^verbatim>\<open>int\<close> and \<^verbatim>\<open>int64\<close> are \<open>int\<close>; where a
  multiplication, a negation or a float conversion can leave 64 bits it is written out (\<open>wrap64\<close>,
  \<open>float_of\<close>).  A map is an association list with distinct keys; where Go ranges over a map and sorts
  afterwards, lemmas show that the order does not matter (\<open>str_sort\<close>, the locale \<open>total_weak_order\<close>).
  Nil pointers and zero times are \<open>None\<close>.  A \<^verbatim>\<open>map[string]any\<close> of PVE is \<open>params\<close>, a list of keys with
  values \<open>pval\<close>.  An interface value is its method table (\<open>'r methods\<close>).

  Effects are passed explicitly.  The PVE client is the record \<open>client\<close>, the executor's state \<open>xstate\<close>
  (client and status store), the reconciler's the same, the agent's \<open>agent\<close>.  The outside world is
  an argument: \<open>env\<close> answers every request from everything sent before, and draws the random numbers and the
  times; \<open>fs\<close> is the tree of manifests; \<open>host\<close> the machine the process starts on; \<open>git_call\<close> the answers of the
  git library; \<open>sops_run\<close> a run of the sops program; \<open>files\<close> the files a secrets file is replaced in.  The
  theorems hold for all of them.

  \<^bold>\<open>Theories\<close>

  \<^item> Standard library: \<open>Go_Prelude\<close> (strings, numbers), \<open>Go_Sort\<close> (insertion sort and the contract of a
    comparison), \<open>Go_Loops\<close> (the sort and the \<^verbatim>\<open>itoa\<close> the code writes out over arrays, equal to these),
    \<open>Go_Net\<close>, \<open>Go_Sha\<close>, \<open>Wire\<close> (printed values), \<open>Quantity\<close> and \<open>Size_Facts\<close> (sizes, \<^verbatim>\<open>quantity.go\<close> and
    \<^verbatim>\<open>pvefmt.go\<close>).
  \<^item> \<^verbatim>\<open>internal/schema\<close>: \<open>Schema_Core\<close> (kinds, references, metadata), \<open>Resource\<close> (the interface and its
    contract \<open>resource_contract\<close>), \<open>Artifacts\<close> (\<^verbatim>\<open>iso.go\<close>, \<^verbatim>\<open>ctt.go\<close>, \<^verbatim>\<open>diskimage.go\<close>), \<open>Vm_Types\<close>, \<open>Vm_Wire\<close>,
    \<open>Vm_Validate\<close>, \<open>Vm_Drift\<close> (\<^verbatim>\<open>vm.go\<close>, \<^verbatim>\<open>pci.go\<close>, \<^verbatim>\<open>cloudinit_refs.go\<close>), \<open>Lxc_Types\<close>, \<open>Lxc\<close>, \<open>Lxc_Drift\<close>
    (\<^verbatim>\<open>lxc.go\<close>), \<open>Resolve\<close> (all kinds as one type, \<^verbatim>\<open>templatevm.go\<close>, \<^verbatim>\<open>templatect.go\<close>, \<^verbatim>\<open>resolve_refs.go\<close>,
    \<^verbatim>\<open>resolve_secrets.go\<close>), \<open>Adopt_Read\<close> (\<^verbatim>\<open>adopt.go\<close>).  Their facts: \<open>Vm_Facts\<close>, \<open>Vm_Keys\<close>, \<open>Vm_Converge\<close>,
    \<open>Vm_Props\<close>, \<open>Vm_Clone\<close>, \<open>Lxc_Props\<close>, \<open>Resolve_Facts\<close>, \<open>Resolve_Props\<close>.
  \<^item> Desired state: \<open>Composition\<close>, \<open>Composition_Facts\<close> (\<^verbatim>\<open>internal/composition\<close>), \<open>Parse\<close>, \<open>Dep_Graph\<close>,
    \<open>Walk\<close>, \<open>Parse_Facts\<close>, \<open>Parse_Props\<close> (\<^verbatim>\<open>internal/parse\<close>).
  \<^item> PVE client: \<open>Pve_Errors\<close>, \<open>Pve_Breaker\<close>, \<open>Pve_Client\<close>, \<open>Pve_Request\<close> (\<^verbatim>\<open>client.go\<close>, \<^verbatim>\<open>auth.go\<close>, \<^verbatim>\<open>breaker.go\<close>,
    \<^verbatim>\<open>errors.go\<close>, \<^verbatim>\<open>upid.go\<close>), \<open>Pve_Endpoints\<close>, \<open>Pve_Task\<close>, \<open>Pve_Props\<close>, \<open>Breaker_Props\<close>.
  \<^item> Reconciling: \<open>Live\<close>, \<open>Plan\<close>, \<open>Plan_Facts\<close>, \<open>Plan_Props\<close> (\<^verbatim>\<open>internal/plan\<close>), \<open>Statusx\<close>
    (\<^verbatim>\<open>internal/statusx\<close>), \<open>Exec\<close>, \<open>Exec_Facts\<close>, \<open>Exec_Run\<close> (\<^verbatim>\<open>internal/exec\<close>), \<open>Reconcile\<close>, \<open>Reconcile_Props\<close>
    (\<^verbatim>\<open>internal/reconcile\<close>).
  \<^item> Process: \<open>Config\<close>, \<open>Config_Validate\<close>, \<open>Config_Facts\<close>, \<open>Config_Props\<close>, \<open>Load_Props\<close> (\<^verbatim>\<open>internal/config\<close>),
    \<open>Secrets\<close>, \<open>Secrets_Facts\<close>, \<open>Secrets_Props\<close> (\<^verbatim>\<open>internal/secrets\<close>), \<open>Gitx\<close> (\<^verbatim>\<open>internal/gitx\<close>), \<open>Wiring\<close>,
    \<open>App\<close>, \<open>App_Facts\<close>, \<open>App_Props\<close>, \<open>App_Inv\<close> (\<^verbatim>\<open>internal/app\<close>, \<^verbatim>\<open>internal/server\<close>), \<open>Commands\<close>
    (\<^verbatim>\<open>cmd/proxops/main.go\<close>).
  \<^item> Adoption: \<open>Adopt\<close>, \<open>Adopt_Run\<close>, \<open>Adopt_Facts\<close>, \<open>Adopt_Disks\<close>, \<open>Adopt_Keys\<close>, \<open>Adopt_Props\<close>,
    \<open>Adopt_Summary\<close> (\<^verbatim>\<open>internal/adopt\<close>), \<open>Cli_Adopt\<close> (\<^verbatim>\<open>cmd/proxops/run_adopt.go\<close>).

  \<^bold>\<open>State and operations\<close>

  \<^item> \<^verbatim>\<open>Client.Do\<close> is \<open>client_do\<close> on \<open>client\<close>: the ticket, the breaker, the retries.  \<open>c_sent\<close> lists what was
    put on the wire; \<open>sends\<close> and \<open>reads\<close> say of an operation which requests it can add.
  \<^item> \<^verbatim>\<open>PlanActions\<close> is \<open>plan_actions\<close>, \<^verbatim>\<open>LoadLive\<close> \<open>load_live\<close>; \<^verbatim>\<open>Run\<close> and \<^verbatim>\<open>Execute\<close> of the
    executor are \<open>exec_run\<close> and \<open>exec_execute\<close>; \<^verbatim>\<open>RunOneCycle\<close> is \<open>run_one_cycle\<close>.
  \<^item> \<^verbatim>\<open>BuildClusterIndex\<close> is \<open>build_cluster_index\<close>; \<open>build_index_of_tree\<close> is the walk over a whole tree.
  \<^item> \<^verbatim>\<open>Validate\<close>, \<^verbatim>\<open>ToCreateParams\<close> and \<^verbatim>\<open>Drift\<close> of a resource are \<open>m_validate\<close>, \<open>m_params\<close> and
    \<open>m_drift\<close> of its method table, with \<open>vm_validate\<close>, \<open>vm_drift\<close>, \<open>lxc_drift\<close> and so on behind them.
  \<^item> \<^verbatim>\<open>Load\<close>, \<^verbatim>\<open>LoadLocal\<close>, \<^verbatim>\<open>LoadCluster\<close> and \<^verbatim>\<open>Validate\<close> of a configuration are in \<open>Config\<close> and
    \<open>Config_Validate\<close>; \<open>pve_params_from\<close> gives a cluster its client.
  \<^item> The watch loop is a sequence of events on an agent; one tick is \<open>run_all_clusters\<close>.  \<^verbatim>\<open>RunOnce\<close>, \<^verbatim>\<open>Diff\<close>,
    \<^verbatim>\<open>ApplyOnce\<close> are operations of \<open>App\<close>, the commands that call them of \<open>Commands\<close>.
  \<^item> \<^verbatim>\<open>RunWithOptions\<close> is \<open>run_adopt\<close>, its bookkeeping the record \<open>adopt\<close>; \<^verbatim>\<open>runAdopt\<close> with the merge of keys is
    \<open>run_adopt_cmd\<close>.

  \<^bold>\<open>What the theorems show\<close>

  \<^item> Nothing is deleted or overwritten that the manifests do not own: the prune rules (\<open>Plan_Props\<close>), drive
    slots and volumes in updates (\<open>Vm_Props\<close>, \<open>Lxc_Props\<close>), clones (\<open>Vm_Clone\<close>, \<open>Exec_Run\<close>).
  \<^item> What is sent: each run, cycle, command and adoption sends only the requests of its actions; dry
    commands and adoptions only read; a cluster is served by its own endpoint alone (\<open>Exec_Run\<close>,
    \<open>Reconcile_Props\<close>, \<open>App_Props\<close>, \<open>Commands\<close>, \<open>Adopt_Props\<close>).
  \<^item> Failing closed: parsing, references, secrets, configuration, the secrets file (\<open>Parse_Props\<close>,
    \<open>Resolve_Props\<close>, \<open>Config_Props\<close>, \<open>Secrets_Props\<close>, \<open>Reconcile_Props\<close>).
  \<^item> Order and termination: dependencies before dependants, the cycle search, deferral, the levels, the wait
    for a task, the retries of a call, the walk to the repository.
  \<^item> Convergence and round trips: a created VM shows no drift, an adopted VM keeps its drives, sizes and the
    secrets document survive printing.
  \<^item> Invariants: of an index, of the agent, of the breaker (\<open>breaker_step\<close>, and \<open>tracked\<close>, which
    follows it through the exchanges of a call), of the status store, of an
    adoption (the locale \<open>adoption\<close>).

  The interfaces are the locales \<open>weak_order\<close>, \<open>total_weak_order\<close>, \<open>resource_contract\<close>, \<open>artifact_contract\<close>,
  \<open>schema_contract\<close>, \<open>placed_contract\<close>, \<open>status_store\<close>, \<open>adoption\<close> and \<open>cluster_contract\<close>, each interpreted on the definitions of
  the model that provide it.

  \<^bold>\<open>Fuel and bounds\<close>

  The depth-first search and the levels recurse over a graph and take the depth as fuel; \<open>graph_size\<close> is
  proved enough (\<open>index_of_cycle_facts\<close>, \<open>levels_of_ok\<close>).  The decimal printing of floats takes its
  digits as fuel (\<open>decimals_loop\<close>, 30 decimals; \<open>Size_Facts\<close> shows that sizes below 2 to the 53 need
  fewer).  The retries of a request are bounded by \<open>max_retries\<close> as in the code; the wait for a task
  and the walk to the repository terminate by a measure.

  \<^bold>\<open>Not modelled\<close>

  \<^item> \<^verbatim>\<open>internal/pveclient/mock\<close>: a test double of PVE; the theorems hold for every server.
  \<^item> \<^verbatim>\<open>internal/metrics\<close>, \<^verbatim>\<open>internal/logger\<close>, the HTTP listener, signals and shutdown: input and output only.
  \<^item> YAML and JSON decoding and encoding, \<^verbatim>\<open>url.Parse\<close>, TLS, redirects that \<^verbatim>\<open>http.Client\<close> follows, the git library, the sops program, the file system
    and cobra: not part of the program; arguments of the definitions that use them.
  \<^item> Mutexes: every method that holds one does so for its whole body and is one step here.  The one cycle at a
    time that \<^verbatim>\<open>app.go\<close> runs is the order of the model.
  \<^item> Case mapping and white space beyond ASCII, hexadecimal floats, infinities and NaN.
  \<^item> \<^verbatim>\<open>FileHasGitURL\<close>, the hooks for tests of \<^verbatim>\<open>secrets.go\<close>, and the readiness times of the client, which the
    program does not call; the notes of adoption gaps, an argument of the summary.
\<close>

end
